(* ===== verification/Prelude.thy ===== *)
theory Prelude
  imports Main "HOL-Library.List_Lexorder" "HOL-Library.Char_ord" "HOL-Library.Multiset"
begin

text \<open>
  Shared vocabulary of the development. It holds no model of a particular source file:
  the fact collections, results and errors, the strings of JavaScript, and the few SQL
  statements every store of the program is written with. A table is the list of its rows in
  insertion order; \<open>sql_update\<close>, \<open>sql_count\<close>, \<open>sql_find\<close> and \<open>sql_delete\<close> are the
  \<open>update ... where\<close>, the row count, the unique-row \<open>select\<close> and the \<open>delete\<close> of
  PostgreSQL on such a list.
\<close>

named_theorems table_simps \<open>facts about the SQL statements on tables\<close>
named_theorems result_simps \<open>facts about results and guards\<close>

section \<open>Results\<close>

text \<open>An operation that may throw returns \<open>Inl code\<close>, the message of the \<open>Error\<close>
  it throws, or \<open>Inr\<close> its value.\<close>

type_synonym code = string
type_synonym 'a result = "code + 'a"
type_synonym time = int

definition bind_result :: "'e + 'a \<Rightarrow> ('a \<Rightarrow> 'e + 'b) \<Rightarrow> 'e + 'b" where
  "bind_result r f = (case r of Inl e \<Rightarrow> Inl e | Inr x \<Rightarrow> f x)"

definition guard_result :: "bool \<Rightarrow> 'e \<Rightarrow> 'e + 'a \<Rightarrow> 'e + 'a" where
  "guard_result b e k = (if b then k else Inl e)"

lemma bind_result_simps [simp, result_simps]:
  "bind_result (Inl e) f = Inl e"
  "bind_result (Inr x) f = f x"
  by (simp_all add: bind_result_def)

lemma bind_result_Inr_iff [result_simps]:
  "bind_result r f = Inr y \<longleftrightarrow> (\<exists>x. r = Inr x \<and> f x = Inr y)"
  by (cases r) auto

lemma guard_result_Inr_iff [simp, result_simps]:
  "guard_result b e k = Inr y \<longleftrightarrow> b \<and> k = Inr y"
  by (simp add: guard_result_def)

lemma guard_result_True [simp]: "guard_result True e k = k"
  by (simp add: guard_result_def)

lemma guard_result_False [simp]: "guard_result False e k = Inl e"
  by (simp add: guard_result_def)

definition coalesce :: "'a option \<Rightarrow> 'a option \<Rightarrow> 'a option" where
  "coalesce a b = (case a of None \<Rightarrow> b | Some x \<Rightarrow> Some x)"

lemma coalesce_simps [simp]:
  "coalesce None b = b" "coalesce (Some x) b = Some x"
  by (simp_all add: coalesce_def)

definition or_else :: "'a option \<Rightarrow> 'a \<Rightarrow> 'a" where
  "or_else a d = (case a of None \<Rightarrow> d | Some x \<Rightarrow> x)"

lemma or_else_simps [simp]: "or_else None d = d" "or_else (Some x) d = x"
  by (simp_all add: or_else_def)

section \<open>Strings\<close>

text \<open>\<open>String.prototype.includes\<close>, \<open>startsWith\<close>, \<open>trim\<close> and \<open>split\<close> of JavaScript.\<close>

definition starts_with :: "string \<Rightarrow> string \<Rightarrow> bool" where
  "starts_with s pre \<longleftrightarrow> take (length pre) s = pre"

fun has_sub :: "string \<Rightarrow> string \<Rightarrow> bool" where
  "has_sub [] sub \<longleftrightarrow> sub = []"
| "has_sub (c # cs) sub \<longleftrightarrow> starts_with (c # cs) sub \<or> has_sub cs sub"

definition is_space :: "char \<Rightarrow> bool" where
  "is_space c \<longleftrightarrow> of_char c \<in> {9, 10, 11, 12, 13, 32, 160 :: nat}"

definition trim :: "string \<Rightarrow> string" where
  "trim s = rev (dropWhile is_space (rev (dropWhile is_space s)))"

fun split_on_acc :: "char \<Rightarrow> string \<Rightarrow> string \<Rightarrow> string list" where
  "split_on_acc d acc [] = [rev acc]"
| "split_on_acc d acc (c # cs) =
     (if c = d then rev acc # split_on_acc d [] cs else split_on_acc d (c # acc) cs)"

definition split_on :: "char \<Rightarrow> string \<Rightarrow> string list" where
  "split_on d s = split_on_acc d [] s"

text \<open>\<open>value?.trim() || undefined\<close>: a missing or blank value is \<open>undefined\<close>.\<close>

definition trim_or_undefined :: "string option \<Rightarrow> string option" where
  "trim_or_undefined v =
     (case v of None \<Rightarrow> None | Some s \<Rightarrow> if trim s = [] then None else Some (trim s))"

text \<open>Decimal text of a natural number and of an integer.\<close>

fun nat_text :: "nat \<Rightarrow> string" where
  "nat_text n = (if n < 10 then [char_of (48 + n)]
                 else nat_text (n div 10) @ [char_of (48 + n mod 10)])"

declare nat_text.simps [simp del]

definition int_text :: "int \<Rightarrow> string" where
  "int_text i = (if i < 0 then CHR ''-'' # nat_text (nat (- i)) else nat_text (nat i))"

lemma nat_text_nonempty [simp]: "nat_text n \<noteq> []"
  by (subst nat_text.simps) simp

section \<open>Tables\<close>

definition sql_update :: "('r \<Rightarrow> bool) \<Rightarrow> ('r \<Rightarrow> 'r) \<Rightarrow> 'r list \<Rightarrow> 'r list" where
  "sql_update P f t = map (\<lambda>r. if P r then f r else r) t"

definition sql_count :: "('r \<Rightarrow> bool) \<Rightarrow> 'r list \<Rightarrow> nat" where
  "sql_count P t = length (filter P t)"

definition sql_find :: "('r \<Rightarrow> bool) \<Rightarrow> 'r list \<Rightarrow> 'r option" where
  "sql_find P t = List.find P t"

definition sql_delete :: "('r \<Rightarrow> bool) \<Rightarrow> 'r list \<Rightarrow> 'r list" where
  "sql_delete P t = filter (\<lambda>r. \<not> P r) t"

definition sql_first_by :: "('r \<Rightarrow> 'k :: linorder) \<Rightarrow> ('r \<Rightarrow> bool) \<Rightarrow> 'r list \<Rightarrow> 'r option" where
  \<comment> \<open>\<open>select ... where P order by k limit 1\<close>\<close>
  "sql_first_by k P t = (case sort_key k (filter P t) of [] \<Rightarrow> None | r # _ \<Rightarrow> Some r)"

text \<open>Rows are addressed by a key that no statement changes.\<close>

definition keyed :: "('r \<Rightarrow> 'k) \<Rightarrow> 'r list \<Rightarrow> bool" where
  "keyed k t \<longleftrightarrow> distinct (map k t)"

lemma length_sql_update [table_simps, simp]: "length (sql_update P f t) = length t"
  by (simp add: sql_update_def)

lemma sql_update_Nil [simp]: "sql_update P f [] = []"
  by (simp add: sql_update_def)

lemma sql_update_Cons [simp]:
  "sql_update P f (r # t) = (if P r then f r else r) # sql_update P f t"
  by (simp add: sql_update_def)

lemma length_filter_update [table_simps]:
  assumes "\<And>r. Q (f r) = Q r"
  shows "length (filter Q (sql_update P f t)) = length (filter Q t)"
  using assms by (induction t) auto

lemma set_sql_update: "set (sql_update P f t) = (\<lambda>r. if P r then f r else r) ` set t"
  by (simp add: sql_update_def)

lemma sql_update_key [table_simps]:
  assumes "\<And>r. k (f r) = k r"
  shows "map k (sql_update P f t) = map k t"
  by (simp add: sql_update_def assms)

lemma keyed_sql_update:
  assumes "\<And>r. k (f r) = k r"
  shows "keyed k (sql_update P f t) = keyed k t"
  by (simp add: keyed_def sql_update_key assms)

lemma keyed_append [table_simps]:
  "keyed k (t @ [r]) \<longleftrightarrow> keyed k t \<and> k r \<notin> k ` set t"
  by (auto simp: keyed_def)

lemma sql_update_none [table_simps]:
  assumes "\<And>r. r \<in> set t \<Longrightarrow> \<not> P r"
  shows "sql_update P f t = t"
  using assms by (induction t) auto

lemma sql_count_0 [table_simps]: "sql_count P t = 0 \<longleftrightarrow> (\<forall>r \<in> set t. \<not> P r)"
  by (simp add: sql_count_def filter_empty_conv)

lemma sql_count_0_update: "sql_count P t = 0 \<Longrightarrow> sql_update P f t = t"
  by (rule sql_update_none) (simp add: sql_count_0)

lemma sql_find_Some:
  "sql_find P t = Some r \<Longrightarrow> r \<in> set t \<and> P r"
  by (auto simp: sql_find_def find_Some_iff)

lemma sql_find_None: "sql_find P t = None \<longleftrightarrow> (\<forall>r \<in> set t. \<not> P r)"
  by (auto simp: sql_find_def find_None_iff)

lemma sql_find_keyed:
  assumes "keyed k t" and "r \<in> set t" and "Q r"
  shows "sql_find (\<lambda>x. k x = k r \<and> Q x) t = Some r"
  using assms
proof (induction t)
  case Nil
  then show ?case by simp
next
  case (Cons x t)
  then show ?case
    by (cases "x = r") (auto simp: keyed_def sql_find_def)
qed

lemma sql_find_key:
  assumes "keyed k t" and "r \<in> set t"
  shows "sql_find (\<lambda>x. k x = k r) t = Some r"
  using sql_find_keyed [OF assms, of "\<lambda>_. True"] by simp

lemma keyed_unique:
  "keyed k t \<Longrightarrow> r \<in> set t \<Longrightarrow> s \<in> set t \<Longrightarrow> k r = k s \<Longrightarrow> r = s"
  by (auto simp: keyed_def distinct_map dest: inj_onD)

lemma sql_count_keyed_le:
  assumes "keyed k t"
  shows "sql_count (\<lambda>r. k r = i \<and> Q r) t \<le> 1"
  using assms
proof (induction t)
  case Nil
  then show ?case by (simp add: sql_count_def)
next
  case (Cons x t)
  show ?case
  proof (cases "k x = i")
    case True
    then have "filter (\<lambda>r. k r = i \<and> Q r) t = []"
      using Cons.prems by (force simp: keyed_def filter_empty_conv image_iff)
    then show ?thesis by (simp add: sql_count_def)
  next
    case False
    then show ?thesis using Cons by (simp add: sql_count_def keyed_def)
  qed
qed

lemma sql_count_keyed_1:
  assumes "keyed k t"
  shows "sql_count (\<lambda>r. k r = i \<and> Q r) t = 1 \<longleftrightarrow> (\<exists>r \<in> set t. k r = i \<and> Q r)"
proof -
  have "sql_count (\<lambda>r. k r = i \<and> Q r) t = 0 \<longleftrightarrow> \<not> (\<exists>r \<in> set t. k r = i \<and> Q r)"
    by (simp add: sql_count_0)
  then show ?thesis using sql_count_keyed_le [OF assms, of i Q] by linarith
qed

lemma sql_first_by_Some:
  assumes "sql_first_by k P t = Some r"
  shows "r \<in> set t" and "P r" and "\<And>s. s \<in> set t \<Longrightarrow> P s \<Longrightarrow> k r \<le> k s"
proof -
  obtain rs where rs: "sort_key k (filter P t) = r # rs"
    using assms unfolding sql_first_by_def by (auto split: list.splits)
  have set_eq: "set (r # rs) = set (filter P t)"
    using rs by (metis set_sort)
  then show "r \<in> set t" and "P r" by auto
  have "sorted (map k (r # rs))" using rs by (metis sorted_sort_key)
  then show "k r \<le> k s" if "s \<in> set t" and "P s" for s
    using that set_eq by auto
qed

lemma sql_first_by_None: "sql_first_by k P t = None \<longleftrightarrow> (\<forall>r \<in> set t. \<not> P r)"
proof -
  have "sql_first_by k P t = None \<longleftrightarrow> sort_key k (filter P t) = []"
    by (simp add: sql_first_by_def split: list.splits)
  also have "\<dots> \<longleftrightarrow> filter P t = []"
    by (metis length_0_conv length_sort)
  finally show ?thesis by (simp add: filter_empty_conv)
qed

section \<open>Runs of a step function\<close>

text \<open>
  The interface of a component that is driven by commands: a total step function on a state
  and an invariant every step keeps. What holds of one step holds after any sequence of
  commands from any number of callers, since each command is one transaction.
\<close>

fun run_steps :: "('s \<Rightarrow> 'c \<Rightarrow> 's) \<Rightarrow> 's \<Rightarrow> 'c list \<Rightarrow> 's" where
  "run_steps f s [] = s"
| "run_steps f s (c # cs) = run_steps f (f s c) cs"

lemma run_steps_append: "run_steps f s (xs @ ys) = run_steps f (run_steps f s xs) ys"
  by (induction xs arbitrary: s) auto

locale stepped =
  fixes step :: "'s \<Rightarrow> 'c \<Rightarrow> 's"
    and inv :: "'s \<Rightarrow> bool"
  assumes step_inv: "inv s \<Longrightarrow> inv (step s c)"
begin

lemma run_inv: "inv s \<Longrightarrow> inv (run_steps step s cs)"
  by (induction cs arbitrary: s) (auto intro: step_inv)

lemma run_mono:
  fixes f :: "'s \<Rightarrow> nat"
  assumes "\<And>s c. inv s \<Longrightarrow> f s \<le> f (step s c)" and "inv s"
  shows "f s \<le> f (run_steps step s cs)"
  using assms(2)
proof (induction cs arbitrary: s)
  case (Cons c cs)
  then have "f s \<le> f (step s c)" and "f (step s c) \<le> f (run_steps step (step s c) cs)"
    using assms(1) by (auto intro: step_inv)
  then show ?case by simp
qed simp

lemma run_stable:
  assumes "\<And>s c. inv s \<Longrightarrow> Q s \<Longrightarrow> Q (step s c)" and "inv s" and "Q s"
  shows "Q (run_steps step s cs)"
  using assms(2,3)
  by (induction cs arbitrary: s) (auto intro: step_inv assms(1))

end

end
