(* ===== verification/Json.thy ===== *)
theory Json
  imports Prelude
begin

text \<open>
  JavaScript values as the program passes them between services, the objects they are built
  of, and their canonical text: \<open>canonicalize\<close>, \<open>canonicalJson\<close> and \<open>stableDigest\<close> of
  packages/contracts/src/index.ts. The digest of a text, SHA-256, is not code of the
  repository and is a parameter \<open>sha :: string \<Rightarrow> string\<close> of every definition that uses it.

  A number is kept as the decimal \<open>m / 10 ^ s\<close> it prints as (\<open>JNum m s\<close>); numbers that print
  with an exponent are outside the model. A string is a list of code units below 256.
\<close>

section \<open>Values\<close>

datatype json =
    JUndef
  | JNull
  | JBool bool
  | JNum int nat
  | JStr string
  | JArr "json list"
  | JObj "(string \<times> json) list"

abbreviation JInt :: "int \<Rightarrow> json" where
  "JInt i \<equiv> JNum i 0"

type_synonym entries = "(string \<times> json) list"

section \<open>Objects\<close>

text \<open>
  The properties of a JavaScript object are enumerated with the array indices first, in
  ascending order, and then the other names in the order they were created. Assigning to an
  existing name keeps its place.
\<close>

fun digits_value :: "nat \<Rightarrow> string \<Rightarrow> nat" where
  "digits_value acc [] = acc"
| "digits_value acc (c # cs) = digits_value (acc * 10 + (of_char c - 48)) cs"

definition index_value :: "string \<Rightarrow> nat" where
  "index_value s = digits_value 0 s"

definition is_digit :: "char \<Rightarrow> bool" where
  "is_digit c \<longleftrightarrow> 48 \<le> (of_char c :: nat) \<and> (of_char c :: nat) \<le> 57"

definition is_array_index :: "string \<Rightarrow> bool" where
  "is_array_index s \<longleftrightarrow> s \<noteq> [] \<and> list_all is_digit s \<and> (s = ''0'' \<or> hd s \<noteq> CHR ''0'')
     \<and> index_value s < 4294967295"

definition own_order :: "(string \<times> 'v) list \<Rightarrow> (string \<times> 'v) list" where
  "own_order es = sort_key (index_value \<circ> fst) (filter (is_array_index \<circ> fst) es)
     @ filter (\<lambda>e. \<not> is_array_index (fst e)) es"

fun obj_put :: "(string \<times> 'v) list \<Rightarrow> string \<Rightarrow> 'v \<Rightarrow> (string \<times> 'v) list" where
  "obj_put [] k v = [(k, v)]"
| "obj_put ((k', v') # es) k v = (if k' = k then (k, v) # es else (k', v') # obj_put es k v)"

definition obj_from_entries :: "(string \<times> 'v) list \<Rightarrow> (string \<times> 'v) list" where
  \<comment> \<open>\<open>Object.fromEntries\<close>\<close>
  "obj_from_entries es = own_order (fold (\<lambda>(k, v) o'. obj_put o' k v) es [])"

definition obj_spread :: "(string \<times> 'v) list \<Rightarrow> (string \<times> 'v) list \<Rightarrow> (string \<times> 'v) list" where
  \<comment> \<open>\<open>{ ...a, ...b }\<close> and \<open>Object.assign(a, b)\<close>\<close>
  "obj_spread a b = own_order (fold (\<lambda>(k, v) o'. obj_put o' k v) b a)"

definition obj_get :: "entries \<Rightarrow> string \<Rightarrow> json" where
  "obj_get es k = (case map_of es k of None \<Rightarrow> JUndef | Some v \<Rightarrow> v)"

lemma set_own_order [simp]: "set (own_order es) = set es"
  by (auto simp: own_order_def)

lemma mset_own_order [simp]: "mset (own_order es) = mset es"
proof -
  have "mset (own_order es) = mset (filter (is_array_index \<circ> fst) es)
      + mset (filter (\<lambda>e. \<not> (is_array_index \<circ> fst) e) es)"
    by (simp add: own_order_def)
  then show ?thesis by (simp only: mset_filter multiset_partition [symmetric])
qed

lemma obj_put_new: "k \<notin> fst ` set es \<Longrightarrow> obj_put es k v = es @ [(k, v)]"
  by (induction es) auto

lemma fold_obj_put_distinct:
  "distinct (map fst (es @ fs)) \<Longrightarrow> fold (\<lambda>(k, v) o'. obj_put o' k v) fs es = es @ fs"
proof (induction fs arbitrary: es)
  case Nil
  then show ?case by simp
next
  case (Cons e fs)
  obtain k v where e: "e = (k, v)" by fastforce
  have "k \<notin> fst ` set es" using Cons.prems e by auto
  then have "obj_put es k v = es @ [(k, v)]" by (rule obj_put_new)
  then show ?case using Cons.IH [of "es @ [(k, v)]"] Cons.prems e by auto
qed

lemma obj_from_entries_distinct:
  "distinct (map fst es) \<Longrightarrow> obj_from_entries es = own_order es"
  using fold_obj_put_distinct [of "[]" es] by (simp add: obj_from_entries_def)

lemma map_of_obj_put: "map_of (obj_put es k v) = (map_of es)(k \<mapsto> v)"
  by (induction es) (auto simp: fun_eq_iff)

lemma keys_obj_put: "fst ` set (obj_put es k v) = insert k (fst ` set es)"
  by (induction es k v rule: obj_put.induct) (simp_all add: insert_commute)

lemma distinct_obj_put: "distinct (map fst es) \<Longrightarrow> distinct (map fst (obj_put es k v))"
  by (induction es) (auto simp: keys_obj_put image_iff)

lemma distinct_fold_obj_put:
  "distinct (map fst es) \<Longrightarrow> distinct (map fst (fold (\<lambda>(k, v) o'. obj_put o' k v) fs es))"
  by (induction fs arbitrary: es) (auto simp: distinct_obj_put)

lemma map_of_fold_obj_put:
  "map_of (fold (\<lambda>(k, v) o'. obj_put o' k v) fs es) = map_of es ++ map_of (rev fs)"
  by (induction fs arbitrary: es) (auto simp: map_of_obj_put map_add_def fun_eq_iff split: option.splits)

lemma distinct_fst_own_order:
  "distinct (map fst es) \<Longrightarrow> distinct (map fst (own_order es))"
  by (metis mset_map mset_own_order mset_eq_imp_distinct_iff)

lemma map_of_own_order: "distinct (map fst es) \<Longrightarrow> map_of (own_order es) = map_of es"
  by (rule map_of_inject_set [THEN iffD2]) (simp_all add: distinct_fst_own_order)

lemma map_of_obj_spread:
  "distinct (map fst a) \<Longrightarrow> map_of (obj_spread a b) = map_of a ++ map_of (rev b)"
  by (simp add: obj_spread_def map_of_own_order distinct_fold_obj_put map_of_fold_obj_put)

section \<open>Canonical text\<close>

text \<open>\<open>byCodeUnit\<close> is the order of \<open>HOL-Library.List_Lexorder\<close> on strings.\<close>

definition byCodeUnit :: "string \<Rightarrow> string \<Rightarrow> int" where
  "byCodeUnit left right = (if left < right then -1 else if right < left then 1 else 0)"

lemma size_json_entry [termination_simp]:
  "(k, v) \<in> set (sort_key f (filter P es)) \<Longrightarrow> size v < Suc (size_list (size_prod (\<lambda>_. 0) size) es)"
  by (induction es) (auto split: if_splits)

fun canonicalize :: "json \<Rightarrow> json" where
  "canonicalize (JArr vs) = JArr (map canonicalize vs)"
| "canonicalize (JObj es) = JObj (obj_from_entries
     (map (\<lambda>(k, v). (k, canonicalize v))
       (sort_key fst (filter (\<lambda>(k, v). v \<noteq> JUndef) es))))"
| "canonicalize v = v"

text \<open>\<open>JSON.stringify\<close>: members that are \<open>undefined\<close> are left out of an object and print as
  \<open>null\<close> in an array.\<close>

definition hex_digit :: "nat \<Rightarrow> char" where
  "hex_digit n = (if n < 10 then char_of (48 + n) else char_of (87 + n))"

definition escape_char :: "char \<Rightarrow> string" where
  "escape_char c = (let n = of_char c :: nat in
     if n = 34 then [CHR 92, CHR 34] else if n = 92 then [CHR 92, CHR 92]
     else if n = 8 then [CHR 92, CHR ''b''] else if n = 12 then [CHR 92, CHR ''f'']
     else if n = 10 then [CHR 92, CHR ''n''] else if n = 13 then [CHR 92, CHR ''r'']
     else if n = 9 then [CHR 92, CHR ''t'']
     else if n < 32 then [CHR 92, CHR ''u'', CHR ''0'', CHR ''0'', hex_digit (n div 16), hex_digit (n mod 16)]
     else [c])"

definition string_text :: "string \<Rightarrow> string" where
  "string_text s = CHR 34 # concat (map escape_char s) @ [CHR 34]"

definition num_text :: "int \<Rightarrow> nat \<Rightarrow> string" where
  "num_text m s = (if s = 0 then int_text m
     else (let ds = nat_text (nat \<bar>m\<bar>); ps = replicate (Suc s - length ds) (CHR ''0'') @ ds
           in (if m < 0 then ''-'' else '''') @ take (length ps - s) ps @ ''.'' @ drop (length ps - s) ps))"

fun join :: "string \<Rightarrow> string list \<Rightarrow> string" where
  "join sep [] = []"
| "join sep [x] = x"
| "join sep (x # y # xs) = x @ sep @ join sep (y # xs)"

fun json_text :: "json \<Rightarrow> string" where
  "json_text JUndef = ''null''"
| "json_text JNull = ''null''"
| "json_text (JBool b) = (if b then ''true'' else ''false'')"
| "json_text (JNum m s) = num_text m s"
| "json_text (JStr s) = string_text s"
| "json_text (JArr vs) = ''['' @ join '','' (map json_text vs) @ '']''"
| "json_text (JObj es) = ''{'' @ join '',''
     (concat (map (\<lambda>(k, v). if v = JUndef then [] else [string_text k @ '':'' @ json_text v]) es)) @ ''}''"

definition canonicalJson :: "json \<Rightarrow> string" where
  "canonicalJson value = json_text (canonicalize value)"

text \<open>\<open>stableDigest(undefined)\<close> throws, because the text to hash is \<open>undefined\<close>; every other
  value has a text. \<open>stableDigest\<close> is the total function, used where the argument is not
  \<open>undefined\<close>; \<open>stableDigest_checked\<close> has the exception.\<close>

definition stableDigest :: "(string \<Rightarrow> string) \<Rightarrow> json \<Rightarrow> string" where
  "stableDigest sha value = sha (canonicalJson value)"

definition stableDigest_checked :: "(string \<Rightarrow> string) \<Rightarrow> json \<Rightarrow> string result" where
  "stableDigest_checked sha value =
     (if value = JUndef then Inl ''ERR_INVALID_ARG_TYPE'' else Inr (stableDigest sha value))"

section \<open>The canonical form does not depend on the order of members\<close>

lemma canonicalize_undef [simp]: "canonicalize v = JUndef \<longleftrightarrow> v = JUndef"
  by (cases v) auto

lemma sort_key_fst_unique:
  assumes "distinct (map fst es)" and "mset es = mset fs"
  shows "sort_key fst es = sort_key fst (fs :: (string \<times> 'v) list)"
proof (rule properties_for_sort_key)
  show "mset (sort_key fst fs) = mset es" using assms(2) by simp
  fix k assume "k \<in> set (sort_key fst fs)"
  then have kes: "k \<in> set es" using assms(2) by (metis set_mset_mset set_sort)
  have d: "distinct (map fst fs)" by (metis assms mset_map mset_eq_imp_distinct_iff)
  have one: "filter (\<lambda>x. fst k = fst x) gs = [k]"
    if "distinct (map fst gs)" and "k \<in> set gs" for gs :: "(string \<times> 'v) list"
    using that by (induction gs) (auto simp: filter_empty_conv image_iff)
  have "distinct (map fst (sort_key fst fs))"
    using d by (metis mset_map mset_sort mset_eq_imp_distinct_iff)
  then show "filter (\<lambda>x. fst k = fst x) (sort_key fst fs) = filter (\<lambda>x. fst k = fst x) es"
    using one [OF assms(1) kes] one [OF _ \<open>k \<in> set (sort_key fst fs)\<close>] by simp
qed simp

lemma canonicalize_permuted:
  assumes "distinct (map fst es)" and "mset es = mset fs"
  shows "canonicalize (JObj es) = canonicalize (JObj fs)"
proof -
  let ?P' = "\<lambda>e. case e of (k :: string, v) \<Rightarrow> v \<noteq> JUndef"
  have "distinct (map fst (filter ?P' es))" using assms(1) by (induction es) auto
  moreover have "mset (filter ?P' es) = mset (filter ?P' fs)" using assms(2) by simp
  ultimately have "sort_key fst (filter ?P' es) = sort_key fst (filter ?P' fs)"
    by (rule sort_key_fst_unique)
  then show ?thesis by simp
qed

end
