(* ===== verification/Contracts.thy ===== *)
theory Contracts
  imports Json
begin

text \<open>
  The contract types every service exchanges (packages/contracts/src/index.ts): one datatype
  per \<open>z.enum\<close>, one record per \<open>z.object\<close>, and one \<open>_ok\<close> predicate per schema that
  carries the constraints a typed value can still violate (non-empty strings, bounds, hex
  digests). A value of a record type that satisfies its predicate is what the schema's
  \<open>parse\<close> returns; the strictness of the object schemas is the typing of the record.
  The plan's JSON form and \<open>verifyPlanDigest\<close> close the theory.
\<close>

section \<open>Enumerations\<close>

datatype effect_class = EffNone | EffRead | EffReversible | EffPaid | EffExternal | EffDestructive

datatype capability_kind = KindModel | KindTool | KindDeterministic

datatype node_kind = NInput | NOutput | NAgent | NTool | NTransform | NCondition | NEvaluate
  | NJoin | NAggregator

datatype edge_kind = EData | EDependency | EControl

datatype command_type = AddSubject | LinkEvidence | ProposeClaim | AcceptClaimAsFact
  | RecordScreeningFinding | RecordAssumption | RaiseContradiction | ResolveContradiction
  | ProposeWorkItem | CompleteWorkItem | LinkExecution | SubmitDecisionRecommendation
  | RecordGateResult | RecordQAResult | RecordReview | RequestHumanReview
  | TransitionCaseStatus | FinalizeDisposition

datatype run_status = Queued | Running | Retrying | Completed | ManualReview | Denied | Failed
  | Cancelled

datatype event_status = Observed | Passed | EvFailed | EvDenied

datatype case_status = INTAKE | VALIDATING | SCREENING | INVESTIGATING | READY_FOR_DECISION
  | QA_REVIEW | HUMAN_REVIEW | NEEDS_INFORMATION | SUSPENDED | APPROVED | DECLINED | CLOSED

datatype actor_type = AGENT | HUMAN | SYSTEM | INTEGRATION

datatype authoring_status = DRAFT | COMPILED | EVALUATED | DRAFT_APPROVED | PUBLISHED

datatype registry_status = RegDraft | RegActive | RegDeprecated

datatype invocation_state = InvPending | InvRunning | InvCompleted | InvFailed | InvCancelled
  | InvUnknown

datatype result_status = ResCompleted | ResDenied | ResFailed

datatype capability_status = CapSucceeded | CapFailed | CapDenied

text \<open>The wire names of the enumerations.\<close>

fun effect_name :: "effect_class \<Rightarrow> string" where
  "effect_name EffNone = ''none''" | "effect_name EffRead = ''read''"
| "effect_name EffReversible = ''reversible''" | "effect_name EffPaid = ''paid''"
| "effect_name EffExternal = ''external''" | "effect_name EffDestructive = ''destructive''"

fun kind_name :: "capability_kind \<Rightarrow> string" where
  "kind_name KindModel = ''model''" | "kind_name KindTool = ''tool''"
| "kind_name KindDeterministic = ''deterministic''"

fun node_kind_name :: "node_kind \<Rightarrow> string" where
  "node_kind_name NInput = ''input''" | "node_kind_name NOutput = ''output''"
| "node_kind_name NAgent = ''agent''" | "node_kind_name NTool = ''tool''"
| "node_kind_name NTransform = ''transform''" | "node_kind_name NCondition = ''condition''"
| "node_kind_name NEvaluate = ''evaluate''" | "node_kind_name NJoin = ''join''"
| "node_kind_name NAggregator = ''aggregator''"

fun edge_kind_name :: "edge_kind \<Rightarrow> string" where
  "edge_kind_name EData = ''data''" | "edge_kind_name EDependency = ''dependency''"
| "edge_kind_name EControl = ''control''"

definition all_commands :: "(string \<times> command_type) list" where
  "all_commands = [(''AddSubject'', AddSubject), (''LinkEvidence'', LinkEvidence),
     (''ProposeClaim'', ProposeClaim), (''AcceptClaimAsFact'', AcceptClaimAsFact),
     (''RecordScreeningFinding'', RecordScreeningFinding),
     (''RecordAssumption'', RecordAssumption), (''RaiseContradiction'', RaiseContradiction),
     (''ResolveContradiction'', ResolveContradiction), (''ProposeWorkItem'', ProposeWorkItem),
     (''CompleteWorkItem'', CompleteWorkItem), (''LinkExecution'', LinkExecution),
     (''SubmitDecisionRecommendation'', SubmitDecisionRecommendation),
     (''RecordGateResult'', RecordGateResult), (''RecordQAResult'', RecordQAResult),
     (''RecordReview'', RecordReview), (''RequestHumanReview'', RequestHumanReview),
     (''TransitionCaseStatus'', TransitionCaseStatus),
     (''FinalizeDisposition'', FinalizeDisposition)]"

definition parse_command_type :: "json \<Rightarrow> command_type option" where
  "parse_command_type v = (case v of JStr s \<Rightarrow> map_of all_commands s | _ \<Rightarrow> None)"

definition command_name :: "command_type \<Rightarrow> string" where
  "command_name c = (case find (\<lambda>p. snd p = c) all_commands of Some p \<Rightarrow> fst p | None \<Rightarrow> [])"

definition all_case_statuses :: "(string \<times> case_status) list" where
  "all_case_statuses = [(''INTAKE'', INTAKE), (''VALIDATING'', VALIDATING),
     (''SCREENING'', SCREENING), (''INVESTIGATING'', INVESTIGATING),
     (''READY_FOR_DECISION'', READY_FOR_DECISION), (''QA_REVIEW'', QA_REVIEW),
     (''HUMAN_REVIEW'', HUMAN_REVIEW), (''NEEDS_INFORMATION'', NEEDS_INFORMATION),
     (''SUSPENDED'', SUSPENDED), (''APPROVED'', APPROVED), (''DECLINED'', DECLINED),
     (''CLOSED'', CLOSED)]"

definition parse_case_status :: "json \<Rightarrow> case_status option" where
  "parse_case_status v = (case v of JStr s \<Rightarrow> map_of all_case_statuses s | _ \<Rightarrow> None)"

definition case_status_name :: "case_status \<Rightarrow> string" where
  "case_status_name c =
     (case find (\<lambda>p. snd p = c) all_case_statuses of Some p \<Rightarrow> fst p | None \<Rightarrow> [])"

fun actor_type_name :: "actor_type \<Rightarrow> string" where
  "actor_type_name AGENT = ''AGENT''" | "actor_type_name HUMAN = ''HUMAN''"
| "actor_type_name SYSTEM = ''SYSTEM''" | "actor_type_name INTEGRATION = ''INTEGRATION''"

lemma parse_command_name: "parse_command_type (JStr (command_name c)) = Some c"
  by (cases c) (simp_all add: parse_command_type_def command_name_def all_commands_def)

lemma parse_case_status_name: "parse_case_status (JStr (case_status_name c)) = Some c"
  by (cases c) (simp_all add: parse_case_status_def case_status_name_def all_case_statuses_def)

section \<open>Text patterns\<close>

definition is_hex :: "char \<Rightarrow> bool" where
  "is_hex c \<longleftrightarrow> (let n = of_char c :: nat in (48 \<le> n \<and> n \<le> 57) \<or> (97 \<le> n \<and> n \<le> 102))"

definition is_lower :: "char \<Rightarrow> bool" where
  "is_lower c \<longleftrightarrow> (let n = of_char c :: nat in 97 \<le> n \<and> n \<le> 122)"

definition hex_of_length :: "nat \<Rightarrow> string \<Rightarrow> bool" where
  "hex_of_length n s \<longleftrightarrow> length s = n \<and> list_all is_hex s"

abbreviation digest_ok :: "string \<Rightarrow> bool" where
  "digest_ok s \<equiv> hex_of_length 64 s"

definition sha256_digest_ok :: "string \<Rightarrow> bool" where
  \<comment> \<open>\<open>^(sha256:)?[a-f0-9]{64}$\<close>\<close>
  "sha256_digest_ok s \<longleftrightarrow> digest_ok s \<or> (starts_with s ''sha256:'' \<and> digest_ok (drop 7 s))"

definition slug_ok :: "string \<Rightarrow> bool" where
  \<comment> \<open>\<open>^[a-z0-9][a-z0-9._-]*$\<close>\<close>
  "slug_ok s \<longleftrightarrow> s \<noteq> [] \<and> (is_lower (hd s) \<or> is_digit (hd s))
     \<and> list_all (\<lambda>c. is_lower c \<or> is_digit c \<or> c \<in> {CHR ''.'', CHR ''_'', CHR ''-''}) (tl s)"

definition event_code_ok :: "string \<Rightarrow> bool" where
  \<comment> \<open>\<open>^[a-z0-9_.-]+$\<close>\<close>
  "event_code_ok s \<longleftrightarrow> s \<noteq> []
     \<and> list_all (\<lambda>c. is_lower c \<or> is_digit c \<or> c \<in> {CHR ''.'', CHR ''_'', CHR ''-''}) s"

section \<open>Capabilities, permissions and the graph\<close>

record capability_definition =
  cap_id :: string
  cap_kind :: capability_kind
  cap_effect :: effect_class
  cap_adapterBindingId :: string
  cap_inputSchema :: entries
  cap_outputSchema :: entries
  cap_timeoutMs :: int
  cap_maxAttempts :: int
  cap_idempotent :: bool

definition capability_ok :: "capability_definition \<Rightarrow> bool" where
  "capability_ok c \<longleftrightarrow> cap_id c \<noteq> [] \<and> cap_adapterBindingId c \<noteq> [] \<and> 0 < cap_timeoutMs c
     \<and> 0 < cap_maxAttempts c \<and> cap_maxAttempts c \<le> 10"

record permission_envelope =
  perm_nodeId :: string
  perm_capabilities :: "string list"
  perm_effects :: "effect_class list"
  perm_digest :: string

definition permission_ok :: "permission_envelope \<Rightarrow> bool" where
  "permission_ok p \<longleftrightarrow> perm_nodeId p \<noteq> [] \<and> list_all (\<lambda>c. c \<noteq> []) (perm_capabilities p)
     \<and> digest_ok (perm_digest p)"

definition supportedTransformOperations :: "string list" where
  "supportedTransformOperations =
     [''identity'', ''select'', ''project'', ''merge'', ''deduplicate'', ''sort'', ''slice'']"

definition supportedAggregatorOperations :: "string list" where
  "supportedAggregatorOperations = [''collect'', ''merge'', ''concat'', ''vote'']"

definition supportedJoinModes :: "string list" where
  "supportedJoinModes = [''all'', ''allSettled'']"

text \<open>\<open>String(x)\<close> of a value that is a string, number, boolean, \<open>null\<close> or \<open>undefined\<close>; an
  array joins its elements and an object has the fixed text.\<close>

fun js_string :: "json \<Rightarrow> string" where
  "js_string JUndef = ''undefined''"
| "js_string JNull = ''null''"
| "js_string (JBool b) = (if b then ''true'' else ''false'')"
| "js_string (JNum m s) = num_text m s"
| "js_string (JStr s) = s"
| "js_string (JArr vs) = join '','' (map (\<lambda>v. if v = JUndef \<or> v = JNull then [] else js_string v) vs)"
| "js_string (JObj es) = ''[object Object]''"

definition nullish :: "json \<Rightarrow> json \<Rightarrow> json" where
  \<comment> \<open>\<open>a ?? b\<close>\<close>
  "nullish a b = (if a = JUndef \<or> a = JNull then b else a)"

record graph_node =
  node_id :: string
  node_kind :: node_kind
  node_name :: string
  node_summary :: "string option"
  node_prompt :: "string option"
  node_inputSchema :: json
  node_outputSchema :: json
  node_config :: entries

definition graph_node_ok :: "graph_node \<Rightarrow> bool" where
  "graph_node_ok n \<longleftrightarrow> node_id n \<noteq> [] \<and> node_name n \<noteq> []
     \<and> (let operation = js_string (nullish (obj_get (node_config n) ''operation'')
              (JStr (if node_kind n = NAggregator then ''collect'' else ''identity'')));
            mode = js_string (nullish (obj_get (node_config n) ''mode'')
              (nullish (obj_get (node_config n) ''operation'') (JStr ''all'')))
        in (node_kind n = NTransform \<longrightarrow> operation \<in> set supportedTransformOperations)
         \<and> (node_kind n = NAggregator \<longrightarrow> operation \<in> set supportedAggregatorOperations)
         \<and> (node_kind n = NJoin \<longrightarrow> mode \<in> set supportedJoinModes))"

record graph_edge =
  edge_id :: string
  edge_from :: string
  edge_to :: string
  edge_kind :: edge_kind
  edge_condition :: "string option"
  edge_sourcePath :: "string option"
  edge_targetPath :: "string option"

definition graph_edge_ok :: "graph_edge \<Rightarrow> bool" where
  "graph_edge_ok e \<longleftrightarrow> edge_id e \<noteq> [] \<and> edge_from e \<noteq> [] \<and> edge_to e \<noteq> []"

section \<open>Skills, agents and the plan\<close>

record case_write_contract =
  cw_commandType :: command_type
  cw_when :: "string option"
  cw_payload :: entries
  cw_payloadSchema :: entries

definition case_write_ok :: "case_write_contract \<Rightarrow> bool" where
  "case_write_ok w \<longleftrightarrow> cw_when w \<noteq> Some []"

record compiled_skill =
  skill_id :: string
  skill_name :: string
  skill_description :: string
  skill_instructions :: string
  skill_allowedCapabilityIds :: "string list"
  skill_version :: string

definition compiled_skill_ok :: "compiled_skill \<Rightarrow> bool" where
  "compiled_skill_ok k \<longleftrightarrow> slug_ok (skill_id k) \<and> skill_name k \<noteq> [] \<and> skill_description k \<noteq> []
     \<and> skill_instructions k \<noteq> [] \<and> list_all (\<lambda>c. c \<noteq> []) (skill_allowedCapabilityIds k)
     \<and> skill_version k \<noteq> []"

datatype provider_kind = LocalHttp | AzureFoundry

record compiled_agent =
  agent_id :: string
  agent_name :: string
  agent_description :: string
  agent_role :: string
  agent_prompt :: string
  agent_modelProfileId :: string
  agent_runtimeTarget :: provider_kind
  agent_skillIds :: "string list"
  agent_caseWrites :: "case_write_contract list"
  agent_primaryCapabilityId :: "string option"
  agent_inputSchema :: entries
  agent_outputSchema :: entries
  agent_version :: string

definition compiled_agent_ok :: "compiled_agent \<Rightarrow> bool" where
  "compiled_agent_ok a \<longleftrightarrow> slug_ok (agent_id a) \<and> agent_name a \<noteq> [] \<and> agent_description a \<noteq> []
     \<and> agent_role a \<noteq> [] \<and> agent_prompt a \<noteq> [] \<and> agent_modelProfileId a \<noteq> []
     \<and> list_all (\<lambda>k. k \<noteq> []) (agent_skillIds a) \<and> list_all case_write_ok (agent_caseWrites a)
     \<and> agent_primaryCapabilityId a \<noteq> Some [] \<and> agent_version a \<noteq> []"

text \<open>A non-negative decimal amount \<open>m / 10 ^ s\<close>.\<close>

type_synonym decimal = "int \<times> nat"

record plan_budgets =
  maxDurationMs :: int
  maxCostUsd :: decimal
  maxModelCalls :: int
  maxCapabilityCalls :: int

record harness_plan =
  plan_apiVersion :: string
  plan_kind :: string
  plan_planId :: string
  plan_planDigest :: string
  plan_packageDigest :: string
  plan_compiler :: "string \<times> string \<times> string"
  plan_metadata :: "string \<times> string \<times> string \<times> string"
  plan_engine :: "string \<times> string \<times> string"
  plan_maxTransitions :: int
  plan_maxConcurrency :: int
  plan_durability :: string
  plan_budgets :: plan_budgets
  plan_inputSchema :: entries
  plan_outputSchema :: entries
  plan_modelProfiles :: "(string \<times> string) list"
  plan_skills :: "compiled_skill list option"
  plan_agents :: "compiled_agent list option"
  plan_capabilities :: "capability_definition list"
  plan_permissionEnvelopes :: "permission_envelope list"
  plan_graph_apiVersion :: string
  plan_graph_name :: string
  plan_nodes :: "graph_node list"
  plan_edges :: "graph_edge list"
  plan_nodeOrder :: "string list"
  plan_dependencyManifest :: "(string \<times> string) list"

text \<open>\<open>compiler\<close> is (name, version, lgirCoreRevision), \<open>metadata\<close> is (name, version, domain,
  objective) and \<open>engine\<close> is (kind, adapterVersion, profile).\<close>

definition harness_plan_ok :: "harness_plan \<Rightarrow> bool" where
  "harness_plan_ok p \<longleftrightarrow>
     plan_apiVersion p = ''harness.factory/plan-v1'' \<and> plan_kind p = ''HarnessPlan''
     \<and> plan_planId p \<noteq> [] \<and> digest_ok (plan_planDigest p) \<and> digest_ok (plan_packageDigest p)
     \<and> (case plan_compiler p of (name, version, rev') \<Rightarrow>
          name = ''harnessc'' \<and> version \<noteq> [] \<and> 7 \<le> length rev')
     \<and> (case plan_metadata p of (name, version, domain, objective) \<Rightarrow>
          name \<noteq> [] \<and> version \<noteq> [] \<and> domain \<noteq> [] \<and> objective \<noteq> [])
     \<and> plan_engine p = (''langgraph-js'', ''harness-langgraph-v1'', ''poc-v1'')
     \<and> 0 < plan_maxTransitions p \<and> plan_maxTransitions p \<le> 10000
     \<and> 0 < plan_maxConcurrency p \<and> plan_maxConcurrency p \<le> 32 \<and> plan_durability p = ''sync''
     \<and> 0 < maxDurationMs (plan_budgets p) \<and> 0 \<le> fst (maxCostUsd (plan_budgets p))
     \<and> 0 \<le> maxModelCalls (plan_budgets p) \<and> 0 \<le> maxCapabilityCalls (plan_budgets p)
     \<and> list_all (\<lambda>(i, d). i \<noteq> [] \<and> digest_ok d) (plan_modelProfiles p)
     \<and> list_all compiled_skill_ok (or_else (plan_skills p) [])
     \<and> list_all compiled_agent_ok (or_else (plan_agents p) [])
     \<and> list_all capability_ok (plan_capabilities p)
     \<and> list_all permission_ok (plan_permissionEnvelopes p)
     \<and> plan_graph_apiVersion p = ''ladder.dev/v1alpha1'' \<and> plan_graph_name p \<noteq> []
     \<and> list_all graph_node_ok (plan_nodes p) \<and> list_all graph_edge_ok (plan_edges p)
     \<and> list_all (\<lambda>(path, d). path \<noteq> [] \<and> digest_ok d) (plan_dependencyManifest p)"

section \<open>Runtime invocation\<close>

record runtime_invocation =
  inv_invocationId :: string
  inv_runId :: string
  inv_attempt :: int
  inv_workerId :: string
  inv_leaseId :: string
  inv_fencingEpoch :: int
  inv_deadlineAt :: time
  inv_planDigest :: string
  inv_executionProfileDigest :: string
  inv_executionGrant :: string
  inv_plan :: harness_plan
  inv_input :: json

definition runtime_invocation_ok :: "runtime_invocation \<Rightarrow> bool" where
  "runtime_invocation_ok v \<longleftrightarrow> inv_invocationId v \<noteq> [] \<and> inv_runId v \<noteq> [] \<and> 0 < inv_attempt v
     \<and> inv_workerId v \<noteq> [] \<and> inv_leaseId v \<noteq> [] \<and> 0 < inv_fencingEpoch v
     \<and> digest_ok (inv_planDigest v) \<and> digest_ok (inv_executionProfileDigest v)
     \<and> inv_executionGrant v \<noteq> [] \<and> harness_plan_ok (inv_plan v)
     \<and> plan_planDigest (inv_plan v) = inv_planDigest v"

record runtime_result =
  res_invocationId :: string
  res_runId :: string
  res_status :: result_status
  res_output :: json
  res_errorCode :: "string option"
  res_checkpointId :: "string option"
  res_providerMetadata :: "(string \<times> string) list"

section \<open>Cases and evidence\<close>

record case_actor =
  actor_type :: actor_type
  actor_principalId :: string
  actor_executionId :: "string option"
  actor_roles :: "string list"

definition case_actor_ok :: "case_actor \<Rightarrow> bool" where
  "case_actor_ok a \<longleftrightarrow> actor_principalId a \<noteq> [] \<and> actor_executionId a \<noteq> Some []
     \<and> list_all (\<lambda>r. r \<noteq> []) (actor_roles a)"

record case_authority =
  auth_planDigest :: string
  auth_permissionEnvelopeDigest :: string
  auth_policySnapshotDigest :: string

definition case_authority_ok :: "case_authority \<Rightarrow> bool" where
  "case_authority_ok a \<longleftrightarrow> sha256_digest_ok (auth_planDigest a)
     \<and> sha256_digest_ok (auth_permissionEnvelopeDigest a)
     \<and> sha256_digest_ok (auth_policySnapshotDigest a)"

record create_case_request =
  ccr_tenantId :: string
  ccr_caseType :: string
  ccr_schemaVersion :: string
  ccr_jurisdiction :: string
  ccr_externalRef :: "string option"
  ccr_policySnapshotDigest :: string
  ccr_harnessPlanDigest :: string
  ccr_classification :: string
  ccr_actor :: case_actor

definition create_case_request_ok :: "create_case_request \<Rightarrow> bool" where
  "create_case_request_ok r \<longleftrightarrow> ccr_tenantId r \<noteq> [] \<and> ccr_caseType r = ''kyc_onboarding''
     \<and> ccr_schemaVersion r = ''kyc.case.v1'' \<and> ccr_jurisdiction r = ''US''
     \<and> ccr_externalRef r \<noteq> Some [] \<and> sha256_digest_ok (ccr_policySnapshotDigest r)
     \<and> sha256_digest_ok (ccr_harnessPlanDigest r) \<and> ccr_classification r \<noteq> []
     \<and> case_actor_ok (ccr_actor r)"

record business_command =
  cmd_commandId :: string
  cmd_commandType :: command_type
  cmd_commandVersion :: string
  cmd_tenantId :: string
  cmd_caseId :: string
  cmd_actor :: case_actor
  cmd_authority :: case_authority
  cmd_payload :: entries
  cmd_caseSequence :: int
  cmd_subjectRevision :: "int option"
  cmd_idempotencyKey :: string
  cmd_occurredAt :: "string option"

definition business_command_ok :: "business_command \<Rightarrow> bool" where
  "business_command_ok c \<longleftrightarrow> cmd_commandId c \<noteq> [] \<and> cmd_commandVersion c \<noteq> []
     \<and> cmd_tenantId c \<noteq> [] \<and> cmd_caseId c \<noteq> [] \<and> case_actor_ok (cmd_actor c)
     \<and> case_authority_ok (cmd_authority c) \<and> 0 \<le> cmd_caseSequence c
     \<and> (case cmd_subjectRevision c of None \<Rightarrow> True | Some n \<Rightarrow> 0 \<le> n)
     \<and> cmd_idempotencyKey c \<noteq> [] \<and> length (cmd_idempotencyKey c) \<le> 300"

record register_evidence_request =
  rer_tenantId :: string
  rer_caseId :: string
  rer_schemaVersion :: string
  rer_type :: string
  rer_mediaType :: string
  rer_contentBase64 :: string
  rer_declaredDigest :: "string option"
  rer_source :: entries
  rer_subjectRefs :: "string list"
  rer_trust :: "string \<times> string"
  rer_classification :: string
  rer_retentionClass :: string
  rer_residency :: string
  rer_createdBy :: case_actor

definition register_evidence_request_ok :: "register_evidence_request \<Rightarrow> bool" where
  "register_evidence_request_ok r \<longleftrightarrow> rer_tenantId r \<noteq> [] \<and> rer_caseId r \<noteq> []
     \<and> rer_schemaVersion r = ''harness.evidence.v1'' \<and> rer_type r \<noteq> [] \<and> rer_mediaType r \<noteq> []
     \<and> rer_contentBase64 r \<noteq> []
     \<and> (case rer_declaredDigest r of None \<Rightarrow> True | Some d \<Rightarrow> sha256_digest_ok d)
     \<and> list_all (\<lambda>x. x \<noteq> []) (rer_subjectRefs r) \<and> fst (rer_trust r) \<noteq> []
     \<and> snd (rer_trust r) \<in> {''TRUSTED'', ''UNTRUSTED_DATA'', ''UNTRUSTED_EXTERNAL''}
     \<and> rer_classification r \<noteq> [] \<and> rer_retentionClass r \<noteq> [] \<and> rer_residency r \<noteq> []
     \<and> case_actor_ok (rer_createdBy r)"

section \<open>Grants, envelopes and capability calls\<close>

record envelope_claims =
  ec_iss :: string
  ec_aud :: string
  ec_jti :: string
  ec_run_id :: string
  ec_node_id :: string
  ec_attempt :: nat
  ec_plan_digest :: string
  ec_permission_digest :: string
  ec_capabilities :: "string list"
  ec_effects :: "effect_class list"
  ec_case_writes :: "command_type list"
  ec_fencing_epoch :: nat
  ec_iat :: int
  ec_exp :: int

record grant_claims =
  gc_iss :: string
  gc_aud :: string
  gc_jti :: string
  gc_run_id :: string
  gc_attempt :: nat
  gc_worker_id :: string
  gc_plan_digest :: string
  gc_fencing_epoch :: nat
  gc_iat :: int
  gc_exp :: int

definition envelope_claims_ok :: "envelope_claims \<Rightarrow> bool" where
  "envelope_claims_ok c \<longleftrightarrow> ec_iss c \<noteq> [] \<and> ec_aud c \<noteq> [] \<and> ec_jti c \<noteq> [] \<and> ec_run_id c \<noteq> []
     \<and> ec_node_id c \<noteq> [] \<and> digest_ok (ec_plan_digest c) \<and> digest_ok (ec_permission_digest c)"

definition grant_claims_ok :: "grant_claims \<Rightarrow> bool" where
  "grant_claims_ok c \<longleftrightarrow> gc_iss c \<noteq> [] \<and> gc_aud c \<noteq> [] \<and> gc_jti c \<noteq> [] \<and> gc_run_id c \<noteq> []
     \<and> 0 < gc_attempt c \<and> gc_worker_id c \<noteq> [] \<and> digest_ok (gc_plan_digest c)
     \<and> 0 < gc_fencing_epoch c"

record envelope_request =
  er_runId :: string
  er_nodeId :: string
  er_attempt :: nat
  er_invocationId :: string

definition envelope_request_ok :: "envelope_request \<Rightarrow> bool" where
  "envelope_request_ok r \<longleftrightarrow> er_runId r \<noteq> [] \<and> er_nodeId r \<noteq> [] \<and> er_invocationId r \<noteq> []"

record capability_request =
  cr_invocationId :: string
  cr_capabilityId :: string
  cr_effect :: effect_class
  cr_input :: json

definition capability_request_ok :: "capability_request \<Rightarrow> bool" where
  "capability_request_ok r \<longleftrightarrow> cr_invocationId r \<noteq> [] \<and> cr_capabilityId r \<noteq> []"

record capability_result =
  cres_invocationId :: string
  cres_capabilityId :: string
  cres_status :: capability_status
  cres_output :: json
  cres_errorCode :: "string option"
  cres_provider :: "string option"
  cres_model :: "string option"
  cres_providerRequestId :: "string option"
  cres_inputTokens :: "int option"
  cres_outputTokens :: "int option"
  cres_costUsd :: "decimal option"
  cres_latencyMs :: int
  cres_receiptDigest :: string

end
