(* ===== verification/PlanDigest.thy ===== *)
theory PlanDigest
  imports Contracts
begin

text \<open>
  The JSON form of a harness plan and its digest check (\<open>verifyPlanDigest\<close>,
  packages/contracts/src/index.ts): the digest covers every field of the plan but
  \<open>planDigest\<close> and \<open>planId\<close>.
\<close>

definition opt_json :: "('a \<Rightarrow> json) \<Rightarrow> 'a option \<Rightarrow> json" where
  \<comment> \<open>an optional member: absent, or \<open>undefined\<close>, when there is no value\<close>
  "opt_json f v = (case v of None \<Rightarrow> JUndef | Some x \<Rightarrow> f x)"

definition null_json :: "('a \<Rightarrow> json) \<Rightarrow> 'a option \<Rightarrow> json" where
  \<comment> \<open>a nullable member\<close>
  "null_json f v = (case v of None \<Rightarrow> JNull | Some x \<Rightarrow> f x)"

abbreviation strs_json :: "string list \<Rightarrow> json" where
  "strs_json xs \<equiv> JArr (map JStr xs)"

definition capability_json :: "capability_definition \<Rightarrow> json" where
  "capability_json c = JObj
     [(''id'', JStr (cap_id c)), (''kind'', JStr (kind_name (cap_kind c))),
      (''effect'', JStr (effect_name (cap_effect c))),
      (''adapterBindingId'', JStr (cap_adapterBindingId c)),
      (''inputSchema'', JObj (cap_inputSchema c)), (''outputSchema'', JObj (cap_outputSchema c)),
      (''timeoutMs'', JInt (cap_timeoutMs c)), (''maxAttempts'', JInt (cap_maxAttempts c)),
      (''idempotent'', JBool (cap_idempotent c))]"

definition permission_json :: "permission_envelope \<Rightarrow> json" where
  "permission_json p = JObj
     [(''nodeId'', JStr (perm_nodeId p)), (''capabilities'', strs_json (perm_capabilities p)),
      (''effects'', JArr (map (JStr \<circ> effect_name) (perm_effects p))),
      (''digest'', JStr (perm_digest p))]"

definition node_json :: "graph_node \<Rightarrow> json" where
  "node_json n = JObj
     [(''id'', JStr (node_id n)), (''kind'', JStr (node_kind_name (node_kind n))),
      (''name'', JStr (node_name n)), (''summary'', opt_json JStr (node_summary n)),
      (''prompt'', opt_json JStr (node_prompt n)), (''inputSchema'', node_inputSchema n),
      (''outputSchema'', node_outputSchema n), (''config'', JObj (node_config n))]"

definition edge_json :: "graph_edge \<Rightarrow> json" where
  "edge_json e = JObj
     [(''id'', JStr (edge_id e)), (''from'', JStr (edge_from e)), (''to'', JStr (edge_to e)),
      (''kind'', JStr (edge_kind_name (edge_kind e))),
      (''condition'', opt_json JStr (edge_condition e)),
      (''sourcePath'', opt_json JStr (edge_sourcePath e)),
      (''targetPath'', opt_json JStr (edge_targetPath e))]"

definition case_write_json :: "case_write_contract \<Rightarrow> json" where
  "case_write_json w = JObj
     [(''commandType'', JStr (command_name (cw_commandType w))),
      (''when'', opt_json JStr (cw_when w)), (''payload'', JObj (cw_payload w)),
      (''payloadSchema'', JObj (cw_payloadSchema w))]"

definition skill_json :: "compiled_skill \<Rightarrow> json" where
  "skill_json k = JObj
     [(''id'', JStr (skill_id k)), (''name'', JStr (skill_name k)),
      (''description'', JStr (skill_description k)),
      (''instructions'', JStr (skill_instructions k)),
      (''allowedCapabilityIds'', strs_json (skill_allowedCapabilityIds k)),
      (''version'', JStr (skill_version k))]"

fun provider_name :: "provider_kind \<Rightarrow> string" where
  "provider_name LocalHttp = ''local_http''"
| "provider_name AzureFoundry = ''azure_foundry''"

definition agent_json :: "compiled_agent \<Rightarrow> json" where
  "agent_json a = JObj
     [(''id'', JStr (agent_id a)), (''name'', JStr (agent_name a)),
      (''description'', JStr (agent_description a)), (''role'', JStr (agent_role a)),
      (''prompt'', JStr (agent_prompt a)), (''modelProfileId'', JStr (agent_modelProfileId a)),
      (''runtimeTarget'', JStr (provider_name (agent_runtimeTarget a))),
      (''skillIds'', strs_json (agent_skillIds a)),
      (''caseWrites'', JArr (map case_write_json (agent_caseWrites a))),
      (''primaryCapabilityId'', opt_json JStr (agent_primaryCapabilityId a)),
      (''inputSchema'', JObj (agent_inputSchema a)),
      (''outputSchema'', JObj (agent_outputSchema a)), (''version'', JStr (agent_version a))]"

definition pair_json :: "string \<Rightarrow> string \<Rightarrow> string \<times> string \<Rightarrow> json" where
  "pair_json a b p = JObj [(a, JStr (fst p)), (b, JStr (snd p))]"

definition budgets_json :: "plan_budgets \<Rightarrow> json" where
  "budgets_json b = JObj
     [(''maxDurationMs'', JInt (maxDurationMs b)),
      (''maxCostUsd'', JNum (fst (maxCostUsd b)) (snd (maxCostUsd b))),
      (''maxModelCalls'', JInt (maxModelCalls b)),
      (''maxCapabilityCalls'', JInt (maxCapabilityCalls b))]"

definition plan_content :: "harness_plan \<Rightarrow> json" where
  \<comment> \<open>\<open>const { planDigest: _ignored, planId: _id, ...content } = plan\<close>\<close>
  "plan_content p = JObj
     [(''apiVersion'', JStr (plan_apiVersion p)), (''kind'', JStr (plan_kind p)),
      (''packageDigest'', JStr (plan_packageDigest p)),
      (''compiler'', case plan_compiler p of (name, version, rev') \<Rightarrow> JObj
         [(''name'', JStr name), (''version'', JStr version), (''lgirCoreRevision'', JStr rev')]),
      (''metadata'', case plan_metadata p of (name, version, domain, objective) \<Rightarrow> JObj
         [(''name'', JStr name), (''version'', JStr version), (''domain'', JStr domain),
          (''objective'', JStr objective)]),
      (''execution'', JObj
         [(''engine'', case plan_engine p of (kind, adapter, profile) \<Rightarrow> JObj
             [(''kind'', JStr kind), (''adapterVersion'', JStr adapter),
              (''profile'', JStr profile)]),
          (''maxTransitions'', JInt (plan_maxTransitions p)),
          (''maxConcurrency'', JInt (plan_maxConcurrency p)),
          (''durability'', JStr (plan_durability p))]),
      (''budgets'', budgets_json (plan_budgets p)),
      (''schemas'', JObj [(''input'', JObj (plan_inputSchema p)),
                          (''output'', JObj (plan_outputSchema p))]),
      (''modelProfiles'', JArr (map (pair_json ''id'' ''digest'') (plan_modelProfiles p))),
      (''skills'', opt_json (\<lambda>ks. JArr (map skill_json ks)) (plan_skills p)),
      (''agents'', opt_json (\<lambda>as. JArr (map agent_json as)) (plan_agents p)),
      (''capabilities'', JArr (map capability_json (plan_capabilities p))),
      (''permissionEnvelopes'', JArr (map permission_json (plan_permissionEnvelopes p))),
      (''graph'', JObj
         [(''apiVersion'', JStr (plan_graph_apiVersion p)), (''name'', JStr (plan_graph_name p)),
          (''nodes'', JArr (map node_json (plan_nodes p))),
          (''edges'', JArr (map edge_json (plan_edges p))),
          (''nodeOrder'', strs_json (plan_nodeOrder p))]),
      (''dependencyManifest'', JArr (map (pair_json ''path'' ''digest'') (plan_dependencyManifest p)))]"

definition verifyPlanDigest :: "(string \<Rightarrow> string) \<Rightarrow> harness_plan \<Rightarrow> bool" where
  "verifyPlanDigest sha p \<longleftrightarrow> stableDigest sha (plan_content p) = plan_planDigest p"

lemma verifyPlanDigest_content:
  assumes "verifyPlanDigest sha p" and "verifyPlanDigest sha q"
    and "plan_planDigest p = plan_planDigest q"
    and "sha (canonicalJson (plan_content p)) = sha (canonicalJson (plan_content q))
      \<Longrightarrow> canonicalJson (plan_content p) = canonicalJson (plan_content q)"
  shows "canonicalJson (plan_content p) = canonicalJson (plan_content q)"
  using assms by (simp add: verifyPlanDigest_def stableDigest_def)

end
