(* ===== verification/RunStore.thy ===== *)
theory RunStore
  imports PlanDigest
begin

text \<open>
  The run ledger of packages/persistence/src/index.ts: admitted plans, runs with their
  lease, fence and attempt budget, the event journal, node attempts, gateway receipts and
  the budget counters. The database is one record of tables; every exported function of the
  file is one definition, one transaction: it returns the new database, or the error it
  throws and leaves the database as it was (its transaction rolls back). \<open>now()\<close> and
  \<open>randomUUID()\<close> are arguments. Times are milliseconds, \<open>cost_usd numeric(18,8)\<close> is kept in
  units of 10^-8.
\<close>

section \<open>Rows\<close>

record plan_row =
  pl_tenant_id :: string
  pl_plan_digest :: string
  pl_plan :: harness_plan
  pl_admitted_at :: time

record run_row =
  run_id :: string
  run_tenant_id :: string
  run_idempotency_key :: string
  run_request_digest :: string
  run_plan_digest :: string
  run_status :: run_status
  run_terminal_outcome :: "string option"
  run_input :: json
  run_output :: "json option"
  run_attempt :: nat
  run_attempt_limit :: nat
  run_fencing_epoch :: nat
  run_lease_owner :: "string option"
  run_lease_expires_at :: "time option"
  run_available_at :: "time option"
  run_cancellation_requested_at :: "time option"
  run_cancellation_reason :: "string option"
  run_current_node_id :: "string option"
  run_latest_checkpoint_id :: "string option"
  run_event_sequence :: nat
  run_cost_e8 :: int
  run_cost_complete :: bool
  run_model_calls :: nat
  run_capability_calls :: nat
  run_error_code :: "string option"
  run_trace_id :: "string option"
  run_root_span_id :: "string option"
  run_trace_flags :: "int option"
  run_created_at :: time
  run_started_at :: "time option"
  run_completed_at :: "time option"
  run_updated_at :: time

record event_row =
  ev_run_id :: string
  ev_sequence :: nat
  ev_event_key :: string
  ev_code :: string
  ev_node_id :: "string option"
  ev_status :: event_status
  ev_values :: entries
  ev_occurred_at :: time

record attempt_row =
  na_run_id :: string
  na_node_id :: string
  na_attempt :: nat
  na_fencing_epoch :: nat
  na_status :: string
  na_input_digest :: "string option"
  na_output_digest :: "string option"
  na_checkpoint_id :: "string option"
  na_started_at :: time
  na_completed_at :: "time option"
  na_error_code :: "string option"
  na_trace_id :: "string option"
  na_span_id :: "string option"

record receipt_row =
  gr_invocation_id :: string
  gr_run_id :: string
  gr_tenant_id :: string
  gr_node_id :: string
  gr_attempt :: nat
  gr_fencing_epoch :: nat
  gr_plan_digest :: string
  gr_permission_digest :: string
  gr_capability_id :: string
  gr_effect :: string
  gr_decision :: string
  gr_reason_code :: string
  gr_request_digest :: string
  gr_result :: "capability_result option"
  gr_receipt_digest :: "string option"
  gr_trace_id :: "string option"
  gr_span_id :: "string option"
  gr_created_at :: time
  gr_completed_at :: "time option"

record trace_link_row =
  tl_run_id :: string
  tl_attempt :: nat
  tl_service_name :: string
  tl_trace_id :: string
  tl_root_span_id :: string
  tl_trace_flags :: int
  tl_observed_at :: time

record db =
  plans :: "plan_row list"
  runs :: "run_row list"
  run_events :: "event_row list"
  node_attempts :: "attempt_row list"
  receipts :: "receipt_row list"
  trace_links :: "trace_link_row list"

text \<open>A transaction: the error it throws, or the new database and the value it returns.\<close>

type_synonym 'a txn = "code + db \<times> 'a"

definition new_run :: "string \<Rightarrow> string \<Rightarrow> string \<Rightarrow> string \<Rightarrow> string \<Rightarrow> json \<Rightarrow> time \<Rightarrow> run_row" where
  \<comment> \<open>the column defaults of the runs table for a fresh row\<close>
  "new_run rid tenant key req plan inp now = \<lparr>
     run_id = rid, run_tenant_id = tenant, run_idempotency_key = key, run_request_digest = req,
     run_plan_digest = plan, run_status = Queued, run_terminal_outcome = None,
     run_input = inp, run_output = None, run_attempt = 0, run_attempt_limit = 3,
     run_fencing_epoch = 0, run_lease_owner = None, run_lease_expires_at = None,
     run_available_at = None, run_cancellation_requested_at = None,
     run_cancellation_reason = None, run_current_node_id = None,
     run_latest_checkpoint_id = None, run_event_sequence = 0, run_cost_e8 = 0,
     run_cost_complete = True, run_model_calls = 0, run_capability_calls = 0,
     run_error_code = None, run_trace_id = None, run_root_span_id = None,
     run_trace_flags = None, run_created_at = now, run_started_at = None,
     run_completed_at = None, run_updated_at = now \<rparr>"

section \<open>Plans\<close>

definition admitPlan :: "(string \<Rightarrow> string) \<Rightarrow> time \<Rightarrow> db \<Rightarrow> harness_plan \<Rightarrow> string \<Rightarrow> (bool \<times> harness_plan) txn" where
  "admitPlan sha now d plan tenantId =
     guard_result (harness_plan_ok plan) ''plan.schema_invalid''
     (guard_result (verifyPlanDigest sha plan) ''plan.digest_invalid''
       (if \<exists>r \<in> set (plans d). pl_tenant_id r = tenantId \<and> pl_plan_digest r = plan_planDigest plan
        then Inr (d, (False, plan))
        else Inr (d\<lparr>plans := plans d @ [\<lparr>pl_tenant_id = tenantId,
               pl_plan_digest = plan_planDigest plan, pl_plan = plan, pl_admitted_at = now\<rparr>]\<rparr>,
             (True, plan))))"

definition getPlan :: "db \<Rightarrow> string \<Rightarrow> string option \<Rightarrow> harness_plan option" where
  \<comment> \<open>an empty tenant is falsy and reads unscoped, as an absent one does\<close>
  "getPlan d digest tenantId = map_option pl_plan
     (case tenantId of
        None \<Rightarrow> sql_find (\<lambda>r. pl_plan_digest r = digest) (plans d)
      | Some t \<Rightarrow> if t = [] then sql_find (\<lambda>r. pl_plan_digest r = digest) (plans d)
                 else sql_find (\<lambda>r. pl_plan_digest r = digest \<and> pl_tenant_id r = t) (plans d))"

definition listPlans :: "db \<Rightarrow> string \<Rightarrow> harness_plan list" where
  "listPlans d tenantId = map pl_plan (take 100
     (rev (sort_key pl_admitted_at (filter (\<lambda>r. pl_tenant_id r = tenantId) (plans d)))))"

section \<open>Creating and reading runs\<close>

definition run_request_json :: "string \<Rightarrow> json \<Rightarrow> json" where
  "run_request_json planDigest inp = JObj [(''planDigest'', JStr planDigest), (''input'', inp)]"

definition createRun :: "(string \<Rightarrow> string) \<Rightarrow> string \<Rightarrow> time \<Rightarrow> db \<Rightarrow> string \<Rightarrow> json \<Rightarrow> string \<Rightarrow> string \<Rightarrow> (bool \<times> run_row) txn" where
  \<comment> \<open>\<open>uuid\<close> is the value of \<open>randomUUID()\<close>\<close>
  "createRun sha uuid now d planDigest runInput idempotencyKey tenantId =
     (let rid = ''RUN-'' @ uuid;
          requestDigest = stableDigest sha (run_request_json planDigest runInput)
      in case sql_find (\<lambda>r. run_tenant_id r = tenantId \<and> run_idempotency_key r = idempotencyKey) (runs d) of
           None \<Rightarrow> (if (\<exists>r \<in> set (runs d). run_id r = rid)
                      \<or> \<not> (\<exists>p \<in> set (plans d). pl_tenant_id p = tenantId \<and> pl_plan_digest p = planDigest)
                    then Inl ''sql.constraint_violation''
                    else (let row = new_run rid tenantId idempotencyKey requestDigest planDigest runInput now
                          in Inr (d\<lparr>runs := runs d @ [row]\<rparr>, (True, row))))
         | Some row \<Rightarrow> if run_request_digest row = requestDigest
                       then Inr (d, (run_id row = rid, row))
                       else Inl ''run.idempotency_conflict'')"

definition getRun :: "db \<Rightarrow> string \<Rightarrow> string option \<Rightarrow> run_row option" where
  "getRun d rid tenantId =
     (case tenantId of
        None \<Rightarrow> sql_find (\<lambda>r. run_id r = rid) (runs d)
      | Some t \<Rightarrow> if t = [] then sql_find (\<lambda>r. run_id r = rid) (runs d)
                 else sql_find (\<lambda>r. run_id r = rid \<and> run_tenant_id r = t) (runs d))"

definition clamp :: "int \<Rightarrow> int \<Rightarrow> int \<Rightarrow> int" where
  "clamp lo hi x = max lo (min hi x)"

definition listRuns :: "db \<Rightarrow> string \<Rightarrow> int \<Rightarrow> run_row list" where
  "listRuns d tenantId limit = take (nat (clamp 1 100 limit))
     (rev (sort_key run_updated_at (filter (\<lambda>r. run_tenant_id r = tenantId) (runs d))))"

section \<open>Leases\<close>

definition claimable :: "time \<Rightarrow> run_row \<Rightarrow> bool" where
  "claimable now r \<longleftrightarrow>
     ((run_status r \<in> {Queued, Retrying}
        \<and> (case run_available_at r of None \<Rightarrow> True | Some t \<Rightarrow> t \<le> now))
      \<or> (run_status r = Running
        \<and> (case run_lease_expires_at r of None \<Rightarrow> False | Some t \<Rightarrow> t < now)))
     \<and> run_cancellation_requested_at r = None
     \<and> run_attempt r < run_attempt_limit r"

definition claim_row :: "time \<Rightarrow> string \<Rightarrow> int \<Rightarrow> run_row \<Rightarrow> run_row" where
  "claim_row now workerId leaseSeconds r = r\<lparr>run_status := Running,
     run_lease_owner := Some workerId,
     run_lease_expires_at := Some (now + leaseSeconds * 1000),
     run_fencing_epoch := run_fencing_epoch r + 1, run_attempt := run_attempt r + 1,
     run_available_at := None,
     run_started_at := coalesce (run_started_at r) (Some now), run_updated_at := now\<rparr>"

definition claimRun :: "(string \<Rightarrow> bool) \<Rightarrow> time \<Rightarrow> db \<Rightarrow> string \<Rightarrow> int \<Rightarrow> db \<times> run_row option" where
  \<comment> \<open>\<open>locked\<close>: the runs another transaction holds, which \<open>skip locked\<close> passes over\<close>
  "claimRun locked now d workerId leaseSeconds =
     (case sql_first_by run_created_at (\<lambda>r. claimable now r \<and> \<not> locked (run_id r)) (runs d) of
        None \<Rightarrow> (d, None)
      | Some r \<Rightarrow> (d\<lparr>runs := sql_update (\<lambda>x. run_id x = run_id r) (claim_row now workerId leaseSeconds) (runs d)\<rparr>,
                  Some (claim_row now workerId leaseSeconds r)))"

text \<open>Every write of a worker names its run, itself and its fence.\<close>

definition holds_fence :: "string \<Rightarrow> string \<Rightarrow> nat \<Rightarrow> run_row \<Rightarrow> bool" where
  "holds_fence rid workerId epoch r \<longleftrightarrow> run_id r = rid \<and> run_lease_owner r = Some workerId
     \<and> run_fencing_epoch r = epoch \<and> run_status r = Running"

definition renew_row :: "time \<Rightarrow> int \<Rightarrow> run_row \<Rightarrow> run_row" where
  "renew_row now leaseSeconds r =
     r\<lparr>run_lease_expires_at := Some (now + leaseSeconds * 1000), run_updated_at := now\<rparr>"

definition renewLease :: "time \<Rightarrow> db \<Rightarrow> string \<Rightarrow> string \<Rightarrow> nat \<Rightarrow> int \<Rightarrow> db \<times> bool" where
  "renewLease now d rid workerId epoch leaseSeconds =
     (let P = holds_fence rid workerId epoch
      in (d\<lparr>runs := sql_update P (renew_row now leaseSeconds) (runs d)\<rparr>, sql_count P (runs d) = 1))"

definition retry_row :: "time \<Rightarrow> string \<Rightarrow> int \<Rightarrow> run_row \<Rightarrow> run_row" where
  "retry_row now errorCode backoffMs r = r\<lparr>run_status := Retrying, run_lease_owner := None,
     run_lease_expires_at := None, run_available_at := Some (now + max 0 backoffMs),
     run_error_code := Some errorCode, run_updated_at := now\<rparr>"

definition scheduleRunRetry :: "time \<Rightarrow> db \<Rightarrow> string \<Rightarrow> string \<Rightarrow> nat \<Rightarrow> string \<Rightarrow> int \<Rightarrow> db \<times> bool" where
  "scheduleRunRetry now d rid workerId epoch errorCode backoffMs =
     (let P = (\<lambda>r. holds_fence rid workerId epoch r \<and> run_attempt r < run_attempt_limit r)
      in (d\<lparr>runs := sql_update P (retry_row now errorCode backoffMs) (runs d)\<rparr>, sql_count P (runs d) = 1))"

definition exhausted :: "run_row \<Rightarrow> bool" where
  "exhausted r \<longleftrightarrow> run_status r \<in> {Queued, Retrying} \<and> run_attempt_limit r \<le> run_attempt r"

definition exhaust_row :: "time \<Rightarrow> run_row \<Rightarrow> run_row" where
  "exhaust_row now r = r\<lparr>run_status := Failed, run_terminal_outcome := Some ''failed'',
     run_error_code := coalesce (run_error_code r) (Some ''runtime.attempts_exhausted''),
     run_lease_owner := None, run_lease_expires_at := None,
     run_completed_at := Some now, run_updated_at := now\<rparr>"

definition failExhaustedRuns :: "time \<Rightarrow> db \<Rightarrow> db \<times> nat" where
  "failExhaustedRuns now d =
     (d\<lparr>runs := sql_update exhausted (exhaust_row now) (runs d)\<rparr>, sql_count exhausted (runs d))"

section \<open>Cancellation\<close>

datatype cancellation_outcome = AlreadyTerminal | OutCancelled | Requested | NotFound

definition cancel_row :: "time \<Rightarrow> string \<Rightarrow> run_row \<Rightarrow> run_row" where
  "cancel_row now reason r =
     (let running = (run_status r = Running) in
      r\<lparr>run_cancellation_requested_at := Some now, run_cancellation_reason := Some reason,
        run_fencing_epoch := run_fencing_epoch r + 1,
        run_status := (if running then run_status r else Cancelled),
        run_terminal_outcome := (if running then run_terminal_outcome r else Some ''cancelled''),
        run_completed_at := (if running then run_completed_at r else Some now),
        run_lease_owner := (if running then run_lease_owner r else None),
        run_lease_expires_at := (if running then run_lease_expires_at r else None),
        run_updated_at := now\<rparr>)"

definition requestRunCancellation :: "time \<Rightarrow> db \<Rightarrow> string \<Rightarrow> string \<Rightarrow> string \<Rightarrow> db \<times> cancellation_outcome \<times> run_row option" where
  "requestRunCancellation now d rid tenantId reason =
     (case sql_find (\<lambda>r. run_id r = rid \<and> run_tenant_id r = tenantId) (runs d) of
        None \<Rightarrow> (d, NotFound, None)
      | Some current \<Rightarrow>
          if run_status current \<notin> {Queued, Running, Retrying}
          then (d, AlreadyTerminal, Some current)
          else (d\<lparr>runs := sql_update (\<lambda>r. run_id r = rid) (cancel_row now reason) (runs d)\<rparr>,
                (if run_status current = Running then Requested else OutCancelled),
                Some (cancel_row now reason current)))"

definition complete_cancelled_row :: "time \<Rightarrow> string option \<Rightarrow> string \<Rightarrow> run_row \<Rightarrow> run_row" where
  "complete_cancelled_row now errorCode fallback r =
     r\<lparr>run_status := Cancelled, run_terminal_outcome := Some ''cancelled'',
       run_error_code := coalesce errorCode (coalesce (run_error_code r) (Some fallback)),
       run_lease_owner := None, run_lease_expires_at := None,
       run_completed_at := Some now, run_updated_at := now\<rparr>"

definition completeCancelledRun :: "time \<Rightarrow> db \<Rightarrow> string \<Rightarrow> string option \<Rightarrow> db \<times> bool" where
  "completeCancelledRun now d rid errorCode =
     (let P = (\<lambda>r. run_id r = rid \<and> run_status r = Running \<and> run_cancellation_requested_at r \<noteq> None)
      in (d\<lparr>runs := sql_update P (complete_cancelled_row now errorCode ''runtime.cancelled'') (runs d)\<rparr>,
          sql_count P (runs d) = 1))"

definition abandoned :: "time \<Rightarrow> run_row \<Rightarrow> bool" where
  "abandoned now r \<longleftrightarrow> run_status r = Running \<and> run_cancellation_requested_at r \<noteq> None
     \<and> (case run_lease_expires_at r of None \<Rightarrow> True | Some t \<Rightarrow> t < now)"

definition finalizeAbandonedCancellations :: "time \<Rightarrow> db \<Rightarrow> db \<times> nat" where
  "finalizeAbandonedCancellations now d =
     (d\<lparr>runs := sql_update (abandoned now)
         (complete_cancelled_row now None ''runtime.cancelled_lease_expired'') (runs d)\<rparr>,
      sql_count (abandoned now) (runs d))"

definition cancellationRequested :: "db \<Rightarrow> string \<Rightarrow> string option" where
  "cancellationRequested d rid =
     (case sql_find (\<lambda>r. run_id r = rid) (runs d) of
        None \<Rightarrow> None
      | Some r \<Rightarrow> (case run_cancellation_requested_at r of
                    None \<Rightarrow> None
                  | Some _ \<Rightarrow> Some (or_else (run_cancellation_reason r) ''cancelled'')))"

definition currentFencingEpoch :: "db \<Rightarrow> string \<Rightarrow> nat option" where
  "currentFencingEpoch d rid =
     map_option run_fencing_epoch (sql_find (\<lambda>r. run_id r = rid \<and> run_status r = Running) (runs d))"

end
