(* ===== verification/Journal.thy ===== *)
theory Journal
  imports RunStore
begin

text \<open>
  The second half of packages/persistence/src/index.ts: the writes a worker makes under its
  fence, the event journal, node attempts, the gateway receipts and the budget counters;
  and the journal of packages/persistence/src/runtime-state.ts on top of them.
\<close>

section \<open>Fenced writes of the worker\<close>

definition node_row :: "time \<Rightarrow> string option \<Rightarrow> string option \<Rightarrow> run_row \<Rightarrow> run_row" where
  "node_row now nodeId checkpointId r = r\<lparr>run_current_node_id := nodeId,
     run_latest_checkpoint_id := coalesce checkpointId (run_latest_checkpoint_id r),
     run_updated_at := now\<rparr>"

definition updateRunNode :: "time \<Rightarrow> db \<Rightarrow> string \<Rightarrow> string \<Rightarrow> nat \<Rightarrow> string option \<Rightarrow> string option \<Rightarrow> unit txn" where
  "updateRunNode now d rid workerId epoch nodeId checkpointId =
     (let P = holds_fence rid workerId epoch
      in guard_result (sql_count P (runs d) = 1) ''runtime.stale_fence''
           (Inr (d\<lparr>runs := sql_update P (node_row now nodeId checkpointId) (runs d)\<rparr>, ())))"

definition trace_row :: "time \<Rightarrow> string \<Rightarrow> string \<Rightarrow> int \<Rightarrow> run_row \<Rightarrow> run_row" where
  "trace_row now traceId spanId flags r = r\<lparr>run_trace_id := coalesce (run_trace_id r) (Some traceId),
     run_root_span_id := coalesce (run_root_span_id r) (Some spanId),
     run_trace_flags := coalesce (run_trace_flags r) (Some flags), run_updated_at := now\<rparr>"

definition bindRunTrace :: "time \<Rightarrow> db \<Rightarrow> string \<Rightarrow> nat \<Rightarrow> string \<Rightarrow> nat \<Rightarrow> string \<Rightarrow> string \<Rightarrow> int \<Rightarrow> string \<Rightarrow> unit txn" where
  "bindRunTrace now d rid attempt workerId epoch traceId spanId flags serviceName =
     (let P = (\<lambda>r. holds_fence rid workerId epoch r \<and> run_attempt r = attempt);
          K = (\<lambda>l. tl_run_id l = rid \<and> tl_attempt l = attempt \<and> tl_service_name l = serviceName);
          link = \<lparr>tl_run_id = rid, tl_attempt = attempt, tl_service_name = serviceName,
                  tl_trace_id = traceId, tl_root_span_id = spanId, tl_trace_flags = flags,
                  tl_observed_at = now\<rparr>
      in guard_result (sql_count P (runs d) = 1) ''runtime.stale_fence''
           (Inr (d\<lparr>runs := sql_update P (trace_row now traceId spanId flags) (runs d),
                   trace_links := (if sql_count K (trace_links d) = 0 then trace_links d @ [link]
                                   else sql_update K (\<lambda>l. l\<lparr>tl_trace_id := traceId,
                                     tl_root_span_id := spanId, tl_trace_flags := flags,
                                     tl_observed_at := now\<rparr>) (trace_links d))\<rparr>, ())))"

definition complete_row :: "time \<Rightarrow> run_status \<Rightarrow> string \<Rightarrow> json \<Rightarrow> string option \<Rightarrow> run_row \<Rightarrow> run_row" where
  "complete_row now status outcome out errorCode r = r\<lparr>run_status := status,
     run_terminal_outcome := Some outcome, run_output := Some out, run_error_code := errorCode,
     run_lease_owner := None, run_lease_expires_at := None,
     run_completed_at := Some now, run_updated_at := now\<rparr>"

definition completeRun :: "time \<Rightarrow> db \<Rightarrow> string \<Rightarrow> string \<Rightarrow> nat \<Rightarrow> run_status \<Rightarrow> string \<Rightarrow> json \<Rightarrow> string option \<Rightarrow> unit txn" where
  "completeRun now d rid workerId epoch status outcome out errorCode =
     (let P = holds_fence rid workerId epoch
      in guard_result (sql_count P (runs d) = 1) ''runtime.stale_fence''
           (Inr (d\<lparr>runs := sql_update P (complete_row now status outcome out errorCode) (runs d)\<rparr>, ())))"

section \<open>The event journal\<close>

definition bump_sequence :: "time \<Rightarrow> run_row \<Rightarrow> run_row" where
  "bump_sequence now r = r\<lparr>run_event_sequence := run_event_sequence r + 1, run_updated_at := now\<rparr>"

definition appendEvent :: "time \<Rightarrow> db \<Rightarrow> string \<Rightarrow> string \<Rightarrow> string \<Rightarrow> string option \<Rightarrow> event_status \<Rightarrow> entries \<Rightarrow> event_row txn" where
  "appendEvent now d rid eventKey code nodeId status vals =
     (case sql_find (\<lambda>e. ev_run_id e = rid \<and> ev_event_key e = eventKey) (run_events d) of
        Some row \<Rightarrow> Inr (d, row)
      | None \<Rightarrow>
        (case sql_find (\<lambda>r. run_id r = rid) (runs d) of
           None \<Rightarrow> Inl ''event.run_missing''
         | Some r \<Rightarrow>
             (let seq = run_event_sequence r + 1;
                  row = \<lparr>ev_run_id = rid, ev_sequence = seq, ev_event_key = eventKey, ev_code = code,
                         ev_node_id = nodeId, ev_status = status, ev_values = vals,
                         ev_occurred_at = now\<rparr>
              in guard_result (\<not> (\<exists>e \<in> set (run_events d). ev_run_id e = rid \<and> ev_sequence e = seq))
                   ''sql.constraint_violation''
                   (Inr (d\<lparr>runs := sql_update (\<lambda>r. run_id r = rid) (bump_sequence now) (runs d),
                           run_events := run_events d @ [row]\<rparr>, row)))))"

definition listEvents :: "db \<Rightarrow> string \<Rightarrow> string \<Rightarrow> nat \<Rightarrow> event_row list" where
  "listEvents d rid tenantId afterSequence =
     (if \<exists>r \<in> set (runs d). run_id r = rid \<and> run_tenant_id r = tenantId
      then take 1000 (sort_key ev_sequence
             (filter (\<lambda>e. ev_run_id e = rid \<and> afterSequence < ev_sequence e) (run_events d)))
      else [])"

section \<open>Node attempts\<close>

definition insert_attempt :: "time \<Rightarrow> db \<Rightarrow> string \<Rightarrow> string \<Rightarrow> nat \<Rightarrow> nat \<Rightarrow> string \<Rightarrow> string option \<Rightarrow> string option \<Rightarrow> db" where
  "insert_attempt now d rid nodeId attempt epoch inputDigest traceId spanId =
     (if \<exists>a \<in> set (node_attempts d). na_run_id a = rid \<and> na_node_id a = nodeId \<and> na_attempt a = attempt
      then d
      else d\<lparr>node_attempts := node_attempts d @ [\<lparr>na_run_id = rid, na_node_id = nodeId,
             na_attempt = attempt, na_fencing_epoch = epoch, na_status = ''running'',
             na_input_digest = Some inputDigest, na_output_digest = None, na_checkpoint_id = None,
             na_started_at = now, na_completed_at = None, na_error_code = None,
             na_trace_id = traceId, na_span_id = spanId\<rparr>]\<rparr>)"

definition beginNodeAttempt :: "(string \<Rightarrow> string) \<Rightarrow> time \<Rightarrow> db \<Rightarrow> string \<Rightarrow> string \<Rightarrow> nat \<Rightarrow> nat \<Rightarrow> json \<Rightarrow> string option \<Rightarrow> string option \<Rightarrow> unit txn" where
  "beginNodeAttempt sha now d rid nodeId attempt epoch value' traceId spanId =
     bind_result (stableDigest_checked sha value')
       (\<lambda>dg. guard_result (\<exists>r \<in> set (runs d). run_id r = rid) ''sql.constraint_violation''
         (Inr (insert_attempt now d rid nodeId attempt epoch dg traceId spanId, ())))"

definition finishNodeAttempt :: "(string \<Rightarrow> string) \<Rightarrow> time \<Rightarrow> db \<Rightarrow> string \<Rightarrow> string \<Rightarrow> nat \<Rightarrow> string \<Rightarrow> json \<Rightarrow> string option \<Rightarrow> string option \<Rightarrow> db" where
  "finishNodeAttempt sha now d rid nodeId attempt status value' errorCode checkpointId =
     d\<lparr>node_attempts := sql_update
         (\<lambda>a. na_run_id a = rid \<and> na_node_id a = nodeId \<and> na_attempt a = attempt)
         (\<lambda>a. a\<lparr>na_status := status,
                na_output_digest := (if value' = JUndef then None else Some (stableDigest sha value')),
                na_error_code := errorCode, na_checkpoint_id := checkpointId,
                na_completed_at := Some now\<rparr>) (node_attempts d)\<rparr>"

definition listNodeAttempts :: "db \<Rightarrow> string \<Rightarrow> attempt_row list" where
  "listNodeAttempts d rid = sort_key na_started_at (sort_key na_node_id (sort_key na_attempt
     (filter (\<lambda>a. na_run_id a = rid) (node_attempts d))))"

section \<open>Gateway receipts and the budget\<close>

record receipt_budget =
  rb_modelCall :: bool
  rb_maxCapabilityCalls :: int
  rb_maxModelCalls :: int
  rb_maxCostUsd :: decimal

definition cost_below :: "int \<Rightarrow> decimal \<Rightarrow> bool" where
  \<comment> \<open>\<open>cost_usd < max::numeric\<close>, both exact decimals\<close>
  "cost_below cost_e8 m \<longleftrightarrow> cost_e8 * 10 ^ snd m < fst m * 10 ^ 8"

definition within_budget :: "receipt_budget \<Rightarrow> run_row \<Rightarrow> bool" where
  "within_budget b r \<longleftrightarrow> int (run_capability_calls r) < rb_maxCapabilityCalls b
     \<and> (\<not> rb_modelCall b \<or> int (run_model_calls r) < rb_maxModelCalls b)
     \<and> cost_below (run_cost_e8 r) (rb_maxCostUsd b)"

definition spend_row :: "time \<Rightarrow> bool \<Rightarrow> run_row \<Rightarrow> run_row" where
  "spend_row now modelCall r = r\<lparr>run_capability_calls := run_capability_calls r + 1,
     run_model_calls := run_model_calls r + (if modelCall then 1 else 0), run_updated_at := now\<rparr>"

definition reserveGatewayReceipt :: "time \<Rightarrow> db \<Rightarrow> receipt_row \<Rightarrow> receipt_budget \<Rightarrow> (bool \<times> capability_result option) txn" where
  \<comment> \<open>the receipt carries the input; its tenant is read from the run\<close>
  "reserveGatewayReceipt now d inp b =
     (let existing = sql_find (\<lambda>g. gr_invocation_id g = gr_invocation_id inp) (receipts d);
          run = sql_find (\<lambda>r. run_id r = gr_run_id inp) (runs d)
      in if existing \<noteq> None \<or> run = None
         then (case sql_find (\<lambda>g. gr_invocation_id g = gr_invocation_id inp \<and> gr_run_id g = gr_run_id inp) (receipts d) of
                 None \<Rightarrow> Inl ''gateway.idempotency_conflict''
               | Some g \<Rightarrow> if gr_request_digest g \<noteq> gr_request_digest inp
                           then Inl ''gateway.idempotency_conflict''
                           else Inr (d, (False, gr_result g)))
         else (let P = (\<lambda>r. run_id r = gr_run_id inp \<and> within_budget b r);
                   tenant = (case run of Some r \<Rightarrow> run_tenant_id r | None \<Rightarrow> []);
                   g = inp\<lparr>gr_tenant_id := tenant, gr_result := None, gr_receipt_digest := None,
                           gr_created_at := now, gr_completed_at := None\<rparr>
               in guard_result (sql_count P (runs d) = 1) ''gateway.budget_denied''
                    (Inr (d\<lparr>receipts := receipts d @ [g],
                            runs := sql_update P (spend_row now (rb_modelCall b)) (runs d)\<rparr>,
                          (True, None)))))"

definition completeGatewayReceipt :: "time \<Rightarrow> db \<Rightarrow> string \<Rightarrow> capability_result \<Rightarrow> db" where
  "completeGatewayReceipt now d rid result =
     d\<lparr>receipts := sql_update
        (\<lambda>g. gr_invocation_id g = cres_invocationId result \<and> gr_run_id g = rid)
        (\<lambda>g. g\<lparr>gr_result := Some result, gr_receipt_digest := Some (cres_receiptDigest result),
               gr_completed_at := Some now\<rparr>) (receipts d)\<rparr>"

definition abandonGatewayReceipt :: "db \<Rightarrow> string \<Rightarrow> string \<Rightarrow> db" where
  "abandonGatewayReceipt d rid invocationId =
     d\<lparr>receipts := sql_delete
        (\<lambda>g. gr_invocation_id g = invocationId \<and> gr_run_id g = rid \<and> gr_result g = None) (receipts d)\<rparr>"

definition listGatewayReceipts :: "db \<Rightarrow> string \<Rightarrow> string option \<Rightarrow> string option \<Rightarrow> int option \<Rightarrow> receipt_row list" where
  "listGatewayReceipts d tenantId rid decision limit =
     (let rows = filter (\<lambda>g. gr_tenant_id g = tenantId
            \<and> (case rid of None \<Rightarrow> True | Some i \<Rightarrow> gr_run_id g = i)
            \<and> (case decision of None \<Rightarrow> True | Some x \<Rightarrow> gr_decision g = x)) (receipts d)
      in take (nat (clamp 1 500 (or_else limit 100)))
           (sort_key (\<lambda>g. if gr_decision g = ''denied'' then 0 else 1 :: nat)
             (rev (sort_key gr_created_at rows))))"

definition reserveCapabilityBudget :: "time \<Rightarrow> db \<Rightarrow> string \<Rightarrow> receipt_budget \<Rightarrow> db \<times> bool" where
  "reserveCapabilityBudget now d rid b =
     (let P = (\<lambda>r. run_id r = rid \<and> within_budget b r)
      in (d\<lparr>runs := sql_update P (spend_row now (rb_modelCall b)) (runs d)\<rparr>, sql_count P (runs d) = 1))"

text \<open>Storing into \<open>numeric(18,8)\<close> rounds to eight decimals, ties away from zero.\<close>

definition numeric8 :: "decimal \<Rightarrow> int" where
  "numeric8 x = (case x of (m, s) \<Rightarrow>
     if s \<le> 8 then m * 10 ^ (8 - s)
     else sgn m * ((\<bar>m\<bar> + 10 ^ (s - 8) div 2) div 10 ^ (s - 8)))"

definition cost_row :: "time \<Rightarrow> decimal option \<Rightarrow> run_row \<Rightarrow> run_row" where
  "cost_row now cost r = r\<lparr>run_cost_e8 := run_cost_e8 r + (case cost of None \<Rightarrow> 0 | Some c \<Rightarrow> numeric8 c),
     run_cost_complete := (run_cost_complete r \<and> cost \<noteq> None), run_updated_at := now\<rparr>"

definition recordCapabilityCost :: "time \<Rightarrow> db \<Rightarrow> string \<Rightarrow> decimal option \<Rightarrow> db" where
  "recordCapabilityCost now d rid cost =
     d\<lparr>runs := sql_update (\<lambda>r. run_id r = rid) (cost_row now cost) (runs d)\<rparr>"

section \<open>The journal a runtime writes through\<close>

record fenced_run =
  fr_runId :: string
  fr_attempt :: nat
  fr_workerId :: string
  fr_fencingEpoch :: nat

record node_started =
  ns_nodeId :: string
  ns_inputDigest :: string
  ns_traceId :: "string option"
  ns_spanId :: "string option"

record node_finished =
  nf_nodeId :: string
  nf_status :: string
  nf_outputDigest :: "string option"
  nf_errorCode :: "string option"

record state_event =
  se_eventKey :: string
  se_code :: string
  se_nodeId :: "string option"
  se_status :: event_status
  se_values :: entries

definition pg_nodeStarted :: "time \<Rightarrow> db \<Rightarrow> fenced_run \<Rightarrow> node_started \<Rightarrow> unit txn" where
  "pg_nodeStarted now d fr i =
     bind_result (updateRunNode now d (fr_runId fr) (fr_workerId fr) (fr_fencingEpoch fr)
         (Some (ns_nodeId i)) None)
       (\<lambda>(d', _). Inr (insert_attempt now d' (fr_runId fr) (ns_nodeId i) (fr_attempt fr)
          (fr_fencingEpoch fr) (ns_inputDigest i) (ns_traceId i) (ns_spanId i), ()))"

definition pg_nodeFinished :: "time \<Rightarrow> db \<Rightarrow> fenced_run \<Rightarrow> node_finished \<Rightarrow> unit txn" where
  "pg_nodeFinished now d fr i = Inr (d\<lparr>node_attempts := sql_update
      (\<lambda>a. na_run_id a = fr_runId fr \<and> na_node_id a = nf_nodeId i \<and> na_attempt a = fr_attempt fr)
      (\<lambda>a. a\<lparr>na_status := nf_status i, na_output_digest := nf_outputDigest i,
             na_error_code := nf_errorCode i, na_completed_at := Some now\<rparr>) (node_attempts d)\<rparr>, ())"

definition pg_appendEvent :: "time \<Rightarrow> db \<Rightarrow> fenced_run \<Rightarrow> state_event \<Rightarrow> unit txn" where
  "pg_appendEvent now d fr i =
     bind_result (appendEvent now d (fr_runId fr) (se_eventKey i) (se_code i) (se_nodeId i)
         (se_status i) (se_values i))
       (\<lambda>(d', _). Inr (d', ()))"

definition pg_markCheckpoint :: "time \<Rightarrow> db \<Rightarrow> fenced_run \<Rightarrow> string option \<Rightarrow> string option \<Rightarrow> unit txn" where
  "pg_markCheckpoint now d fr checkpointId nodeId =
     updateRunNode now d (fr_runId fr) (fr_workerId fr) (fr_fencingEpoch fr) nodeId checkpointId"

end
