(* ===== verification/Ledger.thy ===== *)
theory Ledger
  imports Journal
begin

text \<open>
  The run ledger as a state machine. \<open>row_step\<close> is what one statement can do to one row of
  the runs table; \<open>ledger_step\<close> executes any of the exported operations, in any order, for
  any caller. \<open>run_wf\<close> is the row invariant, \<open>ledger_inv\<close> the invariant of the tables; the
  locale \<open>fenced_write\<close> is the contract of the writes a worker makes under its fence, and is
  interpreted on each of them.
\<close>

section \<open>What a statement does to a row\<close>

definition terminal :: "run_status \<Rightarrow> bool" where
  "terminal s \<longleftrightarrow> s \<in> {Completed, ManualReview, Denied, Failed, Cancelled}"

inductive row_step :: "run_row \<Rightarrow> run_row \<Rightarrow> bool" where
  claim: "claimable now r \<Longrightarrow> row_step r (claim_row now w l r)"
| renew: "run_status r = Running \<Longrightarrow> row_step r (renew_row now l r)"
| retry: "run_status r = Running \<Longrightarrow> run_attempt r < run_attempt_limit r \<Longrightarrow>
     row_step r (retry_row now c b r)"
| exhaust: "exhausted r \<Longrightarrow> row_step r (exhaust_row now r)"
| cancel: "run_status r \<in> {Queued, Running, Retrying} \<Longrightarrow> row_step r (cancel_row now reason r)"
| close_cancelled: "run_status r = Running \<Longrightarrow> run_cancellation_requested_at r \<noteq> None \<Longrightarrow>
     row_step r (complete_cancelled_row now c fallback r)"
| node: "run_status r = Running \<Longrightarrow> row_step r (node_row now n cp r)"
| trace: "run_status r = Running \<Longrightarrow> row_step r (trace_row now t s fl r)"
| complete: "run_status r = Running \<Longrightarrow> terminal st \<Longrightarrow>
     row_step r (complete_row now st oc out c r)"
| bump: "row_step r (bump_sequence now r)"
| spend: "row_step r (spend_row now m r)"
| cost: "row_step r (cost_row now co r)"

lemmas row_defs = claim_row_def renew_row_def retry_row_def exhaust_row_def cancel_row_def
  complete_cancelled_row_def node_row_def trace_row_def complete_row_def bump_sequence_def
  spend_row_def cost_row_def

definition run_wf :: "run_row \<Rightarrow> bool" where
  "run_wf r \<longleftrightarrow> run_attempt r \<le> run_attempt_limit r \<and> run_attempt r \<le> run_fencing_epoch r
     \<and> ((run_status r \<noteq> Running) = (run_lease_owner r = None))
     \<and> ((run_lease_owner r = None) = (run_lease_expires_at r = None))
     \<and> ((\<not> terminal (run_status r)) = (run_completed_at r = None))
     \<and> (run_terminal_outcome r = None \<longrightarrow> \<not> terminal (run_status r))
     \<and> (run_status r = Running \<longrightarrow> 0 < run_attempt r)
     \<and> (run_started_at r = None \<longrightarrow> run_attempt r = 0)"

lemma terminal_simps [simp]:
  "\<not> terminal Queued" "\<not> terminal Running" "\<not> terminal Retrying"
  "terminal Failed" "terminal Cancelled" "terminal Completed" "terminal Denied"
  by (simp_all add: terminal_def)

lemma claim_row_wf: "run_wf r \<Longrightarrow> claimable now r \<Longrightarrow> run_wf (claim_row now w l r)"
  by (cases "run_started_at r"; cases "run_status r")
    (simp_all add: run_wf_def claim_row_def claimable_def del: not_None_eq)

lemma retry_row_wf: "run_wf r \<Longrightarrow> run_status r = Running \<Longrightarrow> run_wf (retry_row now c b r)"
  by (simp add: run_wf_def retry_row_def del: not_None_eq)

lemma cancel_row_wf: "run_wf r \<Longrightarrow> run_wf (cancel_row now reason r)"
  by (cases "run_status r = Running") (auto simp: run_wf_def cancel_row_def)

lemma complete_row_wf: "run_wf r \<Longrightarrow> terminal st \<Longrightarrow> run_wf (complete_row now st oc out c r)"
  by (cases st) (simp_all add: run_wf_def complete_row_def del: not_None_eq)

lemma renew_row_wf: "run_wf r \<Longrightarrow> run_status r = Running \<Longrightarrow> run_wf (renew_row now l r)"
  by (auto simp: run_wf_def renew_row_def)

lemma other_row_wf [simp]:
  "run_wf r \<Longrightarrow> run_wf (exhaust_row now r)"
  "run_wf r \<Longrightarrow> run_wf (complete_cancelled_row now c fb r)"
  "run_wf (node_row now n cp r) = run_wf r" "run_wf (trace_row now t s fl r) = run_wf r"
  "run_wf (bump_sequence now r) = run_wf r" "run_wf (spend_row now m r) = run_wf r"
  "run_wf (cost_row now co r) = run_wf r"
  by (simp_all add: run_wf_def exhaust_row_def complete_cancelled_row_def node_row_def
      trace_row_def bump_sequence_def spend_row_def cost_row_def del: not_None_eq)

lemma row_step_wf: "row_step r r' \<Longrightarrow> run_wf r \<Longrightarrow> run_wf r'"
  by (induction rule: row_step.induct)
    (simp_all add: claim_row_wf retry_row_wf cancel_row_wf complete_row_wf renew_row_wf)

lemma row_step_keys: "row_step r r' \<Longrightarrow>
    run_id r' = run_id r \<and> run_tenant_id r' = run_tenant_id r
    \<and> run_idempotency_key r' = run_idempotency_key r \<and> run_request_digest r' = run_request_digest r
    \<and> run_plan_digest r' = run_plan_digest r \<and> run_input r' = run_input r"
  by (induction rule: row_step.induct) (simp_all add: row_defs Let_def)

lemma row_step_epoch: "row_step r r' \<Longrightarrow> run_fencing_epoch r \<le> run_fencing_epoch r'"
  by (induction rule: row_step.induct) (simp_all add: row_defs Let_def)

lemma row_step_sequence: "row_step r r' \<Longrightarrow> run_event_sequence r \<le> run_event_sequence r'"
  by (induction rule: row_step.induct) (simp_all add: row_defs Let_def)

lemma row_step_terminal:
  "row_step r r' \<Longrightarrow> terminal (run_status r) \<Longrightarrow> run_status r' = run_status r
     \<and> run_terminal_outcome r' = run_terminal_outcome r \<and> run_output r' = run_output r
     \<and> run_fencing_epoch r' = run_fencing_epoch r \<and> run_attempt r' = run_attempt r
     \<and> run_completed_at r' = run_completed_at r"
  by (induction rule: row_step.induct)
    (auto simp: row_defs terminal_def claimable_def exhausted_def Let_def)

text \<open>A cancelled run never runs again, and the epoch a cancellation found is never current
  again.\<close>

lemma row_step_cancel_marker:
  "row_step r r' \<Longrightarrow> run_cancellation_requested_at r \<noteq> None \<Longrightarrow>
     run_cancellation_requested_at r' \<noteq> None \<and> run_attempt r' = run_attempt r"
  by (induction rule: row_step.induct) (auto simp: row_defs claimable_def Let_def)

lemma new_run_wf: "run_wf (new_run rid t k rq p i now)"
  by (simp add: new_run_def run_wf_def terminal_def)

section \<open>Commands on the ledger\<close>

datatype run_op =
    OpAdmit harness_plan string
  | OpCreate string string json string string
  | OpClaim "string list" string int
  | OpRenew string string nat int
  | OpRetry string string nat string int
  | OpFailExhausted
  | OpCancel string string string
  | OpCompleteCancelled string "string option"
  | OpFinalize
  | OpNode string string nat "string option" "string option"
  | OpTrace string nat string nat string string int string
  | OpComplete string string nat run_status string json "string option"
  | OpEvent string string string "string option" event_status entries
  | OpNodeStarted fenced_run node_started
  | OpNodeFinished fenced_run node_finished
  | OpReserve receipt_row receipt_budget
  | OpReceiptDone string capability_result
  | OpReceiptAbandon string string
  | OpCost string "decimal option"

definition commit :: "db \<Rightarrow> 'a txn \<Rightarrow> db" where
  "commit d t = (case t of Inl _ \<Rightarrow> d | Inr (d', _) \<Rightarrow> d')"

lemma commit_simps [simp]: "commit d (Inl e) = d" "commit d (Inr (d', x)) = d'"
  by (simp_all add: commit_def)

text \<open>\<open>completeRun\<close> is typed with the five final statuses only, so a command that names
  another one does not exist.\<close>

fun ledger_step :: "(string \<Rightarrow> string) \<Rightarrow> db \<Rightarrow> time \<times> run_op \<Rightarrow> db" where
  "ledger_step sha d (now, OpAdmit p t) = commit d (admitPlan sha now d p t)"
| "ledger_step sha d (now, OpCreate uuid p i k t) = commit d (createRun sha uuid now d p i k t)"
| "ledger_step sha d (now, OpClaim locked w l) = fst (claimRun (\<lambda>i. i \<in> set locked) now d w l)"
| "ledger_step sha d (now, OpRenew rid w e l) = fst (renewLease now d rid w e l)"
| "ledger_step sha d (now, OpRetry rid w e c b) = fst (scheduleRunRetry now d rid w e c b)"
| "ledger_step sha d (now, OpFailExhausted) = fst (failExhaustedRuns now d)"
| "ledger_step sha d (now, OpCancel rid t reason) = fst (requestRunCancellation now d rid t reason)"
| "ledger_step sha d (now, OpCompleteCancelled rid c) = fst (completeCancelledRun now d rid c)"
| "ledger_step sha d (now, OpFinalize) = fst (finalizeAbandonedCancellations now d)"
| "ledger_step sha d (now, OpNode rid w e n cp) = commit d (updateRunNode now d rid w e n cp)"
| "ledger_step sha d (now, OpTrace rid a w e t s f sv) = commit d (bindRunTrace now d rid a w e t s f sv)"
| "ledger_step sha d (now, OpComplete rid w e st oc out c) =
     (if terminal st then commit d (completeRun now d rid w e st oc out c) else d)"
| "ledger_step sha d (now, OpEvent rid k c n st vs) = commit d (appendEvent now d rid k c n st vs)"
| "ledger_step sha d (now, OpNodeStarted fr i) = commit d (pg_nodeStarted now d fr i)"
| "ledger_step sha d (now, OpNodeFinished fr i) = commit d (pg_nodeFinished now d fr i)"
| "ledger_step sha d (now, OpReserve g b) = commit d (reserveGatewayReceipt now d g b)"
| "ledger_step sha d (now, OpReceiptDone rid res) = completeGatewayReceipt now d rid res"
| "ledger_step sha d (now, OpReceiptAbandon rid i) = abandonGatewayReceipt d rid i"
| "ledger_step sha d (now, OpCost rid c) = recordCapabilityCost now d rid c"

text \<open>A step changes each existing row by at most one row step, and may append one new row.\<close>

definition maybe_step :: "run_row \<Rightarrow> run_row \<Rightarrow> bool" where
  "maybe_step r r' \<longleftrightarrow> r' = r \<or> row_step r r'"

definition fresh_run :: "run_row \<Rightarrow> bool" where
  "fresh_run r \<longleftrightarrow> (\<exists>i t k q p inp now. r = new_run i t k q p inp now)"

lemma fresh_run_facts:
  assumes "fresh_run r"
  shows "run_wf r" and "run_event_sequence r = 0" and "run_attempt_limit r = 3"
    and "run_capability_calls r = 0" and "run_model_calls r = 0"
  using assms new_run_wf by (auto simp: fresh_run_def new_run_def)

definition rows_step :: "run_row list \<Rightarrow> run_row list \<Rightarrow> bool" where
  "rows_step rs rs' \<longleftrightarrow> list_all2 maybe_step rs (take (length rs) rs')
     \<and> (length rs' = length rs
        \<or> (\<exists>r. rs' = take (length rs) rs' @ [r] \<and> fresh_run r
            \<and> run_id r \<notin> run_id ` set rs
            \<and> (run_tenant_id r, run_idempotency_key r)
               \<notin> (\<lambda>x. (run_tenant_id x, run_idempotency_key x)) ` set rs))"

lemma rows_step_refl [simp]: "rows_step rs rs"
  by (auto simp: rows_step_def list.rel_refl maybe_step_def)

lemma rows_step_update:
  assumes "\<And>r. r \<in> set rs \<Longrightarrow> P r \<Longrightarrow> row_step r (f r)"
  shows "rows_step rs (sql_update P f rs)"
  using assms
  by (auto simp: rows_step_def sql_update_def list_all2_conv_all_nth maybe_step_def)

lemma claimRun_rows:
  assumes "keyed run_id (runs d)"
  shows "rows_step (runs d) (runs (fst (claimRun locked now d w l)))"
proof (cases "sql_first_by run_created_at (\<lambda>r. claimable now r \<and> \<not> locked (run_id r)) (runs d)")
  case None
  then show ?thesis by (simp add: claimRun_def)
next
  case (Some r)
  note r = sql_first_by_Some [OF Some]
  have "row_step x (claim_row now w l x)" if "x \<in> set (runs d)" and "run_id x = run_id r" for x
    using keyed_unique [OF assms that(1) r(1) that(2)] r(2) by (auto intro: row_step.claim)
  then show ?thesis using Some by (auto simp: claimRun_def intro: rows_step_update)
qed

lemma requestRunCancellation_rows:
  assumes "keyed run_id (runs d)"
  shows "rows_step (runs d) (runs (fst (requestRunCancellation now d rid t reason)))"
proof (cases "sql_find (\<lambda>r. run_id r = rid \<and> run_tenant_id r = t) (runs d)")
  case None
  then show ?thesis by (simp add: requestRunCancellation_def)
next
  case (Some r)
  note r = sql_find_Some [OF Some]
  show ?thesis
  proof (cases "run_status r \<in> {Queued, Running, Retrying}")
    case True
    have "row_step x (cancel_row now reason x)" if "x \<in> set (runs d)" and "run_id x = rid" for x
      using keyed_unique [OF assms that(1), of r] r that(2) True
      by (auto intro: row_step.cancel)
    then show ?thesis using Some True
      by (auto simp: requestRunCancellation_def intro: rows_step_update)
  next
    case False
    then show ?thesis using Some by (simp add: requestRunCancellation_def)
  qed
qed

lemma createRun_rows: "rows_step (runs d) (runs (commit d (createRun sha u now d p i k t)))"
proof -
  have "fresh_run (new_run i' t' k' q' p' inp' now')" for i' t' k' q' p' inp' now'
    unfolding fresh_run_def by blast
  moreover have "run_id (new_run i' t' k' q' p' inp' now') = i'"
    "run_tenant_id (new_run i' t' k' q' p' inp' now') = t'"
    "run_idempotency_key (new_run i' t' k' q' p' inp' now') = k'" for i' t' k' q' p' inp' now'
    by (simp_all add: new_run_def)
  ultimately show ?thesis
    by (auto simp: createRun_def Let_def rows_step_def sql_find_None list.rel_refl
        maybe_step_def commit_def split: option.splits)
qed

lemma ledger_rows:
  assumes "keyed run_id (runs d)"
  shows "rows_step (runs d) (runs (ledger_step sha d c))"
proof -
  obtain now op where c: "c = (now, op)" by fastforce
  show ?thesis unfolding c
  proof (cases op)
    case (OpClaim locked w l)
    then show "rows_step (runs d) (runs (ledger_step sha d (now, op)))"
      using claimRun_rows [OF assms] by simp
  next
    case (OpCancel rid t reason)
    then show "rows_step (runs d) (runs (ledger_step sha d (now, op)))"
      using requestRunCancellation_rows [OF assms] by simp
  next
    case (OpCreate u p i k t)
    then show "rows_step (runs d) (runs (ledger_step sha d (now, op)))"
      using createRun_rows by simp
  qed (auto simp: admitPlan_def renewLease_def scheduleRunRetry_def failExhaustedRuns_def
      completeCancelledRun_def finalizeAbandonedCancellations_def updateRunNode_def
      bindRunTrace_def completeRun_def appendEvent_def pg_nodeStarted_def pg_nodeFinished_def
      reserveGatewayReceipt_def completeGatewayReceipt_def abandonGatewayReceipt_def
      recordCapabilityCost_def holds_fence_def abandoned_def insert_attempt_def Let_def
      guard_result_def commit_def bind_result_def
      split: option.splits sum.splits
      intro!: rows_step_update intro: row_step.intros)
qed

section \<open>The invariant of the tables\<close>

abbreviation idem_key :: "run_row \<Rightarrow> string \<times> string" where
  "idem_key r \<equiv> (run_tenant_id r, run_idempotency_key r)"

definition ledger_inv :: "db \<Rightarrow> bool" where
  "ledger_inv d \<longleftrightarrow> keyed run_id (runs d) \<and> keyed idem_key (runs d) \<and> list_all run_wf (runs d)"

definition row_of :: "db \<Rightarrow> string \<Rightarrow> run_row option" where
  "row_of d rid = sql_find (\<lambda>r. run_id r = rid) (runs d)"

lemma maybe_step_keys: "maybe_step r r' \<Longrightarrow> run_id r' = run_id r \<and> idem_key r' = idem_key r
    \<and> run_request_digest r' = run_request_digest r"
  by (auto simp: maybe_step_def dest: row_step_keys)

lemma maybe_step_wf: "maybe_step r r' \<Longrightarrow> run_wf r \<Longrightarrow> run_wf r'"
  by (auto simp: maybe_step_def intro: row_step_wf)

lemma list_all2_maybe_map:
  assumes "list_all2 maybe_step rs rs'"
  shows "map run_id rs' = map run_id rs" and "map idem_key rs' = map idem_key rs"
  using assms by (induction rule: list_all2_induct) (auto dest: maybe_step_keys)

lemma rows_step_cases:
  assumes "rows_step rs rs'"
  obtains (same) "list_all2 maybe_step rs rs'"
  | (new) us r where "rs' = us @ [r]" and "list_all2 maybe_step rs us" and "fresh_run r"
      and "run_id r \<notin> run_id ` set rs"
      and "idem_key r \<notin> idem_key ` set rs"
proof -
  have all: "list_all2 maybe_step rs (take (length rs) rs')"
    using assms by (simp add: rows_step_def)
  show thesis
  proof (cases "length rs' = length rs")
    case True
    then show thesis using all same by simp
  next
    case False
    then show thesis using assms all new unfolding rows_step_def by blast
  qed
qed

lemma rows_step_inv:
  assumes "rows_step rs rs'" and "keyed run_id rs" and "keyed idem_key rs" and "list_all run_wf rs"
  shows "keyed run_id rs' \<and> keyed idem_key rs' \<and> list_all run_wf rs'"
proof -
  have wf: "list_all run_wf us" if "list_all2 maybe_step rs us" for us
    using that assms(4) by (induction rule: list_all2_induct) (auto intro: maybe_step_wf)
  from assms(1) show ?thesis
  proof (cases rule: rows_step_cases)
    case same
    then show ?thesis using assms(2,3) wf by (simp add: keyed_def list_all2_maybe_map)
  next
    case (new us r)
    have "set (map run_id us) = run_id ` set rs" and "set (map idem_key us) = idem_key ` set rs"
      using list_all2_maybe_map [OF new(2)] by simp_all
    then have "run_id r \<notin> run_id ` set us" and "idem_key r \<notin> idem_key ` set us"
      using new by auto
    moreover have "keyed run_id us" and "keyed idem_key us"
      using assms(2,3) by (simp_all add: keyed_def list_all2_maybe_map [OF new(2)])
    ultimately show ?thesis using new wf by (simp add: keyed_append fresh_run_facts)
  qed
qed

lemma ledger_step_inv: "ledger_inv d \<Longrightarrow> ledger_inv (ledger_step sha d c)"
  using rows_step_inv [OF ledger_rows] by (simp add: ledger_inv_def)

interpretation ledger: stepped "ledger_step sha" ledger_inv for sha
  by unfold_locales (rule ledger_step_inv)

text \<open>One row across a step and across a run of commands.\<close>

lemma row_of_iff:
  assumes "ledger_inv d"
  shows "row_of d rid = Some r \<longleftrightarrow> r \<in> set (runs d) \<and> run_id r = rid"
proof
  show "row_of d rid = Some r \<Longrightarrow> r \<in> set (runs d) \<and> run_id r = rid"
    by (auto simp: row_of_def dest: sql_find_Some)
next
  assume "r \<in> set (runs d) \<and> run_id r = rid"
  then show "row_of d rid = Some r"
    using sql_find_key [of run_id "runs d" r] assms by (auto simp: row_of_def ledger_inv_def)
qed

lemma row_of_unique:
  "ledger_inv d \<Longrightarrow> row_of d rid = Some r \<Longrightarrow> x \<in> set (runs d) \<Longrightarrow> run_id x = rid \<Longrightarrow> x = r"
  by (metis option.inject row_of_iff)

lemma row_of_wf: "ledger_inv d \<Longrightarrow> row_of d rid = Some r \<Longrightarrow> run_wf r"
  by (auto simp: row_of_iff ledger_inv_def list_all_iff)

lemma row_of_step:
  assumes "ledger_inv d" and "row_of d rid = Some r"
  obtains r' where "row_of (ledger_step sha d c) rid = Some r'" and "maybe_step r r'"
proof -
  let ?d = "ledger_step sha d c"
  have r: "r \<in> set (runs d)" "run_id r = rid" using assms by (auto simp: row_of_iff)
  then obtain i where i: "i < length (runs d)" "runs d ! i = r" by (auto simp: in_set_conv_nth)
  have "rows_step (runs d) (runs ?d)" using assms(1) by (auto simp: ledger_inv_def intro: ledger_rows)
  then have "list_all2 maybe_step (runs d) (take (length (runs d)) (runs ?d))"
    by (simp add: rows_step_def)
  then have "maybe_step r (runs ?d ! i)" and "i < length (runs ?d)"
    using i by (auto simp: list_all2_conv_all_nth)
  moreover from this have "row_of ?d rid = Some (runs ?d ! i)"
    using ledger_step_inv [OF assms(1)] r(2) by (auto simp: row_of_iff dest: maybe_step_keys)
  ultimately show thesis by (blast intro: that)
qed

lemma row_of_run:
  assumes "ledger_inv d" and "row_of d rid = Some r"
    and "\<And>x y. Q x \<Longrightarrow> row_step x y \<Longrightarrow> Q y" and "Q r"
  obtains r' where "row_of (run_steps (ledger_step sha) d cs) rid = Some r'" and "Q r'"
proof -
  have "\<exists>r'. row_of (run_steps (ledger_step sha) d cs) rid = Some r' \<and> Q r'"
    using assms(1,2,4)
  proof (induction cs arbitrary: d r)
    case Nil
    then show ?case by simp
  next
    case (Cons c cs)
    obtain r1 where r1: "row_of (ledger_step sha d c) rid = Some r1" "maybe_step r r1"
      using Cons.prems(1,2) by (rule row_of_step)
    then have "Q r1" using Cons.prems(3) assms(3) by (auto simp: maybe_step_def)
    then show ?case using Cons.IH [OF ledger_step_inv [OF Cons.prems(1)] r1(1)] by simp
  qed
  then show thesis using that by blast
qed

lemma row_of_run_epoch:
  assumes "ledger_inv d" and "row_of d rid = Some r"
  obtains r' where "row_of (run_steps (ledger_step sha) d cs) rid = Some r'"
    and "run_fencing_epoch r \<le> run_fencing_epoch r'"
  by (rule row_of_run [OF assms, where Q = "\<lambda>x. run_fencing_epoch r \<le> run_fencing_epoch x"])
    (auto dest: row_step_epoch)

section \<open>Fenced writes\<close>

text \<open>
  The contract of every write that names a fence: the caller is told whether it took effect,
  and a caller that does not hold the fence of the run changes nothing.
\<close>

locale fenced_write =
  fixes fwrite :: "'i \<Rightarrow> time \<Rightarrow> db \<Rightarrow> string \<Rightarrow> string \<Rightarrow> nat \<Rightarrow> db \<times> bool"
  assumes stale_noop:
    "(\<And>r. r \<in> set (runs d) \<Longrightarrow> \<not> holds_fence rid w e r) \<Longrightarrow> fwrite i now d rid w e = (d, False)"
begin

lemma old_epoch_noop:
  assumes "ledger_inv d" and "row_of d rid = Some r" and "e < run_fencing_epoch r"
  shows "fwrite i now d rid w e = (d, False)"
proof (rule stale_noop)
  fix x assume "x \<in> set (runs d)"
  then show "\<not> holds_fence rid w e x"
    using assms(3) row_of_unique [OF assms(1,2)] by (auto simp: holds_fence_def)
qed

lemma superseded_forever:
  assumes "ledger_inv d" and "row_of d rid = Some r" and "e < run_fencing_epoch r"
  shows "fwrite i now (run_steps (ledger_step sha) d cs) rid w e
    = (run_steps (ledger_step sha) d cs, False)"
proof -
  obtain r' where "row_of (run_steps (ledger_step sha) d cs) rid = Some r'"
    and "run_fencing_epoch r \<le> run_fencing_epoch r'"
    using assms(1,2) by (rule row_of_run_epoch)
  then show ?thesis using assms ledger.run_inv by (auto intro: old_epoch_noop)
qed

end

definition flagged :: "db \<Rightarrow> 'a txn \<Rightarrow> db \<times> bool" where
  \<comment> \<open>a write that throws reports its refusal by the exception\<close>
  "flagged d t = (case t of Inl _ \<Rightarrow> (d, False) | Inr (d', _) \<Rightarrow> (d', True))"

lemma flagged_simps [simp]: "flagged d (Inl e) = (d, False)" "flagged d (Inr (d', x)) = (d', True)"
  by (simp_all add: flagged_def)

lemma no_holder:
  assumes "\<And>r. r \<in> set rs \<Longrightarrow> \<not> holds_fence rid w e r"
  shows "sql_update (holds_fence rid w e) f rs = rs" and "sql_count (holds_fence rid w e) rs = 0"
    and "sql_update (\<lambda>r. holds_fence rid w e r \<and> B r) f rs = rs"
    and "sql_count (\<lambda>r. holds_fence rid w e r \<and> B r) rs = 0"
  using assms by (auto simp: sql_count_0 intro!: sql_update_none)

interpretation renew: fenced_write "\<lambda>l now d rid w e. renewLease now d rid w e l"
  by unfold_locales (simp add: renewLease_def no_holder)

interpretation schedule: fenced_write
  "\<lambda>(c, b) now d rid w e. scheduleRunRetry now d rid w e c b"
  by unfold_locales (auto simp: scheduleRunRetry_def no_holder)

interpretation node_write: fenced_write
  "\<lambda>(n, cp) now d rid w e. flagged d (updateRunNode now d rid w e n cp)"
  by unfold_locales (auto simp: updateRunNode_def no_holder)

interpretation trace_write: fenced_write
  "\<lambda>(a, t, s, f, sv) now d rid w e. flagged d (bindRunTrace now d rid a w e t s f sv)"
  by unfold_locales (auto simp: bindRunTrace_def no_holder)

interpretation completion: fenced_write
  "\<lambda>(st, oc, out, c) now d rid w e. flagged d (completeRun now d rid w e st oc out c)"
  by unfold_locales (auto simp: completeRun_def no_holder)

interpretation start_write: fenced_write
  "\<lambda>(a, i) now d rid w e. flagged d (pg_nodeStarted now d \<lparr>fr_runId = rid, fr_attempt = a,
      fr_workerId = w, fr_fencingEpoch = e\<rparr> i)"
  by unfold_locales (auto simp: pg_nodeStarted_def updateRunNode_def no_holder)

lemma flagged_False: "flagged d t = (d', False) \<Longrightarrow> \<exists>e. t = Inl e"
  by (cases t) auto

lemma claimRun_epoch:
  assumes "ledger_inv d" and "claimRun locked now d w l = (d', Some r')"
  obtains r where "row_of d (run_id r') = Some r" and "claimable now r"
    and "r' = claim_row now w l r" and "row_of d' (run_id r') = Some r'"
    and "ledger_inv d'" and "\<not> locked (run_id r')"
proof -
  obtain r where first: "sql_first_by run_created_at (\<lambda>r. claimable now r \<and> \<not> locked (run_id r)) (runs d) = Some r"
    and r': "r' = claim_row now w l r"
    and d': "d' = d\<lparr>runs := sql_update (\<lambda>x. run_id x = run_id r) (claim_row now w l) (runs d)\<rparr>"
    using assms(2) by (auto simp: claimRun_def split: option.splits)
  note r = sql_first_by_Some [OF first]
  have id': "run_id r' = run_id r" by (simp add: r' claim_row_def)
  have "rows_step (runs d) (runs d')"
    using claimRun_rows [of d locked now w l] assms by (simp add: ledger_inv_def)
  then have inv': "ledger_inv d'" using rows_step_inv assms(1) by (simp add: ledger_inv_def)
  have "r' \<in> set (runs d')" using r(1) by (auto simp: d' r' set_sql_update)
  then show thesis
    using that [of r] r r' id' inv' assms(1) by (auto simp: row_of_iff)
qed

section \<open>Frames\<close>

text \<open>
  What no statement but one kind writes. \<open>k\<close> is a view of a row that the lease and
  cancellation statements leave alone; the two extensions add the journal or the budget.
\<close>

locale row_frame =
  fixes k :: "run_row \<Rightarrow> 'k"
  assumes frames [simp]:
    "k (claim_row now w l r) = k r" "k (renew_row now l r) = k r"
    "k (retry_row now c b r) = k r" "k (exhaust_row now r) = k r"
    "k (cancel_row now reason r) = k r" "k (complete_cancelled_row now oc fb r) = k r"
    "k (node_row now n cp r) = k r" "k (trace_row now t sp fl r) = k r"
    "k (complete_row now st oc' out oc r) = k r" "k (cost_row now co r) = k r"
    and key: "k r = k r' \<Longrightarrow> run_id r = run_id r'"
begin

definition kept :: "db \<Rightarrow> db \<Rightarrow> bool" where
  "kept d d' \<longleftrightarrow> map k (take (length (runs d)) (runs d')) = map k (runs d)"

lemma kept_same [simp]: "runs d' = runs d \<Longrightarrow> kept d d'"
  by (simp add: kept_def)

lemma kept_update: "(\<And>r. k (f r) = k r) \<Longrightarrow> runs d' = sql_update P f (runs d) \<Longrightarrow> kept d d'"
  by (simp add: kept_def sql_update_key)

lemma kept_step:
  assumes "\<And>rid ek c n st vs. op \<noteq> OpEvent rid ek c n st vs" and "\<And>g b. op \<noteq> OpReserve g b"
  shows "kept d (ledger_step sha d (now, op))"
proof (cases op)
  case (OpCreate u p i ik t)
  then show ?thesis
    by (auto simp: createRun_def Let_def commit_def kept_def split: option.splits)
qed (use assms in \<open>auto simp: admitPlan_def renewLease_def scheduleRunRetry_def failExhaustedRuns_def
    completeCancelledRun_def finalizeAbandonedCancellations_def updateRunNode_def
    bindRunTrace_def completeRun_def pg_nodeStarted_def pg_nodeFinished_def claimRun_def
    requestRunCancellation_def completeGatewayReceipt_def abandonGatewayReceipt_def
    recordCapabilityCost_def insert_attempt_def Let_def guard_result_def commit_def
    bind_result_def kept_def sql_update_key split: option.splits sum.splits\<close>)

lemma kept_row:
  assumes "kept d d'" and "ledger_inv d" and "ledger_inv d'" and "row_of d rid = Some r"
  obtains r' where "row_of d' rid = Some r'" and "k r' = k r"
proof -
  have r: "r \<in> set (runs d)" "run_id r = rid" using assms(2,4) by (auto simp: row_of_iff)
  then have "k r \<in> set (map k (take (length (runs d)) (runs d')))"
    using assms(1) by (auto simp: kept_def)
  then obtain r' where "r' \<in> set (runs d')" "k r' = k r" by (auto dest: in_set_takeD)
  then show thesis using that key [of r' r] r assms(3) by (auto simp: row_of_iff)
qed

end

locale row_frame_event = row_frame +
  assumes bump_frame [simp]: "k (bump_sequence now r) = k r"
begin

lemma kept_all_but_reserve:
  assumes "\<And>g b. op \<noteq> OpReserve g b"
  shows "kept d (ledger_step sha d (now, op))"
proof (cases "\<exists>rid ek c n st vs. op = OpEvent rid ek c n st vs")
  case True
  then show ?thesis
    by (auto simp: appendEvent_def Let_def guard_result_def commit_def kept_def sql_update_key
        split: option.splits)
next
  case False
  then show ?thesis using assms by (blast intro: kept_step)
qed

end

locale row_frame_spend = row_frame +
  assumes spend_frame [simp]: "k (spend_row now m r) = k r"
begin

lemma kept_all_but_event:
  assumes "\<And>rid ek c n st vs. op \<noteq> OpEvent rid ek c n st vs"
  shows "kept d (ledger_step sha d (now, op))"
proof (cases "\<exists>g b. op = OpReserve g b")
  case True
  then show ?thesis
    by (auto simp: reserveGatewayReceipt_def Let_def guard_result_def commit_def kept_def
        sql_update_key split: option.splits)
next
  case False
  then show ?thesis using assms by (blast intro: kept_step)
qed

end

definition calls_view :: "run_row \<Rightarrow> string \<times> nat \<times> nat" where
  "calls_view r = (run_id r, run_capability_calls r, run_model_calls r)"

definition sequence_view :: "run_row \<Rightarrow> string \<times> nat" where
  "sequence_view r = (run_id r, run_event_sequence r)"

interpretation calls: row_frame_event calls_view
  by unfold_locales (simp_all add: calls_view_def row_defs Let_def)

interpretation sequences: row_frame_spend sequence_view
  by unfold_locales (simp_all add: sequence_view_def row_defs Let_def)

end
