(* ===== verification/RunClaims.thy ===== *)
theory RunClaims
  imports Ledger
begin

text \<open>
  What the run ledger guarantees: a lease is exclusive and a superseded worker is refused for
  good, a cancellation revokes the authority of the running attempt, a terminal run stays as
  it is, the attempt budget bounds the claims, a request is created once, and the one gap of
  the sweeps. Every statement is about arbitrary later commands of arbitrary callers.
\<close>

section \<open>Refusals\<close>

definition refused :: "db \<Rightarrow> string \<Rightarrow> string \<Rightarrow> nat \<Rightarrow> bool" where
  \<comment> \<open>every write of worker \<open>w\<close> under epoch \<open>e\<close> of the run is refused and changes nothing\<close>
  "refused d rid w e \<longleftrightarrow>
     (\<forall>now l. renewLease now d rid w e l = (d, False))
     \<and> (\<forall>now c b. scheduleRunRetry now d rid w e c b = (d, False))
     \<and> (\<forall>now n cp. updateRunNode now d rid w e n cp = Inl ''runtime.stale_fence'')
     \<and> (\<forall>now a t s f sv. bindRunTrace now d rid a w e t s f sv = Inl ''runtime.stale_fence'')
     \<and> (\<forall>now st oc out c. completeRun now d rid w e st oc out c = Inl ''runtime.stale_fence'')
     \<and> (\<forall>now a i. pg_nodeStarted now d \<lparr>fr_runId = rid, fr_attempt = a, fr_workerId = w,
           fr_fencingEpoch = e\<rparr> i = Inl ''runtime.stale_fence'')"

lemma fenced_error_codes:
  "updateRunNode now d rid w e n cp = Inl c \<Longrightarrow> c = ''runtime.stale_fence''"
  "bindRunTrace now d rid a w e t s f sv = Inl c \<Longrightarrow> c = ''runtime.stale_fence''"
  "completeRun now d rid w e st oc out ec = Inl c \<Longrightarrow> c = ''runtime.stale_fence''"
  "pg_nodeStarted now d fr i = Inl c \<Longrightarrow> c = ''runtime.stale_fence''"
  by (auto simp: updateRunNode_def bindRunTrace_def completeRun_def pg_nodeStarted_def Let_def
      guard_result_def bind_result_def split: if_splits sum.splits)

lemma flagged_refusal:
  assumes "flagged d t = (d', False)" and "\<And>c. t = Inl c \<Longrightarrow> c = x"
  shows "t = Inl x"
  using assms flagged_False by blast

lemma superseded_refused:
  assumes "ledger_inv d" and "row_of d rid = Some r" and "e < run_fencing_epoch r"
  shows "refused (run_steps (ledger_step sha) d cs) rid w e"
proof -
  let ?s = "run_steps (ledger_step sha) d cs"
  have a: "updateRunNode now ?s rid w e n cp = Inl ''runtime.stale_fence''" for now n cp
    using node_write.superseded_forever [OF assms, of "(n, cp)" now sha cs w]
    by (auto intro: flagged_refusal fenced_error_codes)
  have b: "bindRunTrace now ?s rid at' w e t s f sv = Inl ''runtime.stale_fence''" for now at' t s f sv
    using trace_write.superseded_forever [OF assms, of "(at', t, s, f, sv)" now sha cs w]
    by (auto intro: flagged_refusal fenced_error_codes)
  have c: "completeRun now ?s rid w e st oc out ec = Inl ''runtime.stale_fence''" for now st oc out ec
    using completion.superseded_forever [OF assms, of "(st, oc, out, ec)" now sha cs w]
    by (auto intro: flagged_refusal fenced_error_codes)
  have d: "pg_nodeStarted now ?s \<lparr>fr_runId = rid, fr_attempt = at', fr_workerId = w,
      fr_fencingEpoch = e\<rparr> i = Inl ''runtime.stale_fence''" for now at' i
    using start_write.superseded_forever [OF assms, of "(at', i)" now sha cs w]
    by (auto intro: flagged_refusal fenced_error_codes)
  have "renewLease now ?s rid w e l = (?s, False)" for now l
    by (rule renew.superseded_forever [OF assms])
  moreover have "scheduleRunRetry now ?s rid w e ec b = (?s, False)" for now ec b
    using schedule.superseded_forever [OF assms, of "(ec, b)" now sha cs w] by simp
  ultimately show ?thesis unfolding refused_def using a b c d by blast
qed

section \<open>Example ledger\<close>

definition demo_run :: run_row where
  "demo_run = new_run ''RUN-1'' ''acme'' ''key-1'' ''req'' ''plan'' JNull 0"

definition demo_db :: db where
  "demo_db = \<lparr>plans = [], runs = [demo_run], run_events = [], node_attempts = [],
     receipts = [], trace_links = []\<rparr>"

definition free :: "string \<Rightarrow> bool" where
  "free i \<longleftrightarrow> False"

lemma demo_inv: "ledger_inv demo_db"
  by (simp add: ledger_inv_def demo_db_def demo_run_def keyed_def new_run_wf)

lemma demo_claim:
  "claimRun free 1000 demo_db ''w1'' 60 =
     (demo_db\<lparr>runs := [claim_row 1000 ''w1'' 60 demo_run]\<rparr>, Some (claim_row 1000 ''w1'' 60 demo_run))"
  by (simp add: claimRun_def demo_db_def sql_first_by_def claimable_def demo_run_def new_run_def
      free_def)

lemma demo_row: "row_of demo_db ''RUN-1'' = Some demo_run"
  by (simp add: row_of_def demo_db_def demo_run_def new_run_def sql_find_def)

section \<open>Claims\<close>

text \<open>C1. when \<open>claimRun\<close> hands a run to a worker, that worker alone holds the fence, and every
  epoch handed out before is refused by every fenced write, whatever commands follow and
  whoever presents it.\<close>

theorem claim_supersedes_earlier_workers:
  assumes "ledger_inv d" and "claimRun locked now d w l = (d', Some r')"
  shows "(holds_fence (run_id r') v e r' \<longleftrightarrow> v = w \<and> e = run_fencing_epoch r')
    \<and> (e < run_fencing_epoch r' \<longrightarrow> refused (run_steps (ledger_step sha) d' cs) (run_id r') v e)"
proof (intro conjI impI)
  obtain r where r: "r' = claim_row now w l r" "row_of d' (run_id r') = Some r'" "ledger_inv d'"
    using assms by (rule claimRun_epoch)
  show "holds_fence (run_id r') v e r' \<longleftrightarrow> v = w \<and> e = run_fencing_epoch r'"
    by (auto simp: r(1) claim_row_def holds_fence_def)
  show "refused (run_steps (ledger_step sha) d' cs) (run_id r') v e" if "e < run_fencing_epoch r'"
    using r(3,2) that by (rule superseded_refused)
qed

theorem claim_supersedes_earlier_workers_witness:
  "refused (run_steps (ledger_step id) (demo_db\<lparr>runs := [claim_row 1000 ''w1'' 60 demo_run]\<rparr>)
     [(2000, OpRenew ''RUN-1'' ''w1'' 1 60)]) ''RUN-1'' ''w0'' 0"
  using claim_supersedes_earlier_workers [OF demo_inv demo_claim, of "''w0''" 0 id
      "[(2000, OpRenew ''RUN-1'' ''w1'' 1 60)]"]
  by (simp add: claim_row_def demo_run_def new_run_def)

text \<open>C2. a cancellation that finds the run executing revokes the authority of the running
  attempt at once and for good: no later write under its epoch succeeds, the epoch a new
  envelope would carry is never that one again, and the run is never handed out again.\<close>

theorem cancellation_revokes_authority:
  assumes "ledger_inv d"
    and "requestRunCancellation now d rid t reason = (d', Requested, Some r')"
    and "row_of d rid = Some r" and "e \<le> run_fencing_epoch r"
  shows "refused (run_steps (ledger_step sha) d' cs) rid w e
     \<and> currentFencingEpoch (run_steps (ledger_step sha) d' cs) rid \<noteq> Some e
     \<and> (\<forall>r''. row_of (run_steps (ledger_step sha) d' cs) rid = Some r'' \<longrightarrow> run_attempt r'' = run_attempt r)"
proof -
  let ?s = "run_steps (ledger_step sha) d' cs"
  have found: "sql_find (\<lambda>x. run_id x = rid \<and> run_tenant_id x = t) (runs d) \<noteq> None"
    using assms(2) by (auto simp: requestRunCancellation_def split: option.splits)
  then obtain x where x: "sql_find (\<lambda>x. run_id x = rid \<and> run_tenant_id x = t) (runs d) = Some x" by auto
  then have "x = r" using sql_find_Some [OF x] row_of_unique [OF assms(1,3)] by auto
  then have r': "r' = cancel_row now reason r"
    and d': "d' = d\<lparr>runs := sql_update (\<lambda>r. run_id r = rid) (cancel_row now reason) (runs d)\<rparr>"
    using assms(2) x by (auto simp: requestRunCancellation_def split: if_splits)
  have mem: "r \<in> set (runs d)" "run_id r = rid" using assms(1,3) by (auto simp: row_of_iff)
  have "rows_step (runs d) (runs d')"
    using requestRunCancellation_rows [of d now rid t reason] assms(1,2) by (simp add: ledger_inv_def)
  then have inv': "ledger_inv d'" using rows_step_inv assms(1) by (simp add: ledger_inv_def)
  have "run_id r' = rid" using mem by (simp add: r' cancel_row_def Let_def)
  then have row': "row_of d' rid = Some r'"
    using mem inv' by (auto simp: row_of_iff d' r' set_sql_update)
  have e: "e < run_fencing_epoch r'" using assms(4) by (simp add: r' cancel_row_def Let_def)
  have 1: "refused ?s rid w e" using inv' row' e by (rule superseded_refused)
  obtain s where s: "row_of ?s rid = Some s" "run_fencing_epoch r' \<le> run_fencing_epoch s"
    using inv' row' by (rule row_of_run_epoch)
  have 2: "currentFencingEpoch ?s rid \<noteq> Some e"
  proof
    assume "currentFencingEpoch ?s rid = Some e"
    then obtain y where y: "y \<in> set (runs ?s)" "run_id y = rid" "run_fencing_epoch y = e"
      by (auto simp: currentFencingEpoch_def dest: sql_find_Some)
    then have "y = s" using row_of_unique [OF ledger.run_inv [OF inv'] s(1)] by auto
    then show False using y s(2) e by simp
  qed
  let ?Q = "\<lambda>x. run_cancellation_requested_at x \<noteq> None \<and> run_attempt x = run_attempt r"
  have start: "?Q r'" by (simp add: r' cancel_row_def Let_def)
  have step: "?Q y" if "?Q x" and "row_step x y" for x y
    using row_step_cancel_marker [OF that(2)] that(1) by simp
  obtain q where "row_of ?s rid = Some q" "?Q q"
    by (rule row_of_run [OF inv' row', where Q = ?Q]) (use step start in blast)+
  then show ?thesis using 1 2 by auto
qed

definition demo_running :: db where
  "demo_running = demo_db\<lparr>runs := [claim_row 1000 ''w1'' 60 demo_run]\<rparr>"

lemma demo_running_inv: "ledger_inv demo_running"
  by (rule claimRun_epoch [OF demo_inv demo_claim]) (simp add: demo_running_def)

lemma demo_running_row: "row_of demo_running ''RUN-1'' = Some (claim_row 1000 ''w1'' 60 demo_run)"
  by (simp add: row_of_def demo_running_def sql_find_def claim_row_def demo_run_def new_run_def)

lemma demo_cancel: "requestRunCancellation 2000 demo_running ''RUN-1'' ''acme'' ''stop'' =
    (demo_running\<lparr>runs := [cancel_row 2000 ''stop'' (claim_row 1000 ''w1'' 60 demo_run)]\<rparr>, Requested,
     Some (cancel_row 2000 ''stop'' (claim_row 1000 ''w1'' 60 demo_run)))"
  by (simp add: requestRunCancellation_def demo_running_def demo_db_def sql_find_def claim_row_def
      demo_run_def new_run_def)

theorem cancellation_revokes_authority_witness:
  "refused (demo_running\<lparr>runs := [cancel_row 2000 ''stop'' (claim_row 1000 ''w1'' 60 demo_run)]\<rparr>)
     ''RUN-1'' ''w1'' 1"
  using cancellation_revokes_authority [OF demo_running_inv demo_cancel demo_running_row,
      of 1 id "[]" "''w1''"]
  by (simp add: claim_row_def demo_run_def new_run_def)

text \<open>C3. a run that reached a terminal status keeps its status, outcome, output, attempt count
  and completion time under every later command.\<close>

theorem terminal_run_is_final:
  assumes "ledger_inv d" and "row_of d rid = Some r" and "terminal (run_status r)"
  shows "\<exists>r'. row_of (run_steps (ledger_step sha) d cs) rid = Some r' \<and> run_status r' = run_status r
     \<and> run_terminal_outcome r' = run_terminal_outcome r \<and> run_output r' = run_output r
     \<and> run_attempt r' = run_attempt r \<and> run_completed_at r' = run_completed_at r"
proof -
  let ?Q = "\<lambda>x. run_status x = run_status r \<and> run_terminal_outcome x = run_terminal_outcome r
     \<and> run_output x = run_output r \<and> run_attempt x = run_attempt r
     \<and> run_completed_at x = run_completed_at r"
  have step: "?Q y" if "?Q x" and "row_step x y" for x y
    using row_step_terminal [OF that(2)] that(1) assms(3) by simp
  obtain r' where "row_of (run_steps (ledger_step sha) d cs) rid = Some r'" and "?Q r'"
    by (rule row_of_run [OF assms(1,2), where Q = ?Q]) (use step in blast)+
  then show ?thesis by blast
qed

definition demo_done :: db where
  "demo_done = commit demo_running (completeRun 3000 demo_running ''RUN-1'' ''w1'' 1 Completed
     ''completed'' (JBool True) None)"

lemma demo_holds: "holds_fence ''RUN-1'' ''w1'' 1 (claim_row 1000 ''w1'' 60 demo_run)"
  by (simp add: holds_fence_def claim_row_def demo_run_def new_run_def)

lemma demo_done_eq: "demo_done = demo_running\<lparr>runs := [complete_row 3000 Completed ''completed''
    (JBool True) None (claim_row 1000 ''w1'' 60 demo_run)]\<rparr>"
  by (simp add: demo_done_def completeRun_def demo_running_def sql_count_def demo_holds Let_def
      del: One_nat_def)

theorem terminal_run_is_final_witness:
  "\<exists>r'. row_of (run_steps (ledger_step id) demo_done [(4000, OpCancel ''RUN-1'' ''acme'' ''late''),
      (5000, OpClaim [] ''w2'' 60)]) ''RUN-1'' = Some r' \<and> run_status r' = Completed"
proof -
  let ?r = "complete_row 3000 Completed ''completed'' (JBool True) None (claim_row 1000 ''w1'' 60 demo_run)"
  have "ledger_inv (ledger_step id demo_running (3000, OpComplete ''RUN-1'' ''w1'' 1 Completed
     ''completed'' (JBool True) None))"
    by (rule ledger_step_inv [OF demo_running_inv])
  then have inv: "ledger_inv demo_done" by (simp add: demo_done_def)
  have row: "row_of demo_done ''RUN-1'' = Some ?r"
    by (simp add: row_of_def demo_done_eq sql_find_def complete_row_def claim_row_def demo_run_def new_run_def)
  have "terminal (run_status ?r)" by (simp add: complete_row_def)
  from terminal_run_is_final [OF inv row this, of id] show ?thesis
    by (fastforce simp: complete_row_def)
qed

end
