(* ===== verification/JournalClaims.thy ===== *)
theory JournalClaims
  imports RunClaims
begin

text \<open>
  What the ledger guarantees about the rows it keeps beside the run: the event journal has no
  gap, every receipt is paid for and the budget is never exceeded, a completed receipt is
  replayed and never paid twice, a create request is answered by one run, and the one gap of
  the sweeps.
\<close>

section \<open>Rows that appear\<close>

definition empty_db :: db where
  "empty_db = \<lparr>plans = [], runs = [], run_events = [], node_attempts = [], receipts = [],
     trace_links = []\<rparr>"

lemma empty_inv [simp]: "ledger_inv empty_db"
  by (simp add: ledger_inv_def empty_db_def keyed_def)

lemma appearing_row:
  assumes "ledger_inv d" and "row_of d rid = None" and "row_of (ledger_step sha d c) rid = Some r"
  shows "fresh_run r"
proof -
  let ?d = "ledger_step sha d c"
  have r: "r \<in> set (runs ?d)" "run_id r = rid"
    using assms(3) by (auto simp: row_of_def dest: sql_find_Some)
  have no: "rid \<notin> run_id ` set (runs d)" using assms(2) by (auto simp: row_of_def sql_find_None)
  have "rows_step (runs d) (runs ?d)" using assms(1) by (auto simp: ledger_inv_def intro: ledger_rows)
  then show ?thesis
  proof (cases rule: rows_step_cases)
    case same
    then have "run_id ` set (runs ?d) = run_id ` set (runs d)"
      by (metis list.set_map list_all2_maybe_map(1))
    then show ?thesis using r no by auto
  next
    case (new us x)
    have "run_id ` set us = run_id ` set (runs d)"
      by (metis list.set_map list_all2_maybe_map(1) new(2))
    then show ?thesis using r no new by auto
  qed
qed

lemma row_of_step_back:
  assumes "ledger_inv d" and "row_of (ledger_step sha d c) rid = Some r'"
  obtains (new) "row_of d rid = None" and "fresh_run r'"
  | (old) r where "row_of d rid = Some r" and "maybe_step r r'"
proof (cases "row_of d rid")
  case None
  then show thesis using appearing_row assms new by blast
next
  case (Some r)
  obtain x where "row_of (ledger_step sha d c) rid = Some x" "maybe_step r x"
    using assms(1) Some by (rule row_of_step)
  then show thesis using Some assms(2) old by simp
qed

section \<open>Every reachable ledger\<close>

lemma row_step_limit: "row_step r r' \<Longrightarrow> run_attempt_limit r' = run_attempt_limit r"
  by (induction rule: row_step.induct) (simp_all add: row_defs Let_def)

definition limits_3 :: "db \<Rightarrow> bool" where
  "limits_3 d \<longleftrightarrow> list_all (\<lambda>r. run_attempt_limit r = 3) (runs d)"

lemma limits_3_step:
  assumes "ledger_inv d" and "limits_3 d"
  shows "limits_3 (ledger_step sha d c)"
  unfolding limits_3_def list_all_iff
proof
  fix r' assume "r' \<in> set (runs (ledger_step sha d c))"
  then have "row_of (ledger_step sha d c) (run_id r') = Some r'"
    using ledger_step_inv [OF assms(1)] by (simp add: row_of_iff)
  with assms(1) show "run_attempt_limit r' = 3"
  proof (cases rule: row_of_step_back)
    case new
    then show ?thesis by (simp add: fresh_run_facts)
  next
    case (old r)
    then have "r \<in> set (runs d)" using assms(1) by (simp add: row_of_iff)
    then have "run_attempt_limit r = 3" using assms(2) by (simp add: limits_3_def list_all_iff)
    then show ?thesis using old(2) by (auto simp: maybe_step_def dest: row_step_limit)
  qed
qed

text \<open>C4. in every state the ledger can reach from an empty database, run ids and the pair of
  tenant and idempotency key are unique, every row satisfies the row invariant (a lease
  exactly while running, a completion time and an outcome exactly when terminal), and no
  attempt count is above three.\<close>

theorem reachable_runs_well_formed:
  "keyed run_id (runs (run_steps (ledger_step sha) empty_db cs))
   \<and> keyed (\<lambda>r. (run_tenant_id r, run_idempotency_key r)) (runs (run_steps (ledger_step sha) empty_db cs))
   \<and> list_all (\<lambda>r. run_wf r \<and> run_attempt r \<le> 3) (runs (run_steps (ledger_step sha) empty_db cs))"
proof -
  let ?s = "run_steps (ledger_step sha) empty_db cs"
  have inv: "ledger_inv ?s" by (rule ledger.run_inv) simp
  have "limits_3 ?s"
  proof (rule ledger.run_stable [where Q = limits_3, OF _ empty_inv])
    show "limits_3 empty_db" by (simp add: limits_3_def empty_db_def)
  qed (rule limits_3_step)
  then have "list_all (\<lambda>r. run_wf r \<and> run_attempt r \<le> 3) (runs ?s)"
    using inv by (force simp: ledger_inv_def limits_3_def list_all_iff run_wf_def)
  then show ?thesis using inv by (simp add: ledger_inv_def)
qed

section \<open>The event journal\<close>

definition sequence_of :: "db \<Rightarrow> string \<Rightarrow> nat" where
  "sequence_of d rid = (case row_of d rid of None \<Rightarrow> 0 | Some r \<Rightarrow> run_event_sequence r)"

definition events_of :: "db \<Rightarrow> string \<Rightarrow> event_row list" where
  "events_of d rid = filter (\<lambda>e. ev_run_id e = rid) (run_events d)"

definition journal_ok :: "db \<Rightarrow> bool" where
  "journal_ok d \<longleftrightarrow> (\<forall>rid. map ev_sequence (events_of d rid) = [1..<Suc (sequence_of d rid)])
     \<and> keyed (\<lambda>e. (ev_run_id e, ev_event_key e)) (run_events d)"

lemma events_frame:
  assumes "\<And>rid k c n st vs. op \<noteq> OpEvent rid k c n st vs"
  shows "run_events (ledger_step sha d (now, op)) = run_events d"
proof (cases op)
  case (OpEvent rid k c n st vs)
  then show ?thesis using assms by blast
qed (auto simp: admitPlan_def createRun_def renewLease_def scheduleRunRetry_def
    failExhaustedRuns_def completeCancelledRun_def finalizeAbandonedCancellations_def
    updateRunNode_def bindRunTrace_def completeRun_def pg_nodeStarted_def pg_nodeFinished_def
    claimRun_def requestRunCancellation_def reserveGatewayReceipt_def completeGatewayReceipt_def
    abandonGatewayReceipt_def recordCapabilityCost_def insert_attempt_def Let_def
    guard_result_def commit_def bind_result_def split: option.splits sum.splits)

lemma sequence_frame:
  assumes "ledger_inv d" and "\<And>rid k c n st vs. op \<noteq> OpEvent rid k c n st vs"
  shows "sequence_of (ledger_step sha d (now, op)) rid = sequence_of d rid"
proof (cases "row_of d rid")
  case None
  then show ?thesis
    using appearing_row [OF assms(1) None, of sha "(now, op)"]
    by (auto simp: sequence_of_def fresh_run_facts split: option.splits)
next
  case (Some r)
  have "sequences.kept d (ledger_step sha d (now, op))"
    using assms(2) by (rule sequences.kept_all_but_event)
  then obtain r' where "row_of (ledger_step sha d (now, op)) rid = Some r'"
    and "sequence_view r' = sequence_view r"
    using assms(1) ledger_step_inv [OF assms(1)] Some by (rule sequences.kept_row)
  then show ?thesis using Some by (simp add: sequence_of_def sequence_view_def)
qed

lemma bump_run_id [simp]: "run_id (bump_sequence now r) = run_id r"
  by (simp add: bump_sequence_def)

lemma row_of_bump:
  assumes "row_of d rid = Some r"
  shows "row_of (d\<lparr>runs := sql_update (\<lambda>x. run_id x = rid) (bump_sequence now) (runs d), run_events := es\<rparr>) i
    = (if i = rid then Some (bump_sequence now r) else row_of d i)"
proof -
  have "sql_find (\<lambda>x. run_id x = i) (sql_update (\<lambda>x. run_id x = rid) (bump_sequence now) rs)
    = (if i = rid then map_option (bump_sequence now) (sql_find (\<lambda>x. run_id x = rid) rs)
       else sql_find (\<lambda>x. run_id x = i) rs)" for rs
    by (induction rs) (auto simp: sql_find_def bump_run_id)
  then show ?thesis using assms by (simp add: row_of_def)
qed

lemma journal_event:
  assumes "journal_ok d" and "appendEvent now d rid k c n st vs = Inr (d', row)"
  shows "journal_ok d'"
proof (cases "sql_find (\<lambda>e. ev_run_id e = rid \<and> ev_event_key e = k) (run_events d)")
  case Some
  then show ?thesis using assms by (simp add: appendEvent_def)
next
  case None
  then obtain r where r: "row_of d rid = Some r"
    and row: "ev_run_id row = rid" "ev_event_key row = k" "ev_sequence row = Suc (run_event_sequence r)"
    and d': "d' = d\<lparr>runs := sql_update (\<lambda>r. run_id r = rid) (bump_sequence now) (runs d),
                 run_events := run_events d @ [row]\<rparr>"
    using assms(2)
    by (auto simp: appendEvent_def Let_def row_of_def guard_result_def split: option.splits if_splits)
  have seq: "sequence_of d' i = (if i = rid then Suc (sequence_of d rid) else sequence_of d i)" for i
    using r by (simp add: d' sequence_of_def row_of_bump bump_sequence_def)
  have evs: "events_of d' i = (if i = rid then events_of d rid @ [row] else events_of d i)" for i
    using row by (simp add: d' events_of_def)
  have "map ev_sequence (events_of d' i) = [1..<Suc (sequence_of d' i)]" for i
  proof -
    have "ev_sequence row = Suc (sequence_of d rid)" using r row by (simp add: sequence_of_def)
    moreover have "[1..<Suc (Suc n)] = [1..<Suc n] @ [Suc n]" for n by simp
    ultimately show ?thesis
      using assms(1) by (simp add: seq evs journal_ok_def del: upt_Suc)
  qed
  moreover have "keyed (\<lambda>e. (ev_run_id e, ev_event_key e)) (run_events d')"
    using assms(1) None row by (auto simp: d' journal_ok_def keyed_append sql_find_None)
  ultimately show ?thesis by (simp add: journal_ok_def)
qed

lemma journal_step:
  assumes "ledger_inv d" and "journal_ok d"
  shows "journal_ok (ledger_step sha d c)"
proof -
  obtain now op where c: "c = (now, op)" by fastforce
  show ?thesis
  proof (cases "\<exists>rid k ec n st vs. op = OpEvent rid k ec n st vs")
    case True
    then obtain rid k ec n st vs where op: "op = OpEvent rid k ec n st vs" by blast
    show ?thesis
      using journal_event [OF assms(2), of now rid k ec n st vs] assms(2)
      by (auto simp: c op commit_def split: sum.splits)
  next
    case False
    then show ?thesis
      using events_frame [of op sha d now] sequence_frame [OF assms(1), of op sha now] assms(2)
      by (simp add: c journal_ok_def events_of_def del: upt_Suc)
  qed
qed

lemma empty_journal: "journal_ok empty_db"
  by (simp add: journal_ok_def events_of_def sequence_of_def row_of_def sql_find_def
      empty_db_def keyed_def)

lemma run_journal:
  assumes "ledger_inv d" and "journal_ok d"
  shows "journal_ok (run_steps (ledger_step sha) d cs)"
proof (rule ledger.run_stable [where Q = journal_ok])
  show "journal_ok (ledger_step sha s c)" if "ledger_inv s" and "journal_ok s" for s c
    using that by (rule journal_step)
qed (use assms in simp_all)

lemma filter_above: "filter ((<) a) [Suc 0..<Suc n] = [Suc a..<Suc n]"
  by (induction n) auto

lemma journal_page:
  assumes "journal_ok d"
  shows "map ev_sequence (sort_key ev_sequence
      (filter (\<lambda>e. ev_run_id e = rid \<and> a < ev_sequence e) (run_events d))) = [Suc a..<Suc (sequence_of d rid)]"
proof -
  let ?es = "filter (\<lambda>e. ev_run_id e = rid \<and> a < ev_sequence e) (run_events d)"
  have "?es = filter (\<lambda>e. a < ev_sequence e) (events_of d rid)"
    by (simp add: events_of_def conj_commute)
  then have seqs: "map ev_sequence ?es = [Suc a..<Suc (sequence_of d rid)]"
    using assms filter_map [of "\<lambda>x. a < x" ev_sequence "events_of d rid"]
    by (simp add: journal_ok_def filter_above comp_def del: upt_Suc)
  then have "sorted (map ev_sequence ?es)" by (simp only: sorted_upt)
  then have "sort_key ev_sequence ?es = ?es" by (rule sort_key_id_if_sorted)
  then show ?thesis using seqs by simp
qed

text \<open>C5. under every sequence of commands the journal of a run has no gap and no duplicate: a
  reader that polls \<open>listEvents\<close> from sequence \<open>a\<close> gets exactly \<open>a+1, a+2, ...\<close> up to the
  last event, a thousand at a time. The journal invariant holds of the empty database.\<close>

theorem event_pages_are_gapless:
  assumes "ledger_inv d" and "journal_ok d" and "s = run_steps (ledger_step sha) d cs"
    and "row_of s rid = Some r" and "run_tenant_id r = t"
  shows "map ev_sequence (listEvents s rid t a) = take 1000 [Suc a..<Suc (run_event_sequence r)]"
proof -
  have "r \<in> set (runs s)" "run_id r = rid" using assms(4) by (auto simp: row_of_def dest: sql_find_Some)
  then have "listEvents s rid t a = take 1000 (sort_key ev_sequence
      (filter (\<lambda>e. ev_run_id e = rid \<and> a < ev_sequence e) (run_events s)))"
    using assms(5) by (auto simp: listEvents_def)
  then show ?thesis
    using journal_page [OF run_journal [OF assms(1,2), of sha cs], of rid a] assms(3,4)
    by (simp add: sequence_of_def take_map [symmetric] del: upt_Suc)
qed

lemma demo_journal: "journal_ok demo_db"
  by (simp add: journal_ok_def events_of_def sequence_of_def row_of_def sql_find_def
      demo_db_def demo_run_def new_run_def keyed_def)

lemma demo_two_events:
  "row_of (run_steps (ledger_step id) demo_db
      [(5, OpEvent ''RUN-1'' ''a'' ''run.queued'' None Observed []),
       (6, OpEvent ''RUN-1'' ''a'' ''run.queued'' None Observed []),
       (7, OpEvent ''RUN-1'' ''b'' ''run.started'' None Passed [])]) ''RUN-1''
   = Some (demo_run\<lparr>run_event_sequence := 2, run_updated_at := 7\<rparr>)"
  by (simp add: appendEvent_def demo_db_def demo_run_def new_run_def sql_find_def row_of_def
      bump_sequence_def Let_def)

theorem event_pages_are_gapless_witness:
  "map ev_sequence (listEvents (run_steps (ledger_step id) demo_db
      [(5, OpEvent ''RUN-1'' ''a'' ''run.queued'' None Observed []),
       (6, OpEvent ''RUN-1'' ''a'' ''run.queued'' None Observed []),
       (7, OpEvent ''RUN-1'' ''b'' ''run.started'' None Passed [])]) ''RUN-1'' ''acme'' 0) = [1, 2]"
  using event_pages_are_gapless [OF demo_inv demo_journal refl demo_two_events refl, of 0]
  by (simp add: demo_run_def new_run_def upt_rec)

section \<open>Creating a run once\<close>

lemma createRun_inv:
  assumes "ledger_inv d" and "createRun sha u now d p i k t = Inr (d', x)"
  shows "ledger_inv d'"
  using ledger_step_inv [OF assms(1), of sha "(now, OpCreate u p i k t)"] assms(2) by simp

text \<open>once a create request was answered with a run, the same tenant and idempotency key
  are answered with that run for good, whatever commands follow: the same plan and input
  replay it and change nothing, any other plan or input is a conflict.\<close>

theorem create_is_idempotent:
  assumes "ledger_inv d" and "createRun sha u now d p i k t = Inr (d', (True, r))"
    and "s = run_steps (ledger_step sha) d' cs"
  shows "\<exists>r'. row_of s (run_id r) = Some r'
     \<and> createRun sha u' now' s p i k t = Inr (s, (run_id r = ''RUN-'' @ u', r'))
     \<and> (\<forall>p' i'. stableDigest sha (run_request_json p' i') \<noteq> stableDigest sha (run_request_json p i) \<longrightarrow>
          createRun sha u' now' s p' i' k t = Inl ''run.idempotency_conflict'')"
proof -
  have r: "r \<in> set (runs d')" "idem_key r = (t, k)"
    "run_request_digest r = stableDigest sha (run_request_json p i)"
    using assms(2)
    by (auto simp: createRun_def Let_def new_run_def split: option.splits if_splits dest: sql_find_Some)
  have inv: "ledger_inv d'" using assms(1,2) by (rule createRun_inv)
  then have row: "row_of d' (run_id r) = Some r" using r(1) by (simp add: row_of_iff)
  let ?Q = "\<lambda>x. idem_key x = (t, k) \<and> run_request_digest x = run_request_digest r"
  have step: "?Q y" if "?Q x" and "row_step x y" for x y
    using row_step_keys [OF that(2)] that(1) by simp
  have "?Q r" using r by simp
  obtain r' where r': "row_of s (run_id r) = Some r'" "?Q r'"
    unfolding assms(3) by (rule row_of_run [OF inv row, where Q = ?Q]) (use step \<open>?Q r\<close> in blast)+
  have inv': "ledger_inv s" unfolding assms(3) using inv by (rule ledger.run_inv)
  then have mem: "r' \<in> set (runs s)" "run_id r' = run_id r" using r'(1) by (auto simp: row_of_iff)
  have "keyed idem_key (runs s)" using inv' by (simp add: ledger_inv_def)
  then have "sql_find (\<lambda>x. idem_key x = idem_key r') (runs s) = Some r'"
    using mem(1) by (rule sql_find_key)
  then have find: "sql_find (\<lambda>x. run_tenant_id x = t \<and> run_idempotency_key x = k) (runs s) = Some r'"
    using r'(2) by simp
  show ?thesis using r' r(3) find mem by (intro exI [of _ r']) (auto simp: createRun_def Let_def)
qed

definition demo_plan :: harness_plan where
  "demo_plan = \<lparr>plan_apiVersion = ''harness.factory/plan-v1'', plan_kind = ''HarnessPlan'',
     plan_planId = ''p'', plan_planDigest = ''plan'', plan_packageDigest = ''pkg'',
     plan_compiler = (''harnessc'', ''1'', ''0123456''), plan_metadata = (''n'', ''1'', ''kyc'', ''o''),
     plan_engine = (''langgraph-js'', ''harness-langgraph-v1'', ''poc-v1''), plan_maxTransitions = 10,
     plan_maxConcurrency = 2, plan_durability = ''sync'',
     plan_budgets = \<lparr>maxDurationMs = 1000, maxCostUsd = (1, 0), maxModelCalls = 1, maxCapabilityCalls = 1\<rparr>,
     plan_inputSchema = [], plan_outputSchema = [], plan_modelProfiles = [], plan_skills = None,
     plan_agents = None, plan_capabilities = [], plan_permissionEnvelopes = [],
     plan_graph_apiVersion = ''ladder.dev/v1alpha1'', plan_graph_name = ''g'', plan_nodes = [],
     plan_edges = [], plan_nodeOrder = [], plan_dependencyManifest = []\<rparr>"

definition planned_db :: db where
  "planned_db = empty_db\<lparr>plans := [\<lparr>pl_tenant_id = ''acme'', pl_plan_digest = ''plan'',
     pl_plan = demo_plan, pl_admitted_at = 0\<rparr>]\<rparr>"

lemma planned_inv: "ledger_inv planned_db"
  by (simp add: ledger_inv_def planned_db_def empty_db_def keyed_def)

lemma planned_create:
  "createRun id ''1'' 5 planned_db ''plan'' JNull ''k'' ''acme''
   = Inr (planned_db\<lparr>runs := [new_run ''RUN-1'' ''acme'' ''k'' (stableDigest id (run_request_json ''plan'' JNull)) ''plan'' JNull 5]\<rparr>,
       (True, new_run ''RUN-1'' ''acme'' ''k'' (stableDigest id (run_request_json ''plan'' JNull)) ''plan'' JNull 5))"
  by (simp add: createRun_def planned_db_def empty_db_def Let_def sql_find_def)

theorem create_is_idempotent_witness:
  "\<exists>r'. createRun id ''2'' 9 (run_steps (ledger_step id) (planned_db\<lparr>runs := [new_run ''RUN-1'' ''acme''
        ''k'' (stableDigest id (run_request_json ''plan'' JNull)) ''plan'' JNull 5]\<rparr>)
        [(7, OpClaim [] ''w'' 60), (8, OpCancel ''RUN-1'' ''acme'' ''stop'')]) ''plan'' JNull ''k'' ''acme''
     = Inr (run_steps (ledger_step id) (planned_db\<lparr>runs := [new_run ''RUN-1'' ''acme''
        ''k'' (stableDigest id (run_request_json ''plan'' JNull)) ''plan'' JNull 5]\<rparr>)
        [(7, OpClaim [] ''w'' 60), (8, OpCancel ''RUN-1'' ''acme'' ''stop'')], (False, r'))"
  using create_is_idempotent [OF planned_inv planned_create refl, of
      "[(7, OpClaim [] ''w'' 60), (8, OpCancel ''RUN-1'' ''acme'' ''stop'')]" "''2''" 9]
  by (auto simp: new_run_def simp del: run_steps.simps)

section \<open>Budgets and receipts\<close>

definition reserves_within :: "nat \<Rightarrow> nat \<Rightarrow> time \<times> run_op \<Rightarrow> bool" where
  \<comment> \<open>every reservation states at most these budgets\<close>
  "reserves_within m k c = (case snd c of
     OpReserve g b \<Rightarrow> rb_maxCapabilityCalls b \<le> int m \<and> rb_maxModelCalls b \<le> int k
   | _ \<Rightarrow> True)"

definition receipts_of :: "db \<Rightarrow> string \<Rightarrow> receipt_row list" where
  "receipts_of d rid = filter (\<lambda>g. gr_run_id g = rid) (receipts d)"

definition paid :: "nat \<Rightarrow> nat \<Rightarrow> db \<Rightarrow> bool" where
  \<comment> \<open>every receipt of a run was counted, and the counters are within the budgets\<close>
  "paid m k d \<longleftrightarrow> (\<forall>rid. case row_of d rid of
       None \<Rightarrow> receipts_of d rid = []
     | Some r \<Rightarrow> length (receipts_of d rid) \<le> run_capability_calls r
                \<and> run_capability_calls r \<le> m \<and> run_model_calls r \<le> k)"

lemma receipts_frame:
  assumes "\<And>g b. op \<noteq> OpReserve g b"
  shows "length (receipts_of (ledger_step sha d (now, op)) rid) \<le> length (receipts_of d rid)"
proof (cases op)
  case (OpReserve g b)
  then show ?thesis using assms by blast
next
  case (OpReceiptDone i res)
  then show ?thesis
    by (simp add: receipts_of_def completeGatewayReceipt_def length_filter_update)
next
  case (OpReceiptAbandon i v)
  have "length (filter Q (filter P gs)) \<le> length (filter Q gs)" for P Q and gs :: "receipt_row list"
    by (induction gs) auto
  then show ?thesis
    using OpReceiptAbandon by (simp add: receipts_of_def abandonGatewayReceipt_def sql_delete_def del: filter_filter)
qed (auto simp: admitPlan_def createRun_def renewLease_def scheduleRunRetry_def
    failExhaustedRuns_def completeCancelledRun_def finalizeAbandonedCancellations_def
    updateRunNode_def bindRunTrace_def completeRun_def pg_nodeStarted_def pg_nodeFinished_def
    claimRun_def requestRunCancellation_def appendEvent_def receipts_of_def
    recordCapabilityCost_def insert_attempt_def Let_def
    guard_result_def commit_def bind_result_def split: option.splits sum.splits)

lemma reserve_new:
  assumes "ledger_inv d" and "reserveGatewayReceipt now d g b = Inr (d', (True, x))"
  obtains r where "row_of d (gr_run_id g) = Some r" and "within_budget b r"
    and "row_of d' (gr_run_id g) = Some (spend_row now (rb_modelCall b) r)"
    and "\<And>i. i \<noteq> gr_run_id g \<Longrightarrow> row_of d' i = row_of d i"
    and "\<And>i. receipts_of d' i = (if i = gr_run_id g then receipts_of d i @ [last (receipts d')] else receipts_of d i)"
    and "gr_invocation_id (last (receipts d')) = gr_invocation_id g"
    and "sql_find (\<lambda>h. gr_invocation_id h = gr_invocation_id g) (receipts d) = None"
    and "receipts d' = receipts d @ [last (receipts d')]"
    and "gr_request_digest (last (receipts d')) = gr_request_digest g"
    and "gr_run_id (last (receipts d')) = gr_run_id g"
    and "gr_result (last (receipts d')) = None"
proof -
  let ?P = "\<lambda>r. run_id r = gr_run_id g \<and> within_budget b r"
  have none: "sql_find (\<lambda>h. gr_invocation_id h = gr_invocation_id g) (receipts d) = None"
    using assms(2) by (auto simp: reserveGatewayReceipt_def Let_def split: if_splits option.splits)
  obtain r where row: "row_of d (gr_run_id g) = Some r"
    using assms(2) none
    by (auto simp: reserveGatewayReceipt_def Let_def row_of_def split: if_splits option.splits)
  have count: "sql_count ?P (runs d) = 1" and d': "runs d' = sql_update ?P (spend_row now (rb_modelCall b)) (runs d)"
    and recs: "\<exists>h. receipts d' = receipts d @ [h] \<and> gr_invocation_id h = gr_invocation_id g
        \<and> gr_run_id h = gr_run_id g \<and> gr_request_digest h = gr_request_digest g \<and> gr_result h = None"
    using assms(2) none row
    by (auto simp: reserveGatewayReceipt_def Let_def row_of_def guard_result_def split: if_splits)
  have "sql_count ?P (runs d) \<noteq> 0" using count by linarith
  then obtain y where y: "y \<in> set (runs d)" "run_id y = gr_run_id g" "within_budget b y"
    by (auto simp: sql_count_0)
  then have "y = r" using row_of_unique [OF assms(1) row] by blast
  then have within: "within_budget b r" using y by simp
  have id: "run_id (spend_row now m x) = run_id x" for m x by (simp add: spend_row_def)
  have find: "sql_find (\<lambda>x. run_id x = i) (sql_update ?P (spend_row now m) rs)
    = map_option (\<lambda>x. if ?P x then spend_row now m x else x) (sql_find (\<lambda>x. run_id x = i) rs)" for i m rs
    by (induction rs) (auto simp: sql_find_def id)
  have "row_of d' (gr_run_id g) = Some (spend_row now (rb_modelCall b) r)"
    using row within row_of_iff [OF assms(1), of "gr_run_id g" r]
    by (simp only: row_of_def d' find) simp
  moreover have "row_of d' i = row_of d i" if "i \<noteq> gr_run_id g" for i
    using that by (cases "row_of d i") (auto simp: row_of_def d' find dest: sql_find_Some)
  moreover have "receipts_of d' i = (if i = gr_run_id g then receipts_of d i @ [last (receipts d')] else receipts_of d i)" for i
    using recs by (auto simp: receipts_of_def)
  ultimately show thesis using that row within none recs by force
qed

lemma reserve_old:
  "reserveGatewayReceipt now d g b = Inr (d', (False, x)) \<Longrightarrow> d' = d"
  by (auto simp: reserveGatewayReceipt_def Let_def guard_result_def split: if_splits option.splits)

lemma calls_frame:
  assumes "ledger_inv d" and "\<And>g b. op \<noteq> OpReserve g b"
    and "row_of (ledger_step sha d (now, op)) rid = Some r'"
  shows "case row_of d rid of
      None \<Rightarrow> run_capability_calls r' = 0 \<and> run_model_calls r' = 0
    | Some r \<Rightarrow> run_capability_calls r' = run_capability_calls r \<and> run_model_calls r' = run_model_calls r"
proof (cases "row_of d rid")
  case None
  then show ?thesis using appearing_row [OF assms(1) None assms(3)] by (simp add: fresh_run_facts)
next
  case (Some r)
  have "calls.kept d (ledger_step sha d (now, op))"
    using assms(2) by (rule calls.kept_all_but_reserve)
  then obtain x where "row_of (ledger_step sha d (now, op)) rid = Some x" and "calls_view x = calls_view r"
    using assms(1) ledger_step_inv [OF assms(1)] Some by (rule calls.kept_row)
  then show ?thesis using Some assms(3) by (simp add: calls_view_def)
qed

lemma paid_row:
  "paid m k d \<Longrightarrow> row_of d rid = Some r \<Longrightarrow>
     length (receipts_of d rid) \<le> run_capability_calls r
     \<and> run_capability_calls r \<le> m \<and> run_model_calls r \<le> k"
  unfolding paid_def by (drule spec [of _ rid]) simp

lemma paid_no_row: "paid m k d \<Longrightarrow> row_of d rid = None \<Longrightarrow> receipts_of d rid = []"
  unfolding paid_def by (drule spec [of _ rid]) simp

lemma paidI:
  assumes "\<And>rid r. row_of d rid = Some r \<Longrightarrow> length (receipts_of d rid) \<le> run_capability_calls r
      \<and> run_capability_calls r \<le> m \<and> run_model_calls r \<le> k"
    and "\<And>rid. row_of d rid = None \<Longrightarrow> receipts_of d rid = []"
  shows "paid m k d"
  using assms by (auto simp: paid_def split: option.splits)

lemma row_of_step_None:
  "ledger_inv d \<Longrightarrow> row_of (ledger_step sha d c) rid = None \<Longrightarrow> row_of d rid = None"
  by (cases "row_of d rid") (simp, metis option.distinct(1) row_of_step)

lemma paid_frame:
  assumes "ledger_inv d" and "paid m k d" and no: "\<And>g b. op \<noteq> OpReserve g b"
  shows "paid m k (ledger_step sha d (now, op))"
proof (rule paidI)
  fix rid
  have len: "length (receipts_of (ledger_step sha d (now, op)) rid) \<le> length (receipts_of d rid)"
    using no by (rule receipts_frame)
  show "receipts_of (ledger_step sha d (now, op)) rid = []"
    if "row_of (ledger_step sha d (now, op)) rid = None"
    using len paid_no_row [OF assms(2) row_of_step_None [OF assms(1) that]] by simp
  show "length (receipts_of (ledger_step sha d (now, op)) rid) \<le> run_capability_calls r'
      \<and> run_capability_calls r' \<le> m \<and> run_model_calls r' \<le> k"
    if "row_of (ledger_step sha d (now, op)) rid = Some r'" for r'
    using calls_frame [OF assms(1) no that] len paid_row [OF assms(2), of rid]
      paid_no_row [OF assms(2), of rid] by (cases "row_of d rid") auto
qed

lemma paid_reserve:
  assumes "ledger_inv d" and "paid m k d"
    and res: "reserveGatewayReceipt now d g b = Inr (d', (True, x))"
    and "rb_maxCapabilityCalls b \<le> int m" and "rb_maxModelCalls b \<le> int k"
  shows "paid m k d'"
  using assms(1) res
proof (rule reserve_new)
  fix r
  assume r: "row_of d (gr_run_id g) = Some r" "within_budget b r"
    "row_of d' (gr_run_id g) = Some (spend_row now (rb_modelCall b) r)"
    and other: "\<And>i. i \<noteq> gr_run_id g \<Longrightarrow> row_of d' i = row_of d i"
    and recs: "\<And>i. receipts_of d' i =
      (if i = gr_run_id g then receipts_of d i @ [last (receipts d')] else receipts_of d i)"
  note old = paid_row [OF assms(2) r(1)]
  have new: "run_capability_calls (spend_row now (rb_modelCall b) r) \<le> m
      \<and> run_model_calls (spend_row now (rb_modelCall b) r) \<le> k
      \<and> Suc (run_capability_calls r) = run_capability_calls (spend_row now (rb_modelCall b) r)"
    using r(2) old assms(4,5) by (auto simp: within_budget_def spend_row_def)
  show "paid m k d'"
  proof (rule paidI)
    fix rid y assume "row_of d' rid = Some y"
    then show "length (receipts_of d' rid) \<le> run_capability_calls y
        \<and> run_capability_calls y \<le> m \<and> run_model_calls y \<le> k"
      using r(3) old new recs [of rid] other [of rid] paid_row [OF assms(2), of rid y]
      by (cases "rid = gr_run_id g") auto
  next
    fix rid assume "row_of d' rid = None"
    then show "receipts_of d' rid = []"
      using r(3) recs [of rid] other [of rid] paid_no_row [OF assms(2), of rid]
      by (cases "rid = gr_run_id g") auto
  qed
qed

lemma paid_step:
  assumes "ledger_inv d" and "paid m k d" and "reserves_within m k c"
  shows "paid m k (ledger_step sha d c)"
proof (cases "\<exists>now g b. c = (now, OpReserve g b)")
  case False
  obtain now op where c: "c = (now, op)" by fastforce
  show ?thesis unfolding c using assms(1,2) False by (intro paid_frame) (auto simp: c)
next
  case True
  then obtain now g b where c: "c = (now, OpReserve g b)" by blast
  show ?thesis
  proof (cases "reserveGatewayReceipt now d g b")
    case (Inl e)
    then show ?thesis using assms(2) by (simp add: c)
  next
    case (Inr t)
    obtain d' new x where t: "t = (d', new, x)" by (cases t) auto
    show ?thesis
    proof (cases new)
      case True
      then show ?thesis
        using paid_reserve [OF assms(1,2), of now g b d' x] assms(3) Inr t
        by (simp add: c reserves_within_def)
    next
      case False
      then show ?thesis using reserve_old [of now d g b d' x] Inr t assms(2) by (simp add: c)
    qed
  qed
qed

lemma empty_paid: "paid m k empty_db"
  by (simp add: paid_def row_of_def receipts_of_def empty_db_def sql_find_def)

lemma run_paid:
  assumes "ledger_inv d" and "paid m k d" and "list_all (reserves_within m k) cs"
  shows "paid m k (run_steps (ledger_step sha) d cs)"
  using assms
proof (induction cs arbitrary: d)
  case (Cons c cs)
  then show ?case using paid_step [OF Cons.prems(1,2)] ledger_step_inv by simp
qed simp

text \<open>C6. whatever commands follow, if every reservation states at most \<open>m\<close> capability calls
  and \<open>k\<close> model calls, then no run ever counts more than that, and every gateway receipt of a
  run was counted: the receipts never outnumber the calls. The invariant it starts from holds
  of the empty database for every \<open>m\<close> and \<open>k\<close>.\<close>

theorem budget_is_never_exceeded:
  assumes "ledger_inv d" and "paid m k d" and "list_all (reserves_within m k) cs"
    and "row_of (run_steps (ledger_step sha) d cs) rid = Some r"
  shows "length (receipts_of (run_steps (ledger_step sha) d cs) rid) \<le> run_capability_calls r
    \<and> run_capability_calls r \<le> m \<and> run_model_calls r \<le> k"
  using run_paid [OF assms(1-3)] assms(4) by (rule paid_row)

definition demo_receipt :: "string \<Rightarrow> receipt_row" where
  "demo_receipt i = \<lparr>gr_invocation_id = i, gr_run_id = ''RUN-1'', gr_tenant_id = ''acme'',
     gr_node_id = ''n'', gr_attempt = 1, gr_fencing_epoch = 1, gr_plan_digest = ''plan'',
     gr_permission_digest = ''perm'', gr_capability_id = ''cap'', gr_effect = ''none'',
     gr_decision = ''allow'', gr_reason_code = ''ok'', gr_request_digest = ''d'',
     gr_result = None, gr_receipt_digest = None, gr_trace_id = None, gr_span_id = None,
     gr_created_at = 0, gr_completed_at = None\<rparr>"

definition demo_budget :: receipt_budget where
  "demo_budget = \<lparr>rb_modelCall = True, rb_maxCapabilityCalls = 1, rb_maxModelCalls = 1,
     rb_maxCostUsd = (5, 0)\<rparr>"

lemma demo_paid: "paid 1 1 demo_db"
  by (simp add: paid_def row_of_def receipts_of_def demo_db_def demo_run_def new_run_def sql_find_def)

lemma demo_reserved:
  "run_steps (ledger_step id) demo_db [(5, OpReserve (demo_receipt ''i'') demo_budget),
      (6, OpReserve (demo_receipt ''j'') demo_budget)]
   = demo_db\<lparr>receipts := [demo_receipt ''i''\<lparr>gr_created_at := 5\<rparr>], runs := [spend_row 5 True demo_run]\<rparr>"
  by (simp add: reserveGatewayReceipt_def demo_db_def demo_run_def new_run_def sql_find_def
      within_budget_def demo_budget_def cost_below_def demo_receipt_def sql_count_def spend_row_def
      Let_def)

lemma demo_reserved_row:
  "row_of (run_steps (ledger_step id) demo_db [(5, OpReserve (demo_receipt ''i'') demo_budget),
      (6, OpReserve (demo_receipt ''j'') demo_budget)]) ''RUN-1'' = Some (spend_row 5 True demo_run)"
  unfolding demo_reserved
  by (simp add: row_of_def sql_find_def spend_row_def demo_run_def new_run_def)

theorem budget_is_never_exceeded_witness:
  "length (receipts_of (run_steps (ledger_step id) demo_db
      [(5, OpReserve (demo_receipt ''i'') demo_budget), (6, OpReserve (demo_receipt ''j'') demo_budget)])
      ''RUN-1'') \<le> 1"
  using budget_is_never_exceeded [OF demo_inv demo_paid _ demo_reserved_row]
  by (simp add: reserves_within_def demo_budget_def spend_row_def demo_run_def new_run_def)

section \<open>Replaying a receipt\<close>

definition receipt_of :: "db \<Rightarrow> string \<Rightarrow> receipt_row option" where
  "receipt_of d i = sql_find (\<lambda>g. gr_invocation_id g = i) (receipts d)"

definition completes :: "string \<Rightarrow> time \<times> run_op \<Rightarrow> bool" where
  \<comment> \<open>the command stores a result for the invocation\<close>
  "completes i c = (case snd c of OpReceiptDone _ res \<Rightarrow> cres_invocationId res = i | _ \<Rightarrow> False)"

lemma receipt_step:
  assumes "receipt_of d i = Some g" and "gr_result g \<noteq> None" and "\<not> completes i c"
  shows "receipt_of (ledger_step sha d c) i = Some g"
proof -
  obtain now op where c: "c = (now, op)" by fastforce
  show ?thesis
  proof (cases op)
    case (OpReceiptDone rid res)
    have "sql_find (\<lambda>x. gr_invocation_id x = i) (sql_update (\<lambda>x. gr_invocation_id x = j \<and> gr_run_id x = rid)
          (\<lambda>g. g\<lparr>gr_result := u, gr_receipt_digest := v, gr_completed_at := w\<rparr>) gs)
        = sql_find (\<lambda>x. gr_invocation_id x = i) gs" if "j \<noteq> i" for j u v w and gs :: "receipt_row list"
      using that by (induction gs) (auto simp: sql_find_def)
    then show ?thesis
      using OpReceiptDone assms by (simp add: c receipt_of_def completes_def completeGatewayReceipt_def)
  next
    case (OpReceiptAbandon rid j)
    have "sql_find (\<lambda>x. gr_invocation_id x = i) gs = Some g \<Longrightarrow>
       sql_find (\<lambda>x. gr_invocation_id x = i)
         (filter (\<lambda>x. \<not> (gr_invocation_id x = j \<and> gr_run_id x = rid \<and> gr_result x = None)) gs) = Some g" for gs
      using assms(2) by (induction gs) (auto simp: sql_find_def split: if_splits)
    then show ?thesis
      using OpReceiptAbandon assms(1) by (simp add: c receipt_of_def abandonGatewayReceipt_def sql_delete_def)
  next
    case (OpReserve h b)
    have "sql_find P (gs @ hs) = Some g" if "sql_find P gs = Some g" for P :: "receipt_row \<Rightarrow> bool" and gs hs
      using that by (induction gs) (auto simp: sql_find_def)
    then show ?thesis
      using OpReserve assms(1)
      by (auto simp: c receipt_of_def reserveGatewayReceipt_def Let_def guard_result_def commit_def
          split: option.splits sum.splits)
  qed (use assms in \<open>auto simp: c receipt_of_def admitPlan_def createRun_def renewLease_def
    scheduleRunRetry_def failExhaustedRuns_def completeCancelledRun_def
    finalizeAbandonedCancellations_def updateRunNode_def bindRunTrace_def completeRun_def
    pg_nodeStarted_def pg_nodeFinished_def claimRun_def requestRunCancellation_def appendEvent_def
    recordCapabilityCost_def insert_attempt_def Let_def guard_result_def commit_def bind_result_def
    split: option.splits sum.splits\<close>)
qed

lemma receipts_keyed_step:
  assumes "keyed gr_invocation_id (receipts d)"
  shows "keyed gr_invocation_id (receipts (ledger_step sha d c))"
proof -
  obtain now op where c: "c = (now, op)" by fastforce
  have fewer: "keyed gr_invocation_id (filter P gs)" if "keyed gr_invocation_id gs" for P gs
    using that by (simp add: keyed_def distinct_map_filter)
  show ?thesis
    using assms
    by (cases op) (auto simp: c admitPlan_def createRun_def renewLease_def
      scheduleRunRetry_def failExhaustedRuns_def completeCancelledRun_def
      finalizeAbandonedCancellations_def updateRunNode_def bindRunTrace_def completeRun_def
      pg_nodeStarted_def pg_nodeFinished_def claimRun_def requestRunCancellation_def appendEvent_def
      recordCapabilityCost_def insert_attempt_def Let_def guard_result_def commit_def bind_result_def
      reserveGatewayReceipt_def completeGatewayReceipt_def abandonGatewayReceipt_def sql_delete_def
      keyed_sql_update keyed_append sql_find_None fewer
      split: option.splits sum.splits)
qed

lemma receipt_run:
  assumes "receipt_of d i = Some g" and "gr_result g \<noteq> None"
    and "list_all (\<lambda>c. \<not> completes i c) cs" and "keyed gr_invocation_id (receipts d)"
  shows "receipt_of (run_steps (ledger_step sha) d cs) i = Some g
    \<and> keyed gr_invocation_id (receipts (run_steps (ledger_step sha) d cs))"
  using assms
proof (induction cs arbitrary: d)
  case (Cons c cs)
  then show ?case using receipt_step [of d i g c sha] receipts_keyed_step [of d sha c] by simp
qed simp

text \<open>a completed gateway receipt is answered from the ledger for good. Whatever commands
  follow (but a second completion of the same invocation), a reservation for it by the same
  run with the same request replays the stored result, any other request for that invocation
  id conflicts, and neither writes anything, so that no budget is spent twice.\<close>

theorem completed_receipt_replays:
  assumes "keyed gr_invocation_id (receipts d)"
    and "receipt_of d i = Some g" and "gr_result g = Some res"
    and "list_all (\<lambda>c. \<not> completes i c) cs" and "gr_invocation_id h = i"
  shows "reserveGatewayReceipt now (run_steps (ledger_step sha) d cs) h b
    = (if gr_run_id h = gr_run_id g \<and> gr_request_digest h = gr_request_digest g
       then Inr (run_steps (ledger_step sha) d cs, (False, Some res))
       else Inl ''gateway.idempotency_conflict'')"
proof -
  let ?s = "run_steps (ledger_step sha) d cs"
  have g: "receipt_of ?s i = Some g" and key: "keyed gr_invocation_id (receipts ?s)"
    using receipt_run [OF assms(2) _ assms(4,1)] assms(3) by simp_all
  have mem: "g \<in> set (receipts ?s)" "gr_invocation_id g = i"
    using g by (auto simp: receipt_of_def dest: sql_find_Some)
  have found: "sql_find (\<lambda>x. gr_invocation_id x = i) (receipts ?s) = Some g"
    using g by (simp add: receipt_of_def)
  show ?thesis
  proof (cases "gr_run_id h = gr_run_id g")
    case True
    have "sql_find (\<lambda>x. gr_invocation_id x = gr_invocation_id g \<and> gr_run_id x = gr_run_id g) (receipts ?s) = Some g"
      using key mem(1) by (rule sql_find_keyed) simp
    then show ?thesis using True found mem assms(3,5) by (simp add: reserveGatewayReceipt_def Let_def)
  next
    case False
    have "sql_find (\<lambda>x. gr_invocation_id x = i \<and> gr_run_id x = gr_run_id h) (receipts ?s) = None"
      using False keyed_unique [OF key mem(1)] mem(2) by (force simp: sql_find_None)
    then show ?thesis using False found assms(5) by (simp add: reserveGatewayReceipt_def Let_def)
  qed
qed

definition demo_result :: capability_result where
  "demo_result = \<lparr>cres_invocationId = ''i'', cres_capabilityId = ''cap'', cres_status = CapSucceeded,
     cres_output = JBool True, cres_errorCode = None, cres_provider = None, cres_model = None,
     cres_providerRequestId = None, cres_inputTokens = None, cres_outputTokens = None,
     cres_costUsd = None, cres_latencyMs = 5, cres_receiptDigest = ''d''\<rparr>"

definition demo_done_receipt :: receipt_row where
  "demo_done_receipt = (demo_receipt ''i'')\<lparr>gr_result := Some demo_result, gr_completed_at := Some 7\<rparr>"

lemma demo_done_receipt_facts:
  "keyed gr_invocation_id (receipts (demo_db\<lparr>receipts := [demo_done_receipt]\<rparr>))"
  "receipt_of (demo_db\<lparr>receipts := [demo_done_receipt]\<rparr>) ''i'' = Some demo_done_receipt"
  "gr_result demo_done_receipt = Some demo_result"
  "gr_invocation_id (demo_receipt ''i'') = ''i''"
  by (simp_all add: keyed_def receipt_of_def sql_find_def demo_done_receipt_def demo_receipt_def)

theorem completed_receipt_replays_witness:
  "reserveGatewayReceipt 9 (run_steps (ledger_step id) (demo_db\<lparr>receipts := [demo_done_receipt]\<rparr>)
      [(8, OpReceiptAbandon ''RUN-1'' ''i'')]) (demo_receipt ''i'') demo_budget
   = Inr (run_steps (ledger_step id) (demo_db\<lparr>receipts := [demo_done_receipt]\<rparr>)
      [(8, OpReceiptAbandon ''RUN-1'' ''i'')], (False, Some demo_result))"
  using completed_receipt_replays [OF demo_done_receipt_facts(1-3) _ demo_done_receipt_facts(4),
      of "[(8, OpReceiptAbandon ''RUN-1'' ''i'')]" 9 id demo_budget]
  by (simp add: completes_def) (simp add: demo_done_receipt_def demo_receipt_def)

section \<open>The gap of the sweeps\<close>

definition sweep_or_claim :: "time \<times> run_op \<Rightarrow> bool" where
  "sweep_or_claim c = (case snd c of
     OpClaim _ _ _ \<Rightarrow> True | OpFailExhausted \<Rightarrow> True | OpFinalize \<Rightarrow> True | _ \<Rightarrow> False)"

lemma stuck_step:
  assumes "ledger_inv d" and "row_of d rid = Some r" and "run_status r = Running"
    and "run_attempt_limit r \<le> run_attempt r" and "run_cancellation_requested_at r = None"
    and "sweep_or_claim c"
  shows "row_of (ledger_step sha d c) rid = Some r"
proof -
  obtain now op where c: "c = (now, op)" by fastforce
  have r: "run_id r = rid" using assms(2) by (auto simp: row_of_def dest: sql_find_Some)
  have keep: "sql_find (\<lambda>x. run_id x = run_id r) (sql_update P f rs) = Some r"
    if "sql_find (\<lambda>x. run_id x = run_id r) rs = Some r" and "\<not> P r" and "\<And>x. run_id (f x) = run_id x" for P f rs
    using that by (induction rs) (auto simp: sql_find_def split: if_splits)
  have start: "sql_find (\<lambda>x. run_id x = rid) (runs d) = Some r" using assms(2) by (simp add: row_of_def)
  have first: "x \<in> set rs \<and> P x" if "sql_first_by k P rs = Some x" for k :: "run_row \<Rightarrow> int" and P rs x
    using sql_first_by_Some [OF that] by blast
  have "\<not> exhausted r" "\<not> abandoned now r" "\<not> claimable now r"
    using assms(3-5) by (simp_all add: exhausted_def abandoned_def claimable_def)
  moreover have "\<forall>x \<in> set (runs d). claimable now x \<longrightarrow> run_id x \<noteq> rid"
    using row_of_unique [OF assms(1,2)] \<open>\<not> claimable now r\<close> by blast
  ultimately show ?thesis
    using assms(6) start r
    by (cases op) (auto simp: c row_of_def sweep_or_claim_def claimRun_def failExhaustedRuns_def
        finalizeAbandonedCancellations_def exhaust_row_def complete_cancelled_row_def claim_row_def
        split: option.splits dest!: first intro!: keep)
qed

lemma stuck_run:
  assumes "ledger_inv d" and "row_of d rid = Some r" and "run_status r = Running"
    and "run_attempt_limit r \<le> run_attempt r" and "run_cancellation_requested_at r = None"
    and "list_all sweep_or_claim cs"
  shows "row_of (run_steps (ledger_step sha) d cs) rid = Some r"
  using assms(1,2,6)
proof (induction cs arbitrary: d)
  case (Cons c cs)
  then show ?case using stuck_step [OF Cons.prems(1,2) assms(3-5), of c sha] ledger_step_inv by simp
qed simp

text \<open>a run whose worker dies in its last permitted attempt is stuck. It is running, its
  attempts are used up and nobody asked for its cancellation: then no claim and neither of
  the two sweeps ever touches it, however long its lease has expired, so it stays
  \<open>running\<close> until somebody cancels it.\<close>

theorem exhausted_running_run_is_stuck:
  assumes "ledger_inv d" and "row_of d rid = Some r" and "run_status r = Running"
    and "run_attempt_limit r \<le> run_attempt r" and "run_cancellation_requested_at r = None"
    and "list_all sweep_or_claim cs"
  shows "row_of (run_steps (ledger_step sha) d cs) rid = Some r"
  using assms by (rule stuck_run)

definition demo_last :: run_row where
  "demo_last = (claim_row 1000 ''w1'' 60 demo_run)\<lparr>run_attempt := 3, run_fencing_epoch := 3\<rparr>"

lemma demo_last_facts: "run_id demo_last = ''RUN-1''" "run_status demo_last = Running"
  "run_attempt_limit demo_last \<le> run_attempt demo_last" "run_cancellation_requested_at demo_last = None"
  by (simp_all add: demo_last_def claim_row_def demo_run_def new_run_def)

lemma demo_last_inv: "ledger_inv (demo_db\<lparr>runs := [demo_last]\<rparr>)"
  by (simp add: ledger_inv_def keyed_def demo_last_def claim_row_def demo_run_def new_run_def
      run_wf_def)

theorem exhausted_running_run_is_stuck_witness:
  "row_of (run_steps (ledger_step id) (demo_db\<lparr>runs := [demo_last]\<rparr>)
     [(10 ^ 12, OpClaim [] ''w2'' 60), (10 ^ 12, OpFailExhausted), (10 ^ 12, OpFinalize)]) ''RUN-1''
   = Some demo_last"
proof (rule exhausted_running_run_is_stuck [OF demo_last_inv])
  show "row_of (demo_db\<lparr>runs := [demo_last]\<rparr>) ''RUN-1'' = Some demo_last"
    by (simp add: row_of_def sql_find_def demo_last_facts)
qed (simp_all add: demo_last_facts sweep_or_claim_def)

end
