(* ===== verification/AuthoringStore.thy ===== *)
theory AuthoringStore
  imports RunStore
begin

text \<open>
  The authoring half of packages/persistence/src/index.ts: drafts of plans with their lifecycle and
  event log, and the registries of capabilities, agents and skills. These operations run their
  statements one by one, without a transaction. So each returns the state its statements left, with
  the value or the error; \<open>fault\<close> is the error of the insert into the event log, if that statement
  fails; and \<open>setAuthoringLifecycle\<close>, which reads before it writes, has a state for each.
\<close>

section \<open>Rows\<close>

datatype severity = SevError | SevWarning | SevInfo

record diagnostic =
  dg_code :: string
  dg_severity :: severity
  dg_path :: string
  dg_message :: string

record evaluation_report =
  rep_passed :: bool
  rep_evaluatedAt :: string
  rep_planDigest :: string
  rep_checks :: "(string \<times> string \<times> bool \<times> string) list"

record draft_row =
  dr_draft_id :: string
  dr_tenant_id :: string
  dr_name :: string
  dr_domain :: string
  dr_version :: string
  dr_status :: authoring_status
  dr_revision :: nat
  dr_package_source :: string
  dr_workflow_source :: string
  dr_parsed_package :: entries
  dr_parsed_workflow :: entries
  dr_compiled_plan :: "harness_plan option"
  dr_diagnostics :: "diagnostic list"
  dr_evaluation_report :: "evaluation_report option"
  dr_approved_by :: "string option"
  dr_published_by :: "string option"
  dr_published_plan_digest :: "string option"
  dr_created_at :: time
  dr_updated_at :: time

record author_event =
  ae_event_id :: string
  ae_draft_id :: string
  ae_revision :: nat
  ae_event_type :: string
  ae_actor :: string
  ae_details :: entries
  ae_occurred_at :: time

text \<open>A registered capability, agent or skill: its definition as stored.\<close>

record registry_row =
  rg_id :: string
  rg_definition :: json
  rg_digest :: string
  rg_status :: registry_status
  rg_created_at :: time
  rg_updated_at :: time

record authoring =
  drafts :: "draft_row list"
  author_events :: "author_event list"
  capability_registry :: "registry_row list"
  agent_registry :: "registry_row list"
  skill_registry :: "registry_row list"

type_synonym 'a effect = "authoring \<times> 'a result"

section \<open>Drafts\<close>

record draft_content =
  so_packageSource :: string
  so_workflowSource :: string
  so_parsedPackage :: entries
  so_parsedWorkflow :: entries
  so_name :: string
  so_domain :: string
  so_version :: string
  so_diagnostics :: "diagnostic list"

definition mapAuthoringDraft :: "draft_row \<Rightarrow> draft_row result" where
  \<comment> \<open>the plan and the report of a row are parsed again when it is read\<close>
  "mapAuthoringDraft r = guard_result
     ((case dr_compiled_plan r of None \<Rightarrow> True | Some p \<Rightarrow> harness_plan_ok p)
      \<and> (case dr_evaluation_report r of None \<Rightarrow> True | Some e \<Rightarrow> digest_ok (rep_planDigest e))) ''ZodError'' (Inr r)"

definition log_event :: "code option \<Rightarrow> time \<Rightarrow> string \<Rightarrow> string \<Rightarrow> nat \<Rightarrow> string \<Rightarrow> string \<Rightarrow> entries \<Rightarrow> authoring \<Rightarrow> unit effect" where
  \<comment> \<open>\<open>insert into authoring_events\<close>; \<open>evid\<close> is the random event id\<close>
  "log_event fault now evid draftId revision eventType actor details s = (case fault of
       Some c \<Rightarrow> (s, Inl c)
     | None \<Rightarrow> if \<exists>e \<in> set (author_events s). ae_event_id e = evid then (s, Inl ''sql.constraint_violation'')
               else (s\<lparr>author_events := author_events s @ [\<lparr>ae_event_id = evid, ae_draft_id = draftId,
                 ae_revision = revision, ae_event_type = eventType, ae_actor = actor, ae_details = details,
                 ae_occurred_at = now\<rparr>]\<rparr>, Inr ()))"

definition returning :: "unit effect \<Rightarrow> draft_row \<Rightarrow> draft_row effect" where
  "returning e row = (case e of (s, Inl c) \<Rightarrow> (s, Inl c) | (s, Inr _) \<Rightarrow> (s, mapAuthoringDraft row))"

definition createAuthoringDraft ::
    "code option \<Rightarrow> string \<Rightarrow> string \<Rightarrow> time \<Rightarrow> authoring \<Rightarrow> draft_content \<Rightarrow> string \<Rightarrow> string \<Rightarrow> draft_row effect" where
  "createAuthoringDraft fault uuid evid now s c actor tenantId =
     (let draftId = ''draft_'' @ uuid;
          row = \<lparr>dr_draft_id = draftId, dr_tenant_id = tenantId, dr_name = so_name c, dr_domain = so_domain c,
            dr_version = so_version c, dr_status = DRAFT, dr_revision = 1, dr_package_source = so_packageSource c,
            dr_workflow_source = so_workflowSource c, dr_parsed_package = so_parsedPackage c,
            dr_parsed_workflow = so_parsedWorkflow c, dr_compiled_plan = None, dr_diagnostics = so_diagnostics c,
            dr_evaluation_report = None, dr_approved_by = None, dr_published_by = None,
            dr_published_plan_digest = None, dr_created_at = now, dr_updated_at = now\<rparr>
      in if \<exists>r \<in> set (drafts s). dr_draft_id r = draftId then (s, Inl ''sql.constraint_violation'')
         else returning (log_event fault now evid draftId 1 ''draft.created'' actor
                [(''source'', JStr ''authoring-plane'')] (s\<lparr>drafts := drafts s @ [row]\<rparr>)) row)"

fun map_rows :: "draft_row list \<Rightarrow> draft_row list result" where
  "map_rows [] = Inr []"
| "map_rows (r # rs) = bind_result (mapAuthoringDraft r) (\<lambda>d. bind_result (map_rows rs) (\<lambda>ds. Inr (d # ds)))"

definition listAuthoringDrafts :: "authoring \<Rightarrow> string \<Rightarrow> draft_row list result" where
  "listAuthoringDrafts s tenantId =
     map_rows (take 100 (rev (sort_key dr_updated_at (filter (\<lambda>r. dr_tenant_id r = tenantId) (drafts s)))))"

definition getAuthoringDraft :: "authoring \<Rightarrow> string \<Rightarrow> string option \<Rightarrow> draft_row option result" where
  \<comment> \<open>an absent or empty tenant reads the draft whatever its tenant is\<close>
  "getAuthoringDraft s draftId tenantId =
     (case sql_find (\<lambda>r. dr_draft_id r = draftId \<and> (tenantId \<in> {None, Some []} \<or> tenantId = Some (dr_tenant_id r))) (drafts s) of
        None \<Rightarrow> Inr None
      | Some r \<Rightarrow> bind_result (mapAuthoringDraft r) (\<lambda>d. Inr (Some d)))"

definition authoringContributors :: "authoring \<Rightarrow> string \<Rightarrow> string list" where
  "authoringContributors s draftId = remdups (map ae_actor (filter (\<lambda>e. ae_draft_id e = draftId
     \<and> ae_event_type e \<in> {''draft.created'', ''draft.updated'', ''draft.compiled''}) (author_events s)))"

definition content_row :: "time \<Rightarrow> draft_content \<Rightarrow> draft_row \<Rightarrow> draft_row" where
  "content_row now c r = r\<lparr>dr_name := so_name c, dr_domain := so_domain c, dr_version := so_version c,
     dr_package_source := so_packageSource c, dr_workflow_source := so_workflowSource c,
     dr_parsed_package := so_parsedPackage c, dr_parsed_workflow := so_parsedWorkflow c,
     dr_diagnostics := so_diagnostics c, dr_status := DRAFT, dr_revision := dr_revision r + 1,
     dr_compiled_plan := None, dr_evaluation_report := None, dr_approved_by := None,
     dr_published_plan_digest := None, dr_updated_at := now\<rparr>"

definition updateAuthoringSources ::
    "code option \<Rightarrow> string \<Rightarrow> time \<Rightarrow> authoring \<Rightarrow> string \<Rightarrow> nat \<Rightarrow> draft_content \<Rightarrow> string \<Rightarrow> draft_row effect" where
  "updateAuthoringSources fault evid now s draftId expectedRevision c actor =
     (let P = (\<lambda>r. dr_draft_id r = draftId \<and> dr_revision r = expectedRevision \<and> dr_status r \<noteq> PUBLISHED) in
      case sql_find P (drafts s) of
        None \<Rightarrow> (s, Inl ''authoring.revision_conflict_or_published'')
      | Some r \<Rightarrow> returning (log_event fault now evid draftId (dr_revision r + 1) ''draft.updated'' actor []
            (s\<lparr>drafts := sql_update P (content_row now c) (drafts s)\<rparr>)) (content_row now c r))"

section \<open>Lifecycle\<close>

fun status_name :: "authoring_status \<Rightarrow> string" where
  "status_name DRAFT = ''DRAFT''" | "status_name COMPILED = ''COMPILED''" | "status_name EVALUATED = ''EVALUATED''"
| "status_name DRAFT_APPROVED = ''APPROVED''" | "status_name PUBLISHED = ''PUBLISHED''"

fun event_name :: "authoring_status \<Rightarrow> string" where
  \<comment> \<open>\<open>draft.${status.toLowerCase()}\<close>\<close>
  "event_name DRAFT = ''draft.draft''" | "event_name COMPILED = ''draft.compiled''"
| "event_name EVALUATED = ''draft.evaluated''" | "event_name DRAFT_APPROVED = ''draft.approved''"
| "event_name PUBLISHED = ''draft.published''"

record lifecycle_input =
  lc_expectedStatus :: authoring_status
  lc_status :: authoring_status
  lc_actor :: string
  lc_compiledPlan :: "harness_plan option"
  lc_diagnostics :: "diagnostic list option"
  lc_evaluationReport :: "evaluation_report option"
  lc_publishedPlanDigest :: "string option"

definition lifecycle_row :: "time \<Rightarrow> lifecycle_input \<Rightarrow> draft_row \<Rightarrow> draft_row" where
  "lifecycle_row now i r = r\<lparr>dr_status := lc_status i,
     dr_compiled_plan := coalesce (lc_compiledPlan i) (dr_compiled_plan r),
     dr_diagnostics := or_else (lc_diagnostics i) (dr_diagnostics r),
     dr_evaluation_report := coalesce (lc_evaluationReport i) (dr_evaluation_report r),
     dr_approved_by := (if lc_status i = DRAFT_APPROVED then Some (lc_actor i) else dr_approved_by r),
     dr_published_by := (if lc_status i = PUBLISHED then Some (lc_actor i) else dr_published_by r),
     dr_published_plan_digest := coalesce (lc_publishedPlanDigest i) (dr_published_plan_digest r),
     dr_updated_at := now\<rparr>"

definition separation_ok :: "authoring \<Rightarrow> string \<Rightarrow> lifecycle_input \<Rightarrow> bool" where
  "separation_ok s draftId i \<longleftrightarrow>
     (lc_status i \<in> {DRAFT_APPROVED, PUBLISHED} \<longrightarrow> lc_actor i \<notin> set (authoringContributors s draftId))"

definition setAuthoringLifecycle ::
    "code option \<Rightarrow> string \<Rightarrow> time \<Rightarrow> authoring \<Rightarrow> authoring \<Rightarrow> string \<Rightarrow> lifecycle_input \<Rightarrow> draft_row effect" where
  \<comment> \<open>\<open>s0\<close> is what the read of the contributors finds, \<open>s\<close> what the update finds\<close>
  "setAuthoringLifecycle fault evid now s0 s draftId i =
     (if \<not> separation_ok s0 draftId i then (s, Inl ''authoring.separation_of_duties'')
      else (let P = (\<lambda>r. dr_draft_id r = draftId \<and> dr_status r = lc_expectedStatus i) in
        case sql_find P (drafts s) of
          None \<Rightarrow> (s, Inl ''authoring.lifecycle_conflict'')
        | Some r \<Rightarrow> returning (log_event fault now evid draftId (dr_revision r) (event_name (lc_status i)) (lc_actor i)
              [(''from'', JStr (status_name (lc_expectedStatus i))), (''to'', JStr (status_name (lc_status i))),
               (''planDigest'', case coalesce (map_option plan_planDigest (lc_compiledPlan i)) (lc_publishedPlanDigest i) of
                  None \<Rightarrow> JUndef | Some d \<Rightarrow> JStr d)]
              (s\<lparr>drafts := sql_update P (lifecycle_row now i) (drafts s)\<rparr>)) (lifecycle_row now i r)))"

definition listAuthoringEvents :: "authoring \<Rightarrow> string \<Rightarrow> author_event list" where
  "listAuthoringEvents s draftId =
     rev (sort_key ae_occurred_at (filter (\<lambda>e. ae_draft_id e = draftId) (author_events s)))"

section \<open>Registries\<close>

record capability_registration =
  cg_capability :: capability_definition
  cg_description :: string
  cg_owner :: string
  cg_dataClasses :: "string list"
  cg_status :: registry_status

definition capability_registration_ok :: "capability_registration \<Rightarrow> bool" where
  "capability_registration_ok c \<longleftrightarrow> capability_ok (cg_capability c) \<and> cg_description c \<noteq> [] \<and> cg_owner c \<noteq> []
     \<and> list_all (\<lambda>d. d \<noteq> []) (cg_dataClasses c)"

datatype source_type = Manual | Github

record authoring_source =
  src_type :: source_type
  src_url :: "string option"
  src_path :: "string option"
  src_revision :: "string option"

definition authoring_source_ok :: "(string \<Rightarrow> bool) \<Rightarrow> authoring_source \<Rightarrow> bool" where
  \<comment> \<open>\<open>is_url\<close>: the text parses as a URL\<close>
  "authoring_source_ok is_url s \<longleftrightarrow> (case src_url s of None \<Rightarrow> True | Some u \<Rightarrow> is_url u)
     \<and> src_path s \<noteq> Some [] \<and> src_revision s \<noteq> Some []"

record skill_registration =
  sk_skill :: compiled_skill
  sk_source :: authoring_source
  sk_status :: registry_status

definition skill_registration_ok :: "(string \<Rightarrow> bool) \<Rightarrow> skill_registration \<Rightarrow> bool" where
  "skill_registration_ok is_url k \<longleftrightarrow> compiled_skill_ok (sk_skill k) \<and> authoring_source_ok is_url (sk_source k)"

record agent_registration =
  ag_agent :: compiled_agent
  ag_source :: authoring_source
  ag_status :: registry_status

definition agent_registration_ok :: "(string \<Rightarrow> bool) \<Rightarrow> agent_registration \<Rightarrow> bool" where
  "agent_registration_ok is_url a \<longleftrightarrow> compiled_agent_ok (ag_agent a) \<and> authoring_source_ok is_url (ag_source a)"

fun registry_status_name :: "registry_status \<Rightarrow> string" where
  "registry_status_name RegDraft = ''draft''" | "registry_status_name RegActive = ''active''"
| "registry_status_name RegDeprecated = ''deprecated''"

definition members_of :: "json \<Rightarrow> entries" where
  "members_of v = (case v of JObj es \<Rightarrow> es | _ \<Rightarrow> [])"

definition source_json :: "authoring_source \<Rightarrow> json" where
  "source_json s = JObj [(''type'', JStr (case src_type s of Manual \<Rightarrow> ''manual'' | Github \<Rightarrow> ''github'')),
     (''url'', opt_json JStr (src_url s)), (''path'', opt_json JStr (src_path s)),
     (''revision'', opt_json JStr (src_revision s))]"

definition capability_registration_json :: "capability_registration \<Rightarrow> json" where
  "capability_registration_json c = JObj (members_of (capability_json (cg_capability c)) @
     [(''description'', JStr (cg_description c)), (''owner'', JStr (cg_owner c)),
      (''dataClasses'', strs_json (cg_dataClasses c)), (''status'', JStr (registry_status_name (cg_status c)))])"

definition skill_registration_json :: "skill_registration \<Rightarrow> json" where
  "skill_registration_json k = JObj (members_of (skill_json (sk_skill k)) @
     [(''source'', source_json (sk_source k)), (''status'', JStr (registry_status_name (sk_status k)))])"

definition agent_registration_json :: "agent_registration \<Rightarrow> json" where
  "agent_registration_json a = JObj (members_of (agent_json (ag_agent a)) @
     [(''source'', source_json (ag_source a)), (''status'', JStr (registry_status_name (ag_status a)))])"

definition upsert_registry :: "time \<Rightarrow> string \<Rightarrow> json \<Rightarrow> string \<Rightarrow> registry_status \<Rightarrow> registry_row list \<Rightarrow> registry_row list" where
  \<comment> \<open>\<open>insert ... on conflict (id) do update\<close>\<close>
  "upsert_registry now i definition' digest status t =
     (if \<exists>r \<in> set t. rg_id r = i
      then sql_update (\<lambda>r. rg_id r = i) (\<lambda>r. r\<lparr>rg_definition := definition', rg_digest := digest,
             rg_status := status, rg_updated_at := now\<rparr>) t
      else t @ [\<lparr>rg_id = i, rg_definition = definition', rg_digest = digest, rg_status = status,
             rg_created_at = now, rg_updated_at = now\<rparr>])"

definition registerCapability :: "(string \<Rightarrow> string) \<Rightarrow> time \<Rightarrow> authoring \<Rightarrow> capability_registration \<Rightarrow> (bool \<times> string) effect" where
  \<comment> \<open>\<open>created\<close> is \<open>rowCount > 0\<close>, which an update satisfies as well\<close>
  "registerCapability sha now s c =
     (if \<not> capability_registration_ok c then (s, Inl ''ZodError'')
      else (let digest = stableDigest sha (capability_registration_json c) in
        (s\<lparr>capability_registry := upsert_registry now (cap_id (cg_capability c)) (capability_registration_json c)
             digest (cg_status c) (capability_registry s)\<rparr>, Inr (True, digest))))"

definition registerAuthoringAgent :: "(string \<Rightarrow> string) \<Rightarrow> (string \<Rightarrow> bool) \<Rightarrow> time \<Rightarrow> authoring \<Rightarrow> agent_registration \<Rightarrow> (bool \<times> string) effect" where
  "registerAuthoringAgent sha is_url now s a =
     (if \<not> agent_registration_ok is_url a then (s, Inl ''ZodError'')
      else (let digest = stableDigest sha (agent_registration_json a); i = agent_id (ag_agent a) in
        (s\<lparr>agent_registry := upsert_registry now i (agent_registration_json a) digest (ag_status a) (agent_registry s)\<rparr>,
         Inr (\<not> (\<exists>r \<in> set (agent_registry s). rg_id r = i), digest))))"

definition registerAuthoringSkill :: "(string \<Rightarrow> string) \<Rightarrow> (string \<Rightarrow> bool) \<Rightarrow> time \<Rightarrow> authoring \<Rightarrow> skill_registration \<Rightarrow> (bool \<times> string) effect" where
  "registerAuthoringSkill sha is_url now s k =
     (if \<not> skill_registration_ok is_url k then (s, Inl ''ZodError'')
      else (let digest = stableDigest sha (skill_registration_json k); i = skill_id (sk_skill k) in
        (s\<lparr>skill_registry := upsert_registry now i (skill_registration_json k) digest (sk_status k) (skill_registry s)\<rparr>,
         Inr (\<not> (\<exists>r \<in> set (skill_registry s). rg_id r = i), digest))))"

definition listRegisteredCapabilities :: "authoring \<Rightarrow> registry_row list" where
  "listRegisteredCapabilities s = sort_key rg_id (capability_registry s)"

definition listAuthoringAgents :: "authoring \<Rightarrow> registry_row list" where
  "listAuthoringAgents s = rev (sort_key rg_updated_at (agent_registry s))"

definition getAuthoringAgent :: "authoring \<Rightarrow> string \<Rightarrow> registry_row option" where
  "getAuthoringAgent s agentId = sql_find (\<lambda>r. rg_id r = agentId) (agent_registry s)"

definition listAuthoringSkills :: "authoring \<Rightarrow> registry_row list" where
  "listAuthoringSkills s = rev (sort_key rg_updated_at (skill_registry s))"

end
