(* ===== verification/AuthoringClaims.thy ===== *)
theory AuthoringClaims
  imports AuthoringStore JournalClaims
begin

text \<open>
  The lifecycle of authoring drafts: what an abstract lifecycle machine promises and that the store
  implements it under every interleaving and fault, separation of duties when the requests do not
  overlap, and the two ways in which overlapping or failing requests defeat it.
\<close>

section \<open>Requests\<close>

datatype author_op =
    AoCreate string string draft_content string string
  | AoUpdate string string nat draft_content string
  | AoCompile string string string harness_plan "diagnostic list"
  | AoEvaluate string string string evaluation_report
  | AoApprove string string string
  | AoPublish string string string string

fun lifecycle_of :: "author_op \<Rightarrow> (string \<times> string \<times> lifecycle_input) option" where
  \<comment> \<open>the inputs the routes give \<open>setAuthoringLifecycle\<close>\<close>
  "lifecycle_of (AoCompile evid i actor plan diags) = Some (evid, i, \<lparr>lc_expectedStatus = DRAFT, lc_status = COMPILED,
     lc_actor = actor, lc_compiledPlan = Some plan, lc_diagnostics = Some diags, lc_evaluationReport = None,
     lc_publishedPlanDigest = None\<rparr>)"
| "lifecycle_of (AoEvaluate evid i actor report) = Some (evid, i, \<lparr>lc_expectedStatus = COMPILED, lc_status = EVALUATED,
     lc_actor = actor, lc_compiledPlan = None, lc_diagnostics = None, lc_evaluationReport = Some report,
     lc_publishedPlanDigest = None\<rparr>)"
| "lifecycle_of (AoApprove evid i actor) = Some (evid, i, \<lparr>lc_expectedStatus = EVALUATED, lc_status = DRAFT_APPROVED,
     lc_actor = actor, lc_compiledPlan = None, lc_diagnostics = None, lc_evaluationReport = None,
     lc_publishedPlanDigest = None\<rparr>)"
| "lifecycle_of (AoPublish evid i actor digest) = Some (evid, i, \<lparr>lc_expectedStatus = DRAFT_APPROVED, lc_status = PUBLISHED,
     lc_actor = actor, lc_compiledPlan = None, lc_diagnostics = None, lc_evaluationReport = None,
     lc_publishedPlanDigest = Some digest\<rparr>)"
| "lifecycle_of _ = None"

text \<open>A request whose reads found \<open>s0\<close>, on the state \<open>s\<close> its writes find.\<close>

fun author_request :: "code option \<Rightarrow> time \<Rightarrow> author_op \<Rightarrow> authoring \<Rightarrow> authoring \<Rightarrow> authoring" where
  "author_request fault now (AoCreate uuid evid c actor t) s0 s = fst (createAuthoringDraft fault uuid evid now s c actor t)"
| "author_request fault now (AoUpdate evid i rev' c actor) s0 s = fst (updateAuthoringSources fault evid now s i rev' c actor)"
| "author_request fault now op s0 s = (case lifecycle_of op of
     Some (evid, i, input) \<Rightarrow> fst (setAuthoringLifecycle fault evid now s0 s i input) | None \<Rightarrow> s)"

fun event_id_of :: "author_op \<Rightarrow> string" where
  "event_id_of (AoCreate uuid evid c actor t) = evid" | "event_id_of (AoUpdate evid i rev' c actor) = evid"
| "event_id_of (AoCompile evid i actor plan diags) = evid" | "event_id_of (AoEvaluate evid i actor report) = evid"
| "event_id_of (AoApprove evid i actor) = evid" | "event_id_of (AoPublish evid i actor digest) = evid"

text \<open>Requests one after the other, none of which fails in the middle. The random event id of a
  request is one no event has.\<close>

definition author_step :: "authoring \<Rightarrow> time \<times> author_op \<Rightarrow> authoring" where
  "author_step s c = (if event_id_of (snd c) \<in> ae_event_id ` set (author_events s) then s
     else author_request None (fst c) (snd c) s s)"

definition empty_authoring :: authoring where
  "empty_authoring = \<lparr>drafts = [], author_events = [], capability_registry = [], agent_registry = [], skill_registry = []\<rparr>"

section \<open>The effect of a request\<close>

lemma fst_returning [simp]: "fst (returning e row) = fst e"
  by (cases e; cases "snd e") (auto simp: returning_def)

lemma drafts_log [simp]: "drafts (fst (log_event f now evid i rev' t a det s)) = drafts s"
  by (simp add: log_event_def split: option.splits)

lemma events_log:
  "evid \<notin> ae_event_id ` set (author_events s) \<Longrightarrow>
     author_events (fst (log_event None now evid i rev' t a det s)) = author_events s @
       [\<lparr>ae_event_id = evid, ae_draft_id = i, ae_revision = rev', ae_event_type = t, ae_actor = a, ae_details = det,
         ae_occurred_at = now\<rparr>]"
  by (auto simp: log_event_def image_iff)

lemma create_drafts:
  obtains "fst (createAuthoringDraft f u evid now s c a t) = s"
  | row where "drafts (fst (createAuthoringDraft f u evid now s c a t)) = drafts s @ [row]"
      and "dr_draft_id row \<notin> dr_draft_id ` set (drafts s)" and "dr_status row = DRAFT" and "dr_revision row = 1"
      and "evid \<notin> ae_event_id ` set (author_events s) \<Longrightarrow> f = None \<Longrightarrow>
         set (author_events (fst (createAuthoringDraft f u evid now s c a t))) \<subseteq>
           set (author_events s) \<union> {e. ae_draft_id e = dr_draft_id row}"
proof (cases "\<exists>r \<in> set (drafts s). dr_draft_id r = ''draft_'' @ u")
  case True
  then show ?thesis using that(1) by (simp add: createAuthoringDraft_def Let_def)
next
  case False
  then have n: "''draft_'' @ u \<notin> dr_draft_id ` set (drafts s)" by (auto simp: image_iff)
  show ?thesis
    by (rule that(2)) (use False n in \<open>auto simp: createAuthoringDraft_def Let_def events_log\<close>)
qed

lemma update_drafts:
  defines "P \<equiv> \<lambda>i rev' r. dr_draft_id r = i \<and> dr_revision r = rev' \<and> dr_status r \<noteq> PUBLISHED"
  obtains "fst (updateAuthoringSources f evid now s i rev' c a) = s"
  | r where "r \<in> set (drafts s)" and "P i rev' r"
      and "drafts (fst (updateAuthoringSources f evid now s i rev' c a)) = sql_update (P i rev') (content_row now c) (drafts s)"
      and "evid \<notin> ae_event_id ` set (author_events s) \<Longrightarrow> f = None \<Longrightarrow>
         set (author_events (fst (updateAuthoringSources f evid now s i rev' c a))) \<subseteq>
           set (author_events s) \<union> {e. ae_draft_id e = i}"
proof (cases "sql_find (P i rev') (drafts s)")
  case None
  then show ?thesis using that(1) by (simp add: updateAuthoringSources_def P_def)
next
  case (Some r)
  show ?thesis
    by (rule that(2)) (use Some sql_find_Some [OF Some] in \<open>auto simp: updateAuthoringSources_def P_def events_log\<close>)
qed

lemma lifecycle_drafts:
  defines "P \<equiv> \<lambda>i x r. dr_draft_id r = i \<and> dr_status r = lc_expectedStatus x"
  obtains "fst (setAuthoringLifecycle f evid now s0 s i x) = s"
  | r where "separation_ok s0 i x" and "r \<in> set (drafts s)" and "P i x r"
      and "drafts (fst (setAuthoringLifecycle f evid now s0 s i x)) = sql_update (P i x) (lifecycle_row now x) (drafts s)"
      and "evid \<notin> ae_event_id ` set (author_events s) \<Longrightarrow> f = None \<Longrightarrow>
         set (author_events (fst (setAuthoringLifecycle f evid now s0 s i x))) \<subseteq>
           set (author_events s) \<union> {e. ae_draft_id e = i \<and> ae_event_type e = event_name (lc_status x)}"
proof (cases "separation_ok s0 i x \<and> sql_find (P i x) (drafts s) \<noteq> None")
  case False
  then show ?thesis using that(1) by (auto simp: setAuthoringLifecycle_def P_def)
next
  case True
  then obtain r where r: "sql_find (P i x) (drafts s) = Some r" by blast
  show ?thesis
    by (rule that(2)) (use True r sql_find_Some [OF r] in \<open>auto simp: setAuthoringLifecycle_def P_def events_log\<close>)
qed

section \<open>The abstract lifecycle\<close>

text \<open>What a draft is to its authors: absent, or a status and a revision.\<close>

inductive draft_moves :: "(authoring_status \<times> nat) option \<Rightarrow> (authoring_status \<times> nat) option \<Rightarrow> bool" where
  stay: "draft_moves x x"
| created: "draft_moves None (Some (DRAFT, 1))"
| edited: "st \<noteq> PUBLISHED \<Longrightarrow> draft_moves (Some (st, n)) (Some (DRAFT, n + 1))"
| compiled: "draft_moves (Some (DRAFT, n)) (Some (COMPILED, n))"
| evaluated: "draft_moves (Some (COMPILED, n)) (Some (EVALUATED, n))"
| approved: "draft_moves (Some (EVALUATED, n)) (Some (DRAFT_APPROVED, n))"
| published: "draft_moves (Some (DRAFT_APPROVED, n)) (Some (PUBLISHED, n))"

inductive_cases draft_moves_published: "draft_moves (Some (PUBLISHED, n)) x"

definition lifecycle_abs :: "authoring \<Rightarrow> string \<Rightarrow> (authoring_status \<times> nat) option" where
  "lifecycle_abs s i = map_option (\<lambda>r. (dr_status r, dr_revision r)) (sql_find (\<lambda>r. dr_draft_id r = i) (drafts s))"

lemma find_update_id:
  assumes "\<And>r. dr_draft_id (g r) = dr_draft_id r"
  shows "sql_find (\<lambda>r. dr_draft_id r = i) (sql_update Q g t)
     = map_option (\<lambda>r. if Q r then g r else r) (sql_find (\<lambda>r. dr_draft_id r = i) t)"
  by (induction t) (auto simp: sql_find_def assms)

lemma find_append: "sql_find P (t @ [r]) = (case sql_find P t of Some x \<Rightarrow> Some x | None \<Rightarrow> if P r then Some r else None)"
  by (induction t) (auto simp: sql_find_def)

lemma row_ids [simp]: "dr_draft_id (content_row now c r) = dr_draft_id r" "dr_draft_id (lifecycle_row now x r) = dr_draft_id r"
  by (simp_all add: content_row_def lifecycle_row_def)

lemma lifecycle_of_moves:
  "lifecycle_of op = Some (evid, j, x) \<Longrightarrow>
     draft_moves (Some (lc_expectedStatus x, n)) (Some (lc_status x, n))"
  by (cases op) (auto intro: draft_moves.intros)

lemma lifecycle_moves:
  assumes "lifecycle_of op = Some (evid, j, x)"
  shows "draft_moves (lifecycle_abs s i) (lifecycle_abs (fst (setAuthoringLifecycle f evid now s0 s j x)) i)"
proof (rule lifecycle_drafts [of f evid now s0 s j x])
  assume "drafts (fst (setAuthoringLifecycle f evid now s0 s j x))
      = sql_update (\<lambda>r. dr_draft_id r = j \<and> dr_status r = lc_expectedStatus x) (lifecycle_row now x) (drafts s)"
  then show ?thesis
    using lifecycle_of_moves [OF assms]
    by (cases "sql_find (\<lambda>r. dr_draft_id r = i) (drafts s)")
      (auto simp: lifecycle_abs_def find_update_id lifecycle_row_def intro: draft_moves.stay)
qed (simp add: draft_moves.stay)

lemma author_request_lifecycle:
  "lifecycle_of op = Some (evid, i, x) \<Longrightarrow>
     author_request f now op s0 s = fst (setAuthoringLifecycle f evid now s0 s i x)"
  by (cases op) simp_all

text \<open>C22. The store implements the abstract lifecycle: whatever a request read before, whatever
  other requests did since and wherever it fails, it leaves every draft where it was or moves it
  along one transition; so a published draft is never edited again and revisions never go back.\<close>

theorem drafts_follow_the_lifecycle:
  "draft_moves (lifecycle_abs s i) (lifecycle_abs (author_request fault now op s0 s) i)"
proof (cases "lifecycle_of op")
  case (Some l)
  then obtain evid j x where "lifecycle_of op = Some (evid, j, x)" by (cases l) simp
  then show ?thesis using lifecycle_moves author_request_lifecycle by simp
next
  case None
  then show ?thesis
  proof (cases op)
    case (AoCreate uuid evid c actor t)
    show ?thesis unfolding AoCreate author_request.simps
    proof (rule create_drafts [of fault uuid evid now s c actor t])
      fix row
      assume d: "drafts (fst (createAuthoringDraft fault uuid evid now s c actor t)) = drafts s @ [row]"
        and new: "dr_draft_id row \<notin> dr_draft_id ` set (drafts s)"
        and row: "dr_status row = DRAFT" "dr_revision row = 1"
      show "draft_moves (lifecycle_abs s i) (lifecycle_abs (fst (createAuthoringDraft fault uuid evid now s c actor t)) i)"
        by (cases "sql_find (\<lambda>r. dr_draft_id r = i) (drafts s)"; cases "dr_draft_id row = i")
          (simp_all add: lifecycle_abs_def d find_append row draft_moves.stay draft_moves.created [unfolded One_nat_def])
    qed (simp add: draft_moves.stay)
  next
    case (AoUpdate evid j rev' c actor)
    let ?s = "fst (updateAuthoringSources fault evid now s j rev' c actor)"
    show ?thesis unfolding AoUpdate author_request.simps
    proof (rule update_drafts [of fault evid now s j rev' c actor])
      assume "drafts ?s = sql_update (\<lambda>r. dr_draft_id r = j \<and> dr_revision r = rev' \<and> dr_status r \<noteq> PUBLISHED) (content_row now c) (drafts s)"
      then show "draft_moves (lifecycle_abs s i) (lifecycle_abs ?s i)"
        by (cases "sql_find (\<lambda>r. dr_draft_id r = i) (drafts s)")
          (simp_all add: lifecycle_abs_def find_update_id content_row_def draft_moves.stay
            draft_moves.edited [unfolded Suc_eq_plus1 [symmetric]])
    qed (simp add: draft_moves.stay)
  qed simp_all
qed

section \<open>Separation of duties\<close>

definition separated_row :: "authoring \<Rightarrow> draft_row \<Rightarrow> bool" where
  "separated_row s r \<longleftrightarrow>
     (dr_status r \<in> {DRAFT_APPROVED, PUBLISHED} \<longrightarrow>
        (\<exists>a. dr_approved_by r = Some a \<and> a \<notin> set (authoringContributors s (dr_draft_id r))))
   \<and> (dr_status r = PUBLISHED \<longrightarrow>
        (\<exists>b. dr_published_by r = Some b \<and> b \<notin> set (authoringContributors s (dr_draft_id r))))"

definition separated :: "authoring \<Rightarrow> bool" where
  "separated s \<longleftrightarrow> keyed dr_draft_id (drafts s) \<and> (\<forall>r \<in> set (drafts s). separated_row s r)"

lemma contributors_grow:
  assumes "set (author_events s') \<subseteq> set (author_events s) \<union> E"
    and "\<And>e. e \<in> E \<Longrightarrow> ae_draft_id e = i \<Longrightarrow> ae_event_type e \<notin> {''draft.created'', ''draft.updated'', ''draft.compiled''}"
  shows "set (authoringContributors s' i) \<subseteq> set (authoringContributors s i)"
  using assms unfolding authoringContributors_def by auto

lemma separated_row_mono:
  "separated_row s r \<Longrightarrow> set (authoringContributors s' (dr_draft_id r)) \<subseteq> set (authoringContributors s (dr_draft_id r))
     \<Longrightarrow> separated_row s' r"
  unfolding separated_row_def by blast

lemma separated_lifecycle:
  assumes "lifecycle_of op = Some (evid, i, x)" and sep: "separated s"
    and fresh: "evid \<notin> ae_event_id ` set (author_events s)"
  shows "separated (fst (setAuthoringLifecycle None evid now s s i x))"
proof (rule lifecycle_drafts [of None evid now s s i x])
  let ?s = "fst (setAuthoringLifecycle None evid now s s i x)"
  fix r
  assume ok: "separation_ok s i x"
    and r: "r \<in> set (drafts s)" "dr_draft_id r = i \<and> dr_status r = lc_expectedStatus x"
    and d: "drafts ?s = sql_update (\<lambda>r. dr_draft_id r = i \<and> dr_status r = lc_expectedStatus x) (lifecycle_row now x) (drafts s)"
    and ev: "evid \<notin> ae_event_id ` set (author_events s) \<Longrightarrow> None = None \<Longrightarrow> set (author_events ?s) \<subseteq>
        set (author_events s) \<union> {e. ae_draft_id e = i \<and> ae_event_type e = event_name (lc_status x)}"
  note ev = ev [OF fresh refl]
  have key: "keyed dr_draft_id (drafts ?s)" unfolding d using sep by (simp add: keyed_sql_update separated_def)
  have others: "set (authoringContributors ?s j) \<subseteq> set (authoringContributors s j)" if "j \<noteq> i" for j
    by (rule contributors_grow [OF ev]) (use that in auto)
  have same: "set (authoringContributors ?s i) \<subseteq> set (authoringContributors s i)" if "lc_status x \<noteq> COMPILED"
    by (rule contributors_grow [OF ev]) (use that assms(1) in \<open>cases op; auto\<close>)
  have "separated_row ?s q" if q: "q \<in> set (drafts ?s)" for q
  proof -
    obtain p where p: "p \<in> set (drafts s)"
      and q': "q = (if dr_draft_id p = i \<and> dr_status p = lc_expectedStatus x then lifecycle_row now x p else p)"
      using q unfolding d by (auto simp: set_sql_update)
    have sp: "separated_row s p" using sep p by (simp add: separated_def)
    show ?thesis
    proof (cases "dr_draft_id p = i \<and> dr_status p = lc_expectedStatus x")
      case True
      show ?thesis
      proof (cases "lc_status x = COMPILED")
        case False
        have a: "lc_status x = DRAFT_APPROVED \<Longrightarrow> lc_actor x \<notin> set (authoringContributors s i)"
          and b: "lc_status x = PUBLISHED \<Longrightarrow> lc_actor x \<notin> set (authoringContributors s i)"
          using ok by (auto simp: separation_ok_def)
        have c: "lc_status x = PUBLISHED \<Longrightarrow> lc_expectedStatus x = DRAFT_APPROVED"
          using assms(1) by (cases op) auto
        show ?thesis
        proof (rule separated_row_mono)
          show "set (authoringContributors ?s (dr_draft_id q)) \<subseteq> set (authoringContributors s (dr_draft_id q))"
            using same [OF False] True q' by simp
          show "separated_row s q"
            using sp a b c True q' by (auto simp: separated_row_def lifecycle_row_def)
        qed
      qed (simp add: q' True separated_row_def lifecycle_row_def)
    next
      case False
      then have qp: "q = p" using q' by (simp only: if_False)
      show ?thesis
      proof (cases "dr_draft_id p = i")
        case True
        then have "r = p" using keyed_unique [of dr_draft_id "drafts s" r p] sep p r by (simp add: separated_def)
        then show ?thesis using False r by simp
      qed (use separated_row_mono [OF sp others] qp in simp)
    qed
  qed
  then show ?thesis using key by (simp add: separated_def)
qed (use sep in simp)


lemma separated_create:
  assumes sep: "separated s" and fresh: "evid \<notin> ae_event_id ` set (author_events s)"
  shows "separated (fst (createAuthoringDraft None u evid now s c a t))"
proof (rule create_drafts [of None u evid now s c a t])
  let ?s = "fst (createAuthoringDraft None u evid now s c a t)"
  fix row
  assume d: "drafts ?s = drafts s @ [row]" and new: "dr_draft_id row \<notin> dr_draft_id ` set (drafts s)"
    and st: "dr_status row = DRAFT"
    and ev: "evid \<notin> ae_event_id ` set (author_events s) \<Longrightarrow> None = None \<Longrightarrow>
         set (author_events ?s) \<subseteq> set (author_events s) \<union> {e. ae_draft_id e = dr_draft_id row}"
  have "separated_row ?s q" if "q \<in> set (drafts s)" for q
  proof (rule separated_row_mono)
    show "separated_row s q" using sep that by (simp add: separated_def)
    have "dr_draft_id q \<noteq> dr_draft_id row" using new imageI [OF that, of dr_draft_id] by metis
    then show "set (authoringContributors ?s (dr_draft_id q)) \<subseteq> set (authoringContributors s (dr_draft_id q))"
      by (intro contributors_grow [OF ev [OF fresh refl]]) auto
  qed
  moreover have "separated_row ?s row" using st by (simp add: separated_row_def)
  ultimately show ?thesis using sep new by (auto simp: separated_def d keyed_append)
qed (use sep in simp)

lemma separated_update:
  assumes sep: "separated s" and fresh: "evid \<notin> ae_event_id ` set (author_events s)"
  shows "separated (fst (updateAuthoringSources None evid now s i rev' c a))"
proof (rule update_drafts [of None evid now s i rev' c a])
  let ?s = "fst (updateAuthoringSources None evid now s i rev' c a)"
  fix r
  assume r: "r \<in> set (drafts s)" "dr_draft_id r = i \<and> dr_revision r = rev' \<and> dr_status r \<noteq> PUBLISHED"
    and d: "drafts ?s = sql_update (\<lambda>r. dr_draft_id r = i \<and> dr_revision r = rev' \<and> dr_status r \<noteq> PUBLISHED) (content_row now c) (drafts s)"
    and ev: "evid \<notin> ae_event_id ` set (author_events s) \<Longrightarrow> None = None \<Longrightarrow>
         set (author_events ?s) \<subseteq> set (author_events s) \<union> {e. ae_draft_id e = i}"
  have "separated_row ?s q" if q: "q \<in> set (drafts ?s)" for q
  proof -
    obtain p where p: "p \<in> set (drafts s)"
      and q': "q = (if dr_draft_id p = i \<and> dr_revision p = rev' \<and> dr_status p \<noteq> PUBLISHED then content_row now c p else p)"
      using q unfolding d by (auto simp: set_sql_update)
    show ?thesis
    proof (cases "dr_draft_id p = i")
      case True
      then have "r = p" using keyed_unique [of dr_draft_id "drafts s" r p] sep p r by (simp add: separated_def)
      then have "q = content_row now c p" using q' r by simp
      then show ?thesis by (simp add: separated_row_def content_row_def)
    next
      case False
      then have "set (authoringContributors ?s (dr_draft_id p)) \<subseteq> set (authoringContributors s (dr_draft_id p))"
        by (intro contributors_grow [OF ev [OF fresh refl]]) auto
      then show ?thesis using separated_row_mono [of s p ?s] sep p q' False by (simp add: separated_def)
    qed
  qed
  then show ?thesis using sep unfolding d by (simp add: separated_def keyed_sql_update d)
qed (use sep in simp)

lemma lifecycle_of_event: "lifecycle_of op = Some (evid, i, x) \<Longrightarrow> event_id_of op = evid"
  by (cases op) simp_all

lemma separated_step: "separated s \<Longrightarrow> separated (author_step s c)"
proof (cases "event_id_of (snd c) \<in> ae_event_id ` set (author_events s)")
  case False
  assume sep: "separated s"
  obtain now op where c: "c = (now, op)" by (cases c)
  have fresh: "event_id_of op \<notin> ae_event_id ` set (author_events s)" using False c by simp
  have "separated (author_request None now op s s)"
  proof (cases "lifecycle_of op")
    case None
    then show ?thesis
      using separated_create [OF sep] separated_update [OF sep] fresh by (cases op) simp_all
  next
    case (Some t)
    then obtain evid i x where l: "lifecycle_of op = Some (evid, i, x)" by (cases t) simp
    show ?thesis unfolding author_request_lifecycle [OF l]
      by (rule separated_lifecycle [OF l sep]) (use fresh lifecycle_of_event [OF l] in simp)
  qed
  then show ?thesis using fresh by (simp add: c author_step_def)
qed (simp add: author_step_def)

interpretation authoring: stepped author_step separated
  by unfold_locales (rule separated_step)

lemma empty_separated: "separated empty_authoring"
  by (simp add: separated_def empty_authoring_def keyed_def)

text \<open>What a request contributes to a draft, and by whom.\<close>

fun contribution :: "author_op \<Rightarrow> (string \<times> string) option" where
  "contribution (AoCreate uuid evid c actor t) = Some (''draft_'' @ uuid, actor)"
| "contribution (AoUpdate evid i rev' c actor) = Some (i, actor)"
| "contribution (AoCompile evid i actor plan diags) = Some (i, actor)"
| "contribution _ = None"

lemma log_event_keeps: "set (author_events s) \<subseteq> set (author_events (fst (log_event f now evid i rev' t a det s)))"
  by (auto simp: log_event_def split: option.splits)

lemma events_kept: "set (author_events s) \<subseteq> set (author_events (author_step s c))"
proof -
  obtain now op where c: "c = (now, op)" by (cases c)
  have keep: "set (author_events s) \<subseteq> set (author_events (fst (log_event f now evid i rev' t a det (s\<lparr>drafts := ds\<rparr>))))"
    for f now evid i rev' t a det ds
    using log_event_keeps [of "s\<lparr>drafts := ds\<rparr>" f now evid i rev' t a det] by simp
  have life: "set (author_events s) \<subseteq> set (author_events (fst (setAuthoringLifecycle f evid now s i' i x)))" if "i' = s" for f evid now i' i x
    unfolding setAuthoringLifecycle_def Let_def that using keep by (auto split: option.splits dest: subsetD)
  show ?thesis
  proof (cases op)
    case (AoCreate uuid evid d actor t)
    then show ?thesis using keep by (auto simp: c author_step_def createAuthoringDraft_def Let_def dest: subsetD)
  next
    case (AoUpdate evid i rev' d actor)
    then show ?thesis using keep by (auto simp: c author_step_def updateAuthoringSources_def Let_def dest: subsetD split: option.splits)
  qed (use life in \<open>auto simp: c author_step_def dest: subsetD\<close>)
qed

lemma events_kept_run: "set (author_events s) \<subseteq> set (author_events (run_steps author_step s cs))"
proof (induction cs arbitrary: s)
  case (Cons c cs)
  then show ?case using events_kept [of s c] by fastforce
qed simp

lemma contribution_logged:
  assumes "contribution op = Some (i, a)" and "drafts (author_step s (now, op)) \<noteq> drafts s"
  shows "a \<in> set (authoringContributors (author_step s (now, op)) i)"
proof -
  have fresh: "event_id_of op \<notin> ae_event_id ` set (author_events s)" using assms(2) by (auto simp: author_step_def)
  have "\<exists>t rev' det d. author_events (author_step s (now, op)) = author_events s @ [\<lparr>ae_event_id = event_id_of op, ae_draft_id = i,
      ae_revision = rev', ae_event_type = t, ae_actor = a, ae_details = det, ae_occurred_at = d\<rparr>]
    \<and> t \<in> {''draft.created'', ''draft.updated'', ''draft.compiled''}"
    using assms fresh
    by (cases op) (auto simp: author_step_def createAuthoringDraft_def updateAuthoringSources_def setAuthoringLifecycle_def
      Let_def events_log split: option.splits if_splits)
  then obtain t rev' det d where ev: "author_events (author_step s (now, op)) = author_events s @ [\<lparr>ae_event_id = event_id_of op,
      ae_draft_id = i, ae_revision = rev', ae_event_type = t, ae_actor = a, ae_details = det, ae_occurred_at = d\<rparr>]"
    and t: "t = ''draft.created'' \<or> t = ''draft.updated'' \<or> t = ''draft.compiled''" by blast
  show ?thesis unfolding authoringContributors_def ev using t by (elim disjE) simp_all
qed

lemma contributors_kept:
  "set (authoringContributors s i) \<subseteq> set (authoringContributors (run_steps author_step s cs) i)"
  using events_kept_run [of s cs] unfolding authoringContributors_def by auto

text \<open>C23. As long as the requests on the drafts neither overlap nor lose their event, whoever made a request
  that created, edited or compiled a draft is not the one who approved it or who published it, however
  many requests lie between.\<close>

theorem approvals_are_separated:
  assumes "s0 = run_steps author_step empty_authoring before"
    and "contribution op = Some (dr_draft_id r, a)" and "drafts (author_step s0 (now, op)) \<noteq> drafts s0"
    and "s = run_steps author_step (author_step s0 (now, op)) after" and "r \<in> set (drafts s)"
    and "dr_status r = DRAFT_APPROVED \<or> dr_status r = PUBLISHED"
  shows "\<exists>b. dr_approved_by r = Some b \<and> b \<noteq> a \<and> (dr_status r = PUBLISHED \<longrightarrow> (\<exists>p. dr_published_by r = Some p \<and> p \<noteq> a))"
proof -
  have "separated s0" unfolding assms(1) using empty_separated by (rule authoring.run_inv)
  then have "separated s" unfolding assms(4) by (intro authoring.run_inv separated_step)
  moreover have "a \<in> set (authoringContributors s (dr_draft_id r))"
    unfolding assms(4) using contribution_logged [OF assms(2,3)] contributors_kept by blast
  ultimately show ?thesis using assms(5,6) unfolding separated_def separated_row_def by fastforce
qed

section \<open>Examples\<close>

definition demo_content :: "string \<Rightarrow> draft_content" where
  "demo_content src = \<lparr>so_packageSource = src, so_workflowSource = ''w'', so_parsedPackage = [],
     so_parsedWorkflow = [], so_name = ''n'', so_domain = ''d'', so_version = ''1'', so_diagnostics = []\<rparr>"

definition demo_report :: evaluation_report where
  "demo_report = \<lparr>rep_passed = True, rep_evaluatedAt = ''t'', rep_planDigest = ''p'', rep_checks = []\<rparr>"

abbreviation demo_draft_id :: string where "demo_draft_id \<equiv> ''draft_1''"

definition bob_creates :: "time \<times> author_op" where
  "bob_creates = (0, AoCreate ''1'' ''e1'' (demo_content ''bob'') ''bob'' ''t'')"

definition bob_compiles :: "string \<Rightarrow> time \<times> author_op" where
  "bob_compiles e = (0, AoCompile e demo_draft_id ''bob'' demo_plan [])"

definition carol_evaluates :: "string \<Rightarrow> time \<times> author_op" where
  "carol_evaluates e = (0, AoEvaluate e demo_draft_id ''carol'' demo_report)"

definition alice_updates :: author_op where
  "alice_updates = AoUpdate ''e4'' demo_draft_id 1 (demo_content ''alice'') ''alice''"

definition alice_approves :: author_op where
  "alice_approves = AoApprove ''e7'' demo_draft_id ''alice''"

definition approved_draft :: authoring where
  "approved_draft = run_steps author_step empty_authoring
     [bob_creates, bob_compiles ''e2'', carol_evaluates ''e3'', (0, alice_approves)]"

text \<open>The status, the approver, the package and whether the approver is a contributor.\<close>

definition approvals_of :: "authoring \<Rightarrow> (authoring_status \<times> string option \<times> string \<times> bool) list" where
  "approvals_of s = map (\<lambda>r. (dr_status r, dr_approved_by r, dr_package_source r,
     the (dr_approved_by r) \<in> set (authoringContributors s (dr_draft_id r)))) (drafts s)"

lemma approved_draft_rows: "map (\<lambda>r. (dr_status r, dr_approved_by r)) (drafts approved_draft)
     = [(DRAFT_APPROVED, Some ''alice'')]"
  by code_simp

lemma approvals_are_separated_witness:
  "\<exists>b. dr_approved_by (hd (drafts approved_draft)) = Some b \<and> b \<noteq> ''bob''"
proof -
  have "length (drafts (author_step empty_authoring bob_creates)) = 1" by code_simp
  then have changed: "drafts (author_step empty_authoring bob_creates) \<noteq> drafts empty_authoring" by (auto simp: empty_authoring_def)
  have run: "approved_draft = run_steps author_step (author_step empty_authoring bob_creates)
      [bob_compiles ''e2'', carol_evaluates ''e3'', (0, alice_approves)]" by (simp add: approved_draft_def)
  have "map dr_draft_id (drafts approved_draft) = [''draft_1'']" by code_simp
  then have "contribution (snd bob_creates) = Some (dr_draft_id (hd (drafts approved_draft)), ''bob'')"
    by (cases "drafts approved_draft") (simp_all add: bob_creates_def)
  from approvals_are_separated [of empty_authoring "[]", OF _ this, of "fst bob_creates", simplified, OF changed run]
  show ?thesis using approved_draft_rows by (cases "drafts approved_draft") auto
qed

text \<open>Alice starts to approve what Bob wrote; before her update runs she edits the draft and the
  others compile and evaluate it again.\<close>

definition raced :: authoring where
  "raced = (let s0 = run_steps author_step empty_authoring [bob_creates, bob_compiles ''e2'', carol_evaluates ''e3''];
       s = run_steps author_step s0 [(0, alice_updates), bob_compiles ''e5'', carol_evaluates ''e6'']
     in author_request None 0 alice_approves s0 s)"

text \<open>Alice edits the draft of Bob and the insert of her event fails after the update; the rest is
  in sequence.\<close>

definition unlogged :: authoring where
  "unlogged = (let s0 = author_step empty_authoring bob_creates;
       s = author_request (Some ''sql.connection_lost'') 0 alice_updates s0 s0
     in run_steps author_step s [bob_compiles ''e5'', carol_evaluates ''e6'', (0, alice_approves)])"

text \<open>Neither hypothesis of the separation can be dropped: a request that overlaps others, or
  whose event is lost, leaves a draft approved by the one who wrote what was approved.\<close>

theorem separation_has_two_gaps:
  "approvals_of raced = [(DRAFT_APPROVED, Some ''alice'', ''alice'', True)]
   \<and> approvals_of unlogged = [(DRAFT_APPROVED, Some ''alice'', ''alice'', False)]"
  by code_simp

end
