(* ===== verification/IsoTime.thy ===== *)
theory IsoTime
  imports Json
begin

text \<open>
  Dates of JavaScript: a \<open>Date\<close> is its number of milliseconds since 1970, and
  \<open>toISOString\<close> is its text. The calendar is computed from the day number with the
  proleptic Gregorian cycle of 400 years (146097 days) that starts on 1 March of year 0.
\<close>

definition civil :: "int \<Rightarrow> int \<times> int \<times> int" where
  \<comment> \<open>year, month and day of a day number\<close>
  "civil day = (let z = day + 719468; era = z div 146097; doe = z mod 146097;
       yoe = (doe - doe div 1460 + doe div 36524 - doe div 146096) div 365;
       doy = doe - (365 * yoe + yoe div 4 - yoe div 100);
       mp = (5 * doy + 2) div 153; d = doy - (153 * mp + 2) div 5 + 1;
       m = (if mp < 10 then mp + 3 else mp - 9)
     in (yoe + era * 400 + (if m \<le> 2 then 1 else 0), m, d))"

definition pad :: "nat \<Rightarrow> int \<Rightarrow> string" where
  "pad w i = (let t = nat_text (nat i) in replicate (w - length t) (CHR ''0'') @ t)"

definition year_text :: "int \<Rightarrow> string" where
  "year_text y = (if y < 0 then CHR ''-'' # pad 6 (- y)
     else if y > 9999 then CHR ''+'' # pad 6 y else pad 4 y)"

definition toISOString :: "time \<Rightarrow> string" where
  "toISOString t = (let (y, m, d) = civil (t div 86400000); ms = t mod 86400000
     in year_text y @ ''-'' @ pad 2 m @ ''-'' @ pad 2 d @ ''T'' @ pad 2 (ms div 3600000) @ '':''
        @ pad 2 (ms div 60000 mod 60) @ '':'' @ pad 2 (ms div 1000 mod 60) @ ''.''
        @ pad 3 (ms mod 1000) @ ''Z'')"

lemma toISOString_example: "toISOString 1709210096789 = ''2024-02-29T12:34:56.789Z''"
  by code_simp

lemma toISOString_epoch: "toISOString 0 = ''1970-01-01T00:00:00.000Z''"
  by code_simp

text \<open>A date text always ends in milliseconds and a Z, so a text without them is never one.\<close>

lemma length_pad: "w \<le> length (pad w i)"
  by (simp add: pad_def Let_def)

lemma length_year_text: "4 \<le> length (year_text y)"
  using length_pad [of 6 "- y"] length_pad [of 6 y] length_pad [of 4 y] by (simp add: year_text_def)

lemma length_date_text:
  "24 \<le> length (year_text y @ ''-'' @ pad 2 m @ ''-'' @ pad 2 d @ ''T'' @ pad 2 a @ '':''
      @ pad 2 b @ '':'' @ pad 2 c @ ''.'' @ pad 3 e @ ''Z'')"
  using length_year_text [of y] length_pad [of 2 m] length_pad [of 2 d] length_pad [of 2 a]
    length_pad [of 2 b] length_pad [of 2 c] length_pad [of 3 e] by simp

lemma length_toISOString: "24 \<le> length (toISOString t)"
  unfolding toISOString_def Let_def by (cases "civil (t div 86400000)") (simp only: prod.case length_date_text)

end
