(* ===== verification/CaseTables.thy ===== *)
theory CaseTables
  imports PlanDigest IsoTime
begin

text \<open>
  The state of packages/case-store: the rows of its three schemas, the errors its functions
  throw, the payload readers (\<open>requiredString\<close> and its siblings) and the helpers that make
  ids and digests. A \<open>jsonb\<close> column holds the JSON value that was written to it. A
  \<open>timestamptz\<close> column holds milliseconds.
\<close>

section \<open>Errors\<close>

text \<open>\<open>Refused\<close> is a \<open>CaseStoreError\<close> with its HTTP status; the others are the exceptions of
  zod and of the database driver (a duplicate key, any other rejected statement).\<close>

datatype case_failure = Refused string nat | ZodFailure | UniqueViolation | SqlFailure

type_synonym 'a case_result = "case_failure + 'a"

section \<open>Rows of the core schema\<close>

record case_row =
  cs_tenant_id :: string
  cs_case_id :: string
  cs_case_type :: string
  cs_schema_version :: string
  cs_jurisdiction :: string
  cs_status :: case_status
  cs_case_sequence :: nat
  cs_external_ref :: "string option"
  cs_policy_snapshot_digest :: string
  cs_harness_plan_digest :: string
  cs_classification :: string
  cs_created_by :: case_actor
  cs_created_at :: time
  cs_updated_at :: time

type_synonym case_key = "string \<times> string"

text \<open>Every other row of a case starts with its tenant and case; \<open>key\<close> is the pair.\<close>

record subject_row =
  sj_key :: case_key
  sj_subject_id :: string
  sj_subject_type :: string
  sj_display_name :: "string option"
  sj_attributes :: entries
  sj_classification :: string
  sj_created_by :: case_actor
  sj_created_at :: time

record identifier_row =
  si_key :: case_key
  si_subject_id :: string
  si_identifier_id :: string
  si_identifier_type :: string
  si_value_digest :: string
  si_masked_value :: "string option"
  si_source :: string
  si_classification :: string
  si_created_by :: case_actor
  si_created_at :: time

record evidence_ref_row =
  er_key :: case_key
  er_evidence_id :: string
  er_purpose :: string
  er_status :: string
  er_linked_by :: case_actor
  er_linked_at :: time

record case_claim_row =
  cl_key :: case_key
  cl_claim_id :: string
  cl_subject_ref :: "string option"
  cl_predicate :: string
  cl_value :: json
  cl_asserted_by :: case_actor
  cl_evidence_refs :: "string list"
  cl_confidence :: json
  cl_status :: string
  cl_classification :: string
  cl_created_at :: time
  cl_updated_at :: time

record fact_row =
  fa_key :: case_key
  fa_fact_id :: string
  fa_subject_ref :: "string option"
  fa_predicate :: string
  fa_value :: json
  fa_basis_claim_refs :: "string list"
  fa_acceptance_policy_ref :: string
  fa_purpose :: string
  fa_valid_from :: "time option"
  fa_valid_to :: "time option"
  fa_recorded_at :: time
  fa_classification :: string
  fa_created_by :: case_actor

record finding_row =
  fi_key :: case_key
  fi_finding_id :: string
  fi_finding_type :: string
  fi_subject_ref :: "string option"
  fi_classification :: string
  fi_confidence :: json
  fi_uncertainty :: json
  fi_reason :: string
  fi_evidence_refs :: "string list"
  fi_fact_refs :: "string list"
  fi_policy_relevance :: "string option"
  fi_created_by :: case_actor
  fi_created_at :: time

record assumption_row =
  as_key :: case_key
  as_assumption_id :: string
  as_proposition :: string
  as_materiality :: string
  as_basis_refs :: "string list"
  as_status :: string
  as_classification :: string
  as_created_by :: case_actor
  as_created_at :: time

record contradiction_row =
  ct_key :: case_key
  ct_contradiction_id :: string
  ct_object_refs :: "string list"
  ct_description :: string
  ct_materiality :: string
  ct_detection_method :: string
  ct_status :: string
  ct_resolution :: "entries option"
  ct_classification :: string
  ct_created_by :: case_actor
  ct_created_at :: time
  ct_updated_at :: time

record work_item_row =
  wi_key :: case_key
  wi_work_item_id :: string
  wi_work_type :: string
  wi_status :: string
  wi_priority :: string
  wi_assigned_to :: json
  wi_required_capability :: "string option"
  wi_due_at :: "time option"
  wi_result_refs :: "string list"
  wi_classification :: string
  wi_created_by :: case_actor
  wi_created_at :: time
  wi_updated_at :: time

record recommendation_row =
  rc_key :: case_key
  rc_recommendation_id :: string
  rc_outcome :: string
  rc_case_sequence :: nat
  rc_rationale :: string
  rc_finding_refs :: "string list"
  rc_evidence_refs :: "string list"
  rc_policy_snapshot_digest :: string
  rc_status :: string
  rc_classification :: string
  rc_created_by :: case_actor
  rc_created_at :: time

record gate_row =
  ga_key :: case_key
  ga_gate_result_id :: string
  ga_recommendation_ref :: string
  ga_decision :: string
  ga_case_sequence :: nat
  ga_rule_results :: "json list"
  ga_policy_snapshot_digest :: string
  ga_created_by :: case_actor
  ga_created_at :: time

record review_row =
  rv_key :: case_key
  rv_review_id :: string
  rv_review_type :: string
  rv_outcome :: string
  rv_object_ref :: string
  rv_rationale :: string
  rv_viewed_evidence_refs :: "string list"
  rv_reviewer :: case_actor
  rv_created_at :: time

record disposition_row =
  di_key :: case_key
  di_disposition_id :: string
  di_outcome :: string
  di_recommendation_ref :: string
  di_gate_result_ref :: string
  di_review_ref :: "string option"
  di_policy_snapshot_digest :: string
  di_rationale :: string
  di_follow_up_obligations :: json
  di_effective_at :: time
  di_authorized_actor :: case_actor

record execution_ref_row =
  xr_key :: case_key
  xr_run_id :: string
  xr_plan_digest :: string
  xr_trace_id :: "string option"
  xr_purpose :: string
  xr_linked_by :: case_actor
  xr_linked_at :: time

record core_tables =
  subjects :: "subject_row list"
  subject_identifiers :: "identifier_row list"
  evidence_refs :: "evidence_ref_row list"
  claims :: "case_claim_row list"
  facts :: "fact_row list"
  findings :: "finding_row list"
  assumptions :: "assumption_row list"
  contradictions :: "contradiction_row list"
  work_items :: "work_item_row list"
  recommendations :: "recommendation_row list"
  gate_results :: "gate_row list"
  reviews :: "review_row list"
  dispositions :: "disposition_row list"
  execution_refs :: "execution_ref_row list"

section \<open>Rows of the ledger schema\<close>

record case_event_row =
  ce_tenant_id :: string
  ce_case_id :: string
  ce_case_sequence :: nat
  ce_event_id :: string
  ce_event_type :: string
  ce_event_schema :: string
  ce_occurred_at :: time
  ce_recorded_at :: time
  ce_actor :: case_actor
  ce_command_id :: string
  ce_authority :: json
  ce_payload :: entries
  ce_evidence_refs :: "string list"
  ce_previous_event_digest :: "string option"
  ce_event_digest :: string

record chain_head_row =
  ch_key :: case_key
  ch_case_sequence :: nat
  ch_event_digest :: string
  ch_updated_at :: time

record command_receipt_row =
  rp_key :: case_key
  rp_command_id :: string
  rp_command_type :: string
  rp_idempotency_key :: string
  rp_request_digest :: string
  rp_accepted_sequence :: nat
  rp_created_identifiers :: "(string \<times> string) list"
  rp_response :: entries
  rp_response_digest :: string
  rp_created_at :: time

record outbox_row =
  ob_outbox_id :: string
  ob_tenant_id :: string
  ob_case_id :: string
  ob_subject_id :: string
  ob_event_type :: string
  ob_classification :: string
  ob_payload :: entries
  ob_source_digest :: string
  ob_created_at :: time
  ob_published_at :: "time option"
  ob_publish_attempts :: nat
  ob_publish_claim_id :: "string option"
  ob_publish_claimed_at :: "time option"

text \<open>\<open>ob_subject_id\<close> is the event of a row of the case outbox and the evidence of a row of
  the evidence outbox; \<open>ob_source_digest\<close> is used by the case outbox only.\<close>

record ledger_tables =
  case_events :: "case_event_row list"
  chain_heads :: "chain_head_row list"
  command_receipts :: "command_receipt_row list"
  outbox :: "outbox_row list"

section \<open>Rows of the evidence schema\<close>

record artifact_row =
  ar_tenant_id :: string
  ar_artifact_digest :: string
  ar_artifact_ref :: string
  ar_media_type :: string
  ar_byte_length :: nat
  ar_content :: string
  ar_created_at :: time

record evidence_object_row =
  eo_key :: case_key
  eo_evidence_id :: string
  eo_schema_version :: string
  eo_evidence_type :: string
  eo_source :: entries
  eo_subject_refs :: "string list"
  eo_trust :: "string \<times> string"
  eo_raw_digest :: string
  eo_artifact_ref :: string
  eo_classification :: string
  eo_retention_class :: string
  eo_residency :: string
  eo_scan_status :: string
  eo_verification_status :: string
  eo_created_by :: case_actor
  eo_created_at :: time

record lineage_row =
  le_key :: case_key
  le_edge_id :: string
  le_source :: "string \<times> string"
  le_predicate :: string
  le_target :: "string \<times> string"
  le_creation_event_id :: string
  le_created_by :: case_actor
  le_created_at :: time

record registration_row =
  rg_tenant_id :: string
  rg_idempotency_key :: string
  rg_request_digest :: string
  rg_evidence_id :: string
  rg_response :: entries
  rg_response_digest :: string
  rg_created_at :: time

record evidence_tables =
  artifacts :: "artifact_row list"
  evidence_objects :: "evidence_object_row list"
  lineage_edges :: "lineage_row list"
  registration_receipts :: "registration_row list"
  evidence_outbox :: "outbox_row list"

record case_db =
  cases :: "case_row list"
  core :: core_tables
  ledger_of :: ledger_tables
  evidence :: evidence_tables

text \<open>What a store is configured with: the two settings of \<open>CaseStore\<close> that change what its
  functions do, the digest, and how PostgreSQL reads the text of a \<open>timestamptz\<close> parameter
  (\<open>None\<close> when it rejects it).\<close>

record case_store =
  st_sha :: "string \<Rightarrow> string"
  st_timestamptz :: "string \<Rightarrow> time option"
  st_evidenceRequireScan :: bool
  st_evidenceMaxBytes :: nat

section \<open>Statements\<close>

definition sql_insert :: "('r \<Rightarrow> 'k) \<Rightarrow> 'r \<Rightarrow> 'r list \<Rightarrow> 'r list case_result" where
  \<comment> \<open>\<open>insert\<close> into a table with a primary key\<close>
  "sql_insert k r t = (if k r \<in> k ` set t then Inl UniqueViolation else Inr (t @ [r]))"

definition sql_insert_ignore :: "('r \<Rightarrow> 'k) \<Rightarrow> 'r \<Rightarrow> 'r list \<Rightarrow> 'r list" where
  \<comment> \<open>\<open>insert ... on conflict do nothing\<close>\<close>
  "sql_insert_ignore k r t = (if k r \<in> k ` set t then t else t @ [r])"

lemma sql_insert_Inr: "sql_insert k r t = Inr t' \<longleftrightarrow> k r \<notin> k ` set t \<and> t' = t @ [r]"
  by (auto simp: sql_insert_def)

lemma sql_insert_keyed: "sql_insert k r t = Inr t' \<Longrightarrow> keyed k t \<Longrightarrow> keyed k t'"
  by (auto simp: sql_insert_Inr keyed_append)

section \<open>Helpers\<close>

text \<open>The draws of \<open>randomUUID\<close> in one transaction, by the prefix of the id and its index among
  the ids with that prefix.\<close>

type_synonym draws = "string \<Rightarrow> nat \<Rightarrow> string"

definition opaqueId :: "draws \<Rightarrow> string \<Rightarrow> nat \<Rightarrow> string" where
  "opaqueId uuid prefix i = prefix @ ''_'' @ uuid prefix i"

definition normalizeDigest :: "string \<Rightarrow> string" where
  "normalizeDigest value = (if starts_with value ''sha256:'' then drop 7 value else value)"

definition requiredString :: "json \<Rightarrow> string case_result" where
  "requiredString value = (case value of JStr s \<Rightarrow> if s = [] then Inl ZodFailure else Inr s
     | _ \<Rightarrow> Inl ZodFailure)"

definition optionalString :: "json \<Rightarrow> string option case_result" where
  "optionalString value = (if value = JUndef \<or> value = JNull then Inr None
     else bind_result (requiredString value) (\<lambda>s. Inr (Some s)))"

fun strings_of :: "json list \<Rightarrow> string list case_result" where
  "strings_of [] = Inr []"
| "strings_of (v # vs) = bind_result (requiredString v) (\<lambda>s.
     bind_result (strings_of vs) (\<lambda>ss. Inr (s # ss)))"

definition stringArray :: "json \<Rightarrow> nat \<Rightarrow> string list case_result" where
  "stringArray value minimum = (case value of
       JArr vs \<Rightarrow> if length vs < minimum then Inl ZodFailure else strings_of vs
     | _ \<Rightarrow> Inl ZodFailure)"

definition objectValue :: "json \<Rightarrow> entries case_result" where
  "objectValue value = (case value of JObj es \<Rightarrow> Inr es | _ \<Rightarrow> Inl ZodFailure)"

definition enumValue :: "string list \<Rightarrow> json \<Rightarrow> string case_result" where
  \<comment> \<open>\<open>z.enum(names).parse(value)\<close>\<close>
  "enumValue names value = (case value of
       JStr s \<Rightarrow> if s \<in> set names then Inr s else Inl ZodFailure | _ \<Rightarrow> Inl ZodFailure)"

definition timestamp_param :: "case_store \<Rightarrow> string option \<Rightarrow> time option case_result" where
  \<comment> \<open>a text bound to a nullable \<open>timestamptz\<close> column\<close>
  "timestamp_param st v = (case v of None \<Rightarrow> Inr None
     | Some s \<Rightarrow> (case st_timestamptz st s of None \<Rightarrow> Inl SqlFailure | Some t \<Rightarrow> Inr (Some t)))"

definition actor_json :: "case_actor \<Rightarrow> json" where
  "actor_json a = JObj [(''type'', JStr (actor_type_name (actor_type a))),
     (''principalId'', JStr (actor_principalId a)),
     (''executionId'', opt_json JStr (actor_executionId a)),
     (''roles'', strs_json (actor_roles a))]"

definition authority_json :: "case_authority \<Rightarrow> json" where
  "authority_json a = JObj [(''planDigest'', JStr (auth_planDigest a)),
     (''permissionEnvelopeDigest'', JStr (auth_permissionEnvelopeDigest a)),
     (''policySnapshotDigest'', JStr (auth_policySnapshotDigest a))]"

definition strings_json :: "(string \<times> string) list \<Rightarrow> entries" where
  "strings_json es = map (\<lambda>(k, v). (k, JStr v)) es"

definition mapCase :: "case_row \<Rightarrow> json" where
  "mapCase r = JObj [(''tenantId'', JStr (cs_tenant_id r)), (''caseId'', JStr (cs_case_id r)),
     (''caseType'', JStr (cs_case_type r)), (''schemaVersion'', JStr (cs_schema_version r)),
     (''jurisdiction'', JStr (cs_jurisdiction r)), (''status'', JStr (case_status_name (cs_status r))),
     (''caseSequence'', JInt (int (cs_case_sequence r))),
     (''externalRef'', null_json JStr (cs_external_ref r)),
     (''policySnapshotDigest'', JStr (cs_policy_snapshot_digest r)),
     (''harnessPlanDigest'', JStr (cs_harness_plan_digest r)),
     (''classification'', JStr (cs_classification r)), (''createdBy'', actor_json (cs_created_by r)),
     (''createdAt'', JStr (toISOString (cs_created_at r))),
     (''updatedAt'', JStr (toISOString (cs_updated_at r)))]"

end
