(* ===== verification/CaseMutations.thy ===== *)
theory CaseMutations
  imports CaseTables
begin

text \<open>
  \<open>applyMutation\<close> of packages/case-store/src/index.ts: one definition per business command.
  A command reads its payload, checks the tables it depends on and writes rows of the core
  schema; it returns the new core tables and the \<open>mutation\<close> its event is made of. It runs
  inside the transaction of \<open>submitBusinessCommand\<close>, so an error discards its writes.
\<close>

record lineage_edge =
  ln_source :: "string \<times> string"
  ln_predicate :: string
  ln_target :: "string \<times> string"

record mutation =
  mu_eventType :: string
  mu_eventSchema :: string
  mu_payload :: entries
  mu_evidenceRefs :: "string list"
  mu_identifiers :: "(string \<times> string) list"
  mu_nextStatus :: "case_status option"
  mu_lineage :: "lineage_edge list"

definition event_only :: "string \<Rightarrow> string \<Rightarrow> entries \<Rightarrow> string list \<Rightarrow> (string \<times> string) list \<Rightarrow> mutation" where
  \<comment> \<open>a mutation without a next status and without lineage\<close>
  "event_only ty schema payload refs ids = \<lparr>mu_eventType = ty, mu_eventSchema = schema,
     mu_payload = payload, mu_evidenceRefs = refs, mu_identifiers = ids,
     mu_nextStatus = None, mu_lineage = []\<rparr>"

text \<open>What every command is given: the store, the time of \<open>nowIso()\<close>, the ids it draws, the
  command, the locked case row, the classification read from the payload, and the evidence
  tables, which it only reads.\<close>

record command_context =
  cx_store :: case_store
  cx_now :: time
  cx_uuid :: draws
  cx_command :: business_command
  cx_current :: case_row
  cx_classification :: string
  cx_evidence :: evidence_tables

definition cx_key :: "command_context \<Rightarrow> case_key" where
  "cx_key c = (cmd_tenantId (cx_command c), cmd_caseId (cx_command c))"

definition cx_actor :: "command_context \<Rightarrow> case_actor" where
  "cx_actor c = cmd_actor (cx_command c)"

definition payload_at :: "command_context \<Rightarrow> string \<Rightarrow> json" where
  "payload_at c k = obj_get (cmd_payload (cx_command c)) k"

definition given_id :: "command_context \<Rightarrow> string \<Rightarrow> string \<Rightarrow> string case_result" where
  \<comment> \<open>\<open>optionalString(p.field) ?? opaqueId(prefix)\<close>\<close>
  "given_id c field prefix = bind_result (optionalString (payload_at c field))
     (\<lambda>v. Inr (or_else v (opaqueId (cx_uuid c) prefix 0)))"

definition string_list_or_empty :: "command_context \<Rightarrow> string \<Rightarrow> nat \<Rightarrow> string list case_result" where
  \<comment> \<open>\<open>stringArray(p.field ?? [], field, minimum)\<close>\<close>
  "string_list_or_empty c field minimum = stringArray (nullish (payload_at c field) (JArr [])) minimum"

type_synonym 'a case_write = "(core_tables \<times> 'a) case_result"

section \<open>Subjects and evidence\<close>

record subject_identifier =
  sid_identifierType :: string
  sid_value :: string
  sid_maskedValue :: "string option"
  sid_source :: string
  sid_classification :: "string option"

definition optional_member :: "entries \<Rightarrow> string \<Rightarrow> bool \<Rightarrow> string option case_result" where
  \<comment> \<open>\<open>z.string().optional()\<close>, with \<open>min(1)\<close> when the flag is set\<close>
  "optional_member es k nonempty = (case obj_get es k of
       JUndef \<Rightarrow> Inr None
     | JStr s \<Rightarrow> if nonempty \<and> s = [] then Inl ZodFailure else Inr (Some s)
     | _ \<Rightarrow> Inl ZodFailure)"

definition parse_identifier :: "json \<Rightarrow> subject_identifier case_result" where
  "parse_identifier v = bind_result (objectValue v) (\<lambda>es.
     guard_result (set (map fst es) \<subseteq> {''identifierType'', ''value'', ''maskedValue'', ''source'', ''classification''}) ZodFailure
     (bind_result (requiredString (obj_get es ''identifierType'')) (\<lambda>ty.
      bind_result (requiredString (obj_get es ''value'')) (\<lambda>val.
      bind_result (optional_member es ''maskedValue'' False) (\<lambda>masked.
      bind_result (requiredString (obj_get es ''source'')) (\<lambda>src.
      bind_result (optional_member es ''classification'' True) (\<lambda>cls.
      Inr \<lparr>sid_identifierType = ty, sid_value = val, sid_maskedValue = masked,
           sid_source = src, sid_classification = cls\<rparr>)))))))"

fun parse_identifiers :: "json list \<Rightarrow> subject_identifier list case_result" where
  "parse_identifiers [] = Inr []"
| "parse_identifiers (v # vs) = bind_result (parse_identifier v) (\<lambda>i.
     bind_result (parse_identifiers vs) (\<lambda>ids. Inr (i # ids)))"

definition identifier_list :: "json \<Rightarrow> subject_identifier list case_result" where
  \<comment> \<open>\<open>z.array(...).default([]).parse(p.identifiers)\<close>\<close>
  "identifier_list v = (case v of JUndef \<Rightarrow> Inr [] | JArr vs \<Rightarrow> parse_identifiers vs
     | _ \<Rightarrow> Inl ZodFailure)"

fun insert_identifiers :: "command_context \<Rightarrow> string \<Rightarrow> nat \<Rightarrow> subject_identifier list \<Rightarrow> core_tables \<Rightarrow> core_tables case_result" where
  "insert_identifiers c subjectId n [] t = Inr t"
| "insert_identifiers c subjectId n (i # ids) t =
     bind_result (sql_insert (\<lambda>r. (si_key r, si_subject_id r, si_identifier_id r))
         \<lparr>si_key = cx_key c, si_subject_id = subjectId,
          si_identifier_id = opaqueId (cx_uuid c) ''identifier'' n,
          si_identifier_type = sid_identifierType i,
          si_value_digest = stableDigest (st_sha (cx_store c)) (JStr (sid_value i)),
          si_masked_value = sid_maskedValue i, si_source = sid_source i,
          si_classification = or_else (sid_classification i) (cx_classification c),
          si_created_by = cx_actor c, si_created_at = cx_now c\<rparr> (subject_identifiers t))
       (\<lambda>rows. insert_identifiers c subjectId (Suc n) ids (t\<lparr>subject_identifiers := rows\<rparr>))"

definition apply_AddSubject :: "command_context \<Rightarrow> core_tables \<Rightarrow> mutation case_write" where
  "apply_AddSubject c t =
     bind_result (given_id c ''subjectId'' ''subject'') (\<lambda>subjectId.
     bind_result (enumValue [''individual'', ''legal_entity''] (payload_at c ''subjectType'')) (\<lambda>subjectType.
     bind_result (objectValue (nullish (payload_at c ''attributes'') (JObj []))) (\<lambda>attributes.
     bind_result (identifier_list (payload_at c ''identifiers'')) (\<lambda>identifiers.
     bind_result (optionalString (payload_at c ''displayName'')) (\<lambda>displayName.
     bind_result (sql_insert (\<lambda>r. (sj_key r, sj_subject_id r))
         \<lparr>sj_key = cx_key c, sj_subject_id = subjectId, sj_subject_type = subjectType,
          sj_display_name = displayName, sj_attributes = attributes,
          sj_classification = cx_classification c, sj_created_by = cx_actor c,
          sj_created_at = cx_now c\<rparr> (subjects t)) (\<lambda>rows.
     bind_result (insert_identifiers c subjectId 0 identifiers (t\<lparr>subjects := rows\<rparr>)) (\<lambda>t'.
     Inr (t', event_only ''subject.created'' ''kyc.subject.created.v1''
       [(''subjectId'', JStr subjectId), (''subjectType'', JStr subjectType), (''revision'', JInt 1),
        (''identifierCount'', JInt (int (length identifiers)))] [] [(''subjectId'', subjectId)]))))))))"

definition apply_LinkEvidence :: "command_context \<Rightarrow> core_tables \<Rightarrow> mutation case_write" where
  "apply_LinkEvidence c t =
     bind_result (requiredString (payload_at c ''evidenceId'')) (\<lambda>evidenceId.
     (case sql_find (\<lambda>e. eo_key e = cx_key c \<and> eo_evidence_id e = evidenceId) (evidence_objects (cx_evidence c)) of
        None \<Rightarrow> Inl (Refused ''evidence.not_found'' 404)
      | Some e \<Rightarrow>
          guard_result (eo_verification_status e = ''DIGEST_VERIFIED'') (Refused ''evidence.not_verified'' 409)
          (guard_result (\<not> (st_evidenceRequireScan (cx_store c) \<and> eo_scan_status e \<noteq> ''VERIFIED_CLEAN''))
             (Refused ''evidence.scan_required'' 409)
          (bind_result (requiredString (payload_at c ''purpose'')) (\<lambda>purpose.
           Inr (t\<lparr>evidence_refs := sql_insert_ignore (\<lambda>r. (er_key r, er_evidence_id r))
                  \<lparr>er_key = cx_key c, er_evidence_id = evidenceId, er_purpose = purpose,
                   er_status = ''ACCEPTED'', er_linked_by = cx_actor c, er_linked_at = cx_now c\<rparr>
                  (evidence_refs t)\<rparr>,
                event_only ''evidence.linked'' ''kyc.evidence.linked.v1''
                  [(''evidenceId'', JStr evidenceId), (''purpose'', payload_at c ''purpose''),
                   (''status'', JStr ''ACCEPTED'')] [evidenceId] [(''evidenceId'', evidenceId)]))))))"

definition ensureLinkedEvidence :: "command_context \<Rightarrow> core_tables \<Rightarrow> string list \<Rightarrow> unit case_result" where
  "ensureLinkedEvidence c t refs =
     (if refs = [] then Inr ()
      else guard_result (sql_count (\<lambda>r. er_key r = cx_key c \<and> er_evidence_id r \<in> set refs
               \<and> er_status r = ''ACCEPTED'') (evidence_refs t) = length refs)
             (Refused ''evidence.not_linked'' 409) (Inr ()))"

section \<open>Claims, facts, findings\<close>

definition edges :: "string \<Rightarrow> string \<Rightarrow> string \<times> string \<Rightarrow> string list \<Rightarrow> lineage_edge list" where
  "edges sourceType pred target sources =
     map (\<lambda>i. \<lparr>ln_source = (sourceType, i), ln_predicate = pred, ln_target = target\<rparr>) sources"

definition apply_ProposeClaim :: "command_context \<Rightarrow> core_tables \<Rightarrow> mutation case_write" where
  "apply_ProposeClaim c t =
     bind_result (given_id c ''claimId'' ''claim'') (\<lambda>claimId.
     bind_result (string_list_or_empty c ''evidenceRefs'' 1) (\<lambda>refs.
     bind_result (ensureLinkedEvidence c t refs) (\<lambda>_.
     bind_result (optionalString (payload_at c ''subjectRef'')) (\<lambda>subjectRef.
     bind_result (requiredString (payload_at c ''predicate'')) (\<lambda>pred.
     guard_result (payload_at c ''value'' \<noteq> JUndef) SqlFailure
     (bind_result (sql_insert (\<lambda>r. (cl_key r, cl_claim_id r))
         \<lparr>cl_key = cx_key c, cl_claim_id = claimId, cl_subject_ref = subjectRef, cl_predicate = pred,
          cl_value = payload_at c ''value'', cl_asserted_by = cx_actor c, cl_evidence_refs = refs,
          cl_confidence = nullish (payload_at c ''confidence'') JNull, cl_status = ''PROPOSED'',
          cl_classification = cx_classification c, cl_created_at = cx_now c, cl_updated_at = cx_now c\<rparr>
         (claims t)) (\<lambda>rows.
     Inr (t\<lparr>claims := rows\<rparr>, (event_only ''claim.proposed'' ''kyc.claim.proposed.v1''
       [(''claimId'', JStr claimId), (''predicate'', payload_at c ''predicate''),
        (''subjectRef'', nullish (payload_at c ''subjectRef'') JNull)] refs [(''claimId'', claimId)])
       \<lparr>mu_lineage := edges ''Evidence'' ''ASSERTS'' (''Claim'', claimId) refs\<rparr>))))))))"

definition accepted_claims :: "command_context \<Rightarrow> core_tables \<Rightarrow> string list \<Rightarrow> case_claim_row list" where
  "accepted_claims c t refs = filter (\<lambda>r. cl_key r = cx_key c \<and> cl_claim_id r \<in> set refs) (claims t)"

definition apply_AcceptClaimAsFact :: "command_context \<Rightarrow> core_tables \<Rightarrow> mutation case_write" where
  "apply_AcceptClaimAsFact c t =
     bind_result (stringArray (payload_at c ''claimRefs'') 1) (\<lambda>refs.
     guard_result (length (accepted_claims c t refs) = length refs) (Refused ''claim.not_found'' 404)
     (let source = hd (accepted_claims c t refs) in
     bind_result (given_id c ''factId'' ''fact'') (\<lambda>factId.
     bind_result (optionalString (payload_at c ''subjectRef'')) (\<lambda>subjectRef.
     bind_result (optionalString (payload_at c ''predicate'')) (\<lambda>pred.
     bind_result (requiredString (payload_at c ''acceptancePolicyRef'')) (\<lambda>policy.
     bind_result (requiredString (payload_at c ''purpose'')) (\<lambda>purpose.
     bind_result (optionalString (payload_at c ''validFrom'')) (\<lambda>validFrom.
     bind_result (optionalString (payload_at c ''validTo'')) (\<lambda>validTo.
     bind_result (timestamp_param (cx_store c) validFrom) (\<lambda>fromTime.
     bind_result (timestamp_param (cx_store c) validTo) (\<lambda>toTime.
     bind_result (sql_insert (\<lambda>r. (fa_key r, fa_fact_id r))
         \<lparr>fa_key = cx_key c, fa_fact_id = factId,
          fa_subject_ref = coalesce subjectRef (cl_subject_ref source),
          fa_predicate = or_else pred (cl_predicate source),
          fa_value = nullish (payload_at c ''value'') (cl_value source), fa_basis_claim_refs = refs,
          fa_acceptance_policy_ref = policy, fa_purpose = purpose, fa_valid_from = fromTime,
          fa_valid_to = toTime, fa_recorded_at = cx_now c, fa_classification = cx_classification c,
          fa_created_by = cx_actor c\<rparr> (facts t)) (\<lambda>rows.
     Inr (t\<lparr>facts := rows,
            claims := sql_update (\<lambda>r. cl_key r = cx_key c \<and> cl_claim_id r \<in> set refs)
              (\<lambda>r. r\<lparr>cl_status := ''ACCEPTED'', cl_updated_at := cx_now c\<rparr>) (claims t)\<rparr>,
          (event_only ''claim.accepted_as_fact'' ''kyc.claim.accepted_as_fact.v1''
            [(''factId'', JStr factId), (''claimRefs'', strs_json refs),
             (''predicate'', JStr (or_else pred (cl_predicate source)))] [] [(''factId'', factId)])
          \<lparr>mu_lineage := edges ''Claim'' ''ACCEPTED_AS'' (''Fact'', factId) refs\<rparr>)))))))))))))"

definition apply_RecordScreeningFinding :: "command_context \<Rightarrow> core_tables \<Rightarrow> mutation case_write" where
  "apply_RecordScreeningFinding c t =
     bind_result (string_list_or_empty c ''evidenceRefs'' 0) (\<lambda>refs.
     bind_result (string_list_or_empty c ''factRefs'' 0) (\<lambda>factRefs.
     guard_result (length refs + length factRefs \<noteq> 0) (Refused ''finding.basis_required'' 400)
     (bind_result (ensureLinkedEvidence c t refs) (\<lambda>_.
     bind_result (given_id c ''findingId'' ''finding'') (\<lambda>findingId.
     bind_result (requiredString (payload_at c ''findingType'')) (\<lambda>findingType.
     bind_result (optionalString (payload_at c ''subjectRef'')) (\<lambda>subjectRef.
     bind_result (requiredString (payload_at c ''reason'')) (\<lambda>reason.
     bind_result (optionalString (payload_at c ''policyRelevance'')) (\<lambda>relevance.
     bind_result (sql_insert (\<lambda>r. (fi_key r, fi_finding_id r))
         \<lparr>fi_key = cx_key c, fi_finding_id = findingId, fi_finding_type = findingType,
          fi_subject_ref = subjectRef, fi_classification = cx_classification c,
          fi_confidence = nullish (payload_at c ''confidence'') JNull,
          fi_uncertainty = nullish (payload_at c ''uncertainty'') JNull, fi_reason = reason,
          fi_evidence_refs = refs, fi_fact_refs = factRefs, fi_policy_relevance = relevance,
          fi_created_by = cx_actor c, fi_created_at = cx_now c\<rparr> (findings t)) (\<lambda>rows.
     Inr (t\<lparr>findings := rows\<rparr>, (event_only ''finding.created'' ''kyc.finding.created.v1''
       [(''findingId'', JStr findingId), (''classification'', payload_at c ''findingType''),
        (''subjectRef'', nullish (payload_at c ''subjectRef'') JNull)] refs [(''findingId'', findingId)])
       \<lparr>mu_lineage := edges ''Evidence'' ''SUPPORTS'' (''Finding'', findingId) refs
          @ edges ''Fact'' ''SUPPORTS'' (''Finding'', findingId) factRefs\<rparr>)))))))))))"

definition apply_RecordAssumption :: "command_context \<Rightarrow> core_tables \<Rightarrow> mutation case_write" where
  "apply_RecordAssumption c t =
     bind_result (given_id c ''assumptionId'' ''assumption'') (\<lambda>assumptionId.
     bind_result (requiredString (payload_at c ''proposition'')) (\<lambda>proposition.
     bind_result (requiredString (payload_at c ''materiality'')) (\<lambda>materiality.
     bind_result (string_list_or_empty c ''basisRefs'' 0) (\<lambda>basis.
     bind_result (sql_insert (\<lambda>r. (as_key r, as_assumption_id r))
         \<lparr>as_key = cx_key c, as_assumption_id = assumptionId, as_proposition = proposition,
          as_materiality = materiality, as_basis_refs = basis, as_status = ''UNVERIFIED'',
          as_classification = cx_classification c, as_created_by = cx_actor c,
          as_created_at = cx_now c\<rparr> (assumptions t)) (\<lambda>rows.
     Inr (t\<lparr>assumptions := rows\<rparr>, event_only ''assumption.recorded'' ''kyc.assumption.recorded.v1''
       [(''assumptionId'', JStr assumptionId), (''materiality'', payload_at c ''materiality'')]
       [] [(''assumptionId'', assumptionId)]))))))"

section \<open>Contradictions and work items\<close>

definition open_contradiction :: "contradiction_row \<Rightarrow> bool" where
  "open_contradiction r \<longleftrightarrow> ct_status r \<in> {''OPEN'', ''UNDER_INVESTIGATION''}"

definition apply_RaiseContradiction :: "command_context \<Rightarrow> core_tables \<Rightarrow> mutation case_write" where
  "apply_RaiseContradiction c t =
     bind_result (given_id c ''contradictionId'' ''contradiction'') (\<lambda>contradictionId.
     bind_result (stringArray (payload_at c ''objectRefs'') 2) (\<lambda>objectRefs.
     bind_result (requiredString (payload_at c ''description'')) (\<lambda>description.
     bind_result (requiredString (payload_at c ''materiality'')) (\<lambda>materiality.
     bind_result (requiredString (payload_at c ''detectionMethod'')) (\<lambda>detection.
     bind_result (sql_insert (\<lambda>r. (ct_key r, ct_contradiction_id r))
         \<lparr>ct_key = cx_key c, ct_contradiction_id = contradictionId, ct_object_refs = objectRefs,
          ct_description = description, ct_materiality = materiality, ct_detection_method = detection,
          ct_status = ''OPEN'', ct_resolution = None, ct_classification = cx_classification c,
          ct_created_by = cx_actor c, ct_created_at = cx_now c, ct_updated_at = cx_now c\<rparr>
         (contradictions t)) (\<lambda>rows.
     Inr (t\<lparr>contradictions := rows\<rparr>, event_only ''contradiction.raised'' ''kyc.contradiction.raised.v1''
       [(''contradictionId'', JStr contradictionId), (''objectRefs'', strs_json objectRefs),
        (''materiality'', payload_at c ''materiality'')] [] [(''contradictionId'', contradictionId)])))))))"

definition apply_ResolveContradiction :: "command_context \<Rightarrow> core_tables \<Rightarrow> mutation case_write" where
  "apply_ResolveContradiction c t =
     bind_result (requiredString (payload_at c ''contradictionId'')) (\<lambda>contradictionId.
     bind_result (enumValue [''RESOLVED'', ''ACCEPTED_RISK'', ''SUPERSEDED''] (payload_at c ''status'')) (\<lambda>status.
     bind_result (objectValue (payload_at c ''resolution'')) (\<lambda>resolution.
     (let P = (\<lambda>r. ct_key r = cx_key c \<and> ct_contradiction_id r = contradictionId \<and> open_contradiction r) in
     guard_result (sql_count P (contradictions t) = 1) (Refused ''contradiction.not_open'' 409)
     (bind_result (string_list_or_empty c ''evidenceRefs'' 0) (\<lambda>refs.
     Inr (t\<lparr>contradictions := sql_update P (\<lambda>r. r\<lparr>ct_status := status, ct_resolution := Some resolution,
             ct_updated_at := cx_now c\<rparr>) (contradictions t)\<rparr>,
          event_only ''contradiction.resolved'' ''kyc.contradiction.resolved.v1''
            [(''contradictionId'', JStr contradictionId), (''status'', JStr status)] refs
            [(''contradictionId'', contradictionId)])))))))"

definition apply_ProposeWorkItem :: "command_context \<Rightarrow> core_tables \<Rightarrow> mutation case_write" where
  "apply_ProposeWorkItem c t =
     bind_result (given_id c ''workItemId'' ''work'') (\<lambda>workItemId.
     bind_result (requiredString (payload_at c ''workType'')) (\<lambda>workType.
     bind_result (optionalString (payload_at c ''priority'')) (\<lambda>priority.
     bind_result (optionalString (payload_at c ''requiredCapability'')) (\<lambda>capability.
     bind_result (optionalString (payload_at c ''dueAt'')) (\<lambda>dueAt.
     bind_result (timestamp_param (cx_store c) dueAt) (\<lambda>due.
     bind_result (sql_insert (\<lambda>r. (wi_key r, wi_work_item_id r))
         \<lparr>wi_key = cx_key c, wi_work_item_id = workItemId, wi_work_type = workType, wi_status = ''OPEN'',
          wi_priority = or_else priority ''NORMAL'',
          wi_assigned_to = nullish (payload_at c ''assignedTo'') JNull,
          wi_required_capability = capability, wi_due_at = due, wi_result_refs = [],
          wi_classification = cx_classification c, wi_created_by = cx_actor c,
          wi_created_at = cx_now c, wi_updated_at = cx_now c\<rparr> (work_items t)) (\<lambda>rows.
     Inr (t\<lparr>work_items := rows\<rparr>, event_only ''work_item.created'' ''harness.work_item.created.v1''
       [(''workItemId'', JStr workItemId), (''workType'', payload_at c ''workType''),
        (''status'', JStr ''OPEN'')] [] [(''workItemId'', workItemId)]))))))))"

definition apply_CompleteWorkItem :: "command_context \<Rightarrow> core_tables \<Rightarrow> mutation case_write" where
  "apply_CompleteWorkItem c t =
     bind_result (requiredString (payload_at c ''workItemId'')) (\<lambda>workItemId.
     bind_result (string_list_or_empty c ''resultRefs'' 0) (\<lambda>refs.
     (let P = (\<lambda>r. wi_key r = cx_key c \<and> wi_work_item_id r = workItemId \<and> wi_status r = ''OPEN'') in
     guard_result (sql_count P (work_items t) = 1) (Refused ''work_item.not_open'' 409)
     (Inr (t\<lparr>work_items := sql_update P (\<lambda>r. r\<lparr>wi_status := ''COMPLETED'', wi_result_refs := refs,
             wi_updated_at := cx_now c\<rparr>) (work_items t)\<rparr>,
          event_only ''work_item.completed'' ''harness.work_item.completed.v1''
            [(''workItemId'', JStr workItemId), (''resultRefs'', strs_json refs)] []
            [(''workItemId'', workItemId)])))))"

definition apply_LinkExecution :: "command_context \<Rightarrow> core_tables \<Rightarrow> mutation case_write" where
  \<comment> \<open>\<open>trace_id\<close> is \<open>char(32)\<close>: the database rejects a longer text (but for trailing blanks)\<close>
  "apply_LinkExecution c t =
     bind_result (requiredString (payload_at c ''runId'')) (\<lambda>runId.
     bind_result (requiredString (payload_at c ''planDigest'')) (\<lambda>plan.
     bind_result (optionalString (payload_at c ''traceId'')) (\<lambda>traceId.
     bind_result (requiredString (payload_at c ''purpose'')) (\<lambda>purpose.
     guard_result (case traceId of None \<Rightarrow> True | Some s \<Rightarrow> list_all (\<lambda>x. x = CHR '' '') (drop 32 s)) SqlFailure
     (Inr (t\<lparr>execution_refs := sql_insert_ignore (\<lambda>r. (xr_key r, xr_run_id r))
             \<lparr>xr_key = cx_key c, xr_run_id = runId, xr_plan_digest = normalizeDigest plan,
              xr_trace_id = traceId, xr_purpose = purpose, xr_linked_by = cx_actor c,
              xr_linked_at = cx_now c\<rparr> (execution_refs t)\<rparr>,
          event_only ''execution.linked'' ''harness.execution.linked.v1''
            [(''runId'', JStr runId), (''traceId'', nullish (payload_at c ''traceId'') JNull),
             (''purpose'', payload_at c ''purpose'')] [] [(''runId'', runId)]))))))"

end
