(* ===== verification/CaseDecisions.thy ===== *)
theory CaseDecisions
  imports CaseMutations
begin

text \<open>
  The commands of \<open>applyMutation\<close> that lead to a decision: recommendations, gates, reviews,
  status transitions and the final disposition; and the dispatch on the command type.
\<close>

section \<open>Recommendations, gates, reviews\<close>

definition find_recommendation :: "command_context \<Rightarrow> core_tables \<Rightarrow> string \<Rightarrow> recommendation_row option" where
  "find_recommendation c t ref =
     sql_find (\<lambda>r. rc_key r = cx_key c \<and> rc_recommendation_id r = ref) (recommendations t)"

definition apply_SubmitDecisionRecommendation :: "command_context \<Rightarrow> core_tables \<Rightarrow> mutation case_write" where
  "apply_SubmitDecisionRecommendation c t =
     bind_result (given_id c ''recommendationId'' ''recommendation'') (\<lambda>recommendationId.
     bind_result (string_list_or_empty c ''findingRefs'' 0) (\<lambda>findingRefs.
     bind_result (string_list_or_empty c ''evidenceRefs'' 0) (\<lambda>refs.
     guard_result (length findingRefs + length refs \<noteq> 0) (Refused ''recommendation.basis_required'' 400)
     (bind_result (enumValue [''APPROVE'', ''DECLINE'', ''REVIEW''] (payload_at c ''outcome'')) (\<lambda>outcome.
     bind_result (requiredString (payload_at c ''rationale'')) (\<lambda>rationale.
     bind_result (sql_insert (\<lambda>r. (rc_key r, rc_recommendation_id r))
         \<lparr>rc_key = cx_key c, rc_recommendation_id = recommendationId, rc_outcome = outcome,
          rc_case_sequence = cs_case_sequence (cx_current c), rc_rationale = rationale,
          rc_finding_refs = findingRefs, rc_evidence_refs = refs,
          rc_policy_snapshot_digest = normalizeDigest (auth_policySnapshotDigest (cmd_authority (cx_command c))),
          rc_status = ''PROPOSED'', rc_classification = cx_classification c,
          rc_created_by = cx_actor c, rc_created_at = cx_now c\<rparr> (recommendations t)) (\<lambda>rows.
     Inr (t\<lparr>recommendations := rows\<rparr>,
       (event_only ''decision.recommendation_submitted'' ''kyc.decision.recommendation_submitted.v1''
         [(''recommendationId'', JStr recommendationId), (''outcome'', payload_at c ''outcome''),
          (''basedOnSequence'', JInt (int (cs_case_sequence (cx_current c))))] refs
         [(''recommendationId'', recommendationId)])
       \<lparr>mu_lineage := edges ''Finding'' ''SUPPORTS'' (''DecisionRecommendation'', recommendationId) findingRefs\<rparr>))))))))"

definition ruleResults :: "json \<Rightarrow> json list case_result" where
  \<comment> \<open>\<open>z.array(z.record(z.string(), z.unknown())).min(1).parse(p.ruleResults)\<close>\<close>
  "ruleResults v = (case v of
       JArr vs \<Rightarrow> guard_result (vs \<noteq> [] \<and> list_all (\<lambda>x. case x of JObj _ \<Rightarrow> True | _ \<Rightarrow> False) vs)
                   ZodFailure (Inr vs)
     | _ \<Rightarrow> Inl ZodFailure)"

definition apply_RecordGateResult :: "command_context \<Rightarrow> core_tables \<Rightarrow> mutation case_write" where
  "apply_RecordGateResult c t =
     bind_result (given_id c ''gateResultId'' ''gate'') (\<lambda>gateResultId.
     bind_result (requiredString (payload_at c ''recommendationRef'')) (\<lambda>ref.
     guard_result (find_recommendation c t ref \<noteq> None) (Refused ''recommendation.not_found'' 404)
     (bind_result (enumValue [''AUTHORIZED'', ''DENIED''] (payload_at c ''decision'')) (\<lambda>decision.
     bind_result (ruleResults (payload_at c ''ruleResults'')) (\<lambda>rules.
     bind_result (sql_insert (\<lambda>r. (ga_key r, ga_gate_result_id r))
         \<lparr>ga_key = cx_key c, ga_gate_result_id = gateResultId, ga_recommendation_ref = ref,
          ga_decision = decision, ga_case_sequence = cs_case_sequence (cx_current c),
          ga_rule_results = rules,
          ga_policy_snapshot_digest = normalizeDigest (auth_policySnapshotDigest (cmd_authority (cx_command c))),
          ga_created_by = cx_actor c, ga_created_at = cx_now c\<rparr> (gate_results t)) (\<lambda>rows.
     Inr (t\<lparr>gate_results := rows\<rparr>,
       (event_only ''decision.gate_recorded'' ''kyc.decision.gate_recorded.v1''
         [(''gateResultId'', JStr gateResultId), (''recommendationRef'', JStr ref),
          (''decision'', JStr decision),
          (''basedOnSequence'', JInt (int (cs_case_sequence (cx_current c))))] []
         [(''gateResultId'', gateResultId)])
       \<lparr>mu_lineage := edges ''DecisionRecommendation'' ''EVALUATED_BY'' (''DecisionGateResult'', gateResultId) [ref]\<rparr>)))))))"

definition apply_RecordQAResult :: "command_context \<Rightarrow> core_tables \<Rightarrow> mutation case_write" where
  "apply_RecordQAResult c t =
     bind_result (given_id c ''qaResultId'' ''qa'') (\<lambda>qaResultId.
     bind_result (requiredString (payload_at c ''recommendationRef'')) (\<lambda>ref.
     (case find_recommendation c t ref of
        None \<Rightarrow> Inl (Refused ''recommendation.not_found'' 404)
      | Some rec \<Rightarrow>
     guard_result (actor_principalId (rc_created_by rec) \<noteq> actor_principalId (cx_actor c))
       (Refused ''qa.separation_of_duties_required'' 403)
     (bind_result (enumValue [''PASS'', ''FAIL'', ''UNKNOWN'', ''ERROR''] (payload_at c ''outcome'')) (\<lambda>outcome.
     bind_result (requiredString (payload_at c ''rationale'')) (\<lambda>rationale.
     bind_result (string_list_or_empty c ''evidenceRefs'' 0) (\<lambda>refs.
     bind_result (sql_insert (\<lambda>r. (rv_key r, rv_review_id r))
         \<lparr>rv_key = cx_key c, rv_review_id = qaResultId, rv_review_type = ''SEMANTIC_QA'',
          rv_outcome = outcome, rv_object_ref = ref, rv_rationale = rationale,
          rv_viewed_evidence_refs = refs, rv_reviewer = cx_actor c, rv_created_at = cx_now c\<rparr>
         (reviews t)) (\<lambda>rows.
     Inr (t\<lparr>reviews := rows\<rparr>, event_only ''qa.result_recorded'' ''kyc.qa.result_recorded.v1''
       [(''qaResultId'', JStr qaResultId), (''recommendationRef'', JStr ref), (''outcome'', JStr outcome)]
       refs [(''qaResultId'', qaResultId)])))))))))"

definition apply_RecordReview :: "command_context \<Rightarrow> core_tables \<Rightarrow> mutation case_write" where
  "apply_RecordReview c t =
     bind_result (given_id c ''reviewId'' ''review'') (\<lambda>reviewId.
     bind_result (requiredString (payload_at c ''reviewType'')) (\<lambda>reviewType.
     bind_result (requiredString (payload_at c ''outcome'')) (\<lambda>outcome.
     bind_result (requiredString (payload_at c ''objectRef'')) (\<lambda>objectRef.
     bind_result (requiredString (payload_at c ''rationale'')) (\<lambda>rationale.
     bind_result (string_list_or_empty c ''viewedEvidenceRefs'' 0) (\<lambda>refs.
     bind_result (sql_insert (\<lambda>r. (rv_key r, rv_review_id r))
         \<lparr>rv_key = cx_key c, rv_review_id = reviewId, rv_review_type = reviewType, rv_outcome = outcome,
          rv_object_ref = objectRef, rv_rationale = rationale, rv_viewed_evidence_refs = refs,
          rv_reviewer = cx_actor c, rv_created_at = cx_now c\<rparr> (reviews t)) (\<lambda>rows.
     Inr (t\<lparr>reviews := rows\<rparr>, event_only ''review.recorded'' ''kyc.review.recorded.v1''
       [(''reviewId'', JStr reviewId), (''reviewType'', payload_at c ''reviewType''),
        (''outcome'', payload_at c ''outcome''), (''objectRef'', payload_at c ''objectRef'')]
       refs [(''reviewId'', reviewId)]))))))))"

section \<open>Status\<close>

fun allowedTransitions :: "case_status \<Rightarrow> case_status list" where
  "allowedTransitions INTAKE = [VALIDATING, NEEDS_INFORMATION, SUSPENDED]"
| "allowedTransitions VALIDATING = [SCREENING, NEEDS_INFORMATION, SUSPENDED]"
| "allowedTransitions SCREENING = [INVESTIGATING, READY_FOR_DECISION, NEEDS_INFORMATION, SUSPENDED]"
| "allowedTransitions INVESTIGATING = [SCREENING, READY_FOR_DECISION, NEEDS_INFORMATION, HUMAN_REVIEW, SUSPENDED]"
| "allowedTransitions READY_FOR_DECISION = [QA_REVIEW, HUMAN_REVIEW, INVESTIGATING, SUSPENDED]"
| "allowedTransitions QA_REVIEW = [HUMAN_REVIEW, READY_FOR_DECISION, INVESTIGATING, SUSPENDED]"
| "allowedTransitions HUMAN_REVIEW = [APPROVED, DECLINED, INVESTIGATING, NEEDS_INFORMATION, SUSPENDED]"
| "allowedTransitions NEEDS_INFORMATION = [VALIDATING, SCREENING, INVESTIGATING, SUSPENDED]"
| "allowedTransitions SUSPENDED = [VALIDATING, SCREENING, INVESTIGATING, HUMAN_REVIEW, CLOSED]"
| "allowedTransitions APPROVED = [CLOSED]"
| "allowedTransitions DECLINED = [CLOSED]"
| "allowedTransitions CLOSED = []"

definition apply_RequestHumanReview :: "command_context \<Rightarrow> core_tables \<Rightarrow> mutation case_write" where
  "apply_RequestHumanReview c t =
     guard_result (HUMAN_REVIEW \<in> set (allowedTransitions (cs_status (cx_current c))))
       (Refused ''case.transition_not_allowed'' 409)
     (bind_result (requiredString (payload_at c ''objectRef'')) (\<lambda>objectRef.
      bind_result (requiredString (payload_at c ''reason'')) (\<lambda>reason.
      bind_result (optionalString (payload_at c ''priority'')) (\<lambda>priority.
      bind_result (string_list_or_empty c ''evidenceRefs'' 0) (\<lambda>refs.
      (let reviewRequestId = opaqueId (cx_uuid c) ''review_request'' 0 in
      Inr (t, (event_only ''human_review.requested'' ''kyc.human_review.requested.v1''
        [(''reviewRequestId'', JStr reviewRequestId), (''objectRef'', JStr objectRef),
         (''reason'', JStr reason), (''priority'', JStr (or_else priority ''NORMAL''))] refs
        [(''reviewRequestId'', reviewRequestId)])\<lparr>mu_nextStatus := Some HUMAN_REVIEW\<rparr>)))))))"

definition apply_TransitionCaseStatus :: "command_context \<Rightarrow> core_tables \<Rightarrow> mutation case_write" where
  "apply_TransitionCaseStatus c t = (case parse_case_status (payload_at c ''toStatus'') of
       None \<Rightarrow> Inl ZodFailure
     | Some toStatus \<Rightarrow>
         guard_result (toStatus \<in> set (allowedTransitions (cs_status (cx_current c))))
           (Refused ''case.transition_not_allowed'' 409)
         (guard_result (\<not> (toStatus = APPROVED \<or> toStatus = DECLINED))
           (Refused ''case.disposition_command_required'' 409)
         (bind_result (requiredString (payload_at c ''reason'')) (\<lambda>reason.
          Inr (t, (event_only ''case.status_transitioned'' ''kyc.case.status_transitioned.v1''
            [(''from'', JStr (case_status_name (cs_status (cx_current c)))),
             (''to'', JStr (case_status_name toStatus)), (''reason'', JStr reason)] [] [])
            \<lparr>mu_nextStatus := Some toStatus\<rparr>)))))"

section \<open>The final disposition\<close>

definition human_authority :: "case_actor \<Rightarrow> bool" where
  "human_authority a \<longleftrightarrow> actor_type a = HUMAN
     \<and> (\<exists>role \<in> set (actor_roles a). role = ''KYC.Analyst'' \<or> role = ''KYC.SeniorReviewer'')"

definition material :: "contradiction_row \<Rightarrow> bool" where
  "material r \<longleftrightarrow> ct_materiality r \<in> {''HIGH'', ''MATERIAL''}"

definition gate_authorizes :: "case_key \<Rightarrow> core_tables \<Rightarrow> string \<Rightarrow> string \<Rightarrow> bool" where
  "gate_authorizes k t gateRef recommendationRef =
     (case sql_find (\<lambda>g. ga_key g = k \<and> ga_gate_result_id g = gateRef) (gate_results t) of
        None \<Rightarrow> False
      | Some g \<Rightarrow> ga_decision g = ''AUTHORIZED'' \<and> ga_recommendation_ref g = recommendationRef)"

definition open_material :: "case_key \<Rightarrow> core_tables \<Rightarrow> bool" where
  "open_material k t \<longleftrightarrow>
     (\<exists>r \<in> set (contradictions t). ct_key r = k \<and> open_contradiction r \<and> material r)"

definition apply_FinalizeDisposition :: "command_context \<Rightarrow> core_tables \<Rightarrow> mutation case_write" where
  "apply_FinalizeDisposition c t =
     guard_result (human_authority (cx_actor c)) (Refused ''disposition.human_authority_required'' 403)
     (guard_result (cs_status (cx_current c) = HUMAN_REVIEW) (Refused ''disposition.case_not_under_review'' 409)
     (bind_result (requiredString (payload_at c ''recommendationRef'')) (\<lambda>recommendationRef.
      bind_result (requiredString (payload_at c ''gateResultRef'')) (\<lambda>gateRef.
      bind_result (enumValue [''APPROVED'', ''DECLINED''] (payload_at c ''outcome'')) (\<lambda>outcome.
      guard_result (gate_authorizes (cx_key c) t gateRef recommendationRef)
        (Refused ''disposition.gate_not_authorized'' 409)
      (guard_result (\<not> open_material (cx_key c) t) (Refused ''disposition.material_contradiction_open'' 409)
      (bind_result (given_id c ''dispositionId'' ''disposition'') (\<lambda>dispositionId.
       bind_result (optionalString (payload_at c ''reviewRef'')) (\<lambda>reviewRef.
       bind_result (requiredString (payload_at c ''rationale'')) (\<lambda>rationale.
       bind_result (sql_insert (\<lambda>r. (di_key r, di_disposition_id r))
         \<lparr>di_key = cx_key c, di_disposition_id = dispositionId, di_outcome = outcome,
          di_recommendation_ref = recommendationRef, di_gate_result_ref = gateRef,
          di_review_ref = reviewRef,
          di_policy_snapshot_digest = normalizeDigest (auth_policySnapshotDigest (cmd_authority (cx_command c))),
          di_rationale = rationale,
          di_follow_up_obligations = nullish (payload_at c ''followUpObligations'') (JArr []),
          di_effective_at = cx_now c, di_authorized_actor = cx_actor c\<rparr> (dispositions t)) (\<lambda>rows.
       bind_result (string_list_or_empty c ''evidenceRefs'' 0) (\<lambda>refs.
       Inr (t\<lparr>dispositions := rows\<rparr>,
         (event_only ''case.dispositioned'' ''kyc.case.dispositioned.v1''
           [(''dispositionId'', JStr dispositionId), (''outcome'', JStr outcome),
            (''recommendationRef'', JStr recommendationRef), (''gateResultRef'', JStr gateRef),
            (''effectiveAt'', JStr (toISOString (cx_now c)))] refs [(''dispositionId'', dispositionId)])
         \<lparr>mu_nextStatus := Some (if outcome = ''APPROVED'' then APPROVED else DECLINED),
          mu_lineage := edges ''DecisionGateResult'' ''AUTHORIZES'' (''FinalDisposition'', dispositionId) [gateRef]\<rparr>)))))))))))))"

section \<open>Dispatch\<close>

fun apply_command :: "command_type \<Rightarrow> command_context \<Rightarrow> core_tables \<Rightarrow> mutation case_write" where
  "apply_command AddSubject = apply_AddSubject"
| "apply_command LinkEvidence = apply_LinkEvidence"
| "apply_command ProposeClaim = apply_ProposeClaim"
| "apply_command AcceptClaimAsFact = apply_AcceptClaimAsFact"
| "apply_command RecordScreeningFinding = apply_RecordScreeningFinding"
| "apply_command RecordAssumption = apply_RecordAssumption"
| "apply_command RaiseContradiction = apply_RaiseContradiction"
| "apply_command ResolveContradiction = apply_ResolveContradiction"
| "apply_command ProposeWorkItem = apply_ProposeWorkItem"
| "apply_command CompleteWorkItem = apply_CompleteWorkItem"
| "apply_command LinkExecution = apply_LinkExecution"
| "apply_command SubmitDecisionRecommendation = apply_SubmitDecisionRecommendation"
| "apply_command RecordGateResult = apply_RecordGateResult"
| "apply_command RecordQAResult = apply_RecordQAResult"
| "apply_command RecordReview = apply_RecordReview"
| "apply_command RequestHumanReview = apply_RequestHumanReview"
| "apply_command TransitionCaseStatus = apply_TransitionCaseStatus"
| "apply_command FinalizeDisposition = apply_FinalizeDisposition"

definition applyMutation :: "case_store \<Rightarrow> time \<Rightarrow> draws \<Rightarrow> business_command \<Rightarrow> case_row \<Rightarrow> evidence_tables \<Rightarrow> core_tables \<Rightarrow> mutation case_write" where
  "applyMutation st now uuid command current ev t =
     bind_result (optionalString (obj_get (cmd_payload command) ''classification'')) (\<lambda>cls.
     apply_command (cmd_commandType command)
       \<lparr>cx_store = st, cx_now = now, cx_uuid = uuid, cx_command = command, cx_current = current,
        cx_classification = or_else cls (cs_classification current), cx_evidence = ev\<rparr> t)"

end
