(* ===== verification/CaseStore.thy ===== *)
theory CaseStore
  imports CaseDecisions
begin

text \<open>
  The exported functions of packages/case-store/src/index.ts. Each of \<open>createKycCase\<close>,
  \<open>registerEvidence\<close> and \<open>submitBusinessCommand\<close> is one transaction: it returns the new
  database and the response, or the failure and leaves the database as it was. Every accepted
  command appends one event to the hash chain of its case, one outbox row and one receipt.
\<close>

section \<open>Events, receipts\<close>

text \<open>A timestamp text and the \<open>timestamptz\<close> the database reads from it.\<close>

type_synonym stamp = "string \<times> time"

definition own_stamp :: "time \<Rightarrow> stamp" where
  \<comment> \<open>\<open>nowIso()\<close>\<close>
  "own_stamp t = (toISOString t, t)"

record event_input =
  ei_key :: case_key
  ei_sequence :: nat
  ei_eventType :: string
  ei_eventSchema :: string
  ei_occurredAt :: stamp
  ei_recordedAt :: time
  ei_actor :: case_actor
  ei_commandId :: string
  ei_authority :: json
  ei_payload :: entries
  ei_evidenceRefs :: "string list"
  ei_previousEventDigest :: "string option"
  ei_classification :: string

definition event_envelope :: "string \<Rightarrow> case_key \<Rightarrow> nat \<Rightarrow> string \<Rightarrow> string \<Rightarrow> string \<Rightarrow> string \<Rightarrow> case_actor \<Rightarrow>
    string \<Rightarrow> json \<Rightarrow> entries \<Rightarrow> string list \<Rightarrow> string option \<Rightarrow> json" where
  "event_envelope eventId key sequence eventType schema occurred recorded actor commandRef authority payload refs previous =
     JObj [(''eventId'', JStr eventId), (''tenantId'', JStr (fst key)), (''caseId'', JStr (snd key)),
       (''caseSequence'', JInt (int sequence)), (''eventType'', JStr eventType),
       (''eventSchema'', JStr schema), (''occurredAt'', JStr occurred), (''recordedAt'', JStr recorded),
       (''actor'', actor_json actor), (''commandRef'', JStr commandRef), (''authority'', authority),
       (''payload'', JObj payload), (''evidenceRefs'', strs_json refs),
       (''previousEventDigest'', null_json JStr previous)]"

definition input_envelope :: "string \<Rightarrow> event_input \<Rightarrow> json" where
  "input_envelope eventId i = event_envelope eventId (ei_key i) (ei_sequence i) (ei_eventType i)
     (ei_eventSchema i) (fst (ei_occurredAt i)) (toISOString (ei_recordedAt i)) (ei_actor i)
     (ei_commandId i) (ei_authority i) (ei_payload i) (ei_evidenceRefs i) (ei_previousEventDigest i)"

definition event_row_of :: "string \<Rightarrow> string \<Rightarrow> event_input \<Rightarrow> case_event_row" where
  "event_row_of eventId digest i = \<lparr>ce_tenant_id = fst (ei_key i), ce_case_id = snd (ei_key i),
     ce_case_sequence = ei_sequence i, ce_event_id = eventId, ce_event_type = ei_eventType i,
     ce_event_schema = ei_eventSchema i, ce_occurred_at = snd (ei_occurredAt i),
     ce_recorded_at = ei_recordedAt i, ce_actor = ei_actor i, ce_command_id = ei_commandId i,
     ce_authority = ei_authority i, ce_payload = ei_payload i, ce_evidence_refs = ei_evidenceRefs i,
     ce_previous_event_digest = ei_previousEventDigest i, ce_event_digest = digest\<rparr>"

definition outbox_row_of :: "draws \<Rightarrow> string \<Rightarrow> string \<Rightarrow> event_input \<Rightarrow> outbox_row" where
  "outbox_row_of uuid eventId digest i = \<lparr>ob_outbox_id = opaqueId uuid ''outbox'' 0,
     ob_tenant_id = fst (ei_key i), ob_case_id = snd (ei_key i), ob_subject_id = eventId,
     ob_event_type = ei_eventType i, ob_classification = ei_classification i,
     ob_payload = [(''eventId'', JStr eventId), (''tenantId'', JStr (fst (ei_key i))),
       (''caseId'', JStr (snd (ei_key i))), (''caseSequence'', JInt (int (ei_sequence i))),
       (''eventType'', JStr (ei_eventType i)), (''recordedAt'', JStr (toISOString (ei_recordedAt i))),
       (''evidenceRefs'', strs_json (ei_evidenceRefs i))],
     ob_source_digest = digest, ob_created_at = ei_recordedAt i, ob_published_at = None,
     ob_publish_attempts = 0, ob_publish_claim_id = None, ob_publish_claimed_at = None\<rparr>"

definition event_keys :: "case_event_row \<Rightarrow> case_key \<times> nat" where
  "event_keys e = ((ce_tenant_id e, ce_case_id e), ce_case_sequence e)"

definition put_head :: "case_key \<Rightarrow> nat \<Rightarrow> string \<Rightarrow> time \<Rightarrow> chain_head_row list \<Rightarrow> chain_head_row list" where
  \<comment> \<open>the upsert of \<open>event_chain_heads\<close>\<close>
  "put_head k n digest now hs =
     (if \<exists>h \<in> set hs. ch_key h = k
      then sql_update (\<lambda>h. ch_key h = k) (\<lambda>h. h\<lparr>ch_case_sequence := n, ch_event_digest := digest,
             ch_updated_at := now\<rparr>) hs
      else hs @ [\<lparr>ch_key = k, ch_case_sequence = n, ch_event_digest = digest, ch_updated_at = now\<rparr>])"

definition appendCaseEvent :: "case_store \<Rightarrow> draws \<Rightarrow> event_input \<Rightarrow> ledger_tables \<Rightarrow> (ledger_tables \<times> string \<times> string) case_result" where
  "appendCaseEvent st uuid i l =
     (let eventId = opaqueId uuid ''evt'' 0;
          digest = stableDigest (st_sha st) (input_envelope eventId i);
          row = event_row_of eventId digest i
      in guard_result (\<not> (\<exists>e \<in> set (case_events l). event_keys e = event_keys row \<or> ce_event_id e = eventId
             \<or> (ce_tenant_id e, ce_case_id e, ce_event_digest e) = (fst (ei_key i), snd (ei_key i), digest)))
           UniqueViolation
         (guard_result (\<not> (\<exists>o' \<in> set (outbox l). ob_outbox_id o' = opaqueId uuid ''outbox'' 0 \<or> ob_subject_id o' = eventId))
           UniqueViolation
         (Inr (l\<lparr>case_events := case_events l @ [row],
                 chain_heads := put_head (ei_key i) (ei_sequence i) digest (ei_recordedAt i) (chain_heads l),
                 outbox := outbox l @ [outbox_row_of uuid eventId digest i]\<rparr>, eventId, digest))))"

definition writeReceipt :: "case_store \<Rightarrow> command_receipt_row \<Rightarrow> ledger_tables \<Rightarrow> ledger_tables case_result" where
  "writeReceipt st r l =
     guard_result (\<not> (\<exists>x \<in> set (command_receipts l). rp_key x = rp_key r
         \<and> (rp_command_id x = rp_command_id r \<or> rp_idempotency_key x = rp_idempotency_key r))) UniqueViolation
       (Inr (l\<lparr>command_receipts := command_receipts l @
          [r\<lparr>rp_response_digest := stableDigest (st_sha st) (JObj (rp_response r))\<rparr>]\<rparr>))"

section \<open>Cases\<close>

definition find_case :: "case_db \<Rightarrow> case_key \<Rightarrow> case_row option" where
  "find_case d k = sql_find (\<lambda>r. (cs_tenant_id r, cs_case_id r) = k) (cases d)"

definition find_receipt :: "case_db \<Rightarrow> case_key \<Rightarrow> string \<Rightarrow> command_receipt_row option" where
  "find_receipt d k idem =
     sql_find (\<lambda>r. rp_key r = k \<and> rp_idempotency_key r = idem) (command_receipts (ledger_of d))"

definition create_request_json :: "create_case_request \<Rightarrow> json" where
  "create_request_json r = JObj [(''tenantId'', JStr (ccr_tenantId r)), (''caseType'', JStr (ccr_caseType r)),
     (''schemaVersion'', JStr (ccr_schemaVersion r)), (''jurisdiction'', JStr (ccr_jurisdiction r)),
     (''externalRef'', opt_json JStr (ccr_externalRef r)),
     (''policySnapshotDigest'', JStr (ccr_policySnapshotDigest r)),
     (''harnessPlanDigest'', JStr (ccr_harnessPlanDigest r)),
     (''classification'', JStr (ccr_classification r)), (''actor'', actor_json (ccr_actor r))]"

definition case_id_for :: "case_store \<Rightarrow> string \<Rightarrow> string \<Rightarrow> string" where
  "case_id_for st tenantId idem = ''case_'' @ take 32 (stableDigest (st_sha st)
     (JObj [(''tenantId'', JStr tenantId), (''idempotencyKey'', JStr idem)]))"

definition create_command_id :: "case_store \<Rightarrow> string \<Rightarrow> string \<Rightarrow> string" where
  "create_command_id st caseId idem = ''cmd_'' @ take 32 (stableDigest (st_sha st)
     (JObj [(''caseId'', JStr caseId), (''idempotencyKey'', JStr idem)]))"

definition new_case :: "create_case_request \<Rightarrow> string \<Rightarrow> time \<Rightarrow> case_row" where
  "new_case r caseId now = \<lparr>cs_tenant_id = ccr_tenantId r, cs_case_id = caseId,
     cs_case_type = ccr_caseType r, cs_schema_version = ccr_schemaVersion r,
     cs_jurisdiction = ccr_jurisdiction r, cs_status = INTAKE, cs_case_sequence = 1,
     cs_external_ref = ccr_externalRef r,
     cs_policy_snapshot_digest = normalizeDigest (ccr_policySnapshotDigest r),
     cs_harness_plan_digest = normalizeDigest (ccr_harnessPlanDigest r),
     cs_classification = ccr_classification r, cs_created_by = ccr_actor r,
     cs_created_at = now, cs_updated_at = now\<rparr>"

definition created_event :: "case_store \<Rightarrow> create_case_request \<Rightarrow> string \<Rightarrow> string \<Rightarrow> time \<Rightarrow> event_input" where
  "created_event st r caseId commandId now = \<lparr>ei_key = (ccr_tenantId r, caseId), ei_sequence = 1,
     ei_eventType = ''case.created'', ei_eventSchema = ''kyc.case.created.v1'',
     ei_occurredAt = own_stamp now, ei_recordedAt = now, ei_actor = ccr_actor r,
     ei_commandId = commandId,
     ei_authority = JObj [(''planDigest'', JStr (normalizeDigest (ccr_harnessPlanDigest r))),
       (''policySnapshotDigest'', JStr (normalizeDigest (ccr_policySnapshotDigest r))),
       (''permissionEnvelopeDigest'', JStr (stableDigest (st_sha st)
          (JObj [(''action'', JStr ''CreateCase''), (''actor'', actor_json (ccr_actor r))])))],
     ei_payload = [(''caseType'', JStr (ccr_caseType r)), (''jurisdiction'', JStr (ccr_jurisdiction r)),
       (''status'', JStr ''INTAKE'')],
     ei_evidenceRefs = [], ei_previousEventDigest = None, ei_classification = ccr_classification r\<rparr>"

definition receipt_event_id :: "command_receipt_row \<Rightarrow> json" where
  "receipt_event_id r = obj_get (rp_response r) ''eventId''"

definition on_unique :: "string \<Rightarrow> 'a case_result \<Rightarrow> 'a case_result" where
  \<comment> \<open>the \<open>catch\<close> that turns a duplicate key (23505) into a conflict\<close>
  "on_unique code r = (case r of Inl UniqueViolation \<Rightarrow> Inl (Refused code 409) | _ \<Rightarrow> r)"

definition insert_case :: "case_row \<Rightarrow> case_row list \<Rightarrow> case_row list case_result" where
  \<comment> \<open>the primary key and \<open>unique (tenant_id, external_ref)\<close>\<close>
  "insert_case r cs = guard_result
     (\<not> (\<exists>x \<in> set cs. cs_tenant_id x = cs_tenant_id r
          \<and> (cs_case_id x = cs_case_id r
             \<or> (cs_external_ref r \<noteq> None \<and> cs_external_ref x = cs_external_ref r)))) UniqueViolation
     (Inr (cs @ [r]))"

definition createKycCase :: "case_store \<Rightarrow> time \<Rightarrow> draws \<Rightarrow> case_db \<Rightarrow> create_case_request \<Rightarrow> string \<Rightarrow> (case_db \<times> bool \<times> json \<times> json) case_result" where
  "createKycCase st now uuid d request idem =
     guard_result (idem \<noteq> []) (Refused ''case.idempotency_key_required'' 400)
     (let caseId = case_id_for st (ccr_tenantId request) idem;
          commandId = create_command_id st caseId idem;
          requestDigest = stableDigest (st_sha st) (create_request_json request);
          key = (ccr_tenantId request, caseId)
      in case find_receipt d key idem of
           Some rp \<Rightarrow>
             guard_result (rp_request_digest rp = requestDigest) (Refused ''case.idempotency_conflict'' 409)
               (Inr (d, False, (case find_case d key of Some r \<Rightarrow> mapCase r | None \<Rightarrow> JUndef),
                     receipt_event_id rp))
         | None \<Rightarrow> on_unique ''case.conflict''
            (bind_result (insert_case (new_case request caseId now) (cases d)) (\<lambda>rows.
             bind_result (appendCaseEvent st uuid (created_event st request caseId commandId now) (ledger_of d))
               (\<lambda>(l, eventId, _).
             bind_result (writeReceipt st
                 \<lparr>rp_key = key, rp_command_id = commandId, rp_command_type = ''CreateCase'',
                  rp_idempotency_key = idem, rp_request_digest = requestDigest, rp_accepted_sequence = 1,
                  rp_created_identifiers = [(''caseId'', caseId), (''eventId'', eventId)],
                  rp_response = [(''outcome'', JStr ''ACCEPTED''), (''caseId'', JStr caseId),
                    (''caseSequence'', JInt 1), (''eventId'', JStr eventId)],
                  rp_response_digest = [], rp_created_at = now\<rparr> l) (\<lambda>l'.
             Inr (d\<lparr>cases := rows, ledger_of := l'\<rparr>, True, mapCase (new_case request caseId now), JStr eventId))))))"

section \<open>Commands\<close>

definition command_json :: "business_command \<Rightarrow> json" where
  "command_json c = JObj [(''commandId'', JStr (cmd_commandId c)),
     (''commandType'', JStr (command_name (cmd_commandType c))),
     (''commandVersion'', JStr (cmd_commandVersion c)), (''tenantId'', JStr (cmd_tenantId c)),
     (''caseId'', JStr (cmd_caseId c)), (''actor'', actor_json (cmd_actor c)),
     (''authority'', authority_json (cmd_authority c)), (''payload'', JObj (cmd_payload c)),
     (''preconditions'', JObj [(''caseSequence'', JInt (cmd_caseSequence c)),
        (''subjectRevision'', opt_json JInt (cmd_subjectRevision c))]),
     (''idempotencyKey'', JStr (cmd_idempotencyKey c)),
     (''occurredAt'', opt_json JStr (cmd_occurredAt c))]"

definition occurred_stamp :: "case_store \<Rightarrow> business_command \<Rightarrow> time \<Rightarrow> stamp case_result" where
  \<comment> \<open>\<open>command.occurredAt ?? recordedAt\<close>, and what the database makes of it\<close>
  "occurred_stamp st c now = (case cmd_occurredAt c of
       None \<Rightarrow> Inr (own_stamp now)
     | Some s \<Rightarrow> (case st_timestamptz st s of None \<Rightarrow> Inl SqlFailure | Some t \<Rightarrow> Inr (s, t)))"

fun insert_lineage :: "draws \<Rightarrow> case_key \<Rightarrow> string \<Rightarrow> case_actor \<Rightarrow> time \<Rightarrow> nat \<Rightarrow> lineage_edge list \<Rightarrow> lineage_row list \<Rightarrow> lineage_row list case_result" where
  "insert_lineage uuid key eventId actor now n [] rows = Inr rows"
| "insert_lineage uuid key eventId actor now n (e # es) rows =
     bind_result (sql_insert (\<lambda>r. (le_key r, le_edge_id r))
         \<lparr>le_key = key, le_edge_id = opaqueId uuid ''edge'' n, le_source = ln_source e,
          le_predicate = ln_predicate e, le_target = ln_target e, le_creation_event_id = eventId,
          le_created_by = actor, le_created_at = now\<rparr> rows)
       (\<lambda>rows'. insert_lineage uuid key eventId actor now (Suc n) es rows')"

definition on_zod :: "'a case_result \<Rightarrow> 'a case_result" where
  "on_zod r = (case r of Inl ZodFailure \<Rightarrow> Inl (Refused ''command.payload_invalid'' 400) | _ \<Rightarrow> r)"

definition command_key :: "business_command \<Rightarrow> case_key" where
  "command_key c = (cmd_tenantId c, cmd_caseId c)"

definition head_digest :: "ledger_tables \<Rightarrow> case_key \<Rightarrow> string option" where
  "head_digest l k = map_option ch_event_digest (sql_find (\<lambda>h. ch_key h = k) (chain_heads l))"

definition command_event :: "business_command \<Rightarrow> case_row \<Rightarrow> stamp \<Rightarrow> time \<Rightarrow> string option \<Rightarrow> mutation \<Rightarrow> event_input" where
  "command_event c current occurred now head m = \<lparr>ei_key = command_key c,
     ei_sequence = cs_case_sequence current + 1, ei_eventType = mu_eventType m,
     ei_eventSchema = mu_eventSchema m, ei_occurredAt = occurred, ei_recordedAt = now,
     ei_actor = cmd_actor c, ei_commandId = cmd_commandId c,
     ei_authority = authority_json (cmd_authority c), ei_payload = mu_payload m,
     ei_evidenceRefs = mu_evidenceRefs m, ei_previousEventDigest = head,
     ei_classification = cs_classification current\<rparr>"

definition advance_case :: "mutation \<Rightarrow> time \<Rightarrow> case_row \<Rightarrow> case_row" where
  "advance_case m now r = r\<lparr>cs_case_sequence := cs_case_sequence r + 1,
     cs_status := or_else (mu_nextStatus m) (cs_status r), cs_updated_at := now\<rparr>"

definition command_response :: "business_command \<Rightarrow> nat \<Rightarrow> string \<Rightarrow> string \<Rightarrow> mutation \<Rightarrow> entries" where
  "command_response c sequence eventId digest m = [(''outcome'', JStr ''ACCEPTED''),
     (''caseId'', JStr (cmd_caseId c)), (''caseSequence'', JInt (int sequence)),
     (''eventId'', JStr eventId), (''eventDigest'', JStr digest),
     (''createdIdentifiers'', JObj (strings_json (mu_identifiers m)))]"

definition command_receipt :: "business_command \<Rightarrow> string \<Rightarrow> nat \<Rightarrow> mutation \<Rightarrow> entries \<Rightarrow> time \<Rightarrow> command_receipt_row" where
  "command_receipt c requestDigest sequence m response now = \<lparr>rp_key = command_key c,
     rp_command_id = cmd_commandId c, rp_command_type = command_name (cmd_commandType c),
     rp_idempotency_key = cmd_idempotencyKey c, rp_request_digest = requestDigest,
     rp_accepted_sequence = sequence, rp_created_identifiers = mu_identifiers m,
     rp_response = response, rp_response_digest = [], rp_created_at = now\<rparr>"

definition accept_command :: "case_store \<Rightarrow> time \<Rightarrow> time \<Rightarrow> draws \<Rightarrow> case_db \<Rightarrow> business_command \<Rightarrow> case_row \<Rightarrow> (case_db \<times> entries) case_result" where
  \<comment> \<open>the writes of a command that passed every precondition; \<open>t1\<close> and \<open>t2\<close> are the times of
    the two calls of \<open>nowIso()\<close>\<close>
  "accept_command st t1 t2 uuid d c current =
     bind_result (on_zod (applyMutation st t1 uuid c current (evidence d) (core d))) (\<lambda>(core', m).
     bind_result (occurred_stamp st c t2) (\<lambda>occurred.
     bind_result (appendCaseEvent st uuid
         (command_event c current occurred t2 (head_digest (ledger_of d) (command_key c)) m) (ledger_of d))
       (\<lambda>(l, eventId, digest).
     bind_result (insert_lineage uuid (command_key c) eventId (cmd_actor c) t2 0 (mu_lineage m)
         (lineage_edges (evidence d))) (\<lambda>edges'.
     (let sequence = cs_case_sequence current + 1;
          response = command_response c sequence eventId digest m
      in bind_result (writeReceipt st (command_receipt c (stableDigest (st_sha st) (command_json c))
             sequence m response t2) l) (\<lambda>l'.
     Inr (d\<lparr>cases := sql_update (\<lambda>r. (cs_tenant_id r, cs_case_id r) = command_key c)
               (advance_case m t2) (cases d),
            core := core', ledger_of := l', evidence := (evidence d)\<lparr>lineage_edges := edges'\<rparr>\<rparr>,
          response)))))))"

definition submitBusinessCommand :: "case_store \<Rightarrow> time \<Rightarrow> time \<Rightarrow> draws \<Rightarrow> case_db \<Rightarrow> business_command \<Rightarrow> (case_db \<times> entries) case_result" where
  "submitBusinessCommand st t1 t2 uuid d c =
     (case find_case d (command_key c) of
        None \<Rightarrow> Inl (Refused ''case.not_found'' 404)
      | Some current \<Rightarrow>
        (case find_receipt d (command_key c) (cmd_idempotencyKey c) of
           Some rp \<Rightarrow>
             guard_result (rp_request_digest rp = stableDigest (st_sha st) (command_json c))
               (Refused ''command.idempotency_conflict'' 409)
               (Inr (d, obj_spread (rp_response rp) [(''replayed'', JBool True)]))
         | None \<Rightarrow>
             guard_result (cmd_caseSequence c = int (cs_case_sequence current))
               (Refused ''command.case_sequence_conflict'' 409)
             (guard_result (normalizeDigest (auth_planDigest (cmd_authority c))
                 = normalizeDigest (cs_harness_plan_digest current))
               (Refused ''command.plan_authority_mismatch'' 403)
             (guard_result (normalizeDigest (auth_policySnapshotDigest (cmd_authority c))
                 = normalizeDigest (cs_policy_snapshot_digest current))
               (Refused ''command.policy_authority_mismatch'' 403)
             (on_unique ''command.conflict'' (accept_command st t1 t2 uuid d c current))))))"

end
