(* ===== verification/CaseEvidence.thy ===== *)
theory CaseEvidence
  imports CaseStore
begin

text \<open>
  The rest of packages/case-store: \<open>registerEvidence\<close>, the reads, \<open>verifyCaseLedger\<close>, the
  schema names of config.ts and the outbox relay of outbox-relay.ts.
\<close>

section \<open>Base64\<close>

definition base64_alphabet :: string where
  "base64_alphabet = ''ABCDEFGHIJKLMNOPQRSTUVWXYZabcdefghijklmnopqrstuvwxyz0123456789+/''"

fun position :: "char \<Rightarrow> string \<Rightarrow> nat" where
  "position c [] = 0"
| "position c (x # xs) = (if x = c then 0 else Suc (position c xs))"

definition sextet :: "char \<Rightarrow> nat" where
  "sextet c = position c base64_alphabet"

definition base64_ok :: "string \<Rightarrow> bool" where
  \<comment> \<open>\<open>length % 4 === 0\<close> and \<open>/^[A-Za-z0-9+/]*={0,2}$/\<close>\<close>
  "base64_ok s \<longleftrightarrow> length s mod 4 = 0
     \<and> (let rest = dropWhile (\<lambda>c. c \<in> set base64_alphabet) s
        in length rest \<le> 2 \<and> list_all (\<lambda>c. c = CHR ''='') rest)"

fun base64_bytes :: "nat list \<Rightarrow> string" where
  \<comment> \<open>\<open>Buffer.from(text, 'base64')\<close> on the sextets before the padding\<close>
  "base64_bytes (a # b # c # d # xs) =
     char_of (a * 4 + b div 16) # char_of (b mod 16 * 16 + c div 4) # char_of (c mod 4 * 64 + d)
     # base64_bytes xs"
| "base64_bytes [a, b, c] = [char_of (a * 4 + b div 16), char_of (b mod 16 * 16 + c div 4)]"
| "base64_bytes [a, b] = [char_of (a * 4 + b div 16)]"
| "base64_bytes [a] = []"
| "base64_bytes [] = []"

definition base64_decode :: "string \<Rightarrow> string" where
  "base64_decode s = base64_bytes (map sextet (takeWhile (\<lambda>c. c \<in> set base64_alphabet) s))"

section \<open>Registering evidence\<close>

definition register_json :: "register_evidence_request \<Rightarrow> json" where
  "register_json r = JObj [(''tenantId'', JStr (rer_tenantId r)), (''caseId'', JStr (rer_caseId r)),
     (''schemaVersion'', JStr (rer_schemaVersion r)), (''type'', JStr (rer_type r)),
     (''mediaType'', JStr (rer_mediaType r)), (''contentBase64'', JStr (rer_contentBase64 r)),
     (''declaredDigest'', opt_json JStr (rer_declaredDigest r)), (''source'', JObj (rer_source r)),
     (''subjectRefs'', strs_json (rer_subjectRefs r)),
     (''trust'', pair_json ''tier'' ''instructionTrust'' (rer_trust r)),
     (''classification'', JStr (rer_classification r)), (''retentionClass'', JStr (rer_retentionClass r)),
     (''residency'', JStr (rer_residency r)), (''createdBy'', actor_json (rer_createdBy r))]"

definition artifact_ref :: "case_store \<Rightarrow> string \<Rightarrow> string \<Rightarrow> string" where
  "artifact_ref st tenantId digest = ''artifact://postgres/''
     @ take 16 (stableDigest (st_sha st) (JStr tenantId)) @ ''/sha256/'' @ take 2 digest @ ''/''
     @ take 2 (drop 2 digest) @ ''/'' @ digest"

definition evidence_content :: "case_store \<Rightarrow> register_evidence_request \<Rightarrow> string case_result" where
  \<comment> \<open>the checks on the content; the value is the decoded content\<close>
  "evidence_content st r =
     guard_result (base64_ok (rer_contentBase64 r)) (Refused ''evidence.content_invalid'' 400)
     (let content = base64_decode (rer_contentBase64 r) in
      guard_result (content \<noteq> []) (Refused ''evidence.content_invalid'' 400)
      (guard_result (length content \<le> st_evidenceMaxBytes st) (Refused ''evidence.content_too_large'' 413)
      (guard_result (case rer_declaredDigest r of None \<Rightarrow> True
           | Some d \<Rightarrow> d = [] \<or> normalizeDigest d = st_sha st content) (Refused ''evidence.digest_mismatch'' 400)
        (Inr content))))"

definition evidence_row :: "case_store \<Rightarrow> time \<Rightarrow> string \<Rightarrow> string \<Rightarrow> register_evidence_request \<Rightarrow> evidence_object_row" where
  "evidence_row st now evidenceId digest r = \<lparr>eo_key = (rer_tenantId r, rer_caseId r),
     eo_evidence_id = evidenceId, eo_schema_version = rer_schemaVersion r,
     eo_evidence_type = rer_type r, eo_source = rer_source r, eo_subject_refs = rer_subjectRefs r,
     eo_trust = rer_trust r, eo_raw_digest = digest,
     eo_artifact_ref = artifact_ref st (rer_tenantId r) digest,
     eo_classification = rer_classification r, eo_retention_class = rer_retentionClass r,
     eo_residency = rer_residency r, eo_scan_status = ''POC_NOT_SCANNED'',
     eo_verification_status = ''DIGEST_VERIFIED'', eo_created_by = rer_createdBy r, eo_created_at = now\<rparr>"

definition evidence_json :: "evidence_object_row \<Rightarrow> json" where
  "evidence_json e = JObj [(''evidenceId'', JStr (eo_evidence_id e)), (''tenantId'', JStr (fst (eo_key e))),
     (''caseId'', JStr (snd (eo_key e))), (''schemaVersion'', JStr (eo_schema_version e)),
     (''type'', JStr (eo_evidence_type e)), (''source'', JObj (eo_source e)),
     (''subjectRefs'', strs_json (eo_subject_refs e)),
     (''trust'', pair_json ''tier'' ''instructionTrust'' (eo_trust e)),
     (''integrity'', JObj [(''rawDigest'', JStr (eo_raw_digest e)), (''normalizedDigest'', JNull),
        (''artifactRef'', JStr (eo_artifact_ref e))]),
     (''classification'', JStr (eo_classification e)), (''retentionClass'', JStr (eo_retention_class e)),
     (''residency'', JStr (eo_residency e)), (''scanStatus'', JStr (eo_scan_status e)),
     (''verificationStatus'', JStr (eo_verification_status e)),
     (''createdBy'', actor_json (eo_created_by e)),
     (''createdAt'', JStr (toISOString (eo_created_at e)))]"

definition insert_artifact :: "artifact_row \<Rightarrow> artifact_row list \<Rightarrow> artifact_row list case_result" where
  \<comment> \<open>\<open>on conflict (tenant_id, artifact_digest) do nothing\<close>; the reference is unique as well\<close>
  "insert_artifact a as =
     (if \<exists>x \<in> set as. ar_tenant_id x = ar_tenant_id a \<and> ar_artifact_digest x = ar_artifact_digest a
      then Inr as
      else guard_result (\<not> (\<exists>x \<in> set as. ar_artifact_ref x = ar_artifact_ref a)) UniqueViolation
             (Inr (as @ [a])))"

definition evidence_outbox_row :: "draws \<Rightarrow> evidence_object_row \<Rightarrow> outbox_row" where
  "evidence_outbox_row uuid e = \<lparr>ob_outbox_id = opaqueId uuid ''outbox'' 0,
     ob_tenant_id = fst (eo_key e), ob_case_id = snd (eo_key e), ob_subject_id = eo_evidence_id e,
     ob_event_type = ''evidence.registered'', ob_classification = eo_classification e,
     ob_payload = [(''evidenceId'', JStr (eo_evidence_id e)), (''caseId'', JStr (snd (eo_key e))),
       (''rawDigest'', JStr (eo_raw_digest e)), (''artifactRef'', JStr (eo_artifact_ref e)),
       (''verificationStatus'', JStr ''DIGEST_VERIFIED'')],
     ob_source_digest = [], ob_created_at = eo_created_at e, ob_published_at = None,
     ob_publish_attempts = 0, ob_publish_claim_id = None, ob_publish_claimed_at = None\<rparr>"

definition store_evidence :: "case_store \<Rightarrow> time \<Rightarrow> draws \<Rightarrow> evidence_tables \<Rightarrow> register_evidence_request \<Rightarrow> string \<Rightarrow> string \<Rightarrow> (evidence_tables \<times> bool \<times> json) case_result" where
  \<comment> \<open>the inserts of a new registration\<close>
  "store_evidence st now uuid ev r idem content =
     (let digest = st_sha st content; evidenceId = opaqueId uuid ''ev'' 0;
          row = evidence_row st now evidenceId digest r;
          response = [(''created'', JBool True), (''evidence'', evidence_json row)]
      in bind_result (insert_artifact \<lparr>ar_tenant_id = rer_tenantId r, ar_artifact_digest = digest,
            ar_artifact_ref = artifact_ref st (rer_tenantId r) digest, ar_media_type = rer_mediaType r,
            ar_byte_length = length content, ar_content = content, ar_created_at = now\<rparr> (artifacts ev)) (\<lambda>as.
         bind_result (sql_insert (\<lambda>e. (fst (eo_key e), eo_evidence_id e)) row (evidence_objects ev)) (\<lambda>es.
         bind_result (sql_insert (\<lambda>g. (rg_tenant_id g, rg_idempotency_key g))
            \<lparr>rg_tenant_id = rer_tenantId r, rg_idempotency_key = idem,
             rg_request_digest = stableDigest (st_sha st) (register_json r), rg_evidence_id = evidenceId,
             rg_response = response, rg_response_digest = stableDigest (st_sha st) (JObj response),
             rg_created_at = now\<rparr> (registration_receipts ev)) (\<lambda>gs.
         bind_result (sql_insert ob_outbox_id (evidence_outbox_row uuid row) (evidence_outbox ev)) (\<lambda>os.
         Inr (ev\<lparr>artifacts := as, evidence_objects := es, registration_receipts := gs,
                 evidence_outbox := os\<rparr>, True, evidence_json row))))))"

definition registerEvidence :: "case_store \<Rightarrow> time \<Rightarrow> draws \<Rightarrow> case_db \<Rightarrow> register_evidence_request \<Rightarrow> string \<Rightarrow> (case_db \<times> bool \<times> json) case_result" where
  "registerEvidence st now uuid d r idem =
     guard_result (idem \<noteq> []) (Refused ''evidence.idempotency_key_required'' 400)
     (bind_result (evidence_content st r) (\<lambda>content.
      (case sql_find (\<lambda>g. rg_tenant_id g = rer_tenantId r \<and> rg_idempotency_key g = idem)
              (registration_receipts (evidence d)) of
         Some g \<Rightarrow>
           guard_result (rg_request_digest g = stableDigest (st_sha st) (register_json r))
             (Refused ''evidence.idempotency_conflict'' 409)
             (Inr (d, False, obj_get (rg_response g) ''evidence''))
       | None \<Rightarrow>
           guard_result (find_case d (rer_tenantId r, rer_caseId r) \<noteq> None) (Refused ''case.not_found'' 404)
           (bind_result (store_evidence st now uuid (evidence d) r idem content) (\<lambda>(ev, created, e).
            Inr (d\<lparr>evidence := ev\<rparr>, created, e))))))"

section \<open>Reading\<close>

definition listCases :: "case_db \<Rightarrow> string \<Rightarrow> case_status option \<Rightarrow> int option \<Rightarrow> json list" where
  "listCases d tenantId status limit =
     map mapCase (take (nat (max 1 (min 200 (or_else limit 100))))
       (sort_key (\<lambda>r. - cs_updated_at r) (sort_key cs_case_id
         (filter (\<lambda>r. cs_tenant_id r = tenantId \<and> (status = None \<or> status = Some (cs_status r))) (cases d)))))"

definition of_case :: "('r \<Rightarrow> case_key) \<Rightarrow> case_key \<Rightarrow> 'r list \<Rightarrow> 'r list" where
  \<comment> \<open>\<open>selectRows\<close>\<close>
  "of_case key k rows = filter (\<lambda>r. key r = k) rows"

record case_view =
  vw_generatedAt :: string
  vw_etag :: string
  vw_case :: json
  vw_core :: core_tables
  vw_evidence :: "evidence_object_row list"
  vw_lineageEdges :: "lineage_row list"

definition getCaseView :: "time \<Rightarrow> case_db \<Rightarrow> string \<Rightarrow> string \<Rightarrow> case_view option" where
  \<comment> \<open>the evidence objects have no \<open>content\<close> column, which the code strips\<close>
  "getCaseView now d tenantId caseId = (let k = (tenantId, caseId); t = core d in
     case find_case d k of None \<Rightarrow> None
     | Some r \<Rightarrow> Some \<lparr>vw_generatedAt = toISOString now,
         vw_etag = ''W/'' @ [CHR 34] @ cs_case_id r @ '':'' @ nat_text (cs_case_sequence r) @ [CHR 34],
         vw_case = mapCase r,
         vw_core = \<lparr>subjects = of_case sj_key k (subjects t), subject_identifiers = [],
           evidence_refs = [], claims = of_case cl_key k (claims t), facts = of_case fa_key k (facts t),
           findings = of_case fi_key k (findings t), assumptions = of_case as_key k (assumptions t),
           contradictions = of_case ct_key k (contradictions t),
           work_items = of_case wi_key k (work_items t),
           recommendations = of_case rc_key k (recommendations t),
           gate_results = of_case ga_key k (gate_results t), reviews = of_case rv_key k (reviews t),
           dispositions = of_case di_key k (dispositions t),
           execution_refs = of_case xr_key k (execution_refs t)\<rparr>,
         vw_evidence = of_case eo_key k (evidence_objects (evidence d)),
         vw_lineageEdges = of_case le_key k (lineage_edges (evidence d))\<rparr>)"

definition case_events_of :: "case_db \<Rightarrow> case_key \<Rightarrow> case_event_row list" where
  "case_events_of d k =
     sort_key ce_case_sequence (filter (\<lambda>e. (ce_tenant_id e, ce_case_id e) = k) (case_events (ledger_of d)))"

definition listCaseEvents :: "case_db \<Rightarrow> string \<Rightarrow> string \<Rightarrow> nat \<Rightarrow> case_event_row list" where
  "listCaseEvents d tenantId caseId afterSequence =
     take 1000 (sort_key ce_case_sequence (filter (\<lambda>e. (ce_tenant_id e, ce_case_id e) = (tenantId, caseId)
        \<and> afterSequence < ce_case_sequence e) (case_events (ledger_of d))))"

definition getEvidence :: "case_db \<Rightarrow> string \<Rightarrow> string \<Rightarrow> (evidence_object_row \<times> artifact_row) option" where
  "getEvidence d tenantId evidenceId =
     (case filter (\<lambda>e. fst (eo_key e) = tenantId \<and> eo_evidence_id e = evidenceId
            \<and> (\<exists>a \<in> set (artifacts (evidence d)). ar_tenant_id a = fst (eo_key e) \<and> ar_artifact_ref a = eo_artifact_ref e))
            (evidence_objects (evidence d)) of
        [] \<Rightarrow> None
      | e # _ \<Rightarrow> map_option (Pair e) (sql_find (\<lambda>a. ar_tenant_id a = fst (eo_key e)
            \<and> ar_artifact_ref a = eo_artifact_ref e) (artifacts (evidence d))))"

section \<open>Verifying a ledger\<close>

definition row_envelope :: "case_event_row \<Rightarrow> json" where
  "row_envelope e = event_envelope (ce_event_id e) (ce_tenant_id e, ce_case_id e) (ce_case_sequence e)
     (ce_event_type e) (ce_event_schema e) (toISOString (ce_occurred_at e))
     (toISOString (ce_recorded_at e)) (ce_actor e) (ce_command_id e) (ce_authority e)
     (ce_payload e) (ce_evidence_refs e) (ce_previous_event_digest e)"

datatype ledger_check = Verified nat "string option" | Broken nat nat

fun check_chain :: "(string \<Rightarrow> string) \<Rightarrow> string option \<Rightarrow> case_event_row list \<Rightarrow> nat + string option" where
  "check_chain sha previous [] = Inr previous"
| "check_chain sha previous (e # es) =
     (if ce_previous_event_digest e \<noteq> previous \<or> ce_event_digest e \<noteq> stableDigest sha (row_envelope e)
      then Inl (ce_case_sequence e)
      else check_chain sha (Some (ce_event_digest e)) es)"

definition verifyCaseLedger :: "case_store \<Rightarrow> case_db \<Rightarrow> string \<Rightarrow> string \<Rightarrow> ledger_check" where
  "verifyCaseLedger st d tenantId caseId =
     (let events = listCaseEvents d tenantId caseId 0
      in case check_chain (st_sha st) None events of
           Inl failed \<Rightarrow> Broken (length events) failed
         | Inr head \<Rightarrow> Verified (length events) head)"

section \<open>Schema names\<close>

definition sql_identifier :: "string \<Rightarrow> bool" where
  \<comment> \<open>\<open>/^[a-z_][a-z0-9_]*$/\<close>\<close>
  "sql_identifier s = (case s of [] \<Rightarrow> False
     | c # cs \<Rightarrow> (is_lower c \<or> c = CHR ''_'') \<and> list_all (\<lambda>x. is_lower x \<or> is_digit x \<or> x = CHR ''_'') cs)"

definition schemaName :: "string option \<Rightarrow> string \<Rightarrow> string result" where
  "schemaName value fallback = (let normalized = or_else (trim_or_undefined value) fallback in
     guard_result (sql_identifier normalized) (''case_store.schema_invalid:'' @ normalized) (Inr normalized))"

definition quoteIdentifier :: "string \<Rightarrow> string result" where
  "quoteIdentifier i = guard_result (sql_identifier i) (''case_store.schema_invalid:'' @ i)
     (Inr ([CHR 34] @ i @ [CHR 34]))"

definition qualify :: "string \<Rightarrow> string \<Rightarrow> string result" where
  "qualify schema table = bind_result (quoteIdentifier schema) (\<lambda>s.
     bind_result (quoteIdentifier table) (\<lambda>t. Inr (s @ ''.'' @ t)))"

definition caseStoreSchemas :: "(string \<Rightarrow> string option) \<Rightarrow> (string \<times> string \<times> string) result" where
  "caseStoreSchemas env = bind_result (schemaName (env ''CASE_CORE_SCHEMA'') ''case_core'') (\<lambda>a.
     bind_result (schemaName (env ''CASE_LEDGER_SCHEMA'') ''case_ledger'') (\<lambda>b.
     bind_result (schemaName (env ''EVIDENCE_SCHEMA'') ''evidence'') (\<lambda>c. Inr (a, b, c))))"

section \<open>The outbox relay\<close>

record outbox_record =
  or_outboxId :: string
  or_source :: string
  or_tenantId :: string
  or_caseId :: string
  or_eventType :: string
  or_classification :: string
  or_createdAt :: string

definition outbox_record_of :: "string \<Rightarrow> outbox_row \<Rightarrow> outbox_record" where
  "outbox_record_of source r = \<lparr>or_outboxId = ob_outbox_id r, or_source = source,
     or_tenantId = ob_tenant_id r, or_caseId = ob_case_id r, or_eventType = ob_event_type r,
     or_classification = ob_classification r, or_createdAt = toISOString (ob_created_at r)\<rparr>"

definition publishable :: "time \<Rightarrow> int \<Rightarrow> outbox_row \<Rightarrow> bool" where
  "publishable now claimSeconds r \<longleftrightarrow> ob_published_at r = None
     \<and> (case ob_publish_claimed_at r of None \<Rightarrow> True | Some t \<Rightarrow> t < now - claimSeconds * 1000)"

definition outbox_candidates :: "(string \<Rightarrow> bool) \<Rightarrow> time \<Rightarrow> int \<Rightarrow> nat \<Rightarrow> outbox_row list \<Rightarrow> outbox_row list" where
  "outbox_candidates locked now claimSeconds batch rows = take batch (sort_key ob_created_at
     (filter (\<lambda>r. publishable now claimSeconds r \<and> \<not> locked (ob_outbox_id r)) rows))"

definition claim_outbox :: "string \<Rightarrow> time \<Rightarrow> string list \<Rightarrow> outbox_row list \<Rightarrow> outbox_row list" where
  "claim_outbox claimId now ids rows = sql_update (\<lambda>r. ob_outbox_id r \<in> set ids)
     (\<lambda>r. r\<lparr>ob_publish_claim_id := Some claimId, ob_publish_claimed_at := Some now,
            ob_publish_attempts := ob_publish_attempts r + 1\<rparr>) rows"

definition mark_published :: "string \<Rightarrow> time \<Rightarrow> string list \<Rightarrow> outbox_row list \<Rightarrow> outbox_row list" where
  "mark_published claimId now ids rows =
     sql_update (\<lambda>r. ob_publish_claim_id r = Some claimId \<and> ob_outbox_id r \<in> set ids)
       (\<lambda>r. r\<lparr>ob_published_at := Some now, ob_publish_claim_id := None, ob_publish_claimed_at := None\<rparr>) rows"

definition release_claim :: "string \<Rightarrow> outbox_row list \<Rightarrow> outbox_row list" where
  "release_claim claimId rows = sql_update (\<lambda>r. ob_publish_claim_id r = Some claimId)
     (\<lambda>r. r\<lparr>ob_publish_claim_id := None, ob_publish_claimed_at := None\<rparr>) rows"

definition purgePublished :: "time \<Rightarrow> int \<Rightarrow> outbox_row list \<Rightarrow> outbox_row list" where
  "purgePublished now retentionDays rows = sql_delete
     (\<lambda>r. case ob_published_at r of None \<Rightarrow> False | Some t \<Rightarrow> t < now - retentionDays * 86400000) rows"

text \<open>One table of one drain: the rows after it and what the sink was given. \<open>accepts\<close> says
  whether \<open>sink.publish\<close> returned, \<open>t1\<close> and \<open>t2\<close> are the times of the claim and of the mark;
  a claim that finds nothing publishes nothing.\<close>

definition drain_table :: "(outbox_record list \<Rightarrow> bool) \<Rightarrow> (string \<Rightarrow> bool) \<Rightarrow> string \<Rightarrow> string \<Rightarrow> time \<Rightarrow> time \<Rightarrow> nat \<Rightarrow> int \<Rightarrow>
    outbox_row list \<Rightarrow> outbox_row list \<times> outbox_record list \<times> bool" where
  "drain_table accepts locked source claimId t1 t2 batch claimSeconds rows =
     (let cs = outbox_candidates locked t1 claimSeconds batch rows; ids = map ob_outbox_id cs;
          claimed = claim_outbox claimId t1 ids rows;
          records = map (outbox_record_of source) (filter (\<lambda>r. ob_outbox_id r \<in> set ids) claimed)
      in if cs = [] then (rows, [], True)
         else if accepts records then (mark_published claimId t2 ids claimed, records, True)
         else (release_claim claimId claimed, records, False))"

definition drain_batch :: "int option \<Rightarrow> nat" where
  "drain_batch batchSize = nat (max 1 (min 500 (or_else batchSize 100)))"

definition drain_claim_seconds :: "int option \<Rightarrow> int" where
  \<comment> \<open>\<open>Math.ceil(ms / 1000)\<close>\<close>
  "drain_claim_seconds timeoutMs = max 5 (- ((- or_else timeoutMs 300000) div 1000))"

definition drainOutbox :: "(outbox_record list \<Rightarrow> bool) \<Rightarrow> (string \<Rightarrow> bool) \<Rightarrow> string \<times> string \<Rightarrow> time \<Rightarrow> time \<Rightarrow>
    int option \<Rightarrow> int option \<Rightarrow> int option \<Rightarrow> case_db \<Rightarrow> case_db \<times> (nat \<times> nat) option" where
  \<comment> \<open>\<open>None\<close>: the sink threw, and the drain with it\<close>
  "drainOutbox accepts locked claimIds t1 t2 batchSize claimTimeoutMs retentionDays d =
     (let n = drain_batch batchSize; s = drain_claim_seconds claimTimeoutMs;
          (rows, sent, ok) = drain_table accepts locked ''case'' (fst claimIds) t1 t2 n s (outbox (ledger_of d));
          d1 = d\<lparr>ledger_of := (ledger_of d)\<lparr>outbox := rows\<rparr>\<rparr>
      in if \<not> ok then (d1, None)
         else (let (rows', sent', ok') = drain_table accepts locked ''evidence'' (snd claimIds) t1 t2 n s
                    (evidence_outbox (evidence d));
                   d2 = d1\<lparr>evidence := (evidence d)\<lparr>evidence_outbox := rows'\<rparr>\<rparr>
               in if \<not> ok' then (d2, None)
                  else (case retentionDays of
                      None \<Rightarrow> (d2, Some (length sent + length sent', 0))
                    | Some days \<Rightarrow>
                        if days \<le> 0 then (d2, Some (length sent + length sent', 0))
                        else (d2\<lparr>ledger_of := (ledger_of d2)\<lparr>outbox := purgePublished t2 days rows\<rparr>,
                                 evidence := (evidence d2)\<lparr>evidence_outbox := purgePublished t2 days rows'\<rparr>\<rparr>,
                              Some (length sent + length sent',
                                (length rows - length (purgePublished t2 days rows))
                                + (length rows' - length (purgePublished t2 days rows')))))))"

end
