(* ===== verification/CaseInvariant.thy ===== *)
theory CaseInvariant
  imports CaseEvidence
begin

text \<open>
  The case store as a state machine: \<open>case_step\<close> executes any exported operation for any
  caller. \<open>ledger_ok\<close> is the invariant of the hash chain; the locale \<open>quiet_command\<close> is the
  contract of the business commands that neither move the status nor decide the case, and is
  interpreted on each of the fifteen.
\<close>

section \<open>What an accepted command wrote\<close>

lemma on_unique_Inr [simp]: "on_unique code r = Inr x \<longleftrightarrow> r = Inr x"
  by (cases r) (auto simp: on_unique_def split: case_failure.splits)

lemma on_zod_Inr [simp]: "on_zod r = Inr x \<longleftrightarrow> r = Inr x"
  by (cases r) (auto simp: on_zod_def split: case_failure.splits)

lemma appendCaseEvent_Inr:
  assumes "appendCaseEvent st uuid i l = Inr (l', eventId, digest)"
  shows "eventId = opaqueId uuid ''evt'' 0" and "digest = stableDigest (st_sha st) (input_envelope eventId i)"
    and "case_events l' = case_events l @ [event_row_of eventId digest i]"
    and "chain_heads l' = put_head (ei_key i) (ei_sequence i) digest (ei_recordedAt i) (chain_heads l)"
    and "command_receipts l' = command_receipts l"
    and "outbox l' = outbox l @ [outbox_row_of uuid eventId digest i]"
  using assms by (auto simp: appendCaseEvent_def Let_def)

lemma writeReceipt_Inr:
  assumes "writeReceipt st r l = Inr l'"
  shows "case_events l' = case_events l" and "chain_heads l' = chain_heads l"
    and "outbox l' = outbox l"
    and "command_receipts l' = command_receipts l
       @ [r\<lparr>rp_response_digest := stableDigest (st_sha st) (JObj (rp_response r))\<rparr>]"
    and "\<And>x. x \<in> set (command_receipts l) \<Longrightarrow> rp_key x = rp_key r \<Longrightarrow> rp_idempotency_key x \<noteq> rp_idempotency_key r"
  using assms by (auto simp: writeReceipt_def)

record acceptance =
  ac_core :: core_tables
  ac_mutation :: mutation
  ac_occurred :: stamp
  ac_eventId :: string
  ac_digest :: string
  ac_edges :: "lineage_row list"
  ac_receipt :: command_receipt_row

definition accepted :: "case_store \<Rightarrow> time \<Rightarrow> time \<Rightarrow> draws \<Rightarrow> case_db \<Rightarrow> business_command \<Rightarrow> case_row \<Rightarrow> case_db \<Rightarrow> acceptance \<Rightarrow> bool" where
  "accepted st t1 t2 uuid d c r d' a \<longleftrightarrow>
     applyMutation st t1 uuid c r (evidence d) (core d) = Inr (ac_core a, ac_mutation a)
     \<and> occurred_stamp st c t2 = Inr (ac_occurred a)
     \<and> ac_digest a = stableDigest (st_sha st) (input_envelope (ac_eventId a) (command_event c r (ac_occurred a) t2
          (head_digest (ledger_of d) (command_key c)) (ac_mutation a)))
     \<and> case_events (ledger_of d') = case_events (ledger_of d)
          @ [event_row_of (ac_eventId a) (ac_digest a) (command_event c r (ac_occurred a) t2
               (head_digest (ledger_of d) (command_key c)) (ac_mutation a))]
     \<and> chain_heads (ledger_of d') = put_head (command_key c) (cs_case_sequence r + 1) (ac_digest a) t2 (chain_heads (ledger_of d))
     \<and> command_receipts (ledger_of d') = command_receipts (ledger_of d) @ [ac_receipt a]
     \<and> rp_key (ac_receipt a) = command_key c \<and> rp_idempotency_key (ac_receipt a) = cmd_idempotencyKey c
     \<and> rp_request_digest (ac_receipt a) = stableDigest (st_sha st) (command_json c)
     \<and> rp_response (ac_receipt a) = command_response c (cs_case_sequence r + 1) (ac_eventId a) (ac_digest a) (ac_mutation a)
     \<and> cases d' = sql_update (\<lambda>x. (cs_tenant_id x, cs_case_id x) = command_key c) (advance_case (ac_mutation a) t2) (cases d)
     \<and> core d' = ac_core a \<and> evidence d' = (evidence d)\<lparr>lineage_edges := ac_edges a\<rparr>"

lemma accept_command_accepted:
  assumes "accept_command st t1 t2 uuid d c r = Inr (d', response)"
  obtains a where "accepted st t1 t2 uuid d c r d' a" and "response = rp_response (ac_receipt a)"
proof -
  obtain core' m where m: "applyMutation st t1 uuid c r (evidence d) (core d) = Inr (core', m)"
    and rest: "bind_result (occurred_stamp st c t2) (\<lambda>occurred.
     bind_result (appendCaseEvent st uuid
         (command_event c r occurred t2 (head_digest (ledger_of d) (command_key c)) m) (ledger_of d))
       (\<lambda>(l, eventId, digest).
     bind_result (insert_lineage uuid (command_key c) eventId (cmd_actor c) t2 0 (mu_lineage m)
         (lineage_edges (evidence d))) (\<lambda>edges'.
     (let sequence = cs_case_sequence r + 1;
          response = command_response c sequence eventId digest m
      in bind_result (writeReceipt st (command_receipt c (stableDigest (st_sha st) (command_json c))
             sequence m response t2) l) (\<lambda>l'.
     Inr (d\<lparr>cases := sql_update (\<lambda>r. (cs_tenant_id r, cs_case_id r) = command_key c)
               (advance_case m t2) (cases d),
            core := core', ledger_of := l', evidence := (evidence d)\<lparr>lineage_edges := edges'\<rparr>\<rparr>,
          response)))))) = Inr (d', response)"
    using assms by (auto simp: accept_command_def bind_result_Inr_iff)
  obtain occurred where o': "occurred_stamp st c t2 = Inr occurred"
    using rest by (auto simp: bind_result_Inr_iff)
  let ?i = "command_event c r occurred t2 (head_digest (ledger_of d) (command_key c)) m"
  obtain l eventId digest where l: "appendCaseEvent st uuid ?i (ledger_of d) = Inr (l, eventId, digest)"
    using rest o' by (auto simp: bind_result_Inr_iff)
  obtain edges' where edges: "insert_lineage uuid (command_key c) eventId (cmd_actor c) t2 0 (mu_lineage m)
         (lineage_edges (evidence d)) = Inr edges'"
    using rest o' l by (auto simp: bind_result_Inr_iff)
  let ?response = "command_response c (cs_case_sequence r + 1) eventId digest m"
  let ?rp = "command_receipt c (stableDigest (st_sha st) (command_json c)) (cs_case_sequence r + 1) m ?response t2"
  obtain l' where l': "writeReceipt st ?rp l = Inr l'"
    using rest o' l edges by (auto simp: bind_result_Inr_iff Let_def)
  have d': "d' = d\<lparr>cases := sql_update (\<lambda>r. (cs_tenant_id r, cs_case_id r) = command_key c)
               (advance_case m t2) (cases d),
            core := core', ledger_of := l', evidence := (evidence d)\<lparr>lineage_edges := edges'\<rparr>\<rparr>"
    and response: "response = ?response"
    using rest o' l edges l' by (auto simp: Let_def)
  note e = appendCaseEvent_Inr [OF l] and w = writeReceipt_Inr [OF l']
  have key: "ei_key ?i = command_key c" "ei_sequence ?i = cs_case_sequence r + 1" "ei_recordedAt ?i = t2"
    by (simp_all add: command_event_def)
  let ?a = "\<lparr>ac_core = core', ac_mutation = m, ac_occurred = occurred, ac_eventId = eventId,
    ac_digest = digest, ac_edges = edges',
    ac_receipt = ?rp\<lparr>rp_response_digest := stableDigest (st_sha st) (JObj (rp_response ?rp))\<rparr>\<rparr>"
  have "accepted st t1 t2 uuid d c r d' ?a"
    unfolding accepted_def using m o' e w key by (simp add: d' command_receipt_def)
  moreover have "response = rp_response (ac_receipt ?a)" by (simp add: response command_receipt_def)
  ultimately show thesis by (rule that)
qed

lemma submit_cases:
  assumes "submitBusinessCommand st t1 t2 uuid d c = Inr (d', response)"
  obtains (replay) rp where "find_receipt d (command_key c) (cmd_idempotencyKey c) = Some rp"
      and "d' = d" and "rp_request_digest rp = stableDigest (st_sha st) (command_json c)"
      and "response = obj_spread (rp_response rp) [(''replayed'', JBool True)]"
  | (accept) r a where "find_case d (command_key c) = Some r"
      and "find_receipt d (command_key c) (cmd_idempotencyKey c) = None"
      and "cmd_caseSequence c = int (cs_case_sequence r)"
      and "normalizeDigest (auth_planDigest (cmd_authority c)) = normalizeDigest (cs_harness_plan_digest r)"
      and "normalizeDigest (auth_policySnapshotDigest (cmd_authority c)) = normalizeDigest (cs_policy_snapshot_digest r)"
      and "accepted st t1 t2 uuid d c r d' a" and "response = rp_response (ac_receipt a)"
proof -
  obtain r where r: "find_case d (command_key c) = Some r"
    using assms by (auto simp: submitBusinessCommand_def split: option.splits)
  show thesis
  proof (cases "find_receipt d (command_key c) (cmd_idempotencyKey c)")
    case (Some rp)
    then have "d' = d" "rp_request_digest rp = stableDigest (st_sha st) (command_json c)"
      "response = obj_spread (rp_response rp) [(''replayed'', JBool True)]"
      using assms r by (auto simp: submitBusinessCommand_def)
    then show thesis using Some by (intro replay)
  next
    case None
    then have "accept_command st t1 t2 uuid d c r = Inr (d', response)"
      using assms r by (simp add: submitBusinessCommand_def)
    then obtain a where "accepted st t1 t2 uuid d c r d' a" "response = rp_response (ac_receipt a)"
      by (rule accept_command_accepted)
    moreover have "cmd_caseSequence c = int (cs_case_sequence r)"
      "normalizeDigest (auth_planDigest (cmd_authority c)) = normalizeDigest (cs_harness_plan_digest r)"
      "normalizeDigest (auth_policySnapshotDigest (cmd_authority c)) = normalizeDigest (cs_policy_snapshot_digest r)"
      using assms r None by (auto simp: submitBusinessCommand_def)
    ultimately show thesis using r None by (intro accept)
  qed
qed

section \<open>Operations in any order\<close>

datatype case_op =
    OpCreateCase create_case_request string
  | OpRegisterEvidence register_evidence_request string
  | OpSubmit business_command
  | OpDrain "outbox_record list \<Rightarrow> bool" "string \<Rightarrow> bool" "string \<times> string" "int option" "int option" "int option"

record case_call =
  call_t1 :: time
  call_t2 :: time
  call_uuid :: draws
  call_op :: case_op

definition case_step :: "case_store \<Rightarrow> case_db \<Rightarrow> case_call \<Rightarrow> case_db" where
  "case_step st d c = (case call_op c of
       OpCreateCase r idem \<Rightarrow>
         (case createKycCase st (call_t1 c) (call_uuid c) d r idem of Inl _ \<Rightarrow> d | Inr (d', _) \<Rightarrow> d')
     | OpRegisterEvidence r idem \<Rightarrow>
         (case registerEvidence st (call_t1 c) (call_uuid c) d r idem of Inl _ \<Rightarrow> d | Inr (d', _) \<Rightarrow> d')
     | OpSubmit cmd \<Rightarrow>
         (case submitBusinessCommand st (call_t1 c) (call_t2 c) (call_uuid c) d cmd of Inl _ \<Rightarrow> d | Inr (d', _) \<Rightarrow> d')
     | OpDrain accepts locked ids batch timeout days \<Rightarrow>
         fst (drainOutbox accepts locked ids (call_t1 c) (call_t2 c) batch timeout days d))"

definition empty_case_db :: case_db where
  "empty_case_db = \<lparr>cases = [],
     core = \<lparr>subjects = [], subject_identifiers = [], evidence_refs = [], claims = [], facts = [],
       findings = [], assumptions = [], contradictions = [], work_items = [], recommendations = [],
       gate_results = [], reviews = [], dispositions = [], execution_refs = []\<rparr>,
     ledger_of = \<lparr>case_events = [], chain_heads = [], command_receipts = [], outbox = []\<rparr>,
     evidence = \<lparr>artifacts = [], evidence_objects = [], lineage_edges = [],
       registration_receipts = [], evidence_outbox = []\<rparr>\<rparr>"

lemma createKycCase_cases:
  assumes "createKycCase st now uuid d q idem = Inr (d', created, row, ev)"
  obtains (replay) rp where "d' = d" and "\<not> created"
      and "find_receipt d (ccr_tenantId q, case_id_for st (ccr_tenantId q) idem) idem = Some rp"
      and "rp_request_digest rp = stableDigest (st_sha st) (create_request_json q)"
  | (create) eventId digest rp where "created"
      and "find_receipt d (ccr_tenantId q, case_id_for st (ccr_tenantId q) idem) idem = None"
      and "cases d' = cases d @ [new_case q (case_id_for st (ccr_tenantId q) idem) now]"
      and "\<forall>x \<in> set (cases d). (cs_tenant_id x, cs_case_id x) \<noteq> (ccr_tenantId q, case_id_for st (ccr_tenantId q) idem)"
      and "core d' = core d" and "evidence d' = evidence d"
      and "digest = stableDigest (st_sha st) (input_envelope eventId (created_event st q (case_id_for st (ccr_tenantId q) idem)
             (create_command_id st (case_id_for st (ccr_tenantId q) idem) idem) now))"
      and "case_events (ledger_of d') = case_events (ledger_of d) @ [event_row_of eventId digest
             (created_event st q (case_id_for st (ccr_tenantId q) idem)
               (create_command_id st (case_id_for st (ccr_tenantId q) idem) idem) now)]"
      and "chain_heads (ledger_of d') = put_head (ccr_tenantId q, case_id_for st (ccr_tenantId q) idem) 1 digest now (chain_heads (ledger_of d))"
      and "command_receipts (ledger_of d') = command_receipts (ledger_of d) @ [rp]"
      and "rp_key rp = (ccr_tenantId q, case_id_for st (ccr_tenantId q) idem)" and "rp_idempotency_key rp = idem"
      and "row = mapCase (new_case q (case_id_for st (ccr_tenantId q) idem) now)"
proof (cases "find_receipt d (ccr_tenantId q, case_id_for st (ccr_tenantId q) idem) idem")
  case (Some rp)
  then have "d' = d" "\<not> created" "rp_request_digest rp = stableDigest (st_sha st) (create_request_json q)"
    using assms by (auto simp: createKycCase_def Let_def)
  then show thesis using Some by (intro replay)
next
  case None
  let ?id = "case_id_for st (ccr_tenantId q) idem"
  let ?i = "created_event st q ?id (create_command_id st ?id idem) now"
  obtain rows l eventId digest l' rp where
    rows: "insert_case (new_case q ?id now) (cases d) = Inr rows"
    and l: "appendCaseEvent st uuid ?i (ledger_of d) = Inr (l, eventId, digest)"
    and l': "writeReceipt st rp l = Inr l'"
    and rp: "rp_key rp = (ccr_tenantId q, ?id)" "rp_idempotency_key rp = idem"
    and d': "d' = d\<lparr>cases := rows, ledger_of := l'\<rparr>" "created" "row = mapCase (new_case q ?id now)"
    using assms None by (fastforce simp: createKycCase_def Let_def bind_result_Inr_iff)
  have key: "ei_key ?i = (ccr_tenantId q, ?id)" "ei_sequence ?i = 1" "ei_recordedAt ?i = now"
    by (simp_all add: created_event_def)
  have new: "cs_tenant_id (new_case q ?id now) = ccr_tenantId q" "cs_case_id (new_case q ?id now) = ?id"
    by (simp_all add: new_case_def)
  show thesis
    by (rule create [of digest eventId "rp\<lparr>rp_response_digest := stableDigest (st_sha st) (JObj (rp_response rp))\<rparr>"])
      (use rows None d' rp key new appendCaseEvent_Inr [OF l] writeReceipt_Inr [OF l'] in
        \<open>auto simp: insert_case_def\<close>)
qed

section \<open>The chain of a case\<close>

definition case_key_of :: "case_row \<Rightarrow> case_key" where
  "case_key_of r = (cs_tenant_id r, cs_case_id r)"

definition events_for :: "case_db \<Rightarrow> case_key \<Rightarrow> case_event_row list" where
  "events_for d k = filter (\<lambda>e. (ce_tenant_id e, ce_case_id e) = k) (case_events (ledger_of d))"

fun links :: "string option \<Rightarrow> case_event_row list \<Rightarrow> bool" where
  "links previous [] \<longleftrightarrow> True"
| "links previous (e # es) \<longleftrightarrow> ce_previous_event_digest e = previous \<and> links (Some (ce_event_digest e)) es"

definition last_digest :: "case_event_row list \<Rightarrow> string option" where
  "last_digest es = (if es = [] then None else Some (ce_event_digest (last es)))"

definition sequence_at :: "case_db \<Rightarrow> case_key \<Rightarrow> nat" where
  "sequence_at d k = (case find_case d k of None \<Rightarrow> 0 | Some r \<Rightarrow> cs_case_sequence r)"

definition chain_inv :: "case_db \<Rightarrow> case_key \<Rightarrow> bool" where
  "chain_inv d k \<longleftrightarrow> map ce_case_sequence (events_for d k) = [1..<Suc (sequence_at d k)]
     \<and> links None (events_for d k) \<and> head_digest (ledger_of d) k = last_digest (events_for d k)"

definition ledger_ok :: "case_db \<Rightarrow> bool" where
  "ledger_ok d \<longleftrightarrow> keyed case_key_of (cases d) \<and> (\<forall>k. chain_inv d k)"

lemma ledger_ok_chain: "ledger_ok d \<Longrightarrow> chain_inv d k"
  unfolding ledger_ok_def by blast

lemma ledger_ok_keyed: "ledger_ok d \<Longrightarrow> keyed case_key_of (cases d)"
  unfolding ledger_ok_def by blast

lemma ledger_okI: "keyed case_key_of (cases d) \<Longrightarrow> (\<And>k. chain_inv d k) \<Longrightarrow> ledger_ok d"
  unfolding ledger_ok_def by blast

lemma links_snoc: "links p (es @ [e]) \<longleftrightarrow> links p es \<and>
    ce_previous_event_digest e = (if es = [] then p else Some (ce_event_digest (last es)))"
  by (induction es arbitrary: p) auto

lemma find_case_key: "find_case d k = sql_find (\<lambda>r. case_key_of r = k) (cases d)"
  by (simp add: find_case_def case_key_of_def)

lemma find_case_iff:
  assumes "keyed case_key_of (cases d)"
  shows "find_case d k = Some r \<longleftrightarrow> r \<in> set (cases d) \<and> case_key_of r = k"
proof
  show "find_case d k = Some r \<Longrightarrow> r \<in> set (cases d) \<and> case_key_of r = k"
    by (auto simp: find_case_key dest: sql_find_Some)
next
  assume "r \<in> set (cases d) \<and> case_key_of r = k"
  then show "find_case d k = Some r"
    using sql_find_key [OF assms, of r] by (auto simp: find_case_key)
qed

lemma head_digest_put:
  "head_digest (l\<lparr>chain_heads := put_head k n digest now (chain_heads l)\<rparr>) j
     = (if j = k then Some digest else head_digest l j)"
proof -
  have upd: "sql_find (\<lambda>h. ch_key h = j) (sql_update (\<lambda>h. ch_key h = k) (\<lambda>h. h\<lparr>ch_case_sequence := n,
      ch_event_digest := digest, ch_updated_at := now\<rparr>) hs)
    = map_option (\<lambda>h. if ch_key h = k then h\<lparr>ch_case_sequence := n, ch_event_digest := digest,
      ch_updated_at := now\<rparr> else h) (sql_find (\<lambda>h. ch_key h = j) hs)" for hs
    by (induction hs) (auto simp: sql_find_def)
  have app: "sql_find P (hs @ [x]) = (case sql_find P hs of None \<Rightarrow> if P x then Some x else None | Some y \<Rightarrow> Some y)"
    for P hs and x :: chain_head_row
    by (induction hs) (auto simp: sql_find_def)
  show ?thesis
  proof (cases "\<exists>h \<in> set (chain_heads l). ch_key h = k")
    case True
    then have "sql_find (\<lambda>h. ch_key h = k) (chain_heads l) \<noteq> None" by (auto simp: sql_find_None)
    then show ?thesis using True
      by (auto simp: head_digest_def put_head_def upd option.map_comp dest: sql_find_Some
          intro!: option.map_cong0 split: option.splits)
  next
    case False
    then have "sql_find (\<lambda>h. ch_key h = k) (chain_heads l) = None" by (auto simp: sql_find_None)
    then show ?thesis using False by (simp add: head_digest_def put_head_def app split: option.splits)
  qed
qed

lemma head_digest_cong: "chain_heads l' = chain_heads l \<Longrightarrow> head_digest l' k = head_digest l k"
  by (simp add: head_digest_def)

lemma append_ok:
  assumes "ledger_ok d" and "keyed case_key_of (cases d')"
    and events: "case_events (ledger_of d') = case_events (ledger_of d) @ [e]"
    and heads: "chain_heads (ledger_of d') = put_head k (Suc (sequence_at d k)) (ce_event_digest e) now (chain_heads (ledger_of d))"
    and e: "(ce_tenant_id e, ce_case_id e) = k" "ce_case_sequence e = Suc (sequence_at d k)"
      "ce_previous_event_digest e = head_digest (ledger_of d) k"
    and seq: "\<And>j. sequence_at d' j = (if j = k then Suc (sequence_at d k) else sequence_at d j)"
  shows "ledger_ok d'"
proof -
  have head: "head_digest (ledger_of d') j = (if j = k then Some (ce_event_digest e) else head_digest (ledger_of d) j)" for j
    using head_digest_put [where l = "ledger_of d" and k = k and n = "Suc (sequence_at d k)"
        and digest = "ce_event_digest e" and now = now and j = j] heads
    by (simp add: head_digest_def)
  have evs: "events_for d' j = (if j = k then events_for d k @ [e] else events_for d j)" for j
    using e(1) by (auto simp: events_for_def events)
  have "chain_inv d' j" for j
  proof (cases "j = k")
    case True
    have inv: "chain_inv d k" using assms(1) by (rule ledger_ok_chain)
    have "links None (events_for d k @ [e])"
      using inv e(3) by (simp add: chain_inv_def links_snoc last_digest_def split: if_splits)
    moreover have "[1..<Suc (Suc n)] = [1..<Suc n] @ [Suc n]" for n by simp
    ultimately show ?thesis
      using True inv e(2) by (simp add: chain_inv_def evs head seq last_digest_def del: upt_Suc)
  next
    case False
    then show ?thesis
      using ledger_ok_chain [OF assms(1), of j] by (simp add: chain_inv_def evs head seq del: upt_Suc)
  qed
  then show ?thesis using assms(2) by (intro ledger_okI)
qed

lemma same_ok:
  assumes "ledger_ok d" and "cases d' = cases d"
    and "case_events (ledger_of d') = case_events (ledger_of d)"
    and "chain_heads (ledger_of d') = chain_heads (ledger_of d)"
  shows "ledger_ok d'"
  using assms by (simp add: ledger_ok_def chain_inv_def events_for_def sequence_at_def find_case_def
      head_digest_def)

lemma submit_ok:
  assumes "ledger_ok d" and "submitBusinessCommand st t1 t2 uuid d c = Inr (d', response)"
  shows "ledger_ok d'"
  using assms(2)
proof (cases rule: submit_cases)
  case (replay rp)
  then show ?thesis using assms(1) by simp
next
  case (accept r a)
  have k: "keyed case_key_of (cases d)" using assms(1) by (rule ledger_ok_keyed)
  let ?m = "ac_mutation a"
  have key: "case_key_of (advance_case ?m t2 x) = case_key_of x" for x
    by (simp add: case_key_of_def advance_case_def)
  have cases': "cases d' = sql_update (\<lambda>x. case_key_of x = command_key c) (advance_case ?m t2) (cases d)"
    using accept(6) by (simp add: accepted_def case_key_of_def)
  have find: "find_case d' j = map_option (\<lambda>x. if j = command_key c then advance_case ?m t2 x else x) (find_case d j)" for j
  proof -
    have "sql_find (\<lambda>x. case_key_of x = j) (sql_update (\<lambda>x. case_key_of x = i) (advance_case ?m t2) rs)
      = map_option (\<lambda>x. if j = i then advance_case ?m t2 x else x) (sql_find (\<lambda>x. case_key_of x = j) rs)" for i rs
      by (induction rs) (auto simp: sql_find_def key)
    then show ?thesis by (simp add: find_case_key cases')
  qed
  have seq: "sequence_at d (command_key c) = cs_case_sequence r"
    using accept(1) by (simp add: sequence_at_def)
  let ?e = "event_row_of (ac_eventId a) (ac_digest a) (command_event c r (ac_occurred a) t2
      (head_digest (ledger_of d) (command_key c)) ?m)"
  have e: "(ce_tenant_id ?e, ce_case_id ?e) = command_key c" "ce_case_sequence ?e = Suc (cs_case_sequence r)"
    "ce_previous_event_digest ?e = head_digest (ledger_of d) (command_key c)" "ce_event_digest ?e = ac_digest a"
    by (simp_all add: event_row_of_def command_event_def)
  show ?thesis
  proof (rule append_ok [OF assms(1), where e = ?e and k = "command_key c" and now = t2])
    show "keyed case_key_of (cases d')" using k by (simp add: cases' keyed_sql_update key)
    show "sequence_at d' j = (if j = command_key c then Suc (sequence_at d (command_key c)) else sequence_at d j)" for j
      using accept(1) by (auto simp: sequence_at_def find advance_case_def split: option.splits)
    show "case_events (ledger_of d') = case_events (ledger_of d) @ [?e]"
      using accept(6) unfolding accepted_def by blast
    have "chain_heads (ledger_of d') = put_head (command_key c) (cs_case_sequence r + 1) (ac_digest a) t2 (chain_heads (ledger_of d))"
      using accept(6) unfolding accepted_def by blast
    then show "chain_heads (ledger_of d') = put_head (command_key c) (Suc (sequence_at d (command_key c)))
        (ce_event_digest ?e) t2 (chain_heads (ledger_of d))" by (simp add: e seq)
  qed (simp_all only: e seq)
qed

lemma create_ok:
  assumes "ledger_ok d" and "createKycCase st now uuid d q idem = Inr (d', created, row, ev)"
  shows "ledger_ok d'"
  using assms(2)
proof (cases rule: createKycCase_cases)
  case (replay rp)
  then show ?thesis using assms(1) by simp
next
  case (create eventId digest rp)
  let ?k = "(ccr_tenantId q, case_id_for st (ccr_tenantId q) idem)"
  let ?r = "new_case q (case_id_for st (ccr_tenantId q) idem) now"
  have key: "case_key_of ?r = ?k" by (simp add: case_key_of_def new_case_def)
  have absent: "\<forall>x \<in> set (cases d). case_key_of x \<noteq> ?k" using create(4) by (simp add: case_key_of_def)
  then have none: "find_case d ?k = None" by (simp add: find_case_key sql_find_None)
  have app: "sql_find P (rs @ [x]) = (case sql_find P rs of None \<Rightarrow> if P x then Some x else None | Some y \<Rightarrow> Some y)"
    for P rs and x :: case_row by (induction rs) (auto simp: sql_find_def)
  have find: "find_case d' j = (if j = ?k then Some ?r else find_case d j)" for j
    using create(3) none key by (auto simp: find_case_key app split: option.splits)
  have seq: "sequence_at d ?k = 0" using none by (simp add: sequence_at_def)
  have "chain_inv d ?k" using assms(1) by (rule ledger_ok_chain)
  then have head: "head_digest (ledger_of d) ?k = None"
    using seq by (simp add: chain_inv_def last_digest_def)
  let ?e = "event_row_of eventId digest (created_event st q (case_id_for st (ccr_tenantId q) idem)
      (create_command_id st (case_id_for st (ccr_tenantId q) idem) idem) now)"
  have e: "(ce_tenant_id ?e, ce_case_id ?e) = ?k" "ce_case_sequence ?e = 1"
    "ce_previous_event_digest ?e = None" "ce_event_digest ?e = digest"
    by (simp_all add: event_row_of_def created_event_def)
  show ?thesis
  proof (rule append_ok [OF assms(1), where k = ?k and e = ?e and now = now])
    show "keyed case_key_of (cases d')"
      using ledger_ok_keyed [OF assms(1)] create(3) absent key by (auto simp: keyed_append)
    show "sequence_at d' j = (if j = ?k then Suc (sequence_at d ?k) else sequence_at d j)" for j
      using seq by (simp add: sequence_at_def find new_case_def)
    show "case_events (ledger_of d') = case_events (ledger_of d) @ [?e]" using create by blast
    have "chain_heads (ledger_of d') = put_head ?k 1 digest now (chain_heads (ledger_of d))" using create by blast
    then show "chain_heads (ledger_of d') = put_head ?k (Suc (sequence_at d ?k)) (ce_event_digest ?e) now
        (chain_heads (ledger_of d))" by (simp add: e seq)
  qed (simp_all only: e seq head One_nat_def)
qed

lemma registerEvidence_frame:
  assumes "registerEvidence st now uuid d r idem = Inr (d', x)"
  shows "cases d' = cases d" and "core d' = core d" and "ledger_of d' = ledger_of d"
  using assms by (auto simp: registerEvidence_def bind_result_Inr_iff split: option.splits)

lemma drainOutbox_frame:
  "cases (fst (drainOutbox accepts locked ids t1 t2 b s days d)) = cases d"
  "core (fst (drainOutbox accepts locked ids t1 t2 b s days d)) = core d"
  "case_events (ledger_of (fst (drainOutbox accepts locked ids t1 t2 b s days d))) = case_events (ledger_of d)"
  "chain_heads (ledger_of (fst (drainOutbox accepts locked ids t1 t2 b s days d))) = chain_heads (ledger_of d)"
  "command_receipts (ledger_of (fst (drainOutbox accepts locked ids t1 t2 b s days d))) = command_receipts (ledger_of d)"
  by (simp_all add: drainOutbox_def Let_def split: prod.splits option.splits)

lemma case_step_ok: "ledger_ok d \<Longrightarrow> ledger_ok (case_step st d c)"
proof (cases "call_op c")
  case (OpCreateCase r idem)
  assume "ledger_ok d"
  then show ?thesis using create_ok OpCreateCase
    by (auto simp: case_step_def split: sum.splits prod.splits)
next
  case (OpRegisterEvidence r idem)
  assume "ledger_ok d"
  then show ?thesis using OpRegisterEvidence registerEvidence_frame [of st "call_t1 c" "call_uuid c" d r idem]
    by (auto simp: case_step_def split: sum.splits intro: same_ok)
next
  case (OpSubmit cmd)
  assume "ledger_ok d"
  then show ?thesis using submit_ok OpSubmit
    by (auto simp: case_step_def split: sum.splits)
next
  case (OpDrain a l i b t y)
  assume "ledger_ok d"
  then show ?thesis using OpDrain by (auto simp: case_step_def drainOutbox_frame intro: same_ok)
qed

interpretation case_ledger: stepped "case_step st" ledger_ok for st
  by unfold_locales (rule case_step_ok)

lemma empty_case_ok: "ledger_ok empty_case_db"
  by (simp add: ledger_ok_def keyed_def chain_inv_def events_for_def sequence_at_def find_case_def
      head_digest_def last_digest_def sql_find_def empty_case_db_def)

end
