(* ===== verification/CaseStatus.thy ===== *)
theory CaseStatus
  imports CaseInvariant
begin

text \<open>
  How the status of a case moves. \<open>quiet_command\<close> is the contract of the commands that leave
  the status alone; what a case may become is then decided by three commands only.
\<close>

section \<open>Quiet commands\<close>

locale quiet_command =
  fixes h :: "command_context \<Rightarrow> core_tables \<Rightarrow> mutation case_write"
  assumes no_status: "h c t = Inr (t', m) \<Longrightarrow> mu_nextStatus m = None"
    and same_dispositions: "h c t = Inr (t', m) \<Longrightarrow> dispositions t' = dispositions t"
    and grown_gates: "h c t = Inr (t', m) \<Longrightarrow> \<exists>g. gate_results t' = gate_results t @ g"
begin

lemma quiet:
  assumes "h c t = Inr (t', m)"
  shows "mu_nextStatus m = None \<and> dispositions t' = dispositions t
    \<and> (\<exists>g. gate_results t' = gate_results t @ g)"
  using assms no_status same_dispositions grown_gates by blast

end

lemma insert_identifiers_frame:
  "insert_identifiers c i n ids t = Inr t' \<Longrightarrow> dispositions t' = dispositions t
     \<and> gate_results t' = gate_results t"
proof (induction ids arbitrary: n t)
  case (Cons x ids)
  then show ?case by (fastforce simp: bind_result_Inr_iff)
qed simp

lemmas command_unfold = bind_result_Inr_iff event_only_def Let_def given_id_def

interpretation add_subject: quiet_command apply_AddSubject
  by unfold_locales (auto simp: apply_AddSubject_def command_unfold dest!: insert_identifiers_frame)

interpretation link_evidence: quiet_command apply_LinkEvidence
  by unfold_locales (auto simp: apply_LinkEvidence_def command_unfold split: option.splits)

interpretation propose_claim: quiet_command apply_ProposeClaim
  by unfold_locales (auto simp: apply_ProposeClaim_def command_unfold)

interpretation accept_claim: quiet_command apply_AcceptClaimAsFact
  by unfold_locales (auto simp: apply_AcceptClaimAsFact_def command_unfold)

interpretation record_finding: quiet_command apply_RecordScreeningFinding
  by unfold_locales (auto simp: apply_RecordScreeningFinding_def command_unfold)

interpretation record_assumption: quiet_command apply_RecordAssumption
  by unfold_locales (auto simp: apply_RecordAssumption_def command_unfold)

interpretation raise_contradiction: quiet_command apply_RaiseContradiction
  by unfold_locales (auto simp: apply_RaiseContradiction_def command_unfold)

interpretation resolve_contradiction: quiet_command apply_ResolveContradiction
  by unfold_locales (auto simp: apply_ResolveContradiction_def command_unfold)

interpretation propose_work: quiet_command apply_ProposeWorkItem
  by unfold_locales (auto simp: apply_ProposeWorkItem_def command_unfold)

interpretation complete_work: quiet_command apply_CompleteWorkItem
  by unfold_locales (auto simp: apply_CompleteWorkItem_def command_unfold)

interpretation link_execution: quiet_command apply_LinkExecution
  by unfold_locales (auto simp: apply_LinkExecution_def command_unfold)

interpretation recommend: quiet_command apply_SubmitDecisionRecommendation
  by unfold_locales (auto simp: apply_SubmitDecisionRecommendation_def command_unfold)

interpretation record_gate: quiet_command apply_RecordGateResult
  by unfold_locales (auto simp: apply_RecordGateResult_def command_unfold sql_insert_Inr)

interpretation record_qa: quiet_command apply_RecordQAResult
  by unfold_locales (auto simp: apply_RecordQAResult_def command_unfold split: option.splits)

interpretation record_review: quiet_command apply_RecordReview
  by unfold_locales (auto simp: apply_RecordReview_def command_unfold)

section \<open>The three commands that move the status\<close>

definition decided_by :: "command_context \<Rightarrow> core_tables \<Rightarrow> core_tables \<Rightarrow> mutation \<Rightarrow> bool" where
  "decided_by c t t' m \<longleftrightarrow> human_authority (cx_actor c) \<and> cs_status (cx_current c) = HUMAN_REVIEW
     \<and> \<not> open_material (cx_key c) t
     \<and> (\<exists>x. t' = t\<lparr>dispositions := dispositions t @ [x]\<rparr> \<and> di_key x = cx_key c
          \<and> di_authorized_actor x = cx_actor c
          \<and> gate_authorizes (cx_key c) t (di_gate_result_ref x) (di_recommendation_ref x)
          \<and> (di_outcome x = ''APPROVED'' \<and> mu_nextStatus m = Some APPROVED
             \<or> di_outcome x = ''DECLINED'' \<and> mu_nextStatus m = Some DECLINED))"

lemma enumValue_Inr: "enumValue names v = Inr s \<Longrightarrow> s \<in> set names"
  by (auto simp: enumValue_def split: json.splits if_splits)

lemma finalize_decides:
  assumes "apply_FinalizeDisposition c t = Inr (t', m)"
  shows "decided_by c t t' m"
  using assms
  unfolding apply_FinalizeDisposition_def guard_result_Inr_iff bind_result_Inr_iff sql_insert_Inr
    sum.inject prod.inject
proof (elim exE conjE)
  fix rref gref outcome x
  assume f: "human_authority (cx_actor c)" "cs_status (cx_current c) = HUMAN_REVIEW"
    "gate_authorizes (cx_key c) t gref rref" "\<not> open_material (cx_key c) t"
  fix dispositionId reviewRef rationale rows refs
  assume "enumValue [''APPROVED'', ''DECLINED''] (payload_at c ''outcome'') = Inr outcome"
    and rows: "rows = dispositions t @ [\<lparr>di_key = cx_key c, di_disposition_id = dispositionId,
      di_outcome = outcome, di_recommendation_ref = rref, di_gate_result_ref = gref, di_review_ref = reviewRef,
      di_policy_snapshot_digest = normalizeDigest (auth_policySnapshotDigest (cmd_authority (cx_command c))),
      di_rationale = rationale,
      di_follow_up_obligations = nullish (payload_at c ''followUpObligations'') (JArr []),
      di_effective_at = cx_now c, di_authorized_actor = cx_actor c\<rparr>]"
    and t': "t\<lparr>dispositions := rows\<rparr> = t'"
    and m: "event_only ''case.dispositioned'' ''kyc.case.dispositioned.v1''
           [(''dispositionId'', JStr dispositionId), (''outcome'', JStr outcome),
            (''recommendationRef'', JStr rref), (''gateResultRef'', JStr gref),
            (''effectiveAt'', JStr (toISOString (cx_now c)))] refs [(''dispositionId'', dispositionId)]
         \<lparr>mu_nextStatus := Some (if outcome = ''APPROVED'' then APPROVED else DECLINED),
          mu_lineage := edges ''DecisionGateResult'' ''AUTHORIZES'' (''FinalDisposition'', dispositionId) [gref]\<rparr> = m"
  have "outcome = ''APPROVED'' \<or> outcome = ''DECLINED''"
    using enumValue_Inr [OF \<open>enumValue _ _ = Inr outcome\<close>] by simp
  moreover have "mu_nextStatus m = Some (if outcome = ''APPROVED'' then APPROVED else DECLINED)"
    by (simp add: m [symmetric])
  ultimately show "decided_by c t t' m"
    unfolding decided_by_def t' [symmetric] rows
    by (intro conjI f exI [where x = "\<lparr>di_key = cx_key c, di_disposition_id = dispositionId,
      di_outcome = outcome, di_recommendation_ref = rref, di_gate_result_ref = gref, di_review_ref = reviewRef,
      di_policy_snapshot_digest = normalizeDigest (auth_policySnapshotDigest (cmd_authority (cx_command c))),
      di_rationale = rationale,
      di_follow_up_obligations = nullish (payload_at c ''followUpObligations'') (JArr []),
      di_effective_at = cx_now c, di_authorized_actor = cx_actor c\<rparr>"]) (auto simp: f)
qed

lemma review_moves:
  assumes "apply_RequestHumanReview c t = Inr (t', m)"
  shows "t' = t \<and> mu_nextStatus m = Some HUMAN_REVIEW \<and> HUMAN_REVIEW \<in> set (allowedTransitions (cs_status (cx_current c)))"
  using assms by (auto simp: apply_RequestHumanReview_def command_unfold)

lemma transition_moves:
  assumes "apply_TransitionCaseStatus c t = Inr (t', m)"
  shows "\<exists>s. t' = t \<and> mu_nextStatus m = Some s \<and> s \<in> set (allowedTransitions (cs_status (cx_current c)))
    \<and> s \<noteq> APPROVED \<and> s \<noteq> DECLINED"
  using assms by (auto simp: apply_TransitionCaseStatus_def command_unfold split: option.splits)

lemma command_effect:
  assumes "apply_command ty c t = Inr (t', m)"
  shows "(mu_nextStatus m = None \<and> dispositions t' = dispositions t \<and> (\<exists>g. gate_results t' = gate_results t @ g))
    \<or> (\<exists>s. t' = t \<and> mu_nextStatus m = Some s \<and> s \<in> set (allowedTransitions (cs_status (cx_current c)))
        \<and> s \<noteq> APPROVED \<and> s \<noteq> DECLINED)
    \<or> ty = FinalizeDisposition \<and> decided_by c t t' m"
proof (cases ty)
  case RequestHumanReview
  then show ?thesis using review_moves [of c t t' m] assms by auto
next
  case TransitionCaseStatus
  then show ?thesis using transition_moves [of c t t' m] assms by auto
next
  case FinalizeDisposition
  then show ?thesis using finalize_decides [of c t t' m] assms by auto
qed (use assms add_subject.quiet link_evidence.quiet propose_claim.quiet accept_claim.quiet
    record_finding.quiet record_assumption.quiet raise_contradiction.quiet resolve_contradiction.quiet
    propose_work.quiet complete_work.quiet link_execution.quiet recommend.quiet record_gate.quiet
    record_qa.quiet record_review.quiet in \<open>auto dest: meta_mp\<close>)

section \<open>One case across a step\<close>

definition move :: "(case_status \<times> case_status) set" where
  "move = {(a, b). b \<in> set (allowedTransitions a)}"

lemma decided_move: "decided_by c t t' m \<Longrightarrow> mu_nextStatus m = Some s \<Longrightarrow> (cs_status (cx_current c), s) \<in> move"
  by (auto simp: decided_by_def move_def)

lemma command_move:
  assumes "apply_command ty c t = Inr (t', m)"
  shows "mu_nextStatus m = None \<or> (cs_status (cx_current c), the (mu_nextStatus m)) \<in> move"
  using command_effect [OF assms] decided_move [of c t t' m] by (cases "mu_nextStatus m") (auto simp: move_def)

lemma applyMutation_command:
  assumes "applyMutation st now uuid cmd current ev t = Inr (t', m)"
  obtains c where "apply_command (cmd_commandType cmd) c t = Inr (t', m)" and "cx_command c = cmd"
    and "cx_current c = current" and "cx_key c = command_key cmd" and "cx_actor c = cmd_actor cmd"
    and "cx_evidence c = ev" and "cx_store c = st"
  using assms by (auto simp: applyMutation_def bind_result_Inr_iff cx_key_def cx_actor_def command_key_def)

lemma find_case_submit:
  assumes "accepted st t1 t2 uuid d c r d' a" and "find_case d (command_key c) = Some r"
  shows "find_case d' j = (if j = command_key c then Some (advance_case (ac_mutation a) t2 r) else find_case d j)"
proof -
  let ?m = "ac_mutation a"
  have key: "case_key_of (advance_case ?m t2 x) = case_key_of x" for x
    by (simp add: case_key_of_def advance_case_def)
  have "cases d' = sql_update (\<lambda>x. case_key_of x = command_key c) (advance_case ?m t2) (cases d)"
    using assms(1) by (simp add: accepted_def case_key_of_def)
  moreover have "sql_find (\<lambda>x. case_key_of x = j) (sql_update (\<lambda>x. case_key_of x = i) (advance_case ?m t2) rs)
    = map_option (\<lambda>x. if j = i then advance_case ?m t2 x else x) (sql_find (\<lambda>x. case_key_of x = j) rs)" for i rs
    by (induction rs) (auto simp: sql_find_def key)
  ultimately show ?thesis using assms(2) by (auto simp: find_case_key option.map_ident)
qed

lemma case_step_other:
  assumes "\<nexists>cmd. call_op c = OpSubmit cmd"
  shows "core (case_step st d c) = core d"
    and "find_case d k = Some r \<Longrightarrow> find_case (case_step st d c) k = Some r"
    and "find_case d k = None \<Longrightarrow> find_case (case_step st d c) k = Some r \<Longrightarrow> cs_status r = INTAKE"
    and "\<exists>rs. command_receipts (ledger_of (case_step st d c)) = command_receipts (ledger_of d) @ rs"
proof -
  have app: "sql_find P (rs @ [x]) = (case sql_find P rs of None \<Rightarrow> if P x then Some x else None | Some y \<Rightarrow> Some y)"
    for P rs and x :: case_row by (induction rs) (auto simp: sql_find_def)
  have "core (case_step st d c) = core d
    \<and> (find_case d k = Some r \<longrightarrow> find_case (case_step st d c) k = Some r)
    \<and> (find_case d k = None \<and> find_case (case_step st d c) k = Some r \<longrightarrow> cs_status r = INTAKE)
    \<and> (\<exists>rs. command_receipts (ledger_of (case_step st d c)) = command_receipts (ledger_of d) @ rs)"
  proof (cases "call_op c")
    case (OpCreateCase q idem)
    show ?thesis
    proof (cases "createKycCase st (call_t1 c) (call_uuid c) d q idem")
      case (Inl e)
      then show ?thesis using OpCreateCase by (auto simp: case_step_def)
    next
      case (Inr x)
      obtain d' created row ev where x: "x = (d', created, row, ev)" by (cases x) auto
      have s: "case_step st d c = d'" using OpCreateCase Inr x by (simp add: case_step_def)
      from Inr x have "createKycCase st (call_t1 c) (call_uuid c) d q idem = Inr (d', created, row, ev)" by simp
      then show ?thesis
      proof (cases rule: createKycCase_cases)
        case (replay rp)
        then show ?thesis using s by auto
      next
        case (create eventId digest rp)
        then show ?thesis unfolding s
          by (auto simp: find_case_def app new_case_def split: option.splits)
      qed
    qed
  next
    case (OpRegisterEvidence q idem)
    show ?thesis
    proof (cases "registerEvidence st (call_t1 c) (call_uuid c) d q idem")
      case (Inl e)
      then show ?thesis using OpRegisterEvidence by (auto simp: case_step_def)
    next
      case (Inr x)
      obtain d' y where x: "x = (d', y)" by (cases x) auto
      have s: "case_step st d c = d'" using OpRegisterEvidence Inr x by (simp add: case_step_def)
      from Inr x have "registerEvidence st (call_t1 c) (call_uuid c) d q idem = Inr (d', y)" by simp
      note registerEvidence_frame [OF this]
      then show ?thesis unfolding s by (auto simp: find_case_def)
    qed
  next
    case (OpDrain a l i b t y)
    then show ?thesis by (auto simp: case_step_def find_case_def drainOutbox_frame)
  qed (use assms in blast)
  then show "core (case_step st d c) = core d"
    and "find_case d k = Some r \<Longrightarrow> find_case (case_step st d c) k = Some r"
    and "find_case d k = None \<Longrightarrow> find_case (case_step st d c) k = Some r \<Longrightarrow> cs_status r = INTAKE"
    and "\<exists>rs. command_receipts (ledger_of (case_step st d c)) = command_receipts (ledger_of d) @ rs"
    by blast+
qed

lemma case_step_submit:
  assumes "call_op c = OpSubmit cmd"
  obtains (same) "case_step st d c = d"
  | (accept) r a where "find_case d (command_key cmd) = Some r"
      and "accepted st (call_t1 c) (call_t2 c) (call_uuid c) d cmd r (case_step st d c) a"
      and "cmd_caseSequence cmd = int (cs_case_sequence r)"
proof (cases "submitBusinessCommand st (call_t1 c) (call_t2 c) (call_uuid c) d cmd")
  case (Inl e)
  then show thesis using assms same by (simp add: case_step_def)
next
  case (Inr x)
  obtain d' response where x: "x = (d', response)" by (cases x) auto
  have s: "case_step st d c = d'" using assms Inr x by (simp add: case_step_def)
  from Inr x have "submitBusinessCommand st (call_t1 c) (call_t2 c) (call_uuid c) d cmd = Inr (d', response)" by simp
  then show thesis
  proof (cases rule: submit_cases)
    case (replay rp)
    then show thesis using s by (intro same) simp
  next
    case (accept r a)
    then show thesis using s by (intro that(2)) simp_all
  qed
qed

lemma find_case_step:
  assumes "find_case d k = Some r"
  obtains (kept) "find_case (case_step st d c) k = Some r"
  | (advanced) r' cmd where "find_case (case_step st d c) k = Some r'" and "call_op c = OpSubmit cmd" and "command_key cmd = k"
    and "cs_case_sequence r' = cs_case_sequence r + 1" and "cs_status r' = cs_status r \<or> (cs_status r, cs_status r') \<in> move"
proof (cases "\<exists>cmd. call_op c = OpSubmit cmd")
  case False
  then show thesis using case_step_other(2) [of c d k r st] assms kept by simp
next
  case True
  then obtain cmd where cmd: "call_op c = OpSubmit cmd" by blast
  then show thesis
  proof (cases rule: case_step_submit [of _ _ st d])
    case same
    then show thesis using assms kept by simp
  next
    case (accept x a)
    show thesis
    proof (cases "k = command_key cmd")
      case False
      then show thesis using find_case_submit [OF accept(2,1), of k] assms kept by simp
    next
      case True
      obtain cc where "apply_command (cmd_commandType cmd) cc (core d) = Inr (ac_core a, ac_mutation a)"
        and "cx_current cc = x"
        using accept(2) unfolding accepted_def by (blast elim: applyMutation_command)
      then have "mu_nextStatus (ac_mutation a) = None \<or> (cs_status r, the (mu_nextStatus (ac_mutation a))) \<in> move"
        using command_move accept(1) assms True by fastforce
      then show thesis using True find_case_submit [OF accept(2,1), of k] accept(1) assms cmd
        by (intro advanced) (auto simp: advance_case_def or_else_def split: option.splits)
    qed
  qed
qed

lemma find_case_run:
  assumes "find_case d k = Some r"
  obtains r' where "find_case (run_steps (case_step st) d cs) k = Some r'"
    and "(cs_status r, cs_status r') \<in> move\<^sup>*" and "cs_case_sequence r \<le> cs_case_sequence r'"
proof -
  have "\<exists>r'. find_case (run_steps (case_step st) d cs) k = Some r' \<and> (cs_status r, cs_status r') \<in> move\<^sup>*
      \<and> cs_case_sequence r \<le> cs_case_sequence r'"
    using assms
  proof (induction cs arbitrary: d r)
    case (Cons c cs)
    obtain r1 where r1: "find_case (case_step st d c) k = Some r1" "(cs_status r, cs_status r1) \<in> move\<^sup>*"
      "cs_case_sequence r \<le> cs_case_sequence r1"
      using Cons.prems by (cases rule: find_case_step [of _ _ _ st c]) auto
    then show ?case using Cons.IH [OF r1(1)] by (auto intro: rtrancl_trans le_trans)
  qed auto
  then show thesis using that by blast
qed

section \<open>Receipts and decisions are kept\<close>

lemma find_receipt_step:
  assumes "find_receipt d k i = Some rp"
  shows "find_receipt (case_step st d c) k i = Some rp"
proof -
  have app: "sql_find P (xs @ ys) = Some x" if "sql_find P xs = Some x" for P xs ys and x :: command_receipt_row
    using that by (induction xs) (auto simp: sql_find_def)
  have "\<exists>rs. command_receipts (ledger_of (case_step st d c)) = command_receipts (ledger_of d) @ rs"
  proof (cases "\<exists>cmd. call_op c = OpSubmit cmd")
    case False
    then show ?thesis by (intro case_step_other(4)) blast
  next
    case True
    then obtain cmd where "call_op c = OpSubmit cmd" by blast
    then show ?thesis
    proof (cases rule: case_step_submit [of _ _ st d])
      case (accept x a)
      then show ?thesis unfolding accepted_def by blast
    qed auto
  qed
  then show ?thesis using assms app by (auto simp: find_receipt_def)
qed

lemma find_receipt_run:
  "find_receipt d k i = Some rp \<Longrightarrow> find_receipt (run_steps (case_step st) d cs) k i = Some rp"
  by (induction cs arbitrary: d) (auto intro: find_receipt_step)

definition justified :: "core_tables \<Rightarrow> case_key \<Rightarrow> string \<Rightarrow> bool" where
  \<comment> \<open>a disposition row records who decided, and an authorized gate for its recommendation\<close>
  "justified t k outcome \<longleftrightarrow> (\<exists>x \<in> set (dispositions t). di_key x = k \<and> di_outcome x = outcome
     \<and> human_authority (di_authorized_actor x)
     \<and> gate_authorizes k t (di_gate_result_ref x) (di_recommendation_ref x))"

definition status_justified :: "core_tables \<Rightarrow> case_row \<Rightarrow> bool" where
  "status_justified t r \<longleftrightarrow> (cs_status r = APPROVED \<longrightarrow> justified t (case_key_of r) ''APPROVED'')
     \<and> (cs_status r = DECLINED \<longrightarrow> justified t (case_key_of r) ''DECLINED'')"

definition decisions_ok :: "case_db \<Rightarrow> bool" where
  "decisions_ok d \<longleftrightarrow> (\<forall>k r. find_case d k = Some r \<longrightarrow> status_justified (core d) r)"

lemma decisions_okD: "decisions_ok d \<Longrightarrow> find_case d k = Some r \<Longrightarrow> status_justified (core d) r"
  unfolding decisions_ok_def by blast

lemma gate_authorizes_grow:
  assumes "gate_authorizes k t g r" and "gate_results t' = gate_results t @ gs"
  shows "gate_authorizes k t' g r"
proof -
  have app: "sql_find P (xs @ ys) = Some x" if "sql_find P xs = Some x" for P xs ys and x :: gate_row
    using that by (induction xs) (auto simp: sql_find_def)
  show ?thesis using assms by (auto simp: gate_authorizes_def app split: option.splits)
qed

lemma justified_grow:
  assumes "justified t k out" and "gate_results t' = gate_results t @ gs"
    and "set (dispositions t) \<subseteq> set (dispositions t')"
  shows "justified t' k out"
  using assms gate_authorizes_grow [OF _ assms(2)] unfolding justified_def by blast

lemma decided_justified:
  assumes "decided_by c t t' m"
  shows "mu_nextStatus m = Some APPROVED \<and> justified t' (cx_key c) ''APPROVED''
    \<or> mu_nextStatus m = Some DECLINED \<and> justified t' (cx_key c) ''DECLINED''"
proof -
  obtain x where x: "t' = t\<lparr>dispositions := dispositions t @ [x]\<rparr>" "di_key x = cx_key c"
    "di_authorized_actor x = cx_actor c" "human_authority (cx_actor c)"
    "gate_authorizes (cx_key c) t (di_gate_result_ref x) (di_recommendation_ref x)"
    "di_outcome x = ''APPROVED'' \<and> mu_nextStatus m = Some APPROVED
       \<or> di_outcome x = ''DECLINED'' \<and> mu_nextStatus m = Some DECLINED"
    using assms unfolding decided_by_def by blast
  have "gate_authorizes (cx_key c) t' (di_gate_result_ref x) (di_recommendation_ref x)"
    using x(5) by (rule gate_authorizes_grow [where gs = "[]"]) (simp add: x(1))
  moreover have "x \<in> set (dispositions t')" by (simp add: x(1))
  ultimately show ?thesis using x unfolding justified_def by metis
qed

lemma command_justified:
  assumes "apply_command ty c t = Inr (t', m)"
  shows "(\<exists>gs. gate_results t' = gate_results t @ gs) \<and> set (dispositions t) \<subseteq> set (dispositions t')"
    and "mu_nextStatus m = Some APPROVED \<Longrightarrow> justified t' (cx_key c) ''APPROVED''"
    and "mu_nextStatus m = Some DECLINED \<Longrightarrow> justified t' (cx_key c) ''DECLINED''"
proof -
  note e = command_effect [OF assms]
  show "(\<exists>gs. gate_results t' = gate_results t @ gs) \<and> set (dispositions t) \<subseteq> set (dispositions t')"
    using e by (auto simp: decided_by_def)
  show "mu_nextStatus m = Some APPROVED \<Longrightarrow> justified t' (cx_key c) ''APPROVED''"
    using e decided_justified [of c t t' m] by auto
  show "mu_nextStatus m = Some DECLINED \<Longrightarrow> justified t' (cx_key c) ''DECLINED''"
    using e decided_justified [of c t t' m] by auto
qed

lemma decisions_step:
  assumes "decisions_ok d"
  shows "decisions_ok (case_step st d c)"
  unfolding decisions_ok_def
proof (intro allI impI)
  fix k r assume r: "find_case (case_step st d c) k = Some r"
  show "status_justified (core (case_step st d c)) r"
  proof (cases "\<exists>cmd. call_op c = OpSubmit cmd")
    case False
    then have same: "core (case_step st d c) = core d" by (intro case_step_other(1)) blast
    show ?thesis
    proof (cases "find_case d k")
      case None
      have "cs_status r = INTAKE" by (rule case_step_other(3) [OF _ None r]) (use False in blast)
      then show ?thesis by (simp add: status_justified_def)
    next
      case (Some x)
      have "find_case (case_step st d c) k = Some x"
        by (rule case_step_other(2) [OF _ Some]) (use False in blast)
      then show ?thesis using decisions_okD [OF assms Some] r same by simp
    qed
  next
    case True
    then obtain cmd where "call_op c = OpSubmit cmd" by blast
    then show ?thesis
    proof (cases rule: case_step_submit [of _ _ st d])
      case same
      then show ?thesis using decisions_okD [OF assms] r by simp
    next
      case (accept x a)
      obtain cc where cc: "apply_command (cmd_commandType cmd) cc (core d) = Inr (ac_core a, ac_mutation a)"
        "cx_key cc = command_key cmd"
        using accept(2) unfolding accepted_def by (blast elim: applyMutation_command)
      have core': "core (case_step st d c) = ac_core a" using accept(2) unfolding accepted_def by blast
      obtain gs where grow: "gate_results (ac_core a) = gate_results (core d) @ gs"
        "set (dispositions (core d)) \<subseteq> set (dispositions (ac_core a))"
        using command_justified(1) [OF cc(1)] by blast
      have keep: "status_justified (ac_core a) y" if "status_justified (core d) y" for y
        using that justified_grow [OF _ grow] by (simp add: status_justified_def)
      have key: "case_key_of x = command_key cmd" using accept(1) by (auto simp: find_case_key dest: sql_find_Some)
      show ?thesis
      proof (cases "k = command_key cmd \<and> mu_nextStatus (ac_mutation a) \<noteq> None")
        case True
        then have "r = advance_case (ac_mutation a) (call_t2 c) x"
          using find_case_submit [OF accept(2,1), of k] r by simp
        then show ?thesis
          using True command_justified(2,3) [OF cc(1)] key cc(2)
          by (auto simp: status_justified_def core' advance_case_def case_key_of_def)
      next
        case False
        then have "\<exists>y. find_case d k = Some y \<and> cs_status r = cs_status y \<and> case_key_of r = case_key_of y"
          using find_case_submit [OF accept(2,1), of k] r accept(1)
          by (cases "k = command_key cmd") (auto simp: advance_case_def case_key_of_def dest: sym)
        then obtain y where y: "find_case d k = Some y" "cs_status r = cs_status y" "case_key_of r = case_key_of y"
          by blast
        then have "status_justified (core d) y" using decisions_okD [OF assms] by blast
        then have "status_justified (ac_core a) y" by (rule keep)
        then show ?thesis using y by (simp add: core' status_justified_def)
      qed
    qed
  qed
qed

end
