(* ===== verification/CaseClaims.thy ===== *)
theory CaseClaims
  imports CaseStatus
begin

text \<open>
  What the case store guarantees under any sequence of calls: the chain of a case verifies,
  a stale command conflicts, a retried command is replayed, the status only moves along the
  permitted transitions, and a decision is always backed by a human and an authorized gate.
\<close>

section \<open>Example store\<close>

definition demo_store :: case_store where
  "demo_store = \<lparr>st_sha = id, st_timestamptz = (\<lambda>s. if s = ''2024-01-01T00:00:00Z'' then Some 1704067200000 else None),
     st_evidenceRequireScan = False, st_evidenceMaxBytes = 1000\<rparr>"

definition analyst :: case_actor where
  "analyst = \<lparr>actor_type = HUMAN, actor_principalId = ''ann'', actor_executionId = None,
     actor_roles = [''KYC.Analyst'']\<rparr>"

definition demo_uuid :: draws where
  "demo_uuid p n = p @ nat_text n"

definition demo_request :: create_case_request where
  "demo_request = \<lparr>ccr_tenantId = ''acme'', ccr_caseType = ''kyc_onboarding'',
     ccr_schemaVersion = ''kyc.case.v1'', ccr_jurisdiction = ''US'', ccr_externalRef = None,
     ccr_policySnapshotDigest = ''policy'', ccr_harnessPlanDigest = ''plan'',
     ccr_classification = ''CONFIDENTIAL'', ccr_actor = analyst\<rparr>"

definition demo_create_call :: case_call where
  "demo_create_call = \<lparr>call_t1 = 5, call_t2 = 6, call_uuid = demo_uuid,
     call_op = OpCreateCase demo_request ''k''\<rparr>"

definition review_case :: case_row where
  "review_case = (new_case demo_request ''c1'' 5)\<lparr>cs_status := HUMAN_REVIEW\<rparr>"

definition review_gate :: gate_row where
  "review_gate = \<lparr>ga_key = (''acme'', ''c1''), ga_gate_result_id = ''g1'', ga_recommendation_ref = ''r1'',
     ga_decision = ''AUTHORIZED'', ga_case_sequence = 1, ga_rule_results = [JObj []],
     ga_policy_snapshot_digest = ''policy'', ga_created_by = analyst, ga_created_at = 5\<rparr>"

definition review_db :: case_db where
  "review_db = empty_case_db\<lparr>cases := [review_case], core := (core empty_case_db)\<lparr>gate_results := [review_gate]\<rparr>\<rparr>"

definition demo_command :: business_command where
  "demo_command = \<lparr>cmd_commandId = ''cmd1'', cmd_commandType = FinalizeDisposition, cmd_commandVersion = ''v1'',
     cmd_tenantId = ''acme'', cmd_caseId = ''c1'', cmd_actor = analyst,
     cmd_authority = \<lparr>auth_planDigest = ''plan'', auth_permissionEnvelopeDigest = ''perm'',
       auth_policySnapshotDigest = ''policy''\<rparr>,
     cmd_payload = [(''recommendationRef'', JStr ''r1''), (''gateResultRef'', JStr ''g1''),
       (''outcome'', JStr ''APPROVED''), (''rationale'', JStr ''ok'')],
     cmd_caseSequence = 1, cmd_subjectRevision = None, cmd_idempotencyKey = ''i1'', cmd_occurredAt = None\<rparr>"

lemmas demo_defs = demo_store_def analyst_def demo_uuid_def demo_request_def review_case_def
  review_gate_def review_db_def demo_command_def empty_case_db_def new_case_def

lemma demo_finalize:
  "\<exists>t' m. apply_FinalizeDisposition \<lparr>cx_store = demo_store, cx_now = 7, cx_uuid = demo_uuid,
      cx_command = demo_command, cx_current = review_case, cx_classification = ''CONFIDENTIAL'',
      cx_evidence = evidence review_db\<rparr> (core review_db) = Inr (t', m) \<and> mu_nextStatus m = Some APPROVED
      \<and> length (mu_lineage m) = 1"
  by (simp add: apply_FinalizeDisposition_def demo_defs cx_actor_def cx_key_def human_authority_def
      payload_at_def obj_get_def requiredString_def enumValue_def gate_authorizes_def sql_find_def
      open_material_def given_id_def optionalString_def sql_insert_def string_list_or_empty_def
      nullish_def stringArray_def edges_def)

lemma demo_mutation:
  "\<exists>t' m. applyMutation demo_store 7 demo_uuid demo_command review_case (evidence review_db) (core review_db)
      = Inr (t', m) \<and> mu_nextStatus m = Some APPROVED \<and> length (mu_lineage m) = 1"
proof -
  have "optionalString (obj_get (cmd_payload demo_command) ''classification'') = Inr None"
    "cmd_commandType demo_command = FinalizeDisposition" "cs_classification review_case = ''CONFIDENTIAL''"
    by (simp_all add: demo_defs obj_get_def optionalString_def)
  then show ?thesis using demo_finalize by (simp add: applyMutation_def)
qed

text \<open>The first command on a case, when its mutation succeeds with at most one lineage edge.\<close>

lemma fresh_accept:
  assumes "find_case d (command_key c) = Some r" and "cases d = [r]" and key: "case_key_of r = command_key c"
    and "command_receipts (ledger_of d) = []" and "case_events (ledger_of d) = []" and "outbox (ledger_of d) = []"
    and "lineage_edges (evidence d) = []" and "cmd_occurredAt c = None"
    and "cmd_caseSequence c = int (cs_case_sequence r)"
    and "normalizeDigest (auth_planDigest (cmd_authority c)) = normalizeDigest (cs_harness_plan_digest r)"
    and "normalizeDigest (auth_policySnapshotDigest (cmd_authority c)) = normalizeDigest (cs_policy_snapshot_digest r)"
    and "applyMutation st t1 uuid c r (evidence d) (core d) = Inr (t', m)" and "length (mu_lineage m) = 1"
  shows "\<exists>d' response x. submitBusinessCommand st t1 t2 uuid d c = Inr (d', response)
     \<and> find_case d' (command_key c) = Some (advance_case m t2 r) \<and> core d' = t'
     \<and> command_receipts (ledger_of d') = [x] \<and> rp_idempotency_key x = cmd_idempotencyKey c"
proof -
  obtain e where e: "mu_lineage m = [e]" using assms(13) by (auto simp: length_Suc_conv)
  have none: "find_receipt d (command_key c) (cmd_idempotencyKey c) = None"
    using assms(4) by (simp add: find_receipt_def sql_find_def)
  have "\<exists>d' response. accept_command st t1 t2 uuid d c r = Inr (d', response)
     \<and> cases d' = [advance_case m t2 r] \<and> core d' = t'
     \<and> (\<exists>x. command_receipts (ledger_of d') = [x] \<and> rp_idempotency_key x = cmd_idempotencyKey c)"
    using assms e by (simp add: accept_command_def on_zod_def occurred_stamp_def appendCaseEvent_def Let_def
      sql_insert_def writeReceipt_def case_key_of_def command_receipt_def)
  then obtain d' response x where acc: "accept_command st t1 t2 uuid d c r = Inr (d', response)"
    "cases d' = [advance_case m t2 r]" "core d' = t'" "command_receipts (ledger_of d') = [x]"
    "rp_idempotency_key x = cmd_idempotencyKey c" by blast
  have "submitBusinessCommand st t1 t2 uuid d c = Inr (d', response)"
    using acc assms none by (simp add: submitBusinessCommand_def)
  moreover have "find_case d' (command_key c) = Some (advance_case m t2 r)"
    using acc(2) key by (simp add: find_case_key sql_find_def advance_case_def case_key_of_def)
  ultimately show ?thesis using acc(3-5) by blast
qed

lemma demo_submit:
  "\<exists>d' response. submitBusinessCommand demo_store 7 8 demo_uuid review_db demo_command = Inr (d', response)
     \<and> (\<exists>r'. find_case d' (command_key demo_command) = Some r' \<and> cs_status r' = APPROVED)
     \<and> find_receipt d' (command_key demo_command) ''i2'' = None"
proof -
  obtain t' m where m: "applyMutation demo_store 7 demo_uuid demo_command review_case (evidence review_db) (core review_db)
      = Inr (t', m)" "mu_nextStatus m = Some APPROVED" "length (mu_lineage m) = 1"
    using demo_mutation by blast
  have "\<exists>d' response x. submitBusinessCommand demo_store 7 8 demo_uuid review_db demo_command = Inr (d', response)
     \<and> find_case d' (command_key demo_command) = Some (advance_case m 8 review_case) \<and> core d' = t'
     \<and> command_receipts (ledger_of d') = [x] \<and> rp_idempotency_key x = cmd_idempotencyKey demo_command"
    by (rule fresh_accept [OF _ _ _ _ _ _ _ _ _ _ _ m(1,3)])
      (simp_all add: demo_defs find_case_def sql_find_def command_key_def case_key_of_def normalizeDigest_def starts_with_def)
  then show ?thesis using m(2)
    by (elim exE conjE, intro exI conjI) (auto simp: advance_case_def find_receipt_def sql_find_def demo_command_def)
qed

lemma demo_no_receipt: "find_receipt review_db (command_key demo_command) (cmd_idempotencyKey demo_command) = None"
  by (simp add: demo_defs find_receipt_def sql_find_def)

lemma demo_find: "find_case review_db (command_key demo_command) = Some review_case" "cs_status review_case = HUMAN_REVIEW"
  by (simp_all add: demo_defs find_case_def sql_find_def command_key_def)

section \<open>The chain verifies\<close>

definition canonical_call :: "case_store \<Rightarrow> case_call \<Rightarrow> bool" where
  \<comment> \<open>a submitted \<open>occurredAt\<close> is absent or written the way \<open>toISOString\<close> writes it\<close>
  "canonical_call st c = (case call_op c of
       OpSubmit cmd \<Rightarrow> (case cmd_occurredAt cmd of None \<Rightarrow> True
         | Some s \<Rightarrow> (case st_timestamptz st s of None \<Rightarrow> True | Some t \<Rightarrow> toISOString t = s))
     | _ \<Rightarrow> True)"

definition digests_ok :: "(string \<Rightarrow> string) \<Rightarrow> case_event_row list \<Rightarrow> bool" where
  "digests_ok sha es \<longleftrightarrow> list_all (\<lambda>e. ce_event_digest e = stableDigest sha (row_envelope e)) es"

lemma row_envelope_of_input:
  assumes "fst (ei_occurredAt i) = toISOString (snd (ei_occurredAt i))"
  shows "row_envelope (event_row_of eventId digest i) = input_envelope eventId i"
  using assms by (simp add: row_envelope_def input_envelope_def event_row_of_def)

lemma digest_of_row [simp]: "ce_event_digest (event_row_of eventId digest i) = digest"
  by (simp add: event_row_of_def)

lemma digests_append:
  assumes "digests_ok sha (case_events (ledger_of d))"
    and "case_events (ledger_of d') = case_events (ledger_of d) @ [event_row_of eventId digest i]"
    and "digest = stableDigest sha (input_envelope eventId i)"
    and "fst (ei_occurredAt i) = toISOString (snd (ei_occurredAt i))"
  shows "digests_ok sha (case_events (ledger_of d'))"
  using assms row_envelope_of_input [OF assms(4), of eventId digest] by (simp add: digests_ok_def)

lemma occurred_canonical:
  assumes "occurred_stamp st cmd now = Inr o'" and "canonical_call st c" and "call_op c = OpSubmit cmd"
  shows "fst o' = toISOString (snd o')"
  using assms by (auto simp: occurred_stamp_def canonical_call_def own_stamp_def split: option.splits)

lemma digests_step:
  assumes "digests_ok (st_sha st) (case_events (ledger_of d))" and "canonical_call st c"
  shows "digests_ok (st_sha st) (case_events (ledger_of (case_step st d c)))"
proof (cases "call_op c")
  case (OpCreateCase q idem)
  show ?thesis
  proof (cases "createKycCase st (call_t1 c) (call_uuid c) d q idem")
    case (Inl e)
    then show ?thesis using OpCreateCase assms(1) by (simp add: case_step_def)
  next
    case (Inr x)
    obtain d' created row ev where x: "x = (d', created, row, ev)" by (cases x) auto
    have s: "case_step st d c = d'" using OpCreateCase Inr x by (simp add: case_step_def)
    from Inr x have "createKycCase st (call_t1 c) (call_uuid c) d q idem = Inr (d', created, row, ev)" by simp
    then show ?thesis
    proof (cases rule: createKycCase_cases)
      case (replay rp)
      then show ?thesis using s assms(1) by simp
    next
      case (create eventId digest rp)
      show ?thesis unfolding s
        by (rule digests_append [OF assms(1) create(8,7)]) (simp add: created_event_def own_stamp_def)
    qed
  qed
next
  case (OpRegisterEvidence q idem)
  show ?thesis
  proof (cases "registerEvidence st (call_t1 c) (call_uuid c) d q idem")
    case (Inl e)
    then show ?thesis using OpRegisterEvidence assms(1) by (simp add: case_step_def)
  next
    case (Inr x)
    obtain d' y where x: "x = (d', y)" by (cases x) auto
    have s: "case_step st d c = d'" using OpRegisterEvidence Inr x by (simp add: case_step_def)
    from Inr x have "registerEvidence st (call_t1 c) (call_uuid c) d q idem = Inr (d', y)" by simp
    then show ?thesis unfolding s using registerEvidence_frame(3) assms(1) by simp
  qed
next
  case (OpSubmit cmd)
  then show ?thesis
  proof (cases rule: case_step_submit [of _ _ st d])
    case same
    then show ?thesis using assms(1) by simp
  next
    case (accept r a)
    note acc = accept(2) [unfolded accepted_def]
    have o': "occurred_stamp st cmd (call_t2 c) = Inr (ac_occurred a)" using acc by blast
    show ?thesis
      by (rule digests_append [OF assms(1), where eventId = "ac_eventId a" and digest = "ac_digest a"])
        (use acc occurred_canonical [OF o' assms(2) OpSubmit] in \<open>blast | simp add: command_event_def\<close>)+
  qed
next
  case (OpDrain a l i b t y)
  then show ?thesis using assms(1) by (simp add: case_step_def drainOutbox_frame)
qed

lemma run_digests:
  assumes "digests_ok (st_sha st) (case_events (ledger_of d))" and "list_all (canonical_call st) cs"
  shows "digests_ok (st_sha st) (case_events (ledger_of (run_steps (case_step st) d cs)))"
  using assms by (induction cs arbitrary: d) (auto intro: digests_step)

lemma check_chain_ok:
  "links p es \<Longrightarrow> digests_ok sha es \<Longrightarrow>
     check_chain sha p es = Inr (if es = [] then p else Some (ce_event_digest (last es)))"
  by (induction es arbitrary: p) (auto simp: digests_ok_def)

lemma links_take: "links p es \<Longrightarrow> links p (take n es)"
  by (induction es arbitrary: p n) (auto simp: take_Cons split: nat.splits)

lemma digests_ok_subset: "digests_ok sha es \<Longrightarrow> set fs \<subseteq> set es \<Longrightarrow> digests_ok sha fs"
  by (auto simp: digests_ok_def list_all_iff)

lemma listCaseEvents_chain:
  assumes "chain_inv d (t, i)"
  shows "listCaseEvents d t i 0 = take 1000 (events_for d (t, i))"
proof -
  have seqs: "map ce_case_sequence (events_for d (t, i)) = [1..<Suc (sequence_at d (t, i))]"
    using assms by (simp add: chain_inv_def)
  have "\<forall>e \<in> set (events_for d (t, i)). 0 < ce_case_sequence e"
  proof
    fix e assume "e \<in> set (events_for d (t, i))"
    then have "ce_case_sequence e \<in> set [1..<Suc (sequence_at d (t, i))]"
      using seqs by (metis image_eqI list.set_map)
    then show "0 < ce_case_sequence e" by auto
  qed
  then have "filter (\<lambda>e. (ce_tenant_id e, ce_case_id e) = (t, i) \<and> 0 < ce_case_sequence e) (case_events (ledger_of d))
      = events_for d (t, i)"
    by (auto simp: events_for_def intro!: filter_cong)
  moreover have "sorted (map ce_case_sequence (events_for d (t, i)))" by (simp only: seqs sorted_upt)
  then have "sort_key ce_case_sequence (events_for d (t, i)) = events_for d (t, i)"
    by (rule sort_key_id_if_sorted)
  ultimately show ?thesis by (simp only: listCaseEvents_def)
qed

text \<open>C8. After any sequence of calls in which a submitted \<open>occurredAt\<close> is absent or written as \<open>toISOString\<close>
  writes it, the first thousand events of every case verify: each carries the digest of its envelope
  and of its predecessor. Up to a thousand events these are all of them, and the verified head is the head
  the next command will extend. The invariants it starts from hold of the empty store.\<close>

theorem case_ledger_verifies:
  assumes "ledger_ok d" and "digests_ok (st_sha st) (case_events (ledger_of d))"
    and "list_all (canonical_call st) cs" and "s = run_steps (case_step st) d cs"
  shows "\<exists>head. verifyCaseLedger st s t i = Verified (min 1000 (sequence_at s (t, i))) head
     \<and> (sequence_at s (t, i) \<le> 1000 \<longrightarrow> head = head_digest (ledger_of s) (t, i))"
proof -
  have inv: "chain_inv s (t, i)"
    unfolding assms(4) using assms(1) by (intro ledger_ok_chain case_ledger.run_inv)
  let ?es = "events_for s (t, i)"
  have "digests_ok (st_sha st) (case_events (ledger_of s))"
    unfolding assms(4) using assms(2,3) by (rule run_digests)
  then have "digests_ok (st_sha st) (take 1000 ?es)"
    by (rule digests_ok_subset) (auto simp: events_for_def dest: in_set_takeD)
  moreover have "links None (take 1000 ?es)" using inv by (intro links_take) (simp add: chain_inv_def)
  ultimately have check: "check_chain (st_sha st) None (take 1000 ?es) = Inr (last_digest (take 1000 ?es))"
    by (simp add: check_chain_ok last_digest_def)
  have "map ce_case_sequence ?es = [1..<Suc (sequence_at s (t, i))]" using inv by (simp only: chain_inv_def)
  then have "length (map ce_case_sequence ?es) = length [1..<Suc (sequence_at s (t, i))]" by (simp only:)
  then have len: "length ?es = sequence_at s (t, i)" by simp
  have "last_digest (take 1000 ?es) = head_digest (ledger_of s) (t, i)" if "sequence_at s (t, i) \<le> 1000"
    using that len inv by (simp add: chain_inv_def)
  then show ?thesis
    using check len by (auto simp: verifyCaseLedger_def Let_def listCaseEvents_chain [OF inv] min_def)
qed

lemma empty_digests: "digests_ok sha (case_events (ledger_of empty_case_db))"
  by (simp add: digests_ok_def empty_case_db_def)

theorem case_ledger_verifies_witness:
  "\<exists>head. verifyCaseLedger demo_store (run_steps (case_step demo_store) empty_case_db [demo_create_call]) ''acme'' ''c1''
     = Verified (min 1000 (sequence_at (run_steps (case_step demo_store) empty_case_db [demo_create_call]) (''acme'', ''c1''))) head"
  using case_ledger_verifies [OF empty_case_ok empty_digests _ refl, of demo_store "[demo_create_call]" "''acme''" "''c1''"]
  by (auto simp: canonical_call_def demo_create_call_def)

section \<open>Concurrency and retries\<close>

text \<open>of two commands written against the same state of a case only one is accepted: once
  one was, then after any further calls every new command that names the same (or an earlier)
  case sequence is refused as a conflict.\<close>

theorem stale_command_conflicts:
  assumes "submitBusinessCommand st t1 t2 uuid d c = Inr (d', response)"
    and "find_receipt d (command_key c) (cmd_idempotencyKey c) = None"
    and "s = run_steps (case_step st) d' cs"
    and "command_key c' = command_key c" and "cmd_caseSequence c' \<le> cmd_caseSequence c"
    and "find_receipt s (command_key c') (cmd_idempotencyKey c') = None"
  shows "submitBusinessCommand st t1' t2' uuid' s c' = Inl (Refused ''command.case_sequence_conflict'' 409)"
  using assms(1)
proof (cases rule: submit_cases)
  case (replay rp)
  then show ?thesis using assms(2) by simp
next
  case (accept r a)
  have "find_case d' (command_key c) = Some (advance_case (ac_mutation a) t2 r)"
    using find_case_submit [OF accept(6,1)] by simp
  then obtain r' where r': "find_case s (command_key c) = Some r'"
    "cs_case_sequence (advance_case (ac_mutation a) t2 r) \<le> cs_case_sequence r'"
    unfolding assms(3) by (rule find_case_run)
  then have "cmd_caseSequence c' \<noteq> int (cs_case_sequence r')"
    using assms(5) accept(3) by (auto simp: advance_case_def)
  then show ?thesis using r' assms(4,6) by (simp add: submitBusinessCommand_def)
qed

theorem stale_command_conflicts_witness:
  "\<exists>d' response. submitBusinessCommand demo_store 7 8 demo_uuid review_db demo_command = Inr (d', response)
     \<and> submitBusinessCommand demo_store 9 9 demo_uuid d' (demo_command\<lparr>cmd_idempotencyKey := ''i2''\<rparr>)
        = Inl (Refused ''command.case_sequence_conflict'' 409)"
proof -
  obtain d' response where d': "submitBusinessCommand demo_store 7 8 demo_uuid review_db demo_command = Inr (d', response)"
    "find_receipt d' (command_key demo_command) ''i2'' = None" using demo_submit by blast
  show ?thesis
    using stale_command_conflicts [OF d'(1) demo_no_receipt, of d' "[]" "demo_command\<lparr>cmd_idempotencyKey := ''i2''\<rparr>"] d'
    by (simp add: command_key_def)
qed

text \<open>C11. an accepted command is answered once and for all: after any further calls, sending it
  again changes nothing and returns the stored response marked as replayed, and sending any
  other request under its idempotency key is refused.\<close>

theorem accepted_command_replays:
  assumes "submitBusinessCommand st t1 t2 uuid d c = Inr (d', response)"
    and "find_receipt d (command_key c) (cmd_idempotencyKey c) = None"
    and "s = run_steps (case_step st) d' cs"
    and "command_key c' = command_key c" and "cmd_idempotencyKey c' = cmd_idempotencyKey c"
  shows "submitBusinessCommand st t1' t2' uuid' s c'
    = (if stableDigest (st_sha st) (command_json c') = stableDigest (st_sha st) (command_json c)
       then Inr (s, obj_spread response [(''replayed'', JBool True)])
       else Inl (Refused ''command.idempotency_conflict'' 409))"
  using assms(1)
proof (cases rule: submit_cases)
  case (replay rp)
  then show ?thesis using assms(2) by simp
next
  case (accept r a)
  note acc = accept(6) [unfolded accepted_def]
  have app: "sql_find P (xs @ [x]) = (case sql_find P xs of None \<Rightarrow> if P x then Some x else None | Some y \<Rightarrow> Some y)"
    for P xs and x :: command_receipt_row by (induction xs) (auto simp: sql_find_def)
  have "find_receipt d' (command_key c) (cmd_idempotencyKey c) = Some (ac_receipt a)"
    using assms(2) acc by (simp add: find_receipt_def app)
  then have rp: "find_receipt s (command_key c) (cmd_idempotencyKey c) = Some (ac_receipt a)"
    unfolding assms(3) by (rule find_receipt_run)
  have "find_case d' (command_key c) = Some (advance_case (ac_mutation a) t2 r)"
    using find_case_submit [OF accept(6,1)] by simp
  then obtain r' where r': "find_case s (command_key c) = Some r'"
    unfolding assms(3) by (rule find_case_run)
  have "rp_request_digest (ac_receipt a) = stableDigest (st_sha st) (command_json c)" using acc by blast
  then show ?thesis using rp r' assms(4,5) accept(7)
    by (auto simp: submitBusinessCommand_def guard_result_def)
qed

theorem accepted_command_replays_witness:
  "\<exists>d' response. submitBusinessCommand demo_store 7 8 demo_uuid review_db demo_command = Inr (d', response)
     \<and> submitBusinessCommand demo_store 9 9 demo_uuid d' demo_command
        = Inr (d', obj_spread response [(''replayed'', JBool True)])"
proof -
  obtain d' response where d': "submitBusinessCommand demo_store 7 8 demo_uuid review_db demo_command = Inr (d', response)"
    using demo_submit by blast
  show ?thesis
    using accepted_command_replays [OF d' demo_no_receipt, of d' "[]" demo_command] d' by simp
qed

section \<open>Decisions\<close>

text \<open>C10. After any calls, the next call either leaves the row of a case as it is, or is a command on that
  case that advances its sequence by one and leaves its status or moves it along one entry of
  \<open>allowedTransitions\<close>. A case becomes approved or declined only out of human review, a decided case can
  only be closed, and a closed case stays closed.\<close>

theorem status_moves_along_transitions:
  assumes "find_case d k = Some r"
  shows "\<exists>r1 r2. find_case (run_steps (case_step st) d cs) k = Some r1
     \<and> find_case (case_step st (run_steps (case_step st) d cs) c) k = Some r2
     \<and> (r2 = r1 \<or> (\<exists>cmd. call_op c = OpSubmit cmd \<and> command_key cmd = k) \<and> cs_case_sequence r2 = cs_case_sequence r1 + 1
          \<and> (cs_status r2 = cs_status r1 \<or> cs_status r2 \<in> set (allowedTransitions (cs_status r1))))
     \<and> (cs_status r2 \<in> {APPROVED, DECLINED} \<longrightarrow> cs_status r1 \<in> {HUMAN_REVIEW, cs_status r2})
     \<and> (cs_status r1 \<in> {APPROVED, DECLINED} \<longrightarrow> cs_status r2 \<in> {cs_status r1, CLOSED})
     \<and> (cs_status r1 = CLOSED \<longrightarrow> cs_status r2 = CLOSED)"
proof -
  obtain r1 where r1: "find_case (run_steps (case_step st) d cs) k = Some r1"
    using assms by (rule find_case_run)
  have table: "(a, b) \<in> move \<Longrightarrow> (b \<in> {APPROVED, DECLINED} \<longrightarrow> a = HUMAN_REVIEW)
      \<and> (a \<in> {APPROVED, DECLINED} \<longrightarrow> b = CLOSED) \<and> a \<noteq> CLOSED" for a b
    by (cases a) (auto simp: move_def)
  from r1 show ?thesis
  proof (cases rule: find_case_step [of _ _ _ st c])
    case (advanced r2 cmd)
    have "cs_status r2 = cs_status r1 \<or> cs_status r2 \<in> set (allowedTransitions (cs_status r1))"
      using advanced(5) by (auto simp: move_def)
    moreover have "(cs_status r2 \<in> {APPROVED, DECLINED} \<longrightarrow> cs_status r1 \<in> {HUMAN_REVIEW, cs_status r2})
        \<and> (cs_status r1 \<in> {APPROVED, DECLINED} \<longrightarrow> cs_status r2 \<in> {cs_status r1, CLOSED})
        \<and> (cs_status r1 = CLOSED \<longrightarrow> cs_status r2 = CLOSED)"
      using advanced(5) table [of "cs_status r1" "cs_status r2"] by auto
    ultimately show ?thesis using r1 advanced(1-4) by blast
  next
    case kept
    show ?thesis by (rule exI [of _ r1], rule exI [of _ r1]) (use r1 kept in simp)
  qed
qed

definition demo_decide_call :: case_call where
  "demo_decide_call = \<lparr>call_t1 = 7, call_t2 = 8, call_uuid = demo_uuid, call_op = OpSubmit demo_command\<rparr>"

theorem status_moves_along_transitions_witness:
  "\<exists>r2. find_case (case_step demo_store review_db demo_decide_call) (command_key demo_command) = Some r2
     \<and> cs_status r2 = APPROVED \<and> cs_case_sequence r2 = cs_case_sequence review_case + 1"
proof -
  obtain d' response r' where d': "submitBusinessCommand demo_store 7 8 demo_uuid review_db demo_command = Inr (d', response)"
    "find_case d' (command_key demo_command) = Some r'" "cs_status r' = APPROVED" using demo_submit by blast
  then have "find_case (case_step demo_store review_db demo_decide_call) (command_key demo_command) = Some r'"
    by (simp add: case_step_def demo_decide_call_def)
  then show ?thesis
    using status_moves_along_transitions [OF demo_find(1), of demo_store "[]" demo_decide_call] d'(3) demo_find by auto
qed





text \<open>C7. in every state reached from a store whose decisions are in order, every approved or
  declined case has a disposition row with that outcome, made by a human with the required
  role, that names a gate which authorized its recommendation; both rows are still there.\<close>

theorem decided_cases_are_justified:
  assumes "decisions_ok d" and "find_case (run_steps (case_step st) d cs) k = Some r"
  shows "status_justified (core (run_steps (case_step st) d cs)) r"
proof -
  have "decisions_ok (run_steps (case_step st) d cs)"
    using assms(1) by (induction cs arbitrary: d) (auto intro: decisions_step)
  then show ?thesis using assms(2) by (rule decisions_okD)
qed

lemma empty_decisions: "decisions_ok empty_case_db"
  by (simp add: decisions_ok_def find_case_def sql_find_def empty_case_db_def)

lemma review_decisions: "decisions_ok review_db"
proof -
  have "cs_status r = HUMAN_REVIEW" if "find_case review_db k = Some r" for k r
    using that by (auto simp: demo_defs find_case_def sql_find_def split: if_splits)
  then show ?thesis unfolding decisions_ok_def by (auto simp: status_justified_def)
qed

theorem decided_cases_are_justified_witness:
  "justified (core (run_steps (case_step demo_store) review_db [demo_decide_call])) (''acme'', ''c1'') ''APPROVED''"
proof -
  obtain d' response r' where d': "submitBusinessCommand demo_store 7 8 demo_uuid review_db demo_command = Inr (d', response)"
    "find_case d' (command_key demo_command) = Some r'" "cs_status r' = APPROVED" using demo_submit by blast
  then have "find_case (run_steps (case_step demo_store) review_db [demo_decide_call]) (command_key demo_command) = Some r'"
    by (simp add: case_step_def demo_decide_call_def)
  from decided_cases_are_justified [OF review_decisions this] d'(2,3)
  show ?thesis
    by (auto simp: status_justified_def find_case_key demo_command_def command_key_def dest: sql_find_Some)
qed

end
