(* ===== verification/CaseProvenance.thy ===== *)
theory CaseProvenance
  imports CaseStatus
begin

text \<open>
  Where what a case asserts comes from. \<open>evidence_ok\<close> is the invariant of the evidence schema:
  an artifact is the content its digest names, and every registered object has its artifact.
  \<open>sources_ok\<close> is the invariant of the core schema: a fact rests on accepted claims, a claim on
  linked evidence, and linked evidence on a registered object of the same case. The locale
  \<open>source_neutral\<close> is the contract of the commands that touch none of the three tables.
\<close>

section \<open>Artifacts and evidence objects\<close>

definition artifact_ok :: "case_store \<Rightarrow> artifact_row \<Rightarrow> bool" where
  "artifact_ok st a \<longleftrightarrow> ar_artifact_digest a = st_sha st (ar_content a)
     \<and> ar_byte_length a = length (ar_content a)
     \<and> ar_artifact_ref a = artifact_ref st (ar_tenant_id a) (ar_artifact_digest a)"

definition backed_by :: "evidence_object_row \<Rightarrow> artifact_row \<Rightarrow> bool" where
  "backed_by e a \<longleftrightarrow> ar_tenant_id a = fst (eo_key e) \<and> ar_artifact_ref a = eo_artifact_ref e
     \<and> ar_artifact_digest a = eo_raw_digest e"

definition evidence_ok :: "case_store \<Rightarrow> evidence_tables \<Rightarrow> bool" where
  "evidence_ok st ev \<longleftrightarrow> (\<forall>a \<in> set (artifacts ev). artifact_ok st a)
     \<and> keyed ar_artifact_ref (artifacts ev)
     \<and> keyed (\<lambda>e. (fst (eo_key e), eo_evidence_id e)) (evidence_objects ev)
     \<and> (\<forall>e \<in> set (evidence_objects ev). \<exists>a \<in> set (artifacts ev). backed_by e a)"

lemma insert_artifact_cases:
  assumes "insert_artifact a as = Inr as'"
  obtains (present) x where "as' = as" and "x \<in> set as" and "ar_tenant_id x = ar_tenant_id a"
      and "ar_artifact_digest x = ar_artifact_digest a"
  | (absent) "as' = as @ [a]" and "ar_artifact_ref a \<notin> ar_artifact_ref ` set as"
proof (cases "\<exists>x \<in> set as. ar_tenant_id x = ar_tenant_id a \<and> ar_artifact_digest x = ar_artifact_digest a")
  case True
  then show thesis using assms present by (auto simp: insert_artifact_def)
next
  case False
  then have "as' = as @ [a]" "\<forall>x \<in> set as. ar_artifact_ref x \<noteq> ar_artifact_ref a"
    using assms unfolding insert_artifact_def if_not_P [OF False] guard_result_Inr_iff by auto
  then show thesis by (intro absent) (auto simp: image_iff)
qed

lemma store_evidence_ok:
  assumes "store_evidence st now uuid ev r idem content = Inr (ev', created, j)" and "evidence_ok st ev"
  shows "evidence_ok st ev' \<and> (\<exists>e. evidence_objects ev' = evidence_objects ev @ [e])"
proof -
  let ?digest = "st_sha st content"
  let ?e = "evidence_row st now (opaqueId uuid ''ev'' 0) ?digest r"
  let ?a = "\<lparr>ar_tenant_id = rer_tenantId r, ar_artifact_digest = ?digest,
            ar_artifact_ref = artifact_ref st (rer_tenantId r) ?digest, ar_media_type = rer_mediaType r,
            ar_byte_length = length content, ar_content = content, ar_created_at = now\<rparr>"
  obtain as es gs os where as: "insert_artifact ?a (artifacts ev) = Inr as"
    and es: "sql_insert (\<lambda>e. (fst (eo_key e), eo_evidence_id e)) ?e (evidence_objects ev) = Inr es"
    and ev': "ev' = ev\<lparr>artifacts := as, evidence_objects := es, registration_receipts := gs, evidence_outbox := os\<rparr>"
    using assms(1) by (auto simp: store_evidence_def Let_def bind_result_Inr_iff)
  have es': "es = evidence_objects ev @ [?e]" using es by (simp add: sql_insert_Inr)
  have keys: "keyed (\<lambda>e. (fst (eo_key e), eo_evidence_id e)) es"
    using es assms(2) by (auto simp: evidence_ok_def intro: sql_insert_keyed)
  have a: "artifact_ok st ?a" by (simp add: artifact_ok_def)
  have row: "fst (eo_key ?e) = rer_tenantId r" "eo_artifact_ref ?e = artifact_ref st (rer_tenantId r) ?digest"
    "eo_raw_digest ?e = ?digest" by (simp_all add: evidence_row_def)
  have "(\<forall>a \<in> set as. artifact_ok st a) \<and> keyed ar_artifact_ref as \<and> set (artifacts ev) \<subseteq> set as
      \<and> (\<exists>a \<in> set as. backed_by ?e a)"
    using as
  proof (cases rule: insert_artifact_cases)
    case (present x)
    then have "backed_by ?e x" using assms(2) row by (simp add: backed_by_def evidence_ok_def artifact_ok_def)
    then show ?thesis using present assms(2) by (auto simp: evidence_ok_def)
  next
    case absent
    have "backed_by ?e ?a" by (simp add: backed_by_def row)
    then show ?thesis using absent assms(2) a by (auto simp: evidence_ok_def keyed_append)
  qed
  then show ?thesis using assms(2) keys unfolding evidence_ok_def ev' es' by auto blast
qed

section \<open>Claims and facts\<close>

definition linked :: "core_tables \<Rightarrow> case_key \<Rightarrow> string \<Rightarrow> bool" where
  "linked t k ref \<longleftrightarrow> (\<exists>l \<in> set (evidence_refs t). er_key l = k \<and> er_evidence_id l = ref \<and> er_status l = ''ACCEPTED'')"

definition accepted_claim :: "core_tables \<Rightarrow> case_key \<Rightarrow> string \<Rightarrow> bool" where
  "accepted_claim t k ref \<longleftrightarrow> (\<exists>x \<in> set (claims t). cl_key x = k \<and> cl_claim_id x = ref \<and> cl_status x = ''ACCEPTED'')"

definition registered :: "evidence_tables \<Rightarrow> case_key \<Rightarrow> string \<Rightarrow> bool" where
  "registered ev k ref \<longleftrightarrow> (\<exists>e \<in> set (evidence_objects ev). eo_key e = k \<and> eo_evidence_id e = ref)"

definition sources_ok :: "evidence_tables \<Rightarrow> core_tables \<Rightarrow> bool" where
  "sources_ok ev t \<longleftrightarrow> keyed (\<lambda>r. (er_key r, er_evidence_id r)) (evidence_refs t)
     \<and> keyed (\<lambda>r. (cl_key r, cl_claim_id r)) (claims t)
     \<and> (\<forall>l \<in> set (evidence_refs t). registered ev (er_key l) (er_evidence_id l))
     \<and> (\<forall>x \<in> set (claims t). cl_evidence_refs x \<noteq> [] \<and> (\<forall>ref \<in> set (cl_evidence_refs x). linked t (cl_key x) ref))
     \<and> (\<forall>f \<in> set (facts t). fa_basis_claim_refs f \<noteq> []
          \<and> (\<forall>ref \<in> set (fa_basis_claim_refs f). accepted_claim t (fa_key f) ref))"

lemma sources_ok_same:
  assumes "evidence_refs t' = evidence_refs t" and "claims t' = claims t" and "facts t' = facts t"
  shows "sources_ok ev t' = sources_ok ev t"
  using assms by (simp add: sources_ok_def linked_def accepted_claim_def)

lemma sources_ok_grown:
  assumes "sources_ok ev t" and "set (evidence_objects ev) \<subseteq> set (evidence_objects ev')"
  shows "sources_ok ev' t"
proof -
  have "registered ev k ref \<Longrightarrow> registered ev' k ref" for k ref using assms(2) by (auto simp: registered_def)
  then show ?thesis using assms(1) unfolding sources_ok_def by blast
qed

locale source_neutral =
  fixes h :: "command_context \<Rightarrow> core_tables \<Rightarrow> mutation case_write"
  assumes same_refs: "h c t = Inr (t', m) \<Longrightarrow> evidence_refs t' = evidence_refs t"
    and same_claims: "h c t = Inr (t', m) \<Longrightarrow> claims t' = claims t"
    and same_facts: "h c t = Inr (t', m) \<Longrightarrow> facts t' = facts t"
begin

lemma keeps: "h c t = Inr (t', m) \<Longrightarrow> sources_ok ev t \<Longrightarrow> sources_ok ev t'"
  using sources_ok_same [OF same_refs same_claims same_facts] by blast

end

lemma insert_identifiers_sources:
  "insert_identifiers c i n ids t = Inr t' \<Longrightarrow> evidence_refs t' = evidence_refs t \<and> claims t' = claims t
     \<and> facts t' = facts t"
proof (induction ids arbitrary: n t)
  case (Cons x ids)
  then show ?case by (fastforce simp: bind_result_Inr_iff)
qed simp

interpretation subject_sources: source_neutral apply_AddSubject
  by unfold_locales (auto simp: apply_AddSubject_def command_unfold dest!: insert_identifiers_sources)

interpretation finding_sources: source_neutral apply_RecordScreeningFinding
  by unfold_locales (auto simp: apply_RecordScreeningFinding_def command_unfold)

interpretation assumption_sources: source_neutral apply_RecordAssumption
  by unfold_locales (auto simp: apply_RecordAssumption_def command_unfold)

interpretation raise_sources: source_neutral apply_RaiseContradiction
  by unfold_locales (auto simp: apply_RaiseContradiction_def command_unfold)

interpretation resolve_sources: source_neutral apply_ResolveContradiction
  by unfold_locales (auto simp: apply_ResolveContradiction_def command_unfold)

interpretation work_sources: source_neutral apply_ProposeWorkItem
  by unfold_locales (auto simp: apply_ProposeWorkItem_def command_unfold)

interpretation complete_sources: source_neutral apply_CompleteWorkItem
  by unfold_locales (auto simp: apply_CompleteWorkItem_def command_unfold)

interpretation execution_sources: source_neutral apply_LinkExecution
  by unfold_locales (auto simp: apply_LinkExecution_def command_unfold)

interpretation recommend_sources: source_neutral apply_SubmitDecisionRecommendation
  by unfold_locales (auto simp: apply_SubmitDecisionRecommendation_def command_unfold)

interpretation gate_sources: source_neutral apply_RecordGateResult
  by unfold_locales (auto simp: apply_RecordGateResult_def command_unfold)

interpretation qa_sources: source_neutral apply_RecordQAResult
  by unfold_locales (auto simp: apply_RecordQAResult_def command_unfold split: option.splits)

interpretation review_sources: source_neutral apply_RecordReview
  by unfold_locales (auto simp: apply_RecordReview_def command_unfold)

interpretation human_review_sources: source_neutral apply_RequestHumanReview
  by unfold_locales (auto simp: apply_RequestHumanReview_def command_unfold)

interpretation transition_sources: source_neutral apply_TransitionCaseStatus
  by unfold_locales (auto simp: apply_TransitionCaseStatus_def command_unfold split: option.splits)

interpretation finalize_sources: source_neutral apply_FinalizeDisposition
  by unfold_locales (auto simp: apply_FinalizeDisposition_def command_unfold)


section \<open>The three commands that touch them\<close>

lemma link_evidence_sources:
  assumes "apply_LinkEvidence c t = Inr (t', m)" and "sources_ok (cx_evidence c) t"
  shows "sources_ok (cx_evidence c) t'"
proof -
  obtain i e p where e: "sql_find (\<lambda>e. eo_key e = cx_key c \<and> eo_evidence_id e = i) (evidence_objects (cx_evidence c)) = Some e"
    and t': "t' = t\<lparr>evidence_refs := sql_insert_ignore (\<lambda>r. (er_key r, er_evidence_id r))
        \<lparr>er_key = cx_key c, er_evidence_id = i, er_purpose = p, er_status = ''ACCEPTED'',
         er_linked_by = cx_actor c, er_linked_at = cx_now c\<rparr> (evidence_refs t)\<rparr>"
    using assms(1) by (auto simp: apply_LinkEvidence_def command_unfold split: option.splits)
  have reg: "registered (cx_evidence c) (cx_key c) i"
    using sql_find_Some [OF e] by (auto simp: registered_def)
  have mono: "linked t k ref \<Longrightarrow> linked t' k ref" for k ref
    by (auto simp: linked_def t' sql_insert_ignore_def)
  have same: "claims t' = claims t" "facts t' = facts t" "accepted_claim t' = accepted_claim t"
    by (simp_all add: t' accepted_claim_def fun_eq_iff)
  have "keyed (\<lambda>r. (er_key r, er_evidence_id r)) (evidence_refs t')
    \<and> (\<forall>l \<in> set (evidence_refs t'). registered (cx_evidence c) (er_key l) (er_evidence_id l))"
    using assms(2) reg by (auto simp: sources_ok_def t' sql_insert_ignore_def keyed_append)
  then show ?thesis using assms(2) mono unfolding sources_ok_def same by blast
qed

lemma keyed_count_all:
  assumes "keyed k t" and "\<And>r s. r \<in> set t \<Longrightarrow> s \<in> set t \<Longrightarrow> P r \<Longrightarrow> P s \<Longrightarrow> f r = f s \<Longrightarrow> k r = k s"
    and "\<And>r. P r \<Longrightarrow> f r \<in> set refs" and "length (filter P t) = length refs" and "ref \<in> set refs"
  shows "\<exists>r \<in> set t. P r \<and> f r = ref"
proof -
  let ?F = "filter P t"
  have "distinct ?F" using assms(1) by (simp add: keyed_def distinct_map)
  moreover have "inj_on f (set ?F)"
    using assms(2) keyed_unique [OF assms(1)] by (auto intro!: inj_onI)
  ultimately have "card (f ` set ?F) = length ?F" by (metis card_image distinct_card)
  then have "card (set refs) \<le> card (f ` set ?F)" using assms(4) card_length [of refs] by simp
  moreover have "f ` set ?F \<subseteq> set refs" using assms(3) by auto
  ultimately have "f ` set ?F = set refs" by (intro card_seteq) auto
  then have "ref \<in> f ` set ?F" using assms(5) by (simp only:)
  then show ?thesis by auto
qed

lemma ensureLinked:
  assumes "ensureLinkedEvidence c t refs = Inr u" and "keyed (\<lambda>r. (er_key r, er_evidence_id r)) (evidence_refs t)"
    and "ref \<in> set refs"
  shows "linked t (cx_key c) ref"
proof -
  have "length (filter (\<lambda>r. er_key r = cx_key c \<and> er_evidence_id r \<in> set refs \<and> er_status r = ''ACCEPTED'')
      (evidence_refs t)) = length refs"
    using assms(1,3) by (cases "refs = []") (simp_all add: ensureLinkedEvidence_def sql_count_def)
  from keyed_count_all [OF assms(2) _ _ this assms(3), of er_evidence_id]
  show ?thesis by (auto simp: linked_def)
qed

lemma string_list_nonempty: "string_list_or_empty c f 1 = Inr xs \<Longrightarrow> xs \<noteq> []"
  by (auto simp: string_list_or_empty_def stringArray_def neq_Nil_conv bind_result_Inr_iff
      split: json.splits if_splits list.splits)

lemma propose_claim_sources:
  assumes "apply_ProposeClaim c t = Inr (t', m)" and "sources_ok ev t"
  shows "sources_ok ev t'"
proof -
  let ?x = "last (claims t')"
  have "\<exists>refs u. string_list_or_empty c ''evidenceRefs'' 1 = Inr refs
      \<and> ensureLinkedEvidence c t refs = Inr u \<and> cl_key ?x = cx_key c \<and> cl_evidence_refs ?x = refs
      \<and> (cl_key ?x, cl_claim_id ?x) \<notin> (\<lambda>r. (cl_key r, cl_claim_id r)) ` set (claims t)
      \<and> t' = t\<lparr>claims := claims t @ [?x]\<rparr>"
    using assms(1) unfolding apply_ProposeClaim_def bind_result_Inr_iff guard_result_Inr_iff sql_insert_Inr
      sum.inject prod.inject
    by (elim exE conjE) (intro exI conjI, assumption, assumption, auto)
  then obtain refs u x where refs: "string_list_or_empty c ''evidenceRefs'' 1 = Inr refs"
    and u: "ensureLinkedEvidence c t refs = Inr u"
    and x: "cl_key x = cx_key c" "cl_evidence_refs x = refs" "(cl_key x, cl_claim_id x) \<notin> (\<lambda>r. (cl_key r, cl_claim_id r)) ` set (claims t)"
    and t': "t' = t\<lparr>claims := claims t @ [x]\<rparr>" by blast
  have k: "keyed (\<lambda>r. (er_key r, er_evidence_id r)) (evidence_refs t)" using assms(2) by (simp add: sources_ok_def)
  have new: "cl_evidence_refs x \<noteq> [] \<and> (\<forall>ref \<in> set (cl_evidence_refs x). linked t (cl_key x) ref)"
    using string_list_nonempty [OF refs] ensureLinked [OF u k] by (simp add: x)
  have keys: "keyed (\<lambda>r. (cl_key r, cl_claim_id r)) (claims t')"
    using assms(2) x(3) by (simp add: sources_ok_def t' keyed_append)
  have same: "evidence_refs t' = evidence_refs t" "facts t' = facts t" "linked t' = linked t"
    by (simp_all add: t' linked_def fun_eq_iff)
  have mono: "accepted_claim t k ref \<Longrightarrow> accepted_claim t' k ref" for k ref
    by (auto simp: accepted_claim_def t')
  have "\<forall>x \<in> set (claims t'). cl_evidence_refs x \<noteq> [] \<and> (\<forall>ref \<in> set (cl_evidence_refs x). linked t (cl_key x) ref)"
    using assms(2) new by (simp add: sources_ok_def t')
  then show ?thesis using assms(2) mono keys unfolding sources_ok_def same by blast
qed

lemma in_sql_update: "r \<in> set t \<Longrightarrow> (if P r then f r else r) \<in> set (sql_update P f t)"
  by (simp only: set_sql_update image_eqI [where x = r])

lemma accept_claim_sources:
  assumes "apply_AcceptClaimAsFact c t = Inr (t', m)" and "sources_ok ev t"
  shows "sources_ok ev t'"
proof -
  let ?f = "last (facts t')"
  have "\<exists>refs. stringArray (payload_at c ''claimRefs'') 1 = Inr refs
      \<and> length (accepted_claims c t refs) = length refs \<and> fa_key ?f = cx_key c \<and> fa_basis_claim_refs ?f = refs
      \<and> t' = t\<lparr>facts := facts t @ [?f],
            claims := sql_update (\<lambda>r. cl_key r = cx_key c \<and> cl_claim_id r \<in> set refs)
              (\<lambda>r. r\<lparr>cl_status := ''ACCEPTED'', cl_updated_at := cx_now c\<rparr>) (claims t)\<rparr>"
    using assms(1) unfolding apply_AcceptClaimAsFact_def Let_def bind_result_Inr_iff guard_result_Inr_iff sql_insert_Inr
      sum.inject prod.inject
    by (elim exE conjE) (intro exI conjI, assumption, assumption, auto)
  then obtain refs f where refs: "stringArray (payload_at c ''claimRefs'') 1 = Inr refs"
    and len: "length (accepted_claims c t refs) = length refs"
    and f: "fa_key f = cx_key c" "fa_basis_claim_refs f = refs"
    and t': "t' = t\<lparr>facts := facts t @ [f],
            claims := sql_update (\<lambda>r. cl_key r = cx_key c \<and> cl_claim_id r \<in> set refs)
              (\<lambda>r. r\<lparr>cl_status := ''ACCEPTED'', cl_updated_at := cx_now c\<rparr>) (claims t)\<rparr>" by blast
  have k: "keyed (\<lambda>r. (cl_key r, cl_claim_id r)) (claims t)" using assms(2) by (simp add: sources_ok_def)
  let ?P = "\<lambda>r. cl_key r = cx_key c \<and> cl_claim_id r \<in> set refs"
  let ?u = "\<lambda>r. r\<lparr>cl_status := ''ACCEPTED'', cl_updated_at := cx_now c\<rparr>"
  have rows: "claims t' = sql_update ?P ?u (claims t)" by (simp add: t')
  have kept: "accepted_claim t' (cl_key r) (cl_claim_id r)"
    if "r \<in> set (claims t)" and "?P r \<or> cl_status r = ''ACCEPTED''" for r
  proof -
    have "(if ?P r then ?u r else r) \<in> set (claims t')" 
      using in_sql_update [OF that(1), of ?P ?u] by (simp only: rows)
    moreover have "cl_key (if ?P r then ?u r else r) = cl_key r" "cl_claim_id (if ?P r then ?u r else r) = cl_claim_id r"
      "cl_status (if ?P r then ?u r else r) = ''ACCEPTED''" using that(2) by auto
    ultimately show ?thesis unfolding accepted_claim_def by blast
  qed
  have mono: "accepted_claim t k ref \<Longrightarrow> accepted_claim t' k ref" for k ref
    using kept unfolding accepted_claim_def [of t] by blast
  have new: "accepted_claim t' (cx_key c) ref" if "ref \<in> set refs" for ref
  proof -
    have "\<exists>r \<in> set (claims t). ?P r \<and> cl_claim_id r = ref"
      by (rule keyed_count_all [OF k _ _ len [unfolded accepted_claims_def] that]) auto
    then obtain r where "r \<in> set (claims t)" "?P r" "cl_claim_id r = ref" by blast
    then show ?thesis using kept [of r] by simp
  qed
  have "refs \<noteq> []" using refs
    by (auto simp: stringArray_def neq_Nil_conv bind_result_Inr_iff split: json.splits if_splits list.splits)
  then have facts: "\<forall>f \<in> set (facts t'). fa_basis_claim_refs f \<noteq> []
      \<and> (\<forall>ref \<in> set (fa_basis_claim_refs f). accepted_claim t' (fa_key f) ref)"
    using assms(2) mono new by (auto simp: sources_ok_def t' f)
  have same: "evidence_refs t' = evidence_refs t" "linked t' = linked t"
    by (simp_all add: t' linked_def fun_eq_iff)
  have keys: "keyed (\<lambda>r. (cl_key r, cl_claim_id r)) (claims t')"
    using k by (simp add: t' keyed_sql_update)
  have "\<forall>x \<in> set (claims t'). cl_evidence_refs x \<noteq> [] \<and> (\<forall>ref \<in> set (cl_evidence_refs x). linked t (cl_key x) ref)"
    using assms(2) by (auto simp: sources_ok_def t' set_sql_update)
  then show ?thesis using assms(2) keys facts unfolding sources_ok_def same by blast
qed

lemma apply_command_sources:
  assumes "apply_command ty c t = Inr (t', m)" and "sources_ok (cx_evidence c) t"
  shows "sources_ok (cx_evidence c) t'"
  using assms
  by (cases ty) (simp_all add: subject_sources.keeps finding_sources.keeps assumption_sources.keeps
      raise_sources.keeps resolve_sources.keeps work_sources.keeps complete_sources.keeps
      execution_sources.keeps recommend_sources.keeps gate_sources.keeps qa_sources.keeps
      review_sources.keeps human_review_sources.keeps transition_sources.keeps finalize_sources.keeps
      link_evidence_sources propose_claim_sources accept_claim_sources)

section \<open>The invariant of the store\<close>

definition provenance_ok :: "case_store \<Rightarrow> case_db \<Rightarrow> bool" where
  "provenance_ok st d \<longleftrightarrow> evidence_ok st (evidence d) \<and> sources_ok (evidence d) (core d)"

lemma provenance_okI: "evidence_ok st (evidence d) \<Longrightarrow> sources_ok (evidence d) (core d) \<Longrightarrow> provenance_ok st d"
  by (simp add: provenance_ok_def)

lemma evidence_ok_same:
  assumes "artifacts ev' = artifacts ev" and "evidence_objects ev' = evidence_objects ev"
  shows "evidence_ok st ev' = evidence_ok st ev" and "sources_ok ev' t = sources_ok ev t"
  using assms by (simp_all add: evidence_ok_def sources_ok_def registered_def)

lemma drainOutbox_evidence:
  "artifacts (evidence (fst (drainOutbox accepts locked ids t1 t2 b s days d))) = artifacts (evidence d)"
  "evidence_objects (evidence (fst (drainOutbox accepts locked ids t1 t2 b s days d))) = evidence_objects (evidence d)"
  by (simp_all add: drainOutbox_def Let_def split: prod.splits option.splits)

lemma register_provenance:
  assumes "registerEvidence st now uuid d r idem = Inr (d', x)" and "provenance_ok st d"
  shows "provenance_ok st d'"
proof -
  consider "d' = d" | content ev' created j where
      "store_evidence st now uuid (evidence d) r idem content = Inr (ev', created, j)" "evidence d' = ev'" "core d' = core d"
  proof (cases "sql_find (\<lambda>g. rg_tenant_id g = rer_tenantId r \<and> rg_idempotency_key g = idem)
      (registration_receipts (evidence d))")
    case None
    then obtain content ev' created j where
      "store_evidence st now uuid (evidence d) r idem content = Inr (ev', created, j)" "d' = d\<lparr>evidence := ev'\<rparr>"
      using assms(1) by (auto simp: registerEvidence_def bind_result_Inr_iff)
    then show thesis by (intro that(2)) simp_all
  next
    case (Some g)
    then have "d' = d" using assms(1) by (auto simp: registerEvidence_def bind_result_Inr_iff)
    then show thesis by (rule that(1))
  qed
  then show ?thesis
  proof cases
    case 1
    then show ?thesis using assms(2) by simp
  next
    case 2
    have ok: "evidence_ok st (evidence d)" "sources_ok (evidence d) (core d)"
      using assms(2) by (simp_all add: provenance_ok_def)
    obtain e where e: "evidence_ok st ev'" "evidence_objects ev' = evidence_objects (evidence d) @ [e]"
      using store_evidence_ok [OF 2(1) ok(1)] by blast
    have "sources_ok ev' (core d)" using ok(2) by (rule sources_ok_grown) (auto simp: e(2))
    then show ?thesis using e(1) 2(2,3) by (simp add: provenance_ok_def)
  qed
qed

lemma create_provenance:
  assumes "createKycCase st now uuid d q idem = Inr (d', created, row, ev)" and "provenance_ok st d"
  shows "provenance_ok st d'"
  using assms(1)
proof (cases rule: createKycCase_cases)
  case (create eventId digest rp)
  then show ?thesis using assms(2) by (simp add: provenance_ok_def)
qed (use assms(2) in simp)

lemma submit_provenance:
  assumes "accepted st t1 t2 uuid d cmd r d' a" and "provenance_ok st d"
  shows "provenance_ok st d'"
proof -
  obtain cc where cc: "apply_command (cmd_commandType cmd) cc (core d) = Inr (ac_core a, ac_mutation a)"
    "cx_evidence cc = evidence d"
    using assms(1) unfolding accepted_def by (blast elim: applyMutation_command)
  have "sources_ok (evidence d) (ac_core a)"
    using apply_command_sources [OF cc(1)] assms(2) by (simp add: cc(2) provenance_ok_def)
  moreover have "core d' = ac_core a" "evidence d' = (evidence d)\<lparr>lineage_edges := ac_edges a\<rparr>"
    using assms(1) by (simp_all add: accepted_def)
  ultimately show ?thesis
    using assms(2) evidence_ok_same [of "evidence d'" "evidence d"] by (simp add: provenance_ok_def)
qed

lemma provenance_step: "provenance_ok st d \<Longrightarrow> provenance_ok st (case_step st d c)"
proof (cases "call_op c")
  case (OpSubmit cmd)
  assume "provenance_ok st d"
  from OpSubmit show ?thesis
    by (cases rule: case_step_submit [of _ _ st d]) (use \<open>provenance_ok st d\<close> submit_provenance in auto)
next
  case (OpDrain a l i b t y)
  assume "provenance_ok st d"
  then show ?thesis using OpDrain evidence_ok_same [OF drainOutbox_evidence]
    by (simp add: case_step_def provenance_ok_def drainOutbox_frame)
qed (auto simp: case_step_def split: sum.splits prod.splits intro: create_provenance register_provenance)

interpretation case_provenance: stepped "case_step st" "provenance_ok st" for st
  by unfold_locales (rule provenance_step)

lemma empty_provenance: "provenance_ok st empty_case_db"
  by (simp add: provenance_ok_def evidence_ok_def sources_ok_def keyed_def empty_case_db_def)

end
