(* ===== verification/JsonText.thy ===== *)
theory JsonText
  imports Json
begin

text \<open>
  The text \<open>JSON.stringify\<close> prints determines the value it prints: \<open>json_text\<close> is injective
  once \<open>undefined\<close> is read as what it prints as. With it two values have the same
  \<open>canonicalJson\<close> exactly when their canonical forms agree, so a digest without collisions
  identifies canonical values.
\<close>

section \<open>Numbers\<close>

lemma digits_value_append: "digits_value a (s @ [c]) = digits_value a s * 10 + (of_char c - 48)"
  by (induction s arbitrary: a) auto

lemma digits_value_nat_text: "digits_value 0 (nat_text n) = n"
proof (induction n rule: nat_text.induct)
  case (1 n)
  show ?case
  proof (cases "n < 10")
    case True
    then show ?thesis by (subst nat_text.simps) simp
  next
    case False
    then have "nat_text n = nat_text (n div 10) @ [char_of (48 + n mod 10)]"
      by (subst nat_text.simps) simp
    then show ?thesis using 1 False by (simp add: digits_value_append)
  qed
qed

lemma nat_text_inj [simp]: "nat_text m = nat_text n \<longleftrightarrow> m = n"
  by (metis digits_value_nat_text)

lemma nat_text_digits: "c \<in> set (nat_text n) \<Longrightarrow> is_digit c"
proof (induction n rule: nat_text.induct)
  case (1 n)
  show ?case
  proof (cases "n < 10")
    case True
    then have "nat_text n = [char_of (48 + n)]" by (subst nat_text.simps) simp
    then show ?thesis using 1(2) True by (simp add: is_digit_def)
  next
    case False
    then have "nat_text n = nat_text (n div 10) @ [char_of (48 + n mod 10)]"
      by (subst nat_text.simps) simp
    then show ?thesis using 1 False by (auto simp: is_digit_def)
  qed
qed

lemma hd_nat_text: "is_digit (hd (nat_text n))"
  by (rule nat_text_digits [of _ n]) simp

definition num_char :: "char \<Rightarrow> bool" where
  "num_char c \<longleftrightarrow> is_digit c \<or> c = CHR ''-'' \<or> c = CHR ''.''"

lemma zero_digit [simp]: "is_digit (CHR ''0'')"
  by (simp add: is_digit_def)

lemma no_digit [simp]: "\<not> is_digit (CHR ''-'')" "\<not> is_digit (CHR ''.'')"
  by (simp_all add: is_digit_def)

definition digits_of :: "int \<Rightarrow> nat \<Rightarrow> string" where
  \<comment> \<open>the digits of the absolute value, with leading zeros so that one is left of the point\<close>
  "digits_of m s = replicate (Suc s - length (nat_text (nat \<bar>m\<bar>))) (CHR ''0'') @ nat_text (nat \<bar>m\<bar>)"

lemma digits_value_zeros: "digits_value 0 (replicate k (CHR ''0'') @ s) = digits_value 0 s"
  by (induction k) auto

lemma digits_of_value: "digits_value 0 (digits_of m s) = nat \<bar>m\<bar>"
  by (simp add: digits_of_def digits_value_zeros digits_value_nat_text)

lemma digits_of_chars: "c \<in> set (digits_of m s) \<Longrightarrow> is_digit c"
  by (auto simp: digits_of_def nat_text_digits)

lemma length_digits_of: "s < length (digits_of m s)"
  by (simp add: digits_of_def)

lemma num_text_point:
  assumes "s \<noteq> 0"
  shows "num_text m s = (if m < 0 then ''-'' else '''') @ take (length (digits_of m s) - s) (digits_of m s)
    @ ''.'' @ drop (length (digits_of m s) - s) (digits_of m s)"
  using assms by (simp add: num_text_def digits_of_def Let_def)

lemma num_text_whole: "num_text m 0 = (if m < 0 then ''-'' else '''') @ nat_text (nat \<bar>m\<bar>)"
  by (auto simp: num_text_def int_text_def)

lemma num_text_chars: "c \<in> set (num_text m s) \<Longrightarrow> num_char c"
  by (cases "s = 0")
    (auto simp: num_text_whole num_text_point num_char_def dest!: in_set_takeD in_set_dropD
      intro: nat_text_digits digits_of_chars split: if_splits)

lemma hd_num_text: "num_text m s \<noteq> [] \<and> (is_digit (hd (num_text m s)) \<or> hd (num_text m s) = CHR ''-'')"
proof (cases "s = 0")
  case True
  then show ?thesis using hd_nat_text by (auto simp: num_text_whole)
next
  case False
  have t: "take (length (digits_of m s) - s) (digits_of m s) \<noteq> []"
    using length_digits_of [of s m] by (cases "digits_of m s") auto
  then have "hd (take (length (digits_of m s) - s) (digits_of m s)) \<in> set (digits_of m s)"
    by (meson hd_in_set in_set_takeD)
  then have "is_digit (hd (take (length (digits_of m s) - s) (digits_of m s)))" by (rule digits_of_chars)
  moreover obtain a l where "take (length (digits_of m s) - s) (digits_of m s) = a # l"
    using t by (cases "take (length (digits_of m s) - s) (digits_of m s)") auto
  ultimately show ?thesis by (simp only: num_text_point [OF False]) simp
qed

lemma split_sign:
  assumes "(if a then ''-'' else '''') @ x = (if b then ''-'' else '''') @ y"
    and "x \<noteq> []" and "y \<noteq> []" and "is_digit (hd x)" and "is_digit (hd y)"
  shows "a = b \<and> x = y"
  using assms by (cases x; cases y) (auto split: if_splits)

lemma split_point:
  assumes "a @ CHR ''.'' # b = c @ CHR ''.'' # e" and "\<And>x. x \<in> set a \<Longrightarrow> is_digit x"
    and "\<And>x. x \<in> set c \<Longrightarrow> is_digit x"
  shows "a = c \<and> b = e"
proof -
  have "takeWhile is_digit (a @ CHR ''.'' # b) = a" "takeWhile is_digit (c @ CHR ''.'' # e) = c"
    using assms(2,3) by (simp_all add: takeWhile_append2)
  then have "a = c" using assms(1) by simp
  then show ?thesis using assms(1) by simp
qed

lemma num_text_inj:
  assumes "num_text m s = num_text m' s'"
  shows "m = m' \<and> s = s'"
proof (cases "s = 0"; cases "s' = 0")
  assume s: "s = 0" "s' = 0"
  have "(m < 0) = (m' < 0) \<and> nat_text (nat \<bar>m\<bar>) = nat_text (nat \<bar>m'\<bar>)"
    using assms s hd_nat_text by (intro split_sign) (simp_all add: num_text_whole)
  then show ?thesis using s by auto
next
  assume s: "s \<noteq> 0" "s' \<noteq> 0"
  let ?a = "\<lambda>m s. take (length (digits_of m s) - s) (digits_of m s)"
  let ?b = "\<lambda>m s. drop (length (digits_of m s) - s) (digits_of m s)"
  have ne: "?a m s \<noteq> []" for m s using length_digits_of [of s m] by (cases "digits_of m s") auto
  have hda: "is_digit (hd (?a m s))" for m s
    using ne [of m s] digits_of_chars by (meson hd_in_set in_set_takeD)
  then have hd: "is_digit (hd (?a m s @ CHR ''.'' # x))" for m s x using ne by (simp add: hd_append)
  have eq: "(m < 0) = (m' < 0) \<and> ?a m s @ CHR ''.'' # ?b m s = ?a m' s' @ CHR ''.'' # ?b m' s'"
    using assms s hd by (intro split_sign) (simp_all add: num_text_point)
  then have ab: "?a m s = ?a m' s' \<and> ?b m s = ?b m' s'"
    using digits_of_chars by (intro split_point) (auto dest: in_set_takeD)
  have "length (?b m s) = s" for m s using length_digits_of [of s m] by simp
  then have "s = s'" using ab by metis
  moreover have "digits_of m s = digits_of m' s'" using ab by (metis append_take_drop_id)
  then have "nat \<bar>m\<bar> = nat \<bar>m'\<bar>" by (metis digits_of_value)
  ultimately show ?thesis using eq by auto
next
  assume s: "s = 0" "s' \<noteq> 0"
  then have "CHR ''.'' \<in> set (num_text m' s')" by (simp add: num_text_point)
  then have "CHR ''.'' \<in> set (num_text m s)" using assms by simp
  then show ?thesis using s nat_text_digits [of "CHR ''.''"] by (auto simp: num_text_whole split: if_splits)
next
  assume s: "s \<noteq> 0" "s' = 0"
  then have "CHR ''.'' \<in> set (num_text m s)" by (simp add: num_text_point)
  then have "CHR ''.'' \<in> set (num_text m' s')" using assms by simp
  then show ?thesis using s nat_text_digits [of "CHR ''.''"] by (auto simp: num_text_whole split: if_splits)
qed

section \<open>Strings\<close>

definition hex_value :: "char \<Rightarrow> nat" where
  "hex_value c = (if is_digit c then of_char c - 48 else of_char c - 87)"

lemma hex_value_digit: "d < 16 \<Longrightarrow> hex_value (hex_digit d) = d"
  by (auto simp: hex_value_def hex_digit_def is_digit_def)

definition unescape :: "string \<Rightarrow> char \<times> string" where
  \<comment> \<open>the first character an escaped text stands for, and the rest\<close>
  "unescape t = (case t of
       [] \<Rightarrow> (CHR ''?'', [])
     | c # x \<Rightarrow> if c \<noteq> CHR 92 then (c, x)
         else (case x of
             [] \<Rightarrow> (CHR ''?'', [])
           | k # y \<Rightarrow> if k = CHR ''u'' then (char_of (16 * hex_value (y ! 2) + hex_value (y ! 3)), drop 4 y)
               else ((if k = CHR ''b'' then CHR 8 else if k = CHR ''f'' then CHR 12
                     else if k = CHR ''n'' then CHR 10 else if k = CHR ''r'' then CHR 13
                     else if k = CHR ''t'' then CHR 9 else k), y)))"

lemma of_char_eq_iff: "c = char_of n \<longleftrightarrow> of_char c = n" if "n < 256" for n :: nat
  using that by (metis of_char_of char_of_char mod_less)

lemma unescape_hex:
  "unescape (CHR 92 # CHR ''u'' # a # b # h # l # x) = (char_of (16 * hex_value h + hex_value l), x)"
  by (simp add: unescape_def)

lemma unescape_escape: "unescape (escape_char c @ x) = (c, x)"
proof -
  let ?n = "of_char c :: nat"
  have c: "c = char_of ?n" by simp
  have special: "unescape (escape_char e @ x) = (e, x)"
    if "e \<in> {CHR 34, CHR 92, CHR 8, CHR 12, CHR 10, CHR 13, CHR 9}" for e
    using that by (auto simp: unescape_def escape_char_def Let_def)
  consider "?n \<in> {34, 92, 8, 12, 10, 13, 9}"
    | "?n < 32" "?n \<notin> {8, 12, 10, 13, 9}" | "32 \<le> ?n" "?n \<noteq> 34" "?n \<noteq> 92"
    by force
  then show ?thesis
  proof cases
    case 1
    have "char_of (34 :: nat) = CHR 34" "char_of (92 :: nat) = CHR 92" "char_of (8 :: nat) = CHR 8"
      "char_of (12 :: nat) = CHR 12" "char_of (10 :: nat) = CHR 10" "char_of (13 :: nat) = CHR 13"
      "char_of (9 :: nat) = CHR 9" by code_simp+
    then have "c \<in> {CHR 34, CHR 92, CHR 8, CHR 12, CHR 10, CHR 13, CHR 9}"
      using 1 c by (metis insert_iff empty_iff)
    then show ?thesis by (rule special)
  next
    case 2
    then have "escape_char c = [CHR 92, CHR ''u'', CHR ''0'', CHR ''0'', hex_digit (?n div 16), hex_digit (?n mod 16)]"
      by (simp add: escape_char_def Let_def)
    moreover have "hex_value (hex_digit (?n div 16)) = ?n div 16" "hex_value (hex_digit (?n mod 16)) = ?n mod 16"
      using 2 by (simp_all add: hex_value_digit)
    moreover have "char_of (16 * (?n div 16) + ?n mod 16) = c" by (simp only: mult_div_mod_eq char_of_char)
    ultimately show ?thesis by (simp only: unescape_hex append_Cons append_Nil)
  next
    case 3
    then have "c \<noteq> CHR 92" by (auto simp: of_char_eq_iff)
    then show ?thesis using 3 by (simp add: unescape_def escape_char_def Let_def)
  qed
qed

lemma escape_no_quote: "escape_char c \<noteq> [] \<and> hd (escape_char c) \<noteq> CHR 34"
  by (auto simp: escape_char_def Let_def)

lemma escaped_inj:
  assumes "concat (map escape_char s) @ CHR 34 # r = concat (map escape_char s') @ CHR 34 # r'"
  shows "s = s' \<and> r = r'"
  using assms
proof (induction s arbitrary: s')
  case Nil
  show ?case
  proof (cases s')
    case (Cons c' t)
    then show ?thesis using Nil.prems escape_no_quote [of c'] by (auto simp: hd_append dest!: arg_cong [where f = hd])
  qed (use Nil.prems in simp)
next
  case (Cons c s)
  show ?case
  proof (cases s')
    case Nil
    then show ?thesis using Cons.prems escape_no_quote [of c] by (auto simp: hd_append dest!: arg_cong [where f = hd])
  next
    case s': (Cons c' t)
    have "escape_char c @ (concat (map escape_char s) @ CHR 34 # r)
      = escape_char c' @ (concat (map escape_char t) @ CHR 34 # r')" using Cons.prems s' by simp
    then have "(c, concat (map escape_char s) @ CHR 34 # r) = (c', concat (map escape_char t) @ CHR 34 # r')"
      by (metis unescape_escape)
    then show ?thesis using Cons.IH [of t] s' by simp
  qed
qed

lemma string_text_inj: "string_text s @ r = string_text s' @ r' \<Longrightarrow> s = s' \<and> r = r'"
  using escaped_inj [of s r s' r'] by (simp add: string_text_def)

section \<open>Values\<close>

text \<open>What \<open>JSON.parse(JSON.stringify(v))\<close> gives: an undefined member is gone and an undefined
  element is null.\<close>

fun bare :: "json \<Rightarrow> json" where
  "bare JUndef = JNull"
| "bare (JArr vs) = JArr (map bare vs)"
| "bare (JObj es) = JObj (map (\<lambda>(k, v). (k, bare v)) (filter (\<lambda>(k, v). v \<noteq> JUndef) es))"
| "bare v = v"

fun plain :: "json \<Rightarrow> bool" where
  "plain JUndef \<longleftrightarrow> False"
| "plain (JArr vs) \<longleftrightarrow> list_all plain vs"
| "plain (JObj es) \<longleftrightarrow> list_all (\<lambda>(k, v). plain v) es"
| "plain v \<longleftrightarrow> True"

lemma plain_bare: "plain (bare v)"
  by (induction v rule: bare.induct) (auto simp: list_all_iff)

definition member_text :: "string \<times> json \<Rightarrow> string" where
  "member_text e = string_text (fst e) @ '':'' @ json_text (snd e)"

lemma concat_members:
  "concat (map (\<lambda>(k, v). if v = JUndef then [] else [string_text k @ '':'' @ json_text v]) es)
     = map member_text (filter (\<lambda>(k, v). v \<noteq> JUndef) es)"
  by (induction es) (auto simp: member_text_def)

lemma json_text_obj:
  "json_text (JObj es) = ''{'' @ join '','' (map member_text (filter (\<lambda>(k, v). v \<noteq> JUndef) es)) @ ''}''"
  by (simp add: concat_members)

lemma bare_defined [simp]: "bare v \<noteq> JUndef"
  using plain_bare [of v] by auto

lemma json_text_bare: "json_text (bare v) = json_text v"
proof (induction v rule: bare.induct)
  case (2 vs)
  then show ?case by (simp cong: map_cong add: comp_def)
next
  case (3 es)
  have "filter (\<lambda>(k, v). v \<noteq> JUndef) (map (\<lambda>(k, v). (k, bare v)) (filter (\<lambda>(k, v). v \<noteq> JUndef) es))
      = map (\<lambda>(k, v). (k, bare v)) (filter (\<lambda>(k, v). v \<noteq> JUndef) es)"
    by (induction es) auto
  moreover have "map member_text (map (\<lambda>(k, v). (k, bare v)) (filter (\<lambda>(k, v). v \<noteq> JUndef) es))
      = map member_text (filter (\<lambda>(k, v). v \<noteq> JUndef) es)"
    using 3 by (auto simp: member_text_def)
  ultimately show ?case by (simp only: bare.simps json_text_obj)
qed simp_all

section \<open>Separated lists\<close>

definition closes :: "string \<Rightarrow> bool" where
  \<comment> \<open>what may follow a value\<close>
  "closes r \<longleftrightarrow> r = [] \<or> hd r \<in> {CHR '','', CHR ''}'', CHR '']''}"

definition starts :: "string \<Rightarrow> bool" where
  "starts t \<longleftrightarrow> t \<noteq> [] \<and> hd t \<notin> {CHR '','', CHR ''}'', CHR '']''}"

lemma join_inj:
  fixes p :: "'x \<Rightarrow> string"
  assumes item: "\<And>x y r r'. x \<in> set xs \<Longrightarrow> y \<in> set ys \<Longrightarrow> closes r \<Longrightarrow> closes r' \<Longrightarrow>
      p x @ r = p y @ r' \<Longrightarrow> x = y \<and> r = r'"
    and st: "\<And>x. x \<in> set xs \<union> set ys \<Longrightarrow> starts (p x)" and c: "c = CHR ''}'' \<or> c = CHR '']''"
    and eq: "join '','' (map p xs) @ c # r = join '','' (map p ys) @ c # r'"
  shows "xs = ys \<and> r = r'"
  using item st eq
proof (induction xs arbitrary: ys)
  case Nil
  show ?case
  proof (cases ys)
    case (Cons y zs)
    have "starts (p y)" using Nil.prems(2) Cons by simp
    moreover have "hd (join '','' (map p ys) @ c # r') = hd (p y)"
      using \<open>starts (p y)\<close> Cons by (cases zs) (auto simp: starts_def hd_append)
    moreover have "hd (join '','' (map p ys) @ c # r') = c" using Nil.prems(3) by (metis append_Nil join.simps(1) list.sel(1) list.simps(8))
    ultimately show ?thesis using c by (auto simp: starts_def)
  qed (use Nil.prems in simp)
next
  case (Cons x xs)
  have tail: "\<exists>s. join '','' (map p (z # zs)) @ c # q = p z @ s \<and> closes s
      \<and> s = (if zs = [] then c # q else CHR '','' # join '','' (map p zs) @ c # q)" for z zs q
    using c by (cases zs) (auto simp: closes_def)
  show ?case
  proof (cases ys)
    case Nil
    have "starts (p x)" using Cons.prems(2) by simp
    obtain s where "join '','' (map p (x # xs)) @ c # r = p x @ s" using tail by blast
    then have "hd (p x) = c" using Cons.prems(3) Nil \<open>starts (p x)\<close>
      by (metis append_Nil hd_append join.simps(1) list.sel(1) list.simps(8) starts_def)
    then show ?thesis using \<open>starts (p x)\<close> c by (auto simp: starts_def)
  next
    case ys: (Cons y zs)
    obtain s s' where s: "join '','' (map p (x # xs)) @ c # r = p x @ s" "closes s"
        "s = (if xs = [] then c # r else CHR '','' # join '','' (map p xs) @ c # r)"
      and s': "join '','' (map p (y # zs)) @ c # r' = p y @ s'" "closes s'"
        "s' = (if zs = [] then c # r' else CHR '','' # join '','' (map p zs) @ c # r')"
      using tail by metis
    have "p x @ s = p y @ s'" using Cons.prems(3) s s' ys by simp
    then have xy: "x = y" "s = s'" using Cons.prems(1) [of x y s s'] s s' ys by auto
    then have "(xs = []) = (zs = [])" using s(3) s'(3) c by (auto split: if_splits)
    then have "join '','' (map p xs) @ c # r = join '','' (map p zs) @ c # r'"
      using xy(2) s(3) s'(3) by (cases "xs = []") auto
    moreover have "x' = y' \<and> q = q'" if "x' \<in> set xs" "y' \<in> set zs" "closes q" "closes q'" "p x' @ q = p y' @ q'"
      for x' y' q q' using Cons.prems(1) [of x' y' q q'] that ys by simp
    ultimately have "xs = zs \<and> r = r'" using Cons.IH [of zs] Cons.prems(2) ys by simp
    then show ?thesis using xy ys by simp
  qed
qed

section \<open>The text determines the value\<close>

definition kind :: "json \<Rightarrow> nat" where
  "kind v = (case v of JUndef \<Rightarrow> 0 | JNull \<Rightarrow> 0 | JBool b \<Rightarrow> if b then 1 else 2 | JNum _ _ \<Rightarrow> 3
     | JStr _ \<Rightarrow> 4 | JArr _ \<Rightarrow> 5 | JObj _ \<Rightarrow> 6)"

definition lead_kind :: "char \<Rightarrow> nat" where
  "lead_kind c = (if c = CHR ''n'' then 0 else if c = CHR ''t'' then 1 else if c = CHR ''f'' then 2
     else if c = CHR 34 then 4 else if c = CHR ''['' then 5 else if c = CHR ''{'' then 6 else 3)"

lemma digit_lead: "is_digit c \<or> c = CHR ''-'' \<Longrightarrow> lead_kind c = 3 \<and> c \<notin> {CHR '','', CHR ''}'', CHR '']''}"
proof -
  have "\<not> is_digit (CHR ''n'')" "\<not> is_digit (CHR ''t'')" "\<not> is_digit (CHR ''f'')" "\<not> is_digit (CHR 34)"
    "\<not> is_digit (CHR ''['')" "\<not> is_digit (CHR ''{'')" "\<not> is_digit (CHR '','')"
    "\<not> is_digit (CHR ''}'')" "\<not> is_digit (CHR '']'')" by (simp_all add: is_digit_def)
  then show "is_digit c \<or> c = CHR ''-'' \<Longrightarrow> ?thesis" by (auto simp: lead_kind_def)
qed

lemma json_text_lead: "json_text v \<noteq> [] \<and> lead_kind (hd (json_text v)) = kind v \<and> starts (json_text v)"
proof (cases v)
  case (JNum m s)
  then show ?thesis using hd_num_text [of m s] digit_lead [of "hd (num_text m s)"]
    by (simp add: kind_def starts_def)
qed (simp_all add: kind_def lead_kind_def starts_def string_text_def)

lemma starts_json_text: "starts (json_text v)"
  using json_text_lead by blast

lemma same_kind: "json_text v @ r = json_text w @ r' \<Longrightarrow> kind v = kind w"
  using json_text_lead [of v] json_text_lead [of w] by (metis hd_append2)

lemma closes_not_num: "closes r \<Longrightarrow> r = [] \<or> \<not> num_char (hd r)"
  by (auto simp: closes_def num_char_def is_digit_def)

lemma num_text_prefix:
  assumes "num_text m s @ r = num_text m' s' @ r'" and "closes r" and "closes r'"
  shows "m = m' \<and> s = s' \<and> r = r'"
proof -
  have t: "takeWhile num_char (num_text m s @ r) = num_text m s" if "closes r" for m s r
    using that closes_not_num [of r] num_text_chars by (cases r) (auto simp: takeWhile_append)
  have "num_text m s = num_text m' s'" using assms t by metis
  then show ?thesis using assms num_text_inj by auto
qed

lemma starts_member: "starts (member_text e)"
  by (simp add: starts_def member_text_def string_text_def)

lemma member_text_inj:
  assumes "member_text x @ r = member_text y @ r'"
    and "\<And>r r'. json_text (snd x) @ r = json_text (snd y) @ r' \<Longrightarrow> closes r \<Longrightarrow> closes r' \<Longrightarrow> snd x = snd y \<and> r = r'"
    and "closes r" and "closes r'"
  shows "x = y \<and> r = r'"
proof -
  have "fst x = fst y \<and> CHR '':'' # json_text (snd x) @ r = CHR '':'' # json_text (snd y) @ r'"
    using assms(1) by (intro string_text_inj) (simp add: member_text_def)
  then show ?thesis using assms(2-4) by (auto simp: prod_eq_iff)
qed

lemma plain_filter: "plain (JObj es) \<Longrightarrow> filter (\<lambda>(k, v). v \<noteq> JUndef) es = es"
  by (auto simp: filter_id_conv list_all_iff)

lemma plain_obj_text: "plain (JObj es) \<Longrightarrow> json_text (JObj es) = ''{'' @ join '','' (map member_text es) @ ''}''"
  by (simp only: json_text_obj plain_filter)

lemma json_text_prefix:
  "plain v \<Longrightarrow> plain w \<Longrightarrow> json_text v @ r = json_text w @ r' \<Longrightarrow> closes r \<Longrightarrow> closes r' \<Longrightarrow> v = w \<and> r = r'"
proof (induction v arbitrary: w r r')
  case (JArr vs)
  obtain ws where w: "w = JArr ws" using same_kind [OF JArr.prems(3)] by (cases w) (auto simp: kind_def split: if_splits)
  have "vs = ws \<and> r = r'"
  proof (rule join_inj [where p = json_text and c = "CHR '']''"])
    show "x = y \<and> q = q'" if "x \<in> set vs" "y \<in> set ws" "closes q" "closes q'" "json_text x @ q = json_text y @ q'"
      for x y q q' using JArr.IH [of x y q q'] JArr.prems(1,2) w that by (auto simp: list_all_iff)
    show "join '','' (map json_text vs) @ CHR '']'' # r = join '','' (map json_text ws) @ CHR '']'' # r'"
      using JArr.prems(3) w by simp
  qed (simp_all add: starts_json_text)
  then show ?case using w by simp
next
  case (JObj es)
  obtain fs where w: "w = JObj fs" using same_kind [OF JObj.prems(3)] by (cases w) (auto simp: kind_def split: if_splits)
  have "es = fs \<and> r = r'"
  proof (rule join_inj [where p = member_text and c = "CHR ''}''"])
    show "x = y \<and> q = q'" if xy: "x \<in> set es" "y \<in> set fs" and q: "closes q" "closes q'" "member_text x @ q = member_text y @ q'"
      for x y q q'
    proof (rule member_text_inj [OF q(3) _ q(1,2)])
      have "plain (snd x)" "plain (snd y)" using JObj.prems(1,2) w xy by (auto simp: list_all_iff)
      then show "snd x = snd y \<and> s = s'" if "json_text (snd x) @ s = json_text (snd y) @ s'" "closes s" "closes s'" for s s'
        using JObj.IH [of x "snd x" "snd y" s s'] xy that by (simp add: snds.simps)
    qed
    show "join '','' (map member_text es) @ CHR ''}'' # r = join '','' (map member_text fs) @ CHR ''}'' # r'"
      using JObj.prems(1-3) w by (simp del: json_text.simps add: plain_obj_text)
  qed (simp_all add: starts_member)
  then show ?case using w by simp
next
  case (JNum m s)
  obtain m' s' where w: "w = JNum m' s'" using same_kind [OF JNum.prems(3)] by (cases w) (auto simp: kind_def split: if_splits)
  then show ?case using num_text_prefix [of m s r m' s' r'] JNum.prems by simp
next
  case (JStr s)
  obtain s' where w: "w = JStr s'" using same_kind [OF JStr.prems(3)] by (cases w) (auto simp: kind_def split: if_splits)
  then show ?case using string_text_inj [of s r s' r'] JStr.prems by simp
next
  case (JBool b)
  obtain b' where w: "w = JBool b'" "b = b'"
    using same_kind [OF JBool.prems(3)] by (cases w) (auto simp: kind_def split: if_splits)
  then show ?case using JBool.prems by simp
next
  case JNull
  have "w = JNull" using same_kind [OF JNull.prems(3)] JNull.prems(2) by (cases w) (auto simp: kind_def split: if_splits)
  then show ?case using JNull.prems by simp
qed simp

lemma json_text_injective: "json_text v = json_text w \<longleftrightarrow> bare v = bare w"
proof
  assume "json_text v = json_text w"
  then show "bare v = bare w"
    using json_text_prefix [OF plain_bare plain_bare, of v "[]" w "[]"] by (simp add: json_text_bare closes_def)
qed (metis json_text_bare)

lemma canonicalJson_eq: "canonicalJson v = canonicalJson w \<longleftrightarrow> bare (canonicalize v) = bare (canonicalize w)"
  by (simp add: canonicalJson_def json_text_injective)

lemma stableDigest_eq:
  "inj sha \<Longrightarrow> stableDigest sha v = stableDigest sha w \<longleftrightarrow> bare (canonicalize v) = bare (canonicalize w)"
  by (simp add: stableDigest_def inj_eq canonicalJson_eq)

text \<open>Members are read off the canonical form: objects with the same form agree on every name.\<close>

definition members :: "entries \<Rightarrow> (string \<times> json) set" where
  "members es = {(k, bare (canonicalize v)) |k v. (k, v) \<in> set es \<and> v \<noteq> JUndef}"

lemma membersI: "(k, v) \<in> set es \<Longrightarrow> v \<noteq> JUndef \<Longrightarrow> (k, bare (canonicalize v)) \<in> members es"
  by (auto simp: members_def)

lemma membersE:
  assumes "(k, x) \<in> members es"
  obtains u where "(k, u) \<in> set es" "x = bare (canonicalize u)"
  using assms by (auto simp: members_def)

lemma bare_canonical_members:
  assumes "distinct (map fst es)" and "bare (canonicalize (JObj es)) = JObj gs"
  shows "set gs = members es"
proof -
  let ?f = "filter (\<lambda>(k, v). v \<noteq> JUndef) es"
  let ?s = "map (\<lambda>(k, v). (k, canonicalize v)) (sort_key fst ?f)"
  have "mset (map fst (sort_key fst ?f)) = mset (map fst ?f)" by simp
  moreover have "distinct (map fst ?f)" using assms(1) by (rule distinct_map_filter)
  ultimately have "distinct (map fst (sort_key fst ?f))" using mset_eq_imp_distinct_iff by blast
  then have "distinct (map fst ?s)" by (simp add: comp_def case_prod_unfold)
  then have "gs = map (\<lambda>(k, v). (k, bare v)) (filter (\<lambda>(k, v). v \<noteq> JUndef) (own_order ?s))"
    using assms(2) by (simp add: obj_from_entries_distinct)
  then show ?thesis by (auto simp: members_def image_iff)
qed

lemma same_member:
  assumes d: "distinct (map fst es)" "distinct (map fst fs)"
    and eq: "bare (canonicalize (JObj es)) = bare (canonicalize (JObj fs))"
    and v: "(k, v) \<in> set es" and w: "(k, w) \<in> set fs"
  shows "bare (canonicalize v) = bare (canonicalize w)"
proof -
  obtain gs where gs: "bare (canonicalize (JObj es)) = JObj gs" by simp
  then have m: "members es = members fs" using bare_canonical_members d eq by metis
  have one: "(k, u) \<in> set xs \<Longrightarrow> (k, t) \<in> set xs \<Longrightarrow> u = t" if "distinct (map fst xs)"
    for u t and xs :: entries using that by (meson eq_key_imp_eq_value)
  have eq_v: "bare (canonicalize v) = bare (canonicalize w)" if "v \<noteq> JUndef"
  proof -
    have "(k, bare (canonicalize v)) \<in> members fs" using membersI [OF v that] m by simp
    then obtain u where "(k, u) \<in> set fs" "bare (canonicalize v) = bare (canonicalize u)" by (rule membersE)
    then show ?thesis using one [OF d(2) w] by metis
  qed
  have eq_w: "bare (canonicalize v) = bare (canonicalize w)" if "w \<noteq> JUndef"
  proof -
    have "(k, bare (canonicalize w)) \<in> members es" using membersI [OF w that] m by simp
    then obtain u where "(k, u) \<in> set es" "bare (canonicalize w) = bare (canonicalize u)" by (rule membersE)
    then show ?thesis using one [OF d(1) v] by metis
  qed
  show ?thesis using eq_v eq_w by (cases "v = JUndef"; cases "w = JUndef") simp_all
qed

text \<open>The form of an object is made of the forms of its members.\<close>

lemma map_sort_key_fst:
  assumes "\<And>x. fst (h x) = fst x"
  shows "map h (sort_key fst xs) = sort_key fst (map h xs)"
proof -
  have "map h (insort_key fst x ys) = insort_key fst (h x) (map h ys)" for x ys
    by (induction ys) (auto simp: assms)
  then show ?thesis by (induction xs) auto
qed

lemma canonicalize_obj:
  "canonicalize (JObj es) = JObj (obj_from_entries (sort_key fst
     (filter (\<lambda>(k, v). v \<noteq> JUndef) (map (\<lambda>(k, v). (k, canonicalize v)) es))))"
proof -
  have "filter (\<lambda>(k, v). v \<noteq> JUndef) (map (\<lambda>(k, v). (k, canonicalize v)) es)
    = map (\<lambda>(k, v). (k, canonicalize v)) (filter (\<lambda>(k, v). v \<noteq> JUndef) es)"
    by (induction es) auto
  then show ?thesis by (simp add: map_sort_key_fst case_prod_unfold)
qed

lemma canonicalize_cong:
  "map (\<lambda>(k, v). (k, canonicalize v)) es = map (\<lambda>(k, v). (k, canonicalize v)) fs \<Longrightarrow>
     canonicalize (JObj es) = canonicalize (JObj fs)"
  by (simp only: canonicalize_obj)

end
