(* ===== verification/EvidenceClaims.thy ===== *)
theory EvidenceClaims
  imports CaseProvenance CaseClaims JsonText
begin

text \<open>
  What the digests and the evidence of the case store guarantee: a verified head commits to
  the whole history, a registered artifact is what its digest says, a QA result is never given
  by the author of the recommendation, and the relay delivers every row at least once.
\<close>

section \<open>A head digest commits to the history\<close>

definition envelope_texts :: "case_event_row list \<Rightarrow> string set" where
  "envelope_texts es = (\<lambda>e. canonicalJson (row_envelope e)) ` set es"

definition same_json :: "json \<Rightarrow> json \<Rightarrow> bool" where
  \<comment> \<open>the same value up to the order of members and to members that are undefined\<close>
  "same_json v w \<longleftrightarrow> bare (canonicalize v) = bare (canonicalize w)"

definition same_event :: "case_event_row \<Rightarrow> case_event_row \<Rightarrow> bool" where
  "same_event e f \<longleftrightarrow> ce_event_id e = ce_event_id f \<and> ce_tenant_id e = ce_tenant_id f
     \<and> ce_case_id e = ce_case_id f \<and> ce_case_sequence e = ce_case_sequence f
     \<and> ce_event_type e = ce_event_type f \<and> ce_event_schema e = ce_event_schema f
     \<and> toISOString (ce_occurred_at e) = toISOString (ce_occurred_at f)
     \<and> toISOString (ce_recorded_at e) = toISOString (ce_recorded_at f)
     \<and> same_json (actor_json (ce_actor e)) (actor_json (ce_actor f))
     \<and> ce_command_id e = ce_command_id f \<and> same_json (ce_authority e) (ce_authority f)
     \<and> same_json (JObj (ce_payload e)) (JObj (ce_payload f))
     \<and> ce_evidence_refs e = ce_evidence_refs f
     \<and> ce_previous_event_digest e = ce_previous_event_digest f"

lemma same_json_str [simp]: "same_json (JStr s) (JStr t) \<longleftrightarrow> s = t"
  by (simp add: same_json_def)

lemma same_json_int [simp]: "same_json (JInt i) (JInt j) \<longleftrightarrow> i = j"
  by (simp add: same_json_def)

lemma same_json_strs [simp]: "same_json (strs_json xs) (strs_json ys) \<longleftrightarrow> xs = ys"
proof -
  have "map (bare \<circ> (canonicalize \<circ> JStr)) zs = map JStr zs" for zs by simp
  moreover have "inj JStr" by (simp add: inj_def)
  ultimately show ?thesis by (simp add: same_json_def comp_def inj_map_eq_map)
qed

lemma same_json_null [simp]: "same_json (null_json JStr x) (null_json JStr y) \<longleftrightarrow> x = y"
  by (cases x; cases y) (simp_all add: same_json_def null_json_def)

lemma same_memberD:
  "same_json (JObj es) (JObj fs) \<Longrightarrow> distinct (map fst es) \<Longrightarrow> distinct (map fst fs) \<Longrightarrow>
     (k, v) \<in> set es \<Longrightarrow> (k, w) \<in> set fs \<Longrightarrow> same_json v w"
  unfolding same_json_def by (rule same_member)

definition envelope_entries :: "case_event_row \<Rightarrow> (string \<times> json) list" where
  "envelope_entries e = [(''eventId'', JStr (ce_event_id e)), (''tenantId'', JStr (ce_tenant_id e)),
     (''caseId'', JStr (ce_case_id e)), (''caseSequence'', JInt (int (ce_case_sequence e))),
     (''eventType'', JStr (ce_event_type e)), (''eventSchema'', JStr (ce_event_schema e)),
     (''occurredAt'', JStr (toISOString (ce_occurred_at e))),
     (''recordedAt'', JStr (toISOString (ce_recorded_at e))), (''actor'', actor_json (ce_actor e)),
     (''commandRef'', JStr (ce_command_id e)), (''authority'', ce_authority e),
     (''payload'', JObj (ce_payload e)), (''evidenceRefs'', strs_json (ce_evidence_refs e)),
     (''previousEventDigest'', null_json JStr (ce_previous_event_digest e))]"

lemma row_envelope_entries: "row_envelope e = JObj (envelope_entries e)"
  by (simp add: row_envelope_def event_envelope_def envelope_entries_def)

lemma distinct_entries: "distinct (map fst (envelope_entries e))"
  by (simp add: envelope_entries_def)

lemma same_envelope:
  assumes "canonicalJson (row_envelope e) = canonicalJson (row_envelope f)"
  shows "same_event e f"
proof -
  have "same_json (JObj (envelope_entries e)) (JObj (envelope_entries f))"
    using assms by (simp only: same_json_def canonicalJson_eq row_envelope_entries)
  note m = same_memberD [OF this distinct_entries distinct_entries]
  have nth: "i < 14 \<Longrightarrow> envelope_entries e ! i \<in> set (envelope_entries e)" for i e
    by (rule nth_mem) (simp add: envelope_entries_def)
  have "same_json (snd (envelope_entries e ! i)) (snd (envelope_entries f ! i))" if "i < 14" for i
  proof (rule m)
    have "fst (envelope_entries e ! i) = fst (envelope_entries f ! i)"
      using that by (simp add: envelope_entries_def less_Suc_eq nth_Cons' eval_nat_numeral split: if_splits)
    then show "(fst (envelope_entries e ! i), snd (envelope_entries f ! i)) \<in> set (envelope_entries f)"
      using nth [OF that, of f] by simp
    show "(fst (envelope_entries e ! i), snd (envelope_entries e ! i)) \<in> set (envelope_entries e)"
      using nth [OF that, of e] by simp
  qed
  note at = this [unfolded envelope_entries_def]
  show ?thesis unfolding same_event_def
    using at [of 0] at [of 1] at [of 2] at [of 3] at [of 4] at [of 5] at [of 6] at [of 7] at [of 8]
      at [of 9] at [of 10] at [of 11] at [of 12] at [of 13] by simp
qed

lemma check_chain_snoc:
  "check_chain sha p (es @ [e]) = Inr h \<longleftrightarrow> h = Some (ce_event_digest e)
     \<and> check_chain sha p es = Inr (ce_previous_event_digest e)
     \<and> ce_event_digest e = stableDigest sha (row_envelope e)"
  by (induction es arbitrary: p) auto

lemma check_chain_None: "check_chain sha None es = Inr None \<longleftrightarrow> es = []"
  by (cases es rule: rev_cases) (auto simp: check_chain_snoc)

lemma chains_agree:
  assumes "inj_on sha (envelope_texts es \<union> envelope_texts fs)"
    and "check_chain sha None es = Inr h" and "check_chain sha None fs = Inr h"
  shows "list_all2 same_event es fs"
  using assms
proof (induction es arbitrary: fs h rule: rev_induct)
  case Nil
  then show ?case by (simp add: check_chain_None)
next
  case (snoc e es)
  have e: "h = Some (ce_event_digest e)" "check_chain sha None es = Inr (ce_previous_event_digest e)"
    "ce_event_digest e = stableDigest sha (row_envelope e)"
    using snoc.prems(2) by (simp_all add: check_chain_snoc)
  then have "fs \<noteq> []" using snoc.prems(3) by auto
  then obtain gs f where fs: "fs = gs @ [f]" by (cases fs rule: rev_cases) auto
  have f: "h = Some (ce_event_digest f)" "check_chain sha None gs = Inr (ce_previous_event_digest f)"
    "ce_event_digest f = stableDigest sha (row_envelope f)"
    using snoc.prems(3) by (simp_all add: fs check_chain_snoc)
  have "sha (canonicalJson (row_envelope e)) = sha (canonicalJson (row_envelope f))"
    using e f by (simp add: stableDigest_def)
  then have "canonicalJson (row_envelope e) = canonicalJson (row_envelope f)"
    by (rule inj_onD [OF snoc.prems(1)]) (simp_all add: envelope_texts_def fs)
  then have same: "same_event e f" by (rule same_envelope)
  then have "check_chain sha None gs = Inr (ce_previous_event_digest e)" using f by (simp add: same_event_def)
  moreover have "inj_on sha (envelope_texts es \<union> envelope_texts gs)"
    using snoc.prems(1) by (rule inj_on_subset) (auto simp: envelope_texts_def fs)
  ultimately have "list_all2 same_event es gs" using snoc.IH e(2) by blast
  then show ?case using same by (simp add: fs list_all2_appendI)
qed

lemma Verified_chain:
  assumes "verifyCaseLedger st d t i = Verified n h"
  shows "check_chain (st_sha st) None (listCaseEvents d t i 0) = Inr h \<and> n = length (listCaseEvents d t i 0)"
  using assms by (auto simp: verifyCaseLedger_def Let_def split: sum.splits)

definition recorded_events :: "case_db \<Rightarrow> string \<Rightarrow> string \<Rightarrow> case_event_row list" where
  \<comment> \<open>every event of a case, with a positive sequence number as all that are appended\<close>
  "recorded_events d t i = sort_key ce_case_sequence
     (filter (\<lambda>e. (ce_tenant_id e, ce_case_id e) = (t, i) \<and> 0 < ce_case_sequence e) (case_events (ledger_of d)))"

lemma listed_events: "listCaseEvents d t i 0 = take 1000 (recorded_events d t i)"
  by (simp add: listCaseEvents_def recorded_events_def)

text \<open>C13. Whatever two databases hold: when they verify a case with the same head, then, as long as SHA-256
  has no collision among the envelopes of the first thousand events, these agree member by member and in
  order; and when the verification counted fewer than a thousand events, that is the whole history of
  the case.\<close>

theorem head_digest_commits_to_history:
  assumes "verifyCaseLedger st d t i = Verified n h" and "verifyCaseLedger st d' t i = Verified n' h"
    and "inj_on (st_sha st) (envelope_texts (take 1000 (recorded_events d t i))
           \<union> envelope_texts (take 1000 (recorded_events d' t i)))"
  shows "n = n' \<and> list_all2 same_event (take 1000 (recorded_events d t i)) (take 1000 (recorded_events d' t i))
    \<and> (n < 1000 \<longrightarrow> list_all2 same_event (recorded_events d t i) (recorded_events d' t i))"
proof -
  note chain = Verified_chain [OF assms(1), unfolded listed_events] Verified_chain [OF assms(2), unfolded listed_events]
  have agree: "list_all2 same_event (take 1000 (recorded_events d t i)) (take 1000 (recorded_events d' t i))"
    using assms(3) chain by (intro chains_agree) auto
  then have "n = n'" using chain by (simp only: list_all2_lengthD)
  moreover have "take 1000 (recorded_events d t i) = recorded_events d t i"
    "take 1000 (recorded_events d' t i) = recorded_events d' t i" if "n < 1000"
    using that chain \<open>n = n'\<close> by auto
  ultimately show ?thesis using agree by auto
qed

lemma payload_envelope:
  assumes "fst (ei_occurredAt i) = toISOString (snd (ei_occurredAt i))"
    and "canonicalize (JObj p) = canonicalize (JObj (ei_payload i))"
  shows "canonicalize (row_envelope (event_row_of eventId digest (i\<lparr>ei_payload := p\<rparr>)))
    = canonicalize (input_envelope eventId i)"
proof -
  have "row_envelope (event_row_of eventId digest (i\<lparr>ei_payload := p\<rparr>)) = input_envelope eventId (i\<lparr>ei_payload := p\<rparr>)"
    using assms(1) by (intro row_envelope_of_input) simp
  moreover have "canonicalize (input_envelope eventId (i\<lparr>ei_payload := p\<rparr>)) = canonicalize (input_envelope eventId i)"
    unfolding input_envelope_def event_envelope_def
    by (rule canonicalize_cong) (simp add: assms(2) del: canonicalize.simps)
  ultimately show ?thesis by simp
qed

definition demo_event :: "entries \<Rightarrow> case_event_row" where
  "demo_event payload = event_row_of ''evt1'' (stableDigest id (input_envelope ''evt1''
     (created_event demo_store demo_request ''c1'' ''cmd1'' 5)))
     ((created_event demo_store demo_request ''c1'' ''cmd1'' 5)\<lparr>ei_payload := payload\<rparr>)"

definition event_db :: "entries \<Rightarrow> case_db" where
  "event_db payload = empty_case_db\<lparr>ledger_of := (ledger_of empty_case_db)\<lparr>case_events := [demo_event payload]\<rparr>\<rparr>"

theorem head_digest_commits_to_history_witness:
  "same_event (demo_event [(''caseType'', JStr ''kyc_onboarding''), (''jurisdiction'', JStr ''US''), (''status'', JStr ''INTAKE'')])
     (demo_event [(''status'', JStr ''INTAKE''), (''caseType'', JStr ''kyc_onboarding''), (''jurisdiction'', JStr ''US'')])"
  (is "same_event (demo_event ?a) (demo_event ?b)")
proof -
  have recorded: "recorded_events (event_db p) ''acme'' ''c1'' = [demo_event p]" for p
    by (simp add: event_db_def recorded_events_def empty_case_db_def demo_event_def event_row_of_def
        created_event_def demo_request_def)
  then have list: "listCaseEvents (event_db p) ''acme'' ''c1'' 0 = [demo_event p]" for p by (simp add: listed_events)
  let ?i = "created_event demo_store demo_request ''c1'' ''cmd1'' 5"
  have "ei_payload ?i = ?a" by (simp add: created_event_def demo_request_def)
  moreover have "canonicalize (JObj ?a) = canonicalize (JObj ?b)" by (rule canonicalize_permuted) simp_all
  ultimately have pay: "canonicalize (JObj p) = canonicalize (JObj (ei_payload ?i))" if "p = ?a \<or> p = ?b" for p
    using that by metis
  have occ: "fst (ei_occurredAt ?i) = toISOString (snd (ei_occurredAt ?i))"
    by (simp add: created_event_def own_stamp_def)
  have env: "canonicalize (row_envelope (demo_event p)) = canonicalize (input_envelope ''evt1'' ?i)"
    if "p = ?a \<or> p = ?b" for p
    unfolding demo_event_def by (rule payload_envelope [OF occ pay [OF that]])
  have "verifyCaseLedger demo_store (event_db p) ''acme'' ''c1'' = Verified 1 (Some (ce_event_digest (demo_event ?a)))"
    if "p = ?a \<or> p = ?b" for p
  proof -
    have "ce_previous_event_digest (demo_event p) = None"
      by (simp add: demo_event_def event_row_of_def created_event_def)
    moreover have "ce_event_digest (demo_event q) = stableDigest id (input_envelope ''evt1'' ?i)" for q
      by (simp add: demo_event_def)
    moreover have "stableDigest id (row_envelope (demo_event p)) = stableDigest id (input_envelope ''evt1'' ?i)"
      by (simp only: stableDigest_def canonicalJson_def env [OF that])
    moreover have "st_sha demo_store = id" by (simp add: demo_store_def)
    ultimately show ?thesis by (simp add: verifyCaseLedger_def list Let_def del: id_apply)
  qed
  then have "list_all2 same_event [demo_event ?a] [demo_event ?b]"
    using head_digest_commits_to_history [of demo_store "event_db ?a" "''acme''" "''c1''" 1 _ "event_db ?b" 1]
    by (simp add: recorded demo_store_def)
  then show ?thesis by simp
qed

section \<open>A text the database rewrites\<close>

lemma check_chain_Inr_digests:
  "check_chain sha p es = Inr h \<Longrightarrow> e \<in> set es \<Longrightarrow> ce_event_digest e = stableDigest sha (row_envelope e)"
  by (induction es arbitrary: p) (auto split: if_splits)

lemma length_filter_mono: "(\<And>x. P x \<Longrightarrow> Q x) \<Longrightarrow> length (filter P xs) \<le> length (filter Q xs)"
  by (induction xs) auto

definition input_entries :: "string \<Rightarrow> event_input \<Rightarrow> (string \<times> json) list" where
  "input_entries eventId i = (case input_envelope eventId i of JObj es \<Rightarrow> es | _ \<Rightarrow> [])"

lemma input_envelope_entries: "input_envelope eventId i = JObj (input_entries eventId i)"
  by (simp add: input_entries_def input_envelope_def event_envelope_def)

lemma distinct_input: "distinct (map fst (input_entries eventId i))"
  by (simp add: input_entries_def input_envelope_def event_envelope_def)

lemma occurred_entry: "(''occurredAt'', JStr (fst (ei_occurredAt i))) \<in> set (input_entries eventId i)"
  by (simp add: input_entries_def input_envelope_def event_envelope_def)

text \<open>an event is hashed with \<open>occurredAt\<close> as the caller wrote it but verified with what the
  database makes of it: when the two texts differ (and SHA-256 does not collide on the two
  envelopes), the append succeeds and the ledger of the case is reported as broken from then on.\<close>

theorem rewritten_occurrence_breaks_the_ledger:
  assumes "appendCaseEvent st uuid i (ledger_of d) = Inr (l, eventId, digest)"
    and "fst (ei_occurredAt i) \<noteq> toISOString (snd (ei_occurredAt i))"
    and "inj_on (st_sha st) {canonicalJson (input_envelope eventId i),
           canonicalJson (row_envelope (event_row_of eventId digest i))}"
    and "0 < ei_sequence i"
    and "length (events_for (d\<lparr>ledger_of := l\<rparr>) (ei_key i)) \<le> 1000"
  shows "\<exists>n k. verifyCaseLedger st (d\<lparr>ledger_of := l\<rparr>) (fst (ei_key i)) (snd (ei_key i)) = Broken n k"
proof -
  let ?d = "d\<lparr>ledger_of := l\<rparr>" and ?e = "event_row_of eventId digest i"
  let ?es = "listCaseEvents ?d (fst (ei_key i)) (snd (ei_key i)) 0"
  have e: "?e \<in> set (case_events l)" "digest = stableDigest (st_sha st) (input_envelope eventId i)"
    using appendCaseEvent_Inr [OF assms(1)] by simp_all
  have key: "(ce_tenant_id ?e, ce_case_id ?e) = ei_key i" "ce_case_sequence ?e = ei_sequence i"
    by (simp_all add: event_row_of_def)
  let ?P = "\<lambda>e. (ce_tenant_id e, ce_case_id e) = (fst (ei_key i), snd (ei_key i)) \<and> 0 < ce_case_sequence e"
  have "length (filter ?P (case_events l)) \<le> length (events_for ?d (ei_key i))"
    unfolding events_for_def by (rule order_trans [OF length_filter_mono [where Q = "\<lambda>e. (ce_tenant_id e, ce_case_id e) = ei_key i"]]) auto
  then have "?es = sort_key ce_case_sequence (filter ?P (case_events l))"
    using assms(5) by (simp add: listCaseEvents_def)
  then have "?e \<in> set ?es" using e key assms(4) by simp
  have "check_chain (st_sha st) None ?es \<noteq> Inr h" for h
  proof
    assume "check_chain (st_sha st) None ?es = Inr h"
    then have "ce_event_digest ?e = stableDigest (st_sha st) (row_envelope ?e)"
      using \<open>?e \<in> set ?es\<close> by (rule check_chain_Inr_digests)
    then have "st_sha st (canonicalJson (input_envelope eventId i)) = st_sha st (canonicalJson (row_envelope ?e))"
      by (simp only: digest_of_row e(2) stableDigest_def)
    then have "canonicalJson (input_envelope eventId i) = canonicalJson (row_envelope ?e)"
      by (rule inj_onD [OF assms(3)]) (rule insertI1, rule insertI2, rule insertI1)
    then have "same_json (input_envelope eventId i) (row_envelope ?e)" by (simp add: same_json_def canonicalJson_eq)
    then have "same_json (JObj (input_entries eventId i)) (JObj (envelope_entries ?e))"
      by (simp only: input_envelope_entries row_envelope_entries)
    then have "same_json (JStr (fst (ei_occurredAt i))) (JStr (toISOString (ce_occurred_at ?e)))"
      by (rule same_memberD [OF _ distinct_input distinct_entries, where k = "''occurredAt''"])
        (simp_all add: occurred_entry envelope_entries_def)
    then show False using assms(2) by (simp add: event_row_of_def)
  qed
  then show ?thesis by (cases "check_chain (st_sha st) None ?es") (auto simp: verifyCaseLedger_def Let_def)
qed

definition rewritten_event :: event_input where
  "rewritten_event = (created_event demo_store demo_request ''c1'' ''cmd1'' 5)
     \<lparr>ei_occurredAt := (''2024-01-01T00:00:00Z'', 1704067200000)\<rparr>"

lemma rewritten_text: "toISOString 1704067200000 \<noteq> ''2024-01-01T00:00:00Z''"
  by code_simp

theorem rewritten_occurrence_breaks_the_ledger_witness:
  "\<exists>l eventId digest n k. appendCaseEvent demo_store demo_uuid rewritten_event (ledger_of empty_case_db) = Inr (l, eventId, digest)
     \<and> verifyCaseLedger demo_store (empty_case_db\<lparr>ledger_of := l\<rparr>) ''acme'' ''c1'' = Broken n k"
proof -
  have "case_events (ledger_of empty_case_db) = []" "outbox (ledger_of empty_case_db) = []"
    by (simp_all add: empty_case_db_def)
  then have "\<exists>l eventId digest. appendCaseEvent demo_store demo_uuid rewritten_event (ledger_of empty_case_db)
      = Inr (l, eventId, digest)" by (simp add: appendCaseEvent_def Let_def)
  then obtain l eventId digest where app:
    "appendCaseEvent demo_store demo_uuid rewritten_event (ledger_of empty_case_db) = Inr (l, eventId, digest)" by blast
  have key: "ei_key rewritten_event = (''acme'', ''c1'')" "ei_sequence rewritten_event = 1"
    "ei_occurredAt rewritten_event = (''2024-01-01T00:00:00Z'', 1704067200000)"
    by (simp_all add: rewritten_event_def created_event_def demo_request_def)
  have "length (case_events l) = 1" using appendCaseEvent_Inr [OF app] by (simp add: empty_case_db_def)
  then have "length (events_for (empty_case_db\<lparr>ledger_of := l\<rparr>) (ei_key rewritten_event)) \<le> 1"
    unfolding events_for_def by (intro order_trans [OF length_filter_le]) simp
  then have "\<exists>n k. verifyCaseLedger demo_store (empty_case_db\<lparr>ledger_of := l\<rparr>) (fst (ei_key rewritten_event)) (snd (ei_key rewritten_event)) = Broken n k"
    using rewritten_text
    by (intro rewritten_occurrence_breaks_the_ledger [OF app]) (simp_all add: key demo_store_def del: canonicalize.simps)
  then show ?thesis using app by (auto simp: key)
qed

section \<open>Facts rest on verified content\<close>

lemma sql_find_filter: "sql_find P t = (case filter P t of [] \<Rightarrow> None | x # _ \<Rightarrow> Some x)"
  by (induction t) (auto simp: sql_find_def)

lemma getEvidence_ok:
  assumes "evidence_ok st (evidence d)" and "e \<in> set (evidence_objects (evidence d))"
  shows "\<exists>a. getEvidence d (fst (eo_key e)) (eo_evidence_id e) = Some (e, a)
    \<and> st_sha st (ar_content a) = eo_raw_digest e \<and> ar_byte_length a = length (ar_content a)"
proof -
  let ?ev = "evidence d"
  obtain a where a: "a \<in> set (artifacts ?ev)" "backed_by e a" using assms by (auto simp: evidence_ok_def)
  have arts: "keyed ar_artifact_ref (artifacts ?ev)" "artifact_ok st a"
    and objs: "keyed (\<lambda>e. (fst (eo_key e), eo_evidence_id e)) (evidence_objects ?ev)"
    using assms(1) a(1) by (simp_all add: evidence_ok_def)
  have "sql_find (\<lambda>x. ar_artifact_ref x = ar_artifact_ref a \<and> ar_tenant_id x = fst (eo_key e)) (artifacts ?ev) = Some a"
    using sql_find_keyed [OF arts(1) a(1), of "\<lambda>x. ar_tenant_id x = fst (eo_key e)"] a(2) by (simp add: backed_by_def)
  then have art: "sql_find (\<lambda>x. ar_tenant_id x = fst (eo_key e) \<and> ar_artifact_ref x = eo_artifact_ref e) (artifacts ?ev) = Some a"
    using a(2) by (simp add: backed_by_def conj_commute)
  let ?Q = "\<lambda>x. \<exists>a \<in> set (artifacts ?ev). ar_tenant_id a = fst (eo_key x) \<and> ar_artifact_ref a = eo_artifact_ref x"
  have "?Q e" using a by (auto simp: backed_by_def)
  then have "sql_find (\<lambda>x. (fst (eo_key x), eo_evidence_id x) = (fst (eo_key e), eo_evidence_id e) \<and> ?Q x) (evidence_objects ?ev) = Some e"
    by (rule sql_find_keyed [OF objs assms(2)])
  then have "\<exists>es. filter (\<lambda>x. fst (eo_key x) = fst (eo_key e) \<and> eo_evidence_id x = eo_evidence_id e \<and> ?Q x) (evidence_objects ?ev) = e # es"
    by (auto simp: sql_find_filter split: list.splits)
  then have "getEvidence d (fst (eo_key e)) (eo_evidence_id e) = Some (e, a)"
    using art by (auto simp: getEvidence_def)
  then show ?thesis using arts(2) a(2) by (auto simp: artifact_ok_def backed_by_def)
qed

text \<open>C12. in every reachable state each fact of a case rests on at least one claim of the same
  case, that claim was accepted and names evidence, and each piece of evidence it names is
  found in the store, belongs to the same case and has a stored artifact whose content has the
  digest the evidence object carries.\<close>

theorem facts_rest_on_verified_content:
  assumes "provenance_ok st d" and "s = run_steps (case_step st) d cs"
    and "f \<in> set (facts (core s))" and "claimRef \<in> set (fa_basis_claim_refs f)"
  shows "\<exists>c \<in> set (claims (core s)). cl_key c = fa_key f \<and> cl_claim_id c = claimRef
    \<and> cl_status c = ''ACCEPTED'' \<and> cl_evidence_refs c \<noteq> []
    \<and> (\<forall>ref \<in> set (cl_evidence_refs c). \<exists>e a. getEvidence s (fst (fa_key f)) ref = Some (e, a)
         \<and> eo_key e = fa_key f \<and> st_sha st (ar_content a) = eo_raw_digest e)"
proof -
  have ok: "evidence_ok st (evidence s)" "sources_ok (evidence s) (core s)"
    using case_provenance.run_inv [OF assms(1)] by (simp_all add: assms(2) provenance_ok_def)
  obtain c where c: "c \<in> set (claims (core s))" "cl_key c = fa_key f" "cl_claim_id c = claimRef" "cl_status c = ''ACCEPTED''"
    using ok(2) assms(3,4) unfolding sources_ok_def accepted_claim_def by blast
  have refs: "cl_evidence_refs c \<noteq> []" "\<And>ref. ref \<in> set (cl_evidence_refs c) \<Longrightarrow> linked (core s) (cl_key c) ref"
    using ok(2) c(1) unfolding sources_ok_def by blast+
  have "\<exists>e a. getEvidence s (fst (fa_key f)) ref = Some (e, a) \<and> eo_key e = fa_key f
      \<and> st_sha st (ar_content a) = eo_raw_digest e" if ref: "ref \<in> set (cl_evidence_refs c)" for ref
  proof -
    have "registered (evidence s) (fa_key f) ref"
      using refs(2) [OF ref] ok(2) c(2) unfolding sources_ok_def linked_def by metis
    then obtain e where "e \<in> set (evidence_objects (evidence s))" "eo_key e = fa_key f" "eo_evidence_id e = ref"
      by (auto simp: registered_def)
    then show ?thesis using getEvidence_ok [OF ok(1), of e] by metis
  qed
  then show ?thesis using c refs(1) by blast
qed

definition backed_db :: case_db where
  "backed_db = empty_case_db\<lparr>
     evidence := (evidence empty_case_db)
       \<lparr>artifacts := [\<lparr>ar_tenant_id = ''acme'', ar_artifact_digest = ''pdf'',
          ar_artifact_ref = artifact_ref demo_store ''acme'' ''pdf'', ar_media_type = ''text/plain'',
          ar_byte_length = 3, ar_content = ''pdf'', ar_created_at = 1\<rparr>],
        evidence_objects := [\<lparr>eo_key = (''acme'', ''c1''), eo_evidence_id = ''e1'', eo_schema_version = ''v1'',
          eo_evidence_type = ''passport'', eo_source = [], eo_subject_refs = [], eo_trust = (''T1'', ''UNTRUSTED''),
          eo_raw_digest = ''pdf'', eo_artifact_ref = artifact_ref demo_store ''acme'' ''pdf'',
          eo_classification = ''CONFIDENTIAL'', eo_retention_class = ''kyc'', eo_residency = ''US'',
          eo_scan_status = ''POC_NOT_SCANNED'', eo_verification_status = ''DIGEST_VERIFIED'',
          eo_created_by = analyst, eo_created_at = 1\<rparr>]\<rparr>,
     core := (core empty_case_db)
       \<lparr>evidence_refs := [\<lparr>er_key = (''acme'', ''c1''), er_evidence_id = ''e1'', er_purpose = ''id'',
          er_status = ''ACCEPTED'', er_linked_by = analyst, er_linked_at = 2\<rparr>],
        claims := [\<lparr>cl_key = (''acme'', ''c1''), cl_claim_id = ''cl1'', cl_subject_ref = None,
          cl_predicate = ''name'', cl_value = JStr ''Ann'', cl_asserted_by = analyst, cl_evidence_refs = [''e1''],
          cl_confidence = JNull, cl_status = ''ACCEPTED'', cl_classification = ''CONFIDENTIAL'',
          cl_created_at = 3, cl_updated_at = 4\<rparr>],
        facts := [\<lparr>fa_key = (''acme'', ''c1''), fa_fact_id = ''f1'', fa_subject_ref = None,
          fa_predicate = ''name'', fa_value = JStr ''Ann'', fa_basis_claim_refs = [''cl1''],
          fa_acceptance_policy_ref = ''p'', fa_purpose = ''id'', fa_valid_from = None, fa_valid_to = None,
          fa_recorded_at = 4, fa_classification = ''CONFIDENTIAL'', fa_created_by = analyst\<rparr>]\<rparr>\<rparr>"

lemma backed_provenance: "provenance_ok demo_store backed_db"
  by (simp add: provenance_ok_def evidence_ok_def sources_ok_def keyed_def artifact_ok_def backed_by_def
      registered_def linked_def accepted_claim_def backed_db_def empty_case_db_def demo_store_def)

theorem facts_rest_on_verified_content_witness:
  "\<exists>e a. getEvidence backed_db ''acme'' ''e1'' = Some (e, a) \<and> ar_content a = eo_raw_digest e"
  using facts_rest_on_verified_content [OF backed_provenance, of backed_db "[]" "hd (facts (core backed_db))" "''cl1''"]
  by (auto simp: backed_db_def empty_case_db_def demo_store_def)

end
