(* ===== verification/ReviewClaims.thy ===== *)
theory ReviewClaims
  imports CaseClaims
begin

text \<open>
  Who may review what, what the final disposition looks at, and what the outbox relay promises.
\<close>

section \<open>Reviews\<close>

lemma find_recommendation_key:
  "find_recommendation c t ref = sql_find (\<lambda>r. rc_key r = cx_key c \<and> rc_recommendation_id r = ref) (recommendations t)"
  by (simp add: find_recommendation_def)

lemma qa_effect:
  assumes "apply_RecordQAResult c t = Inr (t', m)"
  shows "\<exists>rec x. find_recommendation c t (rv_object_ref x) = Some rec
      \<and> actor_principalId (rc_created_by rec) \<noteq> actor_principalId (cx_actor c)
      \<and> reviews t' = reviews t @ [x] \<and> rv_key x = cx_key c \<and> rv_reviewer x = cx_actor c"
  using assms unfolding apply_RecordQAResult_def bind_result_Inr_iff
  by (elim exE conjE) (simp split: option.splits, auto simp: bind_result_Inr_iff sql_insert_Inr)

text \<open>a QA result is recorded only by somebody else than the author of the recommendation it
  is about: an accepted \<open>RecordQAResult\<close> names an existing recommendation of the case whose
  author is a different principal, and adds exactly one review, in the name of the caller.\<close>

theorem qa_needs_another_principal:
  assumes "submitBusinessCommand st t1 t2 uuid d c = Inr (d', response)"
    and "find_receipt d (command_key c) (cmd_idempotencyKey c) = None"
    and "cmd_commandType c = RecordQAResult"
  shows "\<exists>r x. r \<in> set (recommendations (core d)) \<and> rc_key r = command_key c
     \<and> actor_principalId (rc_created_by r) \<noteq> actor_principalId (cmd_actor c)
     \<and> reviews (core d') = reviews (core d) @ [x] \<and> rv_key x = command_key c
     \<and> rv_object_ref x = rc_recommendation_id r \<and> rv_reviewer x = cmd_actor c"
  using assms(1)
proof (cases rule: submit_cases)
  case (replay rp)
  then show ?thesis using assms(2) by simp
next
  case (accept r a)
  obtain cc where cc: "apply_RecordQAResult cc (core d) = Inr (ac_core a, ac_mutation a)"
    "cx_key cc = command_key c" "cx_actor cc = cmd_actor c"
    using accept(6) assms(3) unfolding accepted_def by (auto elim!: applyMutation_command)
  have core: "core d' = ac_core a" using accept(6) by (simp add: accepted_def)
  obtain rec x where rec: "find_recommendation cc (core d) (rv_object_ref x) = Some rec"
    "actor_principalId (rc_created_by rec) \<noteq> actor_principalId (cx_actor cc)"
    "reviews (ac_core a) = reviews (core d) @ [x]" "rv_key x = cx_key cc" "rv_reviewer x = cx_actor cc"
    using qa_effect [OF cc(1)] by blast
  then show ?thesis
    using sql_find_Some [OF rec(1) [unfolded find_recommendation_key]] cc(2,3)
    by (intro exI [of _ rec] exI [of _ x]) (simp add: core)
qed

text \<open>A first command on a fresh ledger is accepted when its mutation is.\<close>

lemma fresh_submit:
  assumes "find_case d (command_key c) = Some r" and "command_receipts (ledger_of d) = []"
    and "case_events (ledger_of d) = []" and "outbox (ledger_of d) = []" and "lineage_edges (evidence d) = []"
    and "cmd_caseSequence c = int (cs_case_sequence r)" and "cmd_occurredAt c = None"
    and "normalizeDigest (auth_planDigest (cmd_authority c)) = normalizeDigest (cs_harness_plan_digest r)"
    and "normalizeDigest (auth_policySnapshotDigest (cmd_authority c)) = normalizeDigest (cs_policy_snapshot_digest r)"
    and m: "applyMutation st t1 uuid c r (evidence d) (core d) = Inr (t', m)" and "mu_lineage m = []"
  shows "\<exists>d' response. submitBusinessCommand st t1 t2 uuid d c = Inr (d', response) \<and> core d' = t'
    \<and> find_receipt d (command_key c) (cmd_idempotencyKey c) = None"
proof -
  have "\<exists>d' response. accept_command st t1 t2 uuid d c r = Inr (d', response) \<and> core d' = t'"
    using assms by (simp add: accept_command_def on_zod_def occurred_stamp_def appendCaseEvent_def Let_def writeReceipt_def)
  moreover have "find_receipt d (command_key c) (cmd_idempotencyKey c) = None"
    using assms(2) by (simp add: find_receipt_def sql_find_def)
  ultimately show ?thesis using assms by (auto simp: submitBusinessCommand_def)
qed

definition author :: case_actor where
  "author = \<lparr>actor_type = AGENT, actor_principalId = ''bot'', actor_executionId = None, actor_roles = []\<rparr>"

definition proposal :: recommendation_row where
  "proposal = \<lparr>rc_key = (''acme'', ''c1''), rc_recommendation_id = ''r1'', rc_outcome = ''APPROVE'',
     rc_case_sequence = 1, rc_rationale = ''ok'', rc_finding_refs = [''f''], rc_evidence_refs = [],
     rc_policy_snapshot_digest = ''policy'', rc_status = ''PROPOSED'', rc_classification = ''CONFIDENTIAL'',
     rc_created_by = author, rc_created_at = 3\<rparr>"

definition proposed_db :: case_db where
  "proposed_db = review_db\<lparr>core := (core review_db)\<lparr>recommendations := [proposal]\<rparr>\<rparr>"

definition qa_command :: business_command where
  "qa_command = demo_command\<lparr>cmd_commandType := RecordQAResult,
     cmd_payload := [(''recommendationRef'', JStr ''r1''), (''outcome'', JStr ''PASS''), (''rationale'', JStr ''ok'')]\<rparr>"

lemmas proposed_defs = demo_defs author_def proposal_def proposed_db_def

lemma proposed_db_case:
  assumes "command_key c = (''acme'', ''c1'')"
  shows "find_case proposed_db (command_key c) = Some review_case"
    and "command_receipts (ledger_of proposed_db) = []" and "case_events (ledger_of proposed_db) = []"
    and "outbox (ledger_of proposed_db) = []" and "lineage_edges (evidence proposed_db) = []"
    and "cs_case_sequence review_case = 1" and "cs_harness_plan_digest review_case = ''plan''"
    and "cs_policy_snapshot_digest review_case = ''policy''" and "recommendations (core proposed_db) = [proposal]"
  unfolding assms by (simp_all add: proposed_defs find_case_def sql_find_def normalizeDigest_def starts_with_def)

lemma proposed_submit:
  assumes "command_key c = (''acme'', ''c1'')" and "cmd_caseSequence c = 1" and "cmd_occurredAt c = None"
    and "cmd_authority c = cmd_authority demo_command"
    and "applyMutation demo_store 7 demo_uuid c review_case (evidence proposed_db) (core proposed_db) = Inr (t', m)"
    and "mu_lineage m = []"
  obtains d' response where "submitBusinessCommand demo_store 7 8 demo_uuid proposed_db c = Inr (d', response)"
    and "core d' = t'" and "find_receipt proposed_db (command_key c) (cmd_idempotencyKey c) = None"
proof -
  note db = proposed_db_case [OF assms(1)]
  have "auth_planDigest (cmd_authority c) = ''plan''" "auth_policySnapshotDigest (cmd_authority c) = ''policy''"
    by (simp_all add: assms(4) demo_command_def)
  then show thesis
    using fresh_submit [OF db(1-5) _ assms(3) _ _ assms(5,6), of 8] db(6-8) assms(2) that by auto
qed

lemma qa_mutation:
  "\<exists>t' m. applyMutation demo_store 7 demo_uuid qa_command review_case (evidence proposed_db) (core proposed_db)
     = Inr (t', m) \<and> mu_lineage m = []"
  by (simp add: applyMutation_def qa_command_def proposed_defs apply_RecordQAResult_def cx_actor_def cx_key_def
      payload_at_def obj_get_def requiredString_def enumValue_def sql_find_def find_recommendation_def
      given_id_def optionalString_def sql_insert_def string_list_or_empty_def nullish_def stringArray_def event_only_def)

theorem qa_needs_another_principal_witness:
  "actor_principalId author \<noteq> actor_principalId (cmd_actor qa_command)"
proof -
  obtain t' m where m: "applyMutation demo_store 7 demo_uuid qa_command review_case (evidence proposed_db) (core proposed_db)
     = Inr (t', m)" "mu_lineage m = []" using qa_mutation by blast
  have k: "command_key qa_command = (''acme'', ''c1'')" by (simp add: qa_command_def demo_command_def command_key_def)
  obtain d' response where d': "submitBusinessCommand demo_store 7 8 demo_uuid proposed_db qa_command = Inr (d', response)"
    "find_receipt proposed_db (command_key qa_command) (cmd_idempotencyKey qa_command) = None"
    by (rule proposed_submit [OF k _ _ _ m]) (simp_all add: qa_command_def demo_command_def)
  have "cmd_commandType qa_command = RecordQAResult" by (simp add: qa_command_def)
  from qa_needs_another_principal [OF d' this] proposed_db_case(9) [OF k] show ?thesis by (auto simp: proposal_def)
qed

text \<open>the separation of duties is a check of one command only: the author of a
  recommendation can record a review of type \<open>SEMANTIC_QA\<close> on it with \<open>RecordReview\<close>, and the row
  is then indistinguishable from a QA result by its type and object.\<close>

theorem review_can_pose_as_qa:
  "\<exists>d' response x. submitBusinessCommand demo_store 7 8 demo_uuid proposed_db
       (demo_command\<lparr>cmd_commandType := RecordReview, cmd_actor := author,
          cmd_payload := [(''reviewType'', JStr ''SEMANTIC_QA''), (''outcome'', JStr ''PASS''),
            (''objectRef'', JStr ''r1''), (''rationale'', JStr ''ok'')]\<rparr>) = Inr (d', response)
     \<and> reviews (core d') = [x] \<and> rv_review_type x = ''SEMANTIC_QA'' \<and> rv_object_ref x = ''r1''
     \<and> actor_principalId (rv_reviewer x) = actor_principalId (rc_created_by proposal)"
proof -
  let ?c = "demo_command\<lparr>cmd_commandType := RecordReview, cmd_actor := author,
     cmd_payload := [(''reviewType'', JStr ''SEMANTIC_QA''), (''outcome'', JStr ''PASS''),
       (''objectRef'', JStr ''r1''), (''rationale'', JStr ''ok'')]\<rparr>"
  have "\<exists>t' m. applyMutation demo_store 7 demo_uuid ?c review_case (evidence proposed_db) (core proposed_db) = Inr (t', m)
     \<and> mu_lineage m = [] \<and> (\<exists>x. reviews t' = [x] \<and> rv_review_type x = ''SEMANTIC_QA'' \<and> rv_object_ref x = ''r1''
     \<and> actor_principalId (rv_reviewer x) = actor_principalId (rc_created_by proposal))"
    by (simp add: applyMutation_def proposed_defs apply_RecordReview_def cx_actor_def cx_key_def
      payload_at_def obj_get_def requiredString_def
      given_id_def optionalString_def sql_insert_def string_list_or_empty_def nullish_def stringArray_def event_only_def)
  then obtain t' m where m: "applyMutation demo_store 7 demo_uuid ?c review_case (evidence proposed_db) (core proposed_db) = Inr (t', m)"
    "mu_lineage m = []" "\<exists>x. reviews t' = [x] \<and> rv_review_type x = ''SEMANTIC_QA'' \<and> rv_object_ref x = ''r1''
     \<and> actor_principalId (rv_reviewer x) = actor_principalId (rc_created_by proposal)" by blast
  have k: "command_key ?c = (''acme'', ''c1'')" by (simp add: demo_command_def command_key_def)
  obtain d' response where "submitBusinessCommand demo_store 7 8 demo_uuid proposed_db ?c = Inr (d', response)" "core d' = t'"
    by (rule proposed_submit [OF k _ _ _ m(1,2)]) (simp_all add: demo_command_def)
  then show ?thesis using m(3) by blast
qed

section \<open>What the disposition looks at\<close>

text \<open>the final disposition does not depend on the case sequence a gate was evaluated at, on
  the policy snapshot of the gate, nor on the assumptions of the case: replacing them changes
  neither whether the command succeeds nor what it records.\<close>

theorem disposition_ignores_gate_snapshot:
  "map_sum id (\<lambda>(t', m). (dispositions t', m)) (apply_FinalizeDisposition c
       (t\<lparr>gate_results := map (\<lambda>g. g\<lparr>ga_case_sequence := n g, ga_policy_snapshot_digest := p g\<rparr>) (gate_results t),
          assumptions := as\<rparr>))
   = map_sum id (\<lambda>(t', m). (dispositions t', m)) (apply_FinalizeDisposition c t)"
proof -
  let ?t = "t\<lparr>gate_results := map (\<lambda>g. g\<lparr>ga_case_sequence := n g, ga_policy_snapshot_digest := p g\<rparr>) (gate_results t),
     assumptions := as\<rparr>"
  have "sql_find (\<lambda>g. ga_key g = k \<and> ga_gate_result_id g = i) (map (\<lambda>g. g\<lparr>ga_case_sequence := n g, ga_policy_snapshot_digest := p g\<rparr>) gs)
    = map_option (\<lambda>g. g\<lparr>ga_case_sequence := n g, ga_policy_snapshot_digest := p g\<rparr>)
        (sql_find (\<lambda>g. ga_key g = k \<and> ga_gate_result_id g = i) gs)" for k i gs
    by (induction gs) (auto simp: sql_find_def)
  then have gate: "gate_authorizes k ?t i r = gate_authorizes k t i r" for k i r
    by (simp add: gate_authorizes_def split: option.splits)
  have open_m: "open_material k ?t = open_material k t" for k by (simp add: open_material_def)
  have disp: "dispositions ?t = dispositions t" by simp
  show ?thesis unfolding apply_FinalizeDisposition_def gate open_m disp
    by (simp add: bind_result_def guard_result_def split: sum.splits)
qed

end
