(* ===== verification/OutboxClaims.thy ===== *)
theory OutboxClaims
  imports CaseClaims
begin

text \<open>
  What the outbox relay promises: a row is marked published only after the sink accepted it, a
  refused batch can be claimed again, and an accepting sink gets every row.
\<close>

section \<open>One drain of one table\<close>

definition delivered :: "time \<Rightarrow> outbox_row \<Rightarrow> outbox_row" where
  "delivered t2 r = r\<lparr>ob_published_at := Some t2, ob_publish_claim_id := None, ob_publish_claimed_at := None,
     ob_publish_attempts := ob_publish_attempts r + 1\<rparr>"

definition unpublished :: "outbox_row \<Rightarrow> bool" where
  "unpublished r \<longleftrightarrow> ob_published_at r = None"

lemma mark_claimed:
  "mark_published cid t2 ids (claim_outbox cid t1 ids rows) = sql_update (\<lambda>r. ob_outbox_id r \<in> set ids) (delivered t2) rows"
  by (induction rows) (auto simp: mark_published_def claim_outbox_def delivered_def)

lemma release_claimed:
  assumes "r \<in> set rows"
  shows "\<exists>r' \<in> set (release_claim cid (claim_outbox cid t1 ids rows)). ob_outbox_id r' = ob_outbox_id r
    \<and> ob_published_at r' = ob_published_at r \<and> ob_payload r' = ob_payload r
    \<and> outbox_record_of src r' = outbox_record_of src r
    \<and> (ob_outbox_id r \<in> set ids \<longrightarrow> ob_publish_claim_id r' = None \<and> ob_publish_claimed_at r' = None)"
  using assms
  by (induction rows) (auto simp: release_claim_def claim_outbox_def outbox_record_of_def)

lemma candidate_rows:
  "r \<in> set (outbox_candidates locked t s n rows) \<Longrightarrow> r \<in> set rows \<and> unpublished r \<and> \<not> locked (ob_outbox_id r)"
  by (auto simp: outbox_candidates_def publishable_def unpublished_def dest: in_set_takeD)

lemma sent_rows:
  "set (map (outbox_record_of src) (filter (\<lambda>r. ob_outbox_id r \<in> ids) (claim_outbox cid t1 is rows)))
    = outbox_record_of src ` {r \<in> set rows. ob_outbox_id r \<in> ids}"
  by (induction rows) (auto simp: claim_outbox_def outbox_record_of_def)

lemma drain_table_cases:
  assumes "drain_table accepts locked src cid t1 t2 n s rows = (rows', sent, ok)"
  obtains (idle) "outbox_candidates locked t1 s n rows = []" "rows' = rows" "sent = []" "ok"
  | (delivers) ids where "ids = map ob_outbox_id (outbox_candidates locked t1 s n rows)" "accepts sent" "ok"
      "set sent = outbox_record_of src ` {r \<in> set rows. ob_outbox_id r \<in> set ids}"
      "rows' = sql_update (\<lambda>r. ob_outbox_id r \<in> set ids) (delivered t2) rows"
  | (refused) ids where "\<not> ok" "rows' = release_claim cid (claim_outbox cid t1 ids rows)"
      "ids = map ob_outbox_id (outbox_candidates locked t1 s n rows)"
proof -
  let ?ids = "map ob_outbox_id (outbox_candidates locked t1 s n rows)"
  let ?claimed = "claim_outbox cid t1 ?ids rows"
  let ?sent = "map (outbox_record_of src) (filter (\<lambda>r. ob_outbox_id r \<in> set ?ids) ?claimed)"
  show thesis
  proof (cases "outbox_candidates locked t1 s n rows = []")
    case True
    have "(rows, [], True) = (rows', sent, ok)"
      using assms unfolding drain_table_def Let_def if_P [OF True] .
    then have "rows' = rows" "sent = []" "ok" by simp_all
    then show thesis by (rule idle [OF True])
  next
    case False
    have res: "(if accepts ?sent then (mark_published cid t2 ?ids ?claimed, ?sent, True)
        else (release_claim cid ?claimed, ?sent, False)) = (rows', sent, ok)"
      using assms unfolding drain_table_def Let_def if_not_P [OF False] .
    show thesis
    proof (cases "accepts ?sent")
      case True
      then have r: "mark_published cid t2 ?ids ?claimed = rows'" "?sent = sent" "ok"
        using res by (simp_all only: if_True prod.inject simp_thms)
      have "accepts sent" using True by (simp only: r(2))
      moreover have "set sent = outbox_record_of src ` {r \<in> set rows. ob_outbox_id r \<in> set ?ids}"
        by (simp only: r(2) [symmetric] sent_rows)
      ultimately show thesis using r(3) by (intro delivers [OF refl]) (simp_all only: r(1) [symmetric] mark_claimed)
    next
      case False
      then have "release_claim cid ?claimed = rows'" "\<not> ok"
        using res by (simp_all only: if_False prod.inject simp_thms)
      then show thesis by (intro refused [OF _ _ refl]) simp_all
    qed
  qed
qed

lemma delivered_record [simp]:
  "outbox_record_of src (delivered t r) = outbox_record_of src r" "ob_outbox_id (delivered t r) = ob_outbox_id r"
  "ob_payload (delivered t r) = ob_payload r" "ob_published_at (delivered t r) = Some t"
  by (simp_all add: outbox_record_of_def delivered_def)

lemma drain_table_row:
  assumes "drain_table accepts locked src cid t1 t2 n s rows = (rows', sent, ok)"
    and "r \<in> set rows" and "unpublished r"
  shows "\<exists>r' \<in> set rows'. ob_outbox_id r' = ob_outbox_id r \<and> ob_payload r' = ob_payload r
    \<and> outbox_record_of src r' = outbox_record_of src r
    \<and> (ob_published_at r' = None \<or> ob_published_at r' = Some t2 \<and> accepts sent \<and> ok \<and> outbox_record_of src r \<in> set sent)"
  using assms(1)
proof (cases rule: drain_table_cases)
  case idle
  then show ?thesis using assms(2,3) by (auto simp: unpublished_def)
next
  case (delivers ids)
  have "(if ob_outbox_id r \<in> set ids then delivered t2 r else r) \<in> set rows'"
    unfolding delivers(5) set_sql_update using assms(2) by (rule image_eqI [rotated]) simp
  then show ?thesis using assms(2,3) delivers
    by (intro bexI [of _ "if ob_outbox_id r \<in> set ids then delivered t2 r else r"]) (auto simp: unpublished_def)
next
  case (refused ids)
  then show ?thesis using release_claimed [OF assms(2), of cid t1 ids src] assms(3) by (auto simp: unpublished_def)
qed

text \<open>the relay loses nothing and marks nothing early. Whatever the sink answers, an
  unpublished row of the case outbox is still there after a drain, with its payload, and it is
  unpublished, or the sink accepted the batch that holds its record; it is never purged by the
  drain that published it.\<close>

theorem relay_marks_only_accepted_rows:
  assumes "r \<in> set (outbox (ledger_of d))" and "ob_published_at r = None"
    and "drain_table accepts locked ''case'' (fst claimIds) t1 t2 (drain_batch batch)
           (drain_claim_seconds timeout) (outbox (ledger_of d)) = (rows, records, ok)"
    and "d' = fst (drainOutbox accepts locked claimIds t1 t2 batch timeout days d)"
  shows "\<exists>r' \<in> set (outbox (ledger_of d')). ob_outbox_id r' = ob_outbox_id r \<and> ob_payload r' = ob_payload r
     \<and> (ob_published_at r' = None \<or> accepts records \<and> outbox_record_of ''case'' r \<in> set records)"
proof -
  obtain r' where r': "r' \<in> set rows" "ob_outbox_id r' = ob_outbox_id r" "ob_payload r' = ob_payload r"
    "ob_published_at r' = None \<or> ob_published_at r' = Some t2 \<and> accepts records \<and> ok \<and> outbox_record_of ''case'' r \<in> set records"
    using drain_table_row [OF assms(3,1)] assms(2) by (auto simp: unpublished_def)
  have kept: "r' \<in> set (purgePublished t2 k rows)" if "0 < k" for k
    using r'(1,4) that by (auto simp: purgePublished_def sql_delete_def)
  have "outbox (ledger_of d') = rows \<or> 0 < the days \<and> outbox (ledger_of d') = purgePublished t2 (the days) rows"
    using assms(3,4) by (auto simp: drainOutbox_def Let_def split: prod.splits option.splits if_splits)
  then show ?thesis using r' kept by metis
qed

definition fresh_row :: outbox_row where
  "fresh_row = \<lparr>ob_outbox_id = ''o1'', ob_tenant_id = ''acme'', ob_case_id = ''c1'', ob_subject_id = ''e1'',
     ob_event_type = ''case.created'', ob_classification = ''CONFIDENTIAL'', ob_payload = [],
     ob_source_digest = ''d'', ob_created_at = 1, ob_published_at = None, ob_publish_attempts = 0,
     ob_publish_claim_id = None, ob_publish_claimed_at = None\<rparr>"

definition outbox_db :: case_db where
  "outbox_db = empty_case_db\<lparr>ledger_of := (ledger_of empty_case_db)\<lparr>outbox := [fresh_row]\<rparr>\<rparr>"

theorem relay_marks_only_accepted_rows_witness:
  "\<exists>r' \<in> set (outbox (ledger_of (fst (drainOutbox (\<lambda>_. False) (\<lambda>_. False) (''a'', ''b'') 5 6 None None (Some 7) outbox_db)))).
     ob_outbox_id r' = ''o1'' \<and> ob_published_at r' = None"
proof -
  obtain rows records ok where "drain_table (\<lambda>_. False) (\<lambda>_. False) ''case'' (fst (''a'', ''b'')) 5 6 (drain_batch None)
           (drain_claim_seconds None) (outbox (ledger_of outbox_db)) = (rows, records, ok)"
    by (metis prod.exhaust)
  moreover have "fresh_row \<in> set (outbox (ledger_of outbox_db))" "ob_published_at fresh_row = None" "ob_outbox_id fresh_row = ''o1''"
    by (simp_all add: outbox_db_def fresh_row_def)
  ultimately show ?thesis
    using relay_marks_only_accepted_rows [of fresh_row outbox_db "\<lambda>_. False" "\<lambda>_. False" "(''a'', ''b'')" 5 6 None None rows records ok _ "Some 7", OF _ _ _ refl]
    by auto
qed

section \<open>An accepting sink gets everything\<close>

definition claimable_again :: "outbox_row list \<Rightarrow> bool" where
  \<comment> \<open>no unpublished row is held by another relay\<close>
  "claimable_again rows \<longleftrightarrow> (\<forall>r \<in> set rows. unpublished r \<longrightarrow> ob_publish_claimed_at r = None)"

definition drained :: "(outbox_record list \<Rightarrow> bool) \<Rightarrow> string \<Rightarrow> nat \<Rightarrow> int \<Rightarrow> string \<times> time \<times> time \<Rightarrow> outbox_row list \<Rightarrow> outbox_row list" where
  "drained accepts src n s call rows =
     (case call of (cid, t1, t2) \<Rightarrow> fst (drain_table accepts (\<lambda>_. False) src cid t1 t2 n s rows))"

lemma all_candidates:
  assumes "claimable_again rows"
  shows "outbox_candidates (\<lambda>_. False) t s n rows = take n (sort_key ob_created_at (filter unpublished rows))"
proof -
  have "filter (\<lambda>r. publishable t s r \<and> \<not> False) rows = filter unpublished rows"
    using assms by (intro filter_cong) (auto simp: claimable_again_def publishable_def unpublished_def)
  then show ?thesis by (simp only: outbox_candidates_def)
qed

lemma keyed_update_count:
  assumes "keyed k rows" and "distinct (map k cs)" and "set cs \<subseteq> set rows" and "\<And>r. r \<in> set cs \<Longrightarrow> P r"
    and "\<And>r. \<not> P (f r)"
  shows "length (filter P (sql_update (\<lambda>r. k r \<in> set (map k cs)) f rows)) + length cs = length (filter P rows)"
proof -
  let ?S = "{r \<in> set rows. P r}"
  have inj: "inj_on k (set rows)" using assms(1) by (simp add: keyed_def distinct_map)
  have in_cs: "k r \<in> set (map k cs) \<longleftrightarrow> r \<in> set cs" if "r \<in> set rows" for r
    using that assms(3) inj by (auto dest: inj_onD)
  have dist: "length (filter Q rows) = card (set (filter Q rows))" for Q
    using assms(1) by (simp add: keyed_def distinct_map distinct_card del: set_filter)
  have "filter P (sql_update (\<lambda>r. k r \<in> set (map k cs)) f rows) = filter (\<lambda>r. P r \<and> r \<notin> set cs) rows"
    using in_cs assms(5) by (induction rows) (auto simp: sql_update_def)
  then have "length (filter P (sql_update (\<lambda>r. k r \<in> set (map k cs)) f rows)) = card (?S - set cs)"
    by (simp add: dist set_diff_eq conj_assoc)
  moreover have "card (set cs) = length cs" using assms(2) by (simp add: distinct_map distinct_card)
  moreover have "card ?S = length (filter P rows)" by (simp add: dist)
  moreover have "set cs \<subseteq> ?S" using assms(3,4) by auto
  ultimately show ?thesis by (metis card_Diff_subset card_mono finite_set finite_filter le_add_diff_inverse2 set_filter)
qed

lemma drained_step:
  assumes "keyed ob_outbox_id rows" and "claimable_again rows" and "\<And>rs. accepts rs"
  shows "keyed ob_outbox_id (drained accepts src n s call rows) \<and> claimable_again (drained accepts src n s call rows)
    \<and> map ob_outbox_id (drained accepts src n s call rows) = map ob_outbox_id rows
    \<and> length (filter unpublished (drained accepts src n s call rows)) = length (filter unpublished rows) - n"
proof -
  obtain cid t1 t2 where call: "call = (cid, t1, t2)" by (cases call)
  let ?cs = "take n (sort_key ob_created_at (filter unpublished rows))"
  have cs: "outbox_candidates (\<lambda>_. False) t1 s n rows = ?cs" using assms(2) by (rule all_candidates)
  have eq: "drained accepts src n s call rows = sql_update (\<lambda>r. ob_outbox_id r \<in> set (map ob_outbox_id ?cs)) (delivered t2) rows"
  proof (cases "?cs = []")
    case True
    show ?thesis unfolding drained_def call drain_table_def prod.case cs Let_def True by (simp add: sql_update_none)
  next
    case False
    then show ?thesis using assms(3) by (simp add: drained_def call drain_table_def cs Let_def mark_claimed)
  qed
  have sub: "set ?cs \<subseteq> set rows" "\<And>r. r \<in> set ?cs \<Longrightarrow> unpublished r" by (auto dest: in_set_takeD)
  have "distinct (map ob_outbox_id (filter unpublished rows))" using assms(1) by (simp add: keyed_def distinct_map_filter)
  moreover have "mset (map ob_outbox_id (sort_key ob_created_at (filter unpublished rows))) = mset (map ob_outbox_id (filter unpublished rows))"
    by simp
  ultimately have "distinct (map ob_outbox_id (sort_key ob_created_at (filter unpublished rows)))"
    using mset_eq_imp_distinct_iff by blast
  then have "distinct (map ob_outbox_id ?cs)" by (simp add: take_map [symmetric])
  then have count: "length (filter unpublished (drained accepts src n s call rows)) + length ?cs = length (filter unpublished rows)"
    unfolding eq by (rule keyed_update_count [OF assms(1) _ sub]) (simp_all only: unpublished_def delivered_record option.distinct simp_thms)
  have ids: "map ob_outbox_id (drained accepts src n s call rows) = map ob_outbox_id rows"
    by (simp add: eq sql_update_key)
  moreover have "claimable_again (drained accepts src n s call rows)"
    using assms(2) by (auto simp: claimable_again_def eq set_sql_update unpublished_def)
  ultimately show ?thesis using assms(1) count by (simp add: keyed_def)
qed

text \<open>C14. with a sink that accepts what it is given and no competing relay, repeated drains
  publish every row: as many drains as batches fill are enough, no row disappears and none stays
  unpublished.\<close>

theorem relay_publishes_everything:
  assumes "keyed ob_outbox_id rows" and "claimable_again rows" and "\<And>rs. accepts rs"
    and "length (filter unpublished rows) \<le> length calls * drain_batch batch"
  shows "map ob_outbox_id (fold (drained accepts src (drain_batch batch) (drain_claim_seconds timeout)) calls rows) = map ob_outbox_id rows
    \<and> list_all (\<lambda>r. \<not> unpublished r) (fold (drained accepts src (drain_batch batch) (drain_claim_seconds timeout)) calls rows)"
  using assms(1,2,4)
proof (induction calls arbitrary: rows)
  case Nil
  then show ?case by (simp add: list_all_iff filter_empty_conv)
next
  case (Cons c calls)
  let ?rows = "drained accepts src (drain_batch batch) (drain_claim_seconds timeout) c rows"
  note step = drained_step [OF Cons.prems(1,2) assms(3), where src = src and n = "drain_batch batch" and s = "drain_claim_seconds timeout" and call = c]
  then have "length (filter unpublished ?rows) \<le> length calls * drain_batch batch" using Cons.prems(3) by simp
  then show ?case using Cons.IH [of ?rows] step by simp
qed

theorem relay_publishes_everything_witness:
  "list_all (\<lambda>r. \<not> unpublished r) (fold (drained (\<lambda>_. True) ''case'' (drain_batch (Some 1)) (drain_claim_seconds None))
     [(''a'', 5, 6), (''b'', 7, 8)] [fresh_row, fresh_row\<lparr>ob_outbox_id := ''o2''\<rparr>])"
  using relay_publishes_everything [of "[fresh_row, fresh_row\<lparr>ob_outbox_id := ''o2''\<rparr>]" "\<lambda>_. True"
      "[(''a'', 5, 6), (''b'', 7, 8)]" "Some 1" "''case''" None]
  by (simp add: keyed_def fresh_row_def claimable_again_def unpublished_def drain_batch_def)

end
