(* ===== verification/Identity.thy ===== *)
theory Identity
  imports Contracts
begin

text \<open>
  packages/identity: the role table and the authorization decision (authorization.ts), the
  resolvers that turn a request into a principal (principal.ts, workload.ts), the factories that
  choose one from the environment (factory.ts, platform-config.ts) and the guard of the HTTP
  services (fastify.ts). Verifying a token against the keys of the issuer is code of the jose
  package and parsing a URL is code of the platform: both are parameters of the model.
\<close>

section \<open>JavaScript values\<close>

fun truthy :: "json \<Rightarrow> bool" where
  "truthy JUndef \<longleftrightarrow> False" | "truthy JNull \<longleftrightarrow> False" | "truthy (JBool b) \<longleftrightarrow> b"
| "truthy (JNum m s) \<longleftrightarrow> m \<noteq> 0" | "truthy (JStr s) \<longleftrightarrow> s \<noteq> []"
| "truthy (JArr vs) \<longleftrightarrow> True" | "truthy (JObj es) \<longleftrightarrow> True"

definition comma_list :: "string \<Rightarrow> string list" where
  \<comment> \<open>\<open>s.split(",").map((x) => x.trim()).filter(Boolean)\<close>\<close>
  "comma_list s = filter (\<lambda>x. x \<noteq> []) (map trim (split_on (CHR '','') s))"

type_synonym env = "string \<Rightarrow> string option"

definition present :: "env \<Rightarrow> string \<Rightarrow> bool" where
  \<comment> \<open>\<open>env[name]\<close> is set and not empty\<close>
  "present env name \<longleftrightarrow> (case env name of None \<Rightarrow> False | Some v \<Rightarrow> v \<noteq> [])"

section \<open>Roles and actions\<close>

datatype platform_action =
    PlanRead | PlanAdmit | RunRead | RunStart | RunCancel | RunRetry
  | DraftRead | DraftWrite | DraftCompile | DraftEvaluate | DraftApprove | DraftPublish
  | AgentRegister | CapabilityRead | CapabilityRegister
  | CaseRead | CaseWrite | CaseReview | EvidenceRead | EvidenceWrite
  | ReceiptRead | EventRead | RuntimeStateWrite | EnvelopeMint

definition READ_ACTIONS :: "platform_action list" where
  "READ_ACTIONS = [PlanRead, RunRead, DraftRead, CapabilityRead, CaseRead, EvidenceRead, ReceiptRead, EventRead]"

definition ROLE_ACTIONS :: "(string \<times> platform_action list) list" where
  "ROLE_ACTIONS =
    [(''Harness.Reader'', READ_ACTIONS),
     (''Harness.Author'', READ_ACTIONS @ [DraftWrite, DraftCompile, DraftEvaluate, AgentRegister, CapabilityRegister]),
     (''Harness.Approver'', READ_ACTIONS @ [DraftApprove, DraftPublish]),
     (''Harness.Operator'', READ_ACTIONS @ [PlanAdmit, RunStart, RunCancel, RunRetry]),
     (''Case.Analyst'', [CaseRead, CaseWrite, EvidenceRead, EvidenceWrite, RunRead]),
     (''Case.Reviewer'', [CaseRead, CaseReview, EvidenceRead, RunRead]),
     (''Platform.Auditor'', READ_ACTIONS),
     (''Control.Api.Access'', [PlanRead, RunRead, RunStart, EventRead, ReceiptRead]),
     (''Case.Api.Access'', [CaseRead, CaseWrite, EvidenceRead, EvidenceWrite]),
     (''Capability.Invoke'', [CapabilityRead]),
     (''Runtime.State.Write'', [RuntimeStateWrite, EnvelopeMint, PlanRead, RunRead])]"

text \<open>\<open>ROLE_ACTIONS[role]\<close> also finds what every object inherits; none of it can be iterated.\<close>

definition inherited_members :: "string list" where
  "inherited_members = [''constructor'', ''__proto__'', ''hasOwnProperty'', ''isPrototypeOf'',
     ''propertyIsEnumerable'', ''toLocaleString'', ''toString'', ''valueOf'', ''__defineGetter__'',
     ''__defineSetter__'', ''__lookupGetter__'', ''__lookupSetter__'']"

fun actionsForRoles :: "string list \<Rightarrow> platform_action list result" where
  "actionsForRoles [] = Inr []"
| "actionsForRoles (role # roles) =
     guard_result (role \<notin> set inherited_members) ''TypeError: object is not iterable''
     (bind_result (actionsForRoles roles) (\<lambda>rest.
       Inr ((case map_of ROLE_ACTIONS role of None \<Rightarrow> [] | Some actions \<Rightarrow> actions) @ rest)))"

datatype platform_actor = HumanActor | WorkloadActor

datatype identity_source = SourceLocal | SourceEntra | SourceSwa

record principal =
  pr_subjectId :: string
  pr_tenantId :: string
  pr_actorType :: platform_actor
  pr_roles :: "string list"
  pr_source :: identity_source

record resource_ref =
  rs_kind :: string
  rs_id :: "string option"
  rs_tenantId :: "string option"

record decision =
  dc_allowed :: bool
  dc_reasonCode :: string
  dc_action :: platform_action
  dc_subjectId :: string
  dc_actorType :: "platform_actor option"
  dc_tenantId :: string
  dc_resourceKind :: string
  dc_resourceId :: "string option"

definition decision_base :: "principal option \<Rightarrow> platform_action \<Rightarrow> resource_ref \<Rightarrow> bool \<Rightarrow> string \<Rightarrow> decision" where
  "decision_base p action resource allowed reason = \<lparr>dc_allowed = allowed, dc_reasonCode = reason,
     dc_action = action, dc_subjectId = (case p of None \<Rightarrow> ''anonymous'' | Some q \<Rightarrow> pr_subjectId q),
     dc_actorType = map_option pr_actorType p,
     dc_tenantId = (case p of None \<Rightarrow> ''unknown'' | Some q \<Rightarrow> pr_tenantId q),
     dc_resourceKind = rs_kind resource, dc_resourceId = rs_id resource\<rparr>"

definition evaluate :: "principal option \<Rightarrow> platform_action \<Rightarrow> resource_ref \<Rightarrow> decision result" where
  "evaluate who action resource = (case who of
       None \<Rightarrow> Inr (decision_base None action resource False ''authorization.principal_unauthenticated'')
     | Some p \<Rightarrow> bind_result (actionsForRoles (pr_roles p)) (\<lambda>allowed.
         if action \<notin> set allowed
         then Inr (decision_base who action resource False ''authorization.role_missing'')
         else if (case rs_tenantId resource of None \<Rightarrow> False | Some t \<Rightarrow> t \<noteq> [] \<and> t \<noteq> pr_tenantId p)
         then Inr (decision_base who action resource False ''authorization.tenant_mismatch'')
         else Inr (decision_base who action resource True ''authorization.role_granted'')))"

text \<open>What a request fails with: an \<open>AuthorizationError\<close>, answered with its status, or any other
  exception, answered with 500.\<close>

datatype auth_failure = AuthorizationError string | OtherError code

definition authorization_status :: "string \<Rightarrow> nat" where
  "authorization_status reason = (if reason = ''authorization.principal_unauthenticated'' then 401 else 403)"

definition authorize :: "principal \<Rightarrow> platform_action \<Rightarrow> resource_ref \<Rightarrow> auth_failure + principal" where
  \<comment> \<open>\<open>authorizer.require\<close> and the return of the principal\<close>
  "authorize p action resource = (case evaluate (Some p) action resource of
       Inl e \<Rightarrow> Inl (OtherError e)
     | Inr dec \<Rightarrow> if dc_allowed dec then Inr p else Inl (AuthorizationError (dc_reasonCode dec)))"

section \<open>Requests\<close>

datatype header_value = One string | Many "string list"

type_synonym headers = "(string \<times> header_value) list"

definition first_value :: "headers \<Rightarrow> string \<Rightarrow> string option" where
  "first_value hs name = (case map_of hs name of
       None \<Rightarrow> None | Some (One v) \<Rightarrow> Some v
     | Some (Many vs) \<Rightarrow> (case vs of [] \<Rightarrow> None | v # _ \<Rightarrow> Some v))"

definition header :: "headers \<Rightarrow> string \<Rightarrow> string option" where
  "header hs name = trim_or_undefined (first_value hs name)"

section \<open>Platform mode\<close>

definition platformMode :: "env \<Rightarrow> string result" where
  "platformMode env = (let v = or_else (env ''PLATFORM_MODE'') ''local'' in
     guard_result (v = ''local'' \<or> v = ''azure'') (''platform.mode_unsupported:'' @ v) (Inr v))"

definition isAzureMode :: "env \<Rightarrow> bool result" where
  "isAzureMode env = bind_result (platformMode env) (\<lambda>m. Inr (m = ''azure''))"

fun lower_char :: "char \<Rightarrow> char" where
  "lower_char c = (let n = of_char c :: nat in if 65 \<le> n \<and> n \<le> 90 then char_of (n + 32) else c)"

fun password_key :: "bool \<Rightarrow> string \<Rightarrow> bool" where
  \<comment> \<open>\<open>/(^|[;\s])password=/i\<close>; the flag says that a match may start here\<close>
  "password_key start [] \<longleftrightarrow> False"
| "password_key start (c # cs) \<longleftrightarrow> (start \<and> starts_with (map lower_char (c # cs)) ''password='')
     \<or> password_key (c = CHR '';'' \<or> is_space c) cs"

definition connectionStringHasPassword :: "(string \<Rightarrow> string option) \<Rightarrow> string \<Rightarrow> bool" where
  \<comment> \<open>\<open>url_password\<close>: the password of a text that is a URL\<close>
  "connectionStringHasPassword url_password v = (case url_password v of
       Some password \<Rightarrow> password \<noteq> [] | None \<Rightarrow> password_key True v)"

definition local_host :: "string \<Rightarrow> bool" where
  \<comment> \<open>\<open>/@(localhost|127\.0\.0\.1|postgres)[:/]/\<close>\<close>
  "local_host v \<longleftrightarrow> (\<exists>h \<in> set [''@localhost'', ''@127.0.0.1'', ''@postgres'']. has_sub v (h @ '':'') \<or> has_sub v (h @ ''/''))"

record startup_invariants =
  su_forbidden :: "string list"
  su_required :: "string list"
  su_databaseUrls :: "string list"

definition database_failures :: "(string \<Rightarrow> string option) \<Rightarrow> env \<Rightarrow> string \<Rightarrow> string list" where
  "database_failures url_password env name = (case env name of
       None \<Rightarrow> []
     | Some v \<Rightarrow> (if v \<noteq> [] \<and> connectionStringHasPassword url_password v
                  then [''platform.azure_forbids_password_in:'' @ name] else [])
        @ (if v \<noteq> [] \<and> starts_with v ''postgresql://'' \<and> local_host v
           then [''platform.azure_forbids_local_host_in:'' @ name] else []))"

definition invariant_failures :: "(string \<Rightarrow> string option) \<Rightarrow> startup_invariants \<Rightarrow> env \<Rightarrow> string list" where
  "invariant_failures url_password su env =
     map (\<lambda>n. ''platform.azure_forbids:'' @ n) (filter (present env) (su_forbidden su))
     @ map (\<lambda>n. ''platform.azure_requires:'' @ n) (filter (\<lambda>n. \<not> present env n) (su_required su))
     @ concat (map (database_failures url_password env) (su_databaseUrls su))"

definition assertPlatformInvariants :: "(string \<Rightarrow> string option) \<Rightarrow> startup_invariants \<Rightarrow> env \<Rightarrow> unit result" where
  "assertPlatformInvariants url_password su env = bind_result (isAzureMode env) (\<lambda>azure.
     if \<not> azure then Inr ()
     else (let failures = invariant_failures url_password su env in
       guard_result (failures = []) (join ''; '' failures) (Inr ())))"

section \<open>Resolvers\<close>

record service_grant =
  sg_token :: string
  sg_subjectId :: string
  sg_roles :: "string list"
  sg_tenantId :: string

record entra_options =
  en_tenantId :: string
  en_platformTenantId :: string
  en_audience :: string
  en_issuer :: string
  en_jwksUri :: string
  en_allowedClientIds :: "string list option"

datatype resolver =
    LocalHeaderPrincipalResolver string "string list"
  | ServiceTokenPrincipalResolver "service_grant list"
  | EntraJwtPrincipalResolver entra_options
  | DelegatedPrincipalResolver resolver

text \<open>\<open>jwtVerify\<close> of a bearer token with the keys, issuer and audience of the options: the claims
  of a token that verifies.\<close>

type_synonym jwt_verifier = "entra_options \<Rightarrow> string \<Rightarrow> entries option"

definition EDGE_DELEGATE_ROLE :: string where
  "EDGE_DELEGATE_ROLE = ''Edge.Delegate''"

definition resolve_local :: "string \<Rightarrow> string list \<Rightarrow> headers \<Rightarrow> string + principal" where
  "resolve_local tenantId defaultRoles hs = (case header hs ''x-actor-id'' of
       None \<Rightarrow> Inl ''authorization.principal_unauthenticated''
     | Some subjectId \<Rightarrow>
         (let roles = (case header hs ''x-actor-roles'' of None \<Rightarrow> [] | Some r \<Rightarrow> comma_list r) in
          Inr \<lparr>pr_subjectId = subjectId, pr_tenantId = or_else (header hs ''x-tenant-id'') tenantId,
               pr_actorType = (if header hs ''x-actor-type'' = Some ''workload'' then WorkloadActor else HumanActor),
               pr_roles = (if roles = [] then defaultRoles else roles), pr_source = SourceLocal\<rparr>))"

definition constantTimeEquals :: "string \<Rightarrow> string \<Rightarrow> bool" where
  "constantTimeEquals supplied expected \<longleftrightarrow> length supplied = length expected \<and> 0 < length supplied \<and> supplied = expected"

definition resolve_service :: "service_grant list \<Rightarrow> headers \<Rightarrow> string + principal" where
  "resolve_service grants hs = (let authorization = or_else (first_value hs ''authorization'') [] in
     guard_result (starts_with authorization ''Bearer '') ''authorization.principal_unauthenticated''
     (case List.find (\<lambda>g. constantTimeEquals (drop 7 authorization) (sg_token g)) grants of
        None \<Rightarrow> Inl ''authorization.service_token_invalid''
      | Some g \<Rightarrow> Inr \<lparr>pr_subjectId = sg_subjectId g, pr_tenantId = sg_tenantId g,
           pr_actorType = WorkloadActor, pr_roles = sg_roles g, pr_source = SourceLocal\<rparr>))"

definition client_id :: "entries \<Rightarrow> string option" where
  "client_id claims = (case obj_get claims ''azp'' of JStr s \<Rightarrow> Some s
     | _ \<Rightarrow> (case obj_get claims ''appid'' of JStr s \<Rightarrow> Some s | _ \<Rightarrow> None))"

definition claim_roles :: "entries \<Rightarrow> string list" where
  "claim_roles claims = (case obj_get claims ''roles'' of
       JArr vs \<Rightarrow> concat (map (\<lambda>v. case v of JStr s \<Rightarrow> [s] | _ \<Rightarrow> []) vs) | _ \<Rightarrow> [])"

definition claim_subject :: "entries \<Rightarrow> string option" where
  "claim_subject claims = (case obj_get claims ''oid'' of JStr s \<Rightarrow> Some s
     | _ \<Rightarrow> (case obj_get claims ''sub'' of JStr s \<Rightarrow> Some s | _ \<Rightarrow> None))"

definition nonempty :: "string option \<Rightarrow> bool" where
  "nonempty v \<longleftrightarrow> (case v of None \<Rightarrow> False | Some s \<Rightarrow> s \<noteq> [])"

definition resolve_claims :: "entra_options \<Rightarrow> entries \<Rightarrow> string + principal" where
  "resolve_claims opt claims =
     guard_result (\<not> (truthy (obj_get claims ''tid'') \<and> obj_get claims ''tid'' \<noteq> JStr (en_tenantId opt)))
       ''authorization.token_foreign_tenant''
     (guard_result (case en_allowedClientIds opt of None \<Rightarrow> True
          | Some ids \<Rightarrow> ids = [] \<or> (nonempty (client_id claims) \<and> the (client_id claims) \<in> set ids))
        ''authorization.client_not_permitted''
     (let tenant = (if obj_get claims ''tid'' = JStr (en_tenantId opt) then en_platformTenantId opt else []) in
      guard_result (tenant \<noteq> []) ''authorization.tenant_unassigned''
     (guard_result (nonempty (claim_subject claims)) ''authorization.subject_missing''
     (Inr \<lparr>pr_subjectId = the (claim_subject claims), pr_tenantId = tenant,
           pr_actorType = (if obj_get claims ''idtyp'' = JStr ''app'' \<or> \<not> truthy (obj_get claims ''name'')
                           then WorkloadActor else HumanActor),
           pr_roles = claim_roles claims, pr_source = SourceEntra\<rparr>))))"

definition resolve_entra :: "jwt_verifier \<Rightarrow> entra_options \<Rightarrow> headers \<Rightarrow> string + principal" where
  "resolve_entra verify opt hs = (case header hs ''authorization'' of
       None \<Rightarrow> Inl ''authorization.principal_unauthenticated''
     | Some a \<Rightarrow>
         guard_result (starts_with a ''Bearer '') ''authorization.principal_unauthenticated''
         (case verify opt (drop 7 a) of
            None \<Rightarrow> Inl ''authorization.token_invalid''
          | Some claims \<Rightarrow> resolve_claims opt claims))"

definition delegate :: "headers \<Rightarrow> principal \<Rightarrow> string + principal" where
  \<comment> \<open>\<open>DelegatedPrincipalResolver.resolve\<close> once the edge is known\<close>
  "delegate hs edge =
     guard_result (EDGE_DELEGATE_ROLE \<in> set (pr_roles edge)) ''authorization.delegation_not_permitted''
     (case header hs ''x-actor-id'' of
        None \<Rightarrow> Inl ''authorization.delegated_actor_missing''
      | Some subjectId \<Rightarrow>
          (let roles = (case header hs ''x-actor-roles'' of None \<Rightarrow> [] | Some r \<Rightarrow> comma_list r);
               requested = header hs ''x-tenant-id'' in
           guard_result (roles \<noteq> []) ''authorization.delegated_roles_missing''
           (guard_result (requested = None \<or> requested = Some (pr_tenantId edge)) ''authorization.delegated_tenant_mismatch''
           (Inr \<lparr>pr_subjectId = subjectId, pr_tenantId = pr_tenantId edge, pr_actorType = HumanActor,
                 pr_roles = roles, pr_source = pr_source edge\<rparr>))))"

fun resolve :: "jwt_verifier \<Rightarrow> resolver \<Rightarrow> headers \<Rightarrow> string + principal" where
  "resolve verify (LocalHeaderPrincipalResolver tenantId roles) hs = resolve_local tenantId roles hs"
| "resolve verify (ServiceTokenPrincipalResolver grants) hs = resolve_service grants hs"
| "resolve verify (EntraJwtPrincipalResolver opt) hs = resolve_entra verify opt hs"
| "resolve verify (DelegatedPrincipalResolver edge) hs = bind_result (resolve verify edge hs) (delegate hs)"

definition tryResolve :: "jwt_verifier \<Rightarrow> resolver \<Rightarrow> headers \<Rightarrow> principal option" where
  "tryResolve verify r hs = (case resolve verify r hs of Inl _ \<Rightarrow> None | Inr p \<Rightarrow> Some p)"

section \<open>Choosing a resolver\<close>

definition requiredEnv :: "env \<Rightarrow> string \<Rightarrow> string result" where
  "requiredEnv env name = guard_result (present env name) (''identity.config_missing:'' @ name) (Inr (the (env name)))"

definition createServiceTokenResolver :: "service_grant list \<Rightarrow> env \<Rightarrow> resolver result" where
  "createServiceTokenResolver grants env = bind_result (isAzureMode env) (\<lambda>azure.
     guard_result (\<not> azure) ''identity.service_token_forbidden_in_azure_mode''
     (guard_result (grants \<noteq> []) ''identity.service_token_grants_missing''
     (case List.find (\<lambda>g. length (sg_token g) < 24) grants of
        Some g \<Rightarrow> Inl (''identity.service_token_too_short:'' @ sg_subjectId g)
      | None \<Rightarrow> Inr (ServiceTokenPrincipalResolver grants))))"

definition entra_from_env :: "(string \<Rightarrow> bool) \<Rightarrow> env \<Rightarrow> resolver result" where
  \<comment> \<open>\<open>url_ok\<close>: the text is a URL, or \<open>new URL\<close> throws\<close>
  "entra_from_env url_ok env =
     bind_result (requiredEnv env ''ENTRA_TENANT_ID'') (\<lambda>tenantId.
     bind_result (requiredEnv env ''PLATFORM_TENANT_ID'') (\<lambda>platformTenantId.
     bind_result (requiredEnv env ''ENTRA_API_AUDIENCE'') (\<lambda>audience.
     (let uri = or_else (env ''ENTRA_JWKS_URI'') (''https://login.microsoftonline.com/'' @ tenantId @ ''/discovery/v2.0/keys'') in
     guard_result (url_ok uri) ''ERR_INVALID_URL''
     (Inr (EntraJwtPrincipalResolver \<lparr>en_tenantId = tenantId, en_platformTenantId = platformTenantId,
        en_audience = audience,
        en_issuer = or_else (env ''ENTRA_ISSUER'') (''https://login.microsoftonline.com/'' @ tenantId @ ''/v2.0''),
        en_jwksUri = uri,
        en_allowedClientIds = (if present env ''ENTRA_ALLOWED_CLIENT_IDS''
          then Some (comma_list (the (env ''ENTRA_ALLOWED_CLIENT_IDS''))) else None)\<rparr>))))))"

definition createPrincipalResolverFromEnv :: "(string \<Rightarrow> bool) \<Rightarrow> env \<Rightarrow> resolver result" where
  "createPrincipalResolverFromEnv url_ok env =
     bind_result (case env ''IDENTITY_PROVIDER'' of Some p \<Rightarrow> Inr p
         | None \<Rightarrow> bind_result (isAzureMode env) (\<lambda>azure. Inr (if azure then ''entra'' else ''local_headers''))) (\<lambda>provider.
     if provider = ''local_headers'' then
       bind_result (isAzureMode env) (\<lambda>azure.
         guard_result (\<not> azure) ''identity.local_headers_forbidden_in_azure_mode''
         (Inr (LocalHeaderPrincipalResolver (or_else (env ''LOCAL_DEFAULT_TENANT_ID'') ''tenant_demo'')
           (comma_list (or_else (env ''LOCAL_DEFAULT_ROLES'') ''Harness.Reader'')))))
     else if provider = ''entra'' then entra_from_env url_ok env
     else Inl (''identity.provider_unsupported:'' @ provider))"

definition createWorkloadResolverFromEnv :: "(string \<Rightarrow> bool) \<Rightarrow> service_grant list \<Rightarrow> env \<Rightarrow> resolver result" where
  "createWorkloadResolverFromEnv url_ok grants env = bind_result (isAzureMode env) (\<lambda>azure.
     if \<not> azure then createServiceTokenResolver grants env
     else bind_result (createPrincipalResolverFromEnv url_ok env) (\<lambda>r.
       case r of EntraJwtPrincipalResolver opt \<Rightarrow> Inr r
         | _ \<Rightarrow> Inl ''identity.workload_resolver_requires_entra_in_azure_mode''))"

section \<open>The guard\<close>

definition guard_require :: "jwt_verifier \<Rightarrow> resolver \<Rightarrow> headers \<Rightarrow> platform_action \<Rightarrow> resource_ref \<Rightarrow> auth_failure + principal" where
  "guard_require verify r hs action resource = (case resolve verify r hs of
       Inl reason \<Rightarrow> Inl (AuthorizationError reason)
     | Inr p \<Rightarrow> authorize p action resource)"

section \<open>Facts of the decision\<close>

lemma actionsForRoles_Inr:
  "actionsForRoles roles = Inr actions \<Longrightarrow>
     a \<in> set actions \<longleftrightarrow> (\<exists>role \<in> set roles. \<exists>as. map_of ROLE_ACTIONS role = Some as \<and> a \<in> set as)"
proof (induction roles arbitrary: actions)
  case (Cons role roles)
  then show ?case by (cases "map_of ROLE_ACTIONS role") (auto simp: bind_result_Inr_iff)
qed simp

lemma authorize_Inr:
  assumes "authorize p action resource = Inr q"
  shows "q = p" and "\<exists>role \<in> set (pr_roles p). \<exists>as. map_of ROLE_ACTIONS role = Some as \<and> action \<in> set as"
    and "rs_tenantId resource = Some t \<Longrightarrow> t = [] \<or> t = pr_tenantId p"
proof -
  obtain actions where a: "actionsForRoles (pr_roles p) = Inr actions"
    using assms by (cases "actionsForRoles (pr_roles p)") (auto simp: authorize_def evaluate_def)
  have act: "action \<in> set actions"
    using assms a by (auto simp: authorize_def evaluate_def decision_base_def split: if_splits)
  show "q = p" using assms by (auto simp: authorize_def split: sum.splits if_splits)
  show "\<exists>role \<in> set (pr_roles p). \<exists>as. map_of ROLE_ACTIONS role = Some as \<and> action \<in> set as"
    using actionsForRoles_Inr [OF a] act by simp
  show "t = [] \<or> t = pr_tenantId p" if "rs_tenantId resource = Some t"
    using assms a that by (auto simp: authorize_def evaluate_def decision_base_def split: if_splits)
qed

lemma guard_require_Inr:
  assumes "guard_require verify r hs action resource = Inr p"
  shows "resolve verify r hs = Inr p" and "authorize p action resource = Inr p"
  using assms authorize_Inr(1) by (auto simp: guard_require_def split: sum.splits)

end
