(* ===== verification/AccessClaims.thy ===== *)
theory AccessClaims
  imports Identity
begin

text \<open>
  What the identity package promises its callers: which principals an Azure deployment can
  resolve, what the guard of a service grants, and what an edge may assert for its users.
\<close>

section \<open>Resolvers an Azure deployment can have\<close>

lemma azure_resolver:
  assumes azure: "isAzureMode env = Inr True"
    and r: "createWorkloadResolverFromEnv url_ok grants env = Inr r
            \<or> createPrincipalResolverFromEnv url_ok env = Inr r"
  obtains opt where "r = EntraJwtPrincipalResolver opt"
    and "env ''ENTRA_TENANT_ID'' = Some (en_tenantId opt)"
    and "env ''PLATFORM_TENANT_ID'' = Some (en_platformTenantId opt)"
    and "env ''ENTRA_API_AUDIENCE'' = Some (en_audience opt)"
proof -
  have "createPrincipalResolverFromEnv url_ok env = Inr r"
  proof (rule disjE [OF r])
    assume "createWorkloadResolverFromEnv url_ok grants env = Inr r"
    then obtain r' where "createPrincipalResolverFromEnv url_ok env = Inr r'"
      and "(case r' of EntraJwtPrincipalResolver opt \<Rightarrow> Inr r'
         | _ \<Rightarrow> Inl ''identity.workload_resolver_requires_entra_in_azure_mode'') = Inr r"
      by (auto simp: createWorkloadResolverFromEnv_def azure bind_result_Inr_iff)
    then show ?thesis by (cases r') auto
  qed
  then have e: "entra_from_env url_ok env = Inr r"
    using azure by (auto simp: createPrincipalResolverFromEnv_def bind_result_Inr_iff guard_result_Inr_iff
        split: option.splits if_splits)
  have required: "env name = Some v" if "requiredEnv env name = Inr v" for name v
    using that by (auto simp: requiredEnv_def present_def guard_result_Inr_iff split: option.splits)
  obtain t pt a opt where f: "requiredEnv env ''ENTRA_TENANT_ID'' = Inr t"
    "requiredEnv env ''PLATFORM_TENANT_ID'' = Inr pt" "requiredEnv env ''ENTRA_API_AUDIENCE'' = Inr a"
    and "r = EntraJwtPrincipalResolver opt"
    and "en_tenantId opt = t" "en_platformTenantId opt = pt" "en_audience opt = a"
    using e unfolding entra_from_env_def Let_def bind_result_Inr_iff guard_result_Inr_iff sum.inject
    by (elim exE conjE) (metis entra_options.select_convs(1-3))
  then show ?thesis using that required by blast
qed

lemma resolve_entra_Inr:
  assumes "resolve_entra verify opt hs = Inr p"
  obtains token claims where "header hs ''authorization'' = Some (''Bearer '' @ token)"
    and "verify opt token = Some claims" and "resolve_claims opt claims = Inr p"
proof -
  obtain a where a: "header hs ''authorization'' = Some a" and s: "starts_with a ''Bearer ''"
    using assms by (auto simp: resolve_entra_def guard_result_Inr_iff split: option.splits)
  obtain claims where v: "verify opt (drop 7 a) = Some claims"
    using assms a by (auto simp: resolve_entra_def guard_result_Inr_iff split: option.splits)
  have "take 7 a = ''Bearer ''" using s by (simp add: starts_with_def eval_nat_numeral)
  then have "a = ''Bearer '' @ drop 7 a" using append_take_drop_id [of 7 a] by simp
  moreover have "resolve_claims opt claims = Inr p"
    using assms a s v by (simp add: resolve_entra_def guard_result_Inr_iff)
  ultimately show ?thesis using that [of "drop 7 a" claims] a v by simp
qed

lemma resolve_claims_Inr:
  assumes "resolve_claims opt claims = Inr p"
  shows "obj_get claims ''tid'' = JStr (en_tenantId opt)" and "pr_tenantId p = en_platformTenantId opt"
    and "pr_roles p = claim_roles claims" and "claim_subject claims = Some (pr_subjectId p)"
    and "pr_source p = SourceEntra"
  using assms by (auto simp: resolve_claims_def guard_result_Inr_iff nonempty_def Let_def
      split: option.splits if_splits)

section \<open>What a guard grants\<close>

lemma actionsForRoles_defined:
  "(\<exists>actions. actionsForRoles roles = Inr actions) \<longleftrightarrow> set roles \<inter> set inherited_members = {}"
  by (induction roles) (auto simp: bind_result_Inr_iff guard_result_Inr_iff)

lemma authorize_iff:
  "authorize p action resource = Inr q \<longleftrightarrow>
     q = p \<and> set (pr_roles p) \<inter> set inherited_members = {}
     \<and> (\<exists>role \<in> set (pr_roles p). \<exists>as. map_of ROLE_ACTIONS role = Some as \<and> action \<in> set as)
     \<and> (\<forall>t. rs_tenantId resource = Some t \<longrightarrow> t = [] \<or> t = pr_tenantId p)"
proof (cases "actionsForRoles (pr_roles p)")
  case (Inl e)
  then have "set (pr_roles p) \<inter> set inherited_members \<noteq> {}"
    using actionsForRoles_defined [of "pr_roles p"] by simp
  then show ?thesis using Inl by (simp add: authorize_def evaluate_def)
next
  case (Inr actions)
  then have d: "set (pr_roles p) \<inter> set inherited_members = {}"
    using actionsForRoles_defined [of "pr_roles p"] by blast
  have m: "action \<in> set actions \<longleftrightarrow>
      (\<exists>role \<in> set (pr_roles p). \<exists>as. map_of ROLE_ACTIONS role = Some as \<and> action \<in> set as)"
    by (rule actionsForRoles_Inr [OF Inr])
  show ?thesis unfolding m [symmetric] using d Inr
    by (cases "rs_tenantId resource") (auto simp: authorize_def evaluate_def decision_base_def)
qed

lemma role_table:
  assumes "map_of ROLE_ACTIONS role = Some as"
  shows "DraftApprove \<in> set as \<Longrightarrow> role = ''Harness.Approver''"
    and "DraftPublish \<in> set as \<Longrightarrow> role = ''Harness.Approver''"
    and "DraftWrite \<in> set as \<Longrightarrow> role = ''Harness.Author''"
    and "CaseReview \<in> set as \<Longrightarrow> role = ''Case.Reviewer''"
    and "RuntimeStateWrite \<in> set as \<Longrightarrow> role = ''Runtime.State.Write''"
    and "EnvelopeMint \<in> set as \<Longrightarrow> role = ''Runtime.State.Write''"
  using assms by (auto simp: ROLE_ACTIONS_def READ_ACTIONS_def split: if_splits)

lemma granted_role:
  assumes "guard_require verify r hs action resource = Inr p"
  obtains role as where "role \<in> set (pr_roles p)" and "map_of ROLE_ACTIONS role = Some as" and "action \<in> set as"
  using guard_require_Inr(2) [OF assms] authorize_Inr(2) by metis

section \<open>Properties\<close>

text \<open>C15. In Azure mode nobody is resolved without a bearer token that verifies for the configured tenant and
  audience, and everybody acts in the platform tenant of the environment. The resolver a service builds takes
  roles and subject from that token. Wrapped for delegation, as the services behind the control surface use it,
  it believes the asserted subject and roles only of a token that has the role \<open>Edge.Delegate\<close>, and only within
  the token's tenant.\<close>

theorem azure_principals_come_from_verified_tokens:
  assumes "isAzureMode env = Inr True"
    and "createWorkloadResolverFromEnv url_ok grants env = Inr w
         \<or> createPrincipalResolverFromEnv url_ok env = Inr w"
    and "r = (if delegated then DelegatedPrincipalResolver w else w)"
    and "resolve verify r hs = Inr p"
  shows "\<exists>opt token claims. header hs ''authorization'' = Some (''Bearer '' @ token)
     \<and> verify opt token = Some claims
     \<and> env ''ENTRA_TENANT_ID'' = Some (en_tenantId opt) \<and> env ''ENTRA_API_AUDIENCE'' = Some (en_audience opt)
     \<and> obj_get claims ''tid'' = JStr (en_tenantId opt)
     \<and> env ''PLATFORM_TENANT_ID'' = Some (pr_tenantId p) \<and> pr_source p = SourceEntra
     \<and> (if delegated
        then ''Edge.Delegate'' \<in> set (claim_roles claims) \<and> pr_actorType p = HumanActor
          \<and> header hs ''x-actor-id'' = Some (pr_subjectId p)
          \<and> map_option comma_list (header hs ''x-actor-roles'') = Some (pr_roles p) \<and> pr_roles p \<noteq> []
          \<and> header hs ''x-tenant-id'' \<in> {None, Some (pr_tenantId p)}
        else pr_roles p = claim_roles claims \<and> claim_subject claims = Some (pr_subjectId p))"
proof -
  obtain opt where opt: "w = EntraJwtPrincipalResolver opt"
    "env ''ENTRA_TENANT_ID'' = Some (en_tenantId opt)" "env ''PLATFORM_TENANT_ID'' = Some (en_platformTenantId opt)"
    "env ''ENTRA_API_AUDIENCE'' = Some (en_audience opt)"
    using azure_resolver [OF assms(1,2)] .
  obtain q where q: "resolve_entra verify opt hs = Inr q" "if delegated then delegate hs q = Inr p else q = p"
    using assms(3,4) opt(1) by (auto simp: bind_result_Inr_iff split: if_splits)
  obtain token claims where token: "header hs ''authorization'' = Some (''Bearer '' @ token)"
    "verify opt token = Some claims" "resolve_claims opt claims = Inr q"
    using resolve_entra_Inr [OF q(1)] .
  have "delegated \<Longrightarrow> pr_tenantId p = pr_tenantId q \<and> pr_source p = pr_source q \<and> ''Edge.Delegate'' \<in> set (pr_roles q)
      \<and> pr_actorType p = HumanActor \<and> header hs ''x-actor-id'' = Some (pr_subjectId p)
      \<and> map_option comma_list (header hs ''x-actor-roles'') = Some (pr_roles p) \<and> pr_roles p \<noteq> []
      \<and> header hs ''x-tenant-id'' \<in> {None, Some (pr_tenantId p)}"
    using q(2) by (auto simp: delegate_def guard_result_Inr_iff EDGE_DELEGATE_ROLE_def Let_def split: option.splits)
  then show ?thesis
    using opt token(1,2) q(2) resolve_claims_Inr [OF token(3)]
    by (intro exI [where x = opt] exI [where x = token] exI [where x = claims]) (cases delegated; auto)
qed

definition azure_env :: env where
  "azure_env = [''PLATFORM_MODE'' \<mapsto> ''azure'', ''ENTRA_TENANT_ID'' \<mapsto> ''t'', ''PLATFORM_TENANT_ID'' \<mapsto> ''p'',
     ''ENTRA_API_AUDIENCE'' \<mapsto> ''a'']"

definition demo_claims :: entries where
  "demo_claims = [(''tid'', JStr ''t''), (''oid'', JStr ''o''), (''roles'', JArr [JStr ''Harness.Reader''])]"

theorem azure_principals_come_from_verified_tokens_witness:
  "\<exists>p. resolve (\<lambda>_ token. if token = ''tok'' then Some demo_claims else None)
       (projr (createPrincipalResolverFromEnv (\<lambda>_. True) azure_env))
       [(''authorization'', One ''Bearer tok''), (''x-actor-id'', One ''mallory'')] = Inr p
     \<and> pr_roles p = claim_roles demo_claims \<and> claim_subject demo_claims = Some (pr_subjectId p)
     \<and> Some ''p'' = Some (pr_tenantId p)"
proof -
  let ?v = "\<lambda>_ token. if token = ''tok'' then Some demo_claims else None"
  let ?hs = "[(''authorization'', One ''Bearer tok''), (''x-actor-id'', One ''mallory'')]"
  have h: "header ?hs ''authorization'' = Some ''Bearer tok''" by code_simp
  have a: "isAzureMode azure_env = Inr True" by code_simp
  obtain r where r: "createPrincipalResolverFromEnv (\<lambda>_. True) azure_env = Inr r"
    by (simp add: createPrincipalResolverFromEnv_def azure_env_def a [unfolded azure_env_def]
        entra_from_env_def requiredEnv_def present_def guard_result_def Let_def)
  obtain p where p: "resolve ?v r ?hs = Inr p"
  proof -
    have "isl (resolve ?v (projr (createPrincipalResolverFromEnv (\<lambda>_. True) azure_env)) ?hs) = False"
      by code_simp
    then show ?thesis using that r by (cases "resolve ?v r ?hs") auto
  qed
  show ?thesis
    using azure_principals_come_from_verified_tokens [OF a disjI2 [OF r], of _ False, unfolded if_False, OF refl p] h p
    unfolding r sum.sel by (auto simp: azure_env_def split: if_splits)
qed

text \<open>C16. A guarded request is let through exactly when it resolves to a principal one of whose
  roles has the action in the table and whose tenant is the resource's, if that states one; so
  drafts are approved and published only by a \<open>Harness.Approver\<close>, written only by a
  \<open>Harness.Author\<close>, cases reviewed only by a \<open>Case.Reviewer\<close>, and the runtime state and the
  execution envelopes reached only by the runtime's own workload role.\<close>

theorem guard_grants_by_role_and_tenant:
  "(guard_require verify r hs action resource = Inr p \<longleftrightarrow>
      resolve verify r hs = Inr p \<and> set (pr_roles p) \<inter> set inherited_members = {}
      \<and> (\<exists>role \<in> set (pr_roles p). \<exists>as. map_of ROLE_ACTIONS role = Some as \<and> action \<in> set as)
      \<and> (\<forall>t. rs_tenantId resource = Some t \<longrightarrow> t = [] \<or> t = pr_tenantId p))
   \<and> (guard_require verify r hs action resource = Inr p \<longrightarrow>
        (action \<in> {DraftApprove, DraftPublish} \<longrightarrow> ''Harness.Approver'' \<in> set (pr_roles p))
      \<and> (action = DraftWrite \<longrightarrow> ''Harness.Author'' \<in> set (pr_roles p))
      \<and> (action = CaseReview \<longrightarrow> ''Case.Reviewer'' \<in> set (pr_roles p))
      \<and> (action \<in> {RuntimeStateWrite, EnvelopeMint} \<longrightarrow> ''Runtime.State.Write'' \<in> set (pr_roles p)))"
proof -
  have 1: "guard_require verify r hs action resource = Inr p \<longleftrightarrow>
      resolve verify r hs = Inr p \<and> authorize p action resource = Inr p"
    using guard_require_Inr [of verify r hs action resource p] by (auto simp: guard_require_def)
  have 2: "(action \<in> {DraftApprove, DraftPublish} \<longrightarrow> ''Harness.Approver'' \<in> set (pr_roles p))
      \<and> (action = DraftWrite \<longrightarrow> ''Harness.Author'' \<in> set (pr_roles p))
      \<and> (action = CaseReview \<longrightarrow> ''Case.Reviewer'' \<in> set (pr_roles p))
      \<and> (action \<in> {RuntimeStateWrite, EnvelopeMint} \<longrightarrow> ''Runtime.State.Write'' \<in> set (pr_roles p))"
    if g: "guard_require verify r hs action resource = Inr p"
  proof -
    obtain role as where role: "role \<in> set (pr_roles p)" "map_of ROLE_ACTIONS role = Some as" "action \<in> set as"
      using granted_role [OF g] .
    show ?thesis
      using role(1,3) role_table [OF role(2)] by (cases action) simp_all
  qed
  show ?thesis using 2 unfolding 1 authorize_iff by blast
qed

theorem guard_grants_by_role_and_tenant_witness:
  "guard_require (\<lambda>_ _. None) (LocalHeaderPrincipalResolver ''t'' [''Harness.Reader''])
       [(''x-actor-id'', One ''a''), (''x-actor-roles'', One ''Harness.Approver'')] DraftApprove
       \<lparr>rs_kind = ''draft'', rs_id = None, rs_tenantId = Some ''t''\<rparr>
     = Inr \<lparr>pr_subjectId = ''a'', pr_tenantId = ''t'', pr_actorType = HumanActor,
            pr_roles = [''Harness.Approver''], pr_source = SourceLocal\<rparr>"
  (is "guard_require ?v ?r ?hs ?a ?rs = Inr ?p")
proof -
  have r: "resolve ?v ?r ?hs = Inr ?p" by code_simp
  have d: "set (pr_roles ?p) \<inter> set inherited_members = {}" by (simp add: inherited_members_def)
  have m: "\<exists>as. map_of ROLE_ACTIONS ''Harness.Approver'' = Some as \<and> DraftApprove \<in> set as"
    by (simp add: ROLE_ACTIONS_def)
  have g: "resolve ?v ?r ?hs = Inr ?p \<and> set (pr_roles ?p) \<inter> set inherited_members = {}
      \<and> (\<exists>role \<in> set (pr_roles ?p). \<exists>as. map_of ROLE_ACTIONS role = Some as \<and> DraftApprove \<in> set as)
      \<and> (\<forall>t. rs_tenantId ?rs = Some t \<longrightarrow> t = [] \<or> t = pr_tenantId ?p)"
    using r d m by simp
  show ?thesis
    by (rule iffD2 [OF conjunct1 [OF guard_grants_by_role_and_tenant [where p = ?p and resource = ?rs]] g])
qed

text \<open>The edge can name an end user, but it can neither leave its own tenant nor be
  anybody without the delegation role: a delegated principal is a human of the edge's tenant, with
  the subject and the roles the request states, and every other request is refused.\<close>

theorem delegation_stays_in_the_edges_tenant:
  "resolve verify (DelegatedPrincipalResolver edge) hs = Inr p \<longleftrightarrow>
     (\<exists>e subject roles. resolve verify edge hs = Inr e \<and> EDGE_DELEGATE_ROLE \<in> set (pr_roles e)
       \<and> header hs ''x-actor-id'' = Some subject
       \<and> header hs ''x-actor-roles'' = Some roles \<and> comma_list roles \<noteq> []
       \<and> header hs ''x-tenant-id'' \<in> {None, Some (pr_tenantId e)}
       \<and> p = \<lparr>pr_subjectId = subject, pr_tenantId = pr_tenantId e, pr_actorType = HumanActor,
              pr_roles = comma_list roles, pr_source = pr_source e\<rparr>)"
proof (cases "resolve verify edge hs")
  case (Inr e)
  then show ?thesis
    by (cases "header hs ''x-actor-id''"; cases "header hs ''x-actor-roles''")
      (auto simp: delegate_def guard_result_Inr_iff Let_def)
qed simp

end
