(* ===== verification/Adapters.thy ===== *)
theory Adapters
  imports Identity
begin

text \<open>
  packages/adapters/src/index.ts: the model profiles, the adapter of the model provider with its
  recorded stand-in, and the simulator of the deterministic capabilities. The provider itself (the
  OpenRouter SDK), \<open>JSON.parse\<close> of a model's text and \<open>Number\<close> of a text are parameters. Strings
  are code units below 256, so case conversion is that of Latin-1.
\<close>

section \<open>JavaScript values\<close>

fun as_record :: "json \<Rightarrow> entries" where
  \<comment> \<open>\<open>v && typeof v === "object" ? v : {}\<close>, read by names that are no array index\<close>
  "as_record (JObj es) = es" | "as_record _ = []"

fun is_object :: "json \<Rightarrow> bool" where
  \<comment> \<open>\<open>v && typeof v === "object"\<close>\<close>
  "is_object (JObj _) \<longleftrightarrow> True" | "is_object (JArr _) \<longleftrightarrow> True" | "is_object _ \<longleftrightarrow> False"

definition toLowerCase :: "string \<Rightarrow> string" where
  "toLowerCase s = map (\<lambda>c. let n = of_char c :: nat in
     if (65 \<le> n \<and> n \<le> 90) \<or> (192 \<le> n \<and> n \<le> 222 \<and> n \<noteq> 215) then char_of (n + 32) else c) s"

definition toUpperCase :: "string \<Rightarrow> string" where
  "toUpperCase s = concat (map (\<lambda>c. let n = of_char c :: nat in
     if n = 223 then ''SS''
     else if (97 \<le> n \<and> n \<le> 122) \<or> (224 \<le> n \<and> n \<le> 254 \<and> n \<noteq> 247) then [char_of (n - 32)] else [c]) s)"

definition js_entries :: "json \<Rightarrow> entries" where
  \<comment> \<open>\<open>Object.entries\<close> of an object or an array\<close>
  "js_entries v = (case v of JObj es \<Rightarrow> es
     | JArr vs \<Rightarrow> map (\<lambda>i. (nat_text i, vs ! i)) [0..<length vs] | _ \<Rightarrow> [])"

section \<open>Model profiles\<close>

record model_profile =
  mp_id :: string
  mp_model :: string
  mp_maxOutputTokens :: int
  mp_timeoutMs :: int
  mp_maxConcurrency :: int

definition pos_field :: "entries \<Rightarrow> string \<Rightarrow> int option" where
  "pos_field es k = (case obj_get es k of
       JNum m s \<Rightarrow> if s = 0 \<and> 0 < m \<and> m \<le> 9007199254740991 then Some m else None | _ \<Rightarrow> None)"

definition text_field :: "entries \<Rightarrow> string \<Rightarrow> string option" where
  "text_field es k = (case obj_get es k of JStr s \<Rightarrow> Some s | _ \<Rightarrow> None)"

definition parse_profile :: "json \<Rightarrow> model_profile option" where
  "parse_profile v = (case v of JObj es \<Rightarrow>
       (if set (map fst es) \<subseteq> {''id'', ''provider'', ''model'', ''maxOutputTokens'', ''timeoutMs'', ''maxConcurrency''}
           \<and> obj_get es ''provider'' = JStr ''openrouter'' then
        (case (text_field es ''id'', text_field es ''model'', pos_field es ''maxOutputTokens'',
               pos_field es ''timeoutMs'', pos_field es ''maxConcurrency'') of
           (Some i, Some m, Some t, Some ms, Some c) \<Rightarrow> Some \<lparr>mp_id = i, mp_model = m,
             mp_maxOutputTokens = t, mp_timeoutMs = ms, mp_maxConcurrency = c\<rparr>
         | _ \<Rightarrow> None) else None)
     | _ \<Rightarrow> None)"

fun parse_profiles :: "json list \<Rightarrow> model_profile list option" where
  "parse_profiles [] = Some []"
| "parse_profiles (v # vs) = (case (parse_profile v, parse_profiles vs) of
     (Some p, Some ps) \<Rightarrow> Some (p # ps) | _ \<Rightarrow> None)"

definition loadModelProfiles :: "json option \<Rightarrow> model_profile list result" where
  \<comment> \<open>\<open>file\<close>: the parsed content of the registry file\<close>
  "loadModelProfiles file = (case file of
       None \<Rightarrow> Inl ''ENOENT''
     | Some (JObj es) \<Rightarrow>
         (case (if set (map fst es) \<subseteq> {''apiVersion'', ''profiles''}
                   \<and> obj_get es ''apiVersion'' = JStr ''harness.factory/model-profiles-v1''
                then (case obj_get es ''profiles'' of JArr vs \<Rightarrow> parse_profiles vs | _ \<Rightarrow> None) else None) of
            None \<Rightarrow> Inl ''ZodError'' | Some ps \<Rightarrow> Inr ps)
     | Some _ \<Rightarrow> Inl ''ZodError'')"

section \<open>The cost a provider reports\<close>

definition cost_keys :: "string list" where
  "cost_keys = [''cost'', ''costusd'', ''totalcost'', ''totalcostusd'', ''total_cost'', ''total_cost_usd'']"

definition cost_value :: "(string \<Rightarrow> decimal option) \<Rightarrow> json \<Rightarrow> decimal option" where
  \<comment> \<open>\<open>number_of\<close>: the finite number a text denotes\<close>
  "cost_value number_of v = (case v of
       JNum m s \<Rightarrow> if 0 \<le> m then Some (m, s) else None
     | JStr t \<Rightarrow> if trim t = [] then None
                else (case number_of t of Some (m, s) \<Rightarrow> if 0 \<le> m then Some (m, s) else None | None \<Rightarrow> None)
     | _ \<Rightarrow> None)"

fun scan_entries :: "(string \<Rightarrow> decimal option) \<Rightarrow> entries \<Rightarrow> decimal + json list" where
  \<comment> \<open>the inner loop: the cost it returns, or what it pushed\<close>
  "scan_entries number_of [] = Inr []"
| "scan_entries number_of ((name, v) # es) =
     (case (if toLowerCase name \<in> set cost_keys then cost_value number_of v else None) of
        Some c \<Rightarrow> Inl c
      | None \<Rightarrow> (case scan_entries number_of es of
          Inl c \<Rightarrow> Inl c | Inr vs \<Rightarrow> Inr (if is_object v then v # vs else vs)))"

lemma scan_entries_size:
  "scan_entries number_of es = Inr vs \<Longrightarrow> sum_list (map size vs) + length vs \<le> sum_list (map (size \<circ> snd) es) + length es"
  by (induction number_of es arbitrary: vs rule: scan_entries.induct)
    (auto split: option.splits sum.splits if_splits)

lemma sum_list_map_nth: "sum_list (map (\<lambda>i. f (xs ! i)) [0..<length xs]) = sum_list (map f xs)"
  by (metis map_nth map_map comp_apply list.map_cong0)

lemma js_entries_size: "is_object v \<Longrightarrow> sum_list (map (size \<circ> snd) (js_entries v)) + length (js_entries v) < size v"
proof (cases v)
  case (JArr vs)
  have "sum_list (map size vs) + length vs < size (JArr vs)" by (simp add: size_list_conv_sum_list)
  then show ?thesis by (simp add: JArr js_entries_def o_def sum_list_map_nth)
next
  case (JObj es)
  have "sum_list (map (size \<circ> snd) es) + length es < size (JObj es)"
    by (induction es) (auto simp: prod.size_gen split: prod.splits)
  then show ?thesis by (simp add: JObj js_entries_def)
qed auto

function cost_search :: "(string \<Rightarrow> decimal option) \<Rightarrow> json list \<Rightarrow> decimal option" where
  "cost_search number_of [] = None"
| "cost_search number_of (v # pending) =
     (if \<not> is_object v then cost_search number_of pending
      else (case scan_entries number_of (js_entries v) of
        Inl c \<Rightarrow> Some c | Inr vs \<Rightarrow> cost_search number_of (pending @ vs)))"
  by pat_completeness auto

termination
proof (relation "measure (\<lambda>(_, pending). sum_list (map size pending) + length pending)", goal_cases)
  case (3 number_of v pending vs)
  then show ?case using scan_entries_size [OF 3(2)] js_entries_size [of v] by simp
qed auto

definition modelCallCost :: "(string \<Rightarrow> decimal option) \<Rightarrow> json \<Rightarrow> decimal option" where
  "modelCallCost number_of providerMetadata =
     (if is_object providerMetadata then cost_search number_of [providerMetadata] else None)"

section \<open>The model adapter\<close>

record adapter_result =
  ad_output :: json
  ad_provider :: string
  ad_model :: string
  ad_providerRequestId :: "string option"
  ad_inputTokens :: "int option"
  ad_outputTokens :: "int option"
  ad_costUsd :: "decimal option"

definition newline :: char where
  "newline = CHR 10"

definition promptFor :: "json \<Rightarrow> string" where
  "promptFor v = (if is_object v then
       (case obj_get (as_record v) ''prompt'' of JStr p \<Rightarrow> p | _ \<Rightarrow> ''Analyze the structured input.'')
         @ [newline, newline] @ ''Return only a JSON object.'' @ [newline, newline] @ ''Input:'' @ [newline]
         @ json_text (nullish (obj_get (as_record v) ''input'') v)
     else ''Analyze the input and return only a JSON object.'' @ [newline, newline] @ ''Input:'' @ [newline] @ js_string v)"

definition fence :: string where
  "fence = [CHR 96, CHR 96, CHR 96]"

definition strip_open :: "string \<Rightarrow> string" where
  "strip_open s = (if starts_with s fence then
       (let r = drop 3 s in dropWhile is_space (if starts_with (toLowerCase r) ''json'' then drop 4 r else r))
     else s)"

definition strip_close :: "string \<Rightarrow> string" where
  "strip_close s = (if starts_with (rev s) fence then rev (dropWhile is_space (drop 3 (rev s))) else s)"

definition parseModelOutput :: "(string \<Rightarrow> json option) \<Rightarrow> string \<Rightarrow> json" where
  "parseModelOutput json_parse text = (case json_parse (strip_close (strip_open (trim text))) of
       Some v \<Rightarrow> v | None \<Rightarrow> JObj [(''text'', JStr (trim text))])"

definition quoted_true :: "string \<Rightarrow> string" where
  "quoted_true s = s @ [CHR 34] @ '':true''"

definition recordedModel :: "model_profile \<Rightarrow> json \<Rightarrow> adapter_result result" where
  "recordedModel profile v =
     (let envelope = as_record v;
          payload = (if ''input'' \<in> fst ` set envelope then obj_get envelope ''input'' else v)
      in if payload = JUndef then Inl ''TypeError'' else
     (let serialized = toLowerCase (json_text payload);
          instruction = (case obj_get envelope ''prompt'' of JStr p \<Rightarrow> toLowerCase p | _ \<Rightarrow> []);
          needsReview = (has_sub serialized (quoted_true ''match'') \<or> has_sub serialized (quoted_true ''mismatch'')
            \<or> has_sub serialized (''risk'' @ [CHR 34] @ '':'' @ [CHR 34] @ ''high'') \<or> has_sub serialized ''manual_review'');
          isKycDecision = (has_sub instruction ''kyc'' \<or> has_sub instruction ''policy rule ids''
            \<or> has_sub instruction ''finding ids'')
      in Inr \<lparr>ad_output = (if isKycDecision then JObj
            [(''recommendationId'', JStr ''recommendation_fixture_001''),
             (''outcome'', JStr (if needsReview then ''REVIEW'' else ''APPROVE'')),
             (''rationale'', JStr (if needsReview
                then ''Recorded decision adapter found a material or uncertain signal that requires human review.''
                else ''Recorded decision adapter found the required policy and investigation evidence with no material risk signal.'')),
             (''policyRuleRefs'', JArr [JStr ''KYC-ID-001'', JStr ''KYC-SCR-004'']),
             (''findingRefs'', JArr [JStr ''finding_public_001'']),
             (''evidenceRefs'', JArr [JStr ''ev_mock_public_001'']),
             (''confidence'', if needsReview then JNum 66 2 else JNum 91 2),
             (''requiresHumanReview'', JBool needsReview), (''fixture'', JBool True)]
           else JObj [(''recommendation'', JStr (if needsReview then ''manual_review'' else ''clear'')),
             (''rationale'', JStr (if needsReview then ''Recorded adapter found a fixture signal requiring review.''
                else ''Recorded adapter found no fixture signal requiring review.'')),
             (''fixture'', JBool True)]),
           ad_provider = ''recorded'', ad_model = mp_id profile, ad_providerRequestId = None,
           ad_inputTokens = None, ad_outputTokens = None, ad_costUsd = Some (0, 0)\<rparr>))"

text \<open>What the SDK returns from one call, or the message of the error it throws.\<close>

record llm_reply =
  lr_object :: json
  lr_text :: string
  lr_responseId :: "string option"
  lr_inputTokens :: "int option"
  lr_outputTokens :: "int option"
  lr_providerMetadata :: json

record provider_sdk =
  sdk_generateObject :: "model_profile \<Rightarrow> json \<Rightarrow> string \<Rightarrow> llm_reply result"
  sdk_generateText :: "model_profile \<Rightarrow> string \<Rightarrow> llm_reply result"
  sdk_json_parse :: "string \<Rightarrow> json option"
  sdk_number_of :: "string \<Rightarrow> decimal option"

record model_invocation =
  mi_profile :: model_profile
  mi_input :: json
  mi_outputSchema :: "json option"
  mi_apiKey :: "string option"
  mi_allowRecordedFallback :: "bool option"

definition openrouter_result :: "provider_sdk \<Rightarrow> model_profile \<Rightarrow> json \<Rightarrow> llm_reply \<Rightarrow> adapter_result" where
  "openrouter_result sdk profile out r = \<lparr>ad_output = out, ad_provider = ''openrouter'', ad_model = mp_model profile,
     ad_providerRequestId = lr_responseId r, ad_inputTokens = lr_inputTokens r,
     ad_outputTokens = lr_outputTokens r,
     ad_costUsd = modelCallCost (sdk_number_of sdk) (lr_providerMetadata r)\<rparr>"

definition invokeModel :: "provider_sdk \<Rightarrow> model_invocation \<Rightarrow> adapter_result result" where
  "invokeModel sdk i =
     (if mi_apiKey i \<in> {None, Some []} then
        guard_result (mi_allowRecordedFallback i \<noteq> Some False) ''adapter.model_credential_missing''
          (recordedModel (mi_profile i) (mi_input i))
      else (case mi_outputSchema i of
          Some schema \<Rightarrow> bind_result (sdk_generateObject sdk (mi_profile i) schema (promptFor (mi_input i)))
            (\<lambda>r. Inr (openrouter_result sdk (mi_profile i) (lr_object r) r))
        | None \<Rightarrow> bind_result (sdk_generateText sdk (mi_profile i) (promptFor (mi_input i)))
            (\<lambda>r. Inr (openrouter_result sdk (mi_profile i) (parseModelOutput (sdk_json_parse sdk) (lr_text r)) r))))"

section \<open>The simulator\<close>

definition has_any :: "string \<Rightarrow> string list \<Rightarrow> bool" where
  \<comment> \<open>a regular expression that is an alternation of words\<close>
  "has_any s words \<longleftrightarrow> (\<exists>w \<in> set words. has_sub s w)"

definition policy_output :: "entries \<Rightarrow> json" where
  "policy_output record' =
     (let country = toUpperCase (js_string (nullish (obj_get record' ''country'') (JStr ''US'')));
          customerType = js_string (nullish (obj_get record' ''customerType'') (JStr ''individual''));
          riskTier = js_string (nullish (obj_get record' ''riskTier'') (JStr ''standard''))
      in JObj [(''policyId'', JStr (''kyc-'' @ toLowerCase country @ ''-'' @ customerType)),
        (''policyVersion'', JStr ''2026.09-poc''),
        (''policySnapshotDigest'', JStr (js_string (nullish (obj_get record' ''policySnapshotDigest'')
           (JStr (''sha256:'' @ replicate 64 (CHR ''a'')))))),
        (''jurisdiction'', JStr country),
        (''rules'', JArr [
           JObj [(''ruleId'', JStr ''KYC-ID-001''), (''obligation'', JStr ''verified_identity_evidence''), (''severity'', JStr ''required'')],
           JObj [(''ruleId'', JStr ''KYC-SCR-004''), (''obligation'', JStr ''sanctions_and_pep_screening''), (''severity'', JStr ''required'')],
           JObj [(''ruleId'', JStr ''KYC-EDD-009''),
                 (''obligation'', JStr (if riskTier = ''high'' then ''enhanced_due_diligence'' else ''risk_based_review'')),
                 (''severity'', JStr (if riskTier = ''high'' then ''required'' else ''conditional''))]]),
        (''requiredEvidence'', JArr [JStr ''identity_document'', JStr ''sanctions_screen'', JStr ''public_source_research'']),
        (''reviewThresholds'', JObj [(''sanctionsPossibleMatch'', JStr ''HUMAN_REVIEW''),
           (''materialContradiction'', JStr ''HUMAN_REVIEW''), (''minimumConfidence'', JNum 8 1)]),
        (''source'', JStr ''mock-policydb-v1'')])"

definition search_output :: "string \<Rightarrow> entries \<Rightarrow> string \<Rightarrow> json" where
  "search_output retrievedAt record' subject =
     (let risky = has_any subject [''sanction'', ''blocked'', ''minister'', ''official'', ''fraud'']
      in JObj [(''query'', JStr (trim (js_string (nullish (obj_get record' ''name'') (nullish (obj_get record' ''subject'') (JStr ''subject'')))
           @ '' '' @ js_string (nullish (obj_get record' ''country'') (JStr [])) @ '' sanctions PEP adverse media''))),
        (''retrievedAt'', JStr retrievedAt),
        (''sources'', JArr [JObj [(''sourceId'', JStr ''src_public_001''), (''title'', JStr ''Mock public screening index''),
           (''url'', JStr ''https://example.test/public-screening''), (''publisher'', JStr ''POC Research Provider''),
           (''retrievedAt'', JStr retrievedAt), (''instructionTrust'', JStr ''UNTRUSTED_EXTERNAL'')]]),
        (''findings'', JArr [JObj [(''findingId'', JStr ''finding_public_001''),
           (''type'', JStr (if risky then ''POSSIBLE_SANCTIONS_MATCH'' else ''NO_MATERIAL_MATCH'')),
           (''classification'', JStr (if risky then ''REVIEW'' else ''CLEAR'')),
           (''reason'', JStr (if risky then ''Mock public-source index returned a potentially material name signal.''
              else ''Mock public-source research returned no material risk signal.'')),
           (''evidenceRefs'', JArr [JStr ''ev_mock_public_001''])]]),
        (''contradictions'', JArr []), (''confidence'', if risky then JNum 66 2 else JNum 91 2),
        (''provider'', JStr ''mock-web-search-v1'')])"

definition simulator_output :: "string \<Rightarrow> string \<Rightarrow> entries \<Rightarrow> json result" where
  "simulator_output retrievedAt capabilityId record' =
     (let subject = toLowerCase (js_string (nullish (obj_get record' ''name'')
            (nullish (obj_get record' ''vendorName'') (nullish (obj_get record' ''subject'') (JStr [])))))
      in if capabilityId = ''screening.sanctions.search'' then
           Inr (JObj [(''match'', JBool (has_any subject [''sanction'', ''blocked''])),
             (''source'', JStr ''fixture-sanctions-v1''), (''subject'', JStr subject)])
         else if capabilityId = ''screening.pep.search'' then
           Inr (JObj [(''match'', JBool (has_any subject [''public'', ''minister'', ''official''])),
             (''source'', JStr ''fixture-pep-v1''), (''subject'', JStr subject)])
         else if capabilityId = ''vendor.lookup'' then
           Inr (JObj [(''found'', JBool (\<not> has_sub subject ''unknown'')), (''active'', JBool (\<not> has_sub subject ''inactive'')),
             (''vendor'', JStr subject)])
         else if capabilityId = ''purchase_order.lookup'' then
           Inr (JObj [(''found'', JBool (truthy (obj_get record' ''purchaseOrderId''))),
             (''expectedAmount'', nullish (case obj_get record' ''expectedAmount'' of JNum m s \<Rightarrow> JNum m s
                | _ \<Rightarrow> obj_get record' ''amount'') JNull)])
         else if capabilityId = ''policy.kyc.lookup'' then Inr (policy_output record')
         else if capabilityId = ''investigation.web.search'' then Inr (search_output retrievedAt record' subject)
         else Inl ''adapter.capability_unsupported'')"

definition invokeSimulator :: "string \<Rightarrow> string \<Rightarrow> json \<Rightarrow> adapter_result result" where
  "invokeSimulator retrievedAt capabilityId v =
     (let envelope = as_record v;
          record' = (if is_object (obj_get envelope ''input'') then as_record (obj_get envelope ''input'') else envelope)
      in bind_result (simulator_output retrievedAt capabilityId record') (\<lambda>out.
         Inr \<lparr>ad_output = out, ad_provider = ''simulator'', ad_model = capabilityId, ad_providerRequestId = None,
           ad_inputTokens = None, ad_outputTokens = None, ad_costUsd = Some (0, 0)\<rparr>))"

end
