(* ===== verification/ExecAuth.thy ===== *)
theory ExecAuth
  imports Contracts
begin

text \<open>
  packages/execution-auth/src/index.ts: minting and verifying the two credentials of an
  execution, the runtime grant of the dispatcher and the execution envelope of the broker,
  together with the schemas their claims are parsed with. Signing and verifying a JWT and
  importing a PEM key are code of the jose package: a record of functions, the parameter \<open>J\<close>,
  whose documented behaviour is \<open>jose_laws\<close>. Token times are seconds.
\<close>

section \<open>Parsing claims\<close>

definition js_set :: "'a list \<Rightarrow> 'a list" where
  \<comment> \<open>\<open>[...new Set(xs)]\<close>: the first occurrence of each value, in order\<close>
  "js_set xs = rev (remdups (rev xs))"

definition str_field :: "entries \<Rightarrow> string \<Rightarrow> string option" where
  "str_field es k = (case obj_get es k of JStr s \<Rightarrow> Some s | _ \<Rightarrow> None)"

definition int_field :: "entries \<Rightarrow> string \<Rightarrow> int option" where
  \<comment> \<open>\<open>z.number().int()\<close>: an integer a double holds exactly\<close>
  "int_field es k = (case obj_get es k of
       JNum m s \<Rightarrow> if s = 0 \<and> \<bar>m\<bar> \<le> 9007199254740991 then Some m else None | _ \<Rightarrow> None)"

fun all_some :: "'a option list \<Rightarrow> 'a list option" where
  "all_some [] = Some []"
| "all_some (x # xs) = (case (x, all_some xs) of (Some a, Some as) \<Rightarrow> Some (a # as) | _ \<Rightarrow> None)"

definition list_field :: "(json \<Rightarrow> 'a option) \<Rightarrow> entries \<Rightarrow> string \<Rightarrow> 'a list option" where
  "list_field f es k = (case obj_get es k of JArr vs \<Rightarrow> all_some (map f vs) | _ \<Rightarrow> None)"

definition parse_string :: "json \<Rightarrow> string option" where
  "parse_string v = (case v of JStr s \<Rightarrow> Some s | _ \<Rightarrow> None)"

definition all_effects :: "effect_class list" where
  "all_effects = [EffNone, EffRead, EffReversible, EffPaid, EffExternal, EffDestructive]"

definition parse_effect :: "json \<Rightarrow> effect_class option" where
  "parse_effect v = (case v of JStr s \<Rightarrow> List.find (\<lambda>e. effect_name e = s) all_effects | _ \<Rightarrow> None)"

definition strict_object :: "string list \<Rightarrow> entries \<Rightarrow> bool" where
  "strict_object keys es \<longleftrightarrow> set (map fst es) \<subseteq> set keys"

definition parse_envelope_claims :: "entries \<Rightarrow> envelope_claims option" where
  "parse_envelope_claims es =
     (if \<not> strict_object [''iss'', ''aud'', ''jti'', ''run_id'', ''node_id'', ''attempt'', ''plan_digest'',
            ''permission_digest'', ''capabilities'', ''effects'', ''case_writes'', ''fencing_epoch'', ''iat'', ''exp''] es
      then None else
      (case (str_field es ''iss'', str_field es ''aud'', str_field es ''jti'', str_field es ''run_id'', str_field es ''node_id'') of
         (Some iss, Some aud, Some jti, Some run, Some node) \<Rightarrow>
      (case (str_field es ''plan_digest'', str_field es ''permission_digest'',
             list_field parse_string es ''capabilities'', list_field parse_effect es ''effects'',
             if obj_get es ''case_writes'' = JUndef then Some [] else list_field parse_command_type es ''case_writes'') of
         (Some plan, Some perm, Some caps, Some effs, Some writes) \<Rightarrow>
      (case (int_field es ''attempt'', int_field es ''fencing_epoch'', int_field es ''iat'', int_field es ''exp'') of
         (Some attempt, Some epoch, Some iat, Some exp) \<Rightarrow>
           (let c = \<lparr>ec_iss = iss, ec_aud = aud, ec_jti = jti, ec_run_id = run, ec_node_id = node,
                     ec_attempt = nat attempt, ec_plan_digest = plan, ec_permission_digest = perm,
                     ec_capabilities = caps, ec_effects = effs, ec_case_writes = writes,
                     ec_fencing_epoch = nat epoch, ec_iat = iat, ec_exp = exp\<rparr>
            in if 0 \<le> attempt \<and> 0 \<le> epoch \<and> envelope_claims_ok c then Some c else None)
       | _ \<Rightarrow> None) | _ \<Rightarrow> None) | _ \<Rightarrow> None))"

definition parse_grant_claims :: "entries \<Rightarrow> grant_claims option" where
  "parse_grant_claims es =
     (if \<not> strict_object [''iss'', ''aud'', ''jti'', ''run_id'', ''attempt'', ''worker_id'', ''plan_digest'',
            ''fencing_epoch'', ''iat'', ''exp''] es
      then None else
      (case (str_field es ''iss'', str_field es ''aud'', str_field es ''jti'', str_field es ''run_id'',
             str_field es ''worker_id'', str_field es ''plan_digest'') of
         (Some iss, Some aud, Some jti, Some run, Some worker, Some plan) \<Rightarrow>
      (case (int_field es ''attempt'', int_field es ''fencing_epoch'', int_field es ''iat'', int_field es ''exp'') of
         (Some attempt, Some epoch, Some iat, Some exp) \<Rightarrow>
           (let c = \<lparr>gc_iss = iss, gc_aud = aud, gc_jti = jti, gc_run_id = run, gc_attempt = nat attempt,
                     gc_worker_id = worker, gc_plan_digest = plan, gc_fencing_epoch = nat epoch,
                     gc_iat = iat, gc_exp = exp\<rparr>
            in if 0 < attempt \<and> 0 < epoch \<and> grant_claims_ok c then Some c else None)
       | _ \<Rightarrow> None) | _ \<Rightarrow> None))"

section \<open>Keys and tokens\<close>

datatype algorithm = RS256 | HS256

record 'tok jose =
  importPKCS8 :: "string \<Rightarrow> string option"
  importSPKI :: "string \<Rightarrow> string option"
  signJwt :: "algorithm \<Rightarrow> string \<Rightarrow> entries \<Rightarrow> 'tok"
  jwtVerify :: "algorithm \<Rightarrow> string \<Rightarrow> string \<Rightarrow> string \<Rightarrow> int \<Rightarrow> int \<Rightarrow> 'tok \<Rightarrow> entries option"

text \<open>\<open>jwtVerify algorithm key issuer audience clockTolerance now token\<close>.\<close>

definition ISSUER :: string where "ISSUER = ''ehf-runtime''"
definition AUDIENCE :: string where "AUDIENCE = ''ehf-capability-gateway''"
definition GRANT_ISSUER :: string where "GRANT_ISSUER = ''ehf-dispatcher''"
definition GRANT_AUDIENCE :: string where "GRANT_AUDIENCE = ''ehf-envelope-broker''"

definition key :: "string \<Rightarrow> string result" where
  "key secret = guard_result (24 \<le> length secret) ''execution_auth.secret_too_short'' (Inr secret)"

definition imported :: "algorithm \<Rightarrow> string option \<Rightarrow> (algorithm \<times> string) result" where
  "imported alg k = (case k of None \<Rightarrow> Inl ''TypeError: invalid PEM'' | Some h \<Rightarrow> Inr (alg, h))"

definition signingMaterial :: "'tok jose \<Rightarrow> string \<Rightarrow> (algorithm \<times> string) result" where
  "signingMaterial J v =
     (if has_sub v ''BEGIN PRIVATE KEY'' then imported RS256 (importPKCS8 J v)
      else bind_result (key v) (\<lambda>k. Inr (HS256, k)))"

definition verificationMaterial :: "'tok jose \<Rightarrow> string \<Rightarrow> (algorithm \<times> string) result" where
  "verificationMaterial J v =
     (if has_sub v ''BEGIN PUBLIC KEY'' then imported RS256 (importSPKI J v)
      else bind_result (key v) (\<lambda>k. Inr (HS256, k)))"

section \<open>Execution envelopes\<close>

record mint_envelope =
  me_secret :: string
  me_invocationId :: string
  me_runId :: string
  me_nodeId :: string
  me_attempt :: nat
  me_planDigest :: string
  me_permissionDigest :: string
  me_capabilities :: "string list"
  me_effects :: "effect_class list"
  me_caseWrites :: "command_type list option"
  me_fencingEpoch :: nat
  me_ttlSeconds :: "int option"

definition envelope_ttl :: "mint_envelope \<Rightarrow> int" where
  "envelope_ttl i = min 120 (max 5 (or_else (me_ttlSeconds i) 60))"

definition envelope_payload :: "int \<Rightarrow> mint_envelope \<Rightarrow> entries" where
  "envelope_payload now i =
     [(''run_id'', JStr (me_runId i)), (''node_id'', JStr (me_nodeId i)), (''attempt'', JInt (int (me_attempt i))),
      (''plan_digest'', JStr (me_planDigest i)), (''permission_digest'', JStr (me_permissionDigest i)),
      (''capabilities'', JArr (map JStr (me_capabilities i))),
      (''effects'', JArr (map (JStr \<circ> effect_name) (me_effects i))),
      (''case_writes'', JArr (map (JStr \<circ> command_name) (or_else (me_caseWrites i) []))),
      (''fencing_epoch'', JInt (int (me_fencingEpoch i))),
      (''iss'', JStr ISSUER), (''aud'', JStr AUDIENCE), (''jti'', JStr (me_invocationId i)),
      (''iat'', JInt now), (''exp'', JInt (now + envelope_ttl i))]"

definition mintExecutionEnvelope :: "'tok jose \<Rightarrow> int \<Rightarrow> mint_envelope \<Rightarrow> 'tok result" where
  "mintExecutionEnvelope J now i = bind_result (signingMaterial J (me_secret i))
     (\<lambda>(alg, k). Inr (signJwt J alg k (envelope_payload now i)))"

definition verifyExecutionEnvelope :: "'tok jose \<Rightarrow> int \<Rightarrow> 'tok \<Rightarrow> string \<Rightarrow> envelope_claims result" where
  "verifyExecutionEnvelope J now token secret = bind_result (verificationMaterial J secret) (\<lambda>(alg, k).
     (case jwtVerify J alg k ISSUER AUDIENCE 2 now token of
        None \<Rightarrow> Inl ''ERR_JWT_INVALID''
      | Some payload \<Rightarrow> (case parse_envelope_claims payload of
            None \<Rightarrow> Inl ''ZodError'' | Some c \<Rightarrow> Inr c)))"

section \<open>Runtime grants\<close>

record mint_grant =
  mg_secret :: string
  mg_grantId :: string
  mg_runId :: string
  mg_attempt :: nat
  mg_workerId :: string
  mg_planDigest :: string
  mg_fencingEpoch :: nat
  mg_ttlSeconds :: int

definition grant_ttl :: "mint_grant \<Rightarrow> int" where
  "grant_ttl i = min 3600 (max 30 (mg_ttlSeconds i))"

definition grant_payload :: "int \<Rightarrow> mint_grant \<Rightarrow> entries" where
  "grant_payload now i =
     [(''run_id'', JStr (mg_runId i)), (''attempt'', JInt (int (mg_attempt i))), (''worker_id'', JStr (mg_workerId i)),
      (''plan_digest'', JStr (mg_planDigest i)), (''fencing_epoch'', JInt (int (mg_fencingEpoch i))),
      (''iss'', JStr GRANT_ISSUER), (''aud'', JStr GRANT_AUDIENCE), (''jti'', JStr (mg_grantId i)),
      (''iat'', JInt now), (''exp'', JInt (now + grant_ttl i))]"

definition mintRuntimeGrant :: "'tok jose \<Rightarrow> int \<Rightarrow> mint_grant \<Rightarrow> 'tok result" where
  "mintRuntimeGrant J now i = bind_result (signingMaterial J (mg_secret i))
     (\<lambda>(alg, k). Inr (signJwt J alg k (grant_payload now i)))"

definition verifyRuntimeGrant :: "'tok jose \<Rightarrow> int \<Rightarrow> 'tok \<Rightarrow> string \<Rightarrow> grant_claims result" where
  "verifyRuntimeGrant J now token secret = bind_result (verificationMaterial J secret) (\<lambda>(alg, k).
     (case jwtVerify J alg k GRANT_ISSUER GRANT_AUDIENCE 2 now token of
        None \<Rightarrow> Inl ''ERR_JWT_INVALID''
      | Some payload \<Rightarrow> (case parse_grant_claims payload of
            None \<Rightarrow> Inl ''ZodError'' | Some c \<Rightarrow> Inr c)))"

section \<open>What the code relies on in jose\<close>

definition times_admit :: "int \<Rightarrow> int \<Rightarrow> entries \<Rightarrow> bool" where
  "times_admit tolerance now payload \<longleftrightarrow> (\<exists>e. obj_get payload ''exp'' = JInt e \<and> now - tolerance < e)"

text \<open>
  \<open>pair alg ks kv\<close>: a token signed with \<open>ks\<close> verifies under \<open>kv\<close>; a shared secret is its own
  pair. A signed token verifies to its payload as long as issuer, audience and expiry admit it
  (completeness); what verifies was signed with the paired key (integrity) for that issuer and
  audience.
\<close>

definition jose_laws :: "'tok jose \<Rightarrow> (algorithm \<Rightarrow> string \<Rightarrow> string \<Rightarrow> bool) \<Rightarrow> bool" where
  "jose_laws J pair \<longleftrightarrow> (\<forall>k. pair HS256 k k)
     \<and> (\<forall>alg ks kv iss aud tol now payload. pair alg ks kv \<and> obj_get payload ''iss'' = JStr iss
          \<and> obj_get payload ''aud'' = JStr aud \<and> times_admit tol now payload
          \<longrightarrow> jwtVerify J alg kv iss aud tol now (signJwt J alg ks payload) = Some payload)
     \<and> (\<forall>alg alg' ks kv iss aud tol now payload p.
          jwtVerify J alg kv iss aud tol now (signJwt J alg' ks payload) = Some p
          \<longrightarrow> p = payload \<and> alg = alg' \<and> pair alg ks kv)
     \<and> (\<forall>alg kv iss aud tol now token p. jwtVerify J alg kv iss aud tol now token = Some p
          \<longrightarrow> obj_get p ''iss'' = JStr iss \<and> (\<forall>e. obj_get p ''exp'' = JInt e \<longrightarrow> now - tol < e))"

lemma jose_verifies:
  assumes "jose_laws J pair" and "pair alg ks kv" and "obj_get payload ''iss'' = JStr iss"
    and "obj_get payload ''aud'' = JStr aud" and "times_admit tol now payload"
  shows "jwtVerify J alg kv iss aud tol now (signJwt J alg ks payload) = Some payload"
  using assms by (simp add: jose_laws_def)

lemma jose_integrity:
  assumes "jose_laws J pair" and "jwtVerify J alg kv iss aud tol now (signJwt J alg' ks payload) = Some p"
  shows "p = payload" and "alg = alg'" and "pair alg ks kv"
  using assms unfolding jose_laws_def by blast+

lemma jose_checked:
  assumes "jose_laws J pair" and "jwtVerify J alg kv iss aud tol now token = Some p"
  shows "obj_get p ''iss'' = JStr iss" and "obj_get p ''exp'' = JInt e \<Longrightarrow> now - tol < e"
  using assms unfolding jose_laws_def by blast+

text \<open>An idealised jose: a token is the algorithm, the key and the payload it was signed with.\<close>

definition ideal_jose :: "(algorithm \<times> string \<times> entries) jose" where
  "ideal_jose = \<lparr>importPKCS8 = (\<lambda>v. Some v), importSPKI = (\<lambda>v. Some v),
     signJwt = (\<lambda>alg k payload. (alg, k, payload)),
     jwtVerify = (\<lambda>alg k iss aud tol now token. case token of (alg', k', payload) \<Rightarrow>
       if alg = alg' \<and> k = k' \<and> obj_get payload ''iss'' = JStr iss \<and> obj_get payload ''aud'' = JStr aud
          \<and> (case obj_get payload ''exp'' of JNum e s \<Rightarrow> s = 0 \<and> now - tol < e | _ \<Rightarrow> False)
       then Some payload else None)\<rparr>"

lemma ideal_jose_laws: "jose_laws ideal_jose (\<lambda>alg ks kv. ks = kv)"
  by (auto simp: jose_laws_def ideal_jose_def times_admit_def split: if_splits json.splits)

section \<open>Facts about the claims\<close>

lemma set_js_set [simp]: "set (js_set xs) = set xs"
  by (simp add: js_set_def)

lemma distinct_js_set [simp]: "distinct (js_set xs)"
  by (simp add: js_set_def)

lemma parse_effect_name: "parse_effect (JStr (effect_name e)) = Some e"
  by (cases e) (simp_all add: parse_effect_def all_effects_def)

lemma all_some_map: "(\<And>x. x \<in> set xs \<Longrightarrow> f x = Some (g x)) \<Longrightarrow> all_some (map f xs) = Some (map g xs)"
  by (induction xs) auto

lemma payload_lists:
  "all_some (map (parse_string \<circ> JStr) cs) = Some cs"
  "all_some (map (parse_effect \<circ> (JStr \<circ> effect_name)) es) = Some es"
  "all_some (map (parse_command_type \<circ> (JStr \<circ> command_name)) ws) = Some ws"
  using all_some_map [of cs "parse_string \<circ> JStr" id] all_some_map [of es "parse_effect \<circ> (JStr \<circ> effect_name)" id]
    all_some_map [of ws "parse_command_type \<circ> (JStr \<circ> command_name)" id]
  by (simp_all add: parse_string_def parse_effect_name parse_command_name)

definition safe :: "int \<Rightarrow> bool" where
  "safe i \<longleftrightarrow> \<bar>i\<bar> \<le> 9007199254740991"

definition minted_claims :: "int \<Rightarrow> mint_envelope \<Rightarrow> envelope_claims" where
  "minted_claims now i = \<lparr>ec_iss = ISSUER, ec_aud = AUDIENCE, ec_jti = me_invocationId i, ec_run_id = me_runId i,
     ec_node_id = me_nodeId i, ec_attempt = me_attempt i, ec_plan_digest = me_planDigest i,
     ec_permission_digest = me_permissionDigest i, ec_capabilities = me_capabilities i, ec_effects = me_effects i,
     ec_case_writes = or_else (me_caseWrites i) [], ec_fencing_epoch = me_fencingEpoch i, ec_iat = now,
     ec_exp = now + envelope_ttl i\<rparr>"

definition granted_claims :: "int \<Rightarrow> mint_grant \<Rightarrow> grant_claims" where
  "granted_claims now i = \<lparr>gc_iss = GRANT_ISSUER, gc_aud = GRANT_AUDIENCE, gc_jti = mg_grantId i,
     gc_run_id = mg_runId i, gc_attempt = mg_attempt i, gc_worker_id = mg_workerId i, gc_plan_digest = mg_planDigest i,
     gc_fencing_epoch = mg_fencingEpoch i, gc_iat = now, gc_exp = now + grant_ttl i\<rparr>"

lemma parse_envelope_payload:
  assumes "safe now" and "safe (now + 120)" and "safe (int (me_attempt i))" and "safe (int (me_fencingEpoch i))"
  shows "parse_envelope_claims (envelope_payload now i) =
     (if envelope_claims_ok (minted_claims now i) then Some (minted_claims now i) else None)"
proof -
  have "safe (now + envelope_ttl i)" using assms(1,2) by (auto simp: safe_def envelope_ttl_def)
  then show ?thesis
    using assms(1,3,4)
    by (simp add: parse_envelope_claims_def envelope_payload_def strict_object_def str_field_def int_field_def
        list_field_def obj_get_def payload_lists safe_def minted_claims_def)
qed

lemma parse_grant_payload:
  assumes "safe now" and "safe (now + 3600)" and "safe (int (mg_attempt i))" and "safe (int (mg_fencingEpoch i))"
  shows "parse_grant_claims (grant_payload now i) =
     (if grant_claims_ok (granted_claims now i) then Some (granted_claims now i) else None)"
proof -
  have "safe (now + grant_ttl i)" using assms(1,2) by (auto simp: safe_def grant_ttl_def)
  then show ?thesis
    using assms(1,3,4)
    by (simp add: parse_grant_claims_def grant_payload_def strict_object_def str_field_def int_field_def
        obj_get_def safe_def granted_claims_def grant_claims_ok_def)
qed

end
