(* ===== verification/Broker.thy ===== *)
theory Broker
  imports Journal ExecAuth Identity
begin

text \<open>
  The private surface the control plane offers a runtime: apps/control-api/src/envelope-broker.ts,
  which exchanges the grant of an invocation for an execution envelope of one node, and
  apps/control-api/src/runtime-state-routes.ts, which lets the holder of a grant write the journal;
  with their two routes in app.ts. The database is read in separate statements, so each read gets
  its own state (\<open>d1\<close>, \<open>d2\<close>, \<open>d3\<close>): what other transactions commit in between is whatever makes
  one state out of the other. A grant header is the token it holds.
\<close>

section \<open>Failures and responses\<close>

datatype http_error = HttpError code nat | Thrown code

datatype 'a response = Reply nat 'a | Failure nat code

definition lift_thrown :: "'a result \<Rightarrow> http_error + 'a" where
  "lift_thrown r = (case r of Inl c \<Rightarrow> Inl (Thrown c) | Inr x \<Rightarrow> Inr x)"

definition auth_response :: "code \<Rightarrow> auth_failure \<Rightarrow> 'a response" where
  \<comment> \<open>the error handler of a service\<close>
  "auth_response internal f = (case f of
       AuthorizationError reason \<Rightarrow> Failure (authorization_status reason) reason
     | OtherError _ \<Rightarrow> Failure 500 internal)"

lemma lift_thrown_Inr [simp]: "lift_thrown r = Inr x \<longleftrightarrow> r = Inr x"
  by (auto simp: lift_thrown_def split: sum.splits)

section \<open>The envelope broker\<close>

definition declaredCaseWrites :: "harness_plan \<Rightarrow> string \<Rightarrow> command_type list" where
  "declaredCaseWrites plan nodeId = (case List.find (\<lambda>n. node_id n = nodeId) (plan_nodes plan) of
       None \<Rightarrow> []
     | Some node \<Rightarrow> (case obj_get (node_config node) ''caseWrites'' of
           JArr writes \<Rightarrow> js_set (concat (map (\<lambda>entry. case entry of
               JObj es \<Rightarrow> (case parse_command_type (obj_get es ''commandType'') of None \<Rightarrow> [] | Some c \<Rightarrow> [c])
             | _ \<Rightarrow> []) writes))
         | _ \<Rightarrow> []))"

record broker_deps =
  bd_envelopeSecret :: string
  bd_grantSecret :: string
  bd_envelopeTtlSeconds :: "int option"

record 'tok issued =
  is_envelope :: 'tok
  is_expiresInSeconds :: int
  is_caseWrites :: "command_type list"

definition seconds :: "time \<Rightarrow> int" where
  "seconds now = now div 1000"

definition find_permission :: "harness_plan \<Rightarrow> string \<Rightarrow> permission_envelope option" where
  "find_permission plan nodeId = List.find (\<lambda>p. perm_nodeId p = nodeId) (plan_permissionEnvelopes plan)"

definition envelope_for :: "broker_deps \<Rightarrow> envelope_request \<Rightarrow> harness_plan \<Rightarrow> permission_envelope \<Rightarrow> nat \<Rightarrow> mint_envelope" where
  "envelope_for deps request plan permission epoch =
     \<lparr>me_secret = bd_envelopeSecret deps, me_invocationId = er_invocationId request,
      me_runId = er_runId request, me_nodeId = er_nodeId request, me_attempt = er_attempt request,
      me_planDigest = plan_planDigest plan, me_permissionDigest = perm_digest permission,
      me_capabilities = perm_capabilities permission, me_effects = perm_effects permission,
      me_caseWrites = Some (declaredCaseWrites plan (er_nodeId request)), me_fencingEpoch = epoch,
      me_ttlSeconds = Some (or_else (bd_envelopeTtlSeconds deps) 60)\<rparr>"

definition issueExecutionEnvelope ::
    "'tok jose \<Rightarrow> broker_deps \<Rightarrow> time \<Rightarrow> db \<Rightarrow> db \<Rightarrow> db \<Rightarrow> 'tok \<Rightarrow> envelope_request \<Rightarrow> http_error + 'tok issued" where
  "issueExecutionEnvelope J deps now d1 d2 d3 grantToken request =
     guard_result (envelope_request_ok request) (Thrown ''ZodError'')
     (case verifyRuntimeGrant J (seconds now) grantToken (bd_grantSecret deps) of
        Inl _ \<Rightarrow> Inl (HttpError ''broker.grant_invalid'' 401)
      | Inr grant \<Rightarrow>
        guard_result (gc_run_id grant = er_runId request) (HttpError ''broker.run_mismatch'' 403)
        (guard_result (gc_attempt grant = er_attempt request) (HttpError ''broker.attempt_mismatch'' 403)
        (case getRun d1 (er_runId request) None of
           None \<Rightarrow> Inl (HttpError ''broker.run_not_found'' 404)
         | Some run \<Rightarrow>
           guard_result (run_status run = Running) (HttpError ''broker.run_not_running'' 403)
           (guard_result (run_plan_digest run = gc_plan_digest grant) (HttpError ''broker.plan_mismatch'' 403)
           (guard_result (currentFencingEpoch d2 (er_runId request) = Some (gc_fencing_epoch grant))
              (HttpError ''broker.stale_fence'' 403)
           (case getPlan d3 (run_plan_digest run) None of
              None \<Rightarrow> Inl (HttpError ''broker.plan_not_admitted'' 404)
            | Some plan \<Rightarrow>
              (case find_permission plan (er_nodeId request) of
                 None \<Rightarrow> Inl (HttpError ''broker.node_not_permitted'' 403)
               | Some permission \<Rightarrow>
                 bind_result (lift_thrown (mintExecutionEnvelope J (seconds now)
                     (envelope_for deps request plan permission (gc_fencing_epoch grant))))
                   (\<lambda>envelope. Inr \<lparr>is_envelope = envelope,
                      is_expiresInSeconds = or_else (bd_envelopeTtlSeconds deps) 60,
                      is_caseWrites = declaredCaseWrites plan (er_nodeId request)\<rparr>))))))))"

text \<open>The route: \<open>secrets\<close> is what \<open>envelopeSecret()\<close> and \<open>grantSecret()\<close> find, or their 503.\<close>

definition envelopes_route ::
    "'tok jose \<Rightarrow> jwt_verifier \<Rightarrow> resolver \<Rightarrow> (http_error + broker_deps) \<Rightarrow> time \<Rightarrow> db \<Rightarrow> db \<Rightarrow> db
     \<Rightarrow> headers \<Rightarrow> 'tok option \<Rightarrow> envelope_request \<Rightarrow> 'tok issued response" where
  "envelopes_route J verify resolver secrets now d1 d2 d3 hs grant body =
     (case guard_require verify resolver hs EnvelopeMint \<lparr>rs_kind = ''run'', rs_id = None, rs_tenantId = None\<rparr> of
        Inl f \<Rightarrow> auth_response ''control.internal_error'' f
      | Inr _ \<Rightarrow> (case grant of
          None \<Rightarrow> Failure 401 ''broker.grant_missing''
        | Some token \<Rightarrow>
          (case bind_result secrets (\<lambda>deps. issueExecutionEnvelope J deps now d1 d2 d3 token body) of
             Inl (HttpError c s) \<Rightarrow> Failure s c
           | Inl (Thrown c) \<Rightarrow> Failure 400 c
           | Inr issued \<Rightarrow> Reply 200 issued)))"

section \<open>Journal writes of a runtime\<close>

definition state_error :: "code \<Rightarrow> http_error" where
  "state_error c = HttpError c 403"

definition authorizeStateWrite ::
    "'tok jose \<Rightarrow> time \<Rightarrow> db \<Rightarrow> db \<Rightarrow> 'tok option \<Rightarrow> string \<Rightarrow> fenced_run \<Rightarrow> http_error + unit" where
  "authorizeStateWrite J now d1 d2 grantToken grantSecret run = (case grantToken of
       None \<Rightarrow> Inl (HttpError ''runtime_state.grant_missing'' 401)
     | Some token \<Rightarrow> (case verifyRuntimeGrant J (seconds now) token grantSecret of
         Inl _ \<Rightarrow> Inl (HttpError ''runtime_state.grant_invalid'' 401)
       | Inr grant \<Rightarrow>
         guard_result (gc_run_id grant = fr_runId run) (state_error ''runtime_state.run_mismatch'')
         (guard_result (gc_attempt grant = fr_attempt run) (state_error ''runtime_state.attempt_mismatch'')
         (guard_result (gc_worker_id grant = fr_workerId run) (state_error ''runtime_state.worker_mismatch'')
         (guard_result (gc_fencing_epoch grant = fr_fencingEpoch run) (state_error ''runtime_state.grant_fence_mismatch'')
         (case getRun d1 (fr_runId run) None of
            None \<Rightarrow> Inl (HttpError ''runtime_state.run_not_found'' 404)
          | Some record \<Rightarrow>
            guard_result (run_status record = Running) (state_error ''runtime_state.run_not_running'')
            (guard_result (currentFencingEpoch d2 (fr_runId run) = Some (fr_fencingEpoch run))
               (state_error ''runtime_state.stale_fence'') (Inr ()))))))))"

datatype state_payload = NodeStarted node_started | NodeFinished node_finished
  | RuntimeEvent state_event | Checkpoint "string option" "string option"

definition optional_field :: "(string \<Rightarrow> bool) \<Rightarrow> entries \<Rightarrow> string \<Rightarrow> string option option" where
  \<comment> \<open>\<open>.optional()\<close>\<close>
  "optional_field ok es k = (case obj_get es k of JUndef \<Rightarrow> Some None
     | JStr s \<Rightarrow> if ok s then Some (Some s) else None | _ \<Rightarrow> None)"

definition nullable_field :: "(string \<Rightarrow> bool) \<Rightarrow> entries \<Rightarrow> string \<Rightarrow> string option option" where
  "nullable_field ok es k = (case obj_get es k of JNull \<Rightarrow> Some None
     | JStr s \<Rightarrow> if ok s then Some (Some s) else None | _ \<Rightarrow> None)"

definition required_field :: "(string \<Rightarrow> bool) \<Rightarrow> entries \<Rightarrow> string \<Rightarrow> string option" where
  "required_field ok es k = (case obj_get es k of JStr s \<Rightarrow> if ok s then Some s else None | _ \<Rightarrow> None)"

definition nat_field :: "entries \<Rightarrow> string \<Rightarrow> nat option" where
  "nat_field es k = (case int_field es k of Some i \<Rightarrow> if 0 \<le> i then Some (nat i) else None | None \<Rightarrow> None)"

abbreviation nonblank :: "string \<Rightarrow> bool" where
  "nonblank s \<equiv> s \<noteq> []"

definition parse_fenced_run :: "json \<Rightarrow> fenced_run option" where
  "parse_fenced_run v = (case v of JObj es \<Rightarrow>
       (if strict_object [''runId'', ''attempt'', ''workerId'', ''fencingEpoch''] es then
        (case (required_field nonblank es ''runId'', nat_field es ''attempt'',
               required_field nonblank es ''workerId'', nat_field es ''fencingEpoch'') of
           (Some r, Some a, Some w, Some e) \<Rightarrow>
             Some \<lparr>fr_runId = r, fr_attempt = a, fr_workerId = w, fr_fencingEpoch = e\<rparr>
         | _ \<Rightarrow> None) else None)
     | _ \<Rightarrow> None)"

definition parse_node_started :: "entries \<Rightarrow> state_payload option" where
  "parse_node_started es = (if strict_object [''nodeId'', ''inputDigest'', ''traceId'', ''spanId''] es then
     (case (required_field nonblank es ''nodeId'', required_field digest_ok es ''inputDigest'',
            optional_field (hex_of_length 32) es ''traceId'', optional_field (hex_of_length 16) es ''spanId'') of
        (Some n, Some i, Some t, Some s) \<Rightarrow>
          Some (NodeStarted \<lparr>ns_nodeId = n, ns_inputDigest = i, ns_traceId = t, ns_spanId = s\<rparr>)
      | _ \<Rightarrow> None) else None)"

definition parse_node_finished :: "entries \<Rightarrow> state_payload option" where
  "parse_node_finished es = (if strict_object [''nodeId'', ''status'', ''outputDigest'', ''errorCode''] es then
     (case (required_field nonblank es ''nodeId'',
            required_field (\<lambda>s. s \<in> {''completed'', ''failed''}) es ''status'',
            optional_field digest_ok es ''outputDigest'', optional_field nonblank es ''errorCode'') of
        (Some n, Some st, Some out, Some e) \<Rightarrow>
          Some (NodeFinished \<lparr>nf_nodeId = n, nf_status = st, nf_outputDigest = out, nf_errorCode = e\<rparr>)
      | _ \<Rightarrow> None) else None)"

definition all_event_statuses :: "(string \<times> event_status) list" where
  "all_event_statuses = [(''observed'', Observed), (''passed'', Passed), (''failed'', EvFailed), (''denied'', EvDenied)]"

definition parse_runtime_event :: "entries \<Rightarrow> state_payload option" where
  "parse_runtime_event es = (if strict_object [''eventKey'', ''code'', ''nodeId'', ''status'', ''values''] es then
     (case (required_field nonblank es ''eventKey'', required_field event_code_ok es ''code'',
            nullable_field nonblank es ''nodeId'',
            Option.bind (required_field (\<lambda>s. True) es ''status'') (map_of all_event_statuses),
            obj_get es ''values'') of
        (Some k, Some c, Some n, Some st, JObj vals) \<Rightarrow>
          Some (RuntimeEvent \<lparr>se_eventKey = k, se_code = c, se_nodeId = n, se_status = st, se_values = vals\<rparr>)
      | _ \<Rightarrow> None) else None)"

definition parse_checkpoint :: "entries \<Rightarrow> state_payload option" where
  "parse_checkpoint es = (if strict_object [''checkpointId'', ''nodeId''] es then
     (case (nullable_field nonblank es ''checkpointId'', nullable_field nonblank es ''nodeId'') of
        (Some c, Some n) \<Rightarrow> Some (Checkpoint c n) | _ \<Rightarrow> None) else None)"

definition bodySchemas :: "(string \<times> (entries \<Rightarrow> state_payload option)) list" where
  "bodySchemas = [(''node-started'', parse_node_started), (''node-finished'', parse_node_finished),
     (''events'', parse_runtime_event), (''checkpoint'', parse_checkpoint)]"

definition runtimeStateOperations :: "string list" where
  "runtimeStateOperations = map fst bodySchemas"

definition parseStateRequest :: "(entries \<Rightarrow> state_payload option) \<Rightarrow> json \<Rightarrow> (fenced_run \<times> state_payload) result" where
  "parseStateRequest schema body = (case body of JObj es \<Rightarrow>
       (case (parse_fenced_run (obj_get es ''run''), schema (filter (\<lambda>(k, v). k \<noteq> ''run'') es)) of
          (Some run, Some payload) \<Rightarrow> Inr (run, payload) | _ \<Rightarrow> Inl ''ZodError'')
     | _ \<Rightarrow> Inl ''ZodError'')"

fun applyStateWrite :: "time \<Rightarrow> db \<Rightarrow> fenced_run \<Rightarrow> state_payload \<Rightarrow> unit txn" where
  "applyStateWrite now d run (NodeStarted i) = pg_nodeStarted now d run i"
| "applyStateWrite now d run (NodeFinished i) = pg_nodeFinished now d run i"
| "applyStateWrite now d run (RuntimeEvent i) = pg_appendEvent now d run i"
| "applyStateWrite now d run (Checkpoint c n) = pg_markCheckpoint now d run c n"

text \<open>The route. \<open>d1\<close>, \<open>d2\<close> and \<open>d3\<close> are the states the run, the fence and the write find; the
  result has the state after the request.\<close>

definition state_route ::
    "'tok jose \<Rightarrow> jwt_verifier \<Rightarrow> resolver \<Rightarrow> (http_error + string) \<Rightarrow> time \<Rightarrow> db \<Rightarrow> db \<Rightarrow> db
     \<Rightarrow> headers \<Rightarrow> 'tok option \<Rightarrow> string \<Rightarrow> json \<Rightarrow> db \<times> unit response" where
  "state_route J verify resolver grantSecret now d1 d2 d3 hs grant operation body =
     (case guard_require verify resolver hs RuntimeStateWrite \<lparr>rs_kind = ''run'', rs_id = None, rs_tenantId = None\<rparr> of
        Inl f \<Rightarrow> (d3, auth_response ''control.internal_error'' f)
      | Inr _ \<Rightarrow> (case map_of bodySchemas operation of
          None \<Rightarrow> (d3, Failure 404 ''runtime_state.operation_unknown'')
        | Some schema \<Rightarrow>
          (case bind_result (lift_thrown (parseStateRequest schema body)) (\<lambda>(run, payload).
                bind_result grantSecret (\<lambda>secret.
                bind_result (authorizeStateWrite J now d1 d2 grant secret run) (\<lambda>_.
                lift_thrown (applyStateWrite now d3 run payload)))) of
             Inr (d', _) \<Rightarrow> (d', Reply 204 ())
           | Inl (HttpError c s) \<Rightarrow> (d3, Failure s c)
           | Inl (Thrown c) \<Rightarrow> (d3, Failure (if has_sub c ''stale_fence'' then 403 else 400) c))))"

end
