(* ===== verification/Gateway.thy ===== *)
theory Gateway
  imports Adapters Broker
begin

text \<open>
  apps/capability-gateway/src/app.ts: the invocation of a capability. The handler is split where
  other requests can run in between: \<open>gateway_authorize\<close> reads the fence, the plan and the run,
  \<open>gateway_reserve\<close> is the transaction that claims the invocation, \<open>gateway_provider\<close> is the call
  of the adapter, and \<open>gateway_finish\<close> stores its result or releases the claim. Each database
  access has its own state argument. Spans and logs are left out.
\<close>

section \<open>Requests\<close>

definition gateway_grants :: "env \<Rightarrow> service_grant list" where
  "gateway_grants env = (let tenantId = or_else (env ''LOCAL_DEFAULT_TENANT_ID'') ''tenant_demo'' in
     (if present env ''RUNTIME_SERVICE_TOKEN'' then [\<lparr>sg_token = the (env ''RUNTIME_SERVICE_TOKEN''),
        sg_subjectId = ''harness-runtime'', sg_roles = [''Capability.Invoke''], sg_tenantId = tenantId\<rparr>] else [])
     @ (if present env ''EDGE_SERVICE_TOKEN'' then [\<lparr>sg_token = the (env ''EDGE_SERVICE_TOKEN''),
        sg_subjectId = ''control-surface-edge'', sg_roles = [''Edge.Delegate''], sg_tenantId = tenantId\<rparr>] else []))"

definition expectedDenial :: "code \<Rightarrow> bool" where
  "expectedDenial code \<longleftrightarrow> has_sub code ''denied'' \<or> has_sub code ''authorization'' \<or> has_sub code ''stale_fence''"

definition recordedFallbackAllowed :: "env \<Rightarrow> bool result" where
  "recordedFallbackAllowed env =
     (if env ''MODEL_RECORDED_FALLBACK'' = Some ''deny'' then Inr False
      else if env ''MODEL_RECORDED_FALLBACK'' = Some ''allow'' then Inr True
      else bind_result (isAzureMode env) (\<lambda>azure. Inr (\<not> azure)))"

definition parse_capability_request :: "json \<Rightarrow> capability_request option" where
  "parse_capability_request v = (case v of JObj es \<Rightarrow>
       (if strict_object [''invocationId'', ''capabilityId'', ''effect'', ''input''] es then
        (case (required_field nonblank es ''invocationId'', required_field nonblank es ''capabilityId'',
               parse_effect (obj_get es ''effect'')) of
           (Some i, Some c, Some e) \<Rightarrow> Some \<lparr>cr_invocationId = i, cr_capabilityId = c, cr_effect = e,
              cr_input = obj_get es ''input''\<rparr>
         | _ \<Rightarrow> None) else None)
     | _ \<Rightarrow> None)"

definition request_json :: "capability_request \<Rightarrow> json" where
  "request_json r = JObj [(''invocationId'', JStr (cr_invocationId r)), (''capabilityId'', JStr (cr_capabilityId r)),
     (''effect'', JStr (effect_name (cr_effect r))), (''input'', cr_input r)]"

section \<open>Authorization\<close>

record authorized =
  au_claims :: envelope_claims
  au_invocation :: capability_request
  au_plan :: harness_plan
  au_capability :: capability_definition

definition auth_code :: "auth_failure \<Rightarrow> code" where
  \<comment> \<open>\<open>error.message\<close>\<close>
  "auth_code f = (case f of AuthorizationError reason \<Rightarrow> reason | OtherError c \<Rightarrow> c)"

definition check_permission :: "envelope_claims \<Rightarrow> capability_request \<Rightarrow> harness_plan \<Rightarrow> capability_definition result" where
  "check_permission claims invocation plan =
     (let resolved = List.find (\<lambda>c. cap_id c = cr_capabilityId invocation) (plan_capabilities plan) in
      case find_permission plan (ec_node_id claims) of
        None \<Rightarrow> Inl ''gateway.permission_mismatch''
      | Some permission \<Rightarrow>
        guard_result (perm_digest permission = ec_permission_digest claims) ''gateway.permission_mismatch''
        (guard_result (cr_capabilityId invocation \<in> set (perm_capabilities permission)) ''gateway.capability_denied''
        (guard_result (cr_effect invocation \<in> set (perm_effects permission)) ''gateway.effect_denied''
        (case resolved of
           None \<Rightarrow> Inl ''gateway.capability_contract_mismatch''
         | Some capability \<Rightarrow> guard_result (cap_effect capability = cr_effect invocation)
             ''gateway.capability_contract_mismatch'' (Inr capability)))))"

definition check_envelope :: "db \<Rightarrow> db \<Rightarrow> db \<Rightarrow> envelope_claims \<Rightarrow> capability_request \<Rightarrow> authorized result" where
  "check_envelope d1 d2 d3 claims invocation =
     guard_result (ec_jti claims = cr_invocationId invocation) ''gateway.invocation_mismatch''
     (guard_result (cr_capabilityId invocation \<in> set (ec_capabilities claims)) ''gateway.capability_denied''
     (guard_result (cr_effect invocation \<in> set (ec_effects claims)) ''gateway.effect_denied''
     (guard_result (currentFencingEpoch d1 (ec_run_id claims) = Some (ec_fencing_epoch claims)) ''gateway.stale_fence''
     (case getPlan d2 (ec_plan_digest claims) None of
        None \<Rightarrow> Inl ''gateway.plan_not_admitted''
      | Some plan \<Rightarrow> bind_result (check_permission claims invocation plan) (\<lambda>capability.
          guard_result (getRun d3 (ec_run_id claims) None \<noteq> None) ''gateway.run_not_found''
          (Inr \<lparr>au_claims = claims, au_invocation = invocation, au_plan = plan, au_capability = capability\<rparr>))))))"

definition gateway_authorize ::
    "'tok jose \<Rightarrow> jwt_verifier \<Rightarrow> resolver \<Rightarrow> string \<Rightarrow> time \<Rightarrow> db \<Rightarrow> db \<Rightarrow> db \<Rightarrow> headers \<Rightarrow> 'tok option \<Rightarrow> json \<Rightarrow> authorized result" where
  "gateway_authorize J verify resolver secret now d1 d2 d3 hs envelope body =
     (case guard_require verify resolver hs CapabilityRead \<lparr>rs_kind = ''capability'', rs_id = None, rs_tenantId = None\<rparr> of
        Inl f \<Rightarrow> Inl (auth_code f)
      | Inr _ \<Rightarrow> (case envelope of
          None \<Rightarrow> Inl ''gateway.execution_envelope_missing''
        | Some token \<Rightarrow>
          bind_result (verifyExecutionEnvelope J (seconds now) token secret) (\<lambda>claims.
          (case parse_capability_request body of
             None \<Rightarrow> Inl ''ZodError''
           | Some invocation \<Rightarrow> check_envelope d1 d2 d3 claims invocation))))"

section \<open>The claim on an invocation\<close>

definition gateway_receipt :: "(string \<Rightarrow> string) \<Rightarrow> string option \<Rightarrow> string option \<Rightarrow> time \<Rightarrow> authorized \<Rightarrow> receipt_row" where
  "gateway_receipt sha traceId spanId now a = (let c = au_claims a; i = au_invocation a in
     \<lparr>gr_invocation_id = cr_invocationId i, gr_run_id = ec_run_id c, gr_tenant_id = [], gr_node_id = ec_node_id c,
      gr_attempt = ec_attempt c, gr_fencing_epoch = ec_fencing_epoch c, gr_plan_digest = ec_plan_digest c,
      gr_permission_digest = ec_permission_digest c, gr_capability_id = cr_capabilityId i,
      gr_effect = effect_name (cr_effect i), gr_decision = ''allowed'', gr_reason_code = ''permission.envelope_allowed'',
      gr_request_digest = stableDigest sha (request_json i), gr_result = None, gr_receipt_digest = None,
      gr_trace_id = traceId, gr_span_id = spanId, gr_created_at = now, gr_completed_at = None\<rparr>)"

definition gateway_budget :: "authorized \<Rightarrow> receipt_budget" where
  "gateway_budget a = \<lparr>rb_modelCall = (cap_kind (au_capability a) = KindModel),
     rb_maxCapabilityCalls = maxCapabilityCalls (plan_budgets (au_plan a)),
     rb_maxModelCalls = maxModelCalls (plan_budgets (au_plan a)),
     rb_maxCostUsd = maxCostUsd (plan_budgets (au_plan a))\<rparr>"

definition gateway_failure :: "code \<Rightarrow> capability_result response" where
  "gateway_failure code = Failure (if expectedDenial code then 403 else 400) code"

definition gateway_reserve ::
    "(string \<Rightarrow> string) \<Rightarrow> string option \<Rightarrow> string option \<Rightarrow> time \<Rightarrow> db \<Rightarrow> authorized \<Rightarrow> db \<times> (capability_result response + authorized)" where
  \<comment> \<open>\<open>Inl\<close>: the handler answers without calling the provider\<close>
  "gateway_reserve sha traceId spanId now d a =
     (case reserveGatewayReceipt now d (gateway_receipt sha traceId spanId now a) (gateway_budget a) of
        Inl code \<Rightarrow> (d, Inl (gateway_failure code))
      | Inr (d', (created, result)) \<Rightarrow> (d', if created then Inr a else Inl (case result of
            Some r \<Rightarrow> Reply 200 r | None \<Rightarrow> Failure 409 ''gateway.invocation_in_progress'')))"

section \<open>The provider\<close>

definition strip_prefix :: "string \<Rightarrow> string \<Rightarrow> string" where
  "strip_prefix p s = (if starts_with s p then drop (length p) s else s)"

definition truthy_env :: "env \<Rightarrow> string \<Rightarrow> string option" where
  "truthy_env env name = (if present env name then env name else None)"

definition gateway_provider :: "provider_sdk \<Rightarrow> json option \<Rightarrow> env \<Rightarrow> string \<Rightarrow> authorized \<Rightarrow> adapter_result result" where
  \<comment> \<open>\<open>profiles\<close>: the parsed registry file; \<open>retrievedAt\<close>: the time the simulator prints\<close>
  "gateway_provider sdk profiles env retrievedAt a =
     (let capability = au_capability a; input = cr_input (au_invocation a) in
      if cap_kind capability = KindModel then
        bind_result (loadModelProfiles profiles) (\<lambda>ps.
        (case List.find (\<lambda>p. mp_id p = strip_prefix ''openrouter:'' (cap_adapterBindingId capability)) ps of
           None \<Rightarrow> Inl ''gateway.model_profile_missing''
         | Some profile \<Rightarrow> bind_result (recordedFallbackAllowed env) (\<lambda>fallback.
             invokeModel sdk \<lparr>mi_profile = profile, mi_input = input,
               mi_outputSchema = Some (JObj (cap_outputSchema capability)),
               mi_apiKey = truthy_env env ''OPENROUTER_API_KEY'', mi_allowRecordedFallback = Some fallback\<rparr>)))
      else invokeSimulator retrievedAt (strip_prefix ''simulator:'' (cap_adapterBindingId capability)) input)"

section \<open>Storing the result\<close>

definition unsigned_json :: "int \<Rightarrow> authorized \<Rightarrow> adapter_result \<Rightarrow> json" where
  "unsigned_json latencyMs a r = JObj [(''invocationId'', JStr (cr_invocationId (au_invocation a))),
     (''capabilityId'', JStr (cr_capabilityId (au_invocation a))), (''status'', JStr ''succeeded''),
     (''output'', ad_output r), (''errorCode'', JNull), (''provider'', JStr (ad_provider r)),
     (''model'', JStr (ad_model r)), (''providerRequestId'', null_json JStr (ad_providerRequestId r)),
     (''usage'', JObj [(''inputTokens'', null_json JInt (ad_inputTokens r)),
        (''outputTokens'', null_json JInt (ad_outputTokens r)),
        (''costUsd'', null_json (\<lambda>(m, s). JNum m s) (ad_costUsd r))]),
     (''latencyMs'', JInt latencyMs)]"

definition gateway_result :: "(string \<Rightarrow> string) \<Rightarrow> int \<Rightarrow> authorized \<Rightarrow> adapter_result \<Rightarrow> capability_result" where
  "gateway_result sha latencyMs a r = \<lparr>cres_invocationId = cr_invocationId (au_invocation a),
     cres_capabilityId = cr_capabilityId (au_invocation a), cres_status = CapSucceeded, cres_output = ad_output r,
     cres_errorCode = None, cres_provider = Some (ad_provider r), cres_model = Some (ad_model r),
     cres_providerRequestId = ad_providerRequestId r, cres_inputTokens = ad_inputTokens r,
     cres_outputTokens = ad_outputTokens r, cres_costUsd = ad_costUsd r, cres_latencyMs = latencyMs,
     cres_receiptDigest = stableDigest sha (unsigned_json latencyMs a r)\<rparr>"

text \<open>Which of the last writes the database refuses, and with what message.\<close>

datatype write_fault = NoFault | ReceiptFault code | CostFault code | CleanupFault

definition gateway_finish ::
    "(string \<Rightarrow> string) \<Rightarrow> int \<Rightarrow> write_fault \<Rightarrow> time \<Rightarrow> db \<Rightarrow> authorized \<Rightarrow> adapter_result result \<Rightarrow> db \<times> capability_result response" where
  "gateway_finish sha latencyMs fault now d a provider =
     (let runId = ec_run_id (au_claims a) in
      case provider of
        Inl code \<Rightarrow> (if fault = CleanupFault then d
                     else abandonGatewayReceipt d runId (cr_invocationId (au_invocation a)), gateway_failure code)
      | Inr r \<Rightarrow>
        (let result = gateway_result sha latencyMs a r in
         case fault of
           ReceiptFault code \<Rightarrow> (d, gateway_failure code)
         | CostFault code \<Rightarrow> (completeGatewayReceipt now d runId result, gateway_failure code)
         | _ \<Rightarrow> (recordCapabilityCost now (completeGatewayReceipt now d runId result) runId (ad_costUsd r),
                 Reply 200 result)))"

section \<open>One invocation at a time\<close>

text \<open>The handler when nothing else runs in between. A \<open>gateway\<close> is what \<open>buildGateway\<close> closes over,
  a \<open>call\<close> what the outside decides: clock, span, the provider's answer and the faults.\<close>

record 'tok gateway =
  gw_jose :: "'tok jose"
  gw_sha :: "string \<Rightarrow> string"
  gw_sdk :: provider_sdk
  gw_profiles :: "json option"
  gw_env :: env
  gw_verify :: jwt_verifier
  gw_resolver :: resolver
  gw_secret :: string

record call =
  ca_now :: time
  ca_traceId :: "string option"
  ca_spanId :: "string option"
  ca_retrievedAt :: string
  ca_latencyMs :: int
  ca_fault :: write_fault

definition gateway_invoke :: "'tok gateway \<Rightarrow> call \<Rightarrow> db \<Rightarrow> headers \<Rightarrow> 'tok option \<Rightarrow> json \<Rightarrow> db \<times> capability_result response" where
  "gateway_invoke G call d hs envelope body =
     (case gateway_authorize (gw_jose G) (gw_verify G) (gw_resolver G) (gw_secret G) (ca_now call) d d d hs envelope body of
        Inl code \<Rightarrow> (d, gateway_failure code)
      | Inr a \<Rightarrow> (case gateway_reserve (gw_sha G) (ca_traceId call) (ca_spanId call) (ca_now call) d a of
          (d', Inl reply) \<Rightarrow> (d', reply)
        | (d', Inr a') \<Rightarrow> gateway_finish (gw_sha G) (ca_latencyMs call) (ca_fault call) (ca_now call) d' a'
             (gateway_provider (gw_sdk G) (gw_profiles G) (gw_env G) (ca_retrievedAt call) a')))"

end
