(* ===== verification/BrokerClaims.thy ===== *)
theory BrokerClaims
  imports Broker JournalClaims
begin

text \<open>
  What the two credentials of an execution and the services that check them guarantee: minting
  and verifying are inverse until the token expires, a grant is no envelope, an envelope carries
  the authority of the admitted plan and of the live fence and nothing else, and a grant that was
  superseded buys nothing more.
\<close>

section \<open>Verified tokens\<close>

lemma parse_minted:
  "parse_envelope_claims (envelope_payload now i) = Some c \<Longrightarrow> c = minted_claims now i"
  by (auto simp: parse_envelope_claims_def envelope_payload_def strict_object_def str_field_def int_field_def
      list_field_def obj_get_def payload_lists minted_claims_def Let_def split: if_splits)

lemma verifyExecutionEnvelope_Inr:
  assumes "verifyExecutionEnvelope J now token secret = Inr c"
  obtains alg k p where "verificationMaterial J secret = Inr (alg, k)"
    and "jwtVerify J alg k ISSUER AUDIENCE 2 now token = Some p" and "parse_envelope_claims p = Some c"
  using assms by (auto simp: verifyExecutionEnvelope_def bind_result_Inr_iff split: option.splits)

lemma verifyRuntimeGrant_Inr:
  assumes "verifyRuntimeGrant J now token secret = Inr c"
  obtains alg k p where "verificationMaterial J secret = Inr (alg, k)"
    and "jwtVerify J alg k GRANT_ISSUER GRANT_AUDIENCE 2 now token = Some p" and "parse_grant_claims p = Some c"
  using assms by (auto simp: verifyRuntimeGrant_def bind_result_Inr_iff split: option.splits)

lemma mintExecutionEnvelope_Inr:
  assumes "mintExecutionEnvelope J now i = Inr token"
  obtains alg ks where "signingMaterial J (me_secret i) = Inr (alg, ks)"
    and "token = signJwt J alg ks (envelope_payload now i)"
  using assms by (auto simp: mintExecutionEnvelope_def bind_result_Inr_iff)

lemma payload_issuers:
  "obj_get (envelope_payload now i) ''iss'' = JStr ISSUER" "obj_get (envelope_payload now i) ''aud'' = JStr AUDIENCE"
  "obj_get (envelope_payload now i) ''exp'' = JInt (now + envelope_ttl i)"
  "obj_get (grant_payload now g) ''iss'' = JStr GRANT_ISSUER"
  by (simp_all add: envelope_payload_def grant_payload_def obj_get_def)

lemma minted_verified:
  assumes laws: "jose_laws J pair" and m: "mintExecutionEnvelope J now i = Inr token"
    and v: "verifyExecutionEnvelope J now' token secret = Inr c"
  shows "c = minted_claims now i" and "now' < now + envelope_ttl i + 2"
proof -
  obtain alg ks where t: "token = signJwt J alg ks (envelope_payload now i)"
    using m by (rule mintExecutionEnvelope_Inr)
  obtain alg' k p where p: "jwtVerify J alg' k ISSUER AUDIENCE 2 now' token = Some p" "parse_envelope_claims p = Some c"
    using v by (rule verifyExecutionEnvelope_Inr)
  have eq: "p = envelope_payload now i" using jose_integrity(1) [OF laws] p(1) t by blast
  then show "c = minted_claims now i" using p(2) by (simp add: parse_minted)
  show "now' < now + envelope_ttl i + 2"
    using jose_checked(2) [OF laws p(1)] payload_issuers(3) eq by fastforce
qed

section \<open>Properties of the credentials\<close>

text \<open>C17. An execution envelope verifies to exactly the claims it was minted with from the moment
  it is signed until two seconds after its expiry, which is five to one hundred and twenty seconds
  away, and to nothing afterwards.\<close>

theorem envelope_round_trip:
  assumes laws: "jose_laws J pair" and mint: "mintExecutionEnvelope J now i = Inr token"
    and sm: "signingMaterial J (me_secret i) = Inr (alg, ks)"
    and vm: "verificationMaterial J secret = Inr (alg, kv)" and pair: "pair alg ks kv"
    and ok: "envelope_claims_ok (minted_claims now i)"
    and range: "safe now" "safe (now + 120)" "safe (int (me_attempt i))" "safe (int (me_fencingEpoch i))"
  shows "verifyExecutionEnvelope J now' token secret =
      (if now' < now + envelope_ttl i + 2 then Inr (minted_claims now i) else Inl ''ERR_JWT_INVALID'')
    \<and> 5 \<le> envelope_ttl i \<and> envelope_ttl i \<le> 120"
proof -
  have t: "token = signJwt J alg ks (envelope_payload now i)"
    using mint sm by (simp add: mintExecutionEnvelope_def)
  have ttl: "5 \<le> envelope_ttl i \<and> envelope_ttl i \<le> 120" by (simp add: envelope_ttl_def)
  show ?thesis
  proof (cases "now' < now + envelope_ttl i + 2")
    case True
    have "jwtVerify J alg kv ISSUER AUDIENCE 2 now' token = Some (envelope_payload now i)"
      unfolding t by (rule jose_verifies [OF laws pair payload_issuers(1,2)])
        (use True payload_issuers(3) in \<open>auto simp: times_admit_def\<close>)
    then show ?thesis
      using True ttl vm ok by (simp add: verifyExecutionEnvelope_def parse_envelope_payload [OF range])
  next
    case False
    have "jwtVerify J alg kv ISSUER AUDIENCE 2 now' token = None"
    proof (rule ccontr)
      assume "jwtVerify J alg kv ISSUER AUDIENCE 2 now' token \<noteq> None"
      then obtain p where p: "jwtVerify J alg kv ISSUER AUDIENCE 2 now' token = Some p" by blast
      then have "p = envelope_payload now i" using jose_integrity(1) [OF laws] t by blast
      then show False using jose_checked(2) [OF laws p] payload_issuers(3) False by fastforce
    qed
    then show ?thesis using False ttl vm by (simp add: verifyExecutionEnvelope_def)
  qed
qed

definition demo_secret :: string where
  "demo_secret = ''a-shared-secret-of-32-characters''"

definition demo_digest :: "char \<Rightarrow> string" where
  "demo_digest c = replicate 64 c"

definition demo_mint :: mint_envelope where
  "demo_mint = \<lparr>me_secret = demo_secret, me_invocationId = ''I'', me_runId = ''RUN-1'', me_nodeId = ''n'',
     me_attempt = 1, me_planDigest = demo_digest (CHR ''a''), me_permissionDigest = demo_digest (CHR ''b''),
     me_capabilities = [''cap''], me_effects = [EffRead], me_caseWrites = Some [FinalizeDisposition],
     me_fencingEpoch = 1, me_ttlSeconds = Some 900\<rparr>"

lemma demo_digest_ok: "is_hex c \<Longrightarrow> digest_ok (demo_digest c)"
  by (simp add: demo_digest_def hex_of_length_def list_all_iff)

lemma hex_ab: "is_hex (CHR ''a'')" "is_hex (CHR ''b'')"
  by (simp_all add: is_hex_def)

lemma demo_material: "signingMaterial J demo_secret = Inr (HS256, demo_secret)"
  "verificationMaterial J demo_secret = Inr (HS256, demo_secret)"
  by (simp_all add: signingMaterial_def verificationMaterial_def demo_secret_def key_def starts_with_def)

theorem envelope_round_trip_witness:
  "\<exists>token. mintExecutionEnvelope ideal_jose 1000 demo_mint = Inr token
     \<and> verifyExecutionEnvelope ideal_jose 1121 token demo_secret = Inr (minted_claims 1000 demo_mint)
     \<and> verifyExecutionEnvelope ideal_jose 1122 token demo_secret = Inl ''ERR_JWT_INVALID''"
proof -
  have ttl: "envelope_ttl demo_mint = 120" by (simp add: envelope_ttl_def demo_mint_def)
  have sec: "me_secret demo_mint = demo_secret" by (simp add: demo_mint_def)
  have ok: "envelope_claims_ok (minted_claims 1000 demo_mint)"
    by (simp add: envelope_claims_ok_def minted_claims_def demo_mint_def ISSUER_def AUDIENCE_def
        demo_digest_ok hex_ab)
  obtain token where m: "mintExecutionEnvelope ideal_jose 1000 demo_mint = Inr token"
    by (simp add: mintExecutionEnvelope_def sec demo_material)
  have sm: "signingMaterial ideal_jose (me_secret demo_mint) = Inr (HS256, demo_secret)"
    by (simp add: sec demo_material)
  have range: "safe (int (me_attempt demo_mint))" "safe (int (me_fencingEpoch demo_mint))"
    by (simp_all add: demo_mint_def safe_def)
  have "verifyExecutionEnvelope ideal_jose t token demo_secret =
      (if t < 1122 then Inr (minted_claims 1000 demo_mint) else Inl ''ERR_JWT_INVALID'')" for t
    using envelope_round_trip [OF ideal_jose_laws m sm demo_material(2) refl ok _ _ range, of t]
    by (simp add: ttl safe_def)
  then show ?thesis using m by simp
qed

text \<open>The two credentials cannot stand in for each other: whatever the keys, a runtime grant
  never verifies as an execution envelope and an envelope never verifies as a grant.\<close>

theorem grants_are_not_envelopes:
  assumes "jose_laws J pair"
  shows "(mintRuntimeGrant J now g = Inr token \<longrightarrow> \<not> (\<exists>c. verifyExecutionEnvelope J now' token secret = Inr c))
    \<and> (mintExecutionEnvelope J now i = Inr token' \<longrightarrow> \<not> (\<exists>c. verifyRuntimeGrant J now' token' secret = Inr c))"
proof (intro conjI impI notI)
  assume m: "mintRuntimeGrant J now g = Inr token" and "\<exists>c. verifyExecutionEnvelope J now' token secret = Inr c"
  then obtain c where "verifyExecutionEnvelope J now' token secret = Inr c" by blast
  then obtain alg k p where p: "jwtVerify J alg k ISSUER AUDIENCE 2 now' token = Some p"
    by (rule verifyExecutionEnvelope_Inr)
  obtain alg' ks where "token = signJwt J alg' ks (grant_payload now g)"
    using m by (auto simp: mintRuntimeGrant_def bind_result_Inr_iff)
  then have "p = grant_payload now g" using jose_integrity(1) [OF assms] p by blast
  then show False using jose_checked(1) [OF assms p] payload_issuers(4) by (simp add: ISSUER_def GRANT_ISSUER_def)
next
  assume m: "mintExecutionEnvelope J now i = Inr token'" and "\<exists>c. verifyRuntimeGrant J now' token' secret = Inr c"
  then obtain c where "verifyRuntimeGrant J now' token' secret = Inr c" by blast
  then obtain alg k p where p: "jwtVerify J alg k GRANT_ISSUER GRANT_AUDIENCE 2 now' token' = Some p"
    by (rule verifyRuntimeGrant_Inr)
  obtain alg' ks where "token' = signJwt J alg' ks (envelope_payload now i)"
    using m by (rule mintExecutionEnvelope_Inr)
  then have "p = envelope_payload now i" using jose_integrity(1) [OF assms] p by blast
  then show False using jose_checked(1) [OF assms p] payload_issuers(1) by (simp add: ISSUER_def GRANT_ISSUER_def)
qed

definition demo_grant :: mint_grant where
  "demo_grant = \<lparr>mg_secret = demo_secret, mg_grantId = ''G'', mg_runId = ''RUN-1'', mg_attempt = 1,
     mg_workerId = ''w1'', mg_planDigest = demo_digest (CHR ''a''), mg_fencingEpoch = 1, mg_ttlSeconds = 60\<rparr>"

theorem grants_are_not_envelopes_witness:
  "\<exists>token. mintRuntimeGrant ideal_jose 1000 demo_grant = Inr token
     \<and> \<not> (\<exists>c. verifyExecutionEnvelope ideal_jose 1000 token demo_secret = Inr c)"
proof -
  obtain token where m: "mintRuntimeGrant ideal_jose 1000 demo_grant = Inr token"
    by (simp add: mintRuntimeGrant_def demo_grant_def demo_material)
  then show ?thesis using grants_are_not_envelopes [OF ideal_jose_laws, of 1000 demo_grant token] by blast
qed

section \<open>Properties of the broker\<close>

lemma issueExecutionEnvelope_Inr:
  assumes "issueExecutionEnvelope J deps now d1 d2 d3 tok request = Inr issued"
  obtains grant run plan permission where "verifyRuntimeGrant J (seconds now) tok (bd_grantSecret deps) = Inr grant"
    and "gc_run_id grant = er_runId request" and "gc_attempt grant = er_attempt request"
    and "getRun d1 (er_runId request) None = Some run" and "run_status run = Running"
    and "run_plan_digest run = gc_plan_digest grant"
    and "currentFencingEpoch d2 (er_runId request) = Some (gc_fencing_epoch grant)"
    and "getPlan d3 (run_plan_digest run) None = Some plan"
    and "find_permission plan (er_nodeId request) = Some permission"
    and "mintExecutionEnvelope J (seconds now) (envelope_for deps request plan permission (gc_fencing_epoch grant))
          = Inr (is_envelope issued)"
  using assms unfolding issueExecutionEnvelope_def guard_result_Inr_iff
  by (auto simp: bind_result_Inr_iff split: sum.splits option.splits)

lemma issued_authority:
  assumes "jose_laws J pair"
    and "issueExecutionEnvelope J deps now d1 d2 d3 tok request = Inr issued"
    and "verifyExecutionEnvelope J now' (is_envelope issued) secret = Inr c"
  shows "\<exists>grant run plan permission.
      verifyRuntimeGrant J (seconds now) tok (bd_grantSecret deps) = Inr grant
    \<and> getRun d1 (ec_run_id c) None = Some run \<and> run_status run = Running
    \<and> getPlan d3 (run_plan_digest run) None = Some plan \<and> run_plan_digest run = gc_plan_digest grant
    \<and> currentFencingEpoch d2 (ec_run_id c) = Some (ec_fencing_epoch c)
    \<and> ec_fencing_epoch c = gc_fencing_epoch grant \<and> ec_run_id c = gc_run_id grant
    \<and> ec_attempt c = gc_attempt grant \<and> ec_plan_digest c = plan_planDigest plan
    \<and> permission \<in> set (plan_permissionEnvelopes plan) \<and> perm_nodeId permission = ec_node_id c
    \<and> ec_permission_digest c = perm_digest permission \<and> ec_capabilities c = perm_capabilities permission
    \<and> ec_effects c = perm_effects permission \<and> ec_case_writes c = declaredCaseWrites plan (ec_node_id c)
    \<and> now' < seconds now + 122"
proof -
  obtain grant run plan permission where g: "verifyRuntimeGrant J (seconds now) tok (bd_grantSecret deps) = Inr grant"
    "gc_run_id grant = er_runId request" "gc_attempt grant = er_attempt request"
    "getRun d1 (er_runId request) None = Some run" "run_status run = Running" "run_plan_digest run = gc_plan_digest grant"
    "currentFencingEpoch d2 (er_runId request) = Some (gc_fencing_epoch grant)"
    "getPlan d3 (run_plan_digest run) None = Some plan" and p: "find_permission plan (er_nodeId request) = Some permission"
    and m: "mintExecutionEnvelope J (seconds now) (envelope_for deps request plan permission (gc_fencing_epoch grant))
          = Inr (is_envelope issued)"
    using assms(2) by (rule issueExecutionEnvelope_Inr)
  note c = minted_verified [OF assms(1) m assms(3)]
  have "permission \<in> set (plan_permissionEnvelopes plan)" "perm_nodeId permission = er_nodeId request"
    using p by (auto simp: find_permission_def find_Some_iff)
  moreover have "now' < seconds now + 122" using c(2) by (simp add: envelope_ttl_def)
  ultimately show ?thesis
    using g by (intro exI [of _ grant] exI [of _ run] exI [of _ plan] exI [of _ permission])
      (simp add: c(1) minted_claims_def envelope_for_def)
qed

text \<open>C18. Whoever accepts an envelope the broker issued accepts the authority of durable state:
  the run was running under the fence of the presented grant, the plan is the one the run was
  created with, and run, attempt, fence, permission digest, capabilities, effects and case writes
  are those of that grant and of that plan's permission for the node, for two minutes at most.\<close>

theorem envelope_authority_comes_from_the_plan:
  assumes "jose_laws J pair"
    and "issueExecutionEnvelope J deps now d1 d2 d3 tok request = Inr issued"
    and "verifyExecutionEnvelope J now' (is_envelope issued) secret = Inr c"
  shows "\<exists>grant run plan permission.
      verifyRuntimeGrant J (seconds now) tok (bd_grantSecret deps) = Inr grant
    \<and> getRun d1 (ec_run_id c) None = Some run \<and> run_status run = Running
    \<and> getPlan d3 (run_plan_digest run) None = Some plan \<and> run_plan_digest run = gc_plan_digest grant
    \<and> currentFencingEpoch d2 (ec_run_id c) = Some (ec_fencing_epoch c)
    \<and> ec_fencing_epoch c = gc_fencing_epoch grant \<and> ec_run_id c = gc_run_id grant
    \<and> ec_attempt c = gc_attempt grant \<and> ec_plan_digest c = plan_planDigest plan
    \<and> permission \<in> set (plan_permissionEnvelopes plan) \<and> perm_nodeId permission = ec_node_id c
    \<and> ec_permission_digest c = perm_digest permission \<and> ec_capabilities c = perm_capabilities permission
    \<and> ec_effects c = perm_effects permission \<and> ec_case_writes c = declaredCaseWrites plan (ec_node_id c)
    \<and> now' < seconds now + 122"
  using assms by (rule issued_authority)

text \<open>A database with one admitted plan, whose node \<open>n\<close> may call one capability and write one
  command, and one run of it that worker \<open>w1\<close> executes under epoch 1.\<close>

definition brokered_plan :: harness_plan where
  "brokered_plan = demo_plan\<lparr>plan_planDigest := demo_digest (CHR ''a''),
     plan_capabilities := [\<lparr>cap_id = ''cap'', cap_kind = KindTool, cap_effect = EffRead,
       cap_adapterBindingId = ''simulator:vendor.lookup'', cap_inputSchema = [], cap_outputSchema = [],
       cap_timeoutMs = 1000, cap_maxAttempts = 1, cap_idempotent = True\<rparr>],
     plan_permissionEnvelopes := [\<lparr>perm_nodeId = ''n'', perm_capabilities = [''cap''],
       perm_effects = [EffRead], perm_digest = demo_digest (CHR ''b'')\<rparr>],
     plan_nodes := [\<lparr>node_id = ''n'', node_kind = NAgent, node_name = ''n'', node_summary = None,
       node_prompt = None, node_inputSchema = JNull, node_outputSchema = JNull,
       node_config = [(''caseWrites'', JArr [JObj [(''commandType'', JStr ''FinalizeDisposition'')]])]\<rparr>]\<rparr>"

definition brokered_run :: run_row where
  "brokered_run = claim_row 1000 ''w1'' 60
     (new_run ''RUN-1'' ''acme'' ''k'' ''req'' (demo_digest (CHR ''a'')) JNull 0)"

definition brokered_db :: db where
  "brokered_db = \<lparr>plans = [\<lparr>pl_tenant_id = ''acme'', pl_plan_digest = demo_digest (CHR ''a''),
       pl_plan = brokered_plan, pl_admitted_at = 0\<rparr>], runs = [brokered_run], run_events = [],
     node_attempts = [], receipts = [], trace_links = []\<rparr>"

definition demo_deps :: broker_deps where
  "demo_deps = \<lparr>bd_envelopeSecret = demo_secret, bd_grantSecret = demo_secret, bd_envelopeTtlSeconds = None\<rparr>"

definition demo_request :: envelope_request where
  "demo_request = \<lparr>er_runId = ''RUN-1'', er_nodeId = ''n'', er_attempt = 1, er_invocationId = ''I''\<rparr>"

definition demo_granted :: "algorithm \<times> string \<times> entries" where
  "demo_granted = (HS256, demo_secret, grant_payload 1 demo_grant)"

lemma brokered_row: "run_id brokered_run = ''RUN-1''" "run_status brokered_run = Running"
  "run_plan_digest brokered_run = demo_digest (CHR ''a'')" "run_fencing_epoch brokered_run = 1"
  by (simp_all add: brokered_run_def claim_row_def new_run_def)

lemma demo_grant_verifies:
  assumes "t < 63"
  shows "verifyRuntimeGrant ideal_jose t demo_granted demo_secret = Inr (granted_claims 1 demo_grant)"
proof -
  have ok: "grant_claims_ok (granted_claims 1 demo_grant)"
    by (simp add: grant_claims_ok_def granted_claims_def demo_grant_def GRANT_ISSUER_def GRANT_AUDIENCE_def
        demo_digest_ok hex_ab)
  have "parse_grant_claims (grant_payload 1 demo_grant) = Some (granted_claims 1 demo_grant)"
    using parse_grant_payload [of 1 demo_grant] ok by (simp add: safe_def demo_grant_def)
  moreover have "jwtVerify ideal_jose HS256 demo_secret GRANT_ISSUER GRANT_AUDIENCE 2 t demo_granted
      = Some (grant_payload 1 demo_grant)"
    using assms by (simp add: ideal_jose_def demo_granted_def grant_payload_def obj_get_def grant_ttl_def demo_grant_def)
  ultimately show ?thesis by (simp add: verifyRuntimeGrant_def demo_material)
qed

lemma demo_reads: "getRun brokered_db ''RUN-1'' None = Some brokered_run"
  "currentFencingEpoch brokered_db ''RUN-1'' = Some 1"
  "getPlan brokered_db (demo_digest (CHR ''a'')) None = Some brokered_plan"
  by (simp_all add: getRun_def currentFencingEpoch_def getPlan_def brokered_db_def sql_find_def brokered_row)

lemma demo_issue: "issueExecutionEnvelope ideal_jose demo_deps 2000 brokered_db brokered_db brokered_db demo_granted demo_request
   = Inr \<lparr>is_envelope = (HS256, demo_secret, envelope_payload 2 (envelope_for demo_deps demo_request brokered_plan
       (hd (plan_permissionEnvelopes brokered_plan)) 1)), is_expiresInSeconds = 60, is_caseWrites = [FinalizeDisposition]\<rparr>"
proof -
  have p: "find_permission brokered_plan ''n'' = Some (hd (plan_permissionEnvelopes brokered_plan))"
    by (simp add: find_permission_def brokered_plan_def)
  have w: "declaredCaseWrites brokered_plan ''n'' = [FinalizeDisposition]"
    by (simp add: declaredCaseWrites_def brokered_plan_def obj_get_def parse_command_type_def all_commands_def js_set_def)
  have m: "mintExecutionEnvelope ideal_jose 2 (envelope_for demo_deps demo_request brokered_plan perm 1)
      = Inr (HS256, demo_secret, envelope_payload 2 (envelope_for demo_deps demo_request brokered_plan perm 1))" for perm
    by (simp add: mintExecutionEnvelope_def envelope_for_def demo_deps_def demo_material ideal_jose_def)
  have e: "er_runId demo_request = ''RUN-1''" "er_nodeId demo_request = ''n''" "er_attempt demo_request = 1"
    "envelope_request_ok demo_request"
    by (simp_all add: demo_request_def envelope_request_ok_def)
  have d: "bd_grantSecret demo_deps = demo_secret" "bd_envelopeTtlSeconds demo_deps = None" by (simp_all add: demo_deps_def)
  have g: "gc_run_id (granted_claims 1 demo_grant) = ''RUN-1''" "gc_attempt (granted_claims 1 demo_grant) = 1"
    "gc_plan_digest (granted_claims 1 demo_grant) = demo_digest (CHR ''a'')"
    "gc_fencing_epoch (granted_claims 1 demo_grant) = 1"
    by (simp_all add: granted_claims_def demo_grant_def)
  have s: "seconds 2000 = 2" by (simp add: seconds_def)
  show ?thesis
    unfolding issueExecutionEnvelope_def
    by (simp add: e d g s demo_grant_verifies demo_reads brokered_row p w m del: One_nat_def)
      (simp add: m [simplified] lift_thrown_def)
qed

definition demo_envelope_mint :: mint_envelope where
  "demo_envelope_mint = envelope_for demo_deps demo_request brokered_plan (hd (plan_permissionEnvelopes brokered_plan)) 1"

lemma demo_envelope_verifies:
  "verifyExecutionEnvelope ideal_jose 3 (HS256, demo_secret, envelope_payload 2 demo_envelope_mint) demo_secret
     = Inr (minted_claims 2 demo_envelope_mint)"
proof -
  let ?i = demo_envelope_mint
  have "envelope_claims_ok (minted_claims 2 ?i)"
    by (simp add: envelope_claims_ok_def minted_claims_def envelope_for_def demo_request_def brokered_plan_def
        ISSUER_def AUDIENCE_def demo_digest_ok hex_ab demo_envelope_mint_def)
  then have "parse_envelope_claims (envelope_payload 2 ?i) = Some (minted_claims 2 ?i)"
    using parse_envelope_payload [of 2 ?i]
    by (simp add: safe_def envelope_for_def demo_request_def demo_envelope_mint_def)
  moreover have "jwtVerify ideal_jose HS256 demo_secret ISSUER AUDIENCE 2 3 (HS256, demo_secret, envelope_payload 2 ?i)
      = Some (envelope_payload 2 ?i)"
    using payload_issuers(1-3) [of 2 ?i] by (simp add: ideal_jose_def envelope_ttl_def)
  ultimately show ?thesis by (simp add: verifyExecutionEnvelope_def demo_material)
qed

theorem envelope_authority_comes_from_the_plan_witness:
  "\<exists>plan c issued. issueExecutionEnvelope ideal_jose demo_deps 2000 brokered_db brokered_db brokered_db demo_granted demo_request
       = Inr issued
     \<and> verifyExecutionEnvelope ideal_jose 3 (is_envelope issued) demo_secret = Inr c
     \<and> getPlan brokered_db (demo_digest (CHR ''a'')) None = Some plan
     \<and> ec_case_writes c = declaredCaseWrites plan (ec_node_id c)"
proof -
  have run: "ec_run_id (minted_claims 2 demo_envelope_mint) = ''RUN-1''"
    by (simp add: minted_claims_def envelope_for_def demo_request_def demo_envelope_mint_def)
  show ?thesis
    using envelope_authority_comes_from_the_plan [OF ideal_jose_laws demo_issue, of 3 demo_secret
        "minted_claims 2 demo_envelope_mint"]
      demo_envelope_verifies demo_issue run
    by (auto simp: demo_reads brokered_row demo_envelope_mint_def)
qed

lemma superseded_epoch:
  assumes "ledger_inv d" and "claimRun locked t d w l = (d', Some r')" and "e < run_fencing_epoch r'"
  shows "currentFencingEpoch (run_steps (ledger_step sha) d' cs) (run_id r') \<noteq> Some e"
proof
  let ?d = "run_steps (ledger_step sha) d' cs"
  obtain r where row: "row_of d' (run_id r') = Some r'" "ledger_inv d'"
    using assms(1,2) by (rule claimRun_epoch)
  obtain s where s: "row_of ?d (run_id r') = Some s" "run_fencing_epoch r' \<le> run_fencing_epoch s"
    using row(2,1) by (rule row_of_run_epoch)
  assume "currentFencingEpoch ?d (run_id r') = Some e"
  then obtain y where y: "y \<in> set (runs ?d)" "run_id y = run_id r'" "run_fencing_epoch y = e"
    by (auto simp: currentFencingEpoch_def dest: sql_find_Some)
  then have "y = s" using row_of_unique [OF ledger.run_inv [OF row(2)]] s(1) by blast
  then show False using y s(2) assms(3) by simp
qed

text \<open>C19. Once a run has been handed to another worker, the grant of an earlier one is worth
  nothing, whatever happens afterwards and however the requests are interleaved with it: no
  envelope is issued for it, no journal write is authorized by it, and a node start or checkpoint
  that was authorized before the change is refused when it is applied.\<close>

theorem superseded_grant_is_worthless:
  assumes "ledger_inv d" and "claimRun locked t d w l = (d', Some r')"
    and "verifyRuntimeGrant J (seconds now) tok secret = Inr grant"
    and "gc_run_id grant = run_id r'" and "gc_fencing_epoch grant < run_fencing_epoch r'"
    and d2: "d2 = run_steps (ledger_step sha) d' cs"
  shows "(bd_grantSecret deps = secret \<longrightarrow> \<not> (\<exists>i. issueExecutionEnvelope J deps now d1 d2 d3 tok request = Inr i))
     \<and> \<not> (\<exists>u. authorizeStateWrite J now d1 d2 (Some tok) secret run = Inr u)
     \<and> (fr_runId run = gc_run_id grant \<and> fr_fencingEpoch run = gc_fencing_epoch grant \<longrightarrow>
          applyStateWrite now' d2 run (NodeStarted ns) = Inl ''runtime.stale_fence''
        \<and> applyStateWrite now' d2 run (Checkpoint cp n) = Inl ''runtime.stale_fence'')"
proof -
  obtain r where row: "row_of d' (run_id r') = Some r'" "ledger_inv d'"
    using assms(1,2) by (rule claimRun_epoch)
  have ref: "refused d2 (run_id r') v (gc_fencing_epoch grant)" for v
    unfolding d2 using row(2,1) assms(5) by (rule superseded_refused)
  have epoch: "currentFencingEpoch d2 (run_id r') \<noteq> Some (gc_fencing_epoch grant)"
    unfolding d2 using assms(1,2,5) by (rule superseded_epoch)
  have 1: "\<not> (\<exists>i. issueExecutionEnvelope J deps now d1 d2 d3 tok request = Inr i)" if "bd_grantSecret deps = secret"
  proof
    assume "\<exists>i. issueExecutionEnvelope J deps now d1 d2 d3 tok request = Inr i"
    then obtain i where "issueExecutionEnvelope J deps now d1 d2 d3 tok request = Inr i" by blast
    then obtain g where "verifyRuntimeGrant J (seconds now) tok (bd_grantSecret deps) = Inr g"
      and "gc_run_id g = er_runId request" and "currentFencingEpoch d2 (er_runId request) = Some (gc_fencing_epoch g)"
      by (rule issueExecutionEnvelope_Inr)
    then show False using epoch assms(3,4) that by simp
  qed
  have 2: "\<not> (\<exists>u. authorizeStateWrite J now d1 d2 (Some tok) secret run = Inr u)"
    using assms(3,4) epoch by (auto simp: authorizeStateWrite_def split: option.splits)
  have 3: "applyStateWrite now' d2 run (NodeStarted ns) = Inl ''runtime.stale_fence''
      \<and> applyStateWrite now' d2 run (Checkpoint cp n) = Inl ''runtime.stale_fence''"
    if "fr_runId run = gc_run_id grant" "fr_fencingEpoch run = gc_fencing_epoch grant"
  proof -
    have run: "run = \<lparr>fr_runId = run_id r', fr_attempt = fr_attempt run, fr_workerId = fr_workerId run,
        fr_fencingEpoch = gc_fencing_epoch grant\<rparr>" using that assms(4) by simp
    have "pg_nodeStarted now' d2 \<lparr>fr_runId = run_id r', fr_attempt = fr_attempt run, fr_workerId = fr_workerId run,
        fr_fencingEpoch = gc_fencing_epoch grant\<rparr> ns = Inl ''runtime.stale_fence''"
      and "updateRunNode now' d2 (run_id r') (fr_workerId run) (gc_fencing_epoch grant) n cp = Inl ''runtime.stale_fence''"
      using ref [of "fr_workerId run"] unfolding refused_def by blast+
    then show ?thesis using run that assms(4) by (simp add: pg_markCheckpoint_def)
  qed
  show ?thesis using 1 2 3 by blast
qed


lemma brokered_inv: "ledger_inv brokered_db"
proof -
  let ?r = "new_run ''RUN-1'' ''acme'' ''k'' ''req'' (demo_digest (CHR ''a'')) JNull 0"
  have "claimable 1000 ?r" by (simp add: claimable_def new_run_def)
  then have "run_wf brokered_run" unfolding brokered_run_def using new_run_wf by (rule claim_row_wf [rotated])
  then show ?thesis by (simp add: ledger_inv_def brokered_db_def keyed_def)
qed

lemma brokered_reclaim:
  "claimRun free 61500 brokered_db ''w2'' 60 =
     (brokered_db\<lparr>runs := [claim_row 61500 ''w2'' 60 brokered_run]\<rparr>, Some (claim_row 61500 ''w2'' 60 brokered_run))"
  by (simp add: claimRun_def brokered_db_def sql_first_by_def claimable_def brokered_run_def claim_row_def
      new_run_def free_def)

theorem superseded_grant_is_worthless_witness:
  "\<not> (\<exists>i. issueExecutionEnvelope ideal_jose demo_deps 62000 brokered_db
        (brokered_db\<lparr>runs := [claim_row 61500 ''w2'' 60 brokered_run]\<rparr>) brokered_db demo_granted demo_request = Inr i)"
proof -
  have s: "seconds 62000 = 62" by (simp add: seconds_def)
  have v: "verifyRuntimeGrant ideal_jose (seconds 62000) demo_granted demo_secret = Inr (granted_claims 1 demo_grant)"
    unfolding s by (rule demo_grant_verifies) simp
  have g: "gc_run_id (granted_claims 1 demo_grant) = run_id (claim_row 61500 ''w2'' 60 brokered_run)"
    "gc_fencing_epoch (granted_claims 1 demo_grant) < run_fencing_epoch (claim_row 61500 ''w2'' 60 brokered_run)"
    by (simp_all add: granted_claims_def demo_grant_def claim_row_def brokered_run_def new_run_def)
  have d: "brokered_db\<lparr>runs := [claim_row 61500 ''w2'' 60 brokered_run]\<rparr> = run_steps (ledger_step id)
      (brokered_db\<lparr>runs := [claim_row 61500 ''w2'' 60 brokered_run]\<rparr>) []" by simp
  have "bd_grantSecret demo_deps = demo_secret" by (simp add: demo_deps_def)
  then show ?thesis
    using superseded_grant_is_worthless [OF brokered_inv brokered_reclaim v g d, of demo_deps] by blast
qed

text \<open>Only node starts and checkpoints are fenced when they are written: an event and the end
  of a node are recorded for any worker and any epoch of the run. So a request authorized before
  another worker took the run over still records its event in the attempt that replaced it.\<close>

theorem events_are_not_fenced:
  "applyStateWrite now d (run\<lparr>fr_workerId := w, fr_fencingEpoch := e\<rparr>) (RuntimeEvent i)
     = applyStateWrite now d run (RuntimeEvent i)
   \<and> applyStateWrite now d (run\<lparr>fr_workerId := w, fr_fencingEpoch := e\<rparr>) (NodeFinished f)
     = applyStateWrite now d run (NodeFinished f)
   \<and> (\<exists>d1 d2 fr ev. claimRun free 61500 d1 ''w2'' 60 = (d2, Some (claim_row 61500 ''w2'' 60 brokered_run))
        \<and> fr_workerId fr = ''w1''
        \<and> authorizeStateWrite ideal_jose 61400 d1 d1 (Some demo_granted) demo_secret fr = Inr ()
        \<and> \<not> (\<exists>u. authorizeStateWrite ideal_jose 61600 d2 d2 (Some demo_granted) demo_secret fr = Inr u)
        \<and> (\<exists>d3. applyStateWrite 61600 d2 fr (RuntimeEvent ev) = Inr (d3, ()) \<and> length (run_events d3) = 1))"
proof -
  let ?fr = "\<lparr>fr_runId = ''RUN-1'', fr_attempt = 1, fr_workerId = ''w1'', fr_fencingEpoch = 1\<rparr>"
  let ?ev = "\<lparr>se_eventKey = ''k'', se_code = ''late'', se_nodeId = None, se_status = Passed, se_values = []\<rparr>"
  let ?d2 = "brokered_db\<lparr>runs := [claim_row 61500 ''w2'' 60 brokered_run]\<rparr>"
  have s: "seconds 61400 = 61" "seconds 61600 = 61" by (simp_all add: seconds_def)
  have v: "verifyRuntimeGrant ideal_jose 61 demo_granted demo_secret = Inr (granted_claims 1 demo_grant)"
    by (rule demo_grant_verifies) simp
  have g: "gc_run_id (granted_claims 1 demo_grant) = ''RUN-1''" "gc_attempt (granted_claims 1 demo_grant) = 1"
    "gc_worker_id (granted_claims 1 demo_grant) = ''w1''" "gc_fencing_epoch (granted_claims 1 demo_grant) = 1"
    by (simp_all add: granted_claims_def demo_grant_def)
  have a: "authorizeStateWrite ideal_jose 61400 brokered_db brokered_db (Some demo_granted) demo_secret ?fr = Inr ()"
    by (simp add: authorizeStateWrite_def s v g demo_reads brokered_row del: One_nat_def)
  have "currentFencingEpoch ?d2 ''RUN-1'' = Some 2"
    by (simp add: currentFencingEpoch_def sql_find_def claim_row_def brokered_run_def new_run_def)
  then have b: "\<not> (\<exists>u. authorizeStateWrite ideal_jose 61600 ?d2 ?d2 (Some demo_granted) demo_secret ?fr = Inr u)"
    by (auto simp: authorizeStateWrite_def s v split: option.splits)
  have "run_id (claim_row 61500 ''w2'' 60 brokered_run) = ''RUN-1''"
    by (simp add: claim_row_def brokered_run_def new_run_def)
  then have ev: "\<exists>d3. applyStateWrite 61600 ?d2 ?fr (RuntimeEvent ?ev) = Inr (d3, ()) \<and> length (run_events d3) = 1"
    by (simp add: pg_appendEvent_def appendEvent_def sql_find_def brokered_db_def Let_def)
  have 1: "applyStateWrite now d (run\<lparr>fr_workerId := w, fr_fencingEpoch := e\<rparr>) (RuntimeEvent i)
     = applyStateWrite now d run (RuntimeEvent i)
   \<and> applyStateWrite now d (run\<lparr>fr_workerId := w, fr_fencingEpoch := e\<rparr>) (NodeFinished f)
     = applyStateWrite now d run (NodeFinished f)"
    by (simp add: pg_appendEvent_def pg_nodeFinished_def)
  have "\<exists>d1 d2 fr ev. claimRun free 61500 d1 ''w2'' 60 = (d2, Some (claim_row 61500 ''w2'' 60 brokered_run))
        \<and> fr_workerId fr = ''w1''
        \<and> authorizeStateWrite ideal_jose 61400 d1 d1 (Some demo_granted) demo_secret fr = Inr ()
        \<and> \<not> (\<exists>u. authorizeStateWrite ideal_jose 61600 d2 d2 (Some demo_granted) demo_secret fr = Inr u)
        \<and> (\<exists>d3. applyStateWrite 61600 d2 fr (RuntimeEvent ev) = Inr (d3, ()) \<and> length (run_events d3) = 1)"
    by (rule exI [where x = brokered_db], rule exI [where x = ?d2], rule exI [where x = ?fr],
        rule exI [where x = ?ev], intro conjI, rule brokered_reclaim, simp, rule a, rule b, rule ev)
  then show ?thesis using 1 by blast
qed

end
