(* ===== verification/GatewayClaims.thy ===== *)
theory GatewayClaims
  imports Gateway BrokerClaims
begin

text \<open>
  What the capability gateway guarantees: a provider is called only under an envelope, a plan, a
  fence and a budget that all allow it; of all the calls for one invocation id at most one is in
  flight and none is made after a provider returned; a stored result is replayed. The last section
  records how the gateway answers a caller it does not know.
\<close>

section \<open>Authorization\<close>

lemma find_in: "List.find P xs = Some x \<Longrightarrow> x \<in> set xs \<and> P x"
  by (auto simp: find_Some_iff)

lemma check_permission_Inr:
  assumes "check_permission claims invocation plan = Inr capability"
  obtains permission where "permission \<in> set (plan_permissionEnvelopes plan)"
    and "perm_nodeId permission = ec_node_id claims" and "perm_digest permission = ec_permission_digest claims"
    and "cr_capabilityId invocation \<in> set (perm_capabilities permission)"
    and "cr_effect invocation \<in> set (perm_effects permission)"
    and "capability \<in> set (plan_capabilities plan)" and "cap_id capability = cr_capabilityId invocation"
    and "cap_effect capability = cr_effect invocation"
proof -
  obtain permission where p: "find_permission plan (ec_node_id claims) = Some permission"
    using assms by (auto simp: check_permission_def split: option.splits)
  have f: "perm_digest permission = ec_permission_digest claims"
    "cr_capabilityId invocation \<in> set (perm_capabilities permission)" "cr_effect invocation \<in> set (perm_effects permission)"
    "List.find (\<lambda>c. cap_id c = cr_capabilityId invocation) (plan_capabilities plan) = Some capability"
    "cap_effect capability = cr_effect invocation"
    using assms p by (auto simp: check_permission_def Let_def split: option.splits)
  show ?thesis
    using that find_in [OF p [unfolded find_permission_def]] f(1-3,5) find_in [OF f(4)] by blast
qed

lemma check_envelope_Inr:
  assumes "check_envelope d1 d2 d3 claims invocation = Inr a"
  shows "au_claims a = claims" and "au_invocation a = invocation" and "ec_jti claims = cr_invocationId invocation"
    and "cr_capabilityId invocation \<in> set (ec_capabilities claims)" and "cr_effect invocation \<in> set (ec_effects claims)"
    and "currentFencingEpoch d1 (ec_run_id claims) = Some (ec_fencing_epoch claims)"
    and "getPlan d2 (ec_plan_digest claims) None = Some (au_plan a)"
    and "check_permission claims invocation (au_plan a) = Inr (au_capability a)"
  using assms by (auto simp: check_envelope_def bind_result_Inr_iff split: option.splits)

lemma gateway_authorize_Inr:
  assumes "gateway_authorize J verify resolver secret now d1 d2 d3 hs envelope body = Inr a"
  obtains p token where "guard_require verify resolver hs CapabilityRead
       \<lparr>rs_kind = ''capability'', rs_id = None, rs_tenantId = None\<rparr> = Inr p"
    and "envelope = Some token" and "verifyExecutionEnvelope J (seconds now) token secret = Inr (au_claims a)"
    and "parse_capability_request body = Some (au_invocation a)"
    and "check_envelope d1 d2 d3 (au_claims a) (au_invocation a) = Inr a"
proof -
  obtain p token claims invocation where f: "guard_require verify resolver hs CapabilityRead
       \<lparr>rs_kind = ''capability'', rs_id = None, rs_tenantId = None\<rparr> = Inr p" "envelope = Some token"
    "verifyExecutionEnvelope J (seconds now) token secret = Inr claims"
    "parse_capability_request body = Some invocation" "check_envelope d1 d2 d3 claims invocation = Inr a"
    using assms by (auto simp: gateway_authorize_def bind_result_Inr_iff split: sum.splits option.splits)
  then show ?thesis using that check_envelope_Inr(1,2) [OF f(5)] by metis
qed

lemma gateway_reserve_Inr:
  assumes "gateway_reserve sha t s now d a = (d', Inr a')"
  shows "a' = a"
    and "\<exists>x. reserveGatewayReceipt now d (gateway_receipt sha t s now a) (gateway_budget a) = Inr (d', (True, x))"
  using assms by (auto simp: gateway_reserve_def split: sum.splits if_splits option.splits)

lemma gateway_receipt_simps [simp]:
  "gr_invocation_id (gateway_receipt sha t s now a) = cr_invocationId (au_invocation a)"
  "gr_run_id (gateway_receipt sha t s now a) = ec_run_id (au_claims a)"
  "gr_request_digest (gateway_receipt sha t s now a) = stableDigest sha (request_json (au_invocation a))"
  by (simp_all add: gateway_receipt_def Let_def)

text \<open>C20. The gateway reaches a provider only for a workload with the invoking role and an
  envelope that verifies, names this invocation, capability and effect, and carries the fence of
  the run as it is now; the admitted plan's permission for the node must be the one the envelope
  was issued under and must itself allow the capability and the effect the plan declares for it;
  and the call is counted against the plan's budget in the same transaction that claims it.\<close>

theorem provider_call_is_authorized:
  assumes "gateway_authorize J verify resolver secret now d1 d2 d3 hs envelope body = Inr a"
    and "gateway_reserve sha t s now' d4 a = (d5, Inr a')" and "ledger_inv d4"
  shows "\<exists>p token permission r. resolve verify resolver hs = Inr p
      \<and> (\<exists>role \<in> set (pr_roles p). \<exists>as. map_of ROLE_ACTIONS role = Some as \<and> CapabilityRead \<in> set as)
      \<and> envelope = Some token \<and> verifyExecutionEnvelope J (seconds now) token secret = Inr (au_claims a')
      \<and> ec_jti (au_claims a') = cr_invocationId (au_invocation a')
      \<and> cr_capabilityId (au_invocation a') \<in> set (ec_capabilities (au_claims a'))
      \<and> cr_effect (au_invocation a') \<in> set (ec_effects (au_claims a'))
      \<and> currentFencingEpoch d1 (ec_run_id (au_claims a')) = Some (ec_fencing_epoch (au_claims a'))
      \<and> getPlan d2 (ec_plan_digest (au_claims a')) None = Some (au_plan a')
      \<and> permission \<in> set (plan_permissionEnvelopes (au_plan a')) \<and> perm_nodeId permission = ec_node_id (au_claims a')
      \<and> perm_digest permission = ec_permission_digest (au_claims a')
      \<and> cr_capabilityId (au_invocation a') \<in> set (perm_capabilities permission)
      \<and> cr_effect (au_invocation a') \<in> set (perm_effects permission)
      \<and> au_capability a' \<in> set (plan_capabilities (au_plan a'))
      \<and> cap_effect (au_capability a') = cr_effect (au_invocation a')
      \<and> row_of d4 (ec_run_id (au_claims a')) = Some r \<and> within_budget (gateway_budget a') r
      \<and> row_of d5 (ec_run_id (au_claims a')) = Some (spend_row now' (cap_kind (au_capability a') = KindModel) r)"
proof -
  note a' = gateway_reserve_Inr [OF assms(2)]
  obtain p token where g: "guard_require verify resolver hs CapabilityRead
       \<lparr>rs_kind = ''capability'', rs_id = None, rs_tenantId = None\<rparr> = Inr p"
    "envelope = Some token" "verifyExecutionEnvelope J (seconds now) token secret = Inr (au_claims a)"
    and c: "check_envelope d1 d2 d3 (au_claims a) (au_invocation a) = Inr a"
    using assms(1) by (rule gateway_authorize_Inr)
  note c = check_envelope_Inr [OF c]
  obtain permission where perm: "permission \<in> set (plan_permissionEnvelopes (au_plan a))"
    "perm_nodeId permission = ec_node_id (au_claims a)" "perm_digest permission = ec_permission_digest (au_claims a)"
    "cr_capabilityId (au_invocation a) \<in> set (perm_capabilities permission)"
    "cr_effect (au_invocation a) \<in> set (perm_effects permission)"
    "au_capability a \<in> set (plan_capabilities (au_plan a))" "cap_effect (au_capability a) = cr_effect (au_invocation a)"
    using c(8) by (rule check_permission_Inr)
  obtain x where x: "reserveGatewayReceipt now' d4 (gateway_receipt sha t s now' a) (gateway_budget a) = Inr (d5, (True, x))"
    using a'(2) by blast
  obtain r where r: "row_of d4 (ec_run_id (au_claims a)) = Some r" "within_budget (gateway_budget a) r"
    "row_of d5 (ec_run_id (au_claims a)) = Some (spend_row now' (rb_modelCall (gateway_budget a)) r)"
    by (rule reserve_new [OF assms(3) x]) simp
  have b: "rb_modelCall (gateway_budget a) = (cap_kind (au_capability a) = KindModel)"
    by (simp add: gateway_budget_def)
  show ?thesis
    unfolding a'(1)
    by (intro exI conjI, rule guard_require_Inr(1) [OF g(1)],
        rule authorize_Inr(2) [OF guard_require_Inr(2) [OF g(1)]], rule g(2), rule g(3), rule c(3), rule c(4),
        rule c(5), rule c(6), rule c(7), rule perm(1), rule perm(2), rule perm(3), rule perm(4), rule perm(5),
        rule perm(6), rule perm(7), rule r(1), rule r(2), rule r(3) [unfolded b])
qed


definition demo_caller :: resolver where
  "demo_caller = ServiceTokenPrincipalResolver [\<lparr>sg_token = ''runtime'', sg_subjectId = ''harness-runtime'',
     sg_roles = [''Capability.Invoke''], sg_tenantId = ''acme''\<rparr>]"

definition demo_headers :: headers where
  "demo_headers = [(''authorization'', One ''Bearer runtime'')]"

definition demo_body :: json where
  "demo_body = JObj [(''invocationId'', JStr ''I''), (''capabilityId'', JStr ''cap''), (''effect'', JStr ''read''),
     (''input'', JNull)]"

definition demo_authorized :: authorized where
  "demo_authorized = \<lparr>au_claims = minted_claims 2 demo_envelope_mint, au_invocation = \<lparr>cr_invocationId = ''I'',
     cr_capabilityId = ''cap'', cr_effect = EffRead, cr_input = JNull\<rparr>, au_plan = brokered_plan,
     au_capability = hd (plan_capabilities brokered_plan)\<rparr>"

lemma demo_authorize:
  "gateway_authorize ideal_jose (\<lambda>_ _. None) demo_caller demo_secret 3000 brokered_db brokered_db brokered_db demo_headers
     (Some (HS256, demo_secret, envelope_payload 2 demo_envelope_mint)) demo_body = Inr demo_authorized"
proof -
  have g: "\<exists>p. guard_require (\<lambda>_ _. None) demo_caller demo_headers CapabilityRead
     \<lparr>rs_kind = ''capability'', rs_id = None, rs_tenantId = None\<rparr> = Inr p"
  proof -
    have "isl (guard_require (\<lambda>_ _. None) demo_caller demo_headers CapabilityRead
     \<lparr>rs_kind = ''capability'', rs_id = None, rs_tenantId = None\<rparr>) = False" by code_simp
    then show ?thesis by (metis sum.collapse(2))
  qed
  have s: "seconds 3000 = 3" by (simp add: seconds_def)
  have b: "parse_capability_request demo_body = Some (au_invocation demo_authorized)"
    by (simp add: parse_capability_request_def demo_body_def strict_object_def required_field_def obj_get_def
        parse_effect_def all_effects_def demo_authorized_def)
  let ?c = "minted_claims 2 demo_envelope_mint"
  have c: "ec_jti ?c = ''I''" "ec_run_id ?c = ''RUN-1''" "ec_node_id ?c = ''n''" "ec_capabilities ?c = [''cap'']"
    "ec_effects ?c = [EffRead]" "ec_fencing_epoch ?c = 1" "ec_plan_digest ?c = demo_digest (CHR ''a'')"
    "ec_permission_digest ?c = demo_digest (CHR ''b'')"
    by (simp_all add: minted_claims_def demo_envelope_mint_def envelope_for_def demo_request_def brokered_plan_def)
  have "check_permission ?c (au_invocation demo_authorized) brokered_plan = Inr (au_capability demo_authorized)"
    by (simp add: check_permission_def find_permission_def c demo_authorized_def brokered_plan_def)
  then have "check_envelope brokered_db brokered_db brokered_db ?c (au_invocation demo_authorized) = Inr demo_authorized"
    by (simp add: check_envelope_def c demo_reads demo_authorized_def)
  then show ?thesis using g demo_envelope_verifies
    by (auto simp: gateway_authorize_def s b)
qed

lemma demo_reserve:
  "\<exists>d5. gateway_reserve id None None 3000 brokered_db demo_authorized = (d5, Inr demo_authorized)"
proof -
  have "within_budget (gateway_budget demo_authorized) brokered_run"
    by (simp add: within_budget_def gateway_budget_def demo_authorized_def brokered_plan_def demo_plan_def
        brokered_run_def claim_row_def new_run_def cost_below_def)
  moreover have "ec_run_id (au_claims demo_authorized) = ''RUN-1''"
    by (simp add: demo_authorized_def minted_claims_def demo_envelope_mint_def envelope_for_def demo_request_def)
  ultimately show ?thesis
    by (simp add: gateway_reserve_def reserveGatewayReceipt_def brokered_db_def sql_find_def sql_count_def
        brokered_row Let_def)
qed

theorem provider_call_is_authorized_witness:
  "\<exists>r. row_of brokered_db ''RUN-1'' = Some r \<and> within_budget (gateway_budget demo_authorized) r"
proof -
  obtain d5 where d5: "gateway_reserve id None None 3000 brokered_db demo_authorized = (d5, Inr demo_authorized)"
    using demo_reserve by blast
  have "ec_run_id (au_claims demo_authorized) = ''RUN-1''"
    by (simp add: demo_authorized_def minted_claims_def demo_envelope_mint_def envelope_for_def demo_request_def)
  then show ?thesis
    using provider_call_is_authorized [OF demo_authorize d5 brokered_inv] by auto
qed

section \<open>Concurrent invocations\<close>

text \<open>
  Any number of requests on the same database: those that claimed their invocation and wait for a
  provider (\<open>inflight\<close>) and those whose provider returned (\<open>returned\<close>). A step is one transaction of
  the gateway, the loss of a gateway process, or a transaction of another service; only the gateway
  writes receipts.
\<close>

record gateway_world =
  gs_db :: db
  inflight :: "authorized list"
  returned :: "authorized list"

definition receipt_op :: "run_op \<Rightarrow> bool" where
  "receipt_op c \<longleftrightarrow> (case c of OpReserve _ _ \<Rightarrow> True | OpReceiptDone _ _ \<Rightarrow> True | OpReceiptAbandon _ _ \<Rightarrow> True | _ \<Rightarrow> False)"

inductive gateway_step :: "(string \<Rightarrow> string) \<Rightarrow> gateway_world \<Rightarrow> gateway_world \<Rightarrow> bool" for sha where
  claim: "gateway_reserve sha t s now (gs_db w) a = (d, Inr a') \<Longrightarrow>
     gateway_step sha w (w\<lparr>gs_db := d, inflight := a' # inflight w\<rparr>)"
| answer: "gateway_reserve sha t s now (gs_db w) a = (d, Inl reply) \<Longrightarrow> gateway_step sha w (w\<lparr>gs_db := d\<rparr>)"
| fail: "a \<in> set (inflight w) \<Longrightarrow> gateway_finish sha l f now (gs_db w) a (Inl code) = (d, reply) \<Longrightarrow>
     gateway_step sha w (w\<lparr>gs_db := d, inflight := remove1 a (inflight w)\<rparr>)"
| return: "a \<in> set (inflight w) \<Longrightarrow> gateway_finish sha l f now (gs_db w) a (Inr r) = (d, reply) \<Longrightarrow>
     gateway_step sha w (w\<lparr>gs_db := d, inflight := remove1 a (inflight w), returned := a # returned w\<rparr>)"
| crash: "a \<in> set (inflight w) \<Longrightarrow> gateway_step sha w (w\<lparr>inflight := remove1 a (inflight w)\<rparr>)"
| other: "\<not> receipt_op c \<Longrightarrow> gateway_step sha w (w\<lparr>gs_db := ledger_step sha (gs_db w) (now, c)\<rparr>)"

definition invocation :: "authorized \<Rightarrow> string" where
  "invocation a = cr_invocationId (au_invocation a)"

definition calls :: "gateway_world \<Rightarrow> string list" where
  "calls w = map invocation (inflight w @ returned w)"

definition receipt_ids :: "db \<Rightarrow> string set" where
  "receipt_ids d = gr_invocation_id ` set (receipts d)"

definition calls_ok :: "gateway_world \<Rightarrow> bool" where
  "calls_ok w \<longleftrightarrow> distinct (calls w) \<and> set (calls w) \<subseteq> receipt_ids (gs_db w)"

lemma receipts_other: "\<not> receipt_op c \<Longrightarrow> receipts (ledger_step sha d (now, c)) = receipts d"
  by (cases c) (auto simp: receipt_op_def admitPlan_def createRun_def renewLease_def scheduleRunRetry_def
    failExhaustedRuns_def completeCancelledRun_def finalizeAbandonedCancellations_def
    updateRunNode_def bindRunTrace_def completeRun_def pg_nodeStarted_def pg_nodeFinished_def
    claimRun_def requestRunCancellation_def appendEvent_def recordCapabilityCost_def insert_attempt_def Let_def
    guard_result_def commit_def bind_result_def split: option.splits sum.splits)

lemma reserve_ids:
  assumes "gateway_reserve sha t s now d a = (d', Inr a')"
  shows "a' = a" and "invocation a \<notin> receipt_ids d" and "receipt_ids d' = insert (invocation a) (receipt_ids d)"
proof -
  show "a' = a" using gateway_reserve_Inr(1) [OF assms] .
  obtain x where x: "reserveGatewayReceipt now d (gateway_receipt sha t s now a) (gateway_budget a) = Inr (d', (True, x))"
    using gateway_reserve_Inr(2) [OF assms] by blast
  have none: "sql_find (\<lambda>g. gr_invocation_id g = invocation a) (receipts d) = None"
    using x by (auto simp: reserveGatewayReceipt_def Let_def invocation_def split: if_splits option.splits)
  then show "invocation a \<notin> receipt_ids d" by (auto simp: sql_find_None receipt_ids_def)
  have "\<exists>g. receipts d' = receipts d @ [g] \<and> gr_invocation_id g = invocation a"
    using x none by (auto simp: reserveGatewayReceipt_def Let_def invocation_def guard_result_def split: if_splits option.splits)
  then show "receipt_ids d' = insert (invocation a) (receipt_ids d)" by (auto simp: receipt_ids_def)
qed

lemma reserve_refused_ids: "gateway_reserve sha t s now d a = (d', Inl reply) \<Longrightarrow> d' = d"
  by (auto simp: gateway_reserve_def dest: reserve_old split: sum.splits if_splits)

lemma ids_complete [simp]: "receipt_ids (completeGatewayReceipt now d rid res) = receipt_ids d"
proof -
  have "map gr_invocation_id (receipts (completeGatewayReceipt now d rid res)) = map gr_invocation_id (receipts d)"
    by (simp add: completeGatewayReceipt_def sql_update_key)
  then show ?thesis unfolding receipt_ids_def by (metis list.set_map)
qed

lemma ids_cost [simp]: "receipt_ids (recordCapabilityCost now d rid c) = receipt_ids d"
  by (simp add: receipt_ids_def recordCapabilityCost_def)

lemma ids_abandon: "receipt_ids d - {i} \<subseteq> receipt_ids (abandonGatewayReceipt d rid i)"
  by (auto simp: receipt_ids_def abandonGatewayReceipt_def sql_delete_def)

lemma finish_ids:
  "gateway_finish sha l f now d a (Inr r) = (d', reply) \<Longrightarrow> receipt_ids d' = receipt_ids d"
  "gateway_finish sha l f now d a (Inl code) = (d', reply) \<Longrightarrow> receipt_ids d - {invocation a} \<subseteq> receipt_ids d'"
  using ids_abandon [of d "invocation a" "ec_run_id (au_claims a)"]
  by (auto simp: gateway_finish_def Let_def invocation_def split: write_fault.splits if_splits)

lemma calls_remove:
  assumes "distinct (calls w)" and "a \<in> set (inflight w)"
  shows "invocation a \<notin> set (map invocation (remove1 a (inflight w) @ returned w))"
    and "distinct (map invocation (remove1 a (inflight w) @ returned w))"
    and "set (map invocation (remove1 a (inflight w) @ returned w)) \<subseteq> set (calls w)"
proof -
  obtain xs ys where s: "inflight w = xs @ a # ys" "a \<notin> set xs" using assms(2) by (metis split_list_first)
  then have r: "remove1 a (inflight w) = xs @ ys" by (simp add: remove1_append)
  have c: "calls w = map invocation xs @ invocation a # map invocation (ys @ returned w)"
    by (simp add: calls_def s(1))
  have m: "map invocation (remove1 a (inflight w) @ returned w) = map invocation xs @ map invocation (ys @ returned w)"
    by (simp add: r)
  show "invocation a \<notin> set (map invocation (remove1 a (inflight w) @ returned w))"
    and "distinct (map invocation (remove1 a (inflight w) @ returned w))"
    and "set (map invocation (remove1 a (inflight w) @ returned w)) \<subseteq> set (calls w)"
    using assms(1) unfolding m c by (simp_all only: distinct_append) auto
qed

lemma gateway_step_ok: "gateway_step sha w w' \<Longrightarrow> calls_ok w \<Longrightarrow> calls_ok w'"
proof (induction rule: gateway_step.induct)
  case (claim t s now w a d a')
  then show ?case using reserve_ids [OF claim(1)] by (auto simp: calls_ok_def calls_def)
next
  case (answer t s now w a d reply)
  then show ?case using reserve_refused_ids [OF answer(1)] by (simp add: calls_ok_def calls_def)
next
  case (fail a w l f now code d reply)
  then have ok: "distinct (calls w)" "set (calls w) \<subseteq> receipt_ids (gs_db w)" by (auto simp: calls_ok_def)
  note r = calls_remove [OF ok(1) fail(1)]
  have "set (map invocation (remove1 a (inflight w) @ returned w)) \<subseteq> receipt_ids (gs_db w) - {invocation a}"
    using r(1,3) ok(2) by blast
  then have "set (map invocation (remove1 a (inflight w) @ returned w)) \<subseteq> receipt_ids d"
    using finish_ids(2) [OF fail(2)] by blast
  then show ?case using r(2) by (simp add: calls_ok_def calls_def)
next
  case (return a w l f now r d reply)
  then have ok: "distinct (calls w)" "set (calls w) \<subseteq> receipt_ids (gs_db w)" by (auto simp: calls_ok_def)
  note c = calls_remove [OF ok(1) return(1)]
  have "invocation a \<in> receipt_ids (gs_db w)" using return(1) ok(2) by (auto simp: calls_def)
  moreover have "set (map invocation (remove1 a (inflight w) @ returned w)) \<subseteq> receipt_ids (gs_db w)"
    using c(3) ok(2) by blast
  ultimately show ?case using c(1,2) finish_ids(1) [OF return(2)] by (simp add: calls_ok_def calls_def)
next
  case (crash a w)
  then have ok: "distinct (calls w)" "set (calls w) \<subseteq> receipt_ids (gs_db w)" by (auto simp: calls_ok_def)
  note c = calls_remove [OF ok(1) crash(1)]
  have "set (map invocation (remove1 a (inflight w) @ returned w)) \<subseteq> receipt_ids (gs_db w)"
    using c(3) ok(2) by blast
  then show ?case using c(2) by (simp add: calls_ok_def calls_def)
next
  case (other c w now)
  then show ?case by (simp add: calls_ok_def calls_def receipt_ids_def receipts_other)
qed

lemma gateway_reach_ok: "(gateway_step sha)\<^sup>*\<^sup>* w w' \<Longrightarrow> calls_ok w \<Longrightarrow> calls_ok w'"
  by (induction rule: rtranclp_induct) (auto intro: gateway_step_ok)

text \<open>C21. However requests, failures, crashes and other services interleave, no two provider calls
  for the same invocation id are outstanding at once, none is made once a provider returned for it,
  and no claim on any of them can be taken again, whatever faults the last writes meet.\<close>

theorem provider_returns_at_most_once:
  assumes "(gateway_step sha)\<^sup>*\<^sup>* \<lparr>gs_db = d, inflight = [], returned = []\<rparr> w"
  shows "distinct (map (cr_invocationId \<circ> au_invocation) (inflight w @ returned w))
    \<and> \<not> (\<exists>a \<in> set (inflight w @ returned w). \<exists>b t s now d' b'.
          cr_invocationId (au_invocation b) = cr_invocationId (au_invocation a)
          \<and> gateway_reserve sha t s now (gs_db w) b = (d', Inr b'))"
proof -
  have "calls_ok \<lparr>gs_db = d, inflight = [], returned = []\<rparr>" by (simp add: calls_ok_def calls_def)
  then have ok: "calls_ok w" using assms by (rule gateway_reach_ok [rotated])
  have "False" if "a \<in> set (inflight w @ returned w)" "invocation b = invocation a"
    "gateway_reserve sha t s now (gs_db w) b = (d', Inr b')" for a b t s now d' b'
    using ok reserve_ids(2) [OF that(3)] that(1,2) unfolding calls_ok_def calls_def by auto
  moreover have "map (cr_invocationId \<circ> au_invocation) = map invocation" by (simp add: fun_eq_iff invocation_def)
  ultimately show ?thesis using ok unfolding invocation_def [symmetric] calls_ok_def calls_def by metis
qed

theorem provider_returns_at_most_once_witness:
  "\<exists>d5. gateway_reserve id None None 3000 brokered_db demo_authorized = (d5, Inr demo_authorized)
     \<and> \<not> (\<exists>b d' b'. cr_invocationId (au_invocation b) = cr_invocationId (au_invocation demo_authorized)
          \<and> gateway_reserve id None None 4000 d5 b = (d', Inr b'))"
proof -
  obtain d5 where d5: "gateway_reserve id None None 3000 brokered_db demo_authorized = (d5, Inr demo_authorized)"
    using demo_reserve by blast
  have "gateway_step id \<lparr>gs_db = brokered_db, inflight = [], returned = []\<rparr>
      \<lparr>gs_db = d5, inflight = [demo_authorized], returned = []\<rparr>"
    using gateway_step.claim [of id None None 3000 "\<lparr>gs_db = brokered_db, inflight = [], returned = []\<rparr>"] d5 by simp
  then have "(gateway_step id)\<^sup>*\<^sup>* \<lparr>gs_db = brokered_db, inflight = [], returned = []\<rparr>
      \<lparr>gs_db = d5, inflight = [demo_authorized], returned = []\<rparr>" by (rule r_into_rtranclp)
  from provider_returns_at_most_once [OF this] d5 show ?thesis by auto
qed


section \<open>Replaying a stored result\<close>

lemma update_find:
  assumes "sql_find P t = Some r" and "\<And>x. P (f x) = P x" and "Q r"
  shows "sql_find P (sql_update Q f t) = Some (f r)"
  using assms(1,3) by (induction t) (auto simp: sql_find_def assms(2) split: if_splits)

lemma finished_receipt:
  assumes "keyed gr_invocation_id (receipts d)"
    and "receipt_of d (invocation a) = Some g" and "gr_run_id g = ec_run_id (au_claims a)"
    and "gateway_finish sha l NoFault now d a (Inr r) = (d', reply)"
  shows "keyed gr_invocation_id (receipts d')"
    and "\<exists>h. receipt_of d' (invocation a) = Some h \<and> gr_result h = Some (gateway_result sha l a r)
          \<and> gr_run_id h = gr_run_id g \<and> gr_request_digest h = gr_request_digest g"
proof -
  let ?res = "gateway_result sha l a r"
  let ?f = "\<lambda>g. g\<lparr>gr_result := Some ?res, gr_receipt_digest := Some (cres_receiptDigest ?res), gr_completed_at := Some now\<rparr>"
  let ?Q = "\<lambda>g. gr_invocation_id g = invocation a \<and> gr_run_id g = ec_run_id (au_claims a)"
  have i: "cres_invocationId ?res = invocation a" by (simp add: gateway_result_def invocation_def)
  have d': "receipts d' = sql_update ?Q ?f (receipts d)"
    using assms(4) by (auto simp: gateway_finish_def Let_def recordCapabilityCost_def completeGatewayReceipt_def i)
  show "keyed gr_invocation_id (receipts d')" unfolding d' using assms(1) by (simp add: keyed_sql_update)
  have "?Q g" using assms(2,3) by (auto simp: receipt_of_def dest: sql_find_Some)
  then have "receipt_of d' (invocation a) = Some (?f g)"
    using assms(2) update_find [of "\<lambda>g. gr_invocation_id g = invocation a" "receipts d" g ?f ?Q]
    unfolding receipt_of_def d' by simp
  then show "\<exists>h. receipt_of d' (invocation a) = Some h \<and> gr_result h = Some ?res
      \<and> gr_run_id h = gr_run_id g \<and> gr_request_digest h = gr_request_digest g"
    by (intro exI [of _ "?f g"]) simp
qed

text \<open>Once a provider returned and its result was stored, every later request for that
  invocation by the same run with the same content, under whatever newer envelope, is answered with
  the stored result and changes nothing; a request of another run or with other content is refused.\<close>

theorem stored_result_is_replayed:
  assumes "keyed gr_invocation_id (receipts d)"
    and "receipt_of d (cr_invocationId (au_invocation a)) = Some g" and "gr_run_id g = ec_run_id (au_claims a)"
    and "gateway_finish sha l NoFault now d a (Inr r) = (d', reply)"
    and "list_all (\<lambda>c. \<not> completes (cr_invocationId (au_invocation a)) c) cs"
    and "cr_invocationId (au_invocation b) = cr_invocationId (au_invocation a)"
  shows "gateway_reserve sha t s now' (run_steps (ledger_step sha) d' cs) b =
    (run_steps (ledger_step sha) d' cs,
     Inl (if ec_run_id (au_claims b) = ec_run_id (au_claims a)
             \<and> stableDigest sha (request_json (au_invocation b)) = gr_request_digest g
          then Reply 200 (gateway_result sha l a r)
          else Failure 400 ''gateway.idempotency_conflict''))"
proof -
  note fin = finished_receipt [OF assms(1) assms(2) [folded invocation_def] assms(3,4)]
  obtain h where h: "receipt_of d' (invocation a) = Some h" "gr_result h = Some (gateway_result sha l a r)"
    "gr_run_id h = gr_run_id g" "gr_request_digest h = gr_request_digest g" using fin(2) by blast
  let ?s = "run_steps (ledger_step sha) d' cs"
  have k: "receipt_of ?s (invocation a) = Some h" and key: "keyed gr_invocation_id (receipts ?s)"
    using receipt_run [OF h(1) _ assms(5) [folded invocation_def] fin(1)] h(2) by simp_all
  have mem: "h \<in> set (receipts ?s)" "gr_invocation_id h = invocation a"
    using k by (auto simp: receipt_of_def dest: sql_find_Some)
  let ?q = "gateway_receipt sha t s now' b"
  have ids: "gr_invocation_id ?q = invocation a" using assms(6) by (simp add: invocation_def)
  have found: "sql_find (\<lambda>x. gr_invocation_id x = invocation a) (receipts ?s) = Some h"
    using k by (simp add: receipt_of_def)
  have denial: "\<not> expectedDenial ''gateway.idempotency_conflict''"
    by (simp add: expectedDenial_def starts_with_def)
  show ?thesis
  proof (cases "ec_run_id (au_claims b) = ec_run_id (au_claims a)")
    case True
    then have "sql_find (\<lambda>x. gr_invocation_id x = invocation a \<and> gr_run_id x = ec_run_id (au_claims b)) (receipts ?s) = Some h"
      using sql_find_keyed [OF key mem(1), of "\<lambda>x. gr_run_id x = ec_run_id (au_claims b)"] mem(2) h(3) assms(3) by simp
    then show ?thesis
      using True found h(2,4) ids
      by (auto simp: gateway_reserve_def reserveGatewayReceipt_def Let_def gateway_failure_def denial)
  next
    case False
    then have "sql_find (\<lambda>x. gr_invocation_id x = invocation a \<and> gr_run_id x = ec_run_id (au_claims b)) (receipts ?s) = None"
      using keyed_unique [OF key mem(1)] mem(2) h(3) assms(3) by (force simp: sql_find_None)
    then show ?thesis
      using False found ids
      by (simp add: gateway_reserve_def reserveGatewayReceipt_def Let_def gateway_failure_def denial)
  qed
qed

definition demo_adapter_result :: adapter_result where
  "demo_adapter_result = \<lparr>ad_output = JNull, ad_provider = ''simulator'', ad_model = ''m'', ad_providerRequestId = None,
     ad_inputTokens = None, ad_outputTokens = None, ad_costUsd = Some (0, 0)\<rparr>"

theorem stored_result_is_replayed_witness:
  "\<exists>d5 d6 reply. gateway_reserve id None None 3000 brokered_db demo_authorized = (d5, Inr demo_authorized)
     \<and> gateway_finish id 7 NoFault 3500 d5 demo_authorized (Inr demo_adapter_result) = (d6, reply)
     \<and> gateway_reserve id None None 4000 d6 demo_authorized
         = (d6, Inl (Reply 200 (gateway_result id 7 demo_authorized demo_adapter_result)))"
proof -
  obtain d5 where d5: "gateway_reserve id None None 3000 brokered_db demo_authorized = (d5, Inr demo_authorized)"
    using demo_reserve by blast
  obtain x where x: "reserveGatewayReceipt 3000 brokered_db (gateway_receipt id None None 3000 demo_authorized)
      (gateway_budget demo_authorized) = Inr (d5, (True, x))"
    using gateway_reserve_Inr(2) [OF d5] by blast
  obtain g where g: "receipts d5 = receipts brokered_db @ [g]" "gr_invocation_id g = ''I''"
    "gr_run_id g = ec_run_id (au_claims demo_authorized)"
    "gr_request_digest g = stableDigest id (request_json (au_invocation demo_authorized))"
    by (rule reserve_new [OF brokered_inv x]) (use that in \<open>force simp: demo_authorized_def\<close>)
  have r: "receipts d5 = [g]" using g(1) by (simp add: brokered_db_def)
  obtain d6 reply where f: "gateway_finish id 7 NoFault 3500 d5 demo_authorized (Inr demo_adapter_result) = (d6, reply)"
    by fastforce
  have i: "cr_invocationId (au_invocation demo_authorized) = ''I''" by (simp add: demo_authorized_def)
  have "keyed gr_invocation_id (receipts d5)" "receipt_of d5 (cr_invocationId (au_invocation demo_authorized)) = Some g"
    using g(2) r by (simp_all add: keyed_def receipt_of_def sql_find_def i)
  from stored_result_is_replayed [OF this g(3) f, of "[]" demo_authorized None None 4000] d5 f g(4)
  show ?thesis by auto
qed

section \<open>Unknown callers\<close>

text \<open>A request without a workload identity reaches no provider and changes nothing. It is
  answered 403, although the status of its \<open>AuthorizationError\<close> is 401: the handler of the route
  catches the error before the service's error handler sees it.\<close>

theorem unauthenticated_invocation_is_403:
  "gateway_invoke (G\<lparr>gw_resolver := ServiceTokenPrincipalResolver grants\<rparr>) call d [] envelope body
     = (d, Failure 403 ''authorization.principal_unauthenticated'')
   \<and> auth_response internal (AuthorizationError ''authorization.principal_unauthenticated'')
     = Failure 401 ''authorization.principal_unauthenticated''"
proof -
  have "guard_require v (ServiceTokenPrincipalResolver grants) [] CapabilityRead resource
      = Inl (AuthorizationError ''authorization.principal_unauthenticated'')" for v resource
    by (simp add: guard_require_def resolve_service_def first_value_def starts_with_def)
  moreover have "expectedDenial ''authorization.principal_unauthenticated''"
    by (simp add: expectedDenial_def starts_with_def)
  ultimately show ?thesis
    by (simp add: gateway_invoke_def gateway_authorize_def auth_code_def gateway_failure_def auth_response_def
        authorization_status_def)
qed

end
