(* ===== verification/CaseApi.thy ===== *)
theory CaseApi
  imports Broker CaseEvidence
begin

text \<open>
  The service in front of the case store: apps/case-api/src/app.ts and execution-authority.ts. A
  route is the authorization of its caller, the parse of its body and one call of the case store.
  The execution-envelope header is the token it holds. Spans, logs and the health routes are left
  out. A body is what the schema parsed, or None where it did not.
\<close>

section \<open>Authority of a workload\<close>

definition case_grants :: "env \<Rightarrow> service_grant list" where
  "case_grants env = (let tenantId = or_else (env ''LOCAL_DEFAULT_TENANT_ID'') ''tenant_demo'' in
     (if present env ''EDGE_SERVICE_TOKEN'' then [\<lparr>sg_token = the (env ''EDGE_SERVICE_TOKEN''),
        sg_subjectId = ''control-surface-edge'', sg_roles = [''Edge.Delegate''], sg_tenantId = tenantId\<rparr>] else [])
     @ (if present env ''RUNTIME_SERVICE_TOKEN'' then [\<lparr>sg_token = the (env ''RUNTIME_SERVICE_TOKEN''),
        sg_subjectId = ''harness-runtime'', sg_roles = [''Case.Api.Access''], sg_tenantId = tenantId\<rparr>] else []))"

definition verifyCaseWriteAuthority :: "'tok jose \<Rightarrow> time \<Rightarrow> 'tok option \<Rightarrow> string \<Rightarrow> envelope_claims case_result" where
  "verifyCaseWriteAuthority J now envelope secret = (case envelope of
       None \<Rightarrow> Inl (Refused ''authorization.execution_envelope_required'' 401)
     | Some token \<Rightarrow>
         guard_result (secret \<noteq> []) (Refused ''authorization.envelope_verifier_unavailable'' 503)
         (case verifyExecutionEnvelope J (seconds now) token secret of
            Inl _ \<Rightarrow> Inl (Refused ''authorization.execution_envelope_invalid'' 403)
          | Inr ec \<Rightarrow> Inr ec))"

definition assertCommandWithinEnvelope :: "business_command \<Rightarrow> envelope_claims \<Rightarrow> unit case_result" where
  "assertCommandWithinEnvelope c ec =
     guard_result (cmd_commandType c \<in> set (ec_case_writes ec)) (Refused ''authorization.command_not_declared'' 403)
     (guard_result (auth_planDigest (cmd_authority c) = ec_plan_digest ec)
        (Refused ''authorization.command_plan_mismatch'' 403)
     (guard_result (auth_permissionEnvelopeDigest (cmd_authority c) = ec_permission_digest ec)
        (Refused ''authorization.command_permission_mismatch'' 403)
     (guard_result (\<not> (actor_type (cmd_actor c) = AGENT \<and> nonempty (actor_executionId (cmd_actor c))
          \<and> the (actor_executionId (cmd_actor c)) \<noteq> ec_run_id ec))
        (Refused ''authorization.command_execution_mismatch'' 403) (Inr ()))))"

definition executionSubject :: "envelope_claims \<Rightarrow> string" where
  "executionSubject ec = ''run:'' @ ec_run_id ec @ ''#'' @ ec_node_id ec"

definition isWorkload :: "principal \<Rightarrow> bool" where
  "isWorkload p \<longleftrightarrow> pr_actorType p = WorkloadActor"

definition assertActorTypePermitted :: "business_command \<Rightarrow> principal \<Rightarrow> unit case_result" where
  "assertActorTypePermitted c p = guard_result (\<not> (\<not> isWorkload p \<and> actor_type (cmd_actor c) = AGENT))
     (Refused ''authorization.agent_actor_requires_execution'' 403) (Inr ())"

section \<open>The service\<close>

record 'tok case_api =
  ap_jose :: "'tok jose"
  ap_verify :: jwt_verifier
  ap_workloadResolver :: resolver
  ap_executionSecret :: string
  ap_store :: case_store

definition buildCaseApi :: "'tok jose \<Rightarrow> jwt_verifier \<Rightarrow> (string \<Rightarrow> bool) \<Rightarrow> env \<Rightarrow> case_store \<Rightarrow> 'tok case_api result" where
  "buildCaseApi J verify url_ok env store =
     bind_result (createWorkloadResolverFromEnv url_ok (case_grants env) env) (\<lambda>resolver.
     bind_result (isAzureMode env) (\<lambda>azure.
       Inr \<lparr>ap_jose = J, ap_verify = verify, ap_workloadResolver = resolver,
            ap_executionSecret = or_else (env (if azure then ''EXECUTION_ENVELOPE_PUBLIC_KEY_PEM''
              else ''EXECUTION_ENVELOPE_SECRET'')) [], ap_store = store\<rparr>))"

definition requestedTenant :: "headers \<Rightarrow> string option" where
  "requestedTenant hs = trim_or_undefined (first_value hs ''x-tenant-id'')"

definition case_authorize :: "'tok case_api \<Rightarrow> headers \<Rightarrow> platform_action \<Rightarrow> string \<Rightarrow> string option \<Rightarrow> auth_failure + principal" where
  "case_authorize A hs action kind' i = guard_require (ap_verify A)
     (if map_of hs ''x-actor-id'' \<noteq> None then DelegatedPrincipalResolver (ap_workloadResolver A) else ap_workloadResolver A)
     hs action \<lparr>rs_kind = kind', rs_id = i, rs_tenantId = requestedTenant hs\<rparr>"

fun case_error_reply :: "case_failure \<Rightarrow> 'a response" where
  "case_error_reply (Refused c s) = Failure s c"
| "case_error_reply _ = Failure 500 ''case_store.internal_error''"

definition idempotency_header :: "headers \<Rightarrow> string" where
  \<comment> \<open>\<open>String(headers["idempotency-key"] ?? "")\<close>\<close>
  "idempotency_header hs = (case map_of hs ''idempotency-key'' of None \<Rightarrow> []
     | Some (One v) \<Rightarrow> v | Some (Many vs) \<Rightarrow> join '','' vs)"

definition replying :: "'d \<Rightarrow> ('d \<times> 'a) case_result \<Rightarrow> ('a \<Rightarrow> nat) \<Rightarrow> 'd \<times> 'a response" where
  "replying d r status = (case r of Inl e \<Rightarrow> (d, case_error_reply e) | Inr (d', x) \<Rightarrow> (d', Reply (status x) x))"

definition workload_authority :: "'tok case_api \<Rightarrow> time \<Rightarrow> principal \<Rightarrow> 'tok option \<Rightarrow> unit case_result" where
  "workload_authority A now p envelope = (if isWorkload p
     then bind_result (verifyCaseWriteAuthority (ap_jose A) now envelope (ap_executionSecret A)) (\<lambda>_. Inr ()) else Inr ())"

section \<open>Routes that write\<close>

definition create_route :: "'tok case_api \<Rightarrow> time \<Rightarrow> draws \<Rightarrow> case_db \<Rightarrow> headers \<Rightarrow> 'tok option \<Rightarrow> create_case_request option
     \<Rightarrow> case_db \<times> (bool \<times> json \<times> json) response" where
  "create_route A now uuid d hs envelope body = (case case_authorize A hs CaseWrite ''case'' None of
       Inl f \<Rightarrow> (d, auth_response ''case_store.internal_error'' f)
     | Inr p \<Rightarrow> (case workload_authority A now p envelope of
         Inl e \<Rightarrow> (d, case_error_reply e)
       | Inr _ \<Rightarrow> (case body of
           None \<Rightarrow> (d, Failure 400 ''case.request_invalid'')
         | Some r \<Rightarrow>
           if \<not> create_case_request_ok r then (d, Failure 400 ''case.request_invalid'')
           else if ccr_tenantId r \<noteq> pr_tenantId p then (d, Failure 403 ''authorization.tenant_mismatch'')
           else replying d (createKycCase (ap_store A) now uuid d r (idempotency_header hs))
                  (\<lambda>(created, _). if created then 201 else 200))))"

definition command_authority :: "'tok case_api \<Rightarrow> time \<Rightarrow> principal \<Rightarrow> 'tok option \<Rightarrow> business_command \<Rightarrow> unit case_result" where
  "command_authority A now p envelope c = (if isWorkload p
     then bind_result (verifyCaseWriteAuthority (ap_jose A) now envelope (ap_executionSecret A)) (assertCommandWithinEnvelope c)
     else assertActorTypePermitted c p)"

definition command_route :: "'tok case_api \<Rightarrow> time \<Rightarrow> time \<Rightarrow> draws \<Rightarrow> case_db \<Rightarrow> headers \<Rightarrow> 'tok option \<Rightarrow> string
     \<Rightarrow> business_command option \<Rightarrow> case_db \<times> entries response" where
  "command_route A t1 t2 uuid d hs envelope caseId body = (case case_authorize A hs CaseWrite ''case'' (Some caseId) of
       Inl f \<Rightarrow> (d, auth_response ''case_store.internal_error'' f)
     | Inr p \<Rightarrow> (case body of
         None \<Rightarrow> (d, Failure 400 ''command.request_invalid'')
       | Some c \<Rightarrow>
         if \<not> business_command_ok c then (d, Failure 400 ''command.request_invalid'')
         else if cmd_caseId c \<noteq> caseId then (d, Failure 400 ''command.case_id_mismatch'')
         else if cmd_tenantId c \<noteq> pr_tenantId p then (d, Failure 403 ''authorization.tenant_mismatch'')
         else (case command_authority A t1 p envelope c of
             Inl e \<Rightarrow> (d, case_error_reply e)
           | Inr _ \<Rightarrow> replying d (submitBusinessCommand (ap_store A) t1 t2 uuid d c) (\<lambda>_. 200))))"

definition register_route :: "'tok case_api \<Rightarrow> time \<Rightarrow> draws \<Rightarrow> case_db \<Rightarrow> headers \<Rightarrow> 'tok option \<Rightarrow> register_evidence_request option
     \<Rightarrow> case_db \<times> (bool \<times> json) response" where
  "register_route A now uuid d hs envelope body = (case case_authorize A hs EvidenceWrite ''evidence'' None of
       Inl f \<Rightarrow> (d, auth_response ''case_store.internal_error'' f)
     | Inr p \<Rightarrow> (case workload_authority A now p envelope of
         Inl e \<Rightarrow> (d, case_error_reply e)
       | Inr _ \<Rightarrow> (case body of
           None \<Rightarrow> (d, Failure 400 ''evidence.request_invalid'')
         | Some r \<Rightarrow>
           if \<not> register_evidence_request_ok r then (d, Failure 400 ''evidence.request_invalid'')
           else if rer_tenantId r \<noteq> pr_tenantId p then (d, Failure 403 ''authorization.tenant_mismatch'')
           else replying d (registerEvidence (ap_store A) now uuid d r (idempotency_header hs))
                  (\<lambda>(created, _). if created then 201 else 200))))"

section \<open>Routes that read\<close>

definition reading :: "(auth_failure + principal) \<Rightarrow> (principal \<Rightarrow> 'a response) \<Rightarrow> 'a response" where
  "reading auth k = (case auth of Inl f \<Rightarrow> auth_response ''case_store.internal_error'' f | Inr p \<Rightarrow> k p)"

definition found :: "code \<Rightarrow> 'a option \<Rightarrow> 'a response" where
  "found c x = (case x of None \<Rightarrow> Failure 404 c | Some v \<Rightarrow> Reply 200 v)"

definition list_route :: "'tok case_api \<Rightarrow> case_db \<Rightarrow> headers \<Rightarrow> string option \<Rightarrow> int option \<Rightarrow> json list response" where
  \<comment> \<open>\<open>status\<close> and \<open>limit\<close> are of the query; a missing or empty one is none\<close>
  "list_route A d hs status limit = reading (case_authorize A hs CaseRead ''case'' None) (\<lambda>p.
     case (if status = Some [] then None else status) of
       None \<Rightarrow> Reply 200 (listCases d (pr_tenantId p) None limit)
     | Some s' \<Rightarrow> (case parse_case_status (JStr s') of
         None \<Rightarrow> Failure 400 ''case.status_invalid''
       | Some s \<Rightarrow> Reply 200 (listCases d (pr_tenantId p) (Some s) limit)))"

definition view_route :: "'tok case_api \<Rightarrow> time \<Rightarrow> case_db \<Rightarrow> headers \<Rightarrow> string \<Rightarrow> case_view response" where
  "view_route A now d hs caseId = reading (case_authorize A hs CaseRead ''case'' (Some caseId))
     (\<lambda>p. found ''case.not_found'' (getCaseView now d (pr_tenantId p) caseId))"

definition events_route :: "'tok case_api \<Rightarrow> case_db \<Rightarrow> headers \<Rightarrow> string \<Rightarrow> nat \<Rightarrow> case_event_row list response" where
  "events_route A d hs caseId after = reading (case_authorize A hs EventRead ''case'' (Some caseId))
     (\<lambda>p. Reply 200 (listCaseEvents d (pr_tenantId p) caseId after))"

definition verify_route :: "'tok case_api \<Rightarrow> case_db \<Rightarrow> headers \<Rightarrow> string \<Rightarrow> ledger_check response" where
  "verify_route A d hs caseId = reading (case_authorize A hs CaseRead ''case'' (Some caseId))
     (\<lambda>p. Reply 200 (verifyCaseLedger (ap_store A) d (pr_tenantId p) caseId))"

definition evidence_route :: "'tok case_api \<Rightarrow> case_db \<Rightarrow> headers \<Rightarrow> string \<Rightarrow> (evidence_object_row \<times> artifact_row) response" where
  "evidence_route A d hs evidenceId = reading (case_authorize A hs EvidenceRead ''evidence'' (Some evidenceId))
     (\<lambda>p. found ''evidence.not_found'' (getEvidence d (pr_tenantId p) evidenceId))"

end
