(* ===== verification/CaseApiClaims.thy ===== *)
theory CaseApiClaims
  imports CaseApi ReviewClaims BrokerClaims
begin

text \<open>
  What the service in front of the case store lets through: the commands of an agent stay within
  what the admitted plan declares for its node; and what it does not look at, the actor a command
  names.
\<close>

section \<open>Accepted commands\<close>

lemma verifyCaseWriteAuthority_Inr:
  "verifyCaseWriteAuthority J now envelope secret = Inr c \<longleftrightarrow>
     (\<exists>token. envelope = Some token \<and> secret \<noteq> [] \<and> verifyExecutionEnvelope J (seconds now) token secret = Inr c)"
  by (auto simp: verifyCaseWriteAuthority_def split: option.splits sum.splits)

lemma command_route_Reply:
  assumes "command_route A t1 t2 uuid d hs envelope caseId body = (d', Reply status response)"
  obtains p c where "case_authorize A hs CaseWrite ''case'' (Some caseId) = Inr p" and "body = Some c"
    and "cmd_caseId c = caseId" and "cmd_tenantId c = pr_tenantId p"
    and "command_authority A t1 p envelope c = Inr ()"
    and "submitBusinessCommand (ap_store A) t1 t2 uuid d c = Inr (d', response)"
  using assms that
  by (auto simp: command_route_def replying_def auth_response_def
      split: sum.splits option.splits if_splits auth_failure.splits elim!: case_error_reply.elims)

text \<open>C24. A command of an agent that the service executes is one the plan admitted: with an
  envelope the broker issued, it is of a type the plan of the run declares for the node, names that
  plan and the permission of that node, and is about the case and the tenant the caller was
  authorized for; and the envelope was issued less than two minutes before.\<close>

theorem agent_commands_stay_within_the_plan:
  assumes "jose_laws (ap_jose A) pair"
    and "issueExecutionEnvelope (ap_jose A) deps now e1 e2 e3 grantToken request = Inr issued"
    and "command_route A t1 t2 uuid d hs (Some (is_envelope issued)) caseId body = (d', Reply status response)"
    and "case_authorize A hs CaseWrite ''case'' (Some caseId) = Inr p" and "isWorkload p"
  shows "\<exists>c ec run plan permission. body = Some c
    \<and> submitBusinessCommand (ap_store A) t1 t2 uuid d c = Inr (d', response)
    \<and> cmd_caseId c = caseId \<and> cmd_tenantId c = pr_tenantId p
    \<and> verifyExecutionEnvelope (ap_jose A) (seconds t1) (is_envelope issued) (ap_executionSecret A) = Inr ec
    \<and> getRun e1 (ec_run_id ec) None = Some run \<and> run_status run = Running
    \<and> getPlan e3 (run_plan_digest run) None = Some plan \<and> permission \<in> set (plan_permissionEnvelopes plan)
    \<and> cmd_commandType c \<in> set (declaredCaseWrites plan (perm_nodeId permission))
    \<and> auth_planDigest (cmd_authority c) = plan_planDigest plan
    \<and> auth_permissionEnvelopeDigest (cmd_authority c) = perm_digest permission
    \<and> seconds t1 < seconds now + 122"
  using assms(3)
proof (rule command_route_Reply)
  fix p' c
  assume p': "case_authorize A hs CaseWrite ''case'' (Some caseId) = Inr p'" and c: "body = Some c"
    "cmd_caseId c = caseId" "cmd_tenantId c = pr_tenantId p'"
    "command_authority A t1 p' (Some (is_envelope issued)) c = Inr ()"
    "submitBusinessCommand (ap_store A) t1 t2 uuid d c = Inr (d', response)"
  have p: "p' = p" using p' assms(4) by simp
  obtain ec where ec: "verifyExecutionEnvelope (ap_jose A) (seconds t1) (is_envelope issued) (ap_executionSecret A) = Inr ec"
    "assertCommandWithinEnvelope c ec = Inr ()"
    using c(4) assms(5) by (auto simp: command_authority_def p bind_result_Inr_iff verifyCaseWriteAuthority_Inr)
  have w: "cmd_commandType c \<in> set (ec_case_writes ec)" "auth_planDigest (cmd_authority c) = ec_plan_digest ec"
    "auth_permissionEnvelopeDigest (cmd_authority c) = ec_permission_digest ec"
    using ec(2) by (auto simp: assertCommandWithinEnvelope_def)
  obtain run plan permission where "getRun e1 (ec_run_id ec) None = Some run" "run_status run = Running" "getPlan e3 (run_plan_digest run) None = Some plan"
    "permission \<in> set (plan_permissionEnvelopes plan)" "perm_nodeId permission = ec_node_id ec"
    "ec_plan_digest ec = plan_planDigest plan" "ec_permission_digest ec = perm_digest permission"
    "ec_case_writes ec = declaredCaseWrites plan (ec_node_id ec)" "seconds t1 < seconds now + 122"
    using issued_authority [OF assms(1,2) ec(1)] by blast
  then show ?thesis using c w p ec(1)
    by (intro exI [of _ c] exI [of _ ec] exI [of _ run] exI [of _ plan] exI [of _ permission]) simp
qed

section \<open>A decision by an agent\<close>

text \<open>The case of the review examples, opened for the plan of the broker examples, and the command
  that decides it, as the runtime sends it: the plan declares \<open>FinalizeDisposition\<close> for its node.\<close>

definition planned_case :: case_row where
  "planned_case = review_case\<lparr>cs_harness_plan_digest := demo_digest (CHR ''a''),
     cs_policy_snapshot_digest := demo_digest (CHR ''c'')\<rparr>"

definition planned_db :: case_db where
  "planned_db = review_db\<lparr>cases := [planned_case]\<rparr>"

definition agents_command :: business_command where
  "agents_command = demo_command\<lparr>cmd_authority := \<lparr>auth_planDigest = demo_digest (CHR ''a''),
     auth_permissionEnvelopeDigest = demo_digest (CHR ''b''), auth_policySnapshotDigest = demo_digest (CHR ''c'')\<rparr>\<rparr>"

definition case_service :: "(algorithm \<times> string \<times> entries) case_api" where
  "case_service = \<lparr>ap_jose = ideal_jose, ap_verify = (\<lambda>_ _. None),
     ap_workloadResolver = ServiceTokenPrincipalResolver [\<lparr>sg_token = ''rt'', sg_subjectId = ''harness-runtime'',
       sg_roles = [''Case.Api.Access''], sg_tenantId = ''acme''\<rparr>],
     ap_executionSecret = demo_secret, ap_store = demo_store\<rparr>"

definition runtime_headers :: headers where
  "runtime_headers = [(''authorization'', One ''Bearer rt'')]"

definition the_runtime :: principal where
  "the_runtime = \<lparr>pr_subjectId = ''harness-runtime'', pr_tenantId = ''acme'', pr_actorType = WorkloadActor,
     pr_roles = [''Case.Api.Access''], pr_source = SourceLocal\<rparr>"

abbreviation demo_envelope :: "algorithm \<times> string \<times> entries" where
  "demo_envelope \<equiv> (HS256, demo_secret, envelope_payload 2 demo_envelope_mint)"

lemma runtime_authorized: "case_authorize case_service runtime_headers CaseWrite ''case'' i = Inr the_runtime"
  by (simp add: case_authorize_def guard_require_def case_service_def runtime_headers_def resolve_service_def
      first_value_def starts_with_def constantTimeEquals_def requestedTenant_def trim_or_undefined_def
      authorize_def evaluate_def decision_base_def ROLE_ACTIONS_def inherited_members_def the_runtime_def)

lemma agents_command_ok: "business_command_ok agents_command"
  by (simp add: business_command_ok_def agents_command_def demo_command_def case_actor_ok_def analyst_def
      case_authority_ok_def sha256_digest_ok_def demo_digest_ok is_hex_def)

lemma agents_submit:
  "\<exists>d' response x. submitBusinessCommand demo_store 3000 8 demo_uuid planned_db agents_command = Inr (d', response)
     \<and> find_case d' (''acme'', ''c1'') = Some x \<and> cs_status x = APPROVED"
proof -
  have "\<exists>t' m. applyMutation demo_store 3000 demo_uuid agents_command planned_case (evidence planned_db) (core planned_db)
      = Inr (t', m) \<and> mu_nextStatus m = Some APPROVED \<and> length (mu_lineage m) = 1"
    by (simp add: applyMutation_def apply_FinalizeDisposition_def planned_case_def planned_db_def agents_command_def
      demo_defs cx_actor_def cx_key_def human_authority_def payload_at_def obj_get_def requiredString_def enumValue_def
      gate_authorizes_def sql_find_def open_material_def given_id_def optionalString_def sql_insert_def
      string_list_or_empty_def nullish_def stringArray_def edges_def)
  then obtain t' m where m: "applyMutation demo_store 3000 demo_uuid agents_command planned_case (evidence planned_db)
      (core planned_db) = Inr (t', m)" "mu_nextStatus m = Some APPROVED" "length (mu_lineage m) = 1" by blast
  have "\<exists>d' response x. submitBusinessCommand demo_store 3000 8 demo_uuid planned_db agents_command = Inr (d', response)
     \<and> find_case d' (command_key agents_command) = Some (advance_case m 8 planned_case) \<and> core d' = t'
     \<and> command_receipts (ledger_of d') = [x] \<and> rp_idempotency_key x = cmd_idempotencyKey agents_command"
    by (rule fresh_accept [OF _ _ _ _ _ _ _ _ _ _ _ m(1,3)])
      (simp_all add: planned_db_def planned_case_def agents_command_def demo_defs find_case_def sql_find_def
        command_key_def case_key_of_def)
  moreover have "command_key agents_command = (''acme'', ''c1'')"
    by (simp add: agents_command_def demo_command_def command_key_def)
  ultimately show ?thesis using m(2) by (auto simp: advance_case_def)
qed

lemma agents_authority: "command_authority case_service 3000 the_runtime (Some demo_envelope) agents_command = Inr ()"
proof -
  have "assertCommandWithinEnvelope agents_command (minted_claims 2 demo_envelope_mint) = Inr ()"
    by (simp add: assertCommandWithinEnvelope_def agents_command_def demo_command_def analyst_def minted_claims_def
      demo_envelope_mint_def envelope_for_def demo_request_def brokered_plan_def declaredCaseWrites_def obj_get_def
      parse_command_type_def all_commands_def js_set_def)
  then show ?thesis
    by (simp add: command_authority_def isWorkload_def the_runtime_def verifyCaseWriteAuthority_def case_service_def
      seconds_def demo_envelope_verifies demo_secret_def [symmetric]) (simp add: demo_secret_def)
qed

lemma agents_route:
  "\<exists>d' response x. command_route case_service 3000 8 demo_uuid planned_db runtime_headers (Some demo_envelope) ''c1''
       (Some agents_command) = (d', Reply 200 response)
     \<and> submitBusinessCommand demo_store 3000 8 demo_uuid planned_db agents_command = Inr (d', response)
     \<and> find_case d' (''acme'', ''c1'') = Some x \<and> cs_status x = APPROVED"
proof -
  obtain d' response x where s: "submitBusinessCommand demo_store 3000 8 demo_uuid planned_db agents_command = Inr (d', response)"
    "find_case d' (''acme'', ''c1'') = Some x" "cs_status x = APPROVED" using agents_submit by blast
  have "cmd_caseId agents_command = ''c1''" "cmd_tenantId agents_command = pr_tenantId the_runtime"
    "ap_store case_service = demo_store"
    by (simp_all add: agents_command_def demo_command_def the_runtime_def case_service_def)
  then have "command_route case_service 3000 8 demo_uuid planned_db runtime_headers (Some demo_envelope) ''c1''
       (Some agents_command) = (d', Reply 200 response)"
    using s(1) by (simp add: command_route_def runtime_authorized agents_command_ok agents_authority replying_def)
  then show ?thesis using s by blast
qed

theorem agent_commands_stay_within_the_plan_witness:
  "\<exists>c permission. c = agents_command \<and> permission \<in> set (plan_permissionEnvelopes brokered_plan)
     \<and> cmd_commandType c \<in> set (declaredCaseWrites brokered_plan (perm_nodeId permission))"
proof -
  obtain d' response where r: "command_route case_service 3000 8 demo_uuid planned_db runtime_headers (Some demo_envelope) ''c1''
       (Some agents_command) = (d', Reply 200 response)" using agents_route by blast
  have J: "ap_jose case_service = ideal_jose" "ap_executionSecret case_service = demo_secret" by (simp_all add: case_service_def)
  have w: "isWorkload the_runtime" by (simp add: isWorkload_def the_runtime_def)
  have run: "ec_run_id (minted_claims 2 demo_envelope_mint) = ''RUN-1''"
    by (simp add: minted_claims_def envelope_for_def demo_request_def demo_envelope_mint_def)
  have v: "verifyExecutionEnvelope ideal_jose (seconds 3000) demo_envelope demo_secret = Inr (minted_claims 2 demo_envelope_mint)"
    using demo_envelope_verifies by (simp add: seconds_def)
  have r': "command_route case_service 3000 8 demo_uuid planned_db runtime_headers
      (Some (is_envelope \<lparr>is_envelope = (HS256, demo_secret, envelope_payload 2 (envelope_for demo_deps demo_request brokered_plan
       (hd (plan_permissionEnvelopes brokered_plan)) 1)), is_expiresInSeconds = 60, is_caseWrites = [FinalizeDisposition]\<rparr>)) ''c1''
       (Some agents_command) = (d', Reply 200 response)"
    using r by (simp add: demo_envelope_mint_def)
  show ?thesis
    using agent_commands_stay_within_the_plan [of case_service, unfolded J, OF ideal_jose_laws demo_issue r' runtime_authorized w]
      v run by (auto simp: demo_reads brokered_row demo_envelope_mint_def)
qed

text \<open>That only a human decides holds of what a command says, not of who sends it: the service
  compares neither the type of the actor nor his name and roles with the caller. Here the token of
  the runtime, with an envelope the broker issued, decides a case in the name of an analyst.\<close>

theorem runtime_decides_as_a_human:
  "case_authorize case_service runtime_headers CaseWrite ''case'' (Some ''c1'') = Inr the_runtime
   \<and> isWorkload the_runtime \<and> cmd_actor agents_command = analyst \<and> actor_type analyst = HUMAN
   \<and> (\<exists>d' response x. command_route case_service 3000 8 demo_uuid planned_db runtime_headers (Some demo_envelope) ''c1''
         (Some agents_command) = (d', Reply 200 response)
       \<and> find_case d' (''acme'', ''c1'') = Some x \<and> cs_status x = APPROVED)"
  using agents_route runtime_authorized
  by (auto simp: isWorkload_def the_runtime_def agents_command_def demo_command_def analyst_def)

end
