(* ===== verification/Http.thy ===== *)
theory Http
  imports Broker JsonText
begin

text \<open>
  Calls over HTTP. An action threads the state of the world through its calls and stops at the first
  error, as a chain of awaits does; \<open>fetch\<close> is a parameter of its type. A body travels as JSON text,
  so what arrives is \<open>bare\<close> of the value; a reply whose text does not parse has no body.
\<close>

section \<open>Actions\<close>

type_synonym ('w, 'a) act = "'w \<Rightarrow> 'w \<times> 'a result"

definition yield :: "'a \<Rightarrow> ('w, 'a) act" where
  "yield x = (\<lambda>w. (w, Inr x))"

definition throw :: "code \<Rightarrow> ('w, 'a) act" where
  "throw c = (\<lambda>w. (w, Inl c))"

definition then_do :: "('w, 'a) act \<Rightarrow> ('a \<Rightarrow> ('w, 'b) act) \<Rightarrow> ('w, 'b) act" where
  "then_do m f = (\<lambda>w. case m w of (w', Inl c) \<Rightarrow> (w', Inl c) | (w', Inr x) \<Rightarrow> f x w')"

definition lift_act :: "'a result \<Rightarrow> ('w, 'a) act" where
  "lift_act r = (\<lambda>w. (w, r))"

definition caught :: "('w, 'a) act \<Rightarrow> (code \<Rightarrow> ('w, 'a) act) \<Rightarrow> ('w, 'a) act" where
  \<comment> \<open>\<open>try ... catch\<close>\<close>
  "caught m h = (\<lambda>w. case m w of (w', Inl c) \<Rightarrow> h c w' | (w', Inr x) \<Rightarrow> (w', Inr x))"

named_theorems act_simps \<open>facts about actions\<close>

lemma act_apply [act_simps]:
  "yield x w = (w, Inr x)" "throw c w = (w, Inl c)" "lift_act r w = (w, r)"
  by (simp_all add: yield_def throw_def lift_act_def)

lemma then_do_apply [act_simps]:
  "m w = (w', Inl c) \<Longrightarrow> then_do m f w = (w', Inl c)"
  "m w = (w', Inr x) \<Longrightarrow> then_do m f w = f x w'"
  by (simp_all add: then_do_def)

lemma then_do_Inr:
  assumes "then_do m f w = (w'', Inr y)"
  obtains w' x where "m w = (w', Inr x)" and "f x w' = (w'', Inr y)"
  using assms by (auto simp: then_do_def split: prod.splits sum.splits)

section \<open>Requests\<close>

record http_request =
  rq_method :: string
  rq_url :: string
  rq_headers :: "(string \<times> string) list"
  rq_body :: "json option"

datatype http_reply = NetworkError code | HttpReply nat "json option"

type_synonym 'w fetch = "http_request \<Rightarrow> 'w \<Rightarrow> 'w \<times> http_reply"

definition exchange :: "'w fetch \<Rightarrow> http_request \<Rightarrow> ('w, nat \<times> json option) act" where
  \<comment> \<open>\<open>await fetch(...)\<close>\<close>
  "exchange fetch r = (\<lambda>w. case fetch r w of
       (w', NetworkError c) \<Rightarrow> (w', Inl c) | (w', HttpReply s b) \<Rightarrow> (w', Inr (s, b)))"

definition ok_status :: "nat \<Rightarrow> bool" where
  \<comment> \<open>\<open>response.ok\<close>\<close>
  "ok_status s \<longleftrightarrow> 200 \<le> s \<and> s \<le> 299"

definition reply_json :: "json option \<Rightarrow> ('w, json) act" where
  \<comment> \<open>\<open>await response.json()\<close>\<close>
  "reply_json b = (case b of None \<Rightarrow> throw ''SyntaxError'' | Some v \<Rightarrow> yield v)"

definition member_of :: "json \<Rightarrow> string \<Rightarrow> json result" where
  \<comment> \<open>\<open>body.k\<close> of a parsed body\<close>
  "member_of v k = (case v of JObj es \<Rightarrow> Inr (obj_get es k) | JNull \<Rightarrow> Inl ''TypeError'' | JUndef \<Rightarrow> Inl ''TypeError''
     | _ \<Rightarrow> Inr JUndef)"

definition bearer :: "string \<Rightarrow> string \<times> string" where
  "bearer token = (''authorization'', ''Bearer '' @ token)"

definition json_content :: "string \<times> string" where
  "json_content = (''content-type'', ''application/json'')"

definition sent :: "json \<Rightarrow> json option" where
  "sent v = Some (bare v)"

text \<open>\<open>encodeURIComponent\<close>, of code units below 256.\<close>

definition unreserved :: "char \<Rightarrow> bool" where
  "unreserved c \<longleftrightarrow> (let n = of_char c :: nat in (97 \<le> n \<and> n \<le> 122) \<or> (65 \<le> n \<and> n \<le> 90)
     \<or> (48 \<le> n \<and> n \<le> 57) \<or> c \<in> set (''-_.!~*()'' @ [CHR 39]))"

definition upper_hex :: "nat \<Rightarrow> char" where
  "upper_hex n = (if n < 10 then char_of (48 + n) else char_of (55 + n))"

definition percent :: "nat \<Rightarrow> string" where
  "percent n = [CHR 37, upper_hex (n div 16), upper_hex (n mod 16)]"

definition encode_char :: "char \<Rightarrow> string" where
  "encode_char c = (let n = of_char c :: nat in if unreserved c then [c] else if n < 128 then percent n
     else percent (192 + n div 64) @ percent (128 + n mod 64))"

definition encodeURIComponent :: "string \<Rightarrow> string" where
  "encodeURIComponent s = concat (map encode_char s)"

section \<open>Credentials of a workload\<close>

text \<open>A token, or a function that fetches one; the text is what \<open>String\<close> makes of the function.\<close>

datatype 'w credential = StaticToken string | TokenProvider string "('w, string) act"

definition workloadToken :: "'w credential \<Rightarrow> ('w, string) act" where
  "workloadToken c = (case c of StaticToken t \<Rightarrow> yield t | TokenProvider src get' \<Rightarrow> get')"

definition credential_text :: "'w credential \<Rightarrow> string" where
  \<comment> \<open>the credential in a template literal\<close>
  "credential_text c = (case c of StaticToken t \<Rightarrow> t | TokenProvider src get' \<Rightarrow> src)"

end
