(* ===== verification/Provider.thy ===== *)
theory Provider
  imports Http IsoTime
begin

text \<open>
  packages/runtime-provider/src/index.ts: the two providers a dispatcher reaches a runtime through,
  how one is chosen from the environment, and what it makes of the answers. Fetching a token from
  the Azure credential is an action of the environment.
\<close>

section \<open>Messages\<close>

definition plan_json :: "harness_plan \<Rightarrow> json" where
  "plan_json p = (case plan_content p of
       JObj es \<Rightarrow> JObj ([(''planId'', JStr (plan_planId p)), (''planDigest'', JStr (plan_planDigest p))] @ es) | v \<Rightarrow> v)"

definition invocation_json :: "runtime_invocation \<Rightarrow> json" where
  "invocation_json i = JObj [(''contractVersion'', JStr ''runtime.invocation.v1''),
     (''invocationId'', JStr (inv_invocationId i)), (''runId'', JStr (inv_runId i)), (''attempt'', JInt (inv_attempt i)),
     (''workerId'', JStr (inv_workerId i)), (''leaseId'', JStr (inv_leaseId i)),
     (''fencingEpoch'', JInt (inv_fencingEpoch i)), (''deadlineAt'', JStr (toISOString (inv_deadlineAt i))),
     (''planDigest'', JStr (inv_planDigest i)), (''executionProfileDigest'', JStr (inv_executionProfileDigest i)),
     (''executionGrant'', JStr (inv_executionGrant i)), (''plan'', plan_json (inv_plan i)), (''input'', inv_input i)]"

definition string_record :: "json \<Rightarrow> (string \<times> string) list option" where
  \<comment> \<open>\<open>z.record(z.string(), z.string()).default({})\<close>\<close>
  "string_record v = (case v of JUndef \<Rightarrow> Some []
     | JObj es \<Rightarrow> all_some (map (\<lambda>(k, x). map_option (Pair k) (parse_string x)) es) | _ \<Rightarrow> None)"

definition parse_result_status :: "string \<Rightarrow> result_status option" where
  "parse_result_status s = map_of [(''completed'', ResCompleted), (''denied'', ResDenied), (''failed'', ResFailed)] s"

definition parse_runtime_result :: "json \<Rightarrow> runtime_result option" where
  "parse_runtime_result v = (case v of JObj es \<Rightarrow>
     (if strict_object [''contractVersion'', ''invocationId'', ''runId'', ''status'', ''output'', ''errorCode'',
          ''checkpointId'', ''providerMetadata''] es \<and> obj_get es ''contractVersion'' = JStr ''runtime.result.v1'' then
      (case (required_field nonblank es ''invocationId'', required_field nonblank es ''runId'',
             Option.bind (required_field (\<lambda>s. True) es ''status'') parse_result_status,
             nullable_field nonblank es ''errorCode'', nullable_field (\<lambda>s. True) es ''checkpointId'',
             string_record (obj_get es ''providerMetadata'')) of
         (Some i, Some r, Some st, Some e, Some c, Some m) \<Rightarrow> Some \<lparr>res_invocationId = i, res_runId = r, res_status = st,
            res_output = obj_get es ''output'', res_errorCode = e, res_checkpointId = c, res_providerMetadata = m\<rparr>
       | _ \<Rightarrow> None) else None)
   | _ \<Rightarrow> None)"

definition invocation_states :: "(string \<times> invocation_state) list" where
  "invocation_states = [(''pending'', InvPending), (''running'', InvRunning), (''completed'', InvCompleted),
     (''failed'', InvFailed), (''cancelled'', InvCancelled), (''unknown'', InvUnknown)]"

record runtime_status =
  sta_invocationId :: string
  sta_state :: invocation_state
  sta_providerMetadata :: "(string \<times> string) list"

definition parse_runtime_status :: "json \<Rightarrow> runtime_status option" where
  "parse_runtime_status v = (case v of JObj es \<Rightarrow>
     (if strict_object [''contractVersion'', ''invocationId'', ''state'', ''providerMetadata''] es
         \<and> obj_get es ''contractVersion'' = JStr ''runtime.status.v1'' then
      (case (required_field nonblank es ''invocationId'',
             Option.bind (required_field (\<lambda>s. True) es ''state'') (map_of invocation_states),
             string_record (obj_get es ''providerMetadata'')) of
         (Some i, Some st, Some m) \<Rightarrow> Some \<lparr>sta_invocationId = i, sta_state = st, sta_providerMetadata = m\<rparr>
       | _ \<Rightarrow> None) else None)
   | _ \<Rightarrow> None)"

definition unknownStatus :: "string \<Rightarrow> runtime_status" where
  "unknownStatus i = \<lparr>sta_invocationId = i, sta_state = InvUnknown, sta_providerMetadata = []\<rparr>"

section \<open>Requests to a provider\<close>

definition fetchStatus :: "'w fetch \<Rightarrow> string \<Rightarrow> string \<Rightarrow> string \<Rightarrow> ('w, runtime_status) act" where
  "fetchStatus fetch endpoint token i =
     then_do (exchange fetch \<lparr>rq_method = ''GET'', rq_url = endpoint @ ''/'' @ encodeURIComponent i,
         rq_headers = [bearer token], rq_body = None\<rparr>) (\<lambda>(status, body).
     if \<not> ok_status status then yield (unknownStatus i)
     else then_do (reply_json body) (\<lambda>v. yield (or_else (parse_runtime_status v) (unknownStatus i))))"

definition postCancel :: "'w fetch \<Rightarrow> string \<Rightarrow> string \<Rightarrow> string \<Rightarrow> string \<Rightarrow> ('w, unit) act" where
  "postCancel fetch endpoint token i reason =
     then_do (exchange fetch \<lparr>rq_method = ''POST'', rq_url = endpoint @ ''/'' @ encodeURIComponent i @ ''/cancel'',
         rq_headers = [bearer token, json_content], rq_body = sent (JObj [(''reason'', JStr reason)])\<rparr>) (\<lambda>(status, body).
     if \<not> ok_status status \<and> status \<noteq> 404 then throw (''runtime.cancel_http_'' @ nat_text status) else yield ())"

definition has_member :: "json \<Rightarrow> string \<Rightarrow> json option" where
  \<comment> \<open>\<open>body && typeof body === "object" && k in body\<close>, and the member\<close>
  "has_member v k = (case v of JObj es \<Rightarrow> map_of es k | _ \<Rightarrow> None)"

definition postInvocation :: "'w fetch \<Rightarrow> string \<Rightarrow> string \<Rightarrow> bool \<Rightarrow> runtime_invocation \<Rightarrow> ('w, runtime_result) act" where
  "postInvocation fetch endpoint token wrapMessage request =
     then_do (exchange fetch \<lparr>rq_method = ''POST'', rq_url = endpoint, rq_headers = [bearer token, json_content],
         rq_body = sent (if wrapMessage then JObj [(''message'', invocation_json request)] else invocation_json request)\<rparr>)
     (\<lambda>(status, body). then_do (reply_json body) (\<lambda>v.
       if \<not> ok_status status then throw (case has_member v ''error'' of Some e \<Rightarrow> js_string e
           | None \<Rightarrow> ''runtime.provider_http_'' @ nat_text status)
       else (case parse_runtime_result (or_else (has_member v ''result'') v) of
           None \<Rightarrow> throw ''ZodError'' | Some r \<Rightarrow> yield r)))"

section \<open>Providers\<close>

datatype provider = LocalHttp_provider string string | AzureFoundry_provider string string string string

fun provider_kind_name :: "provider \<Rightarrow> string" where
  "provider_kind_name (LocalHttp_provider endpoint token) = ''local_http''"
| "provider_kind_name (AzureFoundry_provider endpoint agent version scope) = ''azure_foundry''"

fun executionProfileDigest :: "(string \<Rightarrow> string) \<Rightarrow> provider \<Rightarrow> string" where
  "executionProfileDigest sha (LocalHttp_provider endpoint token) = stableDigest sha (JObj
     [(''contractVersion'', JStr ''runtime.invocation.v1''), (''provider'', JStr ''local_http''), (''endpoint'', JStr endpoint)])"
| "executionProfileDigest sha (AzureFoundry_provider endpoint agent version scope) = stableDigest sha (JObj
     [(''contractVersion'', JStr ''runtime.invocation.v1''), (''provider'', JStr ''azure_foundry''), (''endpoint'', JStr endpoint),
      (''agentName'', JStr agent), (''agentVersion'', JStr version)])"

definition without_slash :: "string \<Rightarrow> string" where
  "without_slash s = (if s \<noteq> [] \<and> last s = CHR ''/'' then butlast s else s)"

definition azure_token :: "(string \<Rightarrow> ('w, string option) act) \<Rightarrow> string \<Rightarrow> ('w, string) act" where
  "azure_token getToken scope = then_do (getToken scope) (\<lambda>t. case t of
       Some tok \<Rightarrow> if tok = [] then throw ''runtime.azure_token_missing'' else yield tok
     | None \<Rightarrow> throw ''runtime.azure_token_missing'')"

fun provider_invoke :: "'w fetch \<Rightarrow> (string \<Rightarrow> ('w, string option) act) \<Rightarrow> provider \<Rightarrow> runtime_invocation \<Rightarrow> ('w, runtime_result) act" where
  "provider_invoke fetch getToken (LocalHttp_provider endpoint token) request =
     (if runtime_invocation_ok request then postInvocation fetch endpoint token False request else throw ''ZodError'')"
| "provider_invoke fetch getToken (AzureFoundry_provider endpoint agent version scope) request =
     (if runtime_invocation_ok request
      then then_do (azure_token getToken scope) (\<lambda>token. postInvocation fetch endpoint token True request)
      else throw ''ZodError'')"

fun provider_status :: "'w fetch \<Rightarrow> (string \<Rightarrow> ('w, string option) act) \<Rightarrow> provider \<Rightarrow> string \<Rightarrow> ('w, runtime_status) act" where
  "provider_status fetch getToken (LocalHttp_provider endpoint token) i = fetchStatus fetch (without_slash endpoint) token i"
| "provider_status fetch getToken (AzureFoundry_provider endpoint agent version scope) i =
     then_do (azure_token getToken scope) (\<lambda>token. fetchStatus fetch (without_slash endpoint) token i)"

fun provider_cancel :: "'w fetch \<Rightarrow> (string \<Rightarrow> ('w, string option) act) \<Rightarrow> provider \<Rightarrow> string \<Rightarrow> string \<Rightarrow> ('w, unit) act" where
  "provider_cancel fetch getToken (LocalHttp_provider endpoint token) i reason =
     postCancel fetch (without_slash endpoint) token i reason"
| "provider_cancel fetch getToken (AzureFoundry_provider endpoint agent version scope) i reason =
     then_do (azure_token getToken scope) (\<lambda>token. postCancel fetch (without_slash endpoint) token i reason)"

definition provider_env :: "env \<Rightarrow> string \<Rightarrow> string result" where
  \<comment> \<open>\<open>requiredEnv\<close>\<close>
  "provider_env env name = (if present env name then Inr (the (env name)) else Inl (''runtime.config_missing:'' @ name))"

definition createRuntimeProviderFromEnv :: "env \<Rightarrow> provider result" where
  "createRuntimeProviderFromEnv env = (let kind = or_else (env ''RUNTIME_PROVIDER'') ''local_http'' in
     if kind = ''local_http'' then bind_result (provider_env env ''RUNTIME_HOST_AUTH_TOKEN'') (\<lambda>token.
       Inr (LocalHttp_provider (or_else (env ''RUNTIME_LOCAL_ENDPOINT'') ''http://runtime-host-local:8088/invocations'') token))
     else if kind = ''azure_foundry'' then
       bind_result (provider_env env ''FOUNDRY_AGENT_INVOCATION_ENDPOINT'') (\<lambda>endpoint.
       bind_result (provider_env env ''FOUNDRY_AGENT_NAME'') (\<lambda>agent.
       bind_result (provider_env env ''FOUNDRY_AGENT_VERSION'') (\<lambda>version.
         Inr (AzureFoundry_provider endpoint agent version
           (or_else (env ''FOUNDRY_TOKEN_SCOPE'') ''https://ai.azure.com/.default'')))))
     else Inl (''runtime.provider_unsupported:'' @ kind))"

end
