(* ===== verification/Worker.thy ===== *)
theory Worker
  imports Provider
begin

text \<open>
  apps/runtime-worker/src/worker.ts: what a dispatcher slot does with one run. Every database call is
  one statement, with its own time, before which other transactions may run (\<open>we_meanwhile\<close>), and it
  may lose its connection before the statement is executed or after it committed (\<open>we_fault\<close>). The
  heartbeat renews the lease and reads the cancellation marker during the provider call; here it is
  part of what happens meanwhile, and its two signals are inputs. Telemetry, the best-effort cancel
  request to the provider and the process loop's timers are left out.
\<close>

section \<open>Configuration\<close>

record dispatcher =
  wk_jose :: "string jose"
  wk_sha :: "string \<Rightarrow> string"
  wk_env :: env
  wk_grantSecret :: string
  wk_leaseSeconds :: int
  wk_retryBaseMs :: int
  wk_retryMaxMs :: int

definition retryable :: "code \<Rightarrow> bool" where
  "retryable code \<longleftrightarrow> (if has_sub code ''denied'' \<or> has_sub code ''authorization'' \<or> has_sub code ''stale_fence'' then False
     else \<not> starts_with code ''runtime.plan_'' \<and> \<not> starts_with code ''langgraph.'' \<and> \<not> has_sub code ''contract'')"

definition backoffMs :: "dispatcher \<Rightarrow> nat \<Rightarrow> int" where
  "backoffMs D attempt = min (wk_retryMaxMs D) (wk_retryBaseMs D * 2 ^ (attempt - 1))"

definition requestedTargets :: "harness_plan \<Rightarrow> string list" where
  "requestedTargets plan = js_set (concat (map (\<lambda>n. case obj_get (node_config n) ''runtimeTarget'' of
       JStr t \<Rightarrow> if t \<in> {''local_http'', ''azure_foundry''} then [t] else [] | _ \<Rightarrow> []) (plan_nodes plan)))"

definition chosenProvider :: "dispatcher \<Rightarrow> harness_plan \<Rightarrow> provider result" where
  "chosenProvider D plan = (case requestedTargets plan of
       [] \<Rightarrow> createRuntimeProviderFromEnv (wk_env D)
     | [t] \<Rightarrow> createRuntimeProviderFromEnv ((wk_env D)(''RUNTIME_PROVIDER'' \<mapsto> t))
     | _ \<Rightarrow> Inl ''runtime.provider_mixed_targets_unsupported'')"

section \<open>One iteration\<close>

record work_env =
  we_clock :: "nat \<Rightarrow> time"
  we_meanwhile :: "nat \<Rightarrow> db \<Rightarrow> db"
  we_fault :: "nat \<Rightarrow> (bool \<times> code) option"
  we_locked :: "string list"
  we_span :: "string \<times> string \<times> int"
  we_call :: "provider \<Rightarrow> runtime_invocation \<Rightarrow> runtime_result result"
  we_cancelled :: bool
  we_leaseLost :: bool

definition statement :: "work_env \<Rightarrow> nat \<Rightarrow> (time \<Rightarrow> db \<Rightarrow> 'a txn) \<Rightarrow> (db, 'a) act" where
  \<comment> \<open>a fault is an error of the connection, and says whether the statement had been committed\<close>
  "statement E k f = (\<lambda>d. let d' = we_meanwhile E k d in
     case f (we_clock E k) d' of
       Inl c \<Rightarrow> (d', Inl (case we_fault E k of None \<Rightarrow> c | Some (_, c') \<Rightarrow> c'))
     | Inr (d'', x) \<Rightarrow> (case we_fault E k of None \<Rightarrow> (d'', Inr x)
         | Some (committed, c) \<Rightarrow> (if committed then d'' else d', Inl c)))"

definition run_event :: "work_env \<Rightarrow> nat \<Rightarrow> run_row \<Rightarrow> string \<Rightarrow> event_status \<Rightarrow> entries \<Rightarrow> (db, unit) act" where
  \<comment> \<open>the event \<open>run.<name>\<close> under the key \<open>run:<attempt>:<name>\<close>\<close>
  "run_event E k run name status vals = then_do (statement E k (\<lambda>now d. appendEvent now d (run_id run)
     (''run:'' @ nat_text (run_attempt run) @ '':'' @ name) (''run.'' @ name) None status vals)) (\<lambda>_. yield ())"

definition trace_value :: "work_env \<Rightarrow> string \<times> json" where
  "trace_value E = (''traceId'', JStr (fst (we_span E)))"

definition recordTerminalFailure :: "work_env \<Rightarrow> nat \<Rightarrow> string \<Rightarrow> provider \<Rightarrow> run_row \<Rightarrow> code \<Rightarrow> bool \<Rightarrow> (db, unit) act" where
  "recordTerminalFailure E k slot provider run code denied =
     then_do (statement E k (\<lambda>now d. completeRun now d (run_id run) slot (run_fencing_epoch run)
         (if denied then Denied else Failed) (if denied then ''denied'' else ''failed'')
         (JObj [(''error'', JStr code)]) (Some code))) (\<lambda>_.
     run_event E (k + 1) run ''failed'' (if denied then EvDenied else EvFailed)
       [(''errorCode'', JStr code), trace_value E, (''runtimeProvider'', JStr (provider_kind_name provider))])"

definition handleFailure :: "dispatcher \<Rightarrow> work_env \<Rightarrow> nat \<Rightarrow> string \<Rightarrow> provider \<Rightarrow> run_row \<Rightarrow> code \<Rightarrow> bool \<Rightarrow> (db, unit) act" where
  "handleFailure D E k slot provider run code denied =
     (if \<not> denied \<and> retryable code
      then then_do (statement E k (\<lambda>now d. Inr (scheduleRunRetry now d (run_id run) slot (run_fencing_epoch run) code
             (backoffMs D (run_attempt run))))) (\<lambda>scheduled.
           if scheduled then run_event E (k + 1) run ''retrying'' Observed [(''errorCode'', JStr code),
               (''attempt'', JInt (int (run_attempt run))), trace_value E]
           else recordTerminalFailure E (k + 2) slot provider run code denied)
      else recordTerminalFailure E (k + 2) slot provider run code denied)"

definition invocation_id :: "dispatcher \<Rightarrow> run_row \<Rightarrow> string" where
  "invocation_id D run = ''INV-'' @ take 32 (stableDigest (wk_sha D) (JObj [(''runId'', JStr (run_id run)),
     (''attempt'', JInt (int (run_attempt run))), (''fencingEpoch'', JInt (int (run_fencing_epoch run)))]))"

definition dispatch_grant :: "dispatcher \<Rightarrow> string \<Rightarrow> run_row \<Rightarrow> harness_plan \<Rightarrow> mint_grant" where
  "dispatch_grant D slot run plan = \<lparr>mg_secret = wk_grantSecret D, mg_grantId = invocation_id D run,
     mg_runId = run_id run, mg_attempt = run_attempt run, mg_workerId = slot, mg_planDigest = run_plan_digest run,
     mg_fencingEpoch = run_fencing_epoch run,
     mg_ttlSeconds = - ((- maxDurationMs (plan_budgets plan)) div 1000) + 30\<rparr>"

definition dispatch_invocation :: "dispatcher \<Rightarrow> work_env \<Rightarrow> string \<Rightarrow> provider \<Rightarrow> run_row \<Rightarrow> harness_plan \<Rightarrow> string \<Rightarrow> runtime_invocation" where
  "dispatch_invocation D E slot provider run plan grant = \<lparr>inv_invocationId = invocation_id D run,
     inv_runId = run_id run, inv_attempt = int (run_attempt run), inv_workerId = slot,
     inv_leaseId = run_id run @ '':'' @ nat_text (run_attempt run) @ '':'' @ nat_text (run_fencing_epoch run),
     inv_fencingEpoch = int (run_fencing_epoch run),
     inv_deadlineAt = we_clock E 4 + maxDurationMs (plan_budgets plan), inv_planDigest = run_plan_digest run,
     inv_executionProfileDigest = executionProfileDigest (wk_sha D) provider, inv_executionGrant = grant,
     inv_plan = plan, inv_input = run_input run\<rparr>"

fun result_status_name :: "result_status \<Rightarrow> string" where
  "result_status_name ResCompleted = ''completed''" | "result_status_name ResDenied = ''denied''"
| "result_status_name ResFailed = ''failed''"

definition settle :: "dispatcher \<Rightarrow> work_env \<Rightarrow> string \<Rightarrow> provider \<Rightarrow> run_row \<Rightarrow> runtime_result \<Rightarrow> (db, unit) act" where
  "settle D E slot provider run res =
     (if res_status res = ResCompleted
      then then_do (statement E 5 (\<lambda>now d. completeRun now d (run_id run) slot (run_fencing_epoch run) Completed
             ''completed'' (res_output res) None)) (\<lambda>_.
           run_event E 6 run ''completed'' Passed (obj_spread [trace_value E,
               (''runtimeProvider'', JStr (provider_kind_name provider))]
             (map (\<lambda>(k, v). (k, JStr v)) (res_providerMetadata res))))
      else handleFailure D E 5 slot provider run
             (or_else (res_errorCode res) (''runtime.'' @ result_status_name (res_status res)))
             (res_status res = ResDenied))"

definition attemptRun :: "dispatcher \<Rightarrow> work_env \<Rightarrow> string \<Rightarrow> provider \<Rightarrow> run_row \<Rightarrow> harness_plan \<Rightarrow> (db, unit) act" where
  "attemptRun D E slot provider run plan =
     then_do (lift_act (mintRuntimeGrant (wk_jose D) (seconds (we_clock E 4)) (dispatch_grant D slot run plan))) (\<lambda>grant.
     then_do (lift_act (we_call E provider (dispatch_invocation D E slot provider run plan grant)))
       (settle D E slot provider run))"

definition onError :: "dispatcher \<Rightarrow> work_env \<Rightarrow> string \<Rightarrow> provider \<Rightarrow> run_row \<Rightarrow> code \<Rightarrow> (db, unit) act" where
  "onError D E slot provider run message =
     (let code = (if we_cancelled E then ''runtime.cancelled'' else if we_leaseLost E then ''runtime.lease_lost'' else message) in
      if code = ''runtime.cancelled''
      then then_do (statement E 10 (\<lambda>now d. Inr (completeCancelledRun now d (run_id run) (Some code)))) (\<lambda>_.
           run_event E 11 run ''cancelled'' Observed [trace_value E, (''runtimeProvider'', JStr (provider_kind_name provider))])
      else if code = ''runtime.lease_lost'' then yield ()
      else handleFailure D E 10 slot provider run code (has_sub code ''denied''))"

definition executeRun :: "dispatcher \<Rightarrow> work_env \<Rightarrow> string \<Rightarrow> provider \<Rightarrow> run_row \<Rightarrow> harness_plan \<Rightarrow> (db, unit) act" where
  "executeRun D E slot provider run plan =
     caught (attemptRun D E slot provider run plan) (onError D E slot provider run)"

definition startRun :: "dispatcher \<Rightarrow> work_env \<Rightarrow> string \<Rightarrow> provider \<Rightarrow> run_row \<Rightarrow> (db, unit) act" where
  "startRun D E slot provider run = (case we_span E of (traceId, spanId, flags) \<Rightarrow>
     then_do (statement E 2 (\<lambda>now d. bindRunTrace now d (run_id run) (run_attempt run) slot (run_fencing_epoch run)
         traceId spanId flags ''harness-runtime-dispatcher'')) (\<lambda>_.
     run_event E 3 run ''started'' Observed [(''workerId'', JStr slot), (''fencingEpoch'', JInt (int (run_fencing_epoch run))),
       trace_value E, (''runtimeProvider'', JStr (provider_kind_name provider)),
       (''executionProfileDigest'', JStr (executionProfileDigest (wk_sha D) provider))]))"

definition workOnce :: "dispatcher \<Rightarrow> work_env \<Rightarrow> string \<Rightarrow> (db, bool) act" where
  "workOnce D E slot =
     then_do (statement E 0 (\<lambda>now d. Inr (claimRun (\<lambda>i. i \<in> set (we_locked E)) now d slot (wk_leaseSeconds D)))) (\<lambda>claimed.
     case claimed of None \<Rightarrow> yield False | Some run \<Rightarrow>
       then_do (statement E 1 (\<lambda>now d. Inr (d, getPlan d (run_plan_digest run) None))) (\<lambda>found.
       case found of None \<Rightarrow> throw ''runtime.plan_missing'' | Some plan \<Rightarrow>
         then_do (lift_act (chosenProvider D plan)) (\<lambda>provider.
         then_do (startRun D E slot provider run) (\<lambda>_.
         then_do (executeRun D E slot provider run plan) (\<lambda>_. yield True)))))"

text \<open>One round of \<open>runSlot\<close>: an error of the iteration is swallowed, and an idle first slot sweeps,
  whose errors are swallowed too.\<close>

definition slotRound :: "dispatcher \<Rightarrow> work_env \<Rightarrow> nat \<Rightarrow> string \<Rightarrow> db \<Rightarrow> db" where
  "slotRound D E slot workerId d = (case workOnce D E (workerId @ '':'' @ nat_text slot) d of
       (d', r) \<Rightarrow> if r = Inr True \<or> slot \<noteq> 0 then d'
         else fst (then_do (statement E 20 (\<lambda>now d. Inr (failExhaustedRuns now d)))
                (\<lambda>_. statement E 21 (\<lambda>now d. Inr (finalizeAbandonedCancellations now d))) d'))"

end
