(* ===== verification/WorkerClaims.thy ===== *)
theory WorkerClaims
  imports Worker JournalClaims
begin

text \<open>
  What a dispatcher does to the ledger: every iteration, however it is interleaved and wherever it
  fails, issues only the commands that the outcome of its own claim permits; the outcome of a run is
  what its runtime answered; and a run that cannot be dispatched never ends.
\<close>

section \<open>What a dispatcher writes\<close>

text \<open>What the provider answered to the invocation of this claim.\<close>

definition answered :: "dispatcher \<Rightarrow> work_env \<Rightarrow> string \<Rightarrow> run_row \<Rightarrow> harness_plan \<Rightarrow> provider \<Rightarrow> runtime_result \<Rightarrow> bool" where
  "answered D E slot run plan p res \<longleftrightarrow>
     (\<exists>grant. mintRuntimeGrant (wk_jose D) (seconds (we_clock E 4)) (dispatch_grant D slot run plan) = Inr grant
        \<and> we_call E p (dispatch_invocation D E slot p run plan grant) = Inr res)"

text \<open>The errors an invocation can meet: of the signing, of the call, of a connection, and the
  refusals of the ledger.\<close>

definition errored :: "dispatcher \<Rightarrow> work_env \<Rightarrow> string \<Rightarrow> run_row \<Rightarrow> harness_plan \<Rightarrow> provider \<Rightarrow> code \<Rightarrow> bool" where
  "errored D E slot run plan p c \<longleftrightarrow>
     mintRuntimeGrant (wk_jose D) (seconds (we_clock E 4)) (dispatch_grant D slot run plan) = Inl c
     \<or> (\<exists>grant. mintRuntimeGrant (wk_jose D) (seconds (we_clock E 4)) (dispatch_grant D slot run plan) = Inr grant
          \<and> we_call E p (dispatch_invocation D E slot p run plan grant) = Inl c)
     \<or> (\<exists>k committed. we_fault E k = Some (committed, c))
     \<or> c \<in> {''runtime.stale_fence'', ''event.run_missing'', ''sql.constraint_violation''}"

text \<open>The failures that may be recorded: the provider's answer, or an error while neither signal is up.\<close>

definition failed_with :: "dispatcher \<Rightarrow> work_env \<Rightarrow> string \<Rightarrow> run_row \<Rightarrow> harness_plan \<Rightarrow> provider \<Rightarrow> code \<Rightarrow> bool \<Rightarrow> bool" where
  "failed_with D E slot run plan p c denied \<longleftrightarrow>
     (\<exists>res. answered D E slot run plan p res \<and> res_status res = (if denied then ResDenied else ResFailed)
        \<and> c = or_else (res_errorCode res) (if denied then ''runtime.denied'' else ''runtime.failed''))
     \<or> errored D E slot run plan p c \<and> \<not> we_cancelled E \<and> \<not> we_leaseLost E \<and> denied = has_sub c ''denied''"

text \<open>The commands a slot may issue for the run it claimed: always for that run, as itself and under
  the fence of that claim; completed only with the output the provider answered, failed or denied
  only with a failure, another attempt only after one that permits it, cancelled only on the signal
  or an error that says so (the store then asks for the cancellation marker of the row).\<close>

fun own_write :: "dispatcher \<Rightarrow> work_env \<Rightarrow> string \<Rightarrow> run_row \<Rightarrow> harness_plan \<Rightarrow> provider \<Rightarrow> run_op \<Rightarrow> bool" where
  "own_write D E slot run plan p (OpTrace rid a w e t s fl sv) \<longleftrightarrow> rid = run_id run \<and> a = run_attempt run
     \<and> w = slot \<and> e = run_fencing_epoch run \<and> (t, s, fl) = we_span E"
| "own_write D E slot run plan p (OpComplete rid w e st outcome out ec) \<longleftrightarrow> rid = run_id run
     \<and> w = slot \<and> e = run_fencing_epoch run
     \<and> ((\<exists>res. answered D E slot run plan p res \<and> res_status res = ResCompleted
            \<and> (st, outcome, out, ec) = (Completed, ''completed'', res_output res, None))
        \<or> (\<exists>c. failed_with D E slot run plan p c False
            \<and> (st, outcome, out, ec) = (Failed, ''failed'', JObj [(''error'', JStr c)], Some c))
        \<or> (\<exists>c. failed_with D E slot run plan p c True
            \<and> (st, outcome, out, ec) = (Denied, ''denied'', JObj [(''error'', JStr c)], Some c)))"
| "own_write D E slot run plan p (OpRetry rid w e c delay) \<longleftrightarrow> rid = run_id run \<and> w = slot
     \<and> e = run_fencing_epoch run \<and> failed_with D E slot run plan p c False \<and> retryable c
     \<and> delay = min (wk_retryMaxMs D) (wk_retryBaseMs D * 2 ^ (run_attempt run - 1))"
| "own_write D E slot run plan p (OpCompleteCancelled rid ec) \<longleftrightarrow> rid = run_id run
     \<and> (we_cancelled E \<or> errored D E slot run plan p ''runtime.cancelled'')"
| "own_write D E slot run plan p (OpEvent rid ek c n st vs) \<longleftrightarrow> rid = run_id run \<and> n = None
     \<and> (\<exists>name. ek = ''run:'' @ nat_text (run_attempt run) @ '':'' @ name \<and> c = ''run.'' @ name
        \<and> ((name, st) = (''started'', Observed)
           \<or> (name, st) = (''completed'', Passed) \<and> (\<exists>res. answered D E slot run plan p res \<and> res_status res = ResCompleted)
           \<or> (name, st) = (''failed'', EvFailed) \<and> (\<exists>c. failed_with D E slot run plan p c False)
           \<or> (name, st) = (''failed'', EvDenied) \<and> (\<exists>c. failed_with D E slot run plan p c True)
           \<or> (name, st) = (''retrying'', Observed) \<and> (\<exists>c. failed_with D E slot run plan p c False \<and> retryable c)
           \<or> (name, st) = (''cancelled'', Observed)
              \<and> (we_cancelled E \<or> errored D E slot run plan p ''runtime.cancelled'')))"
| "own_write D E slot run plan p _ \<longleftrightarrow> False"

text \<open>A script says at which statements the slot was, and the command that took effect there, if any;
  before each of them, what others did.\<close>

definition played :: "work_env \<Rightarrow> (nat \<Rightarrow> (time \<times> run_op) list) \<Rightarrow> (nat \<times> run_op option) list \<Rightarrow> (time \<times> run_op) list" where
  "played E others script = concat (map (\<lambda>(k, own). others k
     @ (case own of None \<Rightarrow> [] | Some c \<Rightarrow> [(we_clock E k, c)])) script)"

lemma played_simps [simp]:
  "played E others [] = []" "played E others (xs @ ys) = played E others xs @ played E others ys"
  by (simp_all add: played_def)

definition scripted :: "(string \<Rightarrow> string) \<Rightarrow> work_env \<Rightarrow> (nat \<Rightarrow> (time \<times> run_op) list) \<Rightarrow> (run_op \<Rightarrow> bool)
    \<Rightarrow> nat \<Rightarrow> nat \<Rightarrow> (code \<Rightarrow> bool) \<Rightarrow> (db, 'a) act \<Rightarrow> bool" where
  \<comment> \<open>a script of permitted commands between two statement numbers, raising only certain errors\<close>
  "scripted sha E others Q lo hi R m \<longleftrightarrow> (\<forall>d. \<exists>script.
     fst (m d) = run_steps (ledger_step sha) d (played E others script)
     \<and> sorted_wrt (<) (map fst script)
     \<and> (\<forall>(k, own) \<in> set script. lo \<le> k \<and> k < hi \<and> (\<forall>c. own = Some c \<longrightarrow> Q c))
     \<and> (\<forall>c. snd (m d) = Inl c \<longrightarrow> R c))"

named_theorems script_intros \<open>actions that play a script of permitted commands\<close>

lemma scripted_pure [script_intros]:
  "scripted sha E others Q lo hi R (yield x)" "R c \<Longrightarrow> scripted sha E others Q lo hi R (throw c)"
  by (auto simp: scripted_def act_simps intro!: exI [of _ "[]"])

lemma scripted_raise:
  assumes "scripted sha E others Q lo hi R m" and "\<And>c. R c \<Longrightarrow> R' c"
  shows "scripted sha E others Q lo hi R' m"
  using assms unfolding scripted_def by meson

lemma scripted_from:
  assumes "scripted sha E others Q lo hi R m" and "lo' \<le> lo" and "hi \<le> hi'"
  shows "scripted sha E others Q lo' hi' R m"
  unfolding scripted_def
proof
  fix d
  obtain s where "fst (m d) = run_steps (ledger_step sha) d (played E others s)" "sorted_wrt (<) (map fst s)"
    "\<forall>(k, own) \<in> set s. lo \<le> k \<and> k < hi \<and> (\<forall>c. own = Some c \<longrightarrow> Q c)" "\<forall>c. snd (m d) = Inl c \<longrightarrow> R c"
    using assms(1) unfolding scripted_def by blast
  then show "\<exists>s. fst (m d) = run_steps (ledger_step sha) d (played E others s) \<and> sorted_wrt (<) (map fst s)
    \<and> (\<forall>(k, own) \<in> set s. lo' \<le> k \<and> k < hi' \<and> (\<forall>c. own = Some c \<longrightarrow> Q c)) \<and> (\<forall>c. snd (m d) = Inl c \<longrightarrow> R c)"
    using assms(2,3) by (intro exI [of _ s]) fastforce
qed

lemma then_do_lift: "then_do (lift_act (Inl c)) f = throw c" "then_do (lift_act (Inr x)) f = f x"
  by (simp_all add: then_do_def act_simps fun_eq_iff)

lemma scripted_chain:
  assumes "script_ok = (\<lambda>lo hi s. sorted_wrt (<) (map fst s) \<and> (\<forall>(k, own) \<in> set s. lo \<le> k \<and> k < hi \<and> (\<forall>c. own = Some c \<longrightarrow> Q c)))"
    and "script_ok lo mid s" and "script_ok mid hi s'" and "lo \<le> mid" and "mid \<le> hi"
  shows "script_ok lo (hi :: nat) (s @ s')"
  using assms by (fastforce simp: sorted_wrt_append)

lemma scripted_then [script_intros]:
  assumes m: "scripted sha E others Q lo mid R m" and f: "\<And>x. scripted sha E others Q mid hi R (f x)"
    and le: "lo \<le> mid" "mid \<le> hi"
  shows "scripted sha E others Q lo hi R (then_do m f)"
  unfolding scripted_def
proof
  fix d
  obtain s where s: "fst (m d) = run_steps (ledger_step sha) d (played E others s)" "sorted_wrt (<) (map fst s)"
    "\<forall>(k, own) \<in> set s. lo \<le> k \<and> k < mid \<and> (\<forall>c. own = Some c \<longrightarrow> Q c)" "\<forall>c. snd (m d) = Inl c \<longrightarrow> R c"
    using m unfolding scripted_def by blast
  show "\<exists>s. fst (then_do m f d) = run_steps (ledger_step sha) d (played E others s) \<and> sorted_wrt (<) (map fst s)
    \<and> (\<forall>(k, own) \<in> set s. lo \<le> k \<and> k < hi \<and> (\<forall>c. own = Some c \<longrightarrow> Q c))
    \<and> (\<forall>c. snd (then_do m f d) = Inl c \<longrightarrow> R c)"
  proof (cases "snd (m d)")
    case (Inl c)
    then show ?thesis using s le by (intro exI [of _ s]) (cases "m d"; fastforce simp: then_do_def)
  next
    case (Inr x)
    obtain s' where s': "fst (f x (fst (m d))) = run_steps (ledger_step sha) (fst (m d)) (played E others s')"
      "sorted_wrt (<) (map fst s')" "\<forall>(k, own) \<in> set s'. mid \<le> k \<and> k < hi \<and> (\<forall>c. own = Some c \<longrightarrow> Q c)"
      "\<forall>c. snd (f x (fst (m d))) = Inl c \<longrightarrow> R c"
      using f [of x] unfolding scripted_def by blast
    have e: "then_do m f d = f x (fst (m d))" using Inr by (cases "m d") (simp add: then_do_def)
    show ?thesis unfolding e
      using scripted_chain [OF refl conjI [OF s(2,3)] conjI [OF s'(2,3)] le] s(1) s'(1,4)
      by (intro exI [of _ "s @ s'"]) (simp add: run_steps_append)
  qed
qed

lemma scripted_caught [script_intros]:
  assumes m: "scripted sha E others Q lo mid R m" and h: "\<And>c. R c \<Longrightarrow> scripted sha E others Q mid hi R' (h c)"
    and le: "lo \<le> mid" "mid \<le> hi"
  shows "scripted sha E others Q lo hi R' (caught m h)"
  unfolding scripted_def
proof
  fix d
  obtain s where s: "fst (m d) = run_steps (ledger_step sha) d (played E others s)" "sorted_wrt (<) (map fst s)"
    "\<forall>(k, own) \<in> set s. lo \<le> k \<and> k < mid \<and> (\<forall>c. own = Some c \<longrightarrow> Q c)" "\<forall>c. snd (m d) = Inl c \<longrightarrow> R c"
    using m unfolding scripted_def by blast
  show "\<exists>s. fst (caught m h d) = run_steps (ledger_step sha) d (played E others s) \<and> sorted_wrt (<) (map fst s)
    \<and> (\<forall>(k, own) \<in> set s. lo \<le> k \<and> k < hi \<and> (\<forall>c. own = Some c \<longrightarrow> Q c))
    \<and> (\<forall>c. snd (caught m h d) = Inl c \<longrightarrow> R' c)"
  proof (cases "snd (m d)")
    case (Inr x)
    then show ?thesis using s le by (intro exI [of _ s]) (cases "m d"; fastforce simp: caught_def)
  next
    case (Inl c)
    obtain s' where s': "fst (h c (fst (m d))) = run_steps (ledger_step sha) (fst (m d)) (played E others s')"
      "sorted_wrt (<) (map fst s')" "\<forall>(k, own) \<in> set s'. mid \<le> k \<and> k < hi \<and> (\<forall>c. own = Some c \<longrightarrow> Q c)"
      "\<forall>c'. snd (h c (fst (m d))) = Inl c' \<longrightarrow> R' c'"
      using h [of c] s(4) Inl unfolding scripted_def by blast
    have e: "caught m h d = h c (fst (m d))" using Inl by (cases "m d") (simp add: caught_def)
    show ?thesis unfolding e
      using scripted_chain [OF refl conjI [OF s(2,3)] conjI [OF s'(2,3)] le] s(1) s'(1,4)
      by (intro exI [of _ "s @ s'"]) (simp add: run_steps_append)
  qed
qed

definition interleaved :: "(string \<Rightarrow> string) \<Rightarrow> work_env \<Rightarrow> (nat \<Rightarrow> (time \<times> run_op) list) \<Rightarrow> bool" where
  "interleaved sha E others \<longleftrightarrow> (\<forall>k d. we_meanwhile E k d = run_steps (ledger_step sha) d (others k))"

lemma scripted_op:
  assumes E: "interleaved sha E others" and op: "\<And>now d. commit d (f now d) = ledger_step sha d (now, c)"
    and Q: "Q c" and R: "\<And>now d e. f now d = Inl e \<Longrightarrow> R e" "\<And>b e. we_fault E k = Some (b, e) \<Longrightarrow> R e"
    and k: "lo \<le> k" "k < hi"
  shows "scripted sha E others Q lo hi R (statement E k f)"
  unfolding scripted_def
proof
  fix d
  let ?d = "run_steps (ledger_step sha) d (others k)"
  have m: "we_meanwhile E k d = ?d" using E by (simp add: interleaved_def)
  have "fst (statement E k f d) \<in> {?d, commit ?d (f (we_clock E k) ?d)}"
    by (auto simp: statement_def Let_def m split: sum.splits option.splits)
  then have "\<exists>own \<in> {None, Some c}. fst (statement E k f d) = run_steps (ledger_step sha) d (played E others [(k, own)])"
    by (auto simp: op played_def run_steps_append)
  moreover have "\<forall>e. snd (statement E k f d) = Inl e \<longrightarrow> R e"
    by (auto simp: statement_def Let_def split: sum.splits option.splits if_splits dest: R)
  ultimately show "\<exists>script. fst (statement E k f d) = run_steps (ledger_step sha) d (played E others script)
     \<and> sorted_wrt (<) (map fst script) \<and> (\<forall>(k, own) \<in> set script. lo \<le> k \<and> k < hi \<and> (\<forall>c. own = Some c \<longrightarrow> Q c))
     \<and> (\<forall>c. snd (statement E k f d) = Inl c \<longrightarrow> R c)"
    using k Q by (elim bexE) (rule exI, rule conjI, assumption, auto)
qed


lemma refusals:
  "completeRun now d rid w e rs oc out ec = Inl x \<Longrightarrow> x = ''runtime.stale_fence''"
  "bindRunTrace now d rid a w e t s fl sv = Inl x \<Longrightarrow> x = ''runtime.stale_fence''"
  "appendEvent now d rid ek c n st vs = Inl x \<Longrightarrow> x \<in> {''event.run_missing'', ''sql.constraint_violation''}"
  by (auto simp: completeRun_def bindRunTrace_def appendEvent_def guard_result_def Let_def split: if_splits option.splits)

text \<open>One command of the slot, for a run it claimed, at a numbered statement.\<close>

lemma scripted_commands [script_intros]:
  fixes D :: dispatcher and E :: work_env and slot :: string and run :: run_row and plan :: harness_plan and p :: provider
  defines "Q \<equiv> own_write D E slot run plan p" and "R \<equiv> errored D E slot run plan p"
  assumes E: "interleaved sha E others" and k: "lo \<le> k" "k < hi"
  shows "Q (OpTrace rid a w e t s fl sv) \<Longrightarrow>
      scripted sha E others Q lo hi R (statement E k (\<lambda>now d. bindRunTrace now d rid a w e t s fl sv))"
    and "Q (OpEvent rid ek c n st vs) \<Longrightarrow>
      scripted sha E others Q lo hi R (statement E k (\<lambda>now d. appendEvent now d rid ek c n st vs))"
    and "Q (OpRetry rid w e c b) \<Longrightarrow>
      scripted sha E others Q lo hi R (statement E k (\<lambda>now d. Inr (scheduleRunRetry now d rid w e c b)))"
    and "Q (OpCompleteCancelled rid oc) \<Longrightarrow>
      scripted sha E others Q lo hi R (statement E k (\<lambda>now d. Inr (completeCancelledRun now d rid oc)))"
    and "Q (OpComplete rid w e fs out j ec) \<Longrightarrow>
      scripted sha E others Q lo hi R (statement E k (\<lambda>now d. completeRun now d rid w e fs out j ec))"
proof -
  have fault: "R e" if "we_fault E k = Some (b, e)" for b e
    unfolding R_def errored_def using that by blast
  have refusal: "R e" if "e \<in> {''runtime.stale_fence'', ''event.run_missing'', ''sql.constraint_violation''}" for e
    unfolding R_def errored_def using that by blast
  note op = scripted_op [OF E _ _ _ fault k]
  show "Q (OpTrace rid a w e t s fl sv) \<Longrightarrow>
      scripted sha E others Q lo hi R (statement E k (\<lambda>now d. bindRunTrace now d rid a w e t s fl sv))"
    by (rule op [where c = "OpTrace rid a w e t s fl sv"]) (auto dest!: refusals intro: refusal)
  show "Q (OpEvent rid ek c n st vs) \<Longrightarrow>
      scripted sha E others Q lo hi R (statement E k (\<lambda>now d. appendEvent now d rid ek c n st vs))"
    by (rule op [where c = "OpEvent rid ek c n st vs"]) (auto dest!: refusals intro: refusal)
  show "Q (OpRetry rid w e c b) \<Longrightarrow>
      scripted sha E others Q lo hi R (statement E k (\<lambda>now d. Inr (scheduleRunRetry now d rid w e c b)))"
    by (rule op [where c = "OpRetry rid w e c b"]) (simp_all add: commit_def split: prod.splits)
  show "Q (OpCompleteCancelled rid oc) \<Longrightarrow>
      scripted sha E others Q lo hi R (statement E k (\<lambda>now d. Inr (completeCancelledRun now d rid oc)))"
    by (rule op [where c = "OpCompleteCancelled rid oc"]) (simp_all add: commit_def split: prod.splits)
  assume "Q (OpComplete rid w e fs out j ec)"
  moreover from this have "terminal fs" by (auto simp: Q_def terminal_def)
  ultimately show "scripted sha E others Q lo hi R (statement E k (\<lambda>now d. completeRun now d rid w e fs out j ec))"
    by (intro op [where c = "OpComplete rid w e fs out j ec"]) (auto dest!: refusals intro: refusal)
qed

lemma scripted_event [script_intros]:
  assumes "interleaved sha E others" and "lo \<le> k" and "k < hi"
    and "own_write D E slot run plan p (OpEvent (run_id run) (''run:'' @ nat_text (run_attempt run) @ '':'' @ name)
           (''run.'' @ name) None st vs)"
  shows "scripted sha E others (own_write D E slot run plan p) lo hi (errored D E slot run plan p) (run_event E k run name st vs)"
  unfolding run_event_def
  by (rule scripted_then [OF scripted_commands(2) [OF assms(1,2) less_Suc_eq_le [THEN iffD2, OF order_refl], of D slot run plan p]])
     (use assms in \<open>auto intro: script_intros\<close>)


text \<open>The handlers play commands of the slot.\<close>

lemma scripted_failure [script_intros]:
  assumes E: "interleaved sha E others" and f: "failed_with D E slot run plan p c den" and k: "lo \<le> k"
  shows "k + 2 \<le> hi \<Longrightarrow> scripted sha E others (own_write D E slot run plan p) lo hi (errored D E slot run plan p)
      (recordTerminalFailure E k slot q run c den)"
    and "k + 4 \<le> hi \<Longrightarrow> scripted sha E others (own_write D E slot run plan p) lo hi (errored D E slot run plan p)
      (handleFailure D E k slot q run c den)"
proof -
  have rec: "scripted sha E others (own_write D E slot run plan p) lo hi (errored D E slot run plan p)
      (recordTerminalFailure E k slot q run c den)" if "lo \<le> k" "k + 2 \<le> hi" for k lo hi
    unfolding recordTerminalFailure_def using f that
    by (intro scripted_then [where mid = "k + 1"] scripted_commands scripted_event E) (cases den; auto)+
  show "k + 2 \<le> hi \<Longrightarrow> scripted sha E others (own_write D E slot run plan p) lo hi (errored D E slot run plan p)
      (recordTerminalFailure E k slot q run c den)" by (rule rec [OF k])
  show "scripted sha E others (own_write D E slot run plan p) lo hi (errored D E slot run plan p)
      (handleFailure D E k slot q run c den)" if hi: "k + 4 \<le> hi"
  proof (cases "\<not> den \<and> retryable c")
    case True
    then have f': "failed_with D E slot run plan p c False" using f by simp
    have ev: "scripted sha E others (own_write D E slot run plan p) (k + 1) hi (errored D E slot run plan p)
        (run_event E (k + 1) run ''retrying'' Observed vs)" for vs
      using f' True hi by (intro scripted_event E) auto
    have re: "scripted sha E others (own_write D E slot run plan p) (k + 1) hi (errored D E slot run plan p)
        (recordTerminalFailure E (k + 2) slot q run c den)" using hi by (intro rec) auto
    show ?thesis
      unfolding handleFailure_def if_P [OF True] using f' True k hi ev re
      by (intro scripted_then [where mid = "k + 1"] scripted_commands E) (auto simp: backoffMs_def)
  next
    case False
    have "scripted sha E others (own_write D E slot run plan p) lo hi (errored D E slot run plan p)
        (recordTerminalFailure E (k + 2) slot q run c den)" using k hi by (intro rec) auto
    then show ?thesis unfolding handleFailure_def if_not_P [OF False] .
  qed
qed

lemma scripted_settle:
  assumes E: "interleaved sha E others" and a: "answered D E slot run plan p res"
  shows "scripted sha E others (own_write D E slot run plan p) 5 9 (errored D E slot run plan p) (settle D E slot p run res)"
proof (cases "res_status res = ResCompleted")
  case True
  show ?thesis unfolding settle_def if_P [OF True] using a True
    by (intro scripted_then [where mid = 6] scripted_commands scripted_event E) auto
next
  case False
  have "failed_with D E slot run plan p (or_else (res_errorCode res) (''runtime.'' @ result_status_name (res_status res)))
      (res_status res = ResDenied)"
    using a False unfolding failed_with_def by (cases "res_status res") (auto simp: exI [of _ res])
  then show ?thesis unfolding settle_def if_not_P [OF False] by (intro scripted_failure(2) E) auto
qed

lemma scripted_onError:
  assumes E: "interleaved sha E others" and e: "errored D E slot run plan p c"
  shows "scripted sha E others (own_write D E slot run plan p) 10 14 (errored D E slot run plan p) (onError D E slot p run c)"
proof -
  consider "we_cancelled E \<or> \<not> we_leaseLost E \<and> c = ''runtime.cancelled''"
    | "\<not> we_cancelled E" "we_leaseLost E \<or> c = ''runtime.lease_lost''"
    | "\<not> we_cancelled E" "\<not> we_leaseLost E" "c \<noteq> ''runtime.cancelled''" "c \<noteq> ''runtime.lease_lost''" by blast
  then show ?thesis
  proof cases
    case 1
    then have x: "onError D E slot p run c = then_do (statement E 10 (\<lambda>now d. Inr (completeCancelledRun now d (run_id run)
          (Some ''runtime.cancelled'')))) (\<lambda>_. run_event E 11 run ''cancelled'' Observed
          [trace_value E, (''runtimeProvider'', JStr (provider_kind_name p))])"
      and y: "we_cancelled E \<or> errored D E slot run plan p ''runtime.cancelled''"
      using e by (auto simp: onError_def)
    show ?thesis unfolding x using y
      by (intro scripted_then [where mid = 11] scripted_commands scripted_event E) auto
  next
    case 2
    then show ?thesis by (auto simp: onError_def Let_def scripted_pure)
  next
    case 3
    then have "failed_with D E slot run plan p c (has_sub c ''denied'')" using e by (simp add: failed_with_def)
    then have "scripted sha E others (own_write D E slot run plan p) 10 14 (errored D E slot run plan p)
        (handleFailure D E 10 slot p run c (has_sub c ''denied''))"
      by (intro scripted_failure(2) E) auto
    then show ?thesis using 3 by (simp add: onError_def Let_def)
  qed
qed

lemma scripted_execute:
  assumes E: "interleaved sha E others"
  shows "scripted sha E others (own_write D E slot run plan p) 4 14 (errored D E slot run plan p) (executeRun D E slot p run plan)"
proof -
  have "scripted sha E others (own_write D E slot run plan p) 4 9 (errored D E slot run plan p) (attemptRun D E slot p run plan)"
  proof (cases "mintRuntimeGrant (wk_jose D) (seconds (we_clock E 4)) (dispatch_grant D slot run plan)")
    case (Inl c)
    then show ?thesis by (simp add: attemptRun_def then_do_lift scripted_pure errored_def)
  next
    case mint: (Inr grant)
    show ?thesis
    proof (cases "we_call E p (dispatch_invocation D E slot p run plan grant)")
      case (Inl c)
      then show ?thesis using mint by (simp add: attemptRun_def then_do_lift scripted_pure errored_def)
    next
      case (Inr res)
      then have "answered D E slot run plan p res" using mint by (simp add: answered_def)
      then have "scripted sha E others (own_write D E slot run plan p) 4 9 (errored D E slot run plan p) (settle D E slot p run res)"
        by (intro scripted_from [OF scripted_settle [OF E]]) simp_all
      then show ?thesis using mint Inr by (simp add: attemptRun_def then_do_lift)
    qed
  qed
  then show ?thesis unfolding executeRun_def
    by (rule scripted_caught) (auto intro: scripted_from [OF scripted_onError [OF E]])
qed

lemma scripted_start:
  assumes E: "interleaved sha E others"
  shows "scripted sha E others (own_write D E slot run plan p) 2 4 (errored D E slot run plan p) (startRun D E slot p run)"
  unfolding startRun_def
  by (cases "we_span E", simp, intro scripted_then [where mid = 3] scripted_commands scripted_event E) auto

text \<open>C25. A dispatcher writes only what the outcome of its own claim permits, whatever other
  transactions do in between, wherever a connection breaks before or after a commit, and whatever
  the provider answers. An iteration leaves what others did, or that and its claim, or its claim
  and a script of commands on the claimed run, each at most once at its place in the program, as
  the slot and under the fence of that claim: completed only with the output the provider answered
  as completed; failed, denied or put back only with the answer's code or an error that arose while
  neither signal was up, and put back only when the code permits another attempt; cancelled only on
  the cancellation signal. The ledger's invariant holds afterwards.\<close>

theorem dispatchers_write_only_their_claim:
  assumes "\<forall>k d. we_meanwhile E k d = run_steps (ledger_step sha) d (others k)" and "ledger_inv d"
    and "claimRun (\<lambda>i. i \<in> set (we_locked E)) (we_clock E 0) (run_steps (ledger_step sha) d (others 0)) slot
      (wk_leaseSeconds D) = (d1, claimed)"
  shows "ledger_inv (fst (workOnce D E slot d))
    \<and> (fst (workOnce D E slot d) = run_steps (ledger_step sha) d (others 0)
       \<or> fst (workOnce D E slot d) = d1
       \<or> fst (workOnce D E slot d) = run_steps (ledger_step sha) d1 (others 1)
       \<or> (\<exists>run plan p script. claimed = Some run
            \<and> getPlan (run_steps (ledger_step sha) d1 (others 1)) (run_plan_digest run) None = Some plan
            \<and> chosenProvider D plan = Inr p
            \<and> sorted_wrt (<) (map fst script)
            \<and> (\<forall>(k, own) \<in> set script. 2 \<le> k \<and> (\<forall>c. own = Some c \<longrightarrow> own_write D E slot run plan p c))
            \<and> fst (workOnce D E slot d)
                = run_steps (ledger_step sha) (run_steps (ledger_step sha) d1 (others 1)) (played E others script)))"
proof -
  let ?d0 = "run_steps (ledger_step sha) d (others 0)"
  let ?d2 = "run_steps (ledger_step sha) d1 (others 1)"
  have E: "interleaved sha E others" using assms(1) by (simp add: interleaved_def)
  have keep: "ledger_inv (run_steps (ledger_step sha) x cs)" if "ledger_inv x" for x cs
    using that by (rule ledger.run_inv)
  have "d1 = run_steps (ledger_step sha) ?d0 [(we_clock E 0, OpClaim (we_locked E) slot (wk_leaseSeconds D))]"
    using assms(3) by simp
  then have inv: "ledger_inv ?d0" "ledger_inv d1" "ledger_inv ?d2" using keep assms(2) by metis+
  have claim: "statement E 0 (\<lambda>now d. Inr (claimRun (\<lambda>i. i \<in> set (we_locked E)) now d slot (wk_leaseSeconds D))) d
      = (case we_fault E 0 of None \<Rightarrow> (d1, Inr claimed) | Some (b, c) \<Rightarrow> (if b then d1 else ?d0, Inl c))"
    using assms(1,3) by (simp add: statement_def split: option.splits)
  have plan: "statement E 1 (\<lambda>now d. Inr (d, getPlan d (run_plan_digest run) None)) d1
      = (?d2, case we_fault E 1 of None \<Rightarrow> Inr (getPlan ?d2 (run_plan_digest run) None) | Some (b, c) \<Rightarrow> Inl c)" for run
    using assms(1) by (simp add: statement_def Let_def split: option.splits)
  show ?thesis
  proof (cases "we_fault E 0 = None \<and> we_fault E 1 = None \<and> (\<exists>run plan p. claimed = Some run
      \<and> getPlan ?d2 (run_plan_digest run) None = Some plan \<and> chosenProvider D plan = Inr p)")
    case False
    then have "fst (workOnce D E slot d) \<in> {?d0, d1, ?d2}"
      by (auto simp: workOnce_def then_do_def claim plan act_simps simp del: One_nat_def split: option.splits sum.splits)
    then show ?thesis using inv by auto
  next
    case True
    then obtain run plan p where c: "claimed = Some run" and g: "getPlan ?d2 (run_plan_digest run) None = Some plan"
      and p: "chosenProvider D plan = Inr p" and f: "we_fault E 0 = None" "we_fault E 1 = None" by blast
    have w: "fst (workOnce D E slot d) = fst (then_do (startRun D E slot p run)
        (\<lambda>_. then_do (executeRun D E slot p run plan) (\<lambda>_. yield True)) ?d2)"
      unfolding workOnce_def
      by (simp add: then_do_def [of "statement _ _ _"] claim plan f c g p then_do_lift del: One_nat_def)
    have "scripted sha E others (own_write D E slot run plan p) 2 14 (errored D E slot run plan p)
        (then_do (startRun D E slot p run) (\<lambda>_. then_do (executeRun D E slot p run plan) (\<lambda>_. yield True)))"
      by (intro scripted_then [OF scripted_start [OF E]] scripted_then [OF scripted_execute [OF E]] scripted_pure) simp_all
    then obtain s where s: "fst (workOnce D E slot d) = run_steps (ledger_step sha) ?d2 (played E others s)"
      "sorted_wrt (<) (map fst s)" "\<forall>(k, own) \<in> set s. 2 \<le> k \<and> k < 14 \<and> (\<forall>c. own = Some c \<longrightarrow> own_write D E slot run plan p c)"
      unfolding w scripted_def by blast
    have "ledger_inv (fst (workOnce D E slot d))" unfolding s(1) by (rule keep [OF inv(3)])
    moreover have "\<forall>(k, own) \<in> set s. 2 \<le> k \<and> (\<forall>c. own = Some c \<longrightarrow> own_write D E slot run plan p c)" using s(3) by blast
    ultimately show ?thesis using c g p s(1,2) by blast
  qed
qed

section \<open>The outcome of a run\<close>

text \<open>What a client sees of a run that no worker holds any more.\<close>

definition outcome_view :: "run_row \<Rightarrow> run_status \<times> string option \<times> json option \<times> string option \<times> time option \<times> string option" where
  "outcome_view r = (run_status r, run_terminal_outcome r, run_output r, run_error_code r, run_available_at r, run_lease_owner r)"

definition shows_outcome :: "string \<Rightarrow> run_status \<times> string option \<times> json option \<times> string option \<times> time option \<times> string option \<Rightarrow> db \<Rightarrow> bool" where
  "shows_outcome rid v d \<longleftrightarrow> ledger_inv d \<and> fst v \<noteq> Running \<and> (\<exists>r. row_of d rid = Some r \<and> outcome_view r = v)"

definition uninterrupted :: "work_env \<Rightarrow> bool" where
  "uninterrupted E \<longleftrightarrow> we_meanwhile E = (\<lambda>k d. d)"

definition settled_by :: "string \<Rightarrow> (db, 'a) act \<Rightarrow> bool" where
  "settled_by rid m \<longleftrightarrow> (\<forall>d v. shows_outcome rid v d \<longrightarrow> shows_outcome rid v (fst (m d)))"

lemma settledD: "settled_by rid m \<Longrightarrow> shows_outcome rid v d \<Longrightarrow> shows_outcome rid v (fst (m d))"
  unfolding settled_by_def by blast

named_theorems settled_intros \<open>actions that leave the outcome of a run that is not running\<close>

lemma settled_pure [settled_intros]: "settled_by rid (yield x)"
  by (simp add: settled_by_def act_simps)

lemma settled_then [settled_intros]:
  "settled_by rid m \<Longrightarrow> (\<And>x. settled_by rid (f x)) \<Longrightarrow> settled_by rid (then_do m f)"
  unfolding settled_by_def then_do_def by (fastforce split: prod.splits sum.splits)

lemma settled_statement:
  assumes "uninterrupted E" and "\<And>now d v. shows_outcome rid v d \<Longrightarrow> shows_outcome rid v (commit d (f now d))"
  shows "settled_by rid (statement E k f)"
  unfolding settled_by_def
proof (intro allI impI)
  fix d v assume "shows_outcome rid v d"
  then have "shows_outcome rid v (commit d (f (we_clock E k) d))" by (rule assms(2))
  moreover have "fst (statement E k f d) \<in> {d, commit d (f (we_clock E k) d)}"
    using assms(1) by (auto simp: statement_def uninterrupted_def Let_def split: sum.splits option.splits)
  moreover note \<open>shows_outcome rid v d\<close>
  ultimately show "shows_outcome rid v (fst (statement E k f d))" by auto
qed

lemma not_held:
  assumes "shows_outcome rid v d"
  shows "r \<in> set (runs d) \<Longrightarrow> \<not> holds_fence rid w e r"
  using assms row_of_unique [of d rid _ r] unfolding shows_outcome_def holds_fence_def outcome_view_def
  by (metis fst_conv)

lemma settled_statements [settled_intros]:
  assumes "uninterrupted E"
  shows "settled_by rid (statement E k (\<lambda>now d. completeRun now d rid w e fs out j ec))"
    and "settled_by rid (statement E k (\<lambda>now d. Inr (scheduleRunRetry now d rid w e c b)))"
    and "settled_by rid (statement E k (\<lambda>now d. Inr (completeCancelledRun now d rid oc)))"
    and "settled_by rid (statement E k (\<lambda>now d. appendEvent now d rid ek c n st vs))"
proof -
  show "settled_by rid (statement E k (\<lambda>now d. completeRun now d rid w e fs out j ec))"
    by (rule settled_statement [OF assms]) (simp add: completeRun_def no_holder not_held)
  show "settled_by rid (statement E k (\<lambda>now d. Inr (scheduleRunRetry now d rid w e c b)))"
    by (rule settled_statement [OF assms]) (simp add: scheduleRunRetry_def no_holder not_held commit_def)
  show "settled_by rid (statement E k (\<lambda>now d. Inr (completeCancelledRun now d rid oc)))"
  proof (rule settled_statement [OF assms])
    fix now d v assume v: "shows_outcome rid v d"
    have "\<not> (run_id r = rid \<and> run_status r = Running \<and> run_cancellation_requested_at r \<noteq> None)" if "r \<in> set (runs d)" for r
      using v row_of_unique [of d rid _ r] that unfolding shows_outcome_def outcome_view_def by (metis fst_conv)
    then show "shows_outcome rid v (commit d (Inr (completeCancelledRun now d rid oc)))"
      using v by (simp add: completeCancelledRun_def commit_def sql_update_none)
  qed
  show "settled_by rid (statement E k (\<lambda>now d. appendEvent now d rid ek c n st vs))"
  proof (rule settled_statement [OF assms])
    fix now d v assume v: "shows_outcome rid v d"
    then obtain r where r: "ledger_inv d" "fst v \<noteq> Running" "row_of d rid = Some r" "outcome_view r = v"
      by (auto simp: shows_outcome_def)
    have inv: "ledger_inv (commit d (appendEvent now d rid ek c n st vs))"
      using ledger_step_inv [OF r(1), of id "(now, OpEvent rid ek c n st vs)"] by simp
    have "\<exists>r'. row_of (commit d (appendEvent now d rid ek c n st vs)) rid = Some r' \<and> outcome_view r' = v"
    proof (cases "appendEvent now d rid ek c n st vs")
      case (Inr x)
      then consider "commit d (appendEvent now d rid ek c n st vs) = d"
        | es where "commit d (appendEvent now d rid ek c n st vs)
            = d\<lparr>runs := sql_update (\<lambda>r. run_id r = rid) (bump_sequence now) (runs d), run_events := es\<rparr>"
        by (auto simp: appendEvent_def Let_def split: option.splits if_splits)
      then show ?thesis using r(3,4) row_of_bump [OF r(3)]
        by cases (auto simp: outcome_view_def bump_sequence_def)
    qed (use r in auto)
    then show "shows_outcome rid v (commit d (appendEvent now d rid ek c n st vs))"
      using inv r(2) by (simp add: shows_outcome_def)
  qed
qed

lemma settled_handlers [settled_intros]:
  assumes "uninterrupted E"
  shows "settled_by (run_id run) (run_event E k run name st vs)"
    and "settled_by (run_id run) (recordTerminalFailure E k slot p run c den)"
    and "settled_by (run_id run) (handleFailure D E k slot p run c den)"
    and "settled_by (run_id run) (onError D E slot p run c)"
proof -
  show ev: "settled_by (run_id run) (run_event E k run name st vs)" for k name st vs
    unfolding run_event_def by (intro settled_intros assms)
  show rec: "settled_by (run_id run) (recordTerminalFailure E k slot p run c den)" for k c den
    unfolding recordTerminalFailure_def by (intro settled_intros assms ev)
  show fail: "settled_by (run_id run) (handleFailure D E k slot p run c den)" for k c den
    unfolding handleFailure_def by (auto intro!: settled_intros assms ev rec)
  show "settled_by (run_id run) (onError D E slot p run c)"
    unfolding onError_def Let_def by (auto intro!: settled_intros assms ev fail)
qed

lemma settled_caught:
  "shows_outcome rid v (fst (m d)) \<Longrightarrow> (\<And>c. settled_by rid (h c)) \<Longrightarrow> shows_outcome rid v (fst (caught m h d))"
  by (cases "m d"; cases "snd (m d)") (auto simp: caught_def intro: settledD)

text \<open>The first statement of a handler on a run the slot holds.\<close>

lemma held_update:
  assumes inv: "ledger_inv d" and row: "row_of d rid = Some r" and P: "P r" "\<And>x. P x \<Longrightarrow> run_id x = rid"
    and f: "\<And>x. run_id (f x) = run_id x"
  shows "row_of (d\<lparr>runs := sql_update P f (runs d)\<rparr>) rid = Some (f r)" and "sql_count P (runs d) = 1"
proof -
  have "sql_find (\<lambda>x. run_id x = rid) (sql_update P f rs)
      = map_option (\<lambda>x. if P x then f x else x) (sql_find (\<lambda>x. run_id x = rid) rs)" for rs
    by (induction rs) (auto simp: sql_find_def f)
  then show "row_of (d\<lparr>runs := sql_update P f (runs d)\<rparr>) rid = Some (f r)"
    using row P(1) by (simp add: row_of_def)
  have k: "keyed run_id (runs d)" using inv by (simp add: ledger_inv_def)
  have "(\<lambda>x. run_id x = rid \<and> P x) = P" using P(2) by blast
  moreover have "r \<in> set (runs d) \<and> run_id r = rid" using row inv row_of_iff by blast
  ultimately show "sql_count P (runs d) = 1" using sql_count_keyed_1 [OF k, of rid P] P(1) by auto
qed

lemma completed_now:
  assumes "ledger_inv d" and "row_of d rid = Some r" and "holds_fence rid w e r" and "terminal st"
  obtains d' where "completeRun now d rid w e st oc out c = Inr (d', ())"
    and "shows_outcome rid (st, Some oc, Some out, c, run_available_at r, None) d'"
proof -
  let ?d = "d\<lparr>runs := sql_update (holds_fence rid w e) (complete_row now st oc out c) (runs d)\<rparr>"
  have u: "row_of ?d rid = Some (complete_row now st oc out c r)" "sql_count (holds_fence rid w e) (runs d) = 1"
    by (rule held_update [OF assms(1,2), where P = "holds_fence rid w e", OF assms(3)];
        simp add: holds_fence_def complete_row_def)+
  then have "completeRun now d rid w e st oc out c = Inr (?d, ())" by (simp add: completeRun_def)
  moreover have "ledger_inv ?d"
    using ledger_step_inv [OF assms(1), of id "(now, OpComplete rid w e st oc out c)"] assms(4) u(2)
    by (simp add: completeRun_def)
  ultimately show thesis using that u(1) assms(4)
    by (auto simp: shows_outcome_def outcome_view_def complete_row_def terminal_def)
qed

lemma retried_now:
  assumes "ledger_inv d" and "row_of d rid = Some r" and "holds_fence rid w e r"
  obtains d' where "run_attempt r < run_attempt_limit r" and "scheduleRunRetry now d rid w e c b = (d', True)"
    and "shows_outcome rid (Retrying, run_terminal_outcome r, run_output r, Some c, Some (now + max 0 b), None) d'"
  | "\<not> run_attempt r < run_attempt_limit r" and "scheduleRunRetry now d rid w e c b = (d, False)"
proof (cases "run_attempt r < run_attempt_limit r")
  case True
  let ?P = "\<lambda>r. holds_fence rid w e r \<and> run_attempt r < run_attempt_limit r"
  let ?d = "d\<lparr>runs := sql_update ?P (retry_row now c b) (runs d)\<rparr>"
  note h = held_update [OF assms(1,2), where P = ?P and f = "retry_row now c b"]
  have u: "row_of ?d rid = Some (retry_row now c b r)" "sql_count ?P (runs d) = 1"
    by (rule h; use assms(3) True in \<open>simp add: holds_fence_def retry_row_def\<close>)+
  then have "scheduleRunRetry now d rid w e c b = (?d, True)" by (simp add: scheduleRunRetry_def)
  moreover have "ledger_inv ?d"
    using ledger_step_inv [OF assms(1), of id "(now, OpRetry rid w e c b)"] by (simp add: scheduleRunRetry_def Let_def)
  ultimately show thesis using that(1) True u(1)
    by (auto simp: shows_outcome_def outcome_view_def retry_row_def)
next
  case False
  have "\<not> (holds_fence rid w e x \<and> run_attempt x < run_attempt_limit x)" if "x \<in> set (runs d)" for x
    using row_of_unique [OF assms(1,2) that] False by (auto simp: holds_fence_def)
  moreover from this have "sql_count (\<lambda>r. holds_fence rid w e r \<and> run_attempt r < run_attempt_limit r) (runs d) = 0"
    unfolding sql_count_0 by blast
  ultimately have "scheduleRunRetry now d rid w e c b = (d, False)"
    by (simp add: scheduleRunRetry_def sql_update_none)
  then show thesis using that(2) False by blast
qed

lemma settle_shows:
  assumes "uninterrupted E" and "ledger_inv d" and "row_of d (run_id run) = Some r"
    and "holds_fence (run_id run) slot (run_fencing_epoch run) r" and "we_fault E 5 = None" and "we_fault E 7 = None"
    and code: "code = or_else (res_errorCode res) (''runtime.'' @ result_status_name (res_status res))"
  shows "shows_outcome (run_id run)
    (if res_status res = ResCompleted then (Completed, Some ''completed'', Some (res_output res), None, run_available_at r, None)
     else if res_status res = ResDenied
       then (Denied, Some ''denied'', Some (JObj [(''error'', JStr code)]), Some code, run_available_at r, None)
     else if retryable code \<and> run_attempt r < run_attempt_limit r
       then (Retrying, run_terminal_outcome r, run_output r, Some code,
             Some (we_clock E 5 + max 0 (backoffMs D (run_attempt run))), None)
     else (Failed, Some ''failed'', Some (JObj [(''error'', JStr code)]), Some code, run_available_at r, None))
    (fst (settle D E slot p run res d))"
proof -
  note held = assms(2-4)
  have now: "statement E k f d = (case f (we_clock E k) d of Inl c \<Rightarrow> (d, Inl c) | Inr (d', x) \<Rightarrow> (d', Inr x))"
    if "we_fault E k = None" for k and f :: "time \<Rightarrow> db \<Rightarrow> 'x txn"
    using assms(1) that by (simp add: statement_def uninterrupted_def Let_def split: sum.splits)
  have on: "shows_outcome (run_id run) v (fst (then_do m f d))"
    if "m d = (d', Inr x)" and "shows_outcome (run_id run) v d'" and "settled_by (run_id run) (f x)" for m f d' x v
    using settledD [OF that(3,2)] that(1) by (simp add: act_simps)
  have terminal_case: "shows_outcome (run_id run) (if den then Denied else Failed, Some (if den then ''denied'' else ''failed''),
      Some (JObj [(''error'', JStr code)]), Some code, run_available_at r, None)
      (fst (recordTerminalFailure E k slot p run code den d))" if k: "we_fault E k = None" for k den
  proof -
    obtain d' where c: "completeRun (we_clock E k) d (run_id run) slot (run_fencing_epoch run) (if den then Denied else Failed)
        (if den then ''denied'' else ''failed'') (JObj [(''error'', JStr code)]) (Some code) = Inr (d', ())"
      "shows_outcome (run_id run) (if den then Denied else Failed, Some (if den then ''denied'' else ''failed''),
        Some (JObj [(''error'', JStr code)]), Some code, run_available_at r, None) d'"
      by (rule completed_now [OF held, of "if den then Denied else Failed"]) (simp_all add: terminal_def)
    show ?thesis unfolding recordTerminalFailure_def
      by (rule on [OF _ c(2)]) (simp_all add: now k c(1) settled_intros assms(1))
  qed
  show ?thesis
  proof (cases "res_status res")
    case ResCompleted
    obtain d' where c: "completeRun (we_clock E 5) d (run_id run) slot (run_fencing_epoch run) Completed ''completed''
        (res_output res) None = Inr (d', ())"
      "shows_outcome (run_id run) (Completed, Some ''completed'', Some (res_output res), None, run_available_at r, None) d'"
      by (rule completed_now [OF held terminal_simps(6)])
    have "shows_outcome (run_id run) (Completed, Some ''completed'', Some (res_output res), None, run_available_at r, None)
        (fst (settle D E slot p run res d))"
      unfolding settle_def if_P [OF ResCompleted]
      by (rule on [OF _ c(2)]) (simp_all add: now assms(5) c(1) settled_intros assms(1))
    then show ?thesis by (simp add: ResCompleted)
  next
    case ResDenied
    then show ?thesis using terminal_case [of 7 True] code assms(6) by (simp add: settle_def handleFailure_def)
  next
    case ResFailed
    then have s: "settle D E slot p run res = handleFailure D E 5 slot p run code False"
      using code by (simp add: settle_def)
    show ?thesis
    proof (cases "retryable code")
      case True
      note h = handleFailure_def [of D E 5 slot p run code False, simplified True, simplified]
      show ?thesis
      proof (rule retried_now [OF held, of "we_clock E 5" code "backoffMs D (run_attempt run)"])
        fix d' assume a: "run_attempt r < run_attempt_limit r"
          and c: "scheduleRunRetry (we_clock E 5) d (run_id run) slot (run_fencing_epoch run) code
              (backoffMs D (run_attempt run)) = (d', True)"
          and v: "shows_outcome (run_id run) (Retrying, run_terminal_outcome r, run_output r, Some code,
              Some (we_clock E 5 + max 0 (backoffMs D (run_attempt run))), None) d'"
        have "shows_outcome (run_id run) (Retrying, run_terminal_outcome r, run_output r, Some code,
              Some (we_clock E 5 + max 0 (backoffMs D (run_attempt run))), None) (fst (settle D E slot p run res d))"
          unfolding s h by (rule on [OF _ v]) (simp_all add: now assms(5) c settled_intros assms(1))
        then show ?thesis using ResFailed True a by simp
      next
        assume a: "\<not> run_attempt r < run_attempt_limit r"
          and c: "scheduleRunRetry (we_clock E 5) d (run_id run) slot (run_fencing_epoch run) code
              (backoffMs D (run_attempt run)) = (d, False)"
        have "fst (settle D E slot p run res d) = fst (recordTerminalFailure E 7 slot p run code False d)"
          unfolding s h by (simp add: then_do_def now assms(5) c)
        then show ?thesis using ResFailed a terminal_case [of 7 False] assms(6) by simp
      qed
    next
      case False
      then show ?thesis using ResFailed s terminal_case [of 7 False] assms(6) by (simp add: handleFailure_def)
    qed
  qed
qed

text \<open>C26. A run ends as its runtime answered. When the slot holds the run, nothing runs in
  between and the two writes of the outcome keep their connection, the outcome is the answer: completed with its output, denied, or failed; a failure whose
  code permits another attempt puts the run back with exponential delay as long as attempts
  are left. A failure of the event that follows, or a lost connection there and in what its handler
  then writes, changes none of this.\<close>

theorem run_ends_as_its_runtime_answered:
  assumes "we_meanwhile E = (\<lambda>k d. d)" and "ledger_inv d" and "row_of d (run_id run) = Some r"
    and "holds_fence (run_id run) slot (run_fencing_epoch run) r"
    and "mintRuntimeGrant (wk_jose D) (seconds (we_clock E 4)) (dispatch_grant D slot run plan) = Inr grant"
    and "we_call E p (dispatch_invocation D E slot p run plan grant) = Inr res"
    and "code = or_else (res_errorCode res) (''runtime.'' @ result_status_name (res_status res))"
    and "we_fault E 5 = None" and "we_fault E 7 = None"
  shows "\<exists>r'. row_of (fst (executeRun D E slot p run plan d)) (run_id run) = Some r' \<and> run_lease_owner r' = None
    \<and> (res_status res = ResCompleted \<longrightarrow> run_status r' = Completed \<and> run_output r' = Some (res_output res))
    \<and> (res_status res = ResDenied \<longrightarrow> run_status r' = Denied \<and> run_error_code r' = Some code)
    \<and> (res_status res = ResFailed \<longrightarrow> run_error_code r' = Some code
        \<and> (if retryable code \<and> run_attempt r < run_attempt_limit r
           then run_status r' = Retrying \<and> run_available_at r' = Some (we_clock E 5
                  + max 0 (min (wk_retryMaxMs D) (wk_retryBaseMs D * 2 ^ (run_attempt run - 1))))
           else run_status r' = Failed))"
proof -
  have u: "uninterrupted E" using assms(1) by (simp add: uninterrupted_def)
  have "attemptRun D E slot p run plan d = settle D E slot p run res d"
    by (simp add: attemptRun_def then_do_def act_simps assms(5,6))
  then have "shows_outcome (run_id run)
      (if res_status res = ResCompleted then (Completed, Some ''completed'', Some (res_output res), None, run_available_at r, None)
       else if res_status res = ResDenied
         then (Denied, Some ''denied'', Some (JObj [(''error'', JStr code)]), Some code, run_available_at r, None)
       else if retryable code \<and> run_attempt r < run_attempt_limit r
         then (Retrying, run_terminal_outcome r, run_output r, Some code,
               Some (we_clock E 5 + max 0 (backoffMs D (run_attempt run))), None)
       else (Failed, Some ''failed'', Some (JObj [(''error'', JStr code)]), Some code, run_available_at r, None))
      (fst (executeRun D E slot p run plan d))"
    unfolding executeRun_def
    using settle_shows [OF u assms(2-4,8,9,7), of D p] settled_handlers(4) [OF u]
    by (intro settled_caught) auto
  then show ?thesis
    by (cases "res_status res") (auto simp: shows_outcome_def outcome_view_def backoffMs_def split: if_splits)
qed

section \<open>A run that cannot be dispatched\<close>

text \<open>A plan whose nodes ask for two runtime targets can be admitted, but every dispatch of its
  runs fails after the claim and before anything is recorded. The last permitted claim leaves the
  run running; then no claim and no sweep touches it again, and it never ends.\<close>

theorem undispatchable_run_never_ends:
  assumes "we_meanwhile E = (\<lambda>k d. d)" and "ledger_inv d"
    and "claimRun (\<lambda>i. i \<in> set (we_locked E)) (we_clock E 0) d slot (wk_leaseSeconds D) = (d', Some run)"
    and "getPlan d' (run_plan_digest run) None = Some plan" and "1 < length (requestedTargets plan)"
    and "run_attempt run = run_attempt_limit run" and "list_all sweep_or_claim cs"
    and "we_fault E 0 = None" and "we_fault E 1 = None"
  shows "workOnce D E slot d = (d', Inl ''runtime.provider_mixed_targets_unsupported'')
    \<and> run_status run = Running
    \<and> row_of (run_steps (ledger_step sha) (fst (workOnce D E slot d)) cs) (run_id run) = Some run"
proof -
  obtain r where r: "claimable (we_clock E 0) r" "run = claim_row (we_clock E 0) slot (wk_leaseSeconds D) r"
    "row_of d' (run_id run) = Some run" "ledger_inv d'"
    using assms(2,3) by (rule claimRun_epoch)
  have mixed: "chosenProvider D plan = Inl ''runtime.provider_mixed_targets_unsupported''"
    using assms(5) by (auto simp: chosenProvider_def split: list.splits)
  have w: "workOnce D E slot d = (d', Inl ''runtime.provider_mixed_targets_unsupported'')"
    by (simp add: workOnce_def then_do_def statement_def act_simps assms(1,3,4,8,9) mixed del: One_nat_def)
  have run: "run_status run = Running" "run_cancellation_requested_at run = None"
    using r(1) by (auto simp: r(2) claim_row_def claimable_def)
  show ?thesis using w run(1) stuck_run [OF r(4,3) run(1) _ run(2) assms(7)] assms(6) by simp
qed

section \<open>Examples\<close>

definition demo_jose :: "string jose" where
  "demo_jose = \<lparr>importPKCS8 = (\<lambda>s. None), importSPKI = (\<lambda>s. None), signJwt = (\<lambda>a k es. k), jwtVerify = (\<lambda>a k i u t now tok. None)\<rparr>"

definition demo_dispatcher :: dispatcher where
  "demo_dispatcher = \<lparr>wk_jose = demo_jose, wk_sha = (\<lambda>s. replicate 64 CHR ''a''), wk_env = (\<lambda>n. None),
     wk_grantSecret = ''a-shared-secret-of-32-characters'', wk_leaseSeconds = 60, wk_retryBaseMs = 2000,
     wk_retryMaxMs = 60000\<rparr>"

definition timed_out :: runtime_result where
  "timed_out = \<lparr>res_invocationId = ''I'', res_runId = ''RUN-1'', res_status = ResFailed, res_output = JNull,
     res_errorCode = Some ''provider.timeout'', res_checkpointId = None, res_providerMetadata = []\<rparr>"

definition demo_env :: work_env where
  "demo_env = \<lparr>we_clock = (\<lambda>k. 5000), we_meanwhile = (\<lambda>k d. d), we_fault = (\<lambda>k. None), we_locked = [], we_span = (''t'', ''s'', 0),
     we_call = (\<lambda>p i. Inr timed_out), we_cancelled = False, we_leaseLost = False\<rparr>"

abbreviation demo_provider :: provider where "demo_provider \<equiv> LocalHttp_provider ''e'' ''t''"


theorem dispatchers_write_only_their_claim_witness:
  "ledger_inv (fst (workOnce demo_dispatcher demo_env ''w:0'' demo_db))
   \<and> claimRun (\<lambda>i. i \<in> set (we_locked demo_env)) (we_clock demo_env 0) demo_db ''w:0'' (wk_leaseSeconds demo_dispatcher)
     = (demo_db\<lparr>runs := [claim_row 5000 ''w:0'' 60 demo_run]\<rparr>, Some (claim_row 5000 ''w:0'' 60 demo_run))"
proof -
  have c: "claimRun (\<lambda>i. i \<in> set (we_locked demo_env)) (we_clock demo_env 0) demo_db ''w:0'' (wk_leaseSeconds demo_dispatcher)
     = (demo_db\<lparr>runs := [claim_row 5000 ''w:0'' 60 demo_run]\<rparr>, Some (claim_row 5000 ''w:0'' 60 demo_run))"
    by (simp add: claimRun_def demo_env_def demo_dispatcher_def demo_db_def demo_run_def new_run_def
        sql_first_by_def claimable_def)
  have "\<forall>k d. we_meanwhile demo_env k d = run_steps (ledger_step id) d ((\<lambda>k. []) k)" by (simp add: demo_env_def)
  from dispatchers_write_only_their_claim [OF this demo_inv, of "''w:0''" demo_dispatcher, simplified, OF c [simplified]]
  show ?thesis using c by blast
qed

theorem run_ends_as_its_runtime_answered_witness:
  "\<exists>r'. row_of (fst (executeRun demo_dispatcher demo_env ''w1'' demo_provider (claim_row 1000 ''w1'' 60 demo_run) demo_plan demo_running)) ''RUN-1''
       = Some r' \<and> run_status r' = Retrying \<and> run_available_at r' = Some 7000"
proof -
  let ?run = "claim_row 1000 ''w1'' 60 demo_run"
  have run: "run_id ?run = ''RUN-1''" "run_fencing_epoch ?run = 1" "run_attempt ?run = 1" "run_attempt_limit ?run = 3"
    by (simp_all add: claim_row_def demo_run_def new_run_def)
  have env: "we_meanwhile demo_env = (\<lambda>k d. d)" "we_clock demo_env k = 5000" "we_fault demo_env k = None" for k
    by (simp_all add: demo_env_def)
  have mint: "mintRuntimeGrant (wk_jose demo_dispatcher) t (dispatch_grant demo_dispatcher ''w1'' ?run demo_plan)
      = Inr ''a-shared-secret-of-32-characters''" for t
    by (simp add: mintRuntimeGrant_def signingMaterial_def key_def dispatch_grant_def demo_dispatcher_def demo_jose_def starts_with_def)
  have call: "we_call demo_env p i = Inr timed_out" for p i by (simp add: demo_env_def)
  have retry: "retryable ''provider.timeout''" by code_simp
  show ?thesis
    using run_ends_as_its_runtime_answered [OF env(1) demo_running_inv, of ?run ?run "''w1''" demo_dispatcher demo_plan _
        demo_provider timed_out "''provider.timeout''", unfolded run, OF demo_running_row _ mint call _ env(3) env(3)] demo_holds
    by (auto simp: timed_out_def run env retry demo_dispatcher_def)
qed

definition torn_plan :: harness_plan where
  "torn_plan = demo_plan\<lparr>plan_nodes := map (\<lambda>(i, t). \<lparr>node_id = i, node_kind = NAgent, node_name = i, node_summary = None,
     node_prompt = None, node_inputSchema = JNull, node_outputSchema = JNull, node_config = [(''runtimeTarget'', JStr t)]\<rparr>)
     [(''a'', ''local_http''), (''b'', ''azure_foundry'')]\<rparr>"

definition last_try :: run_row where
  "last_try = demo_run\<lparr>run_status := Retrying, run_attempt := 2, run_fencing_epoch := 2, run_started_at := Some 0\<rparr>"

definition torn_db :: db where
  "torn_db = demo_db\<lparr>runs := [last_try], plans := [\<lparr>pl_tenant_id = ''acme'', pl_plan_digest = run_plan_digest demo_run,
     pl_plan = torn_plan, pl_admitted_at = 0\<rparr>]\<rparr>"

theorem undispatchable_run_never_ends_witness:
  "row_of (run_steps (ledger_step id) (fst (workOnce demo_dispatcher demo_env ''w:0'' torn_db))
     [(10 ^ 12, OpClaim [] ''w:1'' 60), (10 ^ 12, OpFailExhausted), (10 ^ 12, OpFinalize)]) ''RUN-1''
   = Some (claim_row 5000 ''w:0'' 60 last_try)"
proof -
  have inv: "ledger_inv torn_db"
    by (simp add: ledger_inv_def keyed_def torn_db_def last_try_def demo_run_def new_run_def run_wf_def)
  have c: "claimRun (\<lambda>i. i \<in> set (we_locked demo_env)) (we_clock demo_env 0) torn_db ''w:0'' (wk_leaseSeconds demo_dispatcher)
      = (torn_db\<lparr>runs := [claim_row 5000 ''w:0'' 60 last_try]\<rparr>, Some (claim_row 5000 ''w:0'' 60 last_try))"
    by (simp add: claimRun_def demo_env_def demo_dispatcher_def torn_db_def last_try_def demo_run_def new_run_def
        sql_first_by_def claimable_def)
  have p: "getPlan (torn_db\<lparr>runs := [claim_row 5000 ''w:0'' 60 last_try]\<rparr>)
      (run_plan_digest (claim_row 5000 ''w:0'' 60 last_try)) None = Some torn_plan"
    by (simp add: getPlan_def torn_db_def sql_find_def claim_row_def last_try_def)
  have t: "1 < length (requestedTargets torn_plan)"
    by (simp add: requestedTargets_def torn_plan_def obj_get_def js_set_def)
  have m: "we_meanwhile demo_env = (\<lambda>k d. d)" by (simp add: demo_env_def)
  have f: "we_fault demo_env k = None" for k by (simp add: demo_env_def)
  have a: "run_attempt (claim_row 5000 ''w:0'' 60 last_try) = run_attempt_limit (claim_row 5000 ''w:0'' 60 last_try)"
    "run_id (claim_row 5000 ''w:0'' 60 last_try) = ''RUN-1''"
    by (simp_all add: claim_row_def last_try_def demo_run_def new_run_def)
  have s: "list_all sweep_or_claim [(10 ^ 12, OpClaim [] ''w:1'' 60), (10 ^ 12, OpFailExhausted), (10 ^ 12, OpFinalize)]"
    by (simp add: sweep_or_claim_def)
  show ?thesis
    using undispatchable_run_never_ends [OF m inv c p t a(1) s f f, of id] unfolding a(2) by blast
qed

end
