(* ===== verification/RuntimeCore.thy ===== *)
theory RuntimeCore
  imports Adapters ExecAuth
begin

text \<open>
  The pure half of packages/runtime-core/src/index.ts: reading paths, filling templates, conditions,
  and the operations of transform and aggregator nodes. \<open>JSON.parse\<close> is a parameter. Members an object
  inherits from its prototype are outside the model: a path reads own members, the elements and
  the length of arrays.
\<close>

section \<open>Paths\<close>

definition js_member :: "json \<Rightarrow> string \<Rightarrow> json" where
  "js_member v k = (case v of
       JObj es \<Rightarrow> obj_get es k
     | JArr vs \<Rightarrow> if k = ''length'' then JInt (int (length vs))
                else if is_array_index k \<and> index_value k < length vs then vs ! index_value k else JUndef
     | _ \<Rightarrow> JUndef)"

definition is_separator :: "char \<Rightarrow> bool" where
  "is_separator c \<longleftrightarrow> c = CHR ''.'' \<or> c = CHR ''/''"

fun split_path :: "string \<Rightarrow> string \<Rightarrow> string list" where
  \<comment> \<open>\<open>.split(/[./]/).filter(Boolean)\<close>, with the reversed current part\<close>
  "split_path acc [] = (if acc = [] then [] else [rev acc])"
| "split_path acc (c # cs) = (if is_separator c then (if acc = [] then [] else [rev acc]) @ split_path [] cs
     else split_path (c # acc) cs)"

definition strip_root :: "string \<Rightarrow> string" where
  \<comment> \<open>the leading dollar sign and one dot after it\<close>
  "strip_root p = (case p of c # cs \<Rightarrow> if c = CHR 36
       then (case cs of d # ds \<Rightarrow> if d = CHR ''.'' then ds else cs | [] \<Rightarrow> []) else p | [] \<Rightarrow> [])"

definition path_parts :: "string \<Rightarrow> string list" where
  "path_parts p = split_path [] (strip_root p)"

definition getPath :: "json \<Rightarrow> string option \<Rightarrow> json" where
  "getPath value path = (case path of None \<Rightarrow> value
     | Some p \<Rightarrow> if p \<in> {[], ''/'', [CHR 36]} then value else foldl js_member value (path_parts p))"

section \<open>Templates\<close>

text \<open>\<open>{{ path }}\<close> in the text, the path being everything up to the first closing brace.\<close>

definition open_braces :: string where "open_braces = ''{{''"
definition close_braces :: string where "close_braces = ''}}''"

definition before_brace :: "string \<Rightarrow> string" where
  "before_brace s = takeWhile (\<lambda>c. c \<noteq> CHR ''}'') s"

definition from_brace :: "string \<Rightarrow> string" where
  "from_brace s = dropWhile (\<lambda>c. c \<noteq> CHR ''}'') s"

definition placeholder :: "string \<Rightarrow> (string \<times> string) option" where
  \<comment> \<open>the path of the placeholder the text starts with, and the text after it\<close>
  "placeholder s = (if starts_with s open_braces \<and> before_brace (drop 2 s) \<noteq> []
       \<and> starts_with (from_brace (drop 2 s)) close_braces
     then Some (trim (before_brace (drop 2 s)), drop 2 (from_brace (drop 2 s))) else None)"

lemma placeholder_shorter: "placeholder s = Some (p, rest) \<Longrightarrow> length rest < length s"
proof -
  assume "placeholder s = Some (p, rest)"
  then have ne: "s \<noteq> []" and rest: "rest = drop 2 (from_brace (drop 2 s))"
    by (auto simp: placeholder_def starts_with_def open_braces_def split: if_splits)
  have "length (from_brace (drop 2 s)) \<le> length (drop 2 s)"
    unfolding from_brace_def by (rule length_dropWhile_le)
  then show ?thesis using ne rest by (cases s) auto
qed

definition template_text :: "json \<Rightarrow> string" where
  "template_text v = (case v of JStr s \<Rightarrow> s | _ \<Rightarrow> json_text (nullish v JNull))"

function renderTemplate :: "string \<Rightarrow> json \<Rightarrow> string" where
  "renderTemplate t values = (case placeholder t of
       Some (p, rest) \<Rightarrow> template_text (getPath values (Some p)) @ renderTemplate rest values
     | None \<Rightarrow> (case t of [] \<Rightarrow> [] | c # cs \<Rightarrow> c # renderTemplate cs values))"
  by pat_completeness auto
termination
  by (relation "measure (\<lambda>(t, values). length t)") (auto dest: placeholder_shorter)

declare renderTemplate.simps [simp del]

fun materializeTemplate :: "json \<Rightarrow> json \<Rightarrow> json" where
  "materializeTemplate (JStr s) values = (case placeholder s of
       Some (p, []) \<Rightarrow> getPath values (Some p)
     | _ \<Rightarrow> JStr (renderTemplate s values))"
| "materializeTemplate (JArr vs) values = JArr (map (\<lambda>v. materializeTemplate v values) vs)"
| "materializeTemplate (JObj es) values = JObj (obj_from_entries (map (\<lambda>(k, v). (k, materializeTemplate v values)) es))"
| "materializeTemplate v values = v"

section \<open>Conditions\<close>

definition path_char :: "char \<Rightarrow> bool" where
  \<comment> \<open>\<open>[\w./$-]\<close>\<close>
  "path_char c \<longleftrightarrow> (let n = of_char c :: nat in (97 \<le> n \<and> n \<le> 122) \<or> (65 \<le> n \<and> n \<le> 90)
     \<or> (48 \<le> n \<and> n \<le> 57) \<or> n \<in> {95, 46, 47, 36, 45})"

definition no_line_end :: "string \<Rightarrow> bool" where
  "no_line_end s \<longleftrightarrow> CHR 10 \<notin> set s \<and> CHR 13 \<notin> set s"

definition comparison :: "string \<Rightarrow> (string \<times> bool \<times> string) option" where
  \<comment> \<open>\<open>^([\w./$-]+)\s*(==|!=)\s*(.+)$\<close>: the path, whether the operator is \<open>==\<close>, and the rest\<close>
  "comparison e = (let path = takeWhile path_char e; r = dropWhile is_space (dropWhile path_char e);
       rest = drop 2 r; o' = dropWhile is_space rest;
       operand = (if o' = [] \<and> rest \<noteq> [] then [last rest] else o')
     in if path \<noteq> [] \<and> (starts_with r ''=='' \<or> starts_with r ''!='') \<and> operand \<noteq> [] \<and> no_line_end operand
        then Some (path, starts_with r ''=='', operand) else None)"

definition is_quote :: "char \<Rightarrow> bool" where
  "is_quote c \<longleftrightarrow> c = CHR 39 \<or> c = CHR 34"

definition unquote :: "string \<Rightarrow> string" where
  \<comment> \<open>one quote of either kind is dropped at each end\<close>
  "unquote s = (let t = (case s of c # cs \<Rightarrow> if is_quote c then cs else s | [] \<Rightarrow> []) in
     if t \<noteq> [] \<and> is_quote (last t) then butlast t else t)"

fun strict_equal :: "json \<Rightarrow> json \<Rightarrow> bool" where
  \<comment> \<open>\<open>===\<close> with a freshly parsed right side: no array or object is identical to it\<close>
  "strict_equal (JArr _) _ \<longleftrightarrow> False" | "strict_equal (JObj _) _ \<longleftrightarrow> False" | "strict_equal a b \<longleftrightarrow> a = b"

definition evaluateCondition :: "(string \<Rightarrow> json option) \<Rightarrow> string option \<Rightarrow> json \<Rightarrow> bool" where
  "evaluateCondition json_parse expression state = (case expression of None \<Rightarrow> True
     | Some e \<Rightarrow> if e = [] \<or> e = ''always'' then True
       else (case comparison e of
           None \<Rightarrow> truthy (getPath state (Some e))
         | Some (path, eq, raw) \<Rightarrow>
             (let expected = (case json_parse raw of Some v \<Rightarrow> v | None \<Rightarrow> JStr (unquote raw));
                  same = strict_equal (getPath state (Some path)) expected
              in if eq then same else \<not> same)))"

section \<open>Transforms\<close>

definition text_or :: "entries \<Rightarrow> string \<Rightarrow> string \<Rightarrow> string" where
  \<comment> \<open>\<open>String(config.k ?? d)\<close>\<close>
  "text_or config k d = js_string (nullish (obj_get config k) (JStr d))"

definition path_of :: "entries \<Rightarrow> string option" where
  \<comment> \<open>\<open>typeof config.path === "string" ? config.path : undefined\<close>; an empty path reads as none\<close>
  "path_of config = (case obj_get config ''path'' of JStr p \<Rightarrow> if p = [] then None else Some p | _ \<Rightarrow> None)"

fun dedup_keys :: "(json \<Rightarrow> 'k) \<Rightarrow> 'k list \<Rightarrow> json list \<Rightarrow> json list" where
  "dedup_keys kf seen [] = []"
| "dedup_keys kf seen (x # xs) =
     (if kf x \<in> set seen then dedup_keys kf seen xs else x # dedup_keys kf (kf x # seen) xs)"

definition digest_key :: "(string \<Rightarrow> string) \<Rightarrow> string option \<Rightarrow> json \<Rightarrow> string" where
  "digest_key sha path item = stableDigest sha (nullish (getPath item path) JNull)"

text \<open>The comparison of \<open>sort\<close>: two numbers \<open>m / 10 ^ s\<close> by value, everything else by text.\<close>

definition number_less :: "int \<times> nat \<Rightarrow> int \<times> nat \<Rightarrow> bool" where
  "number_less a b \<longleftrightarrow> fst a * 10 ^ snd b < fst b * 10 ^ snd a"

definition comparable_text :: "json \<Rightarrow> string" where
  "comparable_text v = json_text (nullish v JNull)"

definition comparable_less :: "json \<Rightarrow> json \<Rightarrow> bool" where
  "comparable_less a b = (case (a, b) of
       (JNum m s, JNum m' s') \<Rightarrow> number_less (m, s) (m', s')
     | _ \<Rightarrow> comparable_text a < comparable_text b)"

fun insert_by :: "('a \<Rightarrow> 'a \<Rightarrow> bool) \<Rightarrow> 'a \<Rightarrow> 'a list \<Rightarrow> 'a list" where
  "insert_by below x [] = [x]"
| "insert_by below x (y # ys) = (if below y x then y # insert_by below x ys else x # y # ys)"

definition sorted_by :: "('a \<Rightarrow> 'a \<Rightarrow> bool) \<Rightarrow> 'a list \<Rightarrow> 'a list" where
  \<comment> \<open>a stable sort: an element goes before the later ones that are not below it\<close>
  "sorted_by below xs = foldr (insert_by below) xs []"

definition toSorted :: "(json \<Rightarrow> json \<Rightarrow> bool) \<Rightarrow> json list \<Rightarrow> json list" where
  \<comment> \<open>\<open>undefined\<close> elements go last and are not compared\<close>
  "toSorted below vs = sorted_by below (filter (\<lambda>v. v \<noteq> JUndef) vs) @ filter (\<lambda>v. v = JUndef) vs"

definition slice :: "int option \<Rightarrow> int option \<Rightarrow> 'a list \<Rightarrow> 'a list" where
  \<comment> \<open>a negative bound counts from the end\<close>
  "slice start end' xs = (let n = int (length xs);
       bound = (\<lambda>i. nat (if i < 0 then max 0 (n + i) else min i n));
       a = bound (or_else start 0); b = bound (or_else end' n)
     in take (b - a) (drop a xs))"

definition whole :: "entries \<Rightarrow> string \<Rightarrow> int option" where
  \<comment> \<open>\<open>Number.isInteger(config.k) ? Number(config.k) : undefined\<close>\<close>
  "whole config k = (case obj_get config k of JNum m s \<Rightarrow> if s = 0 then Some m else None | _ \<Rightarrow> None)"

definition own_members :: "json \<Rightarrow> entries" where
  \<comment> \<open>what \<open>Object.assign\<close> copies: members, elements, characters\<close>
  "own_members v = (case v of JStr s \<Rightarrow> map (\<lambda>i. (nat_text i, JStr [s ! i])) [0..<length s] | _ \<Rightarrow> js_entries v)"

definition merge_all :: "json list \<Rightarrow> entries" where
  "merge_all vs = foldl (\<lambda>acc v. obj_spread acc (own_members v)) [] vs"

definition transformValue :: "(string \<Rightarrow> string) \<Rightarrow> entries \<Rightarrow> json \<Rightarrow> json result" where
  "transformValue sha config v = (let operation = text_or config ''operation'' ''identity'' in
     if operation = ''identity'' then Inr v
     else if operation = ''select'' then Inr (getPath v (Some (text_or config ''path'' ''/'')))
     else if operation = ''project'' then
       Inr (JObj (obj_from_entries (map (\<lambda>f. (js_string f, getPath v (Some (js_string f))))
         (case obj_get config ''fields'' of JArr fs \<Rightarrow> fs | _ \<Rightarrow> []))))
     else if operation = ''merge'' then Inr (JObj (merge_all (case v of JArr vs \<Rightarrow> vs | _ \<Rightarrow> [v])))
     else if operation = ''deduplicate'' then (case v of
         JArr vs \<Rightarrow> Inr (JArr (dedup_keys (digest_key sha (path_of config)) [] vs))
       | _ \<Rightarrow> Inl ''runtime.transform_deduplicate_array_required'')
     else if operation = ''sort'' then (case v of
         JArr vs \<Rightarrow> Inr (JArr (toSorted (\<lambda>a b.
             let x = getPath a (path_of config); y = getPath b (path_of config) in
             if obj_get config ''direction'' = JStr ''desc'' then comparable_less y x else comparable_less x y) vs))
       | _ \<Rightarrow> Inl ''runtime.transform_sort_array_required'')
     else if operation = ''slice'' then (case v of
         JArr vs \<Rightarrow> Inr (JArr (slice (whole config ''start'') (whole config ''end'') vs))
       | JStr s \<Rightarrow> Inr (JStr (slice (whole config ''start'') (whole config ''end'') s))
       | _ \<Rightarrow> Inl ''runtime.transform_slice_sequence_required'')
     else Inl (''runtime.transform_unsupported:'' @ operation))"

section \<open>Aggregators\<close>

definition collectedValues :: "json \<Rightarrow> json list" where
  "collectedValues v = (case v of JArr vs \<Rightarrow> vs | JObj es \<Rightarrow> map snd es | _ \<Rightarrow> [v])"

record vote =
  vt_value :: json
  vt_count :: nat
  vt_first :: nat

fun count_votes :: "(json \<Rightarrow> 'k) \<Rightarrow> ('k \<times> vote) list \<Rightarrow> nat \<Rightarrow> json list \<Rightarrow> ('k \<times> vote) list" where
  "count_votes kf m i [] = m"
| "count_votes kf m i (v # vs) = count_votes kf (case map_of m (kf v) of
       None \<Rightarrow> m @ [(kf v, \<lparr>vt_value = v, vt_count = 1, vt_first = i\<rparr>)]
     | Some t \<Rightarrow> map (\<lambda>(k, x). if k = kf v then (k, t\<lparr>vt_count := vt_count t + 1\<rparr>) else (k, x)) m) (Suc i) vs"

definition vote_before :: "vote \<Rightarrow> vote \<Rightarrow> bool" where
  "vote_before a b \<longleftrightarrow> vt_count b < vt_count a \<or> (vt_count a = vt_count b \<and> vt_first a < vt_first b)"

definition winner :: "(json \<Rightarrow> 'k) \<Rightarrow> json list \<Rightarrow> json" where
  "winner kf vs = (case sorted_by vote_before (map snd (count_votes kf [] 0 vs)) of
       [] \<Rightarrow> JNull | t # _ \<Rightarrow> nullish (vt_value t) JNull)"

fun is_arr :: "json \<Rightarrow> bool" where
  "is_arr (JArr _) \<longleftrightarrow> True" | "is_arr _ \<longleftrightarrow> False"

definition elements :: "json \<Rightarrow> json list" where
  "elements v = (case v of JArr vs \<Rightarrow> vs | _ \<Rightarrow> [])"

definition aggregateValue :: "(string \<Rightarrow> string) \<Rightarrow> entries \<Rightarrow> json \<Rightarrow> json result" where
  "aggregateValue sha config v = (let operation = text_or config ''operation'' ''collect''; values = collectedValues v in
     if operation = ''collect'' then Inr (JArr values)
     else if operation = ''merge'' then
       (if list_all (\<lambda>x. is_object x \<and> \<not> is_arr x) values then Inr (JObj (merge_all values))
        else Inl ''runtime.aggregator_merge_objects_required'')
     else if operation = ''concat'' then
       (if list_all is_arr values then Inr (JArr (concat (map elements values)))
        else Inl ''runtime.aggregator_concat_arrays_required'')
     else if operation = ''vote'' then
       Inr (winner (digest_key sha None) (map (\<lambda>item. getPath item (path_of config)) values))
     else Inl (''runtime.aggregator_unsupported:'' @ operation))"

end
