(* ===== verification/RuntimeNode.thy ===== *)
theory RuntimeNode
  imports RuntimeCore Http CaseEvidence
begin

text \<open>
  The effects of a runtime: packages/runtime-state/src/index.ts, its journal over HTTP, and the second
  half of packages/runtime-core/src/index.ts, which runs one node of a plan (asks for an envelope,
  calls the gateway, writes to the case and journals what happened). What a runtime works with from
  outside the repository is a \<open>platform\<close>: \<open>fetch\<close>, SHA-256, \<open>JSON.parse\<close>, \<open>Number\<close> of a text, zod's
  \<open>datetime\<close> check, and the identifiers of the current span. Spans themselves are left out.
\<close>

section \<open>The journal\<close>

record 'w journal =
  jn_nodeStarted :: "fenced_run \<Rightarrow> node_started \<Rightarrow> ('w, unit) act"
  jn_nodeFinished :: "fenced_run \<Rightarrow> node_finished \<Rightarrow> ('w, unit) act"
  jn_appendEvent :: "fenced_run \<Rightarrow> state_event \<Rightarrow> ('w, unit) act"
  jn_markCheckpoint :: "fenced_run \<Rightarrow> string option \<Rightarrow> string option \<Rightarrow> ('w, unit) act"

record 'w state_options =
  so_baseUrl :: string
  so_serviceToken :: "'w credential"
  so_executionGrant :: string
  so_fetch :: "'w fetch"

definition fenced_json :: "fenced_run \<Rightarrow> json" where
  "fenced_json run = JObj [(''runId'', JStr (fr_runId run)), (''attempt'', JInt (int (fr_attempt run))),
     (''workerId'', JStr (fr_workerId run)), (''fencingEpoch'', JInt (int (fr_fencingEpoch run)))]"

fun event_status_name :: "event_status \<Rightarrow> string" where
  "event_status_name Observed = ''observed''" | "event_status_name Passed = ''passed''"
| "event_status_name EvFailed = ''failed''" | "event_status_name EvDenied = ''denied''"

fun state_entries :: "state_payload \<Rightarrow> entries" where
  "state_entries (NodeStarted i) = [(''nodeId'', JStr (ns_nodeId i)), (''inputDigest'', JStr (ns_inputDigest i)),
     (''traceId'', opt_json JStr (ns_traceId i)), (''spanId'', opt_json JStr (ns_spanId i))]"
| "state_entries (NodeFinished i) = [(''nodeId'', JStr (nf_nodeId i)), (''status'', JStr (nf_status i)),
     (''outputDigest'', opt_json JStr (nf_outputDigest i)), (''errorCode'', opt_json JStr (nf_errorCode i))]"
| "state_entries (RuntimeEvent i) = [(''eventKey'', JStr (se_eventKey i)), (''code'', JStr (se_code i)),
     (''nodeId'', null_json JStr (se_nodeId i)), (''status'', JStr (event_status_name (se_status i))),
     (''values'', JObj (se_values i))]"
| "state_entries (Checkpoint c n) = [(''checkpointId'', null_json JStr c), (''nodeId'', null_json JStr n)]"

fun state_path :: "state_payload \<Rightarrow> string" where
  "state_path (NodeStarted i) = ''node-started''" | "state_path (NodeFinished i) = ''node-finished''"
| "state_path (RuntimeEvent i) = ''events''" | "state_path (Checkpoint c n) = ''checkpoint''"

definition rejection :: "nat \<Rightarrow> json option \<Rightarrow> code" where
  \<comment> \<open>the message of the \<open>RuntimeStateError\<close>; a body that is not JSON counts as empty\<close>
  "rejection status reply = (case member_of (or_else reply (JObj [])) ''error'' of Inl c \<Rightarrow> c
     | Inr e \<Rightarrow> js_string (nullish e (JStr (''runtime_state.http_'' @ nat_text status))))"

definition post :: "'w state_options \<Rightarrow> fenced_run \<Rightarrow> state_payload \<Rightarrow> ('w, unit) act" where
  "post S run body = then_do (workloadToken (so_serviceToken S)) (\<lambda>token.
     then_do (exchange (so_fetch S) \<lparr>rq_method = ''POST'', rq_url = so_baseUrl S @ ''/v1/runtime/state/'' @ state_path body,
         rq_headers = [bearer token, (''x-runtime-grant'', so_executionGrant S), json_content],
         rq_body = sent (JObj ((''run'', fenced_json run) # state_entries body))\<rparr>) (\<lambda>(status, reply).
     if ok_status status then yield () else throw (rejection status reply)))"

definition HttpRuntimeStateStore :: "'w state_options \<Rightarrow> 'w journal" where
  "HttpRuntimeStateStore S = \<lparr>jn_nodeStarted = (\<lambda>run i. post S run (NodeStarted i)),
     jn_nodeFinished = (\<lambda>run i. post S run (NodeFinished i)), jn_appendEvent = (\<lambda>run i. post S run (RuntimeEvent i)),
     jn_markCheckpoint = (\<lambda>run c n. post S run (Checkpoint c n))\<rparr>"

section \<open>The context of a runtime\<close>

record 'w platform =
  pf_fetch :: "'w fetch"
  pf_sha :: "string \<Rightarrow> string"
  pf_json_parse :: "string \<Rightarrow> json option"
  pf_number :: "string \<Rightarrow> decimal option"
  pf_datetime :: "string \<Rightarrow> bool"
  pf_span :: "string \<times> string"

record 'w runtime_context =
  rc_state :: "'w journal"
  rc_plan :: harness_plan
  rc_runId :: string
  rc_runAttempt :: nat
  rc_workerId :: string
  rc_fencingEpoch :: nat
  rc_gatewayUrl :: string
  rc_caseApiUrl :: "string option"
  rc_envelopeBrokerUrl :: string
  rc_executionGrant :: string
  rc_serviceToken :: "'w credential"

definition fencedRun :: "'w runtime_context \<Rightarrow> fenced_run" where
  "fencedRun C = \<lparr>fr_runId = rc_runId C, fr_attempt = rc_runAttempt C, fr_workerId = rc_workerId C,
     fr_fencingEpoch = rc_fencingEpoch C\<rparr>"

definition node_of :: "'w runtime_context \<Rightarrow> string \<Rightarrow> graph_node option" where
  "node_of C nodeId = List.find (\<lambda>n. node_id n = nodeId) (plan_nodes (rc_plan C))"

definition config_of :: "'w runtime_context \<Rightarrow> string \<Rightarrow> entries" where
  \<comment> \<open>\<open>node?.config\<close>: the members of a node that does not exist are undefined\<close>
  "config_of C nodeId = (case node_of C nodeId of None \<Rightarrow> [] | Some n \<Rightarrow> node_config n)"

definition js_number :: "'w platform \<Rightarrow> json \<Rightarrow> decimal option" where
  \<comment> \<open>\<open>Number\<close>; None is NaN\<close>
  "js_number P v = (case v of JNum m s \<Rightarrow> Some (m, s) | JBool b \<Rightarrow> Some (if b then 1 else 0, 0) | JNull \<Rightarrow> Some (0, 0)
     | JUndef \<Rightarrow> None | _ \<Rightarrow> pf_number P (js_string v))"

section \<open>Authority for a node\<close>

record issued_envelope =
  ie_envelope :: string
  ie_expiresInSeconds :: "decimal option"
  ie_caseWrites :: "string list"

definition error_text :: "code \<Rightarrow> json \<Rightarrow> ('w, 'a) act" where
  \<comment> \<open>\<open>throw new Error(String(body.error ?? d))\<close>\<close>
  "error_text d body = then_do (lift_act (member_of body ''error'')) (\<lambda>e. throw (js_string (nullish e (JStr d))))"

definition requestExecutionEnvelope :: "'w platform \<Rightarrow> 'w runtime_context \<Rightarrow> string \<Rightarrow> string \<Rightarrow> ('w, issued_envelope) act" where
  "requestExecutionEnvelope P C nodeId invocationId =
     then_do (workloadToken (rc_serviceToken C)) (\<lambda>token.
     then_do (exchange (pf_fetch P) \<lparr>rq_method = ''POST'', rq_url = rc_envelopeBrokerUrl C @ ''/v1/runtime/envelopes'',
         rq_headers = [bearer token, (''x-runtime-grant'', rc_executionGrant C), json_content],
         rq_body = sent (JObj [(''runId'', JStr (rc_runId C)), (''nodeId'', JStr nodeId),
           (''attempt'', JInt (int (rc_runAttempt C))), (''invocationId'', JStr invocationId)])\<rparr>) (\<lambda>(status, reply).
     then_do (reply_json reply) (\<lambda>body.
     if \<not> ok_status status then error_text ''runtime.envelope_denied'' body
     else then_do (lift_act (member_of body ''envelope'')) (\<lambda>e. case e of
         JStr envelope \<Rightarrow> if envelope = [] then throw ''runtime.envelope_invalid''
           else yield \<lparr>ie_envelope = envelope, ie_expiresInSeconds = js_number P (nullish (js_member body ''expiresInSeconds'') (JInt 0)),
             ie_caseWrites = (case js_member body ''caseWrites'' of JArr vs \<Rightarrow> map js_string vs | _ \<Rightarrow> [])\<rparr>
       | _ \<Rightarrow> throw ''runtime.envelope_invalid''))))"

section \<open>Capabilities\<close>

definition result_text :: "entries \<Rightarrow> string \<Rightarrow> string option option" where
  \<comment> \<open>\<open>z.string().nullable()\<close>\<close>
  "result_text es k = nullable_field (\<lambda>s. True) es k"

definition nullable_nat :: "entries \<Rightarrow> string \<Rightarrow> int option option" where
  "nullable_nat es k = (if obj_get es k = JNull then Some None else map_option (\<lambda>n. Some (int n)) (nat_field es k))"

definition nullable_cost :: "entries \<Rightarrow> string \<Rightarrow> decimal option option" where
  "nullable_cost es k = (case obj_get es k of JNull \<Rightarrow> Some None
     | JNum m s \<Rightarrow> if 0 \<le> m then Some (Some (m, s)) else None | _ \<Rightarrow> None)"

definition parse_usage :: "json \<Rightarrow> (int option \<times> int option \<times> decimal option) option" where
  "parse_usage v = (case v of JObj es \<Rightarrow>
     (if strict_object [''inputTokens'', ''outputTokens'', ''costUsd''] es then
      (case (nullable_nat es ''inputTokens'', nullable_nat es ''outputTokens'', nullable_cost es ''costUsd'') of
         (Some i, Some ot, Some c) \<Rightarrow> Some (i, ot, c) | _ \<Rightarrow> None) else None)
   | _ \<Rightarrow> None)"

definition parse_capability_status :: "string \<Rightarrow> capability_status option" where
  "parse_capability_status s = map_of [(''succeeded'', CapSucceeded), (''failed'', CapFailed), (''denied'', CapDenied)] s"

definition parse_capability_result :: "json \<Rightarrow> capability_result option" where
  "parse_capability_result v = (case v of JObj es \<Rightarrow>
     (if strict_object [''invocationId'', ''capabilityId'', ''status'', ''output'', ''errorCode'', ''provider'', ''model'',
          ''providerRequestId'', ''usage'', ''latencyMs'', ''receiptDigest''] es then
      (case (str_field es ''invocationId'', str_field es ''capabilityId'',
             Option.bind (str_field es ''status'') parse_capability_status, result_text es ''errorCode'',
             result_text es ''provider'', result_text es ''model'', result_text es ''providerRequestId'',
             parse_usage (obj_get es ''usage''), nat_field es ''latencyMs'', required_field digest_ok es ''receiptDigest'') of
         (Some i, Some c, Some st, Some e, Some p, Some m, Some r, Some (it, ot, co), Some l, Some d) \<Rightarrow>
           Some \<lparr>cres_invocationId = i, cres_capabilityId = c, cres_status = st, cres_output = obj_get es ''output'',
             cres_errorCode = e, cres_provider = p, cres_model = m, cres_providerRequestId = r, cres_inputTokens = it,
             cres_outputTokens = ot, cres_costUsd = co, cres_latencyMs = int l, cres_receiptDigest = d\<rparr>
       | _ \<Rightarrow> None) else None)
   | _ \<Rightarrow> None)"

definition bound_capability :: "'w runtime_context \<Rightarrow> string \<Rightarrow> capability_definition option" where
  "bound_capability C nodeId = (let capabilityId = text_or (config_of C nodeId) ''capabilityId'' [] in
     List.find (\<lambda>c. cap_id c = capabilityId) (plan_capabilities (rc_plan C)))"

definition gateway_request :: "'w runtime_context \<Rightarrow> string \<Rightarrow> capability_definition \<Rightarrow> string \<Rightarrow> json \<Rightarrow> http_request" where
  \<comment> \<open>the authorization header has the credential itself, not its token\<close>
  "gateway_request C envelope capability invocationId v = \<lparr>rq_method = ''POST'', rq_url = rc_gatewayUrl C @ ''/v1/invoke'',
     rq_headers = [bearer (credential_text (rc_serviceToken C)), (''x-execution-envelope'', envelope), json_content],
     rq_body = sent (JObj [(''invocationId'', JStr invocationId), (''capabilityId'', JStr (cap_id capability)),
       (''effect'', JStr (effect_name (cap_effect capability))), (''input'', v)])\<rparr>"

definition invokeCapability :: "'w platform \<Rightarrow> 'w runtime_context \<Rightarrow> string \<Rightarrow> json \<Rightarrow> ('w, capability_result) act" where
  "invokeCapability P C nodeId v = (case (bound_capability C nodeId, find_permission (rc_plan C) nodeId) of
       (Some capability, Some _) \<Rightarrow>
         then_do (lift_act (stableDigest_checked (pf_sha P) v)) (\<lambda>digest.
         let invocationId = rc_runId C @ '':'' @ nodeId @ '':'' @ take 24 digest in
         then_do (requestExecutionEnvelope P C nodeId invocationId) (\<lambda>issued.
         then_do (exchange (pf_fetch P) (gateway_request C (ie_envelope issued) capability invocationId v)) (\<lambda>(status, reply).
         then_do (reply_json reply) (\<lambda>body.
         if \<not> ok_status status then error_text ''runtime.gateway_failed'' body
         else (case parse_capability_result body of None \<Rightarrow> throw ''ZodError'' | Some r \<Rightarrow> yield r)))))
     | _ \<Rightarrow> throw ''runtime.capability_binding_missing'')"

section \<open>Calls of the case service\<close>

definition caseRequest :: "'w platform \<Rightarrow> 'w runtime_context \<Rightarrow> string \<Rightarrow> string \<Rightarrow> (string \<times> string) list \<Rightarrow> json option \<Rightarrow> ('w, json) act" where
  "caseRequest P C method path hs body =
     (if nonempty (rc_caseApiUrl C)
      then then_do (workloadToken (rc_serviceToken C)) (\<lambda>token.
        then_do (exchange (pf_fetch P) \<lparr>rq_method = method, rq_url = the (rc_caseApiUrl C) @ path,
            rq_headers = [bearer token, json_content] @ hs, rq_body = Option.bind body sent\<rparr>) (\<lambda>(status, reply).
        then_do (reply_json reply) (\<lambda>v.
        if \<not> ok_status status then error_text ''runtime.case_api_failed'' v else yield v)))
      else throw ''runtime.case_api_url_missing'')"

definition currentCaseSequence :: "'w platform \<Rightarrow> 'w runtime_context \<Rightarrow> string \<Rightarrow> string \<Rightarrow> ('w, int) act" where
  "currentCaseSequence P C tenantId caseId =
     then_do (caseRequest P C ''GET'' (''/v1/cases/'' @ encodeURIComponent caseId) [(''x-tenant-id'', tenantId)] None) (\<lambda>view.
     then_do (lift_act (member_of view ''case'')) (\<lambda>caseRecord.
     if \<not> is_object caseRecord then throw ''runtime.case_view_invalid''
     else (case js_number P (js_member caseRecord ''caseSequence'') of
         Some (m, s) \<Rightarrow> if s = 0 \<and> 0 \<le> m then yield m else throw ''runtime.case_sequence_invalid''
       | None \<Rightarrow> throw ''runtime.case_sequence_invalid'')))"

section \<open>Case writes\<close>

text \<open>The case a run is about, as its input names it.\<close>

record case_ref =
  cf_tenantId :: string
  cf_caseId :: string
  cf_policySnapshotDigest :: string

definition case_ref_of :: "entries \<Rightarrow> case_ref option" where
  "case_ref_of caseInput = (let t = text_or caseInput ''tenantId'' []; c = text_or caseInput ''caseId'' [];
       p = text_or caseInput ''policySnapshotDigest'' []
     in if t = [] \<or> c = [] \<or> p = [] then None else Some \<lparr>cf_tenantId = t, cf_caseId = c, cf_policySnapshotDigest = p\<rparr>)"

definition node_actor :: "'w runtime_context \<Rightarrow> string \<Rightarrow> case_actor" where
  "node_actor C nodeId = \<lparr>actor_type = AGENT,
     actor_principalId = or_else (str_field (config_of C nodeId) ''agentRef'') nodeId,
     actor_executionId = Some (rc_runId C), actor_roles = []\<rparr>"

definition write_scope :: "'w runtime_context \<Rightarrow> string \<Rightarrow> entries \<Rightarrow> json \<Rightarrow> json \<Rightarrow> json \<Rightarrow> string option \<Rightarrow> json" where
  "write_scope C nodeId caseInput nodeInput output vals evidenceId = JObj ([(''case'', JObj caseInput),
     (''nodeInput'', nodeInput), (''output'', output), (''values'', vals),
     (''run'', JObj [(''runId'', JStr (rc_runId C)), (''attempt'', JInt (int (rc_runAttempt C))),
        (''planDigest'', JStr (plan_planDigest (rc_plan C))), (''nodeId'', JStr nodeId)])]
     @ (case evidenceId of None \<Rightarrow> [] | Some e \<Rightarrow> [(''evidence'', JObj [(''evidenceId'', JStr e)])]))"

text \<open>\<open>Buffer.from(text).toString("base64")\<close>: the text in UTF-8, three bytes to four characters.\<close>

definition utf8 :: "string \<Rightarrow> nat list" where
  "utf8 s = concat (map (\<lambda>c. let n = of_char c :: nat in if n < 128 then [n] else [192 + n div 64, 128 + n mod 64]) s)"

fun base64_groups :: "nat list \<Rightarrow> string" where
  "base64_groups (a # b # c # xs) = map (nth base64_alphabet)
     [a div 4, a mod 4 * 16 + b div 16, b mod 16 * 4 + c div 64, c mod 64] @ base64_groups xs"
| "base64_groups [a, b] = map (nth base64_alphabet) [a div 4, a mod 4 * 16 + b div 16, b mod 16 * 4] @ ''=''"
| "base64_groups [a] = map (nth base64_alphabet) [a div 4, a mod 4 * 16] @ ''==''"
| "base64_groups [] = []"

definition base64_encode :: "string \<Rightarrow> string" where
  "base64_encode s = base64_groups (utf8 s)"

definition evidence_source_ok :: "'w platform \<Rightarrow> string \<Rightarrow> string option \<Rightarrow> string \<Rightarrow> bool" where
  "evidence_source_ok P type' capability retrievedAt \<longleftrightarrow>
     type' \<in> {''TOOL'', ''UPLOAD'', ''INTERNAL_SYSTEM'', ''HUMAN'', ''DERIVED''} \<and> capability \<noteq> Some [] \<and> pf_datetime P retrievedAt"

definition evidence_request :: "'w platform \<Rightarrow> 'w runtime_context \<Rightarrow> string \<Rightarrow> case_ref \<Rightarrow> entries \<Rightarrow> entries \<Rightarrow> json \<Rightarrow> register_evidence_request result" where
  "evidence_request P C nodeId ref caseInput capture output =
     (let type' = text_or capture ''sourceType'' ''DERIVED'';
          capability = str_field (config_of C nodeId) ''capabilityId'';
          retrievedAt = (case js_member output ''retrievedAt'' of JStr s \<Rightarrow> s | _ \<Rightarrow> ''2026-01-01T00:00:00.000Z'');
          request = \<lparr>rer_tenantId = cf_tenantId ref, rer_caseId = cf_caseId ref, rer_schemaVersion = ''harness.evidence.v1'',
            rer_type = text_or capture ''type'' (nodeId @ ''.output''), rer_mediaType = ''application/json'',
            rer_contentBase64 = base64_encode (json_text output), rer_declaredDigest = None,
            rer_source = [(''type'', JStr type')] @ (case capability of None \<Rightarrow> [] | Some c \<Rightarrow> [(''capability'', JStr c)])
              @ [(''retrievedAt'', JStr retrievedAt)],
            rer_subjectRefs = (if truthy (obj_get caseInput ''subjectId'') then [js_string (obj_get caseInput ''subjectId'')] else []),
            rer_trust = (text_or capture ''trustTier'' ''POC_PROVIDER'', text_or capture ''instructionTrust'' ''UNTRUSTED_DATA''),
            rer_classification = text_or caseInput ''classification'' ''CONFIDENTIAL'',
            rer_retentionClass = text_or capture ''retentionClass'' ''KYC_REGULATED'',
            rer_residency = js_string (nullish (obj_get caseInput ''residency'') (nullish (obj_get caseInput ''country'') (JStr ''US''))),
            rer_createdBy = node_actor C nodeId\<rparr>
      in if output = JUndef then Inl ''ERR_INVALID_ARG_TYPE''
         else if evidence_source_ok P type' capability retrievedAt \<and> register_evidence_request_ok request
         then Inr request else Inl ''ZodError'')"

definition captureEvidence :: "'w platform \<Rightarrow> 'w runtime_context \<Rightarrow> string \<Rightarrow> case_ref \<Rightarrow> entries \<Rightarrow> entries \<Rightarrow> json \<Rightarrow> string \<Rightarrow> ('w, string) act" where
  "captureEvidence P C nodeId ref caseInput capture output envelope =
     then_do (lift_act (evidence_request P C nodeId ref caseInput capture output)) (\<lambda>request.
     then_do (caseRequest P C ''POST'' ''/v1/evidence:register'' [(''x-execution-envelope'', envelope),
         (''idempotency-key'', rc_runId C @ '':'' @ nat_text (rc_runAttempt C) @ '':'' @ nodeId @ '':evidence'')]
         (Some (register_json request))) (\<lambda>registered.
     then_do (lift_act (member_of registered ''evidence'')) (\<lambda>evidence.
     case js_member evidence ''evidenceId'' of JStr e \<Rightarrow> yield e | _ \<Rightarrow> throw ''runtime.evidence_registration_invalid'')))"

definition case_write_command :: "'w platform \<Rightarrow> 'w runtime_context \<Rightarrow> string \<Rightarrow> case_ref \<Rightarrow> string \<Rightarrow> nat \<Rightarrow> command_type \<Rightarrow> entries \<Rightarrow> int \<Rightarrow> business_command" where
  \<comment> \<open>the identifier of the command is the same in every attempt, its idempotency key is not\<close>
  "case_write_command P C nodeId ref permissionDigest index type' payload sequence = \<lparr>
     cmd_commandId = ''cmd_'' @ take 24 (stableDigest (pf_sha P) (JStr (rc_runId C @ '':'' @ nodeId @ '':'' @ nat_text index))),
     cmd_commandType = type', cmd_commandVersion = ''harness.case-write.v1'', cmd_tenantId = cf_tenantId ref,
     cmd_caseId = cf_caseId ref, cmd_actor = node_actor C nodeId,
     cmd_authority = \<lparr>auth_planDigest = plan_planDigest (rc_plan C), auth_permissionEnvelopeDigest = permissionDigest,
       auth_policySnapshotDigest = cf_policySnapshotDigest ref\<rparr>,
     cmd_payload = payload, cmd_caseSequence = sequence, cmd_subjectRevision = None,
     cmd_idempotencyKey = cf_tenantId ref @ '':'' @ cf_caseId ref @ '':'' @ rc_runId C @ '':'' @ nat_text (rc_runAttempt C)
       @ '':'' @ nodeId @ '':'' @ nat_text index,
     cmd_occurredAt = None\<rparr>"

definition submitCaseWrite :: "'w platform \<Rightarrow> 'w runtime_context \<Rightarrow> string \<Rightarrow> case_ref \<Rightarrow> string \<Rightarrow> string \<Rightarrow> json \<Rightarrow> nat \<Rightarrow> entries \<Rightarrow> ('w, unit) act" where
  "submitCaseWrite P C nodeId ref permissionDigest envelope scope index write =
     (let when' = text_or write ''when'' ''success''; commandType = text_or write ''commandType'' [] in
      if when' \<noteq> ''success'' \<and> \<not> evaluateCondition (pf_json_parse P) (Some when') scope then yield ()
      else (case materializeTemplate (nullish (obj_get write ''payload'') (JObj [])) scope of
        JObj payload \<Rightarrow>
          then_do (currentCaseSequence P C (cf_tenantId ref) (cf_caseId ref)) (\<lambda>sequence.
          case parse_command_type (JStr commandType) of None \<Rightarrow> throw ''ZodError'' | Some type' \<Rightarrow>
          let command = case_write_command P C nodeId ref permissionDigest index type' payload sequence in
          if \<not> business_command_ok command then throw ''ZodError''
          else then_do (caseRequest P C ''POST'' (''/v1/cases/'' @ encodeURIComponent (cf_caseId ref) @ ''/commands'')
              [(''x-execution-envelope'', envelope)] (Some (command_json command))) (\<lambda>_.
            jn_appendEvent (rc_state C) (fencedRun C) \<lparr>
              se_eventKey = ''case-write:'' @ nodeId @ '':'' @ nat_text (rc_runAttempt C) @ '':'' @ nat_text index,
              se_code = ''case.write.completed'', se_nodeId = Some nodeId, se_status = Passed,
              se_values = [(''commandType'', JStr commandType)]\<rparr>))
      | _ \<Rightarrow> throw ''runtime.case_write_payload_invalid''))"

fun in_order :: "('a \<Rightarrow> ('w, unit) act) \<Rightarrow> 'a list \<Rightarrow> ('w, unit) act" where
  "in_order f [] = yield ()"
| "in_order f (x # xs) = then_do (f x) (\<lambda>_. in_order f xs)"

definition declared_writes :: "'w runtime_context \<Rightarrow> string \<Rightarrow> entries list" where
  "declared_writes C nodeId = (case obj_get (config_of C nodeId) ''caseWrites'' of
       JArr vs \<Rightarrow> concat (map (\<lambda>v. case v of JObj es \<Rightarrow> [es] | _ \<Rightarrow> []) vs) | _ \<Rightarrow> [])"

definition object_or_empty :: "json \<Rightarrow> entries" where
  "object_or_empty v = (case v of JObj es \<Rightarrow> es | _ \<Rightarrow> [])"

definition executeCaseWrites :: "'w platform \<Rightarrow> 'w runtime_context \<Rightarrow> string \<Rightarrow> json \<Rightarrow> json \<Rightarrow> json \<Rightarrow> json \<Rightarrow> ('w, unit) act" where
  "executeCaseWrites P C nodeId rootInput nodeInput output vals =
     (let writes = declared_writes C nodeId; caseInput = object_or_empty rootInput in
      if writes = [] then yield ()
      else (case case_ref_of caseInput of None \<Rightarrow> throw ''runtime.case_context_missing'' | Some ref \<Rightarrow>
        (case find_permission (rc_plan C) nodeId of None \<Rightarrow> throw ''runtime.case_write_permission_missing''
         | Some permission \<Rightarrow>
          then_do (requestExecutionEnvelope P C nodeId
              (rc_runId C @ '':'' @ nodeId @ '':case-writes:'' @ nat_text (rc_runAttempt C))) (\<lambda>issued.
          then_do (case obj_get (config_of C nodeId) ''evidenceCapture'' of
              JObj capture \<Rightarrow> then_do (captureEvidence P C nodeId ref caseInput capture output (ie_envelope issued))
                (\<lambda>e. yield (Some e))
            | _ \<Rightarrow> yield None) (\<lambda>evidenceId.
          let scope = write_scope C nodeId caseInput nodeInput output vals evidenceId in
          in_order (\<lambda>(index, write). submitCaseWrite P C nodeId ref (perm_digest permission) (ie_envelope issued) scope index write)
            (enumerate 0 writes))))))"

section \<open>A node under observation\<close>

definition node_event :: "'w runtime_context \<Rightarrow> string \<Rightarrow> string \<Rightarrow> event_status \<Rightarrow> entries \<Rightarrow> ('w, unit) act" where
  \<comment> \<open>the event \<open>node.<name>\<close> under the key \<open>node:<id>:<attempt>:<name>\<close>\<close>
  "node_event C nodeId name status vals = jn_appendEvent (rc_state C) (fencedRun C) \<lparr>
     se_eventKey = ''node:'' @ nodeId @ '':'' @ nat_text (rc_runAttempt C) @ '':'' @ name,
     se_code = ''node.'' @ name, se_nodeId = Some nodeId, se_status = status, se_values = vals\<rparr>"

definition node_end :: "'w runtime_context \<Rightarrow> string \<Rightarrow> string \<Rightarrow> string option \<Rightarrow> string option \<Rightarrow> ('w, unit) act" where
  "node_end C nodeId status digest errorCode = jn_nodeFinished (rc_state C) (fencedRun C)
     \<lparr>nf_nodeId = nodeId, nf_status = status, nf_outputDigest = digest, nf_errorCode = errorCode\<rparr>"

definition observed :: "'w platform \<Rightarrow> 'w runtime_context \<Rightarrow> string \<Rightarrow> ('w, json) act \<Rightarrow> ('w, json) act" where
  "observed P C nodeId execute = caught
     (then_do execute (\<lambda>result.
      then_do (lift_act (stableDigest_checked (pf_sha P) result)) (\<lambda>digest.
      then_do (node_end C nodeId ''completed'' (Some digest) None) (\<lambda>_.
      then_do (node_event C nodeId ''completed'' Passed []) (\<lambda>_. yield result)))))
     (\<lambda>code. then_do (node_end C nodeId ''failed'' None (Some code)) (\<lambda>_.
      then_do (node_event C nodeId ''failed'' EvFailed [(''errorCode'', JStr code)]) (\<lambda>_. throw code)))"

definition executeObservedNode :: "'w platform \<Rightarrow> 'w runtime_context \<Rightarrow> string \<Rightarrow> json \<Rightarrow> ('w, json) act \<Rightarrow> ('w, json) act" where
  "executeObservedNode P C nodeId v execute =
     then_do (lift_act (stableDigest_checked (pf_sha P) v)) (\<lambda>digest.
     then_do (jn_nodeStarted (rc_state C) (fencedRun C) \<lparr>ns_nodeId = nodeId, ns_inputDigest = digest,
         ns_traceId = Some (fst (pf_span P)), ns_spanId = Some (snd (pf_span P))\<rparr>) (\<lambda>_.
     then_do (node_event C nodeId ''started'' Observed []) (\<lambda>_.
     observed P C nodeId execute)))"

end
