(* ===== verification/RuntimeClaims.thy ===== *)
theory RuntimeClaims
  imports RuntimeNode Gateway BrokerClaims ReviewClaims
begin

text \<open>
  A runtime together with the services it calls: journaling over HTTP is journaling, a runtime that
  lost its run starts no node, a runtime that fetches its token cannot invoke a capability, and a
  case write of an earlier attempt stands in the way of the next one.
\<close>

section \<open>The services as seen through fetch\<close>

definition request_headers :: "http_request \<Rightarrow> headers" where
  "request_headers r = map (\<lambda>(k, v). (k, One v)) (rq_headers r)"

definition grant_header :: "http_request \<Rightarrow> string option" where
  "grant_header r = trim_or_undefined (map_of (rq_headers r) ''x-runtime-grant'')"

fun state_reply :: "db \<times> unit response \<Rightarrow> db \<times> http_reply" where
  "state_reply (d, Reply s x) = (d, HttpReply s None)"
| "state_reply (d, Failure s c) = (d, HttpReply s (Some (JObj [(''error'', JStr c)])))"

text \<open>The control plane answering one request at a time.\<close>

definition state_server :: "string jose \<Rightarrow> jwt_verifier \<Rightarrow> resolver \<Rightarrow> string \<Rightarrow> time \<Rightarrow> string \<Rightarrow> db fetch" where
  "state_server J verify resolver secret now base r d = (let pre = base @ ''/v1/runtime/state/'' in
     if rq_method r = ''POST'' \<and> starts_with (rq_url r) pre
     then state_reply (state_route J verify resolver (Inr secret) now d d d (request_headers r) (grant_header r)
            (drop (length pre) (rq_url r)) (or_else (rq_body r) JUndef))
     else (d, HttpReply 404 None))"

definition capability_result_json :: "capability_result \<Rightarrow> json" where
  "capability_result_json r = JObj [(''invocationId'', JStr (cres_invocationId r)),
     (''capabilityId'', JStr (cres_capabilityId r)),
     (''status'', JStr (case cres_status r of CapSucceeded \<Rightarrow> ''succeeded'' | CapFailed \<Rightarrow> ''failed'' | CapDenied \<Rightarrow> ''denied'')),
     (''output'', cres_output r), (''errorCode'', null_json JStr (cres_errorCode r)),
     (''provider'', null_json JStr (cres_provider r)), (''model'', null_json JStr (cres_model r)),
     (''providerRequestId'', null_json JStr (cres_providerRequestId r)),
     (''usage'', JObj [(''inputTokens'', null_json JInt (cres_inputTokens r)),
        (''outputTokens'', null_json JInt (cres_outputTokens r)),
        (''costUsd'', null_json (\<lambda>(m, s). JNum m s) (cres_costUsd r))]),
     (''latencyMs'', JInt (cres_latencyMs r)), (''receiptDigest'', JStr (cres_receiptDigest r))]"

fun gateway_reply :: "db \<times> capability_result response \<Rightarrow> db \<times> http_reply" where
  "gateway_reply (d, Reply s r) = (d, HttpReply s (Some (bare (capability_result_json r))))"
| "gateway_reply (d, Failure s c) = (d, HttpReply s (Some (JObj [(''error'', JStr c)])))"

definition gateway_server :: "string gateway \<Rightarrow> call \<Rightarrow> db fetch" where
  "gateway_server G call r d = gateway_reply (gateway_invoke G call d (request_headers r)
     (map_of (rq_headers r) ''x-execution-envelope'') (or_else (rq_body r) JUndef))"

section \<open>The wire\<close>

lemma bare_id: "plain v \<Longrightarrow> bare v = v"
proof (induction v rule: bare.induct)
  case (2 vs)
  then show ?case by (auto simp: list_all_iff intro: map_idI)
next
  case (3 es)
  then have p: "list_all (\<lambda>(k, v). plain v) es" by simp
  then have "filter (\<lambda>(k, v). v \<noteq> JUndef) es = es" by (auto simp: list_all_iff filter_id_conv)
  moreover have "map (\<lambda>(k, v). (k, bare v)) es = es"
    using p 3(1) calculation by (intro map_idI) (auto simp: list_all_iff)
  ultimately show ?case by simp
qed simp_all

definition fenced_ok :: "fenced_run \<Rightarrow> bool" where
  "fenced_ok run \<longleftrightarrow> fr_runId run \<noteq> [] \<and> fr_workerId run \<noteq> []
     \<and> int (fr_attempt run) \<le> 9007199254740991 \<and> int (fr_fencingEpoch run) \<le> 9007199254740991"

fun option_ok :: "('a \<Rightarrow> bool) \<Rightarrow> 'a option \<Rightarrow> bool" where
  "option_ok p None \<longleftrightarrow> True" | "option_ok p (Some x) \<longleftrightarrow> p x"

fun state_payload_ok :: "state_payload \<Rightarrow> bool" where
  "state_payload_ok (NodeStarted i) \<longleftrightarrow> ns_nodeId i \<noteq> [] \<and> digest_ok (ns_inputDigest i)
     \<and> option_ok (hex_of_length 32) (ns_traceId i) \<and> option_ok (hex_of_length 16) (ns_spanId i)"
| "state_payload_ok (NodeFinished i) \<longleftrightarrow> nf_nodeId i \<noteq> [] \<and> nf_status i \<in> {''completed'', ''failed''}
     \<and> option_ok (hex_of_length 64) (nf_outputDigest i) \<and> option_ok nonblank (nf_errorCode i)"
| "state_payload_ok (RuntimeEvent i) \<longleftrightarrow> se_eventKey i \<noteq> [] \<and> event_code_ok (se_code i)
     \<and> option_ok nonblank (se_nodeId i) \<and> plain (JObj (se_values i))"
| "state_payload_ok (Checkpoint c n) \<longleftrightarrow> option_ok nonblank c \<and> option_ok nonblank n"

lemma parse_fenced_json: "fenced_ok run \<Longrightarrow> parse_fenced_run (bare (fenced_json run)) = Some run"
  by (cases run) (simp add: fenced_ok_def parse_fenced_run_def fenced_json_def strict_object_def required_field_def
      nat_field_def int_field_def obj_get_def)

definition schema_of :: "state_payload \<Rightarrow> entries \<Rightarrow> state_payload option" where
  "schema_of p = (case p of NodeStarted _ \<Rightarrow> parse_node_started | NodeFinished _ \<Rightarrow> parse_node_finished
     | RuntimeEvent _ \<Rightarrow> parse_runtime_event | Checkpoint _ _ \<Rightarrow> parse_checkpoint)"

lemma schema_of_path: "map_of bodySchemas (state_path p) = Some (schema_of p)"
  by (cases p) (simp_all add: bodySchemas_def schema_of_def)

lemma event_status_parses: "map_of all_event_statuses (event_status_name st) = Some st"
  by (cases st) (simp_all add: all_event_statuses_def)

definition wire_entries :: "entries \<Rightarrow> entries" where
  "wire_entries es = map (\<lambda>(k, v). (k, bare v)) (filter (\<lambda>(k, v). v \<noteq> JUndef) es)"

lemmas wire_parse_defs = wire_entries_def strict_object_def required_field_def optional_field_def nullable_field_def
  opt_json_def null_json_def obj_get_def

lemma schema_parses:
  assumes "state_payload_ok p"
  shows "schema_of p (wire_entries (state_entries p)) = Some p"
proof (cases p)
  case (NodeStarted i)
  then show ?thesis using assms
    by (cases i; cases "ns_traceId i"; cases "ns_spanId i") (simp_all add: schema_of_def parse_node_started_def wire_parse_defs)
next
  case (NodeFinished i)
  then show ?thesis using assms
    by (cases i; cases "nf_outputDigest i"; cases "nf_errorCode i") (simp_all add: schema_of_def parse_node_finished_def wire_parse_defs)
next
  case (RuntimeEvent i)
  have "plain (JObj (se_values i))" using assms unfolding RuntimeEvent state_payload_ok.simps by blast
  then have "bare (JObj (se_values i)) = JObj (se_values i)" by (rule bare_id)
  then show ?thesis using assms RuntimeEvent
    by (cases i; cases "se_nodeId i") (simp_all add: schema_of_def parse_runtime_event_def wire_parse_defs event_status_parses)
next
  case (Checkpoint c n)
  then show ?thesis using assms
    by (cases c; cases n) (simp_all add: schema_of_def parse_checkpoint_def wire_parse_defs)
qed

lemma no_run_member: "filter (\<lambda>(k, v). k \<noteq> ''run'') (wire_entries (state_entries p)) = wire_entries (state_entries p)"
  unfolding wire_entries_def by (cases p) simp_all

definition state_body :: "fenced_run \<Rightarrow> state_payload \<Rightarrow> json" where
  "state_body run p = JObj ((''run'', fenced_json run) # state_entries p)"

lemma state_body_parses:
  assumes "fenced_ok run" and "state_payload_ok p"
  shows "parseStateRequest (schema_of p) (bare (state_body run p)) = Inr (run, p)"
proof -
  have "bare (state_body run p) = JObj ((''run'', bare (fenced_json run)) # wire_entries (state_entries p))"
    by (simp add: state_body_def wire_entries_def fenced_json_def)
  then show ?thesis
    using parse_fenced_json [OF assms(1)] schema_parses [OF assms(2)] no_run_member [of p]
    by (simp add: parseStateRequest_def obj_get_def)
qed

section \<open>Journaling over HTTP\<close>

definition http_options :: "string jose \<Rightarrow> jwt_verifier \<Rightarrow> resolver \<Rightarrow> string \<Rightarrow> time \<Rightarrow> string \<Rightarrow> string \<Rightarrow> string \<Rightarrow> db state_options" where
  "http_options J verify resolver secret now base token grant = \<lparr>so_baseUrl = base, so_serviceToken = StaticToken token,
     so_executionGrant = grant, so_fetch = state_server J verify resolver secret now base\<rparr>"

definition client_headers :: "string \<Rightarrow> string \<Rightarrow> headers" where
  "client_headers token grant = [(''authorization'', One (''Bearer '' @ token)), (''x-runtime-grant'', One grant),
     (''content-type'', One ''application/json'')]"

definition run_resource :: resource_ref where
  "run_resource = \<lparr>rs_kind = ''run'', rs_id = None, rs_tenantId = None\<rparr>"

text \<open>What a journal write does without the network: the control plane's check and the write.\<close>

definition guarded_write :: "string jose \<Rightarrow> string \<Rightarrow> time \<Rightarrow> string option \<Rightarrow> fenced_run \<Rightarrow> state_payload \<Rightarrow> (db, unit) act" where
  "guarded_write J secret now grant run p d = (case bind_result (authorizeStateWrite J now d d grant secret run)
       (\<lambda>_. lift_thrown (applyStateWrite now d run p)) of
     Inr (d', _) \<Rightarrow> (d', Inr ()) | Inl (HttpError c s) \<Rightarrow> (d, Inl c) | Inl (Thrown c) \<Rightarrow> (d, Inl c))"

lemma state_errors_not_ok:
  "authorizeStateWrite J now d1 d2 g secret run = Inl (HttpError c s) \<Longrightarrow> \<not> ok_status s"
  by (auto simp: authorizeStateWrite_def state_error_def ok_status_def guard_result_def split: option.splits sum.splits if_splits)

lemma post_answered:
  "post (http_options J verify resolver secret now base token grant) run p d =
     (case state_route J verify resolver (Inr secret) now d d d (client_headers token grant) (trim_or_undefined (Some grant))
        (state_path p) (bare (state_body run p)) of
       (d', Reply s _) \<Rightarrow> (d', if ok_status s then Inr () else Inl (''runtime_state.http_'' @ nat_text s))
     | (d', Failure s c) \<Rightarrow> (d', if ok_status s then Inr () else Inl c))"
proof -
  let ?h = "http_options J verify resolver secret now base token grant"
  let ?r = "\<lparr>rq_method = ''POST'', rq_url = base @ ''/v1/runtime/state/'' @ state_path p,
         rq_headers = [bearer token, (''x-runtime-grant'', grant), json_content], rq_body = sent (state_body run p)\<rparr>"
  let ?a = "state_route J verify resolver (Inr secret) now d d d (client_headers token grant) (trim_or_undefined (Some grant))
        (state_path p) (bare (state_body run p))"
  have s: "state_server J verify resolver secret now base ?r d = state_reply ?a"
    by (simp add: state_server_def starts_with_def request_headers_def grant_header_def client_headers_def bearer_def
        json_content_def sent_def)
  obtain d' x where a: "?a = (d', x)" by (cases ?a)
  have "post ?h run p d = (case state_server J verify resolver secret now base ?r d of (w', NetworkError c) \<Rightarrow> (w', Inl c)
      | (w', HttpReply st b) \<Rightarrow> (w', if ok_status st then Inr () else Inl (rejection st b)))"
    by (simp add: post_def http_options_def workloadToken_def then_do_def act_simps exchange_def
        state_body_def [symmetric] split: prod.split http_reply.split)
  then show ?thesis unfolding s a
    by (cases x) (simp_all add: rejection_def member_of_def obj_get_def nullish_def)
qed

lemma post_guarded:
  assumes guard: "guard_require verify resolver (client_headers token grant) RuntimeStateWrite run_resource = Inr who"
    and ok: "fenced_ok run" "state_payload_ok p"
  shows "post (http_options J verify resolver secret now base token grant) run p
     = guarded_write J secret now (trim_or_undefined (Some grant)) run p"
proof
  fix d
  show "post (http_options J verify resolver secret now base token grant) run p d
     = guarded_write J secret now (trim_or_undefined (Some grant)) run p d"
  proof (cases "authorizeStateWrite J now d d (trim_or_undefined (Some grant)) secret run")
    case (Inl e)
    then show ?thesis using state_errors_not_ok [of J now d d _ secret run]
      by (cases e) (auto simp: post_answered guarded_write_def state_route_def schema_of_path state_body_parses ok
          guard [unfolded run_resource_def] lift_thrown_def ok_status_def)
  next
    case (Inr u)
    then show ?thesis
      by (cases "applyStateWrite now d run p")
        (auto simp: post_answered guarded_write_def state_route_def schema_of_path state_body_parses ok
          guard [unfolded run_resource_def] lift_thrown_def ok_status_def)
  qed
qed

fun journal_write :: "'w journal \<Rightarrow> fenced_run \<Rightarrow> state_payload \<Rightarrow> ('w, unit) act" where
  "journal_write J run (NodeStarted i) = jn_nodeStarted J run i"
| "journal_write J run (NodeFinished i) = jn_nodeFinished J run i"
| "journal_write J run (RuntimeEvent i) = jn_appendEvent J run i"
| "journal_write J run (Checkpoint c n) = jn_markCheckpoint J run c n"

lemma journal_write_post: "journal_write (HttpRuntimeStateStore S) run p = post S run p"
  by (cases p) (simp_all add: HttpRuntimeStateStore_def)

text \<open>C30. The HTTP journal refines the database journal: for a workload the control plane accepts,
  writing through the client, the wire and the route is checking the grant against the live fence and
  then writing to the store, with the same state, the same success and the same error code.\<close>

theorem http_journal_refines_the_store:
  assumes "guard_require verify resolver (client_headers token grant) RuntimeStateWrite run_resource = Inr who"
    and "fenced_ok run" and "state_payload_ok p"
  shows "journal_write (HttpRuntimeStateStore (http_options J verify resolver secret now base token grant)) run p d
     = guarded_write J secret now (trim_or_undefined (Some grant)) run p d"
  unfolding journal_write_post using post_guarded [OF assms] by simp

section \<open>A runtime that lost its run\<close>

text \<open>What a runtime relies on: a journal refuses to start a node of a run that is lost.\<close>

locale fenced_journal =
  fixes start :: "fenced_run \<Rightarrow> node_started \<Rightarrow> ('w, unit) act"
    and lost :: "fenced_run \<Rightarrow> 'w \<Rightarrow> bool"
  assumes refuses: "lost run w \<Longrightarrow> \<exists>c. start run i w = (w, Inl c)"
begin

lemma starts_no_node:
  assumes "jn_nodeStarted (rc_state C) = start" and "lost (fencedRun C) w"
  shows "\<exists>c. executeObservedNode P C nodeId v execute w = (w, Inl c)"
proof (cases "stableDigest_checked (pf_sha P) v")
  case (Inl c)
  then show ?thesis by (simp add: executeObservedNode_def then_do_def act_simps)
next
  case (Inr digest)
  let ?i = "\<lparr>ns_nodeId = nodeId, ns_inputDigest = digest, ns_traceId = Some (fst (pf_span P)), ns_spanId = Some (snd (pf_span P))\<rparr>"
  obtain c where "start (fencedRun C) ?i w = (w, Inl c)" using refuses [OF assms(2), of ?i] by blast
  then show ?thesis using Inr assms(1) by (simp add: executeObservedNode_def then_do_def act_simps)
qed

end

definition unauthorized :: "string jose \<Rightarrow> string \<Rightarrow> time \<Rightarrow> string \<Rightarrow> fenced_run \<Rightarrow> db \<Rightarrow> bool" where
  "unauthorized J secret now grant run d \<longleftrightarrow>
     \<not> (\<exists>u. authorizeStateWrite J now d d (trim_or_undefined (Some grant)) secret run = Inr u)"

lemma parse_own_run: "parse_fenced_run (bare (fenced_json run)) = Some run' \<Longrightarrow> run' = run"
  by (cases run) (auto simp: parse_fenced_run_def fenced_json_def strict_object_def required_field_def
      nat_field_def int_field_def obj_get_def split: if_splits)

lemma parse_own_body: "parseStateRequest schema (bare (state_body run p)) = Inr (run', p') \<Longrightarrow> run' = run"
proof -
  assume p: "parseStateRequest schema (bare (state_body run p)) = Inr (run', p')"
  have "bare (state_body run p) = JObj ((''run'', bare (fenced_json run)) # wire_entries (state_entries p))"
    by (simp add: state_body_def wire_entries_def fenced_json_def)
  then have "parse_fenced_run (bare (fenced_json run)) = Some run'"
    using p by (auto simp: parseStateRequest_def obj_get_def split: option.splits)
  then show ?thesis by (rule parse_own_run)
qed

lemma auth_not_ok: "auth_response internal f = Failure s c \<Longrightarrow> \<not> ok_status s"
  by (auto simp: auth_response_def authorization_status_def ok_status_def split: auth_failure.splits if_splits)

lemma unauthorized_route:
  assumes "unauthorized J secret now grant run d"
  shows "\<exists>s c. state_route J verify resolver (Inr secret) now d d d hs (trim_or_undefined (Some grant)) (state_path p)
       (bare (state_body run p)) = (d, Failure s c) \<and> \<not> ok_status s"
proof (cases "guard_require verify resolver hs RuntimeStateWrite \<lparr>rs_kind = ''run'', rs_id = None, rs_tenantId = None\<rparr>")
  case (Inl f)
  obtain s c where "auth_response ''control.internal_error'' f = (Failure s c :: unit response)"
    by (cases f) (simp_all add: auth_response_def)
  then show ?thesis using Inl auth_not_ok by (fastforce simp: state_route_def)
next
  case (Inr who)
  show ?thesis
  proof (cases "parseStateRequest (schema_of p) (bare (state_body run p))")
    case (Inl c)
    then show ?thesis using Inr by (simp add: state_route_def schema_of_path lift_thrown_def ok_status_def)
  next
    case (Inr q)
    obtain p' where q: "q = (run, p')" using Inr parse_own_body by (cases q) blast
    obtain e where e: "authorizeStateWrite J now d d (trim_or_undefined (Some grant)) secret run = Inl e"
      using assms unfolding unauthorized_def by (cases "authorizeStateWrite J now d d (trim_or_undefined (Some grant)) secret run") auto
    show ?thesis using Inr e \<open>guard_require _ _ _ _ _ = _\<close> state_errors_not_ok [of J now d d _ secret run]
      by (cases e) (auto simp: state_route_def schema_of_path lift_thrown_def q ok_status_def)
  qed
qed

lemma unauthorized_post:
  assumes "unauthorized J secret now grant run d"
  shows "\<exists>c. post (http_options J verify resolver secret now base token grant) run p d = (d, Inl c)"
proof -
  obtain s c where "state_route J verify resolver (Inr secret) now d d d (client_headers token grant) (trim_or_undefined (Some grant))
       (state_path p) (bare (state_body run p)) = (d, Failure s c)" and "\<not> ok_status s"
    using unauthorized_route [OF assms] by blast
  then show ?thesis unfolding post_answered by simp
qed

interpretation http_journal: fenced_journal
  "jn_nodeStarted (HttpRuntimeStateStore (http_options J verify resolver secret now base token grant))"
  "unauthorized J secret now grant" for J verify resolver secret now base token grant
  by unfold_locales (simp add: HttpRuntimeStateStore_def unauthorized_post)

definition pg_journal :: "time \<Rightarrow> db journal" where
  "pg_journal now = (let write = (\<lambda>t d. case t of Inl c \<Rightarrow> (d, Inl c) | Inr (d', x) \<Rightarrow> (d', Inr x)) in
     \<lparr>jn_nodeStarted = (\<lambda>run i d. write (pg_nodeStarted now d run i) d),
      jn_nodeFinished = (\<lambda>run i d. write (pg_nodeFinished now d run i) d),
      jn_appendEvent = (\<lambda>run i d. write (pg_appendEvent now d run i) d),
      jn_markCheckpoint = (\<lambda>run c n d. write (pg_markCheckpoint now d run c n) d)\<rparr>)"

interpretation store_journal: fenced_journal "jn_nodeStarted (pg_journal now)"
  "\<lambda>run d. refused d (fr_runId run) (fr_workerId run) (fr_fencingEpoch run)" for now
proof
  fix run :: fenced_run and d i
  assume "refused d (fr_runId run) (fr_workerId run) (fr_fencingEpoch run)"
  then have "pg_nodeStarted now d run i = Inl ''runtime.stale_fence''"
    unfolding refused_def by (metis fenced_run.surjective old.unit.exhaust)
  then show "\<exists>c. jn_nodeStarted (pg_journal now) run i d = (d, Inl c)" by (simp add: pg_journal_def)
qed

text \<open>C31. A runtime whose run was handed to another worker starts nothing: after the claim, whatever
  other commands follow and whatever the node would do, running the node is an error that leaves the
  database as it is. The credentials and the fence are checked by the control plane at every node.\<close>

theorem superseded_runtime_starts_no_node:
  assumes "ledger_inv d" and "claimRun locked t d w l = (d', Some r')"
    and "rc_runId C = run_id r'" and "rc_fencingEpoch C < run_fencing_epoch r'"
    and "rc_state C = HttpRuntimeStateStore (http_options J verify resolver secret now base token grant)"
  shows "\<exists>c. executeObservedNode P C nodeId v execute (run_steps (ledger_step sha) d' cs)
     = (run_steps (ledger_step sha) d' cs, Inl c)"
proof -
  let ?d = "run_steps (ledger_step sha) d' cs"
  have "currentFencingEpoch ?d (run_id r') \<noteq> Some (rc_fencingEpoch C)"
    using assms(1,2,4) by (rule superseded_epoch)
  then have "unauthorized J secret now grant (fencedRun C) ?d"
    using assms(3) by (auto simp: unauthorized_def fencedRun_def authorizeStateWrite_def split: option.splits sum.splits)
  then show ?thesis by (intro http_journal.starts_no_node) (simp_all add: assms(5))
qed

section \<open>Capabilities with a fetched token\<close>

lemma entra_refuses:
  assumes "verify opt (drop 7 (trim (''Bearer '' @ src))) = None" and "credential_text (rc_serviceToken C) = src"
  shows "\<exists>f. guard_require verify (EntraJwtPrincipalResolver opt) (request_headers (gateway_request C e capability i v))
      action resource = Inl f"
proof -
  have "first_value (request_headers (gateway_request C e capability i v)) ''authorization'' = Some (''Bearer '' @ src)"
    using assms(2) by (simp add: request_headers_def gateway_request_def bearer_def first_value_def)
  then have "\<exists>c. resolve_entra verify opt (request_headers (gateway_request C e capability i v)) = Inl c"
    using assms(1) by (cases "header (request_headers (gateway_request C e capability i v)) ''authorization''")
      (auto simp: resolve_entra_def header_def trim_or_undefined_def guard_result_def split: if_splits)
  then show ?thesis by (auto simp: guard_require_def)
qed

lemma rejected_call:
  assumes "gw_resolver G = EntraJwtPrincipalResolver opt" and "gw_verify G opt (drop 7 (trim (''Bearer '' @ src))) = None"
    and "credential_text (rc_serviceToken C) = src"
  shows "\<exists>s c. gateway_server G call (gateway_request C e capability i v) d = (d, HttpReply s (Some (JObj [(''error'', JStr c)])))
     \<and> \<not> ok_status s"
proof -
  obtain f where "guard_require (gw_verify G) (EntraJwtPrincipalResolver opt) (request_headers (gateway_request C e capability i v))
      CapabilityRead \<lparr>rs_kind = ''capability'', rs_id = None, rs_tenantId = None\<rparr> = Inl f"
    using entra_refuses [of "gw_verify G" opt src C, OF assms(2,3)] by blast
  then show ?thesis
    by (simp add: gateway_server_def gateway_invoke_def gateway_authorize_def assms(1) gateway_failure_def ok_status_def)
qed

text \<open>In Azure mode no capability can be invoked. There a runtime's credential is a function that
  fetches a token; the gateway call sends the text of that function in place of the token, so a gateway
  that authenticates by token, and does not take that text for one, answers every call with an error,
  whatever token the function would have fetched and whatever the broker issued.\<close>

theorem fetched_token_is_never_sent:
  assumes "rc_serviceToken C = TokenProvider src fetchToken"
    and "gw_resolver G = EntraJwtPrincipalResolver opt" and "gw_verify G opt (drop 7 (trim (''Bearer '' @ src))) = None"
    and "\<And>r d. rq_url r = rc_gatewayUrl C @ ''/v1/invoke'' \<Longrightarrow> pf_fetch P r d = gateway_server G call r d"
  shows "\<exists>c. snd (invokeCapability P C nodeId v d) = Inl c"
proof (cases "bound_capability C nodeId = None \<or> find_permission (rc_plan C) nodeId = None \<or> v = JUndef")
  case True
  then show ?thesis
    by (auto simp: invokeCapability_def then_do_def act_simps stableDigest_checked_def split: option.splits)
next
  case False
  then obtain capability p where bound: "bound_capability C nodeId = Some capability" "find_permission (rc_plan C) nodeId = Some p"
    "v \<noteq> JUndef" by auto
  let ?i = "rc_runId C @ '':'' @ nodeId @ '':'' @ take 24 (stableDigest (pf_sha P) v)"
  obtain d' r where issued: "requestExecutionEnvelope P C nodeId ?i d = (d', r)" by fastforce
  show ?thesis
  proof (cases r)
    case (Inl c)
    then show ?thesis using bound issued
      by (simp add: invokeCapability_def then_do_def act_simps stableDigest_checked_def Let_def)
  next
    case (Inr e)
    let ?r = "gateway_request C (ie_envelope e) capability ?i v"
    have "credential_text (rc_serviceToken C) = src" by (simp add: assms(1) credential_text_def)
    then obtain s c where "gateway_server G call ?r d' = (d', HttpReply s (Some (JObj [(''error'', JStr c)])))" "\<not> ok_status s"
      using rejected_call [OF assms(2,3)] by blast
    moreover have "pf_fetch P ?r d' = gateway_server G call ?r d'"
      by (rule assms(4)) (simp add: gateway_request_def)
    ultimately have "exchange (pf_fetch P) ?r d' = (d', Inr (s, Some (JObj [(''error'', JStr c)])))" and "\<not> ok_status s"
      by (simp_all add: exchange_def)
    then show ?thesis using bound issued Inr
      by (simp add: invokeCapability_def then_do_def act_simps stableDigest_checked_def reply_json_def error_text_def member_of_def Let_def)
  qed
qed

section \<open>A case write of an earlier attempt\<close>

lemma receipt_blocks:
  assumes "x \<in> set (command_receipts (ledger_of d))" and "rp_key x = command_key c" and "rp_command_id x = cmd_commandId c"
    and "find_receipt d (command_key c) (cmd_idempotencyKey c) = None"
  shows "\<exists>e. submitBusinessCommand st t1 t2 uuid d c = Inl e"
proof (rule ccontr)
  assume "\<nexists>e. submitBusinessCommand st t1 t2 uuid d c = Inl e"
  then obtain d' response where s: "submitBusinessCommand st t1 t2 uuid d c = Inr (d', response)"
    by (cases "submitBusinessCommand st t1 t2 uuid d c") auto
  then obtain r where "accept_command st t1 t2 uuid d c r = Inr (d', response)"
    using assms(4) by (auto simp: submitBusinessCommand_def split: option.splits)
  then obtain i l eid dg l' rc where l: "appendCaseEvent st uuid i (ledger_of d) = Inr (l, eid, dg)"
    and w: "writeReceipt st rc l = Inr l'" and rc: "rp_key rc = command_key c" "rp_command_id rc = cmd_commandId c"
    by (auto simp: accept_command_def bind_result_Inr_iff Let_def command_receipt_def)
  have "x \<in> set (command_receipts l)" using assms(1) appendCaseEvent_Inr(5) [OF l] by simp
  then show False using w rc assms(2,3) by (auto simp: writeReceipt_def)
qed

lemma sql_find_snoc: "sql_find P t = None \<Longrightarrow> P r \<Longrightarrow> sql_find P (t @ [r]) = Some r"
  unfolding sql_find_def by (induction t) (auto split: if_splits)

lemma accepted_receipt:
  assumes "submitBusinessCommand st t1 t2 uuid d c = Inr (d1, response)"
    and "find_receipt d (command_key c) (cmd_idempotencyKey c) = None"
  obtains rp where "find_receipt d1 (command_key c) (cmd_idempotencyKey c) = Some rp"
    and "rp_key rp = command_key c" and "rp_command_id rp = cmd_commandId c" and "rp_idempotency_key rp = cmd_idempotencyKey c"
    and "command_receipts (ledger_of d1) = command_receipts (ledger_of d) @ [rp]"
proof -
  obtain r where "accept_command st t1 t2 uuid d c r = Inr (d1, response)"
    using assms by (auto simp: submitBusinessCommand_def split: option.splits)
  then obtain i l eid dg l' rc where l: "appendCaseEvent st uuid i (ledger_of d) = Inr (l, eid, dg)"
    and w: "writeReceipt st rc l = Inr l'" and d1: "ledger_of d1 = l'"
    and rc: "rp_key rc = command_key c" "rp_command_id rc = cmd_commandId c" "rp_idempotency_key rc = cmd_idempotencyKey c"
    by (auto simp: accept_command_def bind_result_Inr_iff Let_def command_receipt_def)
  have receipts: "command_receipts (ledger_of d1) = command_receipts (ledger_of d)
      @ [rc\<lparr>rp_response_digest := stableDigest (st_sha st) (JObj (rp_response rc))\<rparr>]"
    using writeReceipt_Inr(4) [OF w] appendCaseEvent_Inr(5) [OF l] d1 by simp
  have "find_receipt d1 (command_key c) (cmd_idempotencyKey c)
      = Some (rc\<lparr>rp_response_digest := stableDigest (st_sha st) (JObj (rp_response rc))\<rparr>)"
    using assms(2) rc unfolding find_receipt_def receipts by (intro sql_find_snoc) simp_all
  then show thesis by (rule that) (simp_all add: rc receipts)
qed

text \<open>A case write that an attempt of a run has made stands in the way of the next attempt. Both
  attempts send the same command identifier, but under different idempotency keys, so the second is
  not a replay: whatever its payload and however the case moved on, the store refuses it, and so does
  every later attempt.\<close>

theorem retried_case_write_is_refused:
  assumes "c = case_write_command P C nodeId ref permission index type' payload sequence"
    and "c' = case_write_command P (C\<lparr>rc_runAttempt := attempt'\<rparr>) nodeId ref permission' index type'' payload' sequence'"
    and "submitBusinessCommand st t1 t2 uuid d c = Inr (d1, response)"
    and "find_receipt d (command_key c) (cmd_idempotencyKey c) = None"
    and "find_receipt (run_steps (case_step st) d1 cs) (command_key c') (cmd_idempotencyKey c') = None"
  shows "\<exists>e. submitBusinessCommand st t1' t2' uuid' (run_steps (case_step st) d1 cs) c' = Inl e"
proof -
  obtain rp where rp: "find_receipt d1 (command_key c) (cmd_idempotencyKey c) = Some rp"
    "rp_key rp = command_key c" "rp_command_id rp = cmd_commandId c"
    using assms(3,4) by (rule accepted_receipt)
  have same: "command_key c' = command_key c" "cmd_commandId c' = cmd_commandId c"
    by (simp_all add: assms(1,2) case_write_command_def command_key_def)
  have "rp \<in> set (command_receipts (ledger_of (run_steps (case_step st) d1 cs)))"
    using find_receipt_run [OF rp(1)] unfolding find_receipt_def by (auto dest: sql_find_Some)
  then show ?thesis using assms(5) rp(2,3) same by (intro receipt_blocks [of rp]) simp_all
qed

section \<open>Examples\<close>

definition demo_context :: "'w credential \<Rightarrow> 'w journal \<Rightarrow> harness_plan \<Rightarrow> 'w runtime_context" where
  "demo_context token journal plan = \<lparr>rc_state = journal, rc_plan = plan, rc_runId = ''RUN-1'', rc_runAttempt = 1,
     rc_workerId = ''w1'', rc_fencingEpoch = 1, rc_gatewayUrl = ''http://gateway'', rc_caseApiUrl = None,
     rc_envelopeBrokerUrl = ''http://control'', rc_executionGrant = ''grant'', rc_serviceToken = token\<rparr>"

definition demo_platform :: "'w fetch \<Rightarrow> 'w platform" where
  "demo_platform f = \<lparr>pf_fetch = f, pf_sha = (\<lambda>s. s), pf_json_parse = (\<lambda>s. None), pf_number = (\<lambda>s. None),
     pf_datetime = (\<lambda>s. True), pf_span = (replicate 32 CHR ''a'', replicate 16 CHR ''b'')\<rparr>"

definition demo_verifier :: "string jose" where
  "demo_verifier = \<lparr>importPKCS8 = (\<lambda>s. None), importSPKI = (\<lambda>s. None), signJwt = (\<lambda>a k es. k),
     jwtVerify = (\<lambda>a k i u t now tok. if tok = ''grant'' then Some (grant_payload 1 demo_grant) else None)\<rparr>"

definition demo_runtime :: resolver where
  "demo_runtime = ServiceTokenPrincipalResolver [\<lparr>sg_token = ''runtime'', sg_subjectId = ''harness-runtime'',
     sg_roles = [''Runtime.State.Write''], sg_tenantId = ''acme''\<rparr>]"

definition demo_event :: state_payload where
  "demo_event = RuntimeEvent \<lparr>se_eventKey = ''k'', se_code = ''node.started'', se_nodeId = Some ''n'',
     se_status = Observed, se_values = []\<rparr>"

definition demo_fence :: fenced_run where
  "demo_fence = \<lparr>fr_runId = ''RUN-1'', fr_attempt = 1, fr_workerId = ''w1'', fr_fencingEpoch = 1\<rparr>"

lemma demo_runtime_accepted:
  "\<exists>who. guard_require (\<lambda>_ _. None) demo_runtime (client_headers ''runtime'' ''grant'') RuntimeStateWrite run_resource = Inr who"
proof -
  have "isl (guard_require (\<lambda>_ _. None) demo_runtime (client_headers ''runtime'' ''grant'') RuntimeStateWrite run_resource) = False"
    by code_simp
  then show ?thesis by (metis sum.collapse(2))
qed

theorem http_journal_refines_the_store_witness:
  "journal_write (HttpRuntimeStateStore (http_options demo_verifier (\<lambda>_ _. None) demo_runtime demo_secret 2000 ''http://control''
       ''runtime'' ''grant'')) demo_fence demo_event brokered_db
   = guarded_write demo_verifier demo_secret 2000 (Some ''grant'') demo_fence demo_event brokered_db"
proof -
  obtain who where who: "guard_require (\<lambda>_ _. None) demo_runtime (client_headers ''runtime'' ''grant'') RuntimeStateWrite run_resource = Inr who"
    using demo_runtime_accepted by blast
  have "fenced_ok demo_fence" by (simp add: fenced_ok_def demo_fence_def)
  moreover have "state_payload_ok demo_event" unfolding demo_event_def by code_simp
  moreover have "trim_or_undefined (Some ''grant'') = Some ''grant''" by code_simp
  ultimately show ?thesis using http_journal_refines_the_store [OF who, of demo_fence demo_event] by simp
qed

theorem superseded_runtime_starts_no_node_witness:
  "\<exists>c. executeObservedNode (demo_platform (\<lambda>_ d. (d, NetworkError ''offline''))) (demo_context (StaticToken ''t'') (HttpRuntimeStateStore
       (http_options demo_verifier (\<lambda>_ _. None) demo_runtime demo_secret 2000 ''http://control'' ''runtime'' ''grant''))
       brokered_plan \<lparr>rc_fencingEpoch := 0\<rparr>) ''n'' JNull (\<lambda>d. (demo_db, Inr JNull)) demo_running = (demo_running, Inl c)"
  using superseded_runtime_starts_no_node [OF demo_inv demo_claim, of "demo_context (StaticToken ''t'') (HttpRuntimeStateStore
       (http_options demo_verifier (\<lambda>_ _. None) demo_runtime demo_secret 2000 ''http://control'' ''runtime'' ''grant''))
       brokered_plan \<lparr>rc_fencingEpoch := 0\<rparr>" demo_verifier "\<lambda>_ _. None" demo_runtime demo_secret 2000 "''http://control''"
       "''runtime''" "''grant''" "demo_platform (\<lambda>_ d. (d, NetworkError ''offline''))" "''n''" JNull "\<lambda>d. (demo_db, Inr JNull)" id "[]"]
  by (simp add: demo_context_def claim_row_def demo_run_def new_run_def demo_running_def)

definition demo_entra :: entra_options where
  "demo_entra = \<lparr>en_tenantId = ''t'', en_platformTenantId = ''acme'', en_audience = ''a'', en_issuer = ''i'', en_jwksUri = ''u'',
     en_allowedClientIds = None\<rparr>"

definition demo_gateway :: "string gateway" where
  "demo_gateway = \<lparr>gw_jose = demo_verifier, gw_sha = id, gw_sdk = \<lparr>sdk_generateObject = (\<lambda>_ _ _. Inl ''down''),
     sdk_generateText = (\<lambda>_ _. Inl ''down''), sdk_json_parse = (\<lambda>_. None), sdk_number_of = (\<lambda>_. None)\<rparr>,
     gw_profiles = None, gw_env = (\<lambda>_. None), gw_verify = (\<lambda>opt t. if t = ''good-token'' then Some [] else None),
     gw_resolver = EntraJwtPrincipalResolver demo_entra, gw_secret = demo_secret\<rparr>"

definition demo_call :: call where
  "demo_call = \<lparr>ca_now = 0, ca_traceId = None, ca_spanId = None, ca_retrievedAt = [], ca_latencyMs = 0, ca_fault = NoFault\<rparr>"

text \<open>The broker issues whatever it is asked for.\<close>

definition demo_net :: "db fetch" where
  "demo_net r d = (if rq_url r = ''http://gateway/v1/invoke'' then gateway_server demo_gateway demo_call r d
     else (d, HttpReply 200 (Some (JObj [(''envelope'', JStr ''envelope'')]))))"

theorem fetched_token_is_never_sent_witness:
  "\<exists>c. snd (invokeCapability (demo_platform demo_net) (demo_context (TokenProvider ''async () => token'' (yield ''good-token''))
       (pg_journal 0) (brokered_plan\<lparr>plan_nodes := map (\<lambda>n. n\<lparr>node_config := [(''capabilityId'', JStr ''cap'')]\<rparr>)
         (plan_nodes brokered_plan)\<rparr>)) ''n'' JNull brokered_db) = Inl c"
proof (rule fetched_token_is_never_sent [where src = "''async () => token''" and G = demo_gateway and opt = demo_entra])
  show "gw_verify demo_gateway demo_entra (drop 7 (trim (''Bearer '' @ ''async () => token''))) = None"
    by code_simp
qed (simp_all add: demo_context_def demo_gateway_def demo_platform_def demo_net_def)

definition demo_writer :: "db runtime_context" where
  "demo_writer = demo_context (StaticToken ''t'') (pg_journal 0) (brokered_plan\<lparr>plan_planDigest := ''plan''\<rparr>)"

definition demo_write :: "nat \<Rightarrow> business_command" where
  "demo_write attempt = case_write_command (demo_platform demo_net) (demo_writer\<lparr>rc_runAttempt := attempt\<rparr>) ''n''
     \<lparr>cf_tenantId = ''acme'', cf_caseId = ''c1'', cf_policySnapshotDigest = ''policy''\<rparr> ''perm'' 0 RecordReview
     [(''reviewType'', JStr ''NOTE''), (''outcome'', JStr ''PASS''), (''objectRef'', JStr ''r1''), (''rationale'', JStr ''ok'')] 1"

lemma demo_write_mutation:
  "\<exists>t' m. applyMutation demo_store 7 demo_uuid (demo_write 1) review_case (evidence proposed_db) (core proposed_db) = Inr (t', m)
     \<and> mu_lineage m = []"
  by (simp add: applyMutation_def proposed_defs apply_RecordReview_def cx_actor_def cx_key_def demo_write_def case_write_command_def
      payload_at_def obj_get_def requiredString_def node_actor_def config_of_def demo_context_def demo_writer_def
      given_id_def optionalString_def sql_insert_def string_list_or_empty_def nullish_def stringArray_def event_only_def)

theorem retried_case_write_is_refused_witness:
  "\<exists>d1 response e. submitBusinessCommand demo_store 7 8 demo_uuid proposed_db (demo_write 1) = Inr (d1, response)
     \<and> submitBusinessCommand demo_store 9 10 demo_uuid d1 (demo_write 2) = Inl e"
proof -
  obtain t' m where m: "applyMutation demo_store 7 demo_uuid (demo_write 1) review_case (evidence proposed_db) (core proposed_db)
     = Inr (t', m)" "mu_lineage m = []" using demo_write_mutation by blast
  have k: "command_key (demo_write a) = (''acme'', ''c1'')" for a by (simp add: demo_write_def case_write_command_def command_key_def)
  obtain d1 response where d1: "submitBusinessCommand demo_store 7 8 demo_uuid proposed_db (demo_write 1) = Inr (d1, response)"
    and none: "find_receipt proposed_db (command_key (demo_write 1)) (cmd_idempotencyKey (demo_write 1)) = None"
    by (rule proposed_submit [OF k _ _ _ m]) (simp_all add: demo_write_def case_write_command_def demo_command_def demo_context_def demo_writer_def brokered_plan_def)
  obtain rp where rp: "rp_idempotency_key rp = cmd_idempotencyKey (demo_write 1)"
    "command_receipts (ledger_of d1) = command_receipts (ledger_of proposed_db) @ [rp]"
    using d1 none by (rule accepted_receipt)
  have "cmd_idempotencyKey (demo_write 1) \<noteq> cmd_idempotencyKey (demo_write 2)" by code_simp
  then have "find_receipt (run_steps (case_step demo_store) d1 []) (command_key (demo_write 2)) (cmd_idempotencyKey (demo_write 2)) = None"
    using rp by (simp add: find_receipt_def sql_find_def proposed_db_case(2) [OF k])
  moreover have "demo_write 2 = case_write_command (demo_platform demo_net) ((demo_writer\<lparr>rc_runAttempt := 1\<rparr>)\<lparr>rc_runAttempt := 2\<rparr>) ''n''
     \<lparr>cf_tenantId = ''acme'', cf_caseId = ''c1'', cf_policySnapshotDigest = ''policy''\<rparr> ''perm'' 0 RecordReview
     [(''reviewType'', JStr ''NOTE''), (''outcome'', JStr ''PASS''), (''objectRef'', JStr ''r1''), (''rationale'', JStr ''ok'')] 1"
    by (simp add: demo_write_def)
  ultimately have "\<exists>e. submitBusinessCommand demo_store 9 10 demo_uuid (run_steps (case_step demo_store) d1 []) (demo_write 2) = Inl e"
    using d1 none by (intro retried_case_write_is_refused [OF demo_write_def])
  then show ?thesis using d1 by simp
qed

end
