(* ===== verification/WorkflowGraph.thy ===== *)
theory WorkflowGraph
  imports Json
begin

text \<open>
  \<open>topologicalOrder\<close> of apps/control-api/src/authoring.ts, over any type of node identifiers: the
  counts of incoming edges, the lists of targets, the queue, and why the loop ends. Then what the
  order means: it lists every node exactly when the graph has no cycle, and it respects the edges.
\<close>

section \<open>The algorithm\<close>

type_synonym 'k edges = "('k \<times> 'k) list"

definition live_edges :: "'k list \<Rightarrow> 'k edges \<Rightarrow> 'k edges" where
  \<comment> \<open>\<open>continue\<close> on an edge whose ends are not both nodes\<close>
  "live_edges ids es = filter (\<lambda>(a, b). a \<in> set ids \<and> b \<in> set ids) es"

definition incoming_counts :: "'k list \<Rightarrow> 'k edges \<Rightarrow> 'k \<Rightarrow> int option" where
  "incoming_counts ids es = (\<lambda>k. if k \<in> set ids then Some (int (count_list (map snd (live_edges ids es)) k)) else None)"

definition targets_of :: "'k edges \<Rightarrow> 'k \<Rightarrow> 'k list" where
  "targets_of es k = map snd (filter (\<lambda>(a, b). a = k) es)"

fun visit_target :: "'k \<Rightarrow> ('k \<Rightarrow> int option) \<times> 'k list \<Rightarrow> ('k \<Rightarrow> int option) \<times> 'k list" where
  "visit_target t (incoming, queue) = (let n = or_else (incoming t) 1 - 1 in
     (incoming(t \<mapsto> n), if n = 0 then queue @ [t] else queue))"

definition positive :: "'k edges \<Rightarrow> ('k \<Rightarrow> int option) \<Rightarrow> 'k set" where
  \<comment> \<open>the targets that can still enter the queue\<close>
  "positive es incoming = {t \<in> set (map snd es). 0 < or_else (incoming t) 1}"

lemma visit_positive:
  assumes "t \<in> set (map snd es)" and "visit_target t (incoming, queue) = (incoming', queue')"
  shows "length queue' + card (positive es incoming') \<le> length queue + card (positive es incoming)"
proof -
  let ?n = "or_else (incoming t) 1 - 1"
  have i: "incoming' = incoming(t \<mapsto> ?n)" and q: "queue' = (if ?n = 0 then queue @ [t] else queue)"
    using assms(2) by (simp_all add: Let_def)
  have fin: "finite (positive es incoming)" for incoming :: "'a \<Rightarrow> int option" by (simp add: positive_def)
  show ?thesis
  proof (cases "?n = 0")
    case True
    then have "positive es incoming' = positive es incoming - {t}" and "t \<in> positive es incoming"
      using assms(1) by (auto simp: positive_def i)
    moreover from this(2) have "0 < card (positive es incoming)" using fin by (auto simp: card_gt_0_iff)
    ultimately show ?thesis using True by (simp add: q card_Diff_singleton)
  next
    case False
    then have "positive es incoming' \<subseteq> positive es incoming"
      by (auto simp: positive_def i split: if_splits)
    then show ?thesis using fin card_mono False q by auto
  qed
qed

lemma visits_positive:
  assumes "set ts \<subseteq> set (map snd es)" and "fold visit_target ts (incoming, queue) = (incoming', queue')"
  shows "length queue' + card (positive es incoming') \<le> length queue + card (positive es incoming)"
  using assms
proof (induction ts arbitrary: incoming queue)
  case (Cons t ts)
  obtain i q where v: "visit_target t (incoming, queue) = (i, q)" by (cases "visit_target t (incoming, queue)")
  have "length q + card (positive es i) \<le> length queue + card (positive es incoming)"
    using Cons.prems(1) v by (intro visit_positive) auto
  moreover have "length queue' + card (positive es incoming') \<le> length q + card (positive es i)"
    using Cons.prems v by (intro Cons.IH) auto
  ultimately show ?case by simp
qed simp

function order_loop :: "('k \<Rightarrow> bool) \<Rightarrow> 'k edges \<Rightarrow> ('k \<Rightarrow> int option) \<Rightarrow> 'k list \<Rightarrow> 'k list \<Rightarrow> 'k list" where
  "order_loop named es incoming [] order = order"
| "order_loop named es incoming (k # queue) order = (if \<not> named k then order
     else (case fold visit_target (targets_of es k) (incoming, queue) of
       (incoming', queue') \<Rightarrow> order_loop named es incoming' queue' (order @ [k])))"
  by pat_completeness auto

termination
proof (relation "measure (\<lambda>(named, es, incoming, queue, order). length queue + card (positive es incoming))", goal_cases)
  case (2 named es incoming k queue order incoming' queue')
  have "length queue' + card (positive es incoming') \<le> length queue + card (positive es incoming)"
    using 2(2) by (intro visits_positive [of "targets_of es k"]) (auto simp: targets_of_def)
  then show ?case by simp
qed simp

definition topologicalOrder :: "('k \<Rightarrow> bool) \<Rightarrow> 'k list \<Rightarrow> 'k edges \<Rightarrow> 'k list" where
  \<comment> \<open>\<open>named\<close>: the identifier is truthy, or the loop breaks\<close>
  "topologicalOrder named ids es = (let incoming = incoming_counts ids es in
     order_loop named (live_edges ids es) incoming (filter (\<lambda>k. incoming k = Some 0) ids) [])"

section \<open>The order of a graph\<close>

definition graph_of :: "'k list \<Rightarrow> 'k edges \<Rightarrow> ('k \<times> 'k) set" where
  "graph_of ids es = {(a, b). (a, b) \<in> set es \<and> a \<in> set ids \<and> b \<in> set ids}"

lemma set_live_edges: "set (live_edges ids es) = graph_of ids es"
  by (auto simp: live_edges_def graph_of_def)

definition left :: "'k edges \<Rightarrow> 'k set \<Rightarrow> 'k \<Rightarrow> nat" where
  \<comment> \<open>the edges into a node from nodes that are not placed yet\<close>
  "left es placed k = count_list (map snd (filter (\<lambda>(a, b). a \<notin> placed) es)) k"

lemma left_place:
  "k \<notin> placed \<Longrightarrow> left es placed t = left es (insert k placed) t + count_list (targets_of es k) t"
  unfolding left_def targets_of_def by (induction es) auto

text \<open>What the visits of the targets of one node do, when every count is at least the number of
  visits to come.\<close>

lemma visits:
  assumes "\<forall>t \<in> set ts. \<exists>n. incoming t = Some n \<and> int (count_list ts t) \<le> n"
    and "fold visit_target ts (incoming, queue) = (incoming', queue')"
  shows "(\<forall>k. incoming' k = map_option (\<lambda>n. n - int (count_list ts k)) (incoming k))
    \<and> (\<exists>new. queue' = queue @ new \<and> distinct new \<and> set new = {t \<in> set ts. incoming t = Some (int (count_list ts t))})"
  using assms
proof (induction ts arbitrary: incoming queue)
  case Nil
  then have "incoming' = incoming" and "queue' = queue" by simp_all
  then show ?case by (auto simp: option.map_ident)
next
  case (Cons t ts)
  obtain m where m: "incoming t = Some m" "1 + int (count_list ts t) \<le> m" using Cons.prems(1) by fastforce
  let ?i = "incoming(t \<mapsto> m - 1)" and ?q = "if m - 1 = 0 then queue @ [t] else queue"
  have pre: "\<forall>s \<in> set ts. \<exists>n. ?i s = Some n \<and> int (count_list ts s) \<le> n" using Cons.prems(1) m by auto
  have rest: "fold visit_target ts (?i, ?q) = (incoming', queue')" using Cons.prems(2) m by simp
  obtain new where i: "\<And>k. incoming' k = map_option (\<lambda>n. n - int (count_list ts k)) (?i k)"
    and new: "queue' = ?q @ new" "distinct new" "set new = {s \<in> set ts. ?i s = Some (int (count_list ts s))}"
    using Cons.IH [OF pre rest] by blast
  have 1: "incoming' k = map_option (\<lambda>n. n - int (count_list (t # ts) k)) (incoming k)" for k
    using i [of k] m(1) by auto
  have "\<exists>new. queue' = queue @ new \<and> distinct new \<and> set new = {s \<in> set (t # ts). incoming s = Some (int (count_list (t # ts) s))}"
  proof (cases "m = 1")
    case True
    then have fresh: "t \<notin> set ts" "count_list ts t = 0" using m(2) by (simp_all add: count_list_0_iff)
    then have "set (t # new) = {s \<in> set (t # ts). incoming s = Some (int (count_list (t # ts) s))}"
      unfolding list.set new(3) using m(1) True by auto
    moreover have "queue' = queue @ t # new" "distinct (t # new)" using new fresh True by auto
    ultimately show ?thesis by blast
  next
    case False
    have "t \<in> set ts" if "m = 1 + int (count_list ts t)"
      using that False by (cases "t \<in> set ts") (simp_all add: count_notin)
    then have "set new = {s \<in> set (t # ts). incoming s = Some (int (count_list (t # ts) s))}"
      unfolding new(3) using m(1) by auto
    then show ?thesis using new(1,2) False by auto
  qed
  then show ?case using 1 by blast
qed

text \<open>The invariant of the loop: the counts are the edges from nodes not placed yet, the nodes without
  such an edge are the placed and the queued ones, and all edges into those come from placed nodes.\<close>

definition loop_inv :: "'k list \<Rightarrow> 'k edges \<Rightarrow> ('k \<Rightarrow> int option) \<Rightarrow> 'k list \<Rightarrow> 'k list \<Rightarrow> bool" where
  "loop_inv ids es incoming queue order \<longleftrightarrow>
     distinct (order @ queue) \<and> set (order @ queue) = {k \<in> set ids. left es (set order) k = 0}
     \<and> (\<forall>k. incoming k = (if k \<in> set ids then Some (int (left es (set order) k)) else None))
     \<and> (\<forall>i < length order. \<forall>a. (a, order ! i) \<in> set es \<longrightarrow> a \<in> set (take i order))"

lemma left_zero: "left es placed k = 0 \<longleftrightarrow> (\<forall>a. (a, k) \<in> set es \<longrightarrow> a \<in> placed)"
  unfolding left_def count_list_0_iff by force

lemma loop_step:
  assumes inv: "loop_inv ids es incoming (k # queue) order" and "set (map snd es) \<subseteq> set ids"
    and v: "fold visit_target (targets_of es k) (incoming, queue) = (incoming', queue')"
  shows "loop_inv ids es incoming' queue' (order @ [k])"
proof -
  let ?left = "left es (set order)" and ?left' = "left es (insert k (set order))"
  let ?c = "count_list (targets_of es k)"
  have k: "k \<notin> set order" "k \<in> set ids" "?left k = 0" using inv by (auto simp: loop_inv_def)
  have inc: "incoming t = Some (int (?left t))" if "t \<in> set ids" for t using inv that by (simp add: loop_inv_def)
  have split_left: "?left t = ?left' t + ?c t" for t using left_place [OF k(1)] .
  have ts: "set (targets_of es k) \<subseteq> set ids" using assms(2) by (auto simp: targets_of_def)
  have "\<forall>t \<in> set (targets_of es k). \<exists>n. incoming t = Some n \<and> int (?c t) \<le> n"
    using inc ts split_left by (metis le_add2 of_nat_mono subsetD)
  from visits [OF this v] obtain new where i: "\<And>t. incoming' t = map_option (\<lambda>n. n - int (?c t)) (incoming t)"
    and new: "queue' = queue @ new" "distinct new" "set new = {t \<in> set (targets_of es k). incoming t = Some (int (?c t))}"
    by blast
  have new_iff: "t \<in> set new \<longleftrightarrow> t \<in> set ids \<and> ?left' t = 0 \<and> ?left t \<noteq> 0" for t
  proof
    assume t: "t \<in> set new"
    then have "t \<in> set ids" "?left t = ?c t" using new(3) ts inc by auto
    moreover have "?c t \<noteq> 0" using t new(3) by (simp add: count_list_0_iff)
    ultimately show "t \<in> set ids \<and> ?left' t = 0 \<and> ?left t \<noteq> 0" using split_left [of t] by simp
  next
    assume t: "t \<in> set ids \<and> ?left' t = 0 \<and> ?left t \<noteq> 0"
    then have "?c t \<noteq> 0" "?left t = ?c t" using split_left [of t] by auto
    then show "t \<in> set new" using new(3) inc t count_list_0_iff by fastforce
  qed
  have old: "set (order @ k # queue) = {t \<in> set ids. ?left t = 0}" "distinct (order @ k # queue)"
    using inv by (simp_all add: loop_inv_def)
  have "set ((order @ [k]) @ queue') = {t \<in> set ids. ?left' t = 0}"
    using old(1) new(1) new_iff split_left by auto
  moreover have "distinct ((order @ [k]) @ queue')"
  proof -
    have "set new \<inter> set (order @ k # queue) = {}" unfolding old(1) using new_iff by blast
    then show ?thesis using old(2) new(1,2) by auto
  qed
  moreover have "incoming' t = (if t \<in> set ids then Some (int (?left' t)) else None)" for t
    using i [of t] inv split_left [of t] by (simp add: loop_inv_def)
  moreover have "a \<in> set (take j (order @ [k]))"
    if "j < length (order @ [k])" "(a, (order @ [k]) ! j) \<in> set es" for a j
  proof (cases "j < length order")
    case True
    then show ?thesis using that inv by (simp add: loop_inv_def nth_append)
  next
    case False
    then have "j = length order" using that by simp
    then show ?thesis using that k(3) left_zero [of es "set order" k] by simp
  qed
  ultimately show ?thesis by (simp add: loop_inv_def)
qed

lemma order_loop_inv:
  assumes "loop_inv ids es incoming queue order" and "set (map snd es) \<subseteq> set ids" and "\<forall>k \<in> set ids. named k"
  shows "\<exists>incoming'. loop_inv ids es incoming' [] (order_loop named es incoming queue order)"
  using assms
proof (induction named es incoming queue order rule: order_loop.induct)
  case (1 named es incoming order)
  then show ?case by auto
next
  case (2 named es incoming k queue order)
  obtain i q where v: "fold visit_target (targets_of es k) (incoming, queue) = (i, q)" by (cases "fold visit_target (targets_of es k) (incoming, queue)")
  have "named k" using 2(2,4) by (auto simp: loop_inv_def)
  moreover have "loop_inv ids es i q (order @ [k])" using 2(2,3) v by (rule loop_step)
  ultimately show ?case using 2 v by simp
qed

lemma start_inv:
  assumes "distinct ids"
  shows "loop_inv ids (live_edges ids es) (incoming_counts ids es)
    (filter (\<lambda>k. incoming_counts ids es k = Some 0) ids) []"
  using assms by (auto simp: loop_inv_def incoming_counts_def left_def)

lemma topological_inv:
  assumes "distinct ids" and "\<forall>k \<in> set ids. named k"
  shows "\<exists>incoming. loop_inv ids (live_edges ids es) incoming [] (topologicalOrder named ids es)"
  unfolding topologicalOrder_def Let_def
  by (rule order_loop_inv [OF start_inv [OF assms(1)] _ assms(2)]) (auto simp: set_live_edges graph_of_def)

section \<open>What the order says\<close>

lemma order_complete_iff:
  assumes "distinct ids" and "\<forall>k \<in> set ids. named k"
  shows "length (topologicalOrder named ids es) = length ids \<longleftrightarrow> acyclic (graph_of ids es)"
proof -
  let ?order = "topologicalOrder named ids es" and ?E = "graph_of ids es"
  obtain incoming where inv: "loop_inv ids (live_edges ids es) incoming [] ?order"
    using topological_inv [OF assms] by blast
  have order: "distinct ?order" "set ?order = {k \<in> set ids. \<forall>a. (a, k) \<in> ?E \<longrightarrow> a \<in> set ?order}"
    using inv by (simp_all add: loop_inv_def left_zero set_live_edges)
  have before: "a \<in> set (take i ?order)" if "i < length ?order" "(a, ?order ! i) \<in> ?E" for a i
    using inv that by (simp add: loop_inv_def set_live_edges)
  have full: "length ?order = length ids \<longleftrightarrow> set ?order = set ids"
    using order assms(1) by (metis (no_types, lifting) card_subset_eq distinct_card finite_set mem_Collect_eq subsetI)
  show ?thesis
  proof
    assume "length ?order = length ids"
    then have all: "set ?order = set ids" using full by blast
    let ?pos = "\<lambda>k. LEAST i. i < length ?order \<and> ?order ! i = k"
    have pos: "?pos (?order ! i) = i" if "i < length ?order" for i
      using that order(1) by (intro Least_equality) (auto simp: nth_eq_iff_index_eq)
    have "?E \<subseteq> measure ?pos"
    proof (rule subrelI)
      fix a b assume e: "(a, b) \<in> ?E"
      then have "b \<in> set ?order" using all by (auto simp: graph_of_def)
      then obtain i where i: "i < length ?order" "?order ! i = b" by (auto simp: in_set_conv_nth)
      then obtain j where "j < i" "?order ! j = a" using before [of i a] e by (auto simp: in_set_conv_nth)
      then show "(a, b) \<in> measure ?pos" using pos [of i] pos [of j] i by auto
    qed
    then show "acyclic ?E" using wf_measure wf_subset wf_acyclic by blast
  next
    assume "acyclic ?E"
    moreover have "finite ?E" using set_live_edges [of ids es] by (metis finite_set)
    ultimately have wf: "wf ?E" by (blast intro: finite_acyclic_wf)
    have "k \<in> set ids \<Longrightarrow> k \<in> set ?order" for k
      using wf by (induction k rule: wf_induct_rule) (use order(2) in \<open>auto simp: graph_of_def\<close>)
    then show "length ?order = length ids" using full order(2) by blast
  qed
qed

lemma order_respects_edges:
  assumes "distinct ids" and "\<forall>k \<in> set ids. named k" and "(a, topologicalOrder named ids es ! i) \<in> graph_of ids es"
    and "i < length (topologicalOrder named ids es)"
  shows "a \<in> set (take i (topologicalOrder named ids es))"
  using topological_inv [OF assms(1,2)] assms(3,4) by (auto simp: loop_inv_def set_live_edges)

end
