(* ===== verification/Authoring.thy ===== *)
theory Authoring
  imports AuthoringStore RuntimeCore Broker WorkflowGraph
begin

text \<open>
  apps/control-api/src/authoring.ts: the analysis of the two sources of a draft, its compilation and
  the evaluation of the compiled plan. A parsed YAML document is a value; the parser, the text of
  zod's first issue, the model-profile file and the compiler process are parameters. Identifiers are
  compared as values, where the code compares an identifier that is an object by identity.
\<close>

section \<open>Parsing the embedded contracts\<close>

definition nonblank_string :: "json \<Rightarrow> string option" where
  "nonblank_string v = (case v of JStr s \<Rightarrow> if s = [] then None else Some s | _ \<Rightarrow> None)"

definition record_field :: "entries \<Rightarrow> string \<Rightarrow> entries option \<Rightarrow> entries option" where
  \<comment> \<open>\<open>z.record(...)\<close>, with the value a missing member defaults to, if any\<close>
  "record_field es k missing = (case obj_get es k of JUndef \<Rightarrow> missing | JObj o' \<Rightarrow> Some o' | _ \<Rightarrow> None)"

definition default_list :: "(json \<Rightarrow> 'a option) \<Rightarrow> entries \<Rightarrow> string \<Rightarrow> 'a list option" where
  "default_list f es k = (if obj_get es k = JUndef then Some [] else list_field f es k)"

definition parse_kind :: "string \<Rightarrow> capability_kind option" where
  "parse_kind s = map_of [(''model'', KindModel), (''tool'', KindTool), (''deterministic'', KindDeterministic)] s"

definition parse_target :: "string \<Rightarrow> provider_kind option" where
  "parse_target s = map_of [(''local_http'', LocalHttp), (''azure_foundry'', AzureFoundry)] s"

definition parse_capability :: "json \<Rightarrow> capability_definition option" where
  "parse_capability v = (case v of JObj es \<Rightarrow>
     (if strict_object [''id'', ''kind'', ''effect'', ''adapterBindingId'', ''inputSchema'', ''outputSchema'', ''timeoutMs'',
          ''maxAttempts'', ''idempotent''] es then
      (case (required_field nonblank es ''id'', Option.bind (str_field es ''kind'') parse_kind, parse_effect (obj_get es ''effect''),
             required_field nonblank es ''adapterBindingId'', record_field es ''inputSchema'' (Some []),
             record_field es ''outputSchema'' (Some []), int_field es ''timeoutMs'',
             (if obj_get es ''maxAttempts'' = JUndef then Some 1 else int_field es ''maxAttempts''), obj_get es ''idempotent'') of
         (Some i, Some k, Some e, Some a, Some ins, Some outs, Some t, Some m, JBool b) \<Rightarrow>
           (if 0 < t \<and> 0 < m \<and> m \<le> 10 then Some \<lparr>cap_id = i, cap_kind = k, cap_effect = e, cap_adapterBindingId = a,
              cap_inputSchema = ins, cap_outputSchema = outs, cap_timeoutMs = t, cap_maxAttempts = m, cap_idempotent = b\<rparr>
            else None)
       | _ \<Rightarrow> None) else None)
   | _ \<Rightarrow> None)"

definition parse_case_write :: "json \<Rightarrow> case_write_contract option" where
  "parse_case_write v = (case v of JObj es \<Rightarrow>
     (if strict_object [''commandType'', ''when'', ''payload'', ''payloadSchema''] es then
      (case (parse_command_type (obj_get es ''commandType''), optional_field nonblank es ''when'',
             record_field es ''payload'' None, record_field es ''payloadSchema'' None) of
         (Some c, Some w, Some p, Some s) \<Rightarrow> Some \<lparr>cw_commandType = c, cw_when = w, cw_payload = p, cw_payloadSchema = s\<rparr>
       | _ \<Rightarrow> None) else None)
   | _ \<Rightarrow> None)"

definition parse_skill :: "json \<Rightarrow> compiled_skill option" where
  "parse_skill v = (case v of JObj es \<Rightarrow>
     (if strict_object [''id'', ''name'', ''description'', ''instructions'', ''allowedCapabilityIds'', ''version''] es then
      (case (required_field slug_ok es ''id'', required_field nonblank es ''name'', required_field nonblank es ''description'',
             required_field nonblank es ''instructions'', default_list nonblank_string es ''allowedCapabilityIds'',
             required_field nonblank es ''version'') of
         (Some i, Some n, Some d, Some t, Some cs, Some ver) \<Rightarrow> Some \<lparr>skill_id = i, skill_name = n, skill_description = d,
            skill_instructions = t, skill_allowedCapabilityIds = cs, skill_version = ver\<rparr>
       | _ \<Rightarrow> None) else None)
   | _ \<Rightarrow> None)"

definition parse_agent :: "json \<Rightarrow> compiled_agent option" where
  "parse_agent v = (case v of JObj es \<Rightarrow>
     (if strict_object [''id'', ''name'', ''description'', ''role'', ''prompt'', ''modelProfileId'', ''runtimeTarget'', ''skillIds'',
          ''caseWrites'', ''primaryCapabilityId'', ''inputSchema'', ''outputSchema'', ''version''] es then
      (case (required_field slug_ok es ''id'', required_field nonblank es ''name'', required_field nonblank es ''description'',
             required_field nonblank es ''role'', required_field nonblank es ''prompt'', required_field nonblank es ''modelProfileId'',
             Option.bind (str_field es ''runtimeTarget'') parse_target, default_list nonblank_string es ''skillIds'',
             default_list parse_case_write es ''caseWrites'', optional_field nonblank es ''primaryCapabilityId'',
             record_field es ''inputSchema'' None, record_field es ''outputSchema'' None, required_field nonblank es ''version'') of
         (Some i, Some n, Some d, Some r, Some p, Some m, Some t, Some ks, Some ws, Some pc, Some ins, Some outs, Some ver) \<Rightarrow>
           Some \<lparr>agent_id = i, agent_name = n, agent_description = d, agent_role = r, agent_prompt = p, agent_modelProfileId = m,
             agent_runtimeTarget = t, agent_skillIds = ks, agent_caseWrites = ws, agent_primaryCapabilityId = pc,
             agent_inputSchema = ins, agent_outputSchema = outs, agent_version = ver\<rparr>
       | _ \<Rightarrow> None) else None)
   | _ \<Rightarrow> None)"

section \<open>Diagnostics of the workflow\<close>

definition err :: "string \<Rightarrow> string \<Rightarrow> string \<Rightarrow> diagnostic" where
  \<comment> \<open>\<open>diagnostic(code, path, message)\<close> with its default severity\<close>
  "err code path message = \<lparr>dg_code = code, dg_severity = SevError, dg_path = path, dg_message = message\<rparr>"

definition when_not :: "bool \<Rightarrow> diagnostic \<Rightarrow> diagnostic list" where
  "when_not ok d = (if ok then [] else [d])"

definition plain_object :: "json \<Rightarrow> bool" where
  \<comment> \<open>\<open>object(value)\<close>\<close>
  "plain_object v \<longleftrightarrow> (case v of JObj _ \<Rightarrow> True | _ \<Rightarrow> False)"

definition array_of :: "json \<Rightarrow> json list" where
  \<comment> \<open>\<open>Array.isArray(v) ? v : []\<close>\<close>
  "array_of v = (case v of JArr vs \<Rightarrow> vs | _ \<Rightarrow> [])"

definition node_kinds :: "string list" where
  "node_kinds = [''input'', ''output'', ''agent'', ''tool'', ''transform'', ''condition'', ''evaluate'', ''join'', ''aggregator'']"

definition config_member :: "json \<Rightarrow> string \<Rightarrow> json" where
  \<comment> \<open>\<open>node.config?.k\<close>\<close>
  "config_member node k = js_member (js_member node ''config'') k"

definition node_path :: "nat \<Rightarrow> string \<Rightarrow> string" where
  "node_path i rest = ''workflow.spec.nodes.'' @ nat_text i @ rest"

definition case_write_diagnostics :: "string \<Rightarrow> json \<Rightarrow> diagnostic list" where
  \<comment> \<open>of the entry at a path\<close>
  "case_write_diagnostics at entry = (case entry of
     JObj es \<Rightarrow> when_not (parse_command_type (obj_get es ''commandType'') \<noteq> None)
         (err ''author.case_write_command_invalid'' (at @ ''.commandType'') ''Use a supported canonical case command.'')
       @ when_not (plain_object (obj_get es ''payload''))
         (err ''author.case_write_payload_required'' (at @ ''.payload'') ''An executable payload mapping is required for each case write.'')
       @ when_not (plain_object (obj_get es ''payloadSchema''))
         (err ''author.case_write_schema_required'' (at @ ''.payloadSchema'') ''A JSON Schema object is required for each case write.'')
   | _ \<Rightarrow> [err ''author.case_write_invalid'' at ''Case write must be an object.''])"

definition validateCaseWrites :: "json \<Rightarrow> diagnostic list" where
  "validateCaseWrites node = (let path = ''workflow.nodes.'' @ js_string (js_member node ''id'') @ ''.config.caseWrites'' in
     case config_member node ''caseWrites'' of
       JUndef \<Rightarrow> []
     | JArr writes \<Rightarrow> concat (map (\<lambda>(i, entry). case_write_diagnostics (path @ ''.'' @ nat_text i) entry) (enumerate 0 writes))
     | _ \<Rightarrow> [err ''author.case_writes_array_required'' path ''caseWrites must be an array.''])"

definition validatePrimitiveConfig :: "nat \<Rightarrow> json \<Rightarrow> diagnostic list" where
  "validatePrimitiveConfig i node = (let kind' = js_member node ''kind'';
       operation = js_string (nullish (config_member node ''operation'')
         (JStr (if kind' = JStr ''aggregator'' then ''collect'' else ''identity'')));
       mode = js_string (nullish (config_member node ''mode'') (nullish (config_member node ''operation'') (JStr ''all'')))
     in when_not (\<not> (kind' = JStr ''transform'' \<and> operation \<notin> set supportedTransformOperations))
          (err ''author.transform_operation_unsupported'' (node_path i ''.config.operation'') (''Unsupported transform operation: '' @ operation @ ''.''))
        @ when_not (\<not> (kind' = JStr ''aggregator'' \<and> operation \<notin> set supportedAggregatorOperations))
          (err ''author.aggregator_operation_unsupported'' (node_path i ''.config.operation'') (''Unsupported aggregator operation: '' @ operation @ ''.''))
        @ when_not (\<not> (kind' = JStr ''join'' \<and> mode \<notin> set supportedJoinModes))
          (err ''author.join_mode_unsupported'' (node_path i ''.config.mode'') (''Unsupported join mode: '' @ mode @ ''.'')))"

fun node_diagnostics :: "json list \<Rightarrow> nat \<Rightarrow> json list \<Rightarrow> diagnostic list" where
  \<comment> \<open>the loop over the nodes, with the identifiers seen before\<close>
  "node_diagnostics seen i [] = []"
| "node_diagnostics seen i (node # nodes) =
     when_not (truthy (js_member node ''id'') \<and> js_member node ''id'' \<notin> set seen)
       (err ''author.node_id_invalid'' (node_path i ''.id'') ''Node IDs must be non-empty and unique.'')
     @ when_not (js_member node ''kind'' \<in> JStr ` set node_kinds)
       (err ''author.node_kind_unsupported'' (node_path i ''.kind'') (''Unsupported primitive: '' @ js_string (js_member node ''kind'') @ ''.''))
     @ validatePrimitiveConfig i node @ validateCaseWrites node
     @ node_diagnostics (js_member node ''id'' # seen) (Suc i) nodes"

definition node_ids :: "json list \<Rightarrow> json list" where
  "node_ids nodes = map (\<lambda>n. js_member n ''id'') nodes"

definition edge_diagnostics :: "json list \<Rightarrow> nat \<times> json \<Rightarrow> diagnostic list" where
  "edge_diagnostics ids = (\<lambda>(i, edge). let path = ''workflow.spec.edges.'' @ nat_text i in
     when_not (js_member edge ''from'' \<in> set ids \<and> js_member edge ''to'' \<in> set ids)
       (err ''author.edge_reference_missing'' path (''Edge '' @ js_string (js_member edge ''id'') @ '' references a missing node.''))
     @ when_not (\<not> strict_equal (js_member edge ''from'') (js_member edge ''to''))
       (err ''author.edge_self_reference'' path ''Self-referencing edges are not executable.''))"

definition runtime_targets :: "json list" where
  "runtime_targets = [JStr ''local_http'', JStr ''azure_foundry'']"

definition target_diagnostics :: "json list \<Rightarrow> diagnostic list" where
  "target_diagnostics nodes = concat (map (\<lambda>(i, node).
       when_not (config_member node ''runtimeTarget'' \<in> set (JUndef # runtime_targets))
         (err ''author.runtime_target_invalid'' (node_path i ''.config.runtimeTarget'') ''Runtime target must be local_http or azure_foundry.''))
       (enumerate 0 nodes))
     @ when_not (length (js_set (filter (\<lambda>t. t \<in> set runtime_targets) (map (\<lambda>n. config_member n ''runtimeTarget'') nodes))) \<le> 1)
       (err ''author.runtime_target_mixed'' ''workflow.spec.nodes''
         ''A POC harness invocation must use one runtime target across all agent nodes.'')"

definition edge_pairs :: "json list \<Rightarrow> (json \<times> json) list" where
  "edge_pairs es = map (\<lambda>e. (js_member e ''from'', js_member e ''to'')) es"

definition graph_diagnostics :: "json list \<Rightarrow> json list \<Rightarrow> diagnostic list" where
  "graph_diagnostics nodes es =
     when_not (nodes = [] \<or> length (topologicalOrder truthy (node_ids nodes) (edge_pairs es)) = length nodes)
       (err ''author.graph_cycle'' ''workflow.spec.edges'' ''The executable graph must be acyclic.'')
     @ when_not (\<exists>n \<in> set nodes. js_member n ''kind'' = JStr ''input'')
       (err ''author.input_missing'' ''workflow.spec.nodes'' ''At least one input node is required.'')
     @ when_not (\<exists>n \<in> set nodes. js_member n ''kind'' = JStr ''output'')
       (err ''author.output_missing'' ''workflow.spec.nodes'' ''At least one output node is required.'')"


section \<open>Diagnostics of the package\<close>

definition contract_diagnostics :: "json \<Rightarrow> json \<Rightarrow> diagnostic list" where
  "contract_diagnostics pkg workflow =
     when_not (plain_object pkg \<and> js_member pkg ''apiVersion'' = JStr ''harness.factory/domain-package-v1''
         \<and> js_member pkg ''kind'' = JStr ''DomainPackage'')
       (err ''author.package_contract_unsupported'' ''package'' ''Expected harness.factory/domain-package-v1 DomainPackage.'')
     @ (let m = js_member pkg ''metadata'' in when_not (plain_object m
         \<and> list_all (\<lambda>k. truthy (js_member m k)) [''name'', ''domain'', ''version'', ''objective''])
       (err ''author.package_metadata_required'' ''package.metadata'' ''Name, domain, version, and objective are required.''))
     @ when_not (plain_object workflow \<and> js_member workflow ''apiVersion'' = JStr ''ladder.dev/v1alpha1''
         \<and> js_member workflow ''kind'' = JStr ''Workflow'')
       (err ''author.workflow_contract_unsupported'' ''workflow'' ''Expected ladder.dev/v1alpha1 Workflow.'')"

type_synonym issue_text = "string \<Rightarrow> json \<Rightarrow> string"
  \<comment> \<open>zod's first issue for a value the named schema refuses\<close>

definition capability_diagnostics :: "issue_text \<Rightarrow> json list \<Rightarrow> diagnostic list" where
  "capability_diagnostics issue cs = concat (map (\<lambda>(i, c). when_not (parse_capability c \<noteq> None)
     (err ''author.capability_invalid'' (''package.capabilities.'' @ nat_text i) (issue ''capability'' c))) (enumerate 0 cs))"

fun skill_diagnostics :: "issue_text \<Rightarrow> string list \<Rightarrow> nat \<Rightarrow> json list \<Rightarrow> diagnostic list \<times> string list" where
  \<comment> \<open>the diagnostics and \<open>skillIds\<close>\<close>
  "skill_diagnostics issue skillIds i [] = ([], skillIds)"
| "skill_diagnostics issue skillIds i (v # vs) = (case parse_skill v of
     None \<Rightarrow> map_prod (Cons (err ''author.skill_invalid'' (''package.skills.'' @ nat_text i) (issue ''skill'' v))) id
       (skill_diagnostics issue skillIds (Suc i) vs)
   | Some k \<Rightarrow> if skill_id k \<in> set skillIds
       then map_prod (Cons (err ''author.skill_duplicate'' (''package.skills.'' @ nat_text i @ ''.id'')
              (''Skill '' @ skill_id k @ '' is duplicated.''))) id (skill_diagnostics issue skillIds (Suc i) vs)
       else skill_diagnostics issue (skill_id k # skillIds) (Suc i) vs)"

fun agent_diagnostics :: "issue_text \<Rightarrow> string list \<Rightarrow> string list \<Rightarrow> nat \<Rightarrow> json list \<Rightarrow> diagnostic list \<times> string list" where
  \<comment> \<open>the diagnostics and \<open>agentIds\<close>\<close>
  "agent_diagnostics issue skillIds agentIds i [] = ([], agentIds)"
| "agent_diagnostics issue skillIds agentIds i (v # vs) = (case parse_agent v of
     None \<Rightarrow> map_prod (Cons (err ''author.agent_invalid'' (''package.agents.'' @ nat_text i) (issue ''agent'' v))) id
       (agent_diagnostics issue skillIds agentIds (Suc i) vs)
   | Some a \<Rightarrow> map_prod (append (when_not (agent_id a \<notin> set agentIds)
            (err ''author.agent_duplicate'' (''package.agents.'' @ nat_text i @ ''.id'') (''Agent '' @ agent_id a @ '' is duplicated.''))
          @ concat (map (\<lambda>s. when_not (s \<in> set skillIds) (err ''author.agent_skill_missing'' (''package.agents.'' @ nat_text i @ ''.skillIds'')
              (''Agent '' @ agent_id a @ '' references missing skill '' @ s @ ''.''))) (agent_skillIds a)))) id
       (agent_diagnostics issue skillIds (agent_id a # agentIds) (Suc i) vs))"

definition reference_diagnostics :: "string list \<Rightarrow> string list \<Rightarrow> json list \<Rightarrow> diagnostic list" where
  "reference_diagnostics skillIds agentIds nodes = concat (map (\<lambda>(i, node).
     (case config_member node ''agentRef'' of
        JStr r \<Rightarrow> when_not (\<not> (js_member node ''kind'' \<in> {JStr ''agent'', JStr ''evaluate''} \<and> r \<notin> set agentIds))
          (err ''author.node_agent_missing'' (node_path i ''.config.agentRef'')
            (''Node '' @ js_string (js_member node ''id'') @ '' references missing source agent '' @ r @ ''.''))
      | _ \<Rightarrow> [])
     @ concat (map (\<lambda>v. case v of
          JStr s \<Rightarrow> when_not (s \<in> set skillIds) (err ''author.node_skill_missing'' (node_path i ''.config.skillRefs'')
            (''Node '' @ js_string (js_member node ''id'') @ '' references missing source skill '' @ s @ ''.''))
        | _ \<Rightarrow> []) (array_of (config_member node ''skillRefs'')))) (enumerate 0 nodes))"

definition binding_diagnostics :: "json list \<Rightarrow> json list \<Rightarrow> entries \<Rightarrow> diagnostic list" where
  "binding_diagnostics ids cs bindings = concat (map (\<lambda>(nodeId, capabilityId).
     when_not (JStr nodeId \<in> set ids)
       (err ''author.binding_node_missing'' (''package.bindings.'' @ nodeId) ''Binding references a missing node.'')
     @ when_not (\<exists>c \<in> set cs. plain_object c \<and> strict_equal (js_member c ''id'') capabilityId)
       ((err ''author.binding_capability_external'' (''package.bindings.'' @ nodeId)
         (''Capability '' @ js_string capabilityId @ '' must resolve from the gateway registry before compile.''))\<lparr>dg_severity := SevWarning\<rparr>))
     bindings)"

section \<open>The analysis\<close>

record analysis =
  an_parsedPackage :: entries
  an_parsedWorkflow :: entries
  an_diagnostics :: "diagnostic list"
  an_name :: json
  an_domain :: json
  an_version :: json

definition package_diagnostics :: "issue_text \<Rightarrow> json \<Rightarrow> json list \<Rightarrow> diagnostic list" where
  "package_diagnostics issue pkg nodes = (let cs = array_of (js_member pkg ''capabilities'');
       (skillDiagnostics, skillIds) = skill_diagnostics issue [] 0 (array_of (js_member pkg ''skills''));
       (agentDiagnostics, agentIds) = agent_diagnostics issue skillIds [] 0 (array_of (js_member pkg ''agents''))
     in capability_diagnostics issue cs @ skillDiagnostics @ agentDiagnostics @ reference_diagnostics skillIds agentIds nodes
        @ binding_diagnostics (node_ids nodes) cs (own_members (nullish (js_member pkg ''bindings'') (JObj []))))"

definition workflow_diagnostics :: "json list \<Rightarrow> json list \<Rightarrow> diagnostic list" where
  "workflow_diagnostics nodes es = node_diagnostics [] 0 nodes @ concat (map (edge_diagnostics (node_ids nodes)) (enumerate 0 es))
     @ target_diagnostics nodes @ graph_diagnostics nodes es"

definition spec_list :: "json \<Rightarrow> string \<Rightarrow> json list" where
  \<comment> \<open>\<open>Array.isArray(workflow?.spec?.k) ? workflow.spec.k : []\<close>\<close>
  "spec_list workflow k = array_of (js_member (js_member workflow ''spec'') k)"

definition absent :: "json \<Rightarrow> bool" where
  "absent v \<longleftrightarrow> v = JUndef \<or> v = JNull"

definition analyzeAuthoringSources :: "(string \<Rightarrow> string + json) \<Rightarrow> issue_text \<Rightarrow> string \<Rightarrow> string \<Rightarrow> analysis result" where
  \<comment> \<open>a node or an edge that is \<open>null\<close> has no members to read\<close>
  "analyzeAuthoringSources yaml issue packageSource workflowSource = (case yaml packageSource of
     Inl m \<Rightarrow> Inl (''authoring.package_yaml_invalid: '' @ m)
   | Inr pkg \<Rightarrow> (case yaml workflowSource of
       Inl m \<Rightarrow> Inl (''authoring.workflow_yaml_invalid: '' @ m)
     | Inr workflow \<Rightarrow> (let nodes = spec_list workflow ''nodes''; es = spec_list workflow ''edges''; m = js_member pkg ''metadata'' in
         guard_result (\<not> list_ex absent nodes \<and> \<not> list_ex absent es) ''TypeError''
          (Inr \<lparr>an_parsedPackage = members_of pkg, an_parsedWorkflow = members_of workflow,
             an_diagnostics = contract_diagnostics pkg workflow @ workflow_diagnostics nodes es @ package_diagnostics issue pkg nodes,
             an_name = nullish (js_member m ''name'') (JStr ''untitled-domain''),
             an_domain = nullish (js_member m ''domain'') (JStr ''unassigned''),
             an_version = nullish (js_member m ''version'') (JStr ''0.1.0'')\<rparr>))))"

definition has_error :: "diagnostic list \<Rightarrow> bool" where
  \<comment> \<open>\<open>diagnostics.some((item) => item.severity === "error")\<close>\<close>
  "has_error ds \<longleftrightarrow> list_ex (\<lambda>d. dg_severity d = SevError) ds"

end
