(* ===== verification/AuthoringCompile.thy ===== *)
theory AuthoringCompile
  imports Authoring
begin

text \<open>
  apps/control-api/src/harnessc.ts and the rest of apps/control-api/src/authoring.ts: finding the
  compiler, running it over a package directory, what its answer becomes, the compilation of a draft
  and the evaluation of a compiled plan. The compiler process, the file system and JSON.parse are
  parameters; the package directory is the map from file names to contents the code writes.
\<close>

section \<open>The pinned compiler\<close>

datatype compile_error = CompilerError string string | OtherError string
  \<comment> \<open>\<open>HarnessCompilerError(message, detail)\<close>, or any other error that is thrown\<close>

record compiler_env =
  hc_path :: "string option"
  hc_executable :: "string \<Rightarrow> bool"
  hc_repository :: string
  hc_run :: "string \<Rightarrow> (string \<rightharpoonup> string) \<Rightarrow> string \<Rightarrow> string + string"
  hc_document :: "string \<Rightarrow> string + harness_plan"
  hc_issues :: "harness_plan \<Rightarrow> string"

text \<open>\<open>hc_run\<close> runs a binary over a package directory with a model-profile file: the trimmed error
  text, or the contents of the plan file; \<open>hc_document\<close> reads that text.\<close>

definition compiler_candidates :: "compiler_env \<Rightarrow> string list" where
  "compiler_candidates e = (case hc_path e of
     Some p \<Rightarrow> if p \<noteq> [] then [p] else [hc_repository e @ ''target/release/harnessc'', ''/usr/local/bin/harnessc'']
   | None \<Rightarrow> [hc_repository e @ ''target/release/harnessc'', ''/usr/local/bin/harnessc''])"

definition resolveCompilerBinary :: "compiler_env \<Rightarrow> string option \<Rightarrow> string option \<times> (compile_error + string)" where
  \<comment> \<open>the second argument is \<open>resolvedBinary\<close>, which outlives the call\<close>
  "resolveCompilerBinary e resolved = (case resolved of
     Some b \<Rightarrow> (resolved, Inr b)
   | None \<Rightarrow> (case List.find (hc_executable e) (compiler_candidates e) of
       Some b \<Rightarrow> (Some b, Inr b)
     | None \<Rightarrow> (None, Inl (CompilerError ''compiler.binary_missing''
         (''harnessc was not found or is not executable. Checked: '' @ join '', '' (compiler_candidates e) @ ''. Set HARNESSC_PATH.'')))))"

definition safe_filename :: "string \<Rightarrow> bool" where
  "safe_filename s \<longleftrightarrow> s \<noteq> [] \<and> list_all (\<lambda>c. is_lower c \<or> (CHR ''A'' \<le> c \<and> c \<le> CHR ''Z'') \<or> is_digit c
     \<or> c \<in> {CHR ''.'', CHR ''_'', CHR ''-''}) s"

definition package_directory :: "string \<Rightarrow> string \<Rightarrow> string \<Rightarrow> string \<rightharpoonup> string" where
  \<comment> \<open>the two writes, in their order\<close>
  "package_directory packageSource workflowFileName workflowSource =
     [''package.yaml'' \<mapsto> packageSource, workflowFileName \<mapsto> workflowSource]"

definition checked_plan :: "(string \<Rightarrow> string) \<Rightarrow> compiler_env \<Rightarrow> string \<Rightarrow> compile_error + harness_plan" where
  "checked_plan sha e t = (case hc_document e t of
     Inl m \<Rightarrow> Inl (OtherError m)
   | Inr p \<Rightarrow> if \<not> harness_plan_ok p then Inl (CompilerError ''compiler.plan_contract_violation'' (hc_issues e p))
       else if \<not> verifyPlanDigest sha p then Inl (CompilerError ''compiler.plan_digest_invalid'' (plan_planDigest p))
       else Inr p)"

definition compileWithHarnessc ::
    "(string \<Rightarrow> string) \<Rightarrow> compiler_env \<Rightarrow> string option \<Rightarrow> string \<Rightarrow> string \<Rightarrow> json \<Rightarrow> string \<Rightarrow> string option \<times> (compile_error + harness_plan)" where
  \<comment> \<open>the name is whatever the package holds: the test converts it, joining paths does not;
    writing to the names of a directory fails\<close>
  "compileWithHarnessc sha e resolved packageSource workflowSource workflowFileName modelProfilesPath =
     (if \<not> safe_filename (js_string workflowFileName)
      then (resolved, Inl (CompilerError ''compiler.workflow_filename_invalid'' (js_string workflowFileName)))
      else (case resolveCompilerBinary e resolved of
        (resolved', Inl err') \<Rightarrow> (resolved', Inl err')
      | (resolved', Inr binary) \<Rightarrow> (resolved',
          case workflowFileName of JStr name \<Rightarrow>
             if name \<in> {''.'', ''..''} then Inl (OtherError ''EISDIR'')
             else (case hc_run e binary (package_directory packageSource name workflowSource) modelProfilesPath of
               Inl detail \<Rightarrow> Inl (CompilerError ''compiler.invocation_failed'' detail)
             | Inr t \<Rightarrow> checked_plan sha e t)
          | _ \<Rightarrow> Inl (OtherError ''TypeError''))))"

section \<open>Compiling a draft\<close>

definition list_or_empty :: "json \<Rightarrow> json list result" where
  \<comment> \<open>\<open>(v ?? []).flatMap\<close>\<close>
  "list_or_empty v = (case v of JUndef \<Rightarrow> Inr [] | JNull \<Rightarrow> Inr [] | JArr vs \<Rightarrow> Inr vs | _ \<Rightarrow> Inl ''TypeError'')"

definition iterated :: "json \<Rightarrow> json list result" where
  \<comment> \<open>\<open>for (... of v ?? [])\<close>\<close>
  "iterated v = (case v of JStr s \<Rightarrow> Inr (map (\<lambda>c. JStr [c]) s) | _ \<Rightarrow> list_or_empty v)"

definition binding_resolution :: "string list \<Rightarrow> string list \<Rightarrow> string \<times> json \<Rightarrow> diagnostic list" where
  \<comment> \<open>the identifiers of the registry, of the package, and one binding\<close>
  "binding_resolution registry embedded = (\<lambda>(nodeId, capabilityId).
     if capabilityId \<notin> set (map JStr (registry @ embedded))
     then [err ''compiler.capability_unresolved'' (''package.bindings.'' @ nodeId)
       (''Capability '' @ js_string capabilityId @ '' is neither embedded nor registered in the gateway.'')]
     else when_not (capabilityId \<in> set (map JStr embedded)) (err ''compiler.capability_not_embedded'' (''package.bindings.'' @ nodeId)
       (''Capability '' @ js_string capabilityId @ '' must be materialized into the package before compilation.'')))"

definition skill_resolution :: "string list \<Rightarrow> compiled_skill list \<Rightarrow> diagnostic list" where
  "skill_resolution known skills = concat (map (\<lambda>(i, k). concat (map (\<lambda>c. when_not (c \<in> set known)
     (err ''compiler.skill_capability_unresolved'' (''package.skills.'' @ nat_text i @ ''.allowedCapabilityIds'')
       (''Skill '' @ skill_id k @ '' references unresolved capability '' @ c @ ''.''))) (skill_allowedCapabilityIds k)))
     (enumerate 0 skills))"

definition agent_resolution :: "string list \<Rightarrow> compiled_agent list \<Rightarrow> diagnostic list" where
  "agent_resolution known agents = concat (map (\<lambda>(i, a). case agent_primaryCapabilityId a of
       None \<Rightarrow> []
     | Some c \<Rightarrow> when_not (c = [] \<or> c \<in> set known)
         (err ''compiler.agent_capability_unresolved'' (''package.agents.'' @ nat_text i @ ''.primaryCapabilityId'')
           (''Agent '' @ agent_id a @ '' references unresolved capability '' @ c @ ''.''))) (enumerate 0 agents))"

definition profile_resolution :: "entries list \<Rightarrow> json list \<Rightarrow> diagnostic list" where
  "profile_resolution profiles ids = concat (map (\<lambda>i. when_not (\<exists>p \<in> set profiles. strict_equal (obj_get p ''id'') i)
     (err ''compiler.model_profile_missing'' (''package.modelProfiles.'' @ js_string i)
       (''Model profile '' @ js_string i @ '' is not configured.''))) ids)"

definition resolution_diagnostics :: "capability_registration list \<Rightarrow> entries list result \<Rightarrow> json \<Rightarrow> diagnostic list result" where
  "resolution_diagnostics registryCapabilities profilesFile pkg =
     bind_result (list_or_empty (js_member pkg ''capabilities'')) (\<lambda>cs.
     bind_result (list_or_empty (js_member pkg ''skills'')) (\<lambda>ks.
     bind_result (list_or_empty (js_member pkg ''agents'')) (\<lambda>as.
     let embedded = map cap_id (List.map_filter parse_capability cs);
         registry = map (cap_id \<circ> cg_capability) registryCapabilities
     in bind_result profilesFile (\<lambda>profiles.
        bind_result (iterated (js_member pkg ''modelProfiles'')) (\<lambda>ids.
          Inr (concat (map (binding_resolution registry embedded) (own_members (nullish (js_member pkg ''bindings'') (JObj []))))
             @ skill_resolution (registry @ embedded) (List.map_filter parse_skill ks)
             @ agent_resolution (registry @ embedded) (List.map_filter parse_agent as)
             @ profile_resolution profiles ids))))))"

definition emitted :: "harness_plan \<Rightarrow> diagnostic" where
  "emitted p = (case plan_compiler p of (name, version, revision) \<Rightarrow>
     \<lparr>dg_code = ''compiler.plan_emitted'', dg_severity = SevInfo, dg_path = ''plan'',
      dg_message = ''Immutable plan '' @ take 12 (plan_planDigest p) @ '' emitted by '' @ name @ '' '' @ version
        @ '' (lgir-core '' @ take 8 revision @ '').''\<rparr>)"

record authoring_env =
  au_sha :: "string \<Rightarrow> string"
  au_yaml :: "string \<Rightarrow> string + json"
  au_issue :: issue_text
  au_profilesPath :: string
  au_profiles :: "entries list result"
  au_compiler :: compiler_env

definition compileAuthoringDraft ::
    "authoring_env \<Rightarrow> string option \<Rightarrow> string \<Rightarrow> string \<Rightarrow> capability_registration list
       \<Rightarrow> string option \<times> (harness_plan option \<times> diagnostic list) result" where
  "compileAuthoringDraft e resolved packageSource workflowSource registryCapabilities =
     (case analyzeAuthoringSources (au_yaml e) (au_issue e) packageSource workflowSource of
        Inl m \<Rightarrow> (resolved, Inl m)
      | Inr analysis \<Rightarrow> (let pkg = JObj (an_parsedPackage analysis) in
          (case resolution_diagnostics registryCapabilities (au_profiles e) pkg of
             Inl m \<Rightarrow> (resolved, Inl m)
           | Inr found \<Rightarrow> (let diagnostics = an_diagnostics analysis @ found in
               if has_error diagnostics then (resolved, Inr (None, diagnostics))
               else (case compileWithHarnessc (au_sha e) (au_compiler e) resolved packageSource workflowSource
                        (if truthy (js_member pkg ''workflow'') then js_member pkg ''workflow'' else JStr ''workflow.yaml'')
                        (au_profilesPath e) of
                   (resolved', Inr plan) \<Rightarrow> (resolved', Inr (Some plan, diagnostics @ [emitted plan]))
                 | (resolved', Inl (CompilerError m detail)) \<Rightarrow> (resolved', Inr (None, diagnostics @ [err m ''plan'' detail]))
                 | (resolved', Inl (OtherError m)) \<Rightarrow> (resolved', Inl m))))))"

section \<open>Evaluating a plan\<close>

definition agent_nodes :: "harness_plan \<Rightarrow> graph_node list" where
  "agent_nodes p = filter (\<lambda>n. node_kind n \<in> {NAgent, NEvaluate}) (plan_nodes p)"

definition agentContractsResolved :: "harness_plan \<Rightarrow> bool" where
  "agentContractsResolved p \<longleftrightarrow> list_all (\<lambda>n. obj_get (node_config n) ''agentRef'' \<in> JStr ` set (map agent_id (or_else (plan_agents p) [])))
     (agent_nodes p)"

definition skillContractsResolved :: "harness_plan \<Rightarrow> bool" where
  "skillContractsResolved p \<longleftrightarrow> list_all (\<lambda>n. list_all (\<lambda>s. s \<in> JStr ` set (map skill_id (or_else (plan_skills p) [])))
     (array_of (obj_get (node_config n) ''skillRefs''))) (agent_nodes p)"

definition bound_nodes :: "harness_plan \<Rightarrow> graph_node list" where
  "bound_nodes p = filter (\<lambda>n. case obj_get (node_config n) ''capabilityId'' of JStr _ \<Rightarrow> True | _ \<Rightarrow> False) (plan_nodes p)"

definition evaluation_checks :: "harness_plan \<Rightarrow> (string \<times> string \<times> bool \<times> string) list" where
  "evaluation_checks p =
     [(''graph.connected'', ''Executable topology'', length (plan_nodeOrder p) = length (plan_nodes p),
        nat_text (length (plan_nodes p)) @ '' nodes ordered without a cycle.''),
      (''authority.bound'', ''Capability authority'', length (plan_permissionEnvelopes p) = length (bound_nodes p),
        nat_text (length (plan_permissionEnvelopes p)) @ '' node permission envelopes emitted.''),
      (''agents.embedded'', ''Embedded agent and skill contracts'', agentContractsResolved p \<and> skillContractsResolved p,
        nat_text (length (agent_nodes p)) @ '' agent nodes resolve through '' @ nat_text (length (or_else (plan_agents p) []))
          @ '' embedded agent contracts and '' @ nat_text (length (or_else (plan_skills p) [])) @ '' skill contracts.''),
      (''case-writes.schema'', ''Case-write contracts'', True,
        nat_text (sum_list (map (\<lambda>n. length (array_of (obj_get (node_config n) ''caseWrites''))) (plan_nodes p)))
          @ '' canonical command schemas validated.''),
      (''budgets.bounded'', ''Execution budgets'', 0 < maxDurationMs (plan_budgets p)
          \<and> int (length (plan_capabilities p)) \<le> maxCapabilityCalls (plan_budgets p),
        ''Duration '' @ int_text (maxDurationMs (plan_budgets p)) @ ''ms; '' @ int_text (maxCapabilityCalls (plan_budgets p)) @ '' capability calls.''),
      (''runtime.compatible'', ''LangGraph runtime profile'', fst (snd (plan_engine p)) = ''harness-langgraph-v1'', fst (snd (plan_engine p)))]"

definition evaluateCompiledPlan :: "string \<Rightarrow> harness_plan \<Rightarrow> evaluation_report" where
  "evaluateCompiledPlan evaluatedAt p = \<lparr>rep_passed = list_all (\<lambda>(_, _, passed, _). passed) (evaluation_checks p),
     rep_evaluatedAt = evaluatedAt, rep_planDigest = plan_planDigest p, rep_checks = evaluation_checks p\<rparr>"

end
