(* ===== verification/AuthoringAgents.thy ===== *)
theory AuthoringAgents
  imports AuthoringCompile
begin

text \<open>
  apps/control-api/src/authoring-agents.ts: attaching a registered agent to a draft, bringing the
  registered contracts a draft refers to into its package, and replacing the case writes of a node.
  A source is its parsed document; a document a YAML alias shares is a copy. Agents and skills are
  registered contracts, whose provenance and status \<open>compiledAgent\<close> and \<open>compiledSkill\<close> leave out.
\<close>

section \<open>Documents\<close>

definition put_member :: "json \<Rightarrow> string \<Rightarrow> json \<Rightarrow> json" where
  \<comment> \<open>\<open>o.k = v\<close> of an object\<close>
  "put_member o' k v = JObj (obj_put (members_of o') k v)"

definition put_spec :: "entries \<Rightarrow> string \<Rightarrow> json list \<Rightarrow> entries" where
  \<comment> \<open>an array of \<open>workflow.spec\<close> after it was changed in place; what is not an array there was replaced
    by a list of its own, whose changes are lost\<close>
  "put_spec workflow k vs = (let spec = obj_get workflow ''spec'' in
     case js_member spec k of JArr _ \<Rightarrow> obj_put workflow ''spec'' (put_member spec k (JArr vs)) | _ \<Rightarrow> workflow)"

definition authored :: "json \<Rightarrow> json \<Rightarrow> (entries \<times> entries) result" where
  "authored pkg workflow = (case (pkg, workflow) of
     (JObj p, JObj w) \<Rightarrow> guard_result (plain_object (obj_get w ''spec'')) ''authoring.agent_source_invalid'' (Inr (p, w))
   | _ \<Rightarrow> Inl ''authoring.agent_source_invalid'')"

definition upsertById :: "json list \<Rightarrow> json list \<Rightarrow> json list result" where
  "upsertById items additions = guard_result (\<not> list_ex absent items) ''TypeError''
     (Inr (filter (\<lambda>v. js_member v ''id'' \<notin> set (map (\<lambda>a. js_member a ''id'') additions)) items @ additions))"

fun index_of_id :: "json list \<Rightarrow> string \<Rightarrow> nat option result" where
  \<comment> \<open>\<open>nodes.findIndex((node) => node.id === id)\<close>\<close>
  "index_of_id [] i = Inr None"
| "index_of_id (v # vs) i = (if absent v then Inl ''TypeError''
     else if js_member v ''id'' = JStr i then Inr (Some 0)
     else bind_result (index_of_id vs i) (\<lambda>n. Inr (map_option Suc n)))"

section \<open>Attaching an agent\<close>

datatype attach_mode = Replace | InsertAfter

definition to_lower :: "char \<Rightarrow> char" where
  "to_lower c = (if CHR ''A'' \<le> c \<and> c \<le> CHR ''Z'' then char_of (of_char c + (32 :: nat)) else c)"

fun dash_runs :: "bool \<Rightarrow> string \<Rightarrow> string" where
  \<comment> \<open>\<open>replace(/[^a-z0-9-]+/g, "-")\<close>; the flag says that a run was replaced just before\<close>
  "dash_runs run [] = []"
| "dash_runs run (c # cs) = (if is_lower c \<or> is_digit c \<or> c = CHR ''-'' then c # dash_runs False cs
     else if run then dash_runs True cs else CHR ''-'' # dash_runs True cs)"

definition strip_dashes :: "string \<Rightarrow> string" where
  "strip_dashes s = rev (dropWhile (\<lambda>c. c = CHR ''-'') (rev (dropWhile (\<lambda>c. c = CHR ''-'') s)))"

definition attached_id :: "attach_mode \<Rightarrow> string \<Rightarrow> string option \<Rightarrow> string \<Rightarrow> string" where
  "attached_id mode nodeId newNodeId agentName = (case mode of Replace \<Rightarrow> nodeId
     | InsertAfter \<Rightarrow> strip_dashes (dash_runs False (map to_lower
         (case newNodeId of None \<Rightarrow> nodeId @ ''-'' @ agentName
          | Some n \<Rightarrow> if trim n = [] then nodeId @ ''-'' @ agentName else trim n))))"

definition agent_node :: "attach_mode \<Rightarrow> json \<Rightarrow> string \<Rightarrow> compiled_agent \<Rightarrow> json" where
  "agent_node mode selected attachedNodeId a = (let prior = (if mode = Replace then members_of (js_member selected ''config'') else []) in
     JObj (obj_spread (if mode = Replace then members_of selected else [])
       [(''id'', JStr attachedNodeId), (''kind'', JStr ''evaluate''), (''name'', JStr (agent_name a)),
        (''summary'', JStr (agent_description a)), (''role'', JStr (agent_role a)), (''prompt'', JStr (agent_prompt a)),
        (''inputSchema'', JObj (agent_inputSchema a)), (''outputSchema'', JObj (agent_outputSchema a)),
        (''config'', JObj (obj_spread (obj_spread [(''caseWrites'', JArr (map case_write_json (agent_caseWrites a)))] prior)
          [(''agentRef'', JStr (agent_id a)), (''agentVersion'', JStr (agent_version a)), (''skillRefs'', strs_json (agent_skillIds a)),
           (''modelProfileId'', JStr (agent_modelProfileId a)), (''runtimeTarget'', JStr (provider_name (agent_runtimeTarget a)))]))]))"

definition redirect :: "string \<Rightarrow> string \<Rightarrow> json \<Rightarrow> json" where
  "redirect nodeId attachedNodeId e = (if js_member e ''from'' = JStr nodeId then put_member e ''from'' (JStr attachedNodeId) else e)"

definition link_edge :: "string \<Rightarrow> string \<Rightarrow> json" where
  "link_edge nodeId attachedNodeId = JObj [(''id'', JStr (''edge-'' @ nodeId @ ''-'' @ attachedNodeId)), (''from'', JStr nodeId),
     (''to'', JStr attachedNodeId), (''kind'', JStr ''data'')]"

definition insert_after :: "json list \<Rightarrow> nat \<Rightarrow> json \<Rightarrow> json list" where
  "insert_after nodes i node = take (Suc i) nodes @ node # drop (Suc i) nodes"

definition attach_to_graph :: "attach_mode \<Rightarrow> json list \<Rightarrow> json list \<Rightarrow> nat \<Rightarrow> string \<Rightarrow> string \<Rightarrow> json \<Rightarrow> (json list \<times> json list) result" where
  "attach_to_graph mode nodes es i nodeId attachedNodeId node = (case mode of
     Replace \<Rightarrow> Inr (nodes[i := node], es)
   | InsertAfter \<Rightarrow> guard_result (\<not> list_ex absent es) ''TypeError''
       (Inr (insert_after nodes i node, map (redirect nodeId attachedNodeId) es @ [link_edge nodeId attachedNodeId])))"

fun referenced_skills :: "skill_registration list \<Rightarrow> string list \<Rightarrow> json list result" where
  "referenced_skills registered [] = Inr []"
| "referenced_skills registered (k # ks) = (case List.find (\<lambda>r. skill_id (sk_skill r) = k) registered of
     None \<Rightarrow> Inl (''authoring.agent_skill_not_registered:'' @ k)
   | Some r \<Rightarrow> bind_result (referenced_skills registered ks) (\<lambda>rest. Inr (skill_json (sk_skill r) # rest)))"

definition with_profile :: "string \<Rightarrow> entries \<Rightarrow> entries" where
  "with_profile profile pkg = (let profiles = array_of (obj_get pkg ''modelProfiles'') in
     if JStr profile \<in> set profiles then pkg else obj_put pkg ''modelProfiles'' (JArr (profiles @ [JStr profile])))"

definition with_binding :: "string \<Rightarrow> string option \<Rightarrow> entries \<Rightarrow> entries" where
  "with_binding attachedNodeId capability pkg = (case capability of
     None \<Rightarrow> pkg
   | Some c \<Rightarrow> if c = [] then pkg
       else obj_put pkg ''bindings'' (JObj (obj_spread (members_of (obj_get pkg ''bindings'')) [(attachedNodeId, JStr c)])))"

definition applyAgentToAuthoringSources ::
    "json \<Rightarrow> json \<Rightarrow> compiled_agent \<Rightarrow> skill_registration list \<Rightarrow> string \<Rightarrow> attach_mode \<Rightarrow> string option \<Rightarrow> (entries \<times> entries \<times> string) result" where
  "applyAgentToAuthoringSources pkg0 workflow0 a skills nodeId mode newNodeId =
     bind_result (authored pkg0 workflow0) (\<lambda>(pkg, workflow).
     let nodes = spec_list (JObj workflow) ''nodes''; es = spec_list (JObj workflow) ''edges'' in
     bind_result (index_of_id nodes nodeId) (\<lambda>found. case found of
       None \<Rightarrow> Inl ''authoring.agent_node_not_found''
     | Some i \<Rightarrow> let selected = nodes ! i; attachedNodeId = attached_id mode nodeId newNodeId (agent_name a) in
         if js_member selected ''kind'' = JStr ''input'' \<and> mode = Replace \<or> js_member selected ''kind'' = JStr ''output''
         then Inl ''authoring.agent_node_kind_protected''
         else bind_result (if attachedNodeId = [] \<or> mode = Replace then Inr None else index_of_id nodes attachedNodeId) (\<lambda>taken.
           if attachedNodeId = [] \<or> taken \<noteq> None then Inl ''authoring.agent_node_id_invalid''
           else bind_result (attach_to_graph mode nodes es i nodeId attachedNodeId (agent_node mode selected attachedNodeId a)) (\<lambda>(nodes', es').
             let pkg1 = with_profile (agent_modelProfileId a) pkg in
             bind_result (referenced_skills skills (agent_skillIds a)) (\<lambda>referenced.
             bind_result (upsertById (array_of (obj_get pkg1 ''skills'')) referenced) (\<lambda>ks.
             bind_result (upsertById (array_of (obj_get pkg1 ''agents'')) [agent_json a]) (\<lambda>as.
               Inr (with_binding attachedNodeId (agent_primaryCapabilityId a)
                      (obj_put (obj_put pkg1 ''skills'' (JArr ks)) ''agents'' (JArr as)),
                    put_spec (put_spec workflow ''nodes'' nodes') ''edges'' es', attachedNodeId))))))))"

section \<open>The case writes of a node\<close>

definition updateNodeCaseWrites :: "json \<Rightarrow> string \<Rightarrow> json list \<Rightarrow> entries result" where
  "updateNodeCaseWrites workflow0 nodeId caseWrites = bind_result (authored (JObj []) workflow0) (\<lambda>(_, workflow).
     let nodes = spec_list (JObj workflow) ''nodes'' in
     bind_result (index_of_id nodes nodeId) (\<lambda>found. case found of
       None \<Rightarrow> Inl ''authoring.agent_node_not_found''
     | Some i \<Rightarrow> Inr (put_spec workflow ''nodes'' (nodes[i := put_member (nodes ! i) ''config''
         (JObj (obj_put (members_of (js_member (nodes ! i) ''config'')) ''caseWrites'' (JArr caseWrites)))]))))"


section \<open>Materializing the registered contracts\<close>

definition ids_of :: "json list \<Rightarrow> string list result" where
  \<comment> \<open>the textual identifiers of the entries of a list\<close>
  "ids_of vs = guard_result (\<not> list_ex absent vs) ''TypeError''
     (Inr (List.map_filter (\<lambda>v. case js_member v ''id'' of JStr s \<Rightarrow> Some s | _ \<Rightarrow> None) vs))"

definition agent_ref :: "json \<Rightarrow> string option" where
  "agent_ref node = (case js_member node ''config'' of
     JObj es \<Rightarrow> (case obj_get es ''agentRef'' of JStr s \<Rightarrow> if s = [] then None else Some s | _ \<Rightarrow> None) | _ \<Rightarrow> None)"

definition texts_of :: "json list \<Rightarrow> string list" where
  "texts_of vs = List.map_filter (\<lambda>v. case v of JStr s \<Rightarrow> Some s | _ \<Rightarrow> None) vs"

definition skill_refs :: "json \<Rightarrow> string list" where
  "skill_refs node = (case js_member node ''config'' of
     JObj es \<Rightarrow> texts_of (array_of (obj_get es ''skillRefs'')) | _ \<Rightarrow> [])"

definition registry_get :: "('a \<Rightarrow> string) \<Rightarrow> 'a list \<Rightarrow> string \<Rightarrow> 'a option" where
  \<comment> \<open>\<open>new Map(items.map((item) => [item.id, item])).get(id)\<close>\<close>
  "registry_get id_of items i = List.find (\<lambda>x. id_of x = i) (rev items)"

definition kept_object :: "json \<Rightarrow> entries \<Rightarrow> json" where
  "kept_object v other = (if plain_object v then v else JObj other)"

definition kept_text :: "json \<Rightarrow> string \<Rightarrow> json" where
  "kept_text v other = (case v of JStr _ \<Rightarrow> v | _ \<Rightarrow> JStr other)"

definition kept_array :: "json \<Rightarrow> json list \<Rightarrow> json" where
  "kept_array v other = (case v of JArr _ \<Rightarrow> v | _ \<Rightarrow> JArr other)"

definition materialized_node :: "compiled_agent \<Rightarrow> json \<Rightarrow> json" where
  "materialized_node a node = (let config = members_of (js_member node ''config'');
       n1 = put_member node ''inputSchema'' (kept_object (js_member node ''inputSchema'') (agent_inputSchema a));
       n2 = put_member n1 ''outputSchema'' (kept_object (js_member node ''outputSchema'') (agent_outputSchema a));
       n3 = put_member n2 ''role'' (kept_text (js_member node ''role'') (agent_role a));
       n4 = put_member n3 ''prompt'' (kept_text (js_member node ''prompt'') (agent_prompt a))
     in put_member n4 ''config'' (JObj (obj_spread config
       [(''caseWrites'', kept_array (obj_get config ''caseWrites'') (map case_write_json (agent_caseWrites a))),
        (''skillRefs'', kept_array (obj_get config ''skillRefs'') (map JStr (agent_skillIds a))),
        (''modelProfileId'', kept_text (obj_get config ''modelProfileId'') (agent_modelProfileId a)),
        (''runtimeTarget'', kept_text (obj_get config ''runtimeTarget'') (provider_name (agent_runtimeTarget a)))])))"

definition node_agent :: "compiled_agent list \<Rightarrow> json \<Rightarrow> compiled_agent option" where
  "node_agent agents node = Option.bind (agent_ref node) (\<lambda>r. List.find (\<lambda>a. agent_id a = r) agents)"

definition bind_primary :: "compiled_agent list \<Rightarrow> json \<Rightarrow> entries \<Rightarrow> entries" where
  "bind_primary agents node bindings = (case Option.bind (node_agent agents node) agent_primaryCapabilityId of
     None \<Rightarrow> bindings
   | Some c \<Rightarrow> (let k = js_string (js_member node ''id'') in
       if c = [] then bindings
       else (case obj_get bindings k of JStr _ \<Rightarrow> bindings | _ \<Rightarrow> own_order (obj_put bindings k (JStr c)))))"

definition materializeAgentContracts :: "compiled_agent list \<Rightarrow> compiled_skill list \<Rightarrow> json list \<Rightarrow> entries \<Rightarrow> (entries \<times> json list) result" where
  "materializeAgentContracts agents skills nodes pkg =
     bind_result (upsertById (array_of (obj_get pkg ''agents'')) (map agent_json agents)) (\<lambda>as.
     bind_result (upsertById (array_of (obj_get pkg ''skills'')) (map skill_json skills)) (\<lambda>ks.
     Inr (obj_put (obj_put (obj_put (obj_put pkg ''agents'' (JArr as)) ''skills'' (JArr ks))
            ''modelProfiles'' (JArr (js_set (array_of (obj_get pkg ''modelProfiles'') @ map (JStr \<circ> agent_modelProfileId) agents))))
            ''bindings'' (JObj (fold (bind_primary agents) nodes (members_of (obj_get pkg ''bindings'')))),
          map (\<lambda>n. case node_agent agents n of None \<Rightarrow> n | Some a \<Rightarrow> materialized_node a n) nodes)))"

definition missing_agents :: "compiled_agent list \<Rightarrow> string list \<Rightarrow> json list \<Rightarrow> compiled_agent list" where
  "missing_agents registry embedded nodes = List.map_filter (registry_get agent_id registry)
     (js_set (filter (\<lambda>r. r \<notin> set embedded) (List.map_filter agent_ref nodes)))"

definition missing_skills :: "compiled_skill list \<Rightarrow> string list \<Rightarrow> compiled_agent list \<Rightarrow> json list \<Rightarrow> compiled_skill list" where
  "missing_skills registry embedded agents nodes = List.map_filter (registry_get skill_id registry)
     (filter (\<lambda>k. k \<notin> set embedded) (js_set (concat (map skill_refs nodes) @ concat (map agent_skillIds agents))))"

definition missing_capabilities :: "capability_definition list \<Rightarrow> string list \<Rightarrow> entries \<Rightarrow> capability_definition list" where
  "missing_capabilities registry embedded bindings = List.map_filter (registry_get cap_id registry)
     (filter (\<lambda>c. c \<notin> set embedded) (js_set (texts_of (map snd bindings))))"

definition embed_capabilities :: "capability_definition list \<Rightarrow> entries \<Rightarrow> (bool \<times> entries) result" where
  \<comment> \<open>whether a capability was missing, and the package with the missing ones\<close>
  "embed_capabilities registry pkg = (let cs = array_of (obj_get pkg ''capabilities'') in
     bind_result (ids_of cs) (\<lambda>embedded.
     let missing = missing_capabilities registry embedded (members_of (obj_get pkg ''bindings'')) in
     if missing = [] then Inr (False, pkg)
     else bind_result (upsertById cs (map capability_json missing)) (\<lambda>cs'. Inr (True, obj_put pkg ''capabilities'' (JArr cs')))))"

definition materializeRegisteredContracts ::
    "json \<Rightarrow> json \<Rightarrow> compiled_agent list \<Rightarrow> compiled_skill list \<Rightarrow> capability_definition list \<Rightarrow> (entries \<times> entries \<times> bool) result" where
  \<comment> \<open>without a change the texts of the sources stay what they were\<close>
  "materializeRegisteredContracts pkg0 workflow0 agentRegistry skillRegistry capabilityRegistry =
     bind_result (authored pkg0 workflow0) (\<lambda>(pkg, workflow).
     let nodes = spec_list (JObj workflow) ''nodes'' in
     bind_result (ids_of (array_of (obj_get pkg ''agents''))) (\<lambda>embeddedAgents.
     bind_result (ids_of (array_of (obj_get pkg ''skills''))) (\<lambda>embeddedSkills.
     guard_result (\<not> list_ex absent nodes) ''TypeError''
      (let agents = missing_agents agentRegistry embeddedAgents nodes;
           skills = missing_skills skillRegistry embeddedSkills agents nodes;
           contracts = agents \<noteq> [] \<or> skills \<noteq> []
       in bind_result (if contracts then materializeAgentContracts agents skills nodes pkg else Inr (pkg, nodes)) (\<lambda>(pkg1, nodes1).
          bind_result (embed_capabilities capabilityRegistry pkg1) (\<lambda>(embedded, pkg2).
            Inr (pkg2, put_spec workflow ''nodes'' nodes1, contracts \<or> embedded)))))))"

end
