(* ===== verification/ControlAuthoring.thy ===== *)
theory ControlAuthoring
  imports AuthoringAgents Broker
begin

text \<open>
  The authoring and plan routes of apps/control-api/src/app.ts, each the authorization of its caller,
  the checks of its body and its statements on the stores in their order. What other requests do
  before the i-th statement of a request is a function of the state; so are the random event
  identifiers and the faults of the event inserts. Spans and logs are left out.
\<close>

section \<open>The service\<close>

record control =
  ct_ledger :: db
  ct_authoring :: authoring

record control_api =
  ca_verify :: jwt_verifier
  ca_workload :: resolver
  ca_authoring :: authoring_env
  ca_yaml_text :: "nat \<Rightarrow> json \<Rightarrow> string"
  ca_column :: "json \<Rightarrow> string"
  ca_is_url :: "string \<Rightarrow> bool"

text \<open>\<open>ca_yaml_text\<close> is \<open>stringify\<close> for a line width, \<open>ca_column\<close> the text the driver sends for a value of a text column.\<close>

record chance =
  ch_now :: time
  ch_uuid :: string
  ch_event :: "nat \<Rightarrow> string"
  ch_fault :: "nat \<Rightarrow> code option"
  ch_meanwhile :: "nat \<Rightarrow> control \<Rightarrow> control"

datatype control_reply =
    RepDraft draft_row
  | RepDrafts "draft_row list"
  | RepDraftEvents draft_row "author_event list"
  | RepAttached draft_row string
  | RepValid bool "diagnostic list"
  | RepDiagnostics code "diagnostic list"
  | RepReport code evaluation_report
  | RepRegistry "registry_row list"
  | RepRegistered bool string
  | RepPlans "harness_plan list"
  | RepPlan harness_plan
  | RepAdmitted bool harness_plan

type_synonym outcome = "control \<times> control_reply response"

definition control_grants :: "env \<Rightarrow> service_grant list" where
  "control_grants env = (let tenantId = or_else (env ''LOCAL_DEFAULT_TENANT_ID'') ''tenant_demo'' in
     (if present env ''EDGE_SERVICE_TOKEN'' then [\<lparr>sg_token = the (env ''EDGE_SERVICE_TOKEN''),
        sg_subjectId = ''control-surface-edge'', sg_roles = [''Edge.Delegate''], sg_tenantId = tenantId\<rparr>] else [])
     @ (if present env ''RUNTIME_SERVICE_TOKEN'' then [\<lparr>sg_token = the (env ''RUNTIME_SERVICE_TOKEN''),
        sg_subjectId = ''harness-runtime'', sg_roles = [''Runtime.State.Write''], sg_tenantId = tenantId\<rparr>] else []))"

definition requirePrincipal :: "control_api \<Rightarrow> headers \<Rightarrow> platform_action \<Rightarrow> string \<Rightarrow> string option \<Rightarrow> auth_failure + principal" where
  "requirePrincipal A hs action kind' i = guard_require (ca_verify A) (DelegatedPrincipalResolver (ca_workload A)) hs action
     \<lparr>rs_kind = kind', rs_id = i, rs_tenantId = None\<rparr>"

definition as_principal :: "control_api \<Rightarrow> headers \<Rightarrow> platform_action \<Rightarrow> string \<Rightarrow> string option \<Rightarrow> control
    \<Rightarrow> (principal \<Rightarrow> outcome) \<Rightarrow> outcome" where
  "as_principal A hs action kind' i s k = (case requirePrincipal A hs action kind' i of
     Inl f \<Rightarrow> (s, auth_response ''control.internal_error'' f) | Inr p \<Rightarrow> k p)"

definition on_authoring :: "control \<Rightarrow> 'a effect \<Rightarrow> control \<times> 'a result" where
  "on_authoring s e = (s\<lparr>ct_authoring := fst e\<rparr>, snd e)"

definition conflict_status :: "code \<Rightarrow> nat" where
  "conflict_status c = (if has_sub c ''conflict'' then 409 else 400)"

definition finish :: "(code \<Rightarrow> control_reply response) \<Rightarrow> ('a \<Rightarrow> control_reply response) \<Rightarrow> control \<times> 'a result \<Rightarrow> outcome" where
  "finish failing replying' r = (case r of (s, Inl c) \<Rightarrow> (s, failing c) | (s, Inr x) \<Rightarrow> (s, replying' x))"

definition conflicting :: "code \<Rightarrow> control_reply response" where
  "conflicting c = Failure (conflict_status c) c"

definition separating :: "code \<Rightarrow> control_reply response" where
  \<comment> \<open>a \<open>SeparationOfDutiesError\<close> goes to the error handler\<close>
  "separating c = Failure (if c = ''authoring.separation_of_duties'' then 403 else 409) c"

section \<open>What the routes share\<close>

definition content_of :: "control_api \<Rightarrow> string \<Rightarrow> string \<Rightarrow> analysis \<Rightarrow> draft_content" where
  "content_of A packageSource workflowSource an = \<lparr>so_packageSource = packageSource, so_workflowSource = workflowSource,
     so_parsedPackage = an_parsedPackage an, so_parsedWorkflow = an_parsedWorkflow an, so_name = ca_column A (an_name an),
     so_domain = ca_column A (an_domain an), so_version = ca_column A (an_version an), so_diagnostics = an_diagnostics an\<rparr>"

definition analysed :: "control_api \<Rightarrow> string \<Rightarrow> string \<Rightarrow> analysis result" where
  "analysed A packageSource workflowSource =
     analyzeAuthoringSources (au_yaml (ca_authoring A)) (au_issue (ca_authoring A)) packageSource workflowSource"

definition update_draft :: "control_api \<Rightarrow> chance \<Rightarrow> nat \<Rightarrow> control \<Rightarrow> string \<Rightarrow> json \<Rightarrow> string \<Rightarrow> string \<Rightarrow> analysis \<Rightarrow> string
    \<Rightarrow> control \<times> draft_row result" where
  \<comment> \<open>\<open>updateAuthoringSources\<close> as the i-th statement; the column of the revision is a 32-bit integer\<close>
  "update_draft A c i s0 draftId expectedRevision packageSource workflowSource an actor = (let s = ch_meanwhile c i s0 in
     case expectedRevision of JNum m e \<Rightarrow>
       if e \<noteq> 0 \<or> \<bar>m\<bar> > 2147483647 then (s, Inl ''sql.integer_invalid'')
       else if m < 0 then (s, Inl ''authoring.revision_conflict_or_published'')
       else on_authoring s (updateAuthoringSources (ch_fault c i) (ch_event c i) (ch_now c) (ct_authoring s) draftId (nat m)
              (content_of A packageSource workflowSource an) actor)
     | _ \<Rightarrow> (s, Inl ''sql.integer_invalid''))"

definition lifecycle_change :: "chance \<Rightarrow> nat \<Rightarrow> control \<Rightarrow> string \<Rightarrow> lifecycle_input \<Rightarrow> control \<times> draft_row result" where
  \<comment> \<open>\<open>setAuthoringLifecycle\<close>: its read is the i-th statement, its write the next\<close>
  "lifecycle_change c i s0 draftId x = (let s1 = ch_meanwhile c i s0; s2 = ch_meanwhile c (i + 1) s1 in
     on_authoring s2 (setAuthoringLifecycle (ch_fault c i) (ch_event c i) (ch_now c) (ct_authoring s1) (ct_authoring s2) draftId x))"

definition string_member :: "json \<Rightarrow> string \<Rightarrow> string option" where
  "string_member body k = (case js_member body k of JStr s \<Rightarrow> Some s | _ \<Rightarrow> None)"

definition number_member :: "json \<Rightarrow> string \<Rightarrow> json option" where
  "number_member body k = (case js_member body k of JNum m e \<Rightarrow> Some (JNum m e) | _ \<Rightarrow> None)"

definition with_draft :: "control \<Rightarrow> string \<Rightarrow> string \<Rightarrow> (code \<Rightarrow> control_reply response) \<Rightarrow> control_reply response
    \<Rightarrow> (draft_row \<Rightarrow> outcome) \<Rightarrow> outcome" where
  \<comment> \<open>the draft of the caller's tenant, or what to answer without one\<close>
  "with_draft s draftId tenantId failing missing k = (case getAuthoringDraft (ct_authoring s) draftId (Some tenantId) of
     Inl e \<Rightarrow> (s, failing e) | Inr None \<Rightarrow> (s, missing) | Inr (Some d) \<Rightarrow> k d)"

abbreviation no_draft :: "control_reply response" where
  "no_draft \<equiv> Failure 404 ''authoring.draft_not_found''"

abbreviation internal :: "code \<Rightarrow> control_reply response" where
  "internal c \<equiv> Failure 500 ''control.internal_error''"

section \<open>Registered contracts\<close>

definition with_default :: "entries \<Rightarrow> string \<Rightarrow> json \<Rightarrow> entries" where
  "with_default es k v = (if obj_get es k = JUndef then obj_put es k v else es)"

definition parse_registry_status :: "entries \<Rightarrow> registry_status option" where
  "parse_registry_status es = (if obj_get es ''status'' = JUndef then Some RegActive
     else Option.bind (str_field es ''status'') (map_of [(''draft'', RegDraft), (''active'', RegActive), (''deprecated'', RegDeprecated)]))"

definition parse_source :: "(string \<Rightarrow> bool) \<Rightarrow> entries \<Rightarrow> authoring_source option" where
  "parse_source is_url es = (case obj_get es ''source'' of
     JUndef \<Rightarrow> Some \<lparr>src_type = Manual, src_url = None, src_path = None, src_revision = None\<rparr>
   | JObj src \<Rightarrow> (case (Option.bind (str_field src ''type'') (map_of [(''manual'', Manual), (''github'', Github)]),
        optional_field is_url src ''url'', optional_field nonblank src ''path'', optional_field nonblank src ''revision'') of
        (Some t, Some u, Some p, Some r) \<Rightarrow> if strict_object [''type'', ''url'', ''path'', ''revision''] src
          then Some \<lparr>src_type = t, src_url = u, src_path = p, src_revision = r\<rparr> else None
      | _ \<Rightarrow> None)
   | _ \<Rightarrow> None)"

definition without :: "string list \<Rightarrow> entries \<Rightarrow> entries" where
  "without ks es = filter (\<lambda>(k, v). k \<notin> set ks) es"

definition parse_capability_registration :: "json \<Rightarrow> capability_registration option" where
  "parse_capability_registration v = (case v of JObj es \<Rightarrow>
     (case (parse_capability (JObj (without [''description'', ''owner'', ''dataClasses'', ''status''] es)),
            required_field nonblank es ''description'', required_field nonblank es ''owner'',
            default_list nonblank_string es ''dataClasses'', parse_registry_status es) of
        (Some c, Some d, Some w, Some ds, Some st) \<Rightarrow> Some \<lparr>cg_capability = c, cg_description = d, cg_owner = w,
          cg_dataClasses = ds, cg_status = st\<rparr>
      | _ \<Rightarrow> None)
   | _ \<Rightarrow> None)"

definition parse_skill_registration :: "(string \<Rightarrow> bool) \<Rightarrow> json \<Rightarrow> skill_registration option" where
  "parse_skill_registration is_url v = (case v of JObj es \<Rightarrow>
     (case (parse_skill (JObj (with_default (without [''source'', ''status''] es) ''version'' (JStr ''0.1.0''))),
            parse_source is_url es, parse_registry_status es) of
        (Some k, Some src, Some st) \<Rightarrow> Some \<lparr>sk_skill = k, sk_source = src, sk_status = st\<rparr> | _ \<Rightarrow> None)
   | _ \<Rightarrow> None)"

definition agent_defaults :: "entries \<Rightarrow> entries" where
  "agent_defaults es = foldl (\<lambda>acc (k, v). with_default acc k v) es
     [(''modelProfileId'', JStr ''model.standard.v1''), (''runtimeTarget'', JStr ''local_http''),
      (''inputSchema'', JObj [(''type'', JStr ''object'')]), (''outputSchema'', JObj [(''type'', JStr ''object'')]),
      (''version'', JStr ''0.1.0'')]"

definition parse_agent_registration :: "(string \<Rightarrow> bool) \<Rightarrow> json \<Rightarrow> agent_registration option" where
  "parse_agent_registration is_url v = (case v of JObj es \<Rightarrow>
     (case (parse_agent (JObj (agent_defaults (without [''source'', ''status''] es))), parse_source is_url es, parse_registry_status es) of
        (Some a, Some src, Some st) \<Rightarrow> Some \<lparr>ag_agent = a, ag_source = src, ag_status = st\<rparr> | _ \<Rightarrow> None)
   | _ \<Rightarrow> None)"

definition parsed_rows :: "(json \<Rightarrow> 'a option) \<Rightarrow> registry_row list \<Rightarrow> 'a list result" where
  \<comment> \<open>every row is parsed again when it is read\<close>
  "parsed_rows parse rows = (case all_some (map (parse \<circ> rg_definition) rows) of None \<Rightarrow> Inl ''ZodError'' | Some xs \<Rightarrow> Inr xs)"


section \<open>Plans and registries\<close>

definition plans_route :: "control_api \<Rightarrow> headers \<Rightarrow> control \<Rightarrow> outcome" where
  "plans_route A hs s = as_principal A hs PlanRead ''plan'' None s (\<lambda>p.
     (s, Reply 200 (RepPlans (listPlans (ct_ledger s) (pr_tenantId p)))))"

definition plan_route :: "control_api \<Rightarrow> headers \<Rightarrow> string \<Rightarrow> control \<Rightarrow> outcome" where
  "plan_route A hs digest s = as_principal A hs PlanRead ''plan'' (Some digest) s (\<lambda>p.
     (s, case getPlan (ct_ledger s) digest (Some (pr_tenantId p)) of
           None \<Rightarrow> Failure 404 ''plan.not_found'' | Some plan \<Rightarrow> Reply 200 (RepPlan plan)))"

definition admit_route :: "control_api \<Rightarrow> time \<Rightarrow> headers \<Rightarrow> harness_plan option \<Rightarrow> control \<Rightarrow> outcome" where
  "admit_route A now hs body s = as_principal A hs PlanAdmit ''plan'' None s (\<lambda>p. case body of
       None \<Rightarrow> (s, Failure 400 ''plan.schema_invalid'')
     | Some plan \<Rightarrow> (case admitPlan (au_sha (ca_authoring A)) now (ct_ledger s) plan (pr_tenantId p) of
         Inl e \<Rightarrow> (s, Failure 400 e)
       | Inr (d, (created, admitted)) \<Rightarrow> (s\<lparr>ct_ledger := d\<rparr>, Reply (if created then 201 else 200) (RepAdmitted created admitted))))"

definition registry_list_route :: "control_api \<Rightarrow> headers \<Rightarrow> string \<Rightarrow> (json \<Rightarrow> 'a option) \<Rightarrow> (authoring \<Rightarrow> registry_row list) \<Rightarrow> control \<Rightarrow> outcome" where
  \<comment> \<open>the agents or the skills; they belong to no tenant\<close>
  "registry_list_route A hs kind' parse rows s = as_principal A hs DraftRead kind' None s (\<lambda>p.
     case parsed_rows parse (rows (ct_authoring s)) of
       Inl e \<Rightarrow> (s, internal e) | Inr _ \<Rightarrow> (s, Reply 200 (RepRegistry (rows (ct_authoring s)))))"

definition register_agent_route :: "control_api \<Rightarrow> time \<Rightarrow> headers \<Rightarrow> json \<Rightarrow> control \<Rightarrow> outcome" where
  "register_agent_route A now hs body s = as_principal A hs AgentRegister ''agent'' None s (\<lambda>p.
     case parse_agent_registration (ca_is_url A) body of
       None \<Rightarrow> (s, Failure 400 ''ZodError'')
     | Some a \<Rightarrow> finish (Failure 400) (\<lambda>(created, digest). Reply 201 (RepRegistered created digest))
         (on_authoring s (registerAuthoringAgent (au_sha (ca_authoring A)) (ca_is_url A) now (ct_authoring s) a)))"

definition register_skill_route :: "control_api \<Rightarrow> time \<Rightarrow> headers \<Rightarrow> json \<Rightarrow> control \<Rightarrow> outcome" where
  "register_skill_route A now hs body s = as_principal A hs AgentRegister ''skill'' None s (\<lambda>p.
     case parse_skill_registration (ca_is_url A) body of
       None \<Rightarrow> (s, Failure 400 ''ZodError'')
     | Some k \<Rightarrow> finish (Failure 400) (\<lambda>(created, digest). Reply 201 (RepRegistered created digest))
         (on_authoring s (registerAuthoringSkill (au_sha (ca_authoring A)) (ca_is_url A) now (ct_authoring s) k)))"

section \<open>Drafts\<close>

definition drafts_route :: "control_api \<Rightarrow> headers \<Rightarrow> control \<Rightarrow> outcome" where
  "drafts_route A hs s = as_principal A hs DraftRead ''draft'' None s (\<lambda>p.
     case listAuthoringDrafts (ct_authoring s) (pr_tenantId p) of
       Inl e \<Rightarrow> (s, internal e) | Inr ds \<Rightarrow> (s, Reply 200 (RepDrafts ds)))"

definition draft_route :: "control_api \<Rightarrow> headers \<Rightarrow> string \<Rightarrow> control \<Rightarrow> outcome" where
  "draft_route A hs draftId s = as_principal A hs DraftRead ''draft'' (Some draftId) s (\<lambda>p.
     with_draft s draftId (pr_tenantId p) internal no_draft (\<lambda>d.
       (s, Reply 200 (RepDraftEvents d (listAuthoringEvents (ct_authoring s) (dr_draft_id d))))))"

definition default_workflow :: json where
  "default_workflow = JObj
     [(''apiVersion'', JStr ''ladder.dev/v1alpha1''), (''kind'', JStr ''Workflow''),
      (''metadata'', JObj [(''name'', JStr ''new-domain-harness''), (''title'', JStr ''New domain harness''),
         (''description'', JStr ''Author a governed domain workflow.''), (''version'', JStr ''0.1.0'')]),
      (''spec'', JObj
        [(''objective'', JStr ''Produce a governed domain outcome.''),
         (''inputs'', JObj [(''type'', JStr ''object''), (''properties'', JObj [])]), (''outputs'', JObj [(''type'', JStr ''object'')]),
         (''policies'', JObj [(''maxConcurrency'', JInt 2), (''onFailure'', JStr ''stop''), (''requireApprovalFor'', JArr [])]),
         (''nodes'', JArr
           [JObj [(''id'', JStr ''intake''), (''kind'', JStr ''input''), (''name'', JStr ''Domain intake''), (''config'', JObj [(''caseWrites'', JArr [])])],
            JObj [(''id'', JStr ''result''), (''kind'', JStr ''output''), (''name'', JStr ''Domain outcome''), (''config'', JObj [(''caseWrites'', JArr [])])]]),
         (''edges'', JArr [JObj [(''id'', JStr ''e1''), (''from'', JStr ''intake''), (''to'', JStr ''result''), (''kind'', JStr ''data'')]])])]"

definition default_package :: json where
  "default_package = JObj
     [(''apiVersion'', JStr ''harness.factory/domain-package-v1''), (''kind'', JStr ''DomainPackage''),
      (''metadata'', JObj [(''name'', JStr ''new-domain-harness''), (''version'', JStr ''0.1.0''), (''domain'', JStr ''new_domain''),
         (''objective'', JStr ''Produce a governed domain outcome.'')]),
      (''workflow'', JStr ''workflow.yaml''),
      (''budgets'', JObj [(''maxDurationMs'', JInt 120000), (''maxCostUsd'', JNum 25 2), (''maxModelCalls'', JInt 2), (''maxCapabilityCalls'', JInt 4)]),
      (''modelProfiles'', JArr [JStr ''model.standard.v1'']), (''capabilities'', JArr []), (''bindings'', JObj [])]"

definition defaultAuthoringSources :: "control_api \<Rightarrow> string \<times> string" where
  "defaultAuthoringSources A = (ca_yaml_text A 110 default_package, ca_yaml_text A 110 default_workflow)"

definition create_draft_route :: "control_api \<Rightarrow> chance \<Rightarrow> headers \<Rightarrow> json \<Rightarrow> control \<Rightarrow> outcome" where
  "create_draft_route A c hs body s = as_principal A hs DraftWrite ''draft'' None s (\<lambda>p.
     let packageSource = or_else (string_member body ''packageSource'') (fst (defaultAuthoringSources A));
         workflowSource = or_else (string_member body ''workflowSource'') (snd (defaultAuthoringSources A))
     in (case analysed A packageSource workflowSource of
          Inl e \<Rightarrow> (s, Failure 400 e)
        | Inr an \<Rightarrow> finish (Failure 400) (\<lambda>d. Reply 201 (RepDraft d))
            (on_authoring s (createAuthoringDraft (ch_fault c 0) (ch_uuid c) (ch_event c 0) (ch_now c) (ct_authoring s)
               (content_of A packageSource workflowSource an) (pr_subjectId p) (pr_tenantId p)))))"

definition update_draft_route :: "control_api \<Rightarrow> chance \<Rightarrow> headers \<Rightarrow> string \<Rightarrow> json \<Rightarrow> control \<Rightarrow> outcome" where
  \<comment> \<open>a body that is \<open>null\<close> has no members to test\<close>
  "update_draft_route A c hs draftId body s = as_principal A hs DraftWrite ''draft'' (Some draftId) s (\<lambda>p.
     if absent body then (s, Failure 400 ''TypeError'')
     else (case (number_member body ''expectedRevision'', string_member body ''packageSource'', string_member body ''workflowSource'') of
       (Some rev', Some packageSource, Some workflowSource) \<Rightarrow> (case analysed A packageSource workflowSource of
          Inl e \<Rightarrow> (s, conflicting e)
        | Inr an \<Rightarrow> finish conflicting (\<lambda>d. Reply 200 (RepDraft d))
            (update_draft A c 0 s draftId rev' packageSource workflowSource an (pr_subjectId p)))
     | _ \<Rightarrow> (s, Failure 400 ''authoring.update_invalid'')))"

definition attach_mode_of :: "json \<Rightarrow> attach_mode option" where
  "attach_mode_of v = (if v = JStr ''replace'' then Some Replace else if v = JStr ''insert-after'' then Some InsertAfter else None)"

definition documents :: "control_api \<Rightarrow> string \<Rightarrow> string \<Rightarrow> (json \<times> json) result" where
  \<comment> \<open>\<open>parse\<close> of the two sources\<close>
  "documents A packageSource workflowSource = bind_result (au_yaml (ca_authoring A) packageSource) (\<lambda>pkg.
     bind_result (au_yaml (ca_authoring A) workflowSource) (\<lambda>workflow. Inr (pkg, workflow)))"

definition attach_route :: "control_api \<Rightarrow> chance \<Rightarrow> headers \<Rightarrow> string \<Rightarrow> string \<Rightarrow> json \<Rightarrow> control \<Rightarrow> outcome" where
  "attach_route A c hs draftId agentId body s = as_principal A hs DraftWrite ''draft'' (Some draftId) s (\<lambda>p.
     case (number_member body ''expectedRevision'', string_member body ''nodeId'', attach_mode_of (js_member body ''mode'')) of
       (Some rev', Some nodeId, Some mode) \<Rightarrow>
         (case parsed_rows (parse_skill_registration (ca_is_url A)) (listAuthoringSkills (ct_authoring s)) of
            Inl e \<Rightarrow> (s, conflicting e)
          | Inr skills \<Rightarrow> (case getAuthoringAgent (ct_authoring s) agentId of
              None \<Rightarrow> with_draft s draftId (pr_tenantId p) conflicting no_draft (\<lambda>d. (s, Failure 404 ''authoring.agent_not_found''))
            | Some row \<Rightarrow> (case parse_agent_registration (ca_is_url A) (rg_definition row) of
                None \<Rightarrow> (s, conflicting ''ZodError'')
              | Some a \<Rightarrow> with_draft s draftId (pr_tenantId p) conflicting no_draft (\<lambda>d.
                  case bind_result (documents A (dr_package_source d) (dr_workflow_source d)) (\<lambda>(pkg, workflow).
                         applyAgentToAuthoringSources pkg workflow (ag_agent a) skills nodeId mode (string_member body ''newNodeId'')) of
                    Inl e \<Rightarrow> (s, conflicting e)
                  | Inr (pkg', workflow', attached) \<Rightarrow>
                     (let packageSource = ca_yaml_text A 120 (JObj pkg'); workflowSource = ca_yaml_text A 120 (JObj workflow') in
                      case analysed A packageSource workflowSource of
                        Inl e \<Rightarrow> (s, conflicting e)
                      | Inr an \<Rightarrow> finish conflicting (\<lambda>d. Reply 200 (RepAttached d attached))
                          (update_draft A c 0 s (dr_draft_id d) rev' packageSource workflowSource an (pr_subjectId p)))))))
     | _ \<Rightarrow> (s, Failure 400 ''authoring.agent_attachment_invalid''))"

definition case_write_errors :: "string \<Rightarrow> diagnostic list \<Rightarrow> diagnostic list" where
  "case_write_errors nodeId ds = filter (\<lambda>d. dg_severity d = SevError \<and> has_sub (dg_path d) (''nodes.'' @ nodeId @ ''.config.caseWrites'')) ds"

definition case_writes_route :: "control_api \<Rightarrow> chance \<Rightarrow> headers \<Rightarrow> string \<Rightarrow> string \<Rightarrow> json \<Rightarrow> control \<Rightarrow> outcome" where
  "case_writes_route A c hs draftId nodeId body s = as_principal A hs DraftWrite ''draft'' (Some draftId) s (\<lambda>p.
     case (number_member body ''expectedRevision'', js_member body ''caseWrites'') of
       (Some rev', JArr writes) \<Rightarrow> with_draft s draftId (pr_tenantId p) conflicting no_draft (\<lambda>d.
         case bind_result (au_yaml (ca_authoring A) (dr_workflow_source d)) (\<lambda>workflow. updateNodeCaseWrites workflow nodeId writes) of
           Inl e \<Rightarrow> (s, conflicting e)
         | Inr workflow' \<Rightarrow> (let workflowSource = ca_yaml_text A 120 (JObj workflow') in
             case analysed A (dr_package_source d) workflowSource of
               Inl e \<Rightarrow> (s, conflicting e)
             | Inr an \<Rightarrow> (if case_write_errors nodeId (an_diagnostics an) \<noteq> []
                 then (s, Reply 422 (RepDiagnostics ''authoring.case_writes_invalid'' (case_write_errors nodeId (an_diagnostics an))))
                 else finish conflicting (\<lambda>d. Reply 200 (RepDraft d))
                   (update_draft A c 0 s (dr_draft_id d) rev' (dr_package_source d) workflowSource an (pr_subjectId p)))))
     | _ \<Rightarrow> (s, Failure 400 ''authoring.case_writes_update_invalid''))"

definition validate_route :: "control_api \<Rightarrow> headers \<Rightarrow> string \<Rightarrow> control \<Rightarrow> outcome" where
  \<comment> \<open>outside a \<open>try\<close>: what the analysis throws is a fault of the service\<close>
  "validate_route A hs draftId s = as_principal A hs DraftRead ''draft'' (Some draftId) s (\<lambda>p.
     with_draft s draftId (pr_tenantId p) internal no_draft (\<lambda>d.
       case analysed A (dr_package_source d) (dr_workflow_source d) of
         Inl e \<Rightarrow> (s, internal e)
       | Inr an \<Rightarrow> (s, Reply 200 (RepValid (\<not> has_error (an_diagnostics an)) (an_diagnostics an)))))"


section \<open>The lifecycle of a draft\<close>

record registries =
  reg_capabilities :: "capability_registration list"
  reg_agents :: "agent_registration list"
  reg_skills :: "skill_registration list"

definition active_registries :: "control_api \<Rightarrow> authoring \<Rightarrow> registries result" where
  "active_registries A s =
     bind_result (parsed_rows parse_capability_registration (listRegisteredCapabilities s)) (\<lambda>cs.
     bind_result (parsed_rows (parse_agent_registration (ca_is_url A)) (listAuthoringAgents s)) (\<lambda>as.
     bind_result (parsed_rows (parse_skill_registration (ca_is_url A)) (listAuthoringSkills s)) (\<lambda>ks.
       Inr \<lparr>reg_capabilities = filter (\<lambda>c. cg_status c = RegActive) cs, reg_agents = filter (\<lambda>a. ag_status a = RegActive) as,
            reg_skills = filter (\<lambda>k. sk_status k = RegActive) ks\<rparr>)))"

definition materialized_sources :: "control_api \<Rightarrow> registries \<Rightarrow> draft_row \<Rightarrow> (string \<times> string) option result" where
  \<comment> \<open>the new sources, if anything was materialized\<close>
  "materialized_sources A reg d = bind_result (documents A (dr_package_source d) (dr_workflow_source d)) (\<lambda>(pkg, workflow).
     bind_result (materializeRegisteredContracts pkg workflow (map ag_agent (reg_agents reg)) (map sk_skill (reg_skills reg))
         (map cg_capability (reg_capabilities reg))) (\<lambda>(pkg', workflow', materialized).
       Inr (if materialized then Some (ca_yaml_text A 120 (JObj pkg'), ca_yaml_text A 120 (JObj workflow')) else None)))"

definition settled_draft :: "control_api \<Rightarrow> chance \<Rightarrow> registries \<Rightarrow> draft_row \<Rightarrow> string \<Rightarrow> control \<Rightarrow> control \<times> draft_row result" where
  "settled_draft A c reg d actor s = (case materialized_sources A reg d of
     Inl e \<Rightarrow> (s, Inl e)
   | Inr None \<Rightarrow> (s, Inr d)
   | Inr (Some (packageSource, workflowSource)) \<Rightarrow> (case analysed A packageSource workflowSource of
       Inl e \<Rightarrow> (s, Inl e)
     | Inr an \<Rightarrow> update_draft A c 1 s (dr_draft_id d) (JInt (int (dr_revision d))) packageSource workflowSource an actor))"

definition compiled_input :: "string \<Rightarrow> harness_plan \<Rightarrow> diagnostic list \<Rightarrow> lifecycle_input" where
  "compiled_input actor plan ds = \<lparr>lc_expectedStatus = DRAFT, lc_status = COMPILED, lc_actor = actor, lc_compiledPlan = Some plan,
     lc_diagnostics = Some ds, lc_evaluationReport = None, lc_publishedPlanDigest = None\<rparr>"

definition compile_route :: "control_api \<Rightarrow> chance \<Rightarrow> string option \<Rightarrow> headers \<Rightarrow> string \<Rightarrow> control \<Rightarrow> outcome" where
  \<comment> \<open>\<open>resolved\<close> is the compiler an earlier request found; the statements are the reads, 1 the update,
    2 and 3 the change of the lifecycle\<close>
  "compile_route A c resolved hs draftId s = as_principal A hs DraftCompile ''draft'' (Some draftId) s (\<lambda>p.
     with_draft s draftId (pr_tenantId p) (Failure 400) no_draft (\<lambda>d0.
     if dr_status d0 \<noteq> DRAFT then (s, Failure 409 ''authoring.compile_requires_draft'')
     else (let s1 = ch_meanwhile c 0 s in case active_registries A (ct_authoring s1) of
       Inl e \<Rightarrow> (s1, Failure 400 e)
     | Inr reg \<Rightarrow> (case settled_draft A c reg d0 (pr_subjectId p) s1 of
         (s2, Inl e) \<Rightarrow> (s2, Failure 400 e)
       | (s2, Inr d) \<Rightarrow> (case snd (compileAuthoringDraft (ca_authoring A) resolved (dr_package_source d) (dr_workflow_source d) (reg_capabilities reg)) of
           Inl e \<Rightarrow> (s2, Failure 400 e)
         | Inr (None, ds) \<Rightarrow> (s2, Reply 422 (RepDiagnostics ''authoring.compile_failed'' ds))
         | Inr (Some plan, ds) \<Rightarrow> finish (Failure 400) (\<lambda>r. Reply 200 (RepDraft r))
             (lifecycle_change c 2 s2 (dr_draft_id d) (compiled_input (pr_subjectId p) plan ds)))))))"

definition evaluated_input :: "string \<Rightarrow> evaluation_report \<Rightarrow> lifecycle_input" where
  "evaluated_input actor report = \<lparr>lc_expectedStatus = COMPILED, lc_status = EVALUATED, lc_actor = actor, lc_compiledPlan = None,
     lc_diagnostics = None, lc_evaluationReport = Some report, lc_publishedPlanDigest = None\<rparr>"

definition evaluate_route :: "control_api \<Rightarrow> chance \<Rightarrow> string \<Rightarrow> headers \<Rightarrow> string \<Rightarrow> control \<Rightarrow> outcome" where
  "evaluate_route A c evaluatedAt hs draftId s = as_principal A hs DraftEvaluate ''draft'' (Some draftId) s (\<lambda>p.
     let missing = Failure 409 ''authoring.evaluate_requires_compiled'' in
     with_draft s draftId (pr_tenantId p) (Failure 409) missing (\<lambda>d. case dr_compiled_plan d of
       None \<Rightarrow> (s, missing)
     | Some plan \<Rightarrow> (let report = evaluateCompiledPlan evaluatedAt plan in
         if \<not> rep_passed report then (s, Reply 422 (RepReport ''authoring.evaluation_failed'' report))
         else finish (Failure 409) (\<lambda>r. Reply 200 (RepDraft r))
                (lifecycle_change c 0 s (dr_draft_id d) (evaluated_input (pr_subjectId p) report)))))"

definition approved_input :: "string \<Rightarrow> lifecycle_input" where
  "approved_input actor = \<lparr>lc_expectedStatus = EVALUATED, lc_status = DRAFT_APPROVED, lc_actor = actor, lc_compiledPlan = None,
     lc_diagnostics = None, lc_evaluationReport = None, lc_publishedPlanDigest = None\<rparr>"

definition approve_route :: "control_api \<Rightarrow> chance \<Rightarrow> headers \<Rightarrow> string \<Rightarrow> control \<Rightarrow> outcome" where
  "approve_route A c hs draftId s = as_principal A hs DraftApprove ''draft'' (Some draftId) s (\<lambda>p.
     finish separating (\<lambda>r. Reply 200 (RepDraft r)) (lifecycle_change c 0 s draftId (approved_input (pr_subjectId p))))"

definition published_input :: "string \<Rightarrow> string \<Rightarrow> lifecycle_input" where
  "published_input actor digest = \<lparr>lc_expectedStatus = DRAFT_APPROVED, lc_status = PUBLISHED, lc_actor = actor, lc_compiledPlan = None,
     lc_diagnostics = None, lc_evaluationReport = None, lc_publishedPlanDigest = Some digest\<rparr>"

definition publish_route :: "control_api \<Rightarrow> chance \<Rightarrow> headers \<Rightarrow> string \<Rightarrow> control \<Rightarrow> outcome" where
  "publish_route A c hs draftId s = as_principal A hs DraftPublish ''draft'' (Some draftId) s (\<lambda>p.
     let missing = Failure 409 ''authoring.publish_requires_approved'' in
     with_draft s draftId (pr_tenantId p) (Failure 409) missing (\<lambda>d. case dr_compiled_plan d of
       None \<Rightarrow> (s, missing)
     | Some plan \<Rightarrow> if dr_status d \<noteq> DRAFT_APPROVED then (s, missing)
       else (let s1 = ch_meanwhile c 0 s in case admitPlan (au_sha (ca_authoring A)) (ch_now c) (ct_ledger s1) plan (pr_tenantId p) of
         Inl e \<Rightarrow> (s1, Failure 409 e)
       | Inr (ledger, _) \<Rightarrow> finish separating (\<lambda>r. Reply 200 (RepDraft r))
           (lifecycle_change c 1 (s1\<lparr>ct_ledger := ledger\<rparr>) (dr_draft_id d)
             (published_input (pr_subjectId p) (plan_planDigest plan))))))"

section \<open>Requests\<close>

datatype control_request =
    AdmitPlanReq headers "harness_plan option"
  | RegisterAgentReq headers json
  | RegisterSkillReq headers json
  | CreateDraftReq headers json
  | UpdateDraftReq headers string json
  | AttachReq headers string string json
  | CaseWritesReq headers string string json
  | CompileReq "string option" headers string
  | EvaluateReq string headers string
  | ApproveReq headers string
  | PublishReq headers string

fun serve :: "control_api \<Rightarrow> chance \<Rightarrow> control_request \<Rightarrow> control \<Rightarrow> outcome" where
  "serve A c (AdmitPlanReq hs body) s = admit_route A (ch_now c) hs body s"
| "serve A c (RegisterAgentReq hs body) s = register_agent_route A (ch_now c) hs body s"
| "serve A c (RegisterSkillReq hs body) s = register_skill_route A (ch_now c) hs body s"
| "serve A c (CreateDraftReq hs body) s = create_draft_route A c hs body s"
| "serve A c (UpdateDraftReq hs i body) s = update_draft_route A c hs i body s"
| "serve A c (AttachReq hs i agentId body) s = attach_route A c hs i agentId body s"
| "serve A c (CaseWritesReq hs i nodeId body) s = case_writes_route A c hs i nodeId body s"
| "serve A c (CompileReq resolved hs i) s = compile_route A c resolved hs i s"
| "serve A c (EvaluateReq evaluatedAt hs i) s = evaluate_route A c evaluatedAt hs i s"
| "serve A c (ApproveReq hs i) s = approve_route A c hs i s"
| "serve A c (PublishReq hs i) s = publish_route A c hs i s"

end
