(* ===== verification/GraphClaims.thy ===== *)
theory GraphClaims
  imports AuthoringAgents
begin

text \<open>
  What the analysis of a draft says about its graph: when it reports a cycle, what a clean analysis
  is worth, and that attaching an agent after a node keeps a graph executable.
\<close>

section \<open>Diagnostics other than the cycle\<close>

definition quiet :: "diagnostic list \<Rightarrow> bool" where
  "quiet ds \<longleftrightarrow> (\<forall>d \<in> set ds. dg_code d \<noteq> ''author.graph_cycle'')"

lemma quiet_append [simp]: "quiet (a @ b) \<longleftrightarrow> quiet a \<and> quiet b"
  by (auto simp: quiet_def)

lemma quiet_Nil [simp]: "quiet []"
  by (simp add: quiet_def)

lemma quiet_Cons [simp]: "quiet (d # ds) \<longleftrightarrow> dg_code d \<noteq> ''author.graph_cycle'' \<and> quiet ds"
  by (simp add: quiet_def)

lemma quiet_concat [simp]: "quiet (concat dss) \<longleftrightarrow> (\<forall>ds \<in> set dss. quiet ds)"
  by (auto simp: quiet_def)

lemma code_err [simp]: "dg_code (err c p m) = c" "dg_severity (err c p m) = SevError"
  by (simp_all add: err_def)

lemma quiet_when_not: "c \<noteq> ''author.graph_cycle'' \<Longrightarrow> quiet (when_not ok (err c p m))"
  by (simp add: when_not_def)

lemma quiet_case_write: "quiet (case_write_diagnostics at entry)"
  by (cases entry) (simp_all add: case_write_diagnostics_def quiet_when_not)

lemma quiet_case_writes: "quiet (validateCaseWrites node)"
  by (auto simp: validateCaseWrites_def Let_def quiet_case_write split: json.splits)

lemma quiet_primitive: "quiet (validatePrimitiveConfig i node)"
  by (simp add: validatePrimitiveConfig_def Let_def quiet_when_not)

lemma quiet_nodes: "quiet (node_diagnostics seen i nodes)"
  by (induction seen i nodes rule: node_diagnostics.induct)
    (simp_all add: quiet_when_not quiet_case_writes quiet_primitive)

lemma quiet_edge: "quiet (edge_diagnostics ids p)"
  by (cases p) (simp add: edge_diagnostics_def Let_def quiet_when_not)

lemma quiet_targets: "quiet (target_diagnostics nodes)"
  by (auto simp: target_diagnostics_def quiet_when_not)

lemma quiet_contract: "quiet (contract_diagnostics pkg workflow)"
  by (simp add: contract_diagnostics_def Let_def quiet_when_not)

lemma quiet_skills: "quiet (fst (skill_diagnostics issue ks i vs))"
  by (induction issue ks i vs rule: skill_diagnostics.induct) (simp_all split: option.splits)

lemma quiet_agents: "quiet (fst (agent_diagnostics issue ks as i vs))"
  by (induction issue ks as i vs rule: agent_diagnostics.induct) (simp_all add: quiet_when_not split: option.splits)

lemma quiet_references: "quiet (reference_diagnostics ks as nodes)"
  by (auto simp: reference_diagnostics_def quiet_when_not split: json.splits)

lemma quiet_bindings: "quiet (binding_diagnostics ids cs bs)"
  by (auto simp: binding_diagnostics_def when_not_def)

lemma quiet_package: "quiet (package_diagnostics issue pkg nodes)"
proof -
  obtain d1 ks where s: "skill_diagnostics issue [] 0 (array_of (js_member pkg ''skills'')) = (d1, ks)" by fastforce
  obtain d2 as where a: "agent_diagnostics issue ks [] 0 (array_of (js_member pkg ''agents'')) = (d2, as)" by fastforce
  have "quiet d1" using quiet_skills [of issue "[]" 0] s by (metis fst_conv)
  moreover have "quiet d2" using quiet_agents [of issue ks "[]" 0] a by (metis fst_conv)
  moreover have "quiet (capability_diagnostics issue cs)" for cs
    by (auto simp: capability_diagnostics_def quiet_when_not)
  ultimately show ?thesis
    by (simp add: package_diagnostics_def s a Let_def quiet_references quiet_bindings)
qed


section \<open>What the analysis reports of the graph\<close>

lemma analysis_Inr:
  assumes "analyzeAuthoringSources yaml issue p w = Inr an"
  obtains pkg workflow where "yaml p = Inr pkg" and "yaml w = Inr workflow"
    and "an_diagnostics an = contract_diagnostics pkg workflow
      @ workflow_diagnostics (spec_list workflow ''nodes'') (spec_list workflow ''edges'')
      @ package_diagnostics issue pkg (spec_list workflow ''nodes'')"
  using assms by (auto simp: analyzeAuthoringSources_def Let_def guard_result_def split: sum.splits if_splits)

lemma named_nodes:
  assumes "\<forall>d \<in> set (node_diagnostics seen i nodes). dg_code d \<noteq> ''author.node_id_invalid''"
  shows "distinct (node_ids nodes) \<and> (\<forall>k \<in> set (node_ids nodes). truthy k) \<and> set (node_ids nodes) \<inter> set seen = {}"
  using assms
proof (induction nodes arbitrary: seen i)
  case (Cons node nodes)
  have "\<forall>d \<in> set (node_diagnostics (js_member node ''id'' # seen) (Suc i) nodes). dg_code d \<noteq> ''author.node_id_invalid''"
    using Cons.prems by simp
  moreover have "truthy (js_member node ''id'') \<and> js_member node ''id'' \<notin> set seen"
    using Cons.prems by (auto simp: when_not_def split: if_splits)
  ultimately show ?case using Cons.IH [of "js_member node ''id'' # seen" "Suc i"] by (auto simp: node_ids_def)
qed (simp add: node_ids_def)

lemma cycle_diagnostic:
  assumes "analyzeAuthoringSources yaml issue p w = Inr an" and "yaml w = Inr workflow"
  defines "nodes \<equiv> spec_list workflow ''nodes''" and "es \<equiv> spec_list workflow ''edges''"
  shows "(\<exists>d \<in> set (an_diagnostics an). dg_code d = ''author.graph_cycle'') \<longleftrightarrow>
    nodes \<noteq> [] \<and> length (topologicalOrder truthy (node_ids nodes) (edge_pairs es)) \<noteq> length nodes"
proof -
  obtain pkg where d: "an_diagnostics an = contract_diagnostics pkg workflow @ workflow_diagnostics nodes es
      @ package_diagnostics issue pkg nodes"
    using assms by (auto elim: analysis_Inr)
  have "(\<exists>d \<in> set (an_diagnostics an). dg_code d = ''author.graph_cycle'') \<longleftrightarrow>
      (\<exists>d \<in> set (graph_diagnostics nodes es). dg_code d = ''author.graph_cycle'')"
    using quiet_contract [of pkg workflow] quiet_package [of issue pkg nodes] quiet_nodes [of "[]" 0 nodes]
      quiet_edge [of "node_ids nodes"] quiet_targets [of nodes]
    unfolding d workflow_diagnostics_def quiet_def by auto
  also have "\<dots> \<longleftrightarrow> nodes \<noteq> [] \<and> length (topologicalOrder truthy (node_ids nodes) (edge_pairs es)) \<noteq> length nodes"
    by (auto simp: graph_diagnostics_def when_not_def)
  finally show ?thesis .
qed

lemma valid_ids:
  assumes "analyzeAuthoringSources yaml issue p w = Inr an" and "yaml w = Inr workflow"
    and "\<forall>d \<in> set (an_diagnostics an). dg_code d \<noteq> ''author.node_id_invalid''"
  shows "distinct (node_ids (spec_list workflow ''nodes''))" and "\<forall>k \<in> set (node_ids (spec_list workflow ''nodes'')). truthy k"
  using assms named_nodes [of "[]" 0 "spec_list workflow ''nodes''"]
  by (auto simp: workflow_diagnostics_def elim: analysis_Inr)

text \<open>C28. The analysis of a draft whose node identifiers are valid reports a cycle exactly when the graph
  of its nodes and of the edges between them has one, although the order is found by counting.\<close>

theorem cycle_reported_iff_cyclic:
  assumes "analyzeAuthoringSources yaml issue p w = Inr an" and "yaml w = Inr workflow"
    and "\<forall>d \<in> set (an_diagnostics an). dg_code d \<noteq> ''author.node_id_invalid''"
  shows "(\<exists>d \<in> set (an_diagnostics an). dg_code d = ''author.graph_cycle'') \<longleftrightarrow>
    \<not> acyclic (graph_of (node_ids (spec_list workflow ''nodes'')) (edge_pairs (spec_list workflow ''edges'')))"
proof -
  let ?nodes = "spec_list workflow ''nodes''" and ?es = "spec_list workflow ''edges''"
  have "length (node_ids ?nodes) = length ?nodes" by (simp add: node_ids_def)
  then have "length (topologicalOrder truthy (node_ids ?nodes) (edge_pairs ?es)) = length ?nodes \<longleftrightarrow>
      acyclic (graph_of (node_ids ?nodes) (edge_pairs ?es))"
    using order_complete_iff [OF valid_ids [OF assms]] by metis
  moreover have "acyclic (graph_of [] (edge_pairs ?es))" by (simp add: graph_of_def acyclic_def)
  ultimately show ?thesis
    using cycle_diagnostic [OF assms(1,2)] by (cases "?nodes = []") (auto simp: node_ids_def)
qed

lemma clean_append: "has_error (a @ b) \<longleftrightarrow> has_error a \<or> has_error b"
  by (simp add: has_error_def)

lemma clean_when_not: "has_error (when_not ok (err c p m)) \<longleftrightarrow> \<not> ok"
  by (simp add: has_error_def when_not_def)

lemma clean_edges:
  assumes "\<not> has_error (concat (map (edge_diagnostics ids) (enumerate n es)))" and "e \<in> set es"
  shows "js_member e ''from'' \<in> set ids \<and> js_member e ''to'' \<in> set ids"
proof -
  obtain j where "j < length es" "es ! j = e" using assms(2) by (auto simp: in_set_conv_nth)
  then obtain i where "(i, e) \<in> set (enumerate n es)" by (auto simp: in_set_enumerate_eq intro: that [of "n + j"])
  then have "\<not> has_error (edge_diagnostics ids (i, e))" using assms(1) by (auto simp: has_error_def list_ex_iff)
  then show ?thesis by (simp add: edge_diagnostics_def Let_def clean_append clean_when_not)
qed


lemma order_of_ids:
  assumes "distinct ids" and "\<forall>k \<in> set ids. named k" and "length (topologicalOrder named ids es) = length ids"
  shows "distinct (topologicalOrder named ids es)" and "set (topologicalOrder named ids es) = set ids"
proof -
  obtain incoming where inv: "loop_inv ids (live_edges ids es) incoming [] (topologicalOrder named ids es)"
    using topological_inv [OF assms(1,2)] by blast
  then show "distinct (topologicalOrder named ids es)" by (simp add: loop_inv_def)
  moreover have "set (topologicalOrder named ids es) \<subseteq> set ids" using inv by (auto simp: loop_inv_def)
  ultimately show "set (topologicalOrder named ids es) = set ids"
    using assms(1,3) by (metis card_subset_eq distinct_card finite_set)
qed

lemma clean_nodes:
  assumes "\<not> has_error (node_diagnostics seen i nodes)"
  shows "distinct (node_ids nodes) \<and> (\<forall>k \<in> set (node_ids nodes). truthy k) \<and> set (node_ids nodes) \<inter> set seen = {}"
  using assms
proof (induction nodes arbitrary: seen i)
  case (Cons node nodes)
  then show ?case using Cons.IH [of "js_member node ''id'' # seen" "Suc i"]
    by (auto simp: node_ids_def clean_append clean_when_not)
qed (simp add: node_ids_def)

text \<open>C29. A draft whose analysis has no error is executable: its identifiers are distinct and not empty,
  every edge joins two of its nodes, it has an input and an output, and the order the analysis finds
  lists every node once, each after the sources of all its edges.\<close>

theorem clean_analysis_is_executable:
  assumes "analyzeAuthoringSources yaml issue p w = Inr an" and "yaml w = Inr workflow" and "\<not> has_error (an_diagnostics an)"
  defines "nodes \<equiv> spec_list workflow ''nodes''" and "es \<equiv> spec_list workflow ''edges''"
  defines "order \<equiv> topologicalOrder truthy (node_ids nodes) (edge_pairs es)"
  shows "distinct (node_ids nodes) \<and> distinct order \<and> set order = set (node_ids nodes)
    \<and> (\<forall>e \<in> set es. js_member e ''from'' \<in> set order \<and> js_member e ''to'' \<in> set order)
    \<and> (\<forall>e \<in> set es. \<forall>i < length order. js_member e ''to'' = order ! i \<longrightarrow> js_member e ''from'' \<in> set (take i order))
    \<and> (\<exists>n \<in> set nodes. js_member n ''kind'' = JStr ''input'') \<and> (\<exists>n \<in> set nodes. js_member n ''kind'' = JStr ''output'')"
proof -
  let ?ids = "node_ids nodes"
  have clean: "\<not> has_error (node_diagnostics [] 0 nodes)" "\<not> has_error (concat (map (edge_diagnostics ?ids) (enumerate 0 es)))"
      "\<not> has_error (graph_diagnostics nodes es)"
    using assms(1-3) by (auto simp: clean_append workflow_diagnostics_def nodes_def es_def elim: analysis_Inr)
  have ids: "distinct ?ids" "\<forall>k \<in> set ?ids. truthy k" using clean_nodes [OF clean(1)] by blast+
  have g: "length order = length ?ids" "\<exists>n \<in> set nodes. js_member n ''kind'' = JStr ''input''"
      "\<exists>n \<in> set nodes. js_member n ''kind'' = JStr ''output''"
    using clean(3) by (auto simp: graph_diagnostics_def clean_append clean_when_not order_def node_ids_def)
  have order: "distinct order" "set order = set ?ids" using order_of_ids [OF ids] g(1) by (simp_all add: order_def)
  have ends: "js_member e ''from'' \<in> set ?ids \<and> js_member e ''to'' \<in> set ?ids" if "e \<in> set es" for e
    using clean_edges [OF clean(2) that] .
  have "js_member e ''from'' \<in> set (take i order)" if "e \<in> set es" "i < length order" "js_member e ''to'' = order ! i" for e i
    using ends [OF that(1)] that unfolding order_def
    by (intro order_respects_edges [OF ids]) (auto simp: graph_of_def edge_pairs_def)
  then show ?thesis using ids order ends g by simp
qed


section \<open>Attaching an agent after a node\<close>

lemma acyclic_insert_after:
  assumes "acyclic E" and "finite E" and new: "new \<notin> Field E" "new \<noteq> n"
    and sub: "E' \<subseteq> {(new, b) |b. (n, b) \<in> E} \<union> E \<union> {(n, new)}"
  shows "acyclic E'"
proof -
  let ?g = "\<lambda>x. (if x = new then n else x, if x = new then 1 else 0 :: nat)"
  have "wf (inv_image (E <*lex*> less_than) ?g)"
    using assms(1,2) by (intro wf_inv_image wf_lex_prod wf_less_than finite_acyclic_wf)
  moreover have old: "a \<noteq> new \<and> b \<noteq> new" if "(a, b) \<in> E" for a b using that new(1) by (auto simp: Field_def)
  have "E' \<subseteq> inv_image (E <*lex*> less_than) ?g"
  proof (rule subrelI)
    fix x y assume "(x, y) \<in> E'"
    then consider "x = new" "(n, y) \<in> E" | "(x, y) \<in> E" | "x = n" "y = new" using sub by blast
    then show "(x, y) \<in> inv_image (E <*lex*> less_than) ?g" using old new(2) by cases (auto simp: inv_image_def)
  qed
  ultimately show ?thesis using wf_subset wf_acyclic by blast
qed

lemma js_member_put: "js_member (put_member v k x) k' = (if k' = k then x else obj_get (members_of v) k')"
  by (simp add: put_member_def js_member_def obj_get_def map_of_obj_put)

lemma obj_get_members: "js_member v k = JStr s \<Longrightarrow> k \<noteq> ''length'' \<Longrightarrow> \<not> is_array_index k \<Longrightarrow> obj_get (members_of v) = js_member v"
  by (cases v) (auto simp: js_member_def members_of_def fun_eq_iff)

lemma js_member_redirect:
  "js_member (redirect n new e) ''from'' = (if js_member e ''from'' = JStr n then JStr new else js_member e ''from'')"
  "js_member (redirect n new e) ''to'' = js_member e ''to''"
proof -
  have "\<not> is_array_index ''from''" by code_simp
  then show "js_member (redirect n new e) ''from'' = (if js_member e ''from'' = JStr n then JStr new else js_member e ''from'')"
      "js_member (redirect n new e) ''to'' = js_member e ''to''"
    by (simp_all add: redirect_def js_member_put obj_get_members)
qed

lemma link_members: "js_member (link_edge n new) ''from'' = JStr n" "js_member (link_edge n new) ''to'' = JStr new"
  by (simp_all add: link_edge_def js_member_def obj_get_def)

lemma agent_node_id: "js_member (agent_node InsertAfter selected new a) ''id'' = JStr new"
  unfolding agent_node_def Let_def js_member_def obj_get_def json.case
  by (subst map_of_obj_spread) (simp_all add: map_add_def)

lemma inserted_ids:
  "set (node_ids (insert_after nodes i (agent_node InsertAfter selected new a))) = insert (JStr new) (set (node_ids nodes))"
proof -
  have "set nodes = set (take (Suc i) nodes) \<union> set (drop (Suc i) nodes)" by (metis append_take_drop_id set_append)
  then show ?thesis by (auto simp: node_ids_def insert_after_def agent_node_id)
qed

lemma attached_edges:
  assumes ends: "\<forall>e \<in> set es. js_member e ''from'' \<in> set ids \<and> js_member e ''to'' \<in> set ids"
  shows "graph_of ids' (edge_pairs (map (redirect n new) es @ [link_edge n new]))
    \<subseteq> {(JStr new, b) |b. (JStr n, b) \<in> graph_of ids (edge_pairs es)} \<union> graph_of ids (edge_pairs es) \<union> {(JStr n, JStr new)}"
proof (rule subrelI)
  have live: "(js_member e ''from'', js_member e ''to'') \<in> graph_of ids (edge_pairs es)" if "e \<in> set es" for e
    using that ends by (auto simp: graph_of_def edge_pairs_def)
  fix x y assume "(x, y) \<in> graph_of ids' (edge_pairs (map (redirect n new) es @ [link_edge n new]))"
  then consider "x = JStr n" "y = JStr new"
    | e where "e \<in> set es" "x = js_member (redirect n new e) ''from''" "y = js_member e ''to''"
    by (auto simp: graph_of_def edge_pairs_def link_members js_member_redirect(2))
  then show "(x, y) \<in> {(JStr new, b) |b. (JStr n, b) \<in> graph_of ids (edge_pairs es)} \<union> graph_of ids (edge_pairs es) \<union> {(JStr n, JStr new)}"
  proof cases
    case (2 e)
    show ?thesis
    proof (cases "js_member e ''from'' = JStr n")
      case True
      then have "x = JStr new" "(JStr n, y) \<in> graph_of ids (edge_pairs es)" using 2 live [of e] by (simp_all add: js_member_redirect)
      then show ?thesis by blast
    next
      case False
      then show ?thesis using 2 live [of e] by (simp add: js_member_redirect)
    qed
  qed simp
qed

lemma index_of_id_Some:
  "index_of_id vs i = Inr (Some n) \<Longrightarrow> n < length vs \<and> js_member (vs ! n) ''id'' = JStr i"
proof (induction vs i arbitrary: n rule: index_of_id.induct)
  case (2 v vs i)
  then show ?case by (cases n) (auto simp: bind_result_Inr_iff split: if_splits)
qed simp

lemma index_of_id_None: "index_of_id vs i = Inr None \<Longrightarrow> JStr i \<notin> set (node_ids vs)"
  by (induction vs i rule: index_of_id.induct) (auto simp: bind_result_Inr_iff node_ids_def split: if_splits)

lemma spec_list_put:
  assumes "plain_object (obj_get w ''spec'')"
  shows "spec_list (JObj (put_spec w k vs)) k' =
    (if k' = k \<and> is_arr (js_member (obj_get w ''spec'') k) then vs else spec_list (JObj w) k')"
    and "plain_object (obj_get (put_spec w k vs) ''spec'')"
proof -
  obtain spec where spec: "obj_get w ''spec'' = JObj spec"
    using assms by (cases "obj_get w ''spec''") (simp_all add: plain_object_def)
  then show "spec_list (JObj (put_spec w k vs)) k' =
      (if k' = k \<and> is_arr (js_member (obj_get w ''spec'') k) then vs else spec_list (JObj w) k')"
    by (cases "obj_get spec k")
      (simp_all add: put_spec_def Let_def js_member_def spec_list_def array_of_def put_member_def members_of_def obj_get_def map_of_obj_put)
  show "plain_object (obj_get (put_spec w k vs) ''spec'')"
    using spec by (cases "obj_get spec k")
      (simp_all add: put_spec_def Let_def js_member_def put_member_def members_of_def obj_get_def map_of_obj_put plain_object_def)
qed

lemma spec_list_none: "\<not> is_arr (js_member (js_member v ''spec'') k) \<Longrightarrow> spec_list v k = []"
  by (cases "js_member (js_member v ''spec'') k") (simp_all add: spec_list_def array_of_def)

lemma apply_insert_Inr:
  assumes "applyAgentToAuthoringSources pkg0 (JObj w) a skills n InsertAfter newId = Inr (pkg', w', new)"
  obtains i selected where "plain_object (obj_get w ''spec'')" and "i < length (spec_list (JObj w) ''nodes'')"
    and "js_member (spec_list (JObj w) ''nodes'' ! i) ''id'' = JStr n" and "JStr new \<notin> set (node_ids (spec_list (JObj w) ''nodes''))"
    and "w' = put_spec (put_spec w ''nodes'' (insert_after (spec_list (JObj w) ''nodes'') i (agent_node InsertAfter selected new a)))
      ''edges'' (map (redirect n new) (spec_list (JObj w) ''edges'') @ [link_edge n new])"
proof -
  let ?nodes = "spec_list (JObj w) ''nodes''" and ?es = "spec_list (JObj w) ''edges''"
  obtain pkg where p: "authored pkg0 (JObj w) = Inr (pkg, w)" and spec: "plain_object (obj_get w ''spec'')"
    using assms by (auto simp: applyAgentToAuthoringSources_def authored_def bind_result_Inr_iff split: json.splits)
  obtain i where i: "index_of_id ?nodes n = Inr (Some i)"
    using assms by (auto simp: applyAgentToAuthoringSources_def p bind_result_Inr_iff Let_def split: option.splits)
  let ?new = "attached_id InsertAfter n newId (agent_name a)"
  have "new = ?new \<and> index_of_id ?nodes ?new = Inr None \<and>
      w' = put_spec (put_spec w ''nodes'' (insert_after ?nodes i (agent_node InsertAfter (?nodes ! i) ?new a)))
        ''edges'' (map (redirect n ?new) ?es @ [link_edge n ?new])"
    using assms by (auto simp: applyAgentToAuthoringSources_def p i bind_result_Inr_iff Let_def attach_to_graph_def split: if_splits)
  then show ?thesis
    using that [of i "?nodes ! i"] spec index_of_id_Some [OF i] index_of_id_None by blast
qed

text \<open>Attaching a registered agent after a node of an executable draft gives an executable draft: if
  every edge joined two nodes and there was no cycle, this holds of the new graph, whose nodes are the
  old ones and the new one.\<close>

theorem insert_after_keeps_graph_acyclic:
  assumes "applyAgentToAuthoringSources pkg (JObj w) a skills n InsertAfter newId = Inr (pkg', w', new)"
    and "\<forall>e \<in> set (spec_list (JObj w) ''edges''). js_member e ''from'' \<in> set (node_ids (spec_list (JObj w) ''nodes''))
      \<and> js_member e ''to'' \<in> set (node_ids (spec_list (JObj w) ''nodes''))"
    and "acyclic (graph_of (node_ids (spec_list (JObj w) ''nodes'')) (edge_pairs (spec_list (JObj w) ''edges'')))"
  shows "acyclic (graph_of (node_ids (spec_list (JObj w') ''nodes'')) (edge_pairs (spec_list (JObj w') ''edges'')))
    \<and> set (node_ids (spec_list (JObj w') ''nodes'')) = insert (JStr new) (set (node_ids (spec_list (JObj w) ''nodes'')))"
proof -
  let ?nodes = "spec_list (JObj w) ''nodes''" and ?es = "spec_list (JObj w) ''edges''"
  obtain i selected where spec: "plain_object (obj_get w ''spec'')" and i: "i < length ?nodes" "js_member (?nodes ! i) ''id'' = JStr n"
    and fresh: "JStr new \<notin> set (node_ids ?nodes)"
    and w': "w' = put_spec (put_spec w ''nodes'' (insert_after ?nodes i (agent_node InsertAfter selected new a)))
      ''edges'' (map (redirect n new) ?es @ [link_edge n new])"
    using assms(1) by (rule apply_insert_Inr)
  have arr: "is_arr (js_member (obj_get w ''spec'') ''nodes'')"
    using i(1) by (cases "js_member (obj_get w ''spec'') ''nodes''") (simp_all add: spec_list_def array_of_def js_member_def)
  have nodes': "spec_list (JObj w') ''nodes'' = insert_after ?nodes i (agent_node InsertAfter selected new a)"
    using arr by (simp add: w' spec_list_put spec)
  have es': "spec_list (JObj w') ''edges'' = [] \<or> spec_list (JObj w') ''edges'' = map (redirect n new) ?es @ [link_edge n new]"
    using spec_list_none [of "JObj (put_spec w ''nodes'' (insert_after ?nodes i (agent_node InsertAfter selected new a)))" "''edges''"]
    by (simp add: w' spec_list_put(1) [OF spec_list_put(2) [OF spec]] js_member_def [of "JObj _"])
  let ?E = "graph_of (node_ids ?nodes) (edge_pairs ?es)"
  have "JStr n \<in> set (node_ids ?nodes)" unfolding node_ids_def using i by (metis length_map nth_map nth_mem)
  then have "JStr new \<noteq> JStr n" using fresh by metis
  moreover have "JStr new \<notin> Field ?E" using fresh by (auto simp: Field_def graph_of_def)
  moreover have "finite ?E" by (metis set_live_edges finite_set)
  ultimately have "acyclic (graph_of ids (edge_pairs (map (redirect n new) ?es @ [link_edge n new])))" for ids
    using acyclic_insert_after [OF assms(3) _ _ _ attached_edges [OF assms(2)]] by blast
  moreover have "acyclic (graph_of ids (edge_pairs []))" for ids by (simp add: graph_of_def edge_pairs_def acyclic_def)
  ultimately show ?thesis using es' inserted_ids nodes' by metis
qed

section \<open>Examples\<close>

definition sample_node :: "string \<Rightarrow> string \<Rightarrow> json" where
  "sample_node i kind' = JObj [(''id'', JStr i), (''kind'', JStr kind')]"

definition sample_edge :: "string \<Rightarrow> string \<Rightarrow> json" where
  "sample_edge a b = JObj [(''id'', JStr (a @ b)), (''from'', JStr a), (''to'', JStr b)]"

definition sample_workflow :: "json list \<Rightarrow> entries" where
  "sample_workflow es = [(''apiVersion'', JStr ''ladder.dev/v1alpha1''), (''kind'', JStr ''Workflow''), (''spec'', JObj
     [(''nodes'', JArr [sample_node ''in'' ''input'', sample_node ''work'' ''transform'', sample_node ''out'' ''output'']),
      (''edges'', JArr es)])]"

definition sample_package :: json where
  "sample_package = JObj [(''apiVersion'', JStr ''harness.factory/domain-package-v1''), (''kind'', JStr ''DomainPackage''),
     (''metadata'', JObj [(''name'', JStr ''n''), (''version'', JStr ''1''), (''domain'', JStr ''d''), (''objective'', JStr ''o'')])]"

definition sample_yaml :: "string \<Rightarrow> string + json" where
  \<comment> \<open>the package, a workflow, and one with a cycle\<close>
  "sample_yaml t = (if t = ''p'' then Inr sample_package
     else if t = ''w'' then Inr (JObj (sample_workflow [sample_edge ''in'' ''work'', sample_edge ''work'' ''out'']))
     else if t = ''c'' then Inr (JObj (sample_workflow [sample_edge ''in'' ''work'', sample_edge ''work'' ''in'', sample_edge ''work'' ''out'']))
     else Inl ''no document'')"

definition sample_issue :: issue_text where
  "sample_issue schema v = ''Invalid input''"

definition sample_analysis :: "string \<Rightarrow> analysis" where
  "sample_analysis w = projr (analyzeAuthoringSources sample_yaml sample_issue ''p'' w)"

lemma sample_documents:
  "sample_yaml ''w'' = Inr (JObj (sample_workflow [sample_edge ''in'' ''work'', sample_edge ''work'' ''out'']))"
  "sample_yaml ''c'' = Inr (JObj (sample_workflow [sample_edge ''in'' ''work'', sample_edge ''work'' ''in'', sample_edge ''work'' ''out'']))"
  by (simp_all add: sample_yaml_def)

lemma sample_analyses:
  "analyzeAuthoringSources sample_yaml sample_issue ''p'' ''w'' = Inr (sample_analysis ''w'')"
  "analyzeAuthoringSources sample_yaml sample_issue ''p'' ''c'' = Inr (sample_analysis ''c'')"
  by code_simp+

theorem cycle_reported_iff_cyclic_witness:
  "\<not> acyclic (graph_of (node_ids (spec_list (projr (sample_yaml ''c'')) ''nodes'')) (edge_pairs (spec_list (projr (sample_yaml ''c'')) ''edges'')))
   \<and> map dg_code (an_diagnostics (sample_analysis ''c'')) = [''author.graph_cycle'']"
proof -
  have "\<forall>d \<in> set (an_diagnostics (sample_analysis ''c'')). dg_code d \<noteq> ''author.node_id_invalid''"
    and "\<exists>d \<in> set (an_diagnostics (sample_analysis ''c'')). dg_code d = ''author.graph_cycle''"
    and codes: "map dg_code (an_diagnostics (sample_analysis ''c'')) = [''author.graph_cycle'']"
    by code_simp+
  then show ?thesis
    using cycle_reported_iff_cyclic [OF sample_analyses(2) sample_documents(2)] codes unfolding sample_documents by simp
qed

theorem clean_analysis_is_executable_witness:
  "set (topologicalOrder truthy (node_ids (spec_list (projr (sample_yaml ''w'')) ''nodes'')) (edge_pairs (spec_list (projr (sample_yaml ''w'')) ''edges'')))
     = {JStr ''in'', JStr ''work'', JStr ''out''}"
proof -
  have "\<not> has_error (an_diagnostics (sample_analysis ''w''))" by code_simp
  note c = clean_analysis_is_executable [OF sample_analyses(1) sample_documents(1) this]
  have "set (node_ids (spec_list (projr (sample_yaml ''w'')) ''nodes'')) = {JStr ''in'', JStr ''work'', JStr ''out''}"
    by (simp add: sample_documents sample_workflow_def sample_node_def spec_list_def node_ids_def array_of_def js_member_def obj_get_def)
  then show ?thesis using c unfolding sample_documents by simp
qed

definition sample_agent :: compiled_agent where
  "sample_agent = \<lparr>agent_id = ''checker'', agent_name = ''Checker'', agent_description = ''d'', agent_role = ''r'', agent_prompt = ''p'',
     agent_modelProfileId = ''m'', agent_runtimeTarget = LocalHttp, agent_skillIds = [], agent_caseWrites = [],
     agent_primaryCapabilityId = Some ''cap'', agent_inputSchema = [], agent_outputSchema = [], agent_version = ''1''\<rparr>"

definition sample_attached :: "entries \<times> entries \<times> string" where
  "sample_attached = projr (applyAgentToAuthoringSources sample_package (projr (sample_yaml ''w'')) sample_agent [] ''work'' InsertAfter (Some ''Check it!''))"

theorem insert_after_keeps_graph_acyclic_witness:
  "set (node_ids (spec_list (JObj (fst (snd sample_attached))) ''nodes'')) = {JStr ''check-it'', JStr ''in'', JStr ''work'', JStr ''out''}
   \<and> acyclic (graph_of (node_ids (spec_list (JObj (fst (snd sample_attached))) ''nodes'')) (edge_pairs (spec_list (JObj (fst (snd sample_attached))) ''edges'')))"
proof -
  let ?w = "sample_workflow [sample_edge ''in'' ''work'', sample_edge ''work'' ''out'']"
  have a: "applyAgentToAuthoringSources sample_package (JObj ?w) sample_agent [] ''work'' InsertAfter (Some ''Check it!'')
      = Inr (fst sample_attached, fst (snd sample_attached), ''check-it'')"
    unfolding sample_attached_def by code_simp
  have ends: "\<forall>e \<in> set (spec_list (JObj ?w) ''edges''). js_member e ''from'' \<in> set (node_ids (spec_list (JObj ?w) ''nodes''))
      \<and> js_member e ''to'' \<in> set (node_ids (spec_list (JObj ?w) ''nodes''))"
    by code_simp
  have "length (topologicalOrder (\<lambda>_. True) (node_ids (spec_list (JObj ?w) ''nodes'')) (edge_pairs (spec_list (JObj ?w) ''edges'')))
      = length (node_ids (spec_list (JObj ?w) ''nodes''))" "distinct (node_ids (spec_list (JObj ?w) ''nodes''))"
    by code_simp+
  then have "acyclic (graph_of (node_ids (spec_list (JObj ?w) ''nodes'')) (edge_pairs (spec_list (JObj ?w) ''edges'')))"
    using order_complete_iff [of "node_ids (spec_list (JObj ?w) ''nodes'')" "\<lambda>_. True"] by simp
  note new = insert_after_keeps_graph_acyclic [OF a ends this]
  have "set (node_ids (spec_list (JObj ?w) ''nodes'')) = {JStr ''in'', JStr ''work'', JStr ''out''}"
    by (simp add: sample_workflow_def sample_node_def spec_list_def node_ids_def array_of_def js_member_def obj_get_def)
  then show ?thesis using new by simp
qed

end
