(* ===== verification/DraftClaims.thy ===== *)
theory DraftClaims
  imports ControlAuthoring GraphClaims AuthoringClaims
begin

text \<open>
  What the routes of the control API make of a draft: registered capabilities are embedded before a
  draft is compiled, every plan a draft holds is one the pinned compiler emitted and whose digest
  verifies, a compiled draft holds the plan of its own sources when no other request intervenes, and
  what happens when one does.
\<close>

section \<open>Embedding the bound capabilities\<close>

lemma registry_get_Some: "registry_get f xs i = Some x \<Longrightarrow> f x = i"
  by (auto simp: registry_get_def find_Some_iff)

lemma obj_get_put: "obj_get (obj_put es k v) k' = (if k' = k then v else obj_get es k')"
  by (simp add: obj_get_def map_of_obj_put)

lemma capability_json_id: "js_member (capability_json c) ''id'' = JStr (cap_id c)"
  by (simp add: capability_json_def js_member_def obj_get_def)

lemma in_map_filter: "y \<in> set (List.map_filter f xs) \<longleftrightarrow> (\<exists>x \<in> set xs. f x = Some y)"
  by (induction xs) (auto simp: map_filter_simps split: option.splits)

lemma text_Some: "(case v of JStr s \<Rightarrow> Some s | _ \<Rightarrow> None) = Some c \<longleftrightarrow> v = JStr c"
  by (cases v) auto

lemma embedded_or_missing:
  assumes "embed_capabilities registry pkg = Inr (changed, pkg')"
    and "(k, JStr c) \<in> set (members_of (obj_get pkg' ''bindings''))" and "registry_get cap_id registry c = Some cap"
  shows "\<exists>v \<in> set (array_of (obj_get pkg' ''capabilities'')). js_member v ''id'' = JStr c
    \<and> (v = capability_json cap \<or> v \<in> set (array_of (obj_get pkg ''capabilities'')))"
proof -
  let ?cs = "array_of (obj_get pkg ''capabilities'')"
  obtain embedded where ids: "ids_of ?cs = Inr embedded"
    using assms(1) by (auto simp: embed_capabilities_def Let_def bind_result_Inr_iff)
  let ?missing = "missing_capabilities registry embedded (members_of (obj_get pkg ''bindings''))"
  have pkg': "?missing = [] \<and> pkg' = pkg \<or> pkg' = obj_put pkg ''capabilities'' (JArr (filter (\<lambda>v. js_member v ''id''
      \<notin> set (map (\<lambda>a. js_member a ''id'') (map capability_json ?missing))) ?cs @ map capability_json ?missing))"
    using assms(1) by (auto simp: embed_capabilities_def ids Let_def bind_result_Inr_iff upsertById_def guard_result_def split: if_splits)
  then have "obj_get pkg' ''bindings'' = obj_get pkg ''bindings''" by (auto simp: obj_get_put)
  then have bound: "c \<in> set (texts_of (map snd (members_of (obj_get pkg ''bindings''))))"
    using assms(2) by (auto simp: texts_of_def in_map_filter intro!: bexI [of _ "(k, JStr c)"])
  show ?thesis
  proof (cases "c \<in> set embedded")
    case True
    then obtain v where v: "v \<in> set ?cs" "js_member v ''id'' = JStr c"
      using ids by (auto simp: ids_of_def guard_result_def in_map_filter text_Some split: if_splits)
    have "JStr c \<notin> set (map (\<lambda>a. js_member a ''id'') (map capability_json ?missing))"
      using True registry_get_Some by (fastforce simp: missing_capabilities_def in_map_filter capability_json_id)
    then have "v \<in> set (array_of (obj_get pkg' ''capabilities''))"
      using pkg' v by (auto simp: obj_get_put array_of_def [of "JArr _"])
    then show ?thesis using v by blast
  next
    case False
    then have "cap \<in> set ?missing" using bound assms(3) by (auto simp: missing_capabilities_def in_map_filter set_js_set)
    then have "capability_json cap \<in> set (array_of (obj_get pkg' ''capabilities''))"
      using pkg' by (auto simp: obj_get_put array_of_def [of "JArr _"])
    then show ?thesis using registry_get_Some [OF assms(3)] capability_json_id by blast
  qed
qed

text \<open>Materializing a draft embeds every capability it binds and the gateway has registered: the
  package carries a contract under that identifier, its own or the registered one unchanged.\<close>

theorem bound_capabilities_are_embedded:
  assumes "materializeRegisteredContracts (JObj pkg) workflow agents skills registry = Inr (pkg', workflow', changed)"
    and "(k, JStr c) \<in> set (members_of (obj_get pkg' ''bindings''))" and "registry_get cap_id registry c = Some cap"
  shows "\<exists>v \<in> set (array_of (obj_get pkg' ''capabilities'')). js_member v ''id'' = JStr c
    \<and> (v = capability_json cap \<or> v \<in> set (array_of (obj_get pkg ''capabilities'')))"
proof -
  obtain pkg1 b where e: "embed_capabilities registry pkg1 = Inr (b, pkg')"
    and "obj_get pkg1 ''capabilities'' = obj_get pkg ''capabilities''"
    using assms(1)
    by (auto simp: materializeRegisteredContracts_def authored_def materializeAgentContracts_def bind_result_Inr_iff
        guard_result_def Let_def obj_get_put split: json.splits if_splits)
  then show ?thesis using embedded_or_missing [OF e assms(2,3)] by simp
qed


section \<open>Sound drafts\<close>

definition sound_plan :: "(string \<Rightarrow> string) \<Rightarrow> harness_plan \<Rightarrow> bool" where
  "sound_plan sha p \<longleftrightarrow> harness_plan_ok p \<and> verifyPlanDigest sha p"

text \<open>What a configured, executable harnessc wrote for a package of a \<open>package.yaml\<close> and a workflow file.\<close>

definition pinned_binary :: "compiler_env \<Rightarrow> string \<Rightarrow> bool" where
  "pinned_binary c b \<longleftrightarrow> b \<in> set (compiler_candidates c) \<and> hc_executable c b"

definition emitted_by_compiler :: "authoring_env \<Rightarrow> harness_plan \<Rightarrow> bool" where
  "emitted_by_compiler e p \<longleftrightarrow> (\<exists>binary pkg name workflow t. pinned_binary (au_compiler e) binary
     \<and> hc_run (au_compiler e) binary [''package.yaml'' \<mapsto> pkg, name \<mapsto> workflow] (au_profilesPath e) = Inr t
     \<and> hc_document (au_compiler e) t = Inr p)"

definition sound_draft :: "authoring_env \<Rightarrow> draft_row \<Rightarrow> bool" where
  "sound_draft e r \<longleftrightarrow>
     (\<forall>p. dr_compiled_plan r = Some p \<longrightarrow> emitted_by_compiler e p \<and> sound_plan (au_sha e) p)
   \<and> (dr_status r \<noteq> DRAFT \<longrightarrow> dr_compiled_plan r \<noteq> None)
   \<and> (\<forall>rep. dr_evaluation_report r = Some rep \<longrightarrow> rep_passed rep \<and> digest_ok (rep_planDigest rep))
   \<and> (dr_status r \<in> {EVALUATED, DRAFT_APPROVED, PUBLISHED} \<longrightarrow> dr_evaluation_report r \<noteq> None)"

definition sound :: "authoring_env \<Rightarrow> control \<Rightarrow> bool" where
  "sound e s \<longleftrightarrow> (\<forall>r \<in> set (drafts (ct_authoring s)). sound_draft e r)
     \<and> (\<forall>p \<in> set (plans (ct_ledger s)). sound_plan (au_sha e) (pl_plan p))"

lemma sound_draft_parses: "sound_draft e r \<Longrightarrow> mapAuthoringDraft r = Inr r"
  by (auto simp: sound_draft_def sound_plan_def mapAuthoringDraft_def guard_result_def split: option.splits)

lemma checked_plan_Inr: "checked_plan sha e t = Inr p \<Longrightarrow> sound_plan sha p \<and> hc_document e t = Inr p"
  by (auto simp: checked_plan_def sound_plan_def split: sum.splits if_splits)

lemma resolved_binary:
  assumes "resolveCompilerBinary c resolved = (resolved', Inr b)" and "\<forall>b. resolved = Some b \<longrightarrow> pinned_binary c b"
  shows "pinned_binary c b" and "resolved' = Some b"
  using assms by (auto simp: resolveCompilerBinary_def pinned_binary_def find_Some_iff split: option.splits)

lemma compiled_plan_sound:
  assumes "snd (compileWithHarnessc sha c resolved pkg w file profiles) = Inr p" and "\<forall>b. resolved = Some b \<longrightarrow> pinned_binary c b"
  obtains binary name t where "sound_plan sha p" and "pinned_binary c binary"
    and "hc_run c binary (package_directory pkg name w) profiles = Inr t" and "hc_document c t = Inr p"
proof -
  obtain resolved' binary where r: "resolveCompilerBinary c resolved = (resolved', Inr binary)"
    using assms(1) unfolding compileWithHarnessc_def by (auto split: if_splits prod.splits sum.splits)
  obtain name t where "hc_run c binary (package_directory pkg name w) profiles = Inr t" "checked_plan sha c t = Inr p"
    using assms(1) unfolding compileWithHarnessc_def r by (auto split: if_splits sum.splits json.splits)
  then show thesis using that resolved_binary(1) [OF r assms(2)] checked_plan_Inr by blast
qed

lemma compiled_draft_sound:
  assumes "snd (compileAuthoringDraft e resolved pkg w cs) = Inr (Some p, ds)"
    and "\<forall>b. resolved = Some b \<longrightarrow> pinned_binary (au_compiler e) b"
  shows "emitted_by_compiler e p \<and> sound_plan (au_sha e) p"
proof -
  have "\<exists>fname r'. compileWithHarnessc (au_sha e) (au_compiler e) resolved pkg w fname (au_profilesPath e) = (r', Inr p)"
    using assms(1) unfolding compileAuthoringDraft_def Let_def
    by (auto split: sum.splits if_splits prod.splits compile_error.splits)
  then obtain fname where "snd (compileWithHarnessc (au_sha e) (au_compiler e) resolved pkg w fname (au_profilesPath e)) = Inr p"
    by (metis snd_conv)
  then show ?thesis
    by (rule compiled_plan_sound [OF _ assms(2)]) (unfold emitted_by_compiler_def package_directory_def, blast)
qed

lemma evaluated_report: "rep_planDigest (evaluateCompiledPlan t p) = plan_planDigest p"
  by (simp add: evaluateCompiledPlan_def)

definition sound_rows :: "authoring_env \<Rightarrow> authoring \<Rightarrow> bool" where
  "sound_rows e s \<longleftrightarrow> (\<forall>r \<in> set (drafts s). sound_draft e r)"

lemma sound_on_authoring:
  "sound e s \<Longrightarrow> sound_rows e (fst x) \<Longrightarrow> sound e (fst (on_authoring s x))"
  by (simp add: sound_def sound_rows_def on_authoring_def)

lemma sound_rows: "sound e s \<Longrightarrow> sound_rows e (ct_authoring s)"
  by (simp add: sound_def sound_rows_def)

lemma updated_row: "x \<in> set (sql_update P f t) \<Longrightarrow> x \<in> set t \<or> (\<exists>r \<in> set t. P r \<and> x = f r)"
  by (auto simp: sql_update_def split: if_splits)

lemma sound_content: "sound_draft e (content_row now c r)"
  by (simp add: sound_draft_def content_row_def)

definition keeping :: "authoring_env \<Rightarrow> chance \<Rightarrow> bool" where
  \<comment> \<open>what other requests do keeps the drafts sound\<close>
  "keeping e c \<longleftrightarrow> (\<forall>i s. sound e s \<longrightarrow> sound e (ch_meanwhile c i s))"

lemma sound_rows_update:
  assumes "sound_rows e s"
  shows "sound_rows e (fst (updateAuthoringSources f evid now s i n content actor))"
  by (rule update_drafts [of f evid now s i n content actor])
    (use assms sound_content in \<open>auto simp: sound_rows_def dest!: updated_row\<close>)

lemma sound_rows_lifecycle:
  assumes "sound_rows e s"
    and "\<And>r. sound_draft e r \<Longrightarrow> dr_status r = lc_expectedStatus x \<Longrightarrow> sound_draft e (lifecycle_row now x r)"
  shows "sound_rows e (fst (setAuthoringLifecycle f evid now s0 s i x))"
  by (rule lifecycle_drafts [of f evid now s0 s i x]) (use assms in \<open>auto simp: sound_rows_def dest!: updated_row\<close>)

lemma sound_rows_create:
  assumes "sound_rows e s"
  shows "sound_rows e (fst (createAuthoringDraft f uuid evid now s content actor tenant))"
  using assms by (auto simp: sound_rows_def createAuthoringDraft_def Let_def sound_draft_def)

lemma update_keeps_sound:
  assumes "sound e s" and "keeping e c"
  shows "sound e (fst (update_draft A c i s draftId rev' p w an actor))"
proof -
  have "sound e (ch_meanwhile c i s)" using assms by (simp add: keeping_def)
  then show ?thesis
    by (auto simp: update_draft_def Let_def sound_on_authoring sound_rows_update sound_rows split: json.splits)
qed

lemma lifecycle_keeps_sound:
  assumes "sound e s" and "keeping e c"
    and "\<And>r. sound_draft e r \<Longrightarrow> dr_status r = lc_expectedStatus x \<Longrightarrow> sound_draft e (lifecycle_row (ch_now c) x r)"
  shows "sound e (fst (lifecycle_change c i s draftId x))"
  unfolding lifecycle_change_def Let_def using assms
  by (intro sound_on_authoring sound_rows_lifecycle sound_rows) (simp_all add: keeping_def)


lemma fst_finish [simp]: "fst (finish f g r) = fst r"
  by (cases r; cases "snd r") (auto simp: finish_def)

lemma as_principal_keeps:
  "P s \<Longrightarrow> (\<And>p. requirePrincipal A hs a k i = Inr p \<Longrightarrow> P (fst (body p))) \<Longrightarrow> P (fst (as_principal A hs a k i s body))"
  by (simp add: as_principal_def split: sum.splits)

lemma with_draft_keeps:
  "P s \<Longrightarrow> (\<And>d. getAuthoringDraft (ct_authoring s) i (Some t) = Inr (Some d) \<Longrightarrow> P (fst (body d)))
     \<Longrightarrow> P (fst (with_draft s i t f m body))"
  by (simp add: with_draft_def split: sum.splits option.splits)

lemma draft_request_keeps:
  assumes "P s" and "\<And>p d. getAuthoringDraft (ct_authoring s) i (Some (pr_tenantId p)) = Inr (Some d) \<Longrightarrow> P (fst (body p d))"
  shows "P (fst (as_principal A hs a k j s (\<lambda>p. with_draft s i (pr_tenantId p) f m (body p))))"
  using assms by (simp add: as_principal_def with_draft_def split: sum.splits option.splits)

lemma read_draft:
  "getAuthoringDraft s i t = Inr (Some d) \<Longrightarrow> d \<in> set (drafts s) \<and> dr_draft_id d = i \<and> (t = Some u \<and> u \<noteq> [] \<longrightarrow> dr_tenant_id d = u)"
  by (auto simp: getAuthoringDraft_def mapAuthoringDraft_def guard_result_def bind_result_Inr_iff split: option.splits if_splits
      dest!: sql_find_Some)

lemma sound_meanwhile: "sound e s \<Longrightarrow> keeping e c \<Longrightarrow> sound e (ch_meanwhile c i s)"
  by (simp add: keeping_def)

lemma sound_update_route: "sound e s \<Longrightarrow> keeping e c \<Longrightarrow> sound e (fst (update_draft_route A c hs i body s))"
  unfolding update_draft_route_def
  by (rule as_principal_keeps) (auto simp: update_keeps_sound split: option.splits sum.splits)

lemma sound_attach_route:
  assumes "sound e s" and "keeping e c"
  shows "sound e (fst (attach_route A c hs i agentId body s))"
  unfolding attach_route_def
  by (rule as_principal_keeps)
    (use assms in \<open>auto simp: update_keeps_sound Let_def intro!: with_draft_keeps [where P = "sound e"] split: option.splits sum.splits\<close>)

lemma sound_case_writes_route:
  assumes "sound e s" and "keeping e c"
  shows "sound e (fst (case_writes_route A c hs i nodeId body s))"
  unfolding case_writes_route_def
  by (rule as_principal_keeps)
    (use assms in \<open>auto simp: update_keeps_sound Let_def intro!: with_draft_keeps [where P = "sound e"] split: option.splits sum.splits json.splits\<close>)

lemma settled_sound:
  assumes "sound e s" and "keeping e c"
  shows "sound e (fst (settled_draft A c reg d actor s))"
  using assms by (auto simp: settled_draft_def update_keeps_sound split: sum.splits option.splits)

lemma sound_compile_route:
  assumes "sound (ca_authoring A) s" and "keeping (ca_authoring A) c"
    and pinned: "\<forall>b. resolved = Some b \<longrightarrow> pinned_binary (au_compiler (ca_authoring A)) b"
  shows "sound (ca_authoring A) (fst (compile_route A c resolved hs i s))"
  unfolding compile_route_def Let_def
proof (rule draft_request_keeps [where P = "sound (ca_authoring A)", OF assms(1)], goal_cases)
  case (1 p d)
  let ?e = "ca_authoring A"
  let ?s1 = "ch_meanwhile c 0 s"
  have s1: "sound ?e ?s1" using assms(1,2) by (rule sound_meanwhile)
  show ?case
  proof (cases "active_registries A (ct_authoring ?s1)")
    case (Inr reg)
    obtain s2 r where sd: "settled_draft A c reg d (pr_subjectId p) ?s1 = (s2, r)" by fastforce
    have s2: "sound ?e s2" using settled_sound [OF s1 assms(2)] sd by (metis fst_conv)
    have "sound ?e (fst (lifecycle_change c 2 s2 j (compiled_input actor plan ds)))"
      if "emitted_by_compiler ?e plan \<and> sound_plan (au_sha ?e) plan" for j actor plan ds
      by (rule lifecycle_keeps_sound [OF s2 assms(2)])
        (use that in \<open>auto simp: sound_draft_def lifecycle_row_def compiled_input_def coalesce_def\<close>)
    then show ?thesis
      using s1 s2 by (auto simp: Inr sd assms(1) dest!: compiled_draft_sound [OF _ pinned] split: sum.splits option.splits)
  qed (simp add: s1 assms(1))
qed

lemma sound_evaluate_route:
  assumes "sound e s" and "keeping e c"
  shows "sound e (fst (evaluate_route A c t hs i s))"
  unfolding evaluate_route_def Let_def
proof (rule draft_request_keeps [where P = "sound e", OF assms(1)], goal_cases)
  case (1 p d)
  show ?case
  proof (cases "dr_compiled_plan d")
    case (Some plan)
    have "sound_draft e d" using 1 read_draft assms(1) by (auto simp: sound_def)
    then have "digest_ok (plan_planDigest plan)" using Some by (simp add: sound_draft_def sound_plan_def harness_plan_ok_def)
    then show ?thesis using assms
      by (auto simp: Some evaluated_report evaluated_input_def intro!: lifecycle_keeps_sound)
        (auto simp: sound_draft_def lifecycle_row_def coalesce_def evaluated_report)
  qed (simp add: assms(1))
qed

lemma sound_approve_route:
  assumes "sound e s" and "keeping e c"
  shows "sound e (fst (approve_route A c hs i s))"
  unfolding approve_route_def
  by (rule as_principal_keeps)
    (use assms in \<open>auto simp: approved_input_def intro!: lifecycle_keeps_sound, auto simp: sound_draft_def lifecycle_row_def coalesce_def\<close>)

lemma admitted_sound:
  "sound e s \<Longrightarrow> admitPlan (au_sha e) now (ct_ledger s) plan t = Inr (d, x) \<Longrightarrow> sound e (s\<lparr>ct_ledger := d\<rparr>)"
  by (auto simp: admitPlan_def guard_result_def sound_def sound_plan_def split: if_splits)

lemma sound_publish_route:
  assumes "sound (ca_authoring A) s" and "keeping (ca_authoring A) c"
  shows "sound (ca_authoring A) (fst (publish_route A c hs i s))"
  unfolding publish_route_def Let_def
proof (rule draft_request_keeps [where P = "sound (ca_authoring A)", OF assms(1)], goal_cases)
  case (1 p d)
  let ?e = "ca_authoring A" and ?s1 = "ch_meanwhile c 0 s"
  have s1: "sound ?e ?s1" using assms by (rule sound_meanwhile)
  have "sound ?e (fst (lifecycle_change c 1 s2 j (published_input actor digest)))" if "sound ?e s2" for j actor digest s2
    by (rule lifecycle_keeps_sound [OF that assms(2)])
      (auto simp: sound_draft_def lifecycle_row_def published_input_def coalesce_def)
  then show ?case using s1 assms(1) admitted_sound [OF s1]
    by (auto split: option.splits sum.splits)
qed

text \<open>C27. Every plan a draft holds is one a configured harnessc binary emitted for a package, satisfies
  the schema of plans and has a digest that verifies; a draft that is compiled or further has one and
  one that is evaluated or further a report that passed; so every row can be read, and only plans
  that verify are admitted. Every request keeps this, whatever requests that keep it do between its
  statements and wherever one of them fails; the binary a process remembers is one it resolved.\<close>

theorem requests_keep_drafts_sound:
  assumes "sound (ca_authoring A) s" and "keeping (ca_authoring A) c"
    and "\<And>b hs i. req = CompileReq (Some b) hs i \<Longrightarrow> b \<in> set (compiler_candidates (au_compiler (ca_authoring A)))
      \<and> hc_executable (au_compiler (ca_authoring A)) b"
  shows "sound (ca_authoring A) (fst (serve A c req s))
    \<and> (\<forall>r \<in> set (drafts (ct_authoring (fst (serve A c req s)))). mapAuthoringDraft r = Inr r)"
proof -
  let ?e = "ca_authoring A"
  have "sound ?e (fst (serve A c req s))"
  proof (cases req)
    case (AdmitPlanReq hs body)
    show ?thesis unfolding AdmitPlanReq serve.simps admit_route_def
      by (rule as_principal_keeps) (use assms(1) admitted_sound in \<open>auto split: option.splits sum.splits\<close>)
  next
    case (RegisterAgentReq hs body)
    show ?thesis unfolding RegisterAgentReq serve.simps register_agent_route_def
      by (rule as_principal_keeps) (use assms(1) in \<open>auto simp: on_authoring_def registerAuthoringAgent_def sound_def Let_def split: option.splits\<close>)
  next
    case (RegisterSkillReq hs body)
    show ?thesis unfolding RegisterSkillReq serve.simps register_skill_route_def
      by (rule as_principal_keeps) (use assms(1) in \<open>auto simp: on_authoring_def registerAuthoringSkill_def sound_def Let_def split: option.splits\<close>)
  next
    case (CreateDraftReq hs body)
    show ?thesis unfolding CreateDraftReq serve.simps create_draft_route_def Let_def
      by (rule as_principal_keeps) (use assms(1) in \<open>auto simp: sound_on_authoring sound_rows_create sound_rows split: sum.splits\<close>)
  next
    case (CompileReq resolved hs i)
    show ?thesis unfolding CompileReq serve.simps
      by (rule sound_compile_route [OF assms(1,2)]) (use assms(3) CompileReq in \<open>auto simp: pinned_binary_def\<close>)
  qed (use assms(1,2) in \<open>simp_all add: sound_update_route sound_attach_route sound_case_writes_route
      sound_evaluate_route sound_approve_route sound_publish_route\<close>)
  then show ?thesis by (auto simp: sound_def sound_draft_parses)
qed


section \<open>Whose plan a draft holds\<close>

lemma update_Inr:
  assumes "updateAuthoringSources f evid now s i n content actor = (s', Inr d)"
  obtains r where "r \<in> set (drafts s)" and "dr_draft_id r = i" and "d = content_row now content r"
    and "drafts s' = sql_update (\<lambda>r. dr_draft_id r = i \<and> dr_revision r = n \<and> dr_status r \<noteq> PUBLISHED) (content_row now content) (drafts s)"
    and "d \<in> set (drafts s')"
proof -
  let ?P = "\<lambda>r. dr_draft_id r = i \<and> dr_revision r = n \<and> dr_status r \<noteq> PUBLISHED"
  obtain r where r: "sql_find ?P (drafts s) = Some r"
    using assms by (auto simp: updateAuthoringSources_def Let_def split: option.splits)
  have "d = content_row now content r" and s': "drafts s' = sql_update ?P (content_row now content) (drafts s)"
    using assms r by (auto simp: updateAuthoringSources_def Let_def returning_def mapAuthoringDraft_def guard_result_def log_event_def
        split: option.splits if_splits prod.splits sum.splits)
  then show ?thesis using that [of r] sql_find_Some [OF r] by (auto simp: sql_update_def)
qed

lemma lifecycle_Inr:
  assumes "setAuthoringLifecycle f evid now s0 s i x = (s', Inr d)"
  obtains r where "r \<in> set (drafts s)" and "dr_draft_id r = i" and "dr_status r = lc_expectedStatus x" and "d = lifecycle_row now x r"
    and "d \<in> set (drafts s')"
proof -
  let ?P = "\<lambda>r. dr_draft_id r = i \<and> dr_status r = lc_expectedStatus x"
  obtain r where r: "sql_find ?P (drafts s) = Some r"
    using assms by (auto simp: setAuthoringLifecycle_def Let_def split: option.splits if_splits)
  have "d = lifecycle_row now x r" and s': "drafts s' = sql_update ?P (lifecycle_row now x) (drafts s)"
    using assms r by (auto simp: setAuthoringLifecycle_def Let_def returning_def mapAuthoringDraft_def guard_result_def log_event_def
        split: option.splits if_splits prod.splits sum.splits)
  then show ?thesis using that [of r] sql_find_Some [OF r] by (auto simp: sql_update_def)
qed

lemma settled_row:
  assumes alone: "\<And>i s. ch_meanwhile c i s = s"
    and "keyed dr_draft_id (drafts (ct_authoring s))" and "d0 \<in> set (drafts (ct_authoring s))"
    and "settled_draft A c reg d0 actor s = (s', Inr d)"
  shows "keyed dr_draft_id (drafts (ct_authoring s')) \<and> d \<in> set (drafts (ct_authoring s')) \<and> dr_draft_id d = dr_draft_id d0"
proof -
  consider "s' = s" "d = d0"
    | content where "updateAuthoringSources (ch_fault c 1) (ch_event c 1) (ch_now c) (ct_authoring s) (dr_draft_id d0) (dr_revision d0) content actor
        = (ct_authoring s', Inr d)"
    using assms(4) by (auto simp: settled_draft_def update_draft_def alone on_authoring_def prod_eq_iff split: sum.splits option.splits if_splits)
  then show ?thesis
  proof cases
    case 1
    then show ?thesis using assms by simp
  next
    case (2 content)
    then show ?thesis
      by (rule update_Inr) (use assms(2) in \<open>simp add: keyed_sql_update\<close>)
  qed
qed

text \<open>When no other request intervenes, a compilation that succeeds leaves a draft that holds the plan
  of its own sources: what the compiler emits for the texts the draft holds now and the capabilities
  registered as active, with its diagnostics.\<close>

theorem compiled_draft_holds_plan_of_its_sources:
  assumes "\<forall>i s. ch_meanwhile c i s = s" and "keyed dr_draft_id (drafts (ct_authoring s))"
    and "compile_route A c resolved hs i s = (s', Reply 200 (RepDraft r))"
  shows "r \<in> set (drafts (ct_authoring s')) \<and> dr_draft_id r = i \<and> dr_status r = COMPILED
    \<and> (\<exists>reg plan. active_registries A (ct_authoring s) = Inr reg \<and> dr_compiled_plan r = Some plan
        \<and> snd (compileAuthoringDraft (ca_authoring A) resolved (dr_package_source r) (dr_workflow_source r) (reg_capabilities reg))
            = Inr (Some plan, dr_diagnostics r))"
proof -
  have alone: "ch_meanwhile c i s = s" for i s using assms(1) by blast
  obtain p where p: "requirePrincipal A hs DraftCompile ''draft'' (Some i) = Inr p"
    using assms(3) by (auto simp: compile_route_def as_principal_def auth_response_def split: sum.splits auth_failure.splits)
  obtain d0 where d0: "getAuthoringDraft (ct_authoring s) i (Some (pr_tenantId p)) = Inr (Some d0)"
    using assms(3) by (auto simp: compile_route_def as_principal_def p with_draft_def split: sum.splits option.splits)
  obtain reg where reg: "active_registries A (ct_authoring s) = Inr reg"
    using assms(3) by (auto simp: compile_route_def as_principal_def p with_draft_def d0 alone Let_def split: sum.splits if_splits)
  obtain s2 d where sd: "settled_draft A c reg d0 (pr_subjectId p) s = (s2, Inr d)"
    using assms(3) by (auto simp: compile_route_def as_principal_def p with_draft_def d0 alone reg Let_def split: sum.splits if_splits prod.splits)
  have s2: "keyed dr_draft_id (drafts (ct_authoring s2))" "d \<in> set (drafts (ct_authoring s2))" "dr_draft_id d = i"
    using settled_row [OF alone assms(2) _ sd] read_draft [OF d0] by auto
  obtain plan ds where c: "snd (compileAuthoringDraft (ca_authoring A) resolved (dr_package_source d) (dr_workflow_source d) (reg_capabilities reg))
      = Inr (Some plan, ds)"
    using assms(3) by (auto simp: compile_route_def as_principal_def p with_draft_def d0 alone reg sd Let_def
        split: sum.splits if_splits option.splits)
  have "setAuthoringLifecycle (ch_fault c 2) (ch_event c 2) (ch_now c) (ct_authoring s2) (ct_authoring s2) i (compiled_input (pr_subjectId p) plan ds)
      = (ct_authoring s', Inr r)"
    using assms(3) s2(3) by (auto simp: compile_route_def as_principal_def p with_draft_def d0 alone reg sd c lifecycle_change_def Let_def
        finish_def on_authoring_def prod_eq_iff split: sum.splits if_splits)
  then obtain r0 where r0: "r0 \<in> set (drafts (ct_authoring s2))" "dr_draft_id r0 = i"
      "r = lifecycle_row (ch_now c) (compiled_input (pr_subjectId p) plan ds) r0" "r \<in> set (drafts (ct_authoring s'))"
    by (rule lifecycle_Inr)
  have "r0 = d" using s2 r0(1,2) by (metis keyed_unique)
  then show ?thesis using r0 s2(3) c reg by (auto simp: lifecycle_row_def compiled_input_def coalesce_def or_else_def)
qed


section \<open>Examples\<close>

definition draft_plan :: "string \<Rightarrow> harness_plan" where
  "draft_plan i = demo_plan\<lparr>plan_planId := i, plan_planDigest := replicate 64 (CHR ''a''), plan_packageDigest := replicate 64 (CHR ''b'')\<rparr>"

definition draft_compiler :: compiler_env where
  \<comment> \<open>the plan is named after the workflow source it was compiled from\<close>
  "draft_compiler = \<lparr>hc_path = None, hc_executable = (\<lambda>_. True), hc_repository = ''/ehf/'',
     hc_run = (\<lambda>binary directory profiles. Inr (''plan of '' @ or_else (directory ''workflow.yaml'') [])),
     hc_document = (\<lambda>t. Inr (draft_plan t)), hc_issues = (\<lambda>_. [])\<rparr>"

definition draft_api :: control_api where
  "draft_api = \<lparr>ca_verify = (\<lambda>_ _. None), ca_workload = ServiceTokenPrincipalResolver [\<lparr>sg_token = ''edge'',
       sg_subjectId = ''control-surface-edge'', sg_roles = [''Edge.Delegate''], sg_tenantId = ''acme''\<rparr>,
       \<lparr>sg_token = ''zeta'', sg_subjectId = ''control-surface-edge'', sg_roles = [''Edge.Delegate''], sg_tenantId = ''zeta''\<rparr>],
     ca_authoring = \<lparr>au_sha = (\<lambda>_. replicate 64 (CHR ''a'')), au_yaml = (\<lambda>t. sample_yaml (if t = ''w2'' then ''w'' else t)), au_issue = sample_issue,
       au_profilesPath = ''profiles.json'', au_profiles = Inr [], au_compiler = draft_compiler\<rparr>,
     ca_yaml_text = (\<lambda>_ _. ''c''), ca_column = js_string, ca_is_url = (\<lambda>_. True)\<rparr>"

definition caller :: "string \<Rightarrow> string \<Rightarrow> string \<Rightarrow> headers" where
  "caller token actor role = [(''authorization'', One (''Bearer '' @ token)), (''x-actor-id'', One actor), (''x-actor-roles'', One role)]"

definition quietly :: "string \<Rightarrow> chance" where
  "quietly evid = \<lparr>ch_now = 0, ch_uuid = ''1'', ch_event = (\<lambda>i. evid), ch_fault = (\<lambda>_. None), ch_meanwhile = (\<lambda>_ s. s)\<rparr>"

definition no_drafts :: control where
  "no_drafts = \<lparr>ct_ledger = empty_db, ct_authoring = empty_authoring\<rparr>"

definition sources_body :: "nat \<Rightarrow> string \<Rightarrow> json" where
  "sources_body revision workflow = JObj [(''expectedRevision'', JInt (int revision)), (''packageSource'', JStr ''p''), (''workflowSource'', JStr workflow)]"

definition alices_draft :: control where
  "alices_draft = fst (serve draft_api (quietly ''e1'') (CreateDraftReq (caller ''edge'' ''alice'' ''Harness.Author'') (sources_body 1 ''w'')) no_drafts)"

definition compile_alone :: outcome where
  "compile_alone = serve draft_api (quietly ''e2'') (CompileReq None (caller ''edge'' ''alice'' ''Harness.Author'') ''draft_1'') alices_draft"

definition overtaken :: chance where
  \<comment> \<open>while the compiler runs, the draft is saved with another workflow\<close>
  "overtaken = (quietly ''e2'')\<lparr>ch_meanwhile := (\<lambda>i s. if i = 2 then fst (serve draft_api (quietly ''e3'')
     (UpdateDraftReq (caller ''edge'' ''alice'' ''Harness.Author'') ''draft_1'' (sources_body 1 ''w2'')) s) else s)\<rparr>"

definition compile_overtaken :: outcome where
  "compile_overtaken = serve draft_api overtaken (CompileReq None (caller ''edge'' ''alice'' ''Harness.Author'') ''draft_1'') alices_draft"

definition published_after :: "control \<Rightarrow> control" where
  "published_after s = (let s1 = fst (serve draft_api (quietly ''e4'') (EvaluateReq ''t'' (caller ''edge'' ''alice'' ''Harness.Author'') ''draft_1'') s);
       s2 = fst (serve draft_api (quietly ''e5'') (ApproveReq (caller ''edge'' ''carol'' ''Harness.Approver'') ''draft_1'') s1)
     in fst (serve draft_api (quietly ''e6'') (PublishReq (caller ''edge'' ''carol'' ''Harness.Approver'') ''draft_1'') s2))"

definition draft_views :: "control \<Rightarrow> (authoring_status \<times> string \<times> string option) list" where
  "draft_views s = map (\<lambda>r. (dr_status r, dr_workflow_source r, map_option plan_planId (dr_compiled_plan r))) (drafts (ct_authoring s))"

text \<open>The compiler takes up to a minute, and the change to \<open>COMPILED\<close> asks only for the status of the draft,
  not for its revision: a draft that is saved meanwhile gets the plan of its former sources, and goes on
  to be evaluated, approved and published with it.\<close>

theorem compile_can_record_a_superseded_plan:
  "draft_views (published_after (fst compile_overtaken)) = [(PUBLISHED, ''w2'', Some ''plan of w'')]"
  by code_simp

definition foreign_save :: outcome where
  "foreign_save = serve draft_api (quietly ''e2'') (UpdateDraftReq (caller ''zeta'' ''mallory'' ''Harness.Author'') ''draft_1'' (sources_body 1 ''w2'')) alices_draft"

definition foreign_approval :: control where
  "foreign_approval = (let s = fst (serve draft_api (quietly ''e3'') (EvaluateReq ''t'' (caller ''edge'' ''alice'' ''Harness.Author'') ''draft_1'') (fst compile_alone))
     in fst (serve draft_api (quietly ''e4'') (ApproveReq (caller ''zeta'' ''dave'' ''Harness.Approver'') ''draft_1'') s))"

text \<open>Saving and approving a draft do not ask for its tenant: callers of another tenant, to whom reading
  the draft answers that it does not exist, overwrite and approve it.\<close>

theorem other_tenants_save_and_approve:
  "snd (draft_route draft_api (caller ''zeta'' ''mallory'' ''Harness.Author'') ''draft_1'' alices_draft) = Failure 404 ''authoring.draft_not_found''
   \<and> map (\<lambda>r. (dr_tenant_id r, dr_workflow_source r)) (drafts (ct_authoring (fst foreign_save))) = [(''acme'', ''w2'')]
   \<and> map (\<lambda>r. (dr_tenant_id r, dr_status r, dr_approved_by r)) (drafts (ct_authoring foreign_approval)) = [(''acme'', DRAFT_APPROVED, Some ''dave'')]"
  by code_simp

section \<open>Witnesses\<close>

theorem requests_keep_drafts_sound_witness:
  "sound (ca_authoring draft_api) alices_draft
    \<and> map mapAuthoringDraft (drafts (ct_authoring alices_draft)) = map Inr (drafts (ct_authoring alices_draft))"
proof -
  have "sound (ca_authoring draft_api) no_drafts" "keeping (ca_authoring draft_api) (quietly ''e1'')"
    by (simp_all add: sound_def keeping_def quietly_def no_drafts_def empty_db_def empty_authoring_def)
  from requests_keep_drafts_sound [OF this, of "CreateDraftReq (caller ''edge'' ''alice'' ''Harness.Author'') (sources_body 1 ''w'')"]
  show ?thesis unfolding alices_draft_def [symmetric] by (auto simp: map_eq_conv)
qed

theorem compiled_draft_holds_plan_of_its_sources_witness:
  "\<exists>reg plan. active_registries draft_api (ct_authoring alices_draft) = Inr reg
    \<and> dr_compiled_plan (hd (drafts (ct_authoring (fst compile_alone)))) = Some plan
    \<and> snd (compileAuthoringDraft (ca_authoring draft_api) None (dr_package_source (hd (drafts (ct_authoring (fst compile_alone)))))
         (dr_workflow_source (hd (drafts (ct_authoring (fst compile_alone))))) (reg_capabilities reg))
       = Inr (Some plan, dr_diagnostics (hd (drafts (ct_authoring (fst compile_alone)))))"
proof -
  have "\<forall>i s. ch_meanwhile (quietly ''e2'') i s = s" by (simp add: quietly_def)
  moreover have "keyed dr_draft_id (drafts (ct_authoring alices_draft))" by code_simp
  moreover have "snd compile_alone = Reply 200 (RepDraft (hd (drafts (ct_authoring (fst compile_alone)))))" by code_simp
  then have "compile_route draft_api (quietly ''e2'') None (caller ''edge'' ''alice'' ''Harness.Author'') ''draft_1'' alices_draft
      = (fst compile_alone, Reply 200 (RepDraft (hd (drafts (ct_authoring (fst compile_alone))))))"
    by (simp add: compile_alone_def prod_eq_iff)
  ultimately show ?thesis using compiled_draft_holds_plan_of_its_sources by blast
qed

definition bound_package :: entries where
  "bound_package = [(''bindings'', JObj [(''work'', JStr ''cap'')])]"

definition sample_capability :: capability_definition where
  "sample_capability = \<lparr>cap_id = ''cap'', cap_kind = KindTool, cap_effect = EffRead, cap_adapterBindingId = ''sim'', cap_inputSchema = [],
     cap_outputSchema = [], cap_timeoutMs = 1000, cap_maxAttempts = 1, cap_idempotent = True\<rparr>"

definition materialized_sample :: "entries \<times> entries \<times> bool" where
  "materialized_sample = projr (materializeRegisteredContracts (JObj bound_package) (projr (sample_yaml ''w'')) [] [] [sample_capability])"

theorem bound_capabilities_are_embedded_witness:
  "\<exists>v \<in> set (array_of (obj_get (fst materialized_sample) ''capabilities'')). js_member v ''id'' = JStr ''cap''
    \<and> (v = capability_json sample_capability \<or> v \<in> set (array_of (obj_get bound_package ''capabilities'')))"
proof (rule bound_capabilities_are_embedded)
  show "materializeRegisteredContracts (JObj bound_package) (projr (sample_yaml ''w'')) [] [] [sample_capability]
      = Inr (fst materialized_sample, fst (snd materialized_sample), snd (snd materialized_sample))"
    by code_simp
  show "(''work'', JStr ''cap'') \<in> set (members_of (obj_get (fst materialized_sample) ''bindings''))" by code_simp
  show "registry_get cap_id [sample_capability] ''cap'' = Some sample_capability" by code_simp
qed

end
