(* ===== verification/Lowering.thy ===== *)
theory Lowering
  imports RuntimeNode
begin

text \<open>
  packages/runtime-langgraph/src/index.ts: what a plan is lowered to. LangGraph itself is outside the
  repository: its builder is a parameter that may refuse any call and the final compilation, and a
  lowered plan is what the code gave it, the action of every node and the connections. The state of a
  graph is its four channels; an update is the object a node returns.
\<close>

section \<open>The state of a graph\<close>

record harness_state =
  hs_input :: json
  hs_values :: entries
  hs_output :: json
  hs_settlements :: entries

definition channel_reducer :: "entries \<Rightarrow> entries \<Rightarrow> entries" where
  \<comment> \<open>of \<open>values\<close> and \<open>settlements\<close>\<close>
  "channel_reducer current update = obj_spread current update"

definition initial_state :: "json \<Rightarrow> harness_state" where
  \<comment> \<open>of an invocation with an input: the channels' defaults\<close>
  "initial_state v = \<lparr>hs_input = v, hs_values = [], hs_output = JUndef, hs_settlements = []\<rparr>"

definition state_scope :: "harness_state \<Rightarrow> json" where
  \<comment> \<open>\<open>{ ...state, ...state.values }\<close>\<close>
  "state_scope s = JObj (obj_spread [(''input'', hs_input s), (''values'', JObj (hs_values s)), (''output'', hs_output s),
     (''settlements'', JObj (hs_settlements s))] (hs_values s))"

definition fulfilled :: "json \<Rightarrow> json" where
  "fulfilled v = JObj [(''status'', JStr ''fulfilled''), (''value'', v)]"

definition rejected :: "string \<Rightarrow> json" where
  "rejected c = JObj [(''status'', JStr ''rejected''), (''reason'', JObj [(''code'', JStr c), (''message'', JStr c)])]"

section \<open>The input of a node\<close>

definition joinMode :: "graph_node option \<Rightarrow> string" where
  "joinMode n = (case n of None \<Rightarrow> ''all''
     | Some node \<Rightarrow> js_string (nullish (obj_get (node_config node) ''mode'') (nullish (obj_get (node_config node) ''operation'') (JStr ''all''))))"

definition plan_node :: "harness_plan \<Rightarrow> string \<Rightarrow> graph_node option" where
  "plan_node p i = List.find (\<lambda>n. node_id n = i) (plan_nodes p)"

definition data_edges :: "harness_plan \<Rightarrow> string \<Rightarrow> graph_edge list" where
  "data_edges p i = filter (\<lambda>e. edge_to e = i \<and> edge_kind e \<noteq> EControl) (plan_edges p)"

definition target_key :: "graph_edge \<Rightarrow> string" where
  \<comment> \<open>\<open>edge.targetPath?.replace(/^\//, "") || edge.from\<close>\<close>
  "target_key e = (case edge_targetPath e of None \<Rightarrow> edge_from e
     | Some p \<Rightarrow> (let q = (case p of c # cs \<Rightarrow> if c = CHR ''/'' then cs else p | [] \<Rightarrow> []) in if q = [] then edge_from e else q))"

definition edge_value :: "harness_state \<Rightarrow> graph_edge \<Rightarrow> json" where
  "edge_value s e = getPath (obj_get (hs_values s) (edge_from e)) (edge_sourcePath e)"

definition allSettledInput :: "harness_plan \<Rightarrow> string \<Rightarrow> harness_state \<Rightarrow> json" where
  "allSettledInput p i s = JObj (obj_from_entries (map (\<lambda>e. (target_key e,
     nullish (obj_get (hs_settlements s) (edge_from e)) (fulfilled (edge_value s e)))) (data_edges p i)))"

definition nodeInput :: "harness_plan \<Rightarrow> string \<Rightarrow> harness_state \<Rightarrow> json" where
  "nodeInput p i s = (let incoming = data_edges p i; target = plan_node p i; kind = map_option node_kind target in
     if incoming = [] then hs_input s
     else if kind = Some NJoin \<and> joinMode target = ''allSettled'' then allSettledInput p i s
     else if kind \<in> {Some NAgent, Some NTool, Some NEvaluate}
     then JObj (obj_spread (case hs_input s of JObj es \<Rightarrow> es | JArr vs \<Rightarrow> own_members (JArr vs) | v \<Rightarrow> [(''input'', v)])
            [(''evidence'', JObj (hs_values s))])
     else (case incoming of [e] \<Rightarrow> edge_value s e
       | _ \<Rightarrow> JObj (obj_from_entries (map (\<lambda>e. (target_key e, edge_value s e)) incoming))))"

section \<open>Routes\<close>

definition END :: string where
  "END = ''__end__''"

definition routeFor :: "'w platform \<Rightarrow> harness_plan \<Rightarrow> string \<Rightarrow> harness_state \<Rightarrow> string" where
  "routeFor P p i s = (let scope = state_scope s;
       routed = (case plan_node p i of None \<Rightarrow> JUndef | Some n \<Rightarrow> (case obj_get (node_config n) ''expression'' of
           JStr x \<Rightarrow> if x = [] then JUndef else getPath scope (Some x) | _ \<Rightarrow> JUndef))
     in case List.find (\<lambda>e. edge_condition e = Some (js_string routed) \<or> evaluateCondition (pf_json_parse P) (edge_condition e) scope)
              (filter (\<lambda>e. edge_from e = i \<and> edge_kind e = EControl) (plan_edges p)) of
          None \<Rightarrow> END | Some e \<Rightarrow> edge_to e)"

section \<open>The action of a node\<close>

definition prompted :: "graph_node \<Rightarrow> json \<Rightarrow> harness_state \<Rightarrow> json" where
  "prompted n v s = (case node_prompt n of None \<Rightarrow> v
     | Some t \<Rightarrow> if t = [] then v else JObj [(''input'', v), (''prompt'', JStr (renderTemplate t (state_scope s)))])"

definition node_value :: "'w platform \<Rightarrow> 'w runtime_context \<Rightarrow> graph_node \<Rightarrow> harness_state \<Rightarrow> json \<Rightarrow> ('w, json) act" where
  "node_value P C n s v = (case node_kind n of
     NInput \<Rightarrow> yield (hs_input s)
   | NOutput \<Rightarrow> yield v
   | NTransform \<Rightarrow> lift_act (transformValue (pf_sha P) (node_config n) v)
   | NAggregator \<Rightarrow> lift_act (aggregateValue (pf_sha P) (node_config n) v)
   | NCondition \<Rightarrow> yield v
   | NJoin \<Rightarrow> yield v
   | _ \<Rightarrow> then_do (invokeCapability P C (node_id n) (prompted n v s)) (\<lambda>r.
       if cres_status r \<noteq> CapSucceeded then throw (or_else (cres_errorCode r) ''runtime.capability_failed'')
       else yield (cres_output r)))"

definition node_update :: "'w platform \<Rightarrow> 'w runtime_context \<Rightarrow> graph_node \<Rightarrow> harness_state \<Rightarrow> ('w, json) act" where
  \<comment> \<open>what is executed under observation\<close>
  "node_update P C n s = (let v = nodeInput (rc_plan C) (node_id n) s in
     then_do (node_value P C n s v) (\<lambda>value.
     then_do (executeCaseWrites P C (node_id n) (hs_input s) v value (JObj (hs_values s))) (\<lambda>_.
       yield (JObj ((''values'', JObj [(node_id n, value)]) # (if node_kind n = NOutput then [(''output'', value)] else []))))))"

definition settlement :: "string \<Rightarrow> json \<Rightarrow> string \<times> json" where
  "settlement i v = (''settlements'', JObj [(i, v)])"

definition node_action :: "'w platform \<Rightarrow> 'w runtime_context \<Rightarrow> string list \<Rightarrow> graph_node \<Rightarrow> harness_state \<Rightarrow> ('w, json) act" where
  \<comment> \<open>\<open>settled\<close> are the nodes whose failure is a result for their joins\<close>
  "node_action P C settled n s = (let i = node_id n in
     caught
      (then_do (executeObservedNode P C i (nodeInput (rc_plan C) i s) (node_update P C n s)) (\<lambda>u.
         yield (if i \<in> set settled
           then JObj (obj_spread (object_or_empty u) [settlement i (fulfilled (js_member (js_member u ''values'') i))]) else u)))
      (\<lambda>code. if i \<notin> set settled then throw code else yield (JObj [settlement i (rejected code)])))"

section \<open>Lowering a plan\<close>

datatype connection =
    Start string
  | Barrier "string list" string
  | Conditional string "harness_state \<Rightarrow> string" "string list"
  | Finish string
  | Edge string string

record 'w lowered =
  lw_actions :: "(string \<times> (harness_state \<Rightarrow> ('w, json) act)) list"
  lw_connections :: "connection list"

text \<open>LangGraph's fluent builder: a call of \<open>addNode\<close>, \<open>addEdge\<close> or \<open>addConditionalEdges\<close> may throw,
  depending on the calls before it, and so may \<open>compile\<close> after all of them.\<close>

datatype graph_call = AddNode string | Connect connection

record langgraph =
  lg_refuses :: "graph_call list \<Rightarrow> graph_call \<Rightarrow> code option"
  lg_compile :: "graph_call list \<Rightarrow> code option"

fun build :: "langgraph \<Rightarrow> graph_call list \<Rightarrow> (code + graph_call) list \<Rightarrow> graph_call list result" where
  \<comment> \<open>the calls made so far, and the steps of the code: a call, or an error of its own\<close>
  "build G calls [] = Inr calls"
| "build G calls (Inl c # steps) = Inl c"
| "build G calls (Inr x # steps) = (case lg_refuses G calls x of Some c \<Rightarrow> Inl c | None \<Rightarrow> build G (calls @ [x]) steps)"

definition compiled :: "langgraph \<Rightarrow> graph_call list \<Rightarrow> unit result" where
  "compiled G calls = (case lg_compile G calls of Some c \<Rightarrow> Inl c | None \<Rightarrow> Inr ())"

definition allSettledJoins :: "harness_plan \<Rightarrow> string list" where
  "allSettledJoins p = map node_id (filter (\<lambda>n. node_kind n = NJoin \<and> joinMode (Some n) = ''allSettled'') (plan_nodes p))"

definition settledSourceIds :: "harness_plan \<Rightarrow> string list" where
  "settledSourceIds p = js_set (map edge_from
     (filter (\<lambda>e. edge_to e \<in> set (allSettledJoins p) \<and> edge_kind e \<noteq> EControl) (plan_edges p)))"

definition mixed_fanout :: "harness_plan \<Rightarrow> string option" where
  "mixed_fanout p = List.find (\<lambda>i. \<exists>e \<in> set (plan_edges p). edge_from e = i \<and> edge_to e \<notin> set (allSettledJoins p)) (settledSourceIds p)"

definition entry_nodes :: "harness_plan \<Rightarrow> string list" where
  "entry_nodes p = filter (\<lambda>i. i \<in> set (map node_id (plan_nodes p)) \<and> i \<notin> set (map edge_to (plan_edges p))) (plan_nodeOrder p)"

definition join_sources :: "harness_plan \<Rightarrow> string \<Rightarrow> string list" where
  "join_sources p i = map edge_from (data_edges p i)"

definition barrier_joins :: "harness_plan \<Rightarrow> string list" where
  "barrier_joins p = map node_id (filter (\<lambda>n. node_kind n = NJoin \<and> 1 < length (join_sources p (node_id n))) (plan_nodes p))"

definition barriers :: "harness_plan \<Rightarrow> connection list" where
  "barriers p = map (\<lambda>i. Barrier (join_sources p i) i) (barrier_joins p)"

fun plain_edges :: "string list \<Rightarrow> string list \<Rightarrow> graph_edge list \<Rightarrow> (code + connection) list" where
  \<comment> \<open>the loop over the outgoing edges of a node; what follows an error is never reached\<close>
  "plain_edges ids joins [] = []"
| "plain_edges ids joins (e # es) = (if edge_to e \<notin> set ids then [Inl (''langgraph.edge_target_missing:'' @ edge_to e)]
     else if edge_to e \<in> set joins \<and> edge_kind e \<noteq> EControl then plain_edges ids joins es
     else Inr (Edge (edge_from e) (edge_to e)) # plain_edges ids joins es)"

definition node_connections :: "'w platform \<Rightarrow> harness_plan \<Rightarrow> graph_node \<Rightarrow> (code + connection) list" where
  "node_connections P p n = (let i = node_id n; outgoing = filter (\<lambda>e. edge_from e = i) (plan_edges p);
       controls = filter (\<lambda>e. edge_kind e = EControl) outgoing
     in if controls \<noteq> [] then [Inr (Conditional i (routeFor P p i) (js_set (map edge_to controls)))]
        else if outgoing = [] \<or> node_kind n = NOutput then [Inr (Finish i)]
        else plain_edges (map node_id (plan_nodes p)) (barrier_joins p) outgoing)"

definition plan_connections :: "'w platform \<Rightarrow> harness_plan \<Rightarrow> (code + connection) list" where
  \<comment> \<open>after the nodes were added\<close>
  "plan_connections P p = (case entry_nodes p of
     [start] \<Rightarrow> map Inr (Start start # barriers p) @ concat (map (node_connections P p) (plan_nodes p))
   | _ \<Rightarrow> [Inl ''langgraph.single_entry_required''])"

definition lowering_steps :: "'w platform \<Rightarrow> harness_plan \<Rightarrow> (code + graph_call) list" where
  "lowering_steps P p = map (\<lambda>n. Inr (AddNode (node_id n))) (plan_nodes p) @ map (map_sum id Connect) (plan_connections P p)"

definition connected :: "graph_call list \<Rightarrow> connection list" where
  "connected calls = List.map_filter (\<lambda>x. case x of Connect c \<Rightarrow> Some c | AddNode _ \<Rightarrow> None) calls"

definition lowerHarnessPlan :: "langgraph \<Rightarrow> 'w platform \<Rightarrow> 'w runtime_context \<Rightarrow> harness_plan \<Rightarrow> 'w lowered result" where
  "lowerHarnessPlan G P C p =
     guard_result (fst (snd (plan_engine p)) = ''harness-langgraph-v1'') ''langgraph.adapter_version_unsupported''
     (case mixed_fanout p of
        Some i \<Rightarrow> Inl (''langgraph.all_settled_mixed_fanout_unsupported:'' @ i)
      | None \<Rightarrow> bind_result (build G [] (lowering_steps P p)) (\<lambda>calls. bind_result (compiled G calls) (\<lambda>_.
          Inr \<lparr>lw_actions = map (\<lambda>n. (node_id n, node_action P C (settledSourceIds p) n)) (plan_nodes p),
               lw_connections = connected calls\<rparr>)))"

end
