(* ===== verification/RuntimeHost.thy ===== *)
theory RuntimeHost
  imports Lowering Provider
begin

text \<open>
  apps/runtime-host/src: the executor of one invocation and the HTTP host around it. LangGraph's
  builder, its engine, which runs a lowered plan under a deadline and an abort signal, and its checkpoint saver are
  parameters. The host's entries live in cells: the map from invocation identifiers names a cell, and a
  handler keeps the cell it made, also when a later invocation of the same name replaced it in the map.
\<close>

section \<open>The executor\<close>

record run_config =
  cf_thread_id :: string
  cf_checkpoint_ns :: string
  cf_recursionLimit :: int
  cf_maxConcurrency :: int
  cf_timeoutMs :: int

record 'w executor =
  ex_platform :: "'w platform"
  ex_langgraph :: langgraph
  ex_engine :: "'w lowered \<Rightarrow> harness_state \<Rightarrow> run_config \<Rightarrow> ('w, harness_state) act"
  ex_saver :: "(string \<Rightarrow> string \<Rightarrow> ('w, string option) act) option"
  ex_gatewayUrl :: string
  ex_caseApiUrl :: "string option"
  ex_controlPlaneUrl :: string
  ex_serviceToken :: "'w credential"
  ex_providerMetadata :: "(string \<times> string) list option"
  ex_createStateStore :: "(string \<Rightarrow> 'w journal) option"

text \<open>\<open>ex_saver\<close> gives the identifier of the latest checkpoint of a thread and namespace.\<close>

definition state_store :: "'w executor \<Rightarrow> string \<Rightarrow> 'w journal" where
  "state_store X grant = (case ex_createStateStore X of Some f \<Rightarrow> f grant
     | None \<Rightarrow> HttpRuntimeStateStore \<lparr>so_baseUrl = ex_controlPlaneUrl X, so_serviceToken = ex_serviceToken X,
         so_executionGrant = grant, so_fetch = pf_fetch (ex_platform X)\<rparr>)"

definition executor_context :: "'w executor \<Rightarrow> runtime_invocation \<Rightarrow> 'w runtime_context" where
  "executor_context X r = \<lparr>rc_state = state_store X (inv_executionGrant r), rc_plan = inv_plan r, rc_runId = inv_runId r,
     rc_runAttempt = nat (inv_attempt r), rc_workerId = inv_workerId r, rc_fencingEpoch = nat (inv_fencingEpoch r),
     rc_gatewayUrl = ex_gatewayUrl X, rc_caseApiUrl = (if ex_caseApiUrl X = Some [] then None else ex_caseApiUrl X),
     rc_envelopeBrokerUrl = ex_controlPlaneUrl X, rc_executionGrant = inv_executionGrant r, rc_serviceToken = ex_serviceToken X\<rparr>"

definition executor_config :: "runtime_invocation \<Rightarrow> int \<Rightarrow> run_config" where
  "executor_config r timeoutMs = \<lparr>cf_thread_id = inv_runId r, cf_checkpoint_ns = inv_planDigest r,
     cf_recursionLimit = plan_maxTransitions (inv_plan r), cf_maxConcurrency = plan_maxConcurrency (inv_plan r),
     cf_timeoutMs = timeoutMs\<rparr>"

definition executor_metadata :: "'w executor \<Rightarrow> (string \<times> string) list" where
  "executor_metadata X = or_else (ex_providerMetadata X) [(''host'', ''local_http'')]"

definition completed_result :: "'w executor \<Rightarrow> runtime_invocation \<Rightarrow> harness_state \<Rightarrow> string option \<Rightarrow> runtime_result" where
  "completed_result X r final checkpointId = \<lparr>res_invocationId = inv_invocationId r, res_runId = inv_runId r,
     res_status = ResCompleted, res_output = nullish (hs_output final) (JObj (hs_values final)), res_errorCode = None,
     res_checkpointId = checkpointId, res_providerMetadata = executor_metadata X\<rparr>"

definition failed_result :: "'w executor \<Rightarrow> runtime_invocation \<Rightarrow> code \<Rightarrow> runtime_result" where
  "failed_result X r errorCode = \<lparr>res_invocationId = inv_invocationId r, res_runId = inv_runId r,
     res_status = (if has_sub errorCode ''denied'' then ResDenied else ResFailed), res_output = JNull, res_errorCode = Some errorCode,
     res_checkpointId = None, res_providerMetadata = executor_metadata X\<rparr>"

definition run_lowered :: "'w executor \<Rightarrow> runtime_invocation \<Rightarrow> int \<Rightarrow> 'w lowered \<Rightarrow> ('w, runtime_result) act" where
  "run_lowered X r timeoutMs L =
     then_do (ex_engine X L (initial_state (inv_input r)) (executor_config r timeoutMs)) (\<lambda>final.
     then_do (case ex_saver X of None \<Rightarrow> yield None | Some f \<Rightarrow> f (inv_runId r) (inv_planDigest r)) (\<lambda>checkpointId.
     then_do (jn_markCheckpoint (state_store X (inv_executionGrant r)) (fencedRun (executor_context X r)) checkpointId None) (\<lambda>_.
       yield (completed_result X r final checkpointId))))"

definition executeRuntimeInvocation :: "'w executor \<Rightarrow> ('w \<Rightarrow> bool) \<Rightarrow> time \<Rightarrow> runtime_invocation \<Rightarrow> ('w, runtime_result) act" where
  \<comment> \<open>\<open>aborted\<close>: the cancellation signal, read when an error is caught; lowering is outside the \<open>try\<close>\<close>
  "executeRuntimeInvocation X aborted now r =
     (if \<not> runtime_invocation_ok r then throw ''ZodError''
      else if inv_deadlineAt r - now \<le> 0 then throw ''runtime.deadline_exceeded''
      else (case lowerHarnessPlan (ex_langgraph X) (ex_platform X) (executor_context X r) (inv_plan r) of
         Inl c \<Rightarrow> throw c
       | Inr L \<Rightarrow> caught (run_lowered X r (min (inv_deadlineAt r - now) (maxDurationMs (plan_budgets (inv_plan r)))) L)
           (\<lambda>code w. (w, Inr (failed_result X r (if aborted w then ''runtime.cancelled'' else code))))))"

section \<open>The host\<close>

record in_flight =
  if_state :: invocation_state
  if_aborted :: bool

record host =
  ho_names :: "(string \<times> nat) list"
  ho_cells :: "in_flight list"

definition empty_host :: host where
  "empty_host = \<lparr>ho_names = [], ho_cells = []\<rparr>"

definition tokenMatches :: "string option \<Rightarrow> string \<Rightarrow> bool" where
  "tokenMatches h expected = (let supplied = (case h of None \<Rightarrow> [] | Some v \<Rightarrow> if starts_with v ''Bearer '' then drop 7 v else [])
     in length supplied = length expected \<and> 0 < length supplied \<and> supplied = expected)"

definition entry :: "host \<Rightarrow> string \<Rightarrow> in_flight option" where
  "entry h i = map_option (\<lambda>n. ho_cells h ! n) (map_of (ho_names h) i)"

definition status_route :: "bool \<Rightarrow> host \<Rightarrow> string \<Rightarrow> invocation_state response" where
  \<comment> \<open>for a caller that is authorized or not\<close>
  "status_route ok h i = (if \<not> ok then Failure 401 ''runtime_host.unauthorized''
     else Reply 200 (case entry h i of None \<Rightarrow> InvUnknown | Some e \<Rightarrow> if_state e))"

definition cancel_route :: "bool \<Rightarrow> host \<Rightarrow> string \<Rightarrow> host \<times> unit response" where
  "cancel_route ok h i = (if \<not> ok then (h, Failure 401 ''runtime_host.unauthorized'')
     else (case map_of (ho_names h) i of
         None \<Rightarrow> (h, Failure 404 ''runtime_host.invocation_unknown'')
       | Some n \<Rightarrow> (h\<lparr>ho_cells := (ho_cells h)[n := (ho_cells h ! n)\<lparr>if_aborted := True\<rparr>]\<rparr>, Reply 202 ())))"

definition begin_invocation :: "host \<Rightarrow> string \<Rightarrow> host \<times> nat" where
  \<comment> \<open>the new entry and the cell the handler keeps\<close>
  "begin_invocation h i = (let n = length (ho_cells h) in
     (h\<lparr>ho_names := (i, n) # filter (\<lambda>(j, _). j \<noteq> i) (ho_names h), ho_cells := ho_cells h @ [\<lparr>if_state = InvRunning, if_aborted = False\<rparr>]\<rparr>, n))"

definition end_invocation :: "host \<Rightarrow> nat \<Rightarrow> code + runtime_result \<Rightarrow> host" where
  "end_invocation h n r = (let e = ho_cells h ! n;
       state = (case r of Inl _ \<Rightarrow> if if_aborted e then InvCancelled else InvFailed
         | Inr v \<Rightarrow> if res_status v = ResCompleted then InvCompleted else InvFailed)
     in h\<lparr>ho_cells := (ho_cells h)[n := e\<lparr>if_state := state\<rparr>]\<rparr>)"

definition forget_invocation :: "host \<Rightarrow> string \<Rightarrow> host" where
  "forget_invocation h i = h\<lparr>ho_names := filter (\<lambda>(j, _). j \<noteq> i) (ho_names h)\<rparr>"

definition unwrapped :: "json \<Rightarrow> bool \<times> json" where
  \<comment> \<open>whether the body is an object with a \<open>message\<close>, and the candidate\<close>
  "unwrapped body = (case body of JObj es \<Rightarrow> if map_of es ''message'' \<noteq> None then (True, obj_get es ''message'') else (False, body)
     | _ \<Rightarrow> (False, body))"

definition parsed_result :: "code + runtime_result \<Rightarrow> code + runtime_result" where
  \<comment> \<open>\<open>runtimeInvocationResultSchema.parse\<close> of what the executor returned\<close>
  "parsed_result r = (case r of Inl c \<Rightarrow> Inl c | Inr v \<Rightarrow> if res_errorCode v = Some [] then Inl ''ZodError'' else Inr v)"

definition invoke_route :: "('w executor) \<Rightarrow> bool \<Rightarrow> (json \<Rightarrow> runtime_invocation option) \<Rightarrow> ('w \<Rightarrow> host) \<Rightarrow> ((host \<Rightarrow> host) \<Rightarrow> 'w \<Rightarrow> 'w)
     \<Rightarrow> time \<Rightarrow> json \<Rightarrow> 'w \<Rightarrow> 'w \<times> (bool \<times> runtime_result) response" where
  \<comment> \<open>the world holds the host's entries, read by \<open>look\<close> and changed by \<open>change\<close>; the reply says whether the
    result is wrapped again\<close>
  "invoke_route X ok parse look change now body w =
     (if \<not> ok then (w, Failure 401 ''runtime_host.unauthorized'')
      else (case parse (snd (unwrapped body)) of
        None \<Rightarrow> (w, Failure 400 ''runtime_host.invalid_invocation'')
      | Some r \<Rightarrow> (let n = snd (begin_invocation (look w) (inv_invocationId r));
            w1 = change (\<lambda>h. fst (begin_invocation h (inv_invocationId r))) w;
            (w2, returned) = executeRuntimeInvocation X (\<lambda>w. if_aborted (ho_cells (look w) ! n)) now r w1;
            result = parsed_result returned;
            w3 = change (\<lambda>h. end_invocation h n result) w2
          in (w3, case result of Inl c \<Rightarrow> Failure 500 c | Inr v \<Rightarrow> Reply 200 (fst (unwrapped body), v)))))"

section \<open>Starting the host\<close>

text \<open>server.ts: what a host is configured with. The agent's own token comes from the platform in Azure
  mode, and only its scope is configuration; the checkpoint saver itself is LangGraph's.\<close>

datatype host_authorization = HostToken string | HostResolver resolver

record host_config =
  hf_credential :: "string + string"  \<comment> \<open>the scope of a fetched token, or a token\<close>
  hf_authorization :: host_authorization
  hf_backend :: string
  hf_gatewayUrl :: string
  hf_caseApiUrl :: string
  hf_controlPlaneUrl :: string
  hf_providerMetadata :: "(string \<times> string) list"

definition required_or :: "env \<Rightarrow> string \<Rightarrow> code \<Rightarrow> string result" where
  \<comment> \<open>\<open>requiredEnv(name, error)\<close>\<close>
  "required_or env name c = guard_result (present env name) c (Inr (the (env name)))"

definition host_invariants :: startup_invariants where
  "host_invariants = \<lparr>su_forbidden = [''RUNTIME_SERVICE_TOKEN'', ''RUNTIME_HOST_AUTH_TOKEN'', ''RUNTIME_CHECKPOINT_DATABASE_URL''],
     su_required = [''INTERNAL_API_TOKEN_SCOPE''], su_databaseUrls = [''RUNTIME_CHECKPOINT_DATABASE_URL'']\<rparr>"

definition checkpoint_backend :: "env \<Rightarrow> string result" where
  "checkpoint_backend env = (let b = or_else (env ''RUNTIME_CHECKPOINT_BACKEND'') ''postgres'' in
     if b = ''postgres'' then bind_result (required_or env ''RUNTIME_CHECKPOINT_DATABASE_URL'' ''runtime.checkpoint_database_url_missing'') (\<lambda>_. Inr b)
     else if b = ''memory'' then Inr b
     else Inl (''runtime.checkpoint_backend_unsupported:'' @ b))"

definition startRuntimeHost :: "(string \<Rightarrow> string option) \<Rightarrow> (string \<Rightarrow> bool) \<Rightarrow> env \<Rightarrow> host_config result" where
  "startRuntimeHost url_password url_ok env =
     guard_result (\<not> present env ''EXECUTION_ENVELOPE_SECRET'') ''runtime.envelope_secret_forbidden''
     (guard_result (\<not> present env ''RUNTIME_GRANT_SECRET'') ''runtime.grant_secret_forbidden''
     (bind_result (assertPlatformInvariants url_password host_invariants env) (\<lambda>_.
      bind_result (isAzureMode env) (\<lambda>azure.
      bind_result (if azure then bind_result (required_or env ''INTERNAL_API_TOKEN_SCOPE'' ''runtime.internal_api_token_scope_missing'') (\<lambda>s. Inr (Inl s))
        else bind_result (required_or env ''RUNTIME_SERVICE_TOKEN'' ''runtime.service_token_missing'') (\<lambda>t. Inr (Inr t))) (\<lambda>token.
      bind_result (if azure then bind_result (createWorkloadResolverFromEnv url_ok [] env) (\<lambda>r. Inr (Some r)) else Inr None) (\<lambda>resolver.
      bind_result (checkpoint_backend env) (\<lambda>backend.
      bind_result (case resolver of Some r \<Rightarrow> Inr (HostResolver r)
        | None \<Rightarrow> bind_result (required_or env ''RUNTIME_HOST_AUTH_TOKEN'' ''runtime_host.auth_token_missing'') (\<lambda>t. Inr (HostToken t))) (\<lambda>authorization.
      Inr \<lparr>hf_credential = token, hf_authorization = authorization, hf_backend = backend,
        hf_gatewayUrl = or_else (env ''CAPABILITY_GATEWAY_URL'') ''http://capability-gateway:4101'',
        hf_caseApiUrl = or_else (env ''CASE_API_URL'') ''http://case-api:4102'',
        hf_controlPlaneUrl = or_else (env ''ENVELOPE_BROKER_URL'') ''http://control-api:4100'',
        hf_providerMetadata = [(''host'', if azure then ''azure_foundry'' else ''local_http''),
          (''contractVersion'', ''runtime.invocation.v1''), (''checkpointBackend'', backend)]\<rparr>))))))))"

definition host_authorized :: "jwt_verifier \<Rightarrow> host_authorization \<Rightarrow> string option \<Rightarrow> bool" where
  \<comment> \<open>\<open>authorized\<close> of a request with this authorization header\<close>
  "host_authorized verify a h = (case a of
       HostToken t \<Rightarrow> tokenMatches h t
     | HostResolver r \<Rightarrow> (case resolve verify r (case h of None \<Rightarrow> [] | Some v \<Rightarrow> [(''authorization'', One v)]) of Inl _ \<Rightarrow> False | Inr _ \<Rightarrow> True))"

end
