(* ===== verification/LoweringClaims.thy ===== *)
theory LoweringClaims
  imports RuntimeHost RuntimeClaims DraftClaims
begin

text \<open>
  What the runtime makes of a plan: which edges of the plan the lowered graph follows, what a failing
  node means where a join settles, which plans no run can execute, and what the host tells about an
  invocation.
\<close>

section \<open>The edges of a lowered plan\<close>

fun follows :: "connection \<Rightarrow> (string \<times> string) set" where
  "follows (Barrier sources i) = set sources \<times> {i}"
| "follows (Conditional i r targets) = {i} \<times> set targets"
| "follows (Edge a b) = {(a, b)}"
| "follows _ = {}"

definition followed :: "'w lowered \<Rightarrow> (string \<times> string) set" where
  "followed L = (\<Union>c \<in> set (lw_connections L). follows c)"

definition ends :: "graph_edge \<Rightarrow> string \<times> string" where
  "ends e = (edge_from e, edge_to e)"

lemma plain_edges_follow:
  "plain_edges ids joins es = map Inr cs \<Longrightarrow>
     (\<Union>c \<in> set cs. follows c) = ends ` {e \<in> set es. \<not> (edge_to e \<in> set joins \<and> edge_kind e \<noteq> EControl)}"
proof (induction es arbitrary: cs)
  case (Cons e es)
  obtain ds where ds: "plain_edges ids joins es = map Inr ds"
    and cs: "cs = (if edge_to e \<in> set joins \<and> edge_kind e \<noteq> EControl then ds else Edge (edge_from e) (edge_to e) # ds)"
    using Cons.prems by (auto split: if_splits)
  have "{x \<in> set (e # es). \<not> (edge_to x \<in> set joins \<and> edge_kind x \<noteq> EControl)}
      = (if edge_to e \<in> set joins \<and> edge_kind e \<noteq> EControl then {} else {e}) \<union> {x \<in> set es. \<not> (edge_to x \<in> set joins \<and> edge_kind x \<noteq> EControl)}"
    by auto
  then show ?case using Cons.IH [OF ds] by (simp add: cs ends_def)
qed simp

definition outgoing :: "harness_plan \<Rightarrow> string \<Rightarrow> graph_edge list" where
  "outgoing p i = filter (\<lambda>e. edge_from e = i) (plan_edges p)"

definition routed :: "harness_plan \<Rightarrow> string \<Rightarrow> bool" where
  \<comment> \<open>the node chooses one of its control edges\<close>
  "routed p i \<longleftrightarrow> (\<exists>e \<in> set (outgoing p i). edge_kind e = EControl)"

definition taken :: "harness_plan \<Rightarrow> graph_node \<Rightarrow> graph_edge set" where
  "taken p n = {e \<in> set (outgoing p (node_id n)). if routed p (node_id n) then edge_kind e = EControl
     else node_kind n \<noteq> NOutput \<and> edge_to e \<notin> set (barrier_joins p)}"

lemma node_follows:
  assumes "node_connections P p n = map Inr cs"
  shows "(\<Union>c \<in> set cs. follows c) = ends ` taken p n"
proof -
  let ?out = "outgoing p (node_id n)" and ?controls = "filter (\<lambda>e. edge_kind e = EControl) (outgoing p (node_id n))"
  have cs: "(if ?controls \<noteq> [] then [Inr (Conditional (node_id n) (routeFor P p (node_id n)) (js_set (map edge_to ?controls)))]
      else if ?out = [] \<or> node_kind n = NOutput then [Inr (Finish (node_id n))]
      else plain_edges (map node_id (plan_nodes p)) (barrier_joins p) ?out) = map Inr cs"
    using assms unfolding node_connections_def outgoing_def Let_def .
  have routed: "routed p (node_id n) \<longleftrightarrow> ?controls \<noteq> []" by (auto simp: routed_def filter_empty_conv)
  have from_n: "edge_from e = node_id n" if "e \<in> set ?out" for e using that by (simp add: outgoing_def)
  consider "?controls \<noteq> []" | "?controls = []" "?out = [] \<or> node_kind n = NOutput"
    | "?controls = []" "node_kind n \<noteq> NOutput" "plain_edges (map node_id (plan_nodes p)) (barrier_joins p) ?out = map Inr cs"
    using cs by (auto split: if_splits)
  then show ?thesis
  proof cases
    case 1
    then have "cs = [Conditional (node_id n) (routeFor P p (node_id n)) (js_set (map edge_to ?controls))]" using cs by auto
    moreover have "taken p n = set ?controls" using 1 routed by (auto simp: taken_def)
    moreover have "ends ` set ?controls = {node_id n} \<times> edge_to ` set ?controls" using from_n by (force simp: ends_def)
    ultimately show ?thesis by simp
  next
    case 2
    then have "cs = [Finish (node_id n)]" using cs by (auto split: if_splits)
    moreover have "taken p n = {}" using 2 routed by (auto simp: taken_def)
    ultimately show ?thesis by simp
  next
    case 3
    have "taken p n = {e \<in> set ?out. \<not> (edge_to e \<in> set (barrier_joins p) \<and> edge_kind e \<noteq> EControl)}"
      using 3 routed by (auto simp: taken_def filter_empty_conv)
    then show ?thesis using plain_edges_follow [OF 3(3)] by simp
  qed
qed

lemma all_connections_follow:
  "concat (map (node_connections P p) ns) = map Inr cs \<Longrightarrow> (\<Union>c \<in> set cs. follows c) = (\<Union>n \<in> set ns. ends ` taken p n)"
proof (induction ns arbitrary: cs)
  case (Cons n ns)
  then obtain c1 c2 where c: "node_connections P p n = map Inr c1" "concat (map (node_connections P p) ns) = map Inr c2" "cs = c1 @ c2"
    by (auto simp: append_eq_map_conv)
  then show ?case using Cons.IH [OF c(2)] node_follows [OF c(1)] by (simp add: UN_Un)
qed simp

lemma build_Inr:
  "build G made steps = Inr calls \<longleftrightarrow> (\<exists>xs. steps = map Inr xs \<and> calls = made @ xs
     \<and> (\<forall>k < length xs. lg_refuses G (made @ take k xs) (xs ! k) = None))"
proof (induction G made steps rule: build.induct)
  case (3 G made x steps)
  show ?case
  proof (cases "lg_refuses G made x")
    case None
    have "(\<exists>xs. Inr x # steps = map Inr xs \<and> calls = made @ xs \<and> (\<forall>k < length xs. lg_refuses G (made @ take k xs) (xs ! k) = None))
      \<longleftrightarrow> (\<exists>xs. steps = map Inr xs \<and> calls = (made @ [x]) @ xs
          \<and> (\<forall>k < Suc (length xs). lg_refuses G (made @ take k (x # xs)) ((x # xs) ! k) = None))"
      by (auto simp: Cons_eq_map_conv)
    then show ?thesis using 3 [OF None] None by (simp add: All_less_Suc2)
  next
    case (Some c)
    then show ?thesis by (force simp: Cons_eq_map_conv)
  qed
qed auto

definition takes :: "langgraph \<Rightarrow> graph_call list \<Rightarrow> bool" where
  \<comment> \<open>LangGraph takes these calls, one after the other, and compiles the graph\<close>
  "takes G calls \<longleftrightarrow> (\<forall>k < length calls. lg_refuses G (take k calls) (calls ! k) = None) \<and> lg_compile G calls = None"

definition plan_calls :: "'w platform \<Rightarrow> harness_plan \<Rightarrow> graph_call list" where
  \<comment> \<open>the calls of the code for a plan\<close>
  "plan_calls P p = List.map_filter (\<lambda>x. case x of Inl _ \<Rightarrow> None | Inr c \<Rightarrow> Some c) (lowering_steps P p)"

lemma plan_calls_eq: "lowering_steps P p = map Inr xs \<Longrightarrow> plan_calls P p = xs"
  by (simp add: plan_calls_def map_filter_def o_def)

lemma lowers_iff:
  "lowerHarnessPlan G P C p = Inr L \<longleftrightarrow> fst (snd (plan_engine p)) = ''harness-langgraph-v1'' \<and> mixed_fanout p = None
     \<and> lowering_steps P p = map Inr (plan_calls P p) \<and> takes G (plan_calls P p)
     \<and> L = \<lparr>lw_actions = map (\<lambda>n. (node_id n, node_action P C (settledSourceIds p) n)) (plan_nodes p),
            lw_connections = connected (plan_calls P p)\<rparr>"
  by (auto simp: lowerHarnessPlan_def guard_result_def bind_result_Inr_iff build_Inr compiled_def takes_def plan_calls_eq
      split: option.splits)

lemma connected_append [simp]: "connected (xs @ ys) = connected xs @ connected ys"
  by (simp add: connected_def map_filter_def)

lemma connected_nodes [simp]: "connected (map (\<lambda>n. AddNode (f n)) ns) = []" "connected (map Connect cs) = cs"
  "connected (Connect c # calls) = c # connected calls"
  by (simp_all add: connected_def map_filter_def o_def)

lemma steps_Inr:
  "lowering_steps P p = map Inr xs \<longleftrightarrow> (\<exists>start cs. entry_nodes p = [start]
     \<and> concat (map (node_connections P p) (plan_nodes p)) = map Inr cs
     \<and> xs = map (\<lambda>n. AddNode (node_id n)) (plan_nodes p) @ map Connect (Start start # barriers p @ cs))"
proof -
  have inl: "map (map_sum id Connect) ys = map Inr zs \<longleftrightarrow> (\<exists>cs. ys = map Inr cs \<and> zs = map Connect cs)" for ys zs
  proof (induction ys arbitrary: zs)
    case (Cons y ys)
    then show ?case by (cases y; cases zs) (auto simp: Cons_eq_map_conv)
  qed auto
  have nodes: "map (\<lambda>n. Inr (AddNode (node_id n))) ns @ ys = map Inr xs
      \<longleftrightarrow> (\<exists>zs. ys = map Inr zs \<and> xs = map (\<lambda>n. AddNode (node_id n)) ns @ zs)" for ns xs and ys :: "(code + graph_call) list"
    by (induction ns arbitrary: xs) (auto simp: Cons_eq_map_conv)
  have one: "plan_connections P p = map Inr cs \<longleftrightarrow> (\<exists>start ds. entry_nodes p = [start]
      \<and> concat (map (node_connections P p) (plan_nodes p)) = map Inr ds \<and> cs = Start start # barriers p @ ds)" for cs
    by (auto simp: plan_connections_def Cons_eq_map_conv append_eq_map_conv inj_map_eq_map [OF inj_Inr] split: list.splits)
  show ?thesis unfolding lowering_steps_def nodes inl one by auto
qed

lemma lowered_Inr:
  assumes "lowerHarnessPlan G P C p = Inr L"
  obtains start cs where "entry_nodes p = [start]" and "concat (map (node_connections P p) (plan_nodes p)) = map Inr cs"
    and "lw_connections L = Start start # barriers p @ cs"
    and "lw_actions L = map (\<lambda>n. (node_id n, node_action P C (settledSourceIds p) n)) (plan_nodes p)"
  using assms by (auto simp: lowers_iff steps_Inr)

lemma barriers_follow:
  "(\<Union>c \<in> set (barriers p). follows c) =
     ends ` {e \<in> set (plan_edges p). edge_kind e \<noteq> EControl \<and> edge_to e \<in> set (barrier_joins p)}"
  by (auto simp: barriers_def join_sources_def data_edges_def ends_def)

lemma bex_taken: "(\<exists>e \<in> taken p n. ends e = (a, b)) \<longleftrightarrow> (\<exists>e \<in> set (plan_edges p). ends e = (a, b) \<and> node_id n = a \<and>
    (if routed p a then edge_kind e = EControl else node_kind n \<noteq> NOutput \<and> b \<notin> set (barrier_joins p)))"
  by (cases "routed p (node_id n)") (auto simp: taken_def ends_def outgoing_def)

lemma bex_swap: "(\<exists>n \<in> A. \<exists>e \<in> B. P e \<and> Q n \<and> R n e) \<longleftrightarrow> (\<exists>e \<in> B. P e \<and> (\<exists>n \<in> A. Q n \<and> R n e))"
  by blast

text \<open>C33. The lowered graph follows exactly these edges of the plan: the control edges of a node that has
  some, and for those edges that are not control edges, the ones into a join with several sources, and
  the ones of a node that is no output and has no control edge. So a node with a control edge takes none
  of its data edges outside a barrier.\<close>

theorem lowered_graph_follows_plan_edges:
  assumes "lowerHarnessPlan G P C p = Inr L"
  shows "(a, b) \<in> followed L \<longleftrightarrow> (\<exists>e \<in> set (plan_edges p). edge_from e = a \<and> edge_to e = b \<and>
    (if edge_kind e = EControl then a \<in> set (map node_id (plan_nodes p))
     else b \<in> set (barrier_joins p) \<or> (\<not> routed p a \<and> (\<exists>n \<in> set (plan_nodes p). node_id n = a \<and> node_kind n \<noteq> NOutput))))"
proof -
  obtain start cs where L: "concat (map (node_connections P p) (plan_nodes p)) = map Inr cs" "lw_connections L = Start start # barriers p @ cs"
    using assms by (rule lowered_Inr)
  have "followed L = ends ` {e \<in> set (plan_edges p). edge_kind e \<noteq> EControl \<and> edge_to e \<in> set (barrier_joins p)}
      \<union> (\<Union>n \<in> set (plan_nodes p). ends ` taken p n)"
    using all_connections_follow [OF L(1)] by (simp add: followed_def L(2) barriers_follow UN_Un)
  then have "(a, b) \<in> followed L \<longleftrightarrow> (\<exists>e \<in> set (plan_edges p). ends e = (a, b) \<and> edge_kind e \<noteq> EControl \<and> edge_to e \<in> set (barrier_joins p))
      \<or> (\<exists>n \<in> set (plan_nodes p). \<exists>e \<in> taken p n. ends e = (a, b))"
    by (auto simp: image_iff) metis+
  also have "(\<exists>n \<in> set (plan_nodes p). \<exists>e \<in> taken p n. ends e = (a, b)) \<longleftrightarrow>
      (\<exists>e \<in> set (plan_edges p). ends e = (a, b) \<and> (\<exists>n \<in> set (plan_nodes p). node_id n = a \<and>
         (if routed p a then edge_kind e = EControl else node_kind n \<noteq> NOutput \<and> b \<notin> set (barrier_joins p))))"
    unfolding bex_taken by (rule bex_swap)
  also have "(\<exists>e \<in> set (plan_edges p). ends e = (a, b) \<and> edge_kind e \<noteq> EControl \<and> edge_to e \<in> set (barrier_joins p)) \<or> \<dots> \<longleftrightarrow>
      (\<exists>e \<in> set (plan_edges p). edge_from e = a \<and> edge_to e = b \<and>
      (if edge_kind e = EControl then a \<in> set (map node_id (plan_nodes p))
       else b \<in> set (barrier_joins p) \<or> (\<not> routed p a \<and> (\<exists>n \<in> set (plan_nodes p). node_id n = a \<and> node_kind n \<noteq> NOutput))))"
    unfolding bex_disj_distrib [symmetric]
  proof (rule bex_cong [OF refl])
    fix e assume "e \<in> set (plan_edges p)"
    then have "edge_from e = a \<Longrightarrow> edge_kind e = EControl \<Longrightarrow> routed p a" by (auto simp: routed_def outgoing_def)
    then show "ends e = (a, b) \<and> edge_kind e \<noteq> EControl \<and> edge_to e \<in> set (barrier_joins p) \<or>
        ends e = (a, b) \<and> (\<exists>n \<in> set (plan_nodes p). node_id n = a \<and>
         (if routed p a then edge_kind e = EControl else node_kind n \<noteq> NOutput \<and> b \<notin> set (barrier_joins p))) \<longleftrightarrow>
        edge_from e = a \<and> edge_to e = b \<and> (if edge_kind e = EControl then a \<in> set (map node_id (plan_nodes p))
         else b \<in> set (barrier_joins p) \<or> (\<not> routed p a \<and> (\<exists>n \<in> set (plan_nodes p). node_id n = a \<and> node_kind n \<noteq> NOutput)))"
      by (auto simp: ends_def intro: rev_image_eqI)
  qed
  finally show ?thesis .
qed

section \<open>Which plans can be lowered\<close>

lemma plain_edges_total:
  "(\<exists>cs. plain_edges ids joins es = map Inr cs) \<longleftrightarrow> (\<forall>e \<in> set es. edge_to e \<in> set ids)"
  by (induction es) (auto simp: Cons_eq_map_conv)

lemma all_connections_total:
  "(\<exists>cs. concat (map (node_connections P p) ns) = map Inr cs) \<longleftrightarrow> (\<forall>n \<in> set ns. \<exists>cs. node_connections P p n = map Inr cs)"
  by (induction ns) (auto simp: append_eq_map_conv)

lemma node_connections_total:
  "(\<exists>cs. node_connections P p n = map Inr cs) \<longleftrightarrow> routed p (node_id n) \<or> node_kind n = NOutput
     \<or> (\<forall>e \<in> set (outgoing p (node_id n)). edge_to e \<in> set (map node_id (plan_nodes p)))"
proof -
  have r: "routed p (node_id n) \<longleftrightarrow> filter (\<lambda>e. edge_kind e = EControl) (outgoing p (node_id n)) \<noteq> []"
    by (auto simp: routed_def filter_empty_conv)
  have one: "\<exists>cs. [Inr x :: code + connection] = map Inr cs" for x by (rule exI [of _ "[x]"]) simp
  show ?thesis unfolding node_connections_def outgoing_def [symmetric] Let_def r
    using plain_edges_total [of "map node_id (plan_nodes p)" "barrier_joins p" "outgoing p (node_id n)"] one
    by (cases "outgoing p (node_id n) = []") simp_all
qed

lemma mixed_fanout_None:
  "mixed_fanout p = None \<longleftrightarrow>
     (\<forall>e \<in> set (plan_edges p). edge_from e \<in> set (settledSourceIds p) \<longrightarrow> edge_to e \<in> set (allSettledJoins p))"
  by (auto simp: mixed_fanout_def find_None_iff)

lemma one_entry: "length xs = 1 \<longleftrightarrow> (\<exists>x. xs = [x])"
  by (cases xs) auto

text \<open>C32. A valid plan can be lowered exactly if it has one entry, the sources of its settling joins go
  nowhere else, the edges that are followed one by one end at nodes of the plan, and LangGraph's
  builder takes the calls the code makes for it.\<close>

theorem plan_can_be_lowered_iff:
  assumes "harness_plan_ok p"
  shows "(\<exists>L. lowerHarnessPlan G P C p = Inr L) \<longleftrightarrow>
     length (entry_nodes p) = 1
     \<and> (\<forall>e \<in> set (plan_edges p). edge_from e \<in> set (settledSourceIds p) \<longrightarrow> edge_to e \<in> set (allSettledJoins p))
     \<and> (\<forall>n \<in> set (plan_nodes p). routed p (node_id n) \<or> node_kind n = NOutput
          \<or> (\<forall>e \<in> set (outgoing p (node_id n)). edge_to e \<in> set (map node_id (plan_nodes p))))
     \<and> takes G (plan_calls P p)"
proof -
  have engine: "fst (snd (plan_engine p)) = ''harness-langgraph-v1''" using assms by (simp add: harness_plan_ok_def)
  have "(\<exists>L. lowerHarnessPlan G P C p = Inr L) \<longleftrightarrow>
      mixed_fanout p = None \<and> (\<exists>xs. lowering_steps P p = map Inr xs) \<and> takes G (plan_calls P p)"
    unfolding lowers_iff using engine plan_calls_eq by blast
  moreover have "(\<exists>xs. lowering_steps P p = map Inr xs) \<longleftrightarrow> length (entry_nodes p) = 1
      \<and> (\<exists>cs. concat (map (node_connections P p) (plan_nodes p)) = map Inr cs)"
    unfolding steps_Inr one_entry by blast
  ultimately show ?thesis unfolding mixed_fanout_None all_connections_total node_connections_total by blast
qed

section \<open>Where a join settles\<close>

lemma observed_result: "observed P C i ex w = (w', Inr u) \<Longrightarrow> \<exists>w2. ex w = (w2, Inr u)"
  by (auto simp: observed_def caught_def then_do_def act_simps split: prod.splits sum.splits)

lemma observed_node_result:
  assumes "executeObservedNode P C i v ex w = (w', Inr u)"
  shows "\<exists>w1 w2. ex w1 = (w2, Inr u)"
  using assms unfolding executeObservedNode_def by (elim then_do_Inr) (blast dest: observed_result)

lemma node_update_shape:
  assumes "node_update P C n s w = (w', Inr u)"
  shows "\<exists>v. u = JObj ((''values'', JObj [(node_id n, v)]) # (if node_kind n = NOutput then [(''output'', v)] else []))"
  using assms unfolding node_update_def Let_def by (elim then_do_Inr) (auto simp: act_simps)

text \<open>C34. A node that a settling join waits for never fails the run: whatever its execution comes to, it
  returns a settlement for the join.\<close>

theorem settled_sources_never_fail:
  assumes "lowerHarnessPlan G P C p = Inr L" and "e \<in> set (plan_edges p)" and "edge_kind e \<noteq> EControl"
    and "edge_to e \<in> set (allSettledJoins p)" and "(edge_from e, action) \<in> set (lw_actions L)"
  shows "\<exists>es v. snd (action s w) = Inr (JObj es) \<and> obj_get es ''settlements'' = JObj [(edge_from e, v)]
     \<and> ((\<exists>x. v = fulfilled x) \<or> (\<exists>c. v = rejected c))"
proof -
  let ?i = "edge_from e"
  have settled: "?i \<in> set (settledSourceIds p)" using assms(2-4) by (auto simp: settledSourceIds_def)
  obtain n where n: "node_id n = ?i" and a: "action = node_action P C (settledSourceIds p) n"
    using assms(1,5) by (elim lowered_Inr) auto
  show ?thesis
  proof (cases "executeObservedNode P C ?i (nodeInput (rc_plan C) ?i s) (node_update P C n s) w")
    case (Pair w' r)
    show ?thesis
    proof (cases r)
      case (Inl c)
      then have "action s w = (w', Inr (JObj [settlement ?i (rejected c)]))"
        using settled Pair by (simp add: a node_action_def n caught_def then_do_def act_simps Let_def)
      then show ?thesis by (auto simp: settlement_def obj_get_def)
    next
      case (Inr u)
      then have "action s w = (w', Inr (JObj (obj_spread (object_or_empty u)
          [settlement ?i (fulfilled (js_member (js_member u ''values'') ?i))])))"
        using settled Pair by (simp add: a node_action_def n caught_def then_do_def act_simps Let_def)
      moreover have "distinct (map fst (object_or_empty u))"
        using observed_node_result [OF Pair [unfolded Inr]] node_update_shape [of P C n s]
        by (fastforce simp: object_or_empty_def)
      ultimately show ?thesis by (simp add: settlement_def obj_get_def map_of_obj_spread) blast
    qed
  qed
qed

section \<open>The executor\<close>

definition early_error :: "'w executor \<Rightarrow> time \<Rightarrow> runtime_invocation \<Rightarrow> code option" where
  \<comment> \<open>what is thrown before the graph runs\<close>
  "early_error X now r = (if \<not> runtime_invocation_ok r then Some ''ZodError''
     else if inv_deadlineAt r - now \<le> 0 then Some ''runtime.deadline_exceeded''
     else (case lowerHarnessPlan (ex_langgraph X) (ex_platform X) (executor_context X r) (inv_plan r) of Inl c \<Rightarrow> Some c | Inr L \<Rightarrow> None))"

inductive answer :: "'w executor \<Rightarrow> runtime_invocation \<Rightarrow> bool \<Rightarrow> runtime_result \<Rightarrow> bool" for X r where
  \<comment> \<open>what the executor may return, for a signal that was aborted or not\<close>
  completes: "answer X r aborted (completed_result X r final checkpointId)"
| fails: "answer X r aborted (failed_result X r (if aborted then ''runtime.cancelled'' else code))"

lemma run_lowered_result:
  assumes "run_lowered X r t L w = (w', Inr v)"
  shows "\<exists>final ck. v = completed_result X r final ck"
  using assms unfolding run_lowered_def by (elim then_do_Inr) (auto simp: act_simps)

lemma executes_early: "early_error X now r = Some c \<Longrightarrow> executeRuntimeInvocation X ab now r w = (w, Inl c)"
  by (auto simp: early_error_def executeRuntimeInvocation_def act_simps split: if_splits sum.splits)

lemma executes_late:
  assumes "early_error X now r = None"
  shows "\<exists>w' v. executeRuntimeInvocation X ab now r w = (w', Inr v) \<and> answer X r (ab w') v"
proof -
  obtain L where L: "lowerHarnessPlan (ex_langgraph X) (ex_platform X) (executor_context X r) (inv_plan r) = Inr L"
    and ok: "runtime_invocation_ok r" "\<not> inv_deadlineAt r - now \<le> 0"
    using assms by (auto simp: early_error_def split: if_splits sum.splits)
  let ?t = "min (inv_deadlineAt r - now) (maxDurationMs (plan_budgets (inv_plan r)))"
  obtain w' x where run: "run_lowered X r ?t L w = (w', x)" by (cases "run_lowered X r ?t L w")
  have e: "executeRuntimeInvocation X ab now r w
      = (w', case x of Inl code \<Rightarrow> Inr (failed_result X r (if ab w' then ''runtime.cancelled'' else code)) | Inr v \<Rightarrow> Inr v)"
    using L ok run by (cases x) (simp_all add: executeRuntimeInvocation_def caught_def)
  show ?thesis
  proof (cases x)
    case (Inl code)
    then show ?thesis unfolding e using answer.fails [of X r "ab w'" code] by simp
  next
    case (Inr v)
    then show ?thesis unfolding e using run_lowered_result [OF run [unfolded Inr]] by (auto intro: answer.completes)
  qed
qed

section \<open>What the host tells\<close>

record host_view =
  hv_host :: host
  hv_active :: "(nat \<times> string) list"  \<comment> \<open>the cells of the handlers that have not answered yet\<close>
  hv_timers :: "string list"  \<comment> \<open>the invocations to be forgotten\<close>

inductive host_reaches :: "'w executor \<Rightarrow> host_view \<Rightarrow> bool" for X where
  idle: "host_reaches X \<lparr>hv_host = empty_host, hv_active = [], hv_timers = []\<rparr>"
| refused: "host_reaches X V \<Longrightarrow> early_error X now r = Some c \<Longrightarrow> begin_invocation (hv_host V) (inv_invocationId r) = (h, n) \<Longrightarrow>
    host_reaches X (V\<lparr>hv_host := end_invocation h n (Inl c), hv_timers := inv_invocationId r # hv_timers V\<rparr>)"
| begun: "host_reaches X V \<Longrightarrow> early_error X now r = None \<Longrightarrow> begin_invocation (hv_host V) (inv_invocationId r) = (h, n) \<Longrightarrow>
    host_reaches X (V\<lparr>hv_host := h, hv_active := (n, inv_invocationId r) # hv_active V\<rparr>)"
| ended: "host_reaches X V \<Longrightarrow> (n, i) \<in> set (hv_active V) \<Longrightarrow> inv_invocationId r = i \<Longrightarrow>
    answer X r (if_aborted (ho_cells (hv_host V) ! n)) v \<Longrightarrow>
    host_reaches X (V\<lparr>hv_host := end_invocation (hv_host V) n (parsed_result (Inr v)),
      hv_active := filter (\<lambda>(m, _). m \<noteq> n) (hv_active V), hv_timers := i # hv_timers V\<rparr>)"
| cancelled: "host_reaches X V \<Longrightarrow> host_reaches X (V\<lparr>hv_host := fst (cancel_route ok (hv_host V) i)\<rparr>)"
| forgotten: "host_reaches X V \<Longrightarrow> i \<in> set (hv_timers V) \<Longrightarrow>
    host_reaches X (V\<lparr>hv_host := forget_invocation (hv_host V) i, hv_timers := remove1 i (hv_timers V)\<rparr>)"

definition host_inv :: "host_view \<Rightarrow> bool" where
  "host_inv V \<longleftrightarrow> (let cells = ho_cells (hv_host V) in
     (\<forall>(n, i) \<in> set (hv_active V). n < length cells)
     \<and> (\<forall>n < length cells. if_state (cells ! n) = InvRunning \<longleftrightarrow> n \<in> fst ` set (hv_active V))
     \<and> (\<forall>n < length cells. if_state (cells ! n) \<notin> {InvCancelled, InvUnknown})
     \<and> (\<forall>(i, n) \<in> set (ho_names (hv_host V)). n < length cells \<and> (\<forall>j. (n, j) \<in> set (hv_active V) \<longrightarrow> j = i)))"

lemma cancelled_is_refused_early:
  "answer X r ab v \<Longrightarrow> ab \<Longrightarrow> parsed_result (Inr v) = Inl c \<Longrightarrow> False"
  by (auto elim!: answer.cases simp: parsed_result_def completed_result_def failed_result_def split: if_splits)

lemma host_inv_parts:
  "host_inv V \<longleftrightarrow> (\<forall>n i. (n, i) \<in> set (hv_active V) \<longrightarrow> n < length (ho_cells (hv_host V)))
     \<and> (\<forall>n < length (ho_cells (hv_host V)). (if_state (ho_cells (hv_host V) ! n) = InvRunning \<longleftrightarrow> n \<in> fst ` set (hv_active V))
          \<and> if_state (ho_cells (hv_host V) ! n) \<notin> {InvCancelled, InvUnknown})
     \<and> (\<forall>i n. (i, n) \<in> set (ho_names (hv_host V)) \<longrightarrow> n < length (ho_cells (hv_host V)) \<and> (\<forall>j. (n, j) \<in> set (hv_active V) \<longrightarrow> j = i))"
  unfolding host_inv_def Let_def by fast

lemma end_state:
  "n < length (ho_cells h) \<Longrightarrow> \<exists>s. end_invocation h n r = h\<lparr>ho_cells := (ho_cells h)[n := (ho_cells h ! n)\<lparr>if_state := s\<rparr>]\<rparr>
     \<and> s \<noteq> InvRunning \<and> s \<noteq> InvUnknown \<and> (s = InvCancelled \<longrightarrow> isl r \<and> if_aborted (ho_cells h ! n))"
  by (cases r) (auto simp: end_invocation_def Let_def)

lemma begun_host:
  assumes "begin_invocation h i = (h', n)"
  shows "n = length (ho_cells h)" and "ho_cells h' = ho_cells h @ [\<lparr>if_state = InvRunning, if_aborted = False\<rparr>]"
    and "(j, m) \<in> set (ho_names h') \<longleftrightarrow> (j, m) = (i, n) \<or> ((j, m) \<in> set (ho_names h) \<and> j \<noteq> i)"
  using assms by (auto simp: begin_invocation_def Let_def)

lemma begun_keeps:
  assumes V: "host_inv V" and b: "begin_invocation (hv_host V) i = (h, n)"
  shows "host_inv (V\<lparr>hv_host := h, hv_active := (n, i) # hv_active V\<rparr>)"
proof -
  note b = begun_host [OF b]
  have fresh: "(n, j) \<notin> set (hv_active V)" for j using V b(1) by (auto simp: host_inv_parts)
  show ?thesis using V fresh unfolding host_inv_parts
    by (simp add: b) (fastforce simp: nth_append less_Suc_eq image_iff b(1))
qed

lemma refused_keeps:
  assumes V: "host_inv V" and b: "begin_invocation (hv_host V) i = (h, n)"
  shows "host_inv (V\<lparr>hv_host := end_invocation h n (Inl c), hv_timers := t\<rparr>)"
proof -
  note b = begun_host [OF b]
  have fresh: "(n, j) \<notin> set (hv_active V)" for j using V b(1) by (auto simp: host_inv_parts)
  have e: "end_invocation h n (Inl c) = h\<lparr>ho_cells := ho_cells (hv_host V) @ [\<lparr>if_state = InvFailed, if_aborted = False\<rparr>]\<rparr>"
    by (simp add: end_invocation_def b(1,2) Let_def)
  show ?thesis using V fresh unfolding host_inv_parts e
    by (simp add: b) (fastforce simp: nth_append less_Suc_eq image_iff b(1))
qed

lemma ended_keeps:
  assumes V: "host_inv V" and n: "(n, i) \<in> set (hv_active V)" and r: "if_aborted (ho_cells (hv_host V) ! n) \<Longrightarrow> \<not> isl r"
  shows "host_inv (V\<lparr>hv_host := end_invocation (hv_host V) n r, hv_active := filter (\<lambda>(m, _). m \<noteq> n) (hv_active V), hv_timers := t\<rparr>)"
proof -
  have len: "n < length (ho_cells (hv_host V))" using V n by (auto simp: host_inv_parts)
  obtain s where e: "end_invocation (hv_host V) n r = (hv_host V)\<lparr>ho_cells := (ho_cells (hv_host V))[n := (ho_cells (hv_host V) ! n)\<lparr>if_state := s\<rparr>]\<rparr>"
    and s: "s \<notin> {InvRunning, InvUnknown, InvCancelled}"
    using end_state [OF len, of r] r by auto
  show ?thesis using V s len unfolding host_inv_parts e
    by (simp add: nth_list_update) (fastforce simp: image_iff)
qed

lemma state_after_abort: "if_state (xs[n := (xs ! n)\<lparr>if_aborted := b\<rparr>] ! m) = if_state (xs ! m)"
  by (cases "n < length xs"; cases "m = n") (simp_all add: list_update_beyond)

lemma cancelled_keeps:
  assumes "host_inv V"
  shows "host_inv (V\<lparr>hv_host := fst (cancel_route ok (hv_host V) i)\<rparr>)"
proof (cases "ok \<and> map_of (ho_names (hv_host V)) i \<noteq> None")
  case False
  then show ?thesis using assms by (auto simp: cancel_route_def)
next
  case True
  then obtain n where "map_of (ho_names (hv_host V)) i = Some n" "ok" by blast
  then show ?thesis using assms by (simp add: cancel_route_def host_inv_parts state_after_abort)
qed

lemma host_reaches_inv: "host_reaches X V \<Longrightarrow> host_inv V"
proof (induction rule: host_reaches.induct)
  case idle
  show ?case by (simp add: host_inv_parts empty_host_def)
next
  case (refused V now r c h n)
  then show ?case using refused_keeps by simp
next
  case (begun V now r h n)
  then show ?case using begun_keeps by simp
next
  case (ended V n i r v)
  have "\<not> isl (parsed_result (Inr v))" if "if_aborted (ho_cells (hv_host V) ! n)"
    using cancelled_is_refused_early [OF ended.hyps(4) that] by (cases "parsed_result (Inr v)") auto
  with ended.IH ended.hyps(2) show ?case by (rule ended_keeps)
next
  case (cancelled V ok i)
  then show ?case using cancelled_keeps by simp
next
  case (forgotten V i)
  then show ?case by (auto simp: host_inv_parts forget_invocation_def)
qed

text \<open>What the host answers about an invocation: it is running exactly while the handler of its entry has
  not answered, and it never reads cancelled, since the executor makes a failed result out of a
  cancellation.\<close>

theorem host_tells_running_truly_and_never_cancelled:
  assumes "host_reaches X V"
  shows "\<exists>st. status_route True (hv_host V) i = Reply 200 st \<and> st \<noteq> InvCancelled
    \<and> (st = InvRunning \<longleftrightarrow> (\<exists>n. map_of (ho_names (hv_host V)) i = Some n \<and> (n, i) \<in> set (hv_active V)))"
proof (cases "map_of (ho_names (hv_host V)) i")
  case None
  then show ?thesis by (simp add: status_route_def entry_def)
next
  case (Some n)
  have inv: "host_inv V" using assms by (rule host_reaches_inv)
  have n: "n < length (ho_cells (hv_host V))" "\<And>j. (n, j) \<in> set (hv_active V) \<Longrightarrow> j = i"
    using inv map_of_SomeD [OF Some] by (auto simp: host_inv_parts)
  have "if_state (ho_cells (hv_host V) ! n) = InvRunning \<longleftrightarrow> (n, i) \<in> set (hv_active V)"
    using inv n by (force simp: host_inv_parts image_iff)
  moreover have "if_state (ho_cells (hv_host V) ! n) \<noteq> InvCancelled" using inv n(1) by (simp add: host_inv_parts)
  ultimately show ?thesis using Some by (simp add: status_route_def entry_def)
qed

section \<open>What a hosted runtime holds\<close>

text \<open>In Azure mode a runtime host starts only without a signing secret, a static token and a database
  URL, so it keeps its checkpoints in memory, and it accepts callers by verified tokens only.\<close>

theorem azure_host_holds_no_secret:
  assumes "isAzureMode env = Inr True" and "startRuntimeHost url_password url_ok env = Inr h"
  shows "hf_backend h = ''memory'' \<and> (\<exists>opt. hf_authorization h = HostResolver (EntraJwtPrincipalResolver opt))
    \<and> (\<exists>scope. hf_credential h = Inl scope)
    \<and> filter (present env) [''EXECUTION_ENVELOPE_SECRET'', ''RUNTIME_GRANT_SECRET'', ''RUNTIME_SERVICE_TOKEN'',
        ''RUNTIME_HOST_AUTH_TOKEN'', ''RUNTIME_CHECKPOINT_DATABASE_URL''] = []"
proof -
  obtain su: "assertPlatformInvariants url_password host_invariants env = Inr ()"
    and secrets: "\<not> present env ''EXECUTION_ENVELOPE_SECRET''" "\<not> present env ''RUNTIME_GRANT_SECRET''"
    using assms(2) by (auto simp: startRuntimeHost_def guard_result_Inr_iff bind_result_Inr_iff)
  have "invariant_failures url_password host_invariants env = []"
    using su assms(1) by (simp add: assertPlatformInvariants_def guard_result_def Let_def split: if_splits)
  then have none: "\<not> present env ''RUNTIME_SERVICE_TOKEN''" "\<not> present env ''RUNTIME_HOST_AUTH_TOKEN''"
    "\<not> present env ''RUNTIME_CHECKPOINT_DATABASE_URL''"
    by (auto simp: invariant_failures_def host_invariants_def split: if_splits)
  obtain scope r b where parts: "createWorkloadResolverFromEnv url_ok [] env = Inr r" "checkpoint_backend env = Inr b"
    "hf_backend h = b" "hf_authorization h = HostResolver r" "hf_credential h = Inl scope"
    using assms by (auto simp: startRuntimeHost_def guard_result_Inr_iff bind_result_Inr_iff)
  have "b = ''memory''" using parts(2) none(3)
    by (auto simp: checkpoint_backend_def required_or_def guard_result_def Let_def split: if_splits)
  moreover obtain x where "(case x of EntraJwtPrincipalResolver opt \<Rightarrow> Inr x
      | _ \<Rightarrow> Inl ''identity.workload_resolver_requires_entra_in_azure_mode'') = Inr r"
    using parts(1) assms(1) by (auto simp: createWorkloadResolverFromEnv_def bind_result_Inr_iff)
  then have "\<exists>opt. r = EntraJwtPrincipalResolver opt" by (cases x) auto
  ultimately show ?thesis using parts secrets none by simp
qed

section \<open>Examples\<close>

definition hosted_env :: env where
  "hosted_env = map_of [(''PLATFORM_MODE'', ''azure''), (''INTERNAL_API_TOKEN_SCOPE'', ''api://ehf''), (''RUNTIME_CHECKPOINT_BACKEND'', ''memory''),
     (''ENTRA_TENANT_ID'', ''t''), (''PLATFORM_TENANT_ID'', ''acme''), (''ENTRA_API_AUDIENCE'', ''api://ehf'')]"

theorem azure_host_holds_no_secret_witness:
  "\<exists>h. startRuntimeHost (\<lambda>_. None) (\<lambda>_. True) hosted_env = Inr h \<and> hf_backend h = ''memory''"
proof -
  have azure: "isAzureMode hosted_env = Inr True" by code_simp
  have "\<not> isl (startRuntimeHost (\<lambda>_. None) (\<lambda>_. True) hosted_env)" by code_simp
  then obtain h where h: "startRuntimeHost (\<lambda>_. None) (\<lambda>_. True) hosted_env = Inr h"
    by (cases "startRuntimeHost (\<lambda>_. None) (\<lambda>_. True) hosted_env") auto
  show ?thesis using azure_host_holds_no_secret [OF azure h] h by blast
qed

definition plan_part :: "string \<Rightarrow> node_kind \<Rightarrow> entries \<Rightarrow> graph_node" where
  "plan_part i k config = \<lparr>node_id = i, node_kind = k, node_name = i, node_summary = None, node_prompt = None,
     node_inputSchema = JObj [], node_outputSchema = JObj [], node_config = config\<rparr>"

definition plan_link :: "string \<Rightarrow> string \<Rightarrow> graph_edge" where
  "plan_link a b = \<lparr>edge_id = a @ b, edge_from = a, edge_to = b, edge_kind = EData, edge_condition = None,
     edge_sourcePath = None, edge_targetPath = None\<rparr>"

definition settling_plan :: harness_plan where
  "settling_plan = (draft_plan ''p'')\<lparr>plan_nodes := [plan_part ''in'' NInput [], plan_part ''a'' NTool [], plan_part ''b'' NTool [],
       plan_part ''j'' NJoin [(''mode'', JStr ''allSettled'')], plan_part ''out'' NOutput []],
     plan_edges := [plan_link ''in'' ''a'', plan_link ''in'' ''b'', plan_link ''a'' ''j'', plan_link ''b'' ''j'', plan_link ''j'' ''out''],
     plan_nodeOrder := [''in'', ''a'', ''b'', ''j'', ''out'']\<rparr>"

definition two_entries :: harness_plan where
  "two_entries = (draft_plan ''p'')\<lparr>plan_nodes := [plan_part ''a'' NInput [], plan_part ''b'' NInput [], plan_part ''out'' NOutput []],
     plan_edges := [plan_link ''a'' ''out'', plan_link ''b'' ''out''], plan_nodeOrder := [''a'', ''b'', ''out'']\<rparr>"

definition offline :: "unit platform" where
  "offline = demo_platform (\<lambda>r w. (w, NetworkError ''fetch failed''))"

definition offline_context :: "harness_plan \<Rightarrow> unit runtime_context" where
  "offline_context p = demo_context (StaticToken ''t'') (HttpRuntimeStateStore \<lparr>so_baseUrl = ''http://control'',
     so_serviceToken = StaticToken ''t'', so_executionGrant = ''grant'', so_fetch = pf_fetch offline\<rparr>) p"

fun reaches_unknown :: "string list \<Rightarrow> connection \<Rightarrow> bool" where
  "reaches_unknown ids (Start i) = (i \<notin> set ids)"
| "reaches_unknown ids (Barrier sources i) = (\<not> set (i # sources) \<subseteq> set ids)"
| "reaches_unknown ids (Conditional i r targets) = (\<not> set (i # targets) \<subseteq> set ids)"
| "reaches_unknown ids (Finish i) = (i \<notin> set ids)"
| "reaches_unknown ids (Edge i j) = (\<not> {i, j} \<subseteq> set ids)"

definition strict_builder :: langgraph where
  \<comment> \<open>a builder that refuses a node it has and a graph with a connection to a node it has not\<close>
  "strict_builder = \<lparr>
     lg_refuses = (\<lambda>made x. if (case x of AddNode i \<Rightarrow> i \<in> set (List.map_filter (\<lambda>y. case y of AddNode j \<Rightarrow> Some j | _ \<Rightarrow> None) made) | Connect _ \<Rightarrow> False) then Some ''node already present'' else None),
     lg_compile = (\<lambda>made. let ids = List.map_filter (\<lambda>x. case x of AddNode i \<Rightarrow> Some i | _ \<Rightarrow> None) made in
       if \<exists>c \<in> set (connected made). reaches_unknown ids c then Some ''unknown node'' else None)\<rparr>"

definition settling_lowered :: "unit lowered" where
  "settling_lowered = (case lowerHarnessPlan strict_builder offline (offline_context settling_plan) settling_plan of Inr L \<Rightarrow> L)"

lemma settling_lowers: "lowerHarnessPlan strict_builder offline (offline_context settling_plan) settling_plan = Inr settling_lowered"
proof -
  have "\<not> isl (lowerHarnessPlan strict_builder offline (offline_context settling_plan) settling_plan)" by code_simp
  then show ?thesis by (auto simp: settling_lowered_def split: sum.splits)
qed

theorem lowered_graph_follows_plan_edges_witness:
  "(''b'', ''j'') \<in> followed settling_lowered \<and> (''in'', ''j'') \<notin> followed settling_lowered"
proof -
  note f = lowered_graph_follows_plan_edges [OF settling_lowers]
  have "(''b'', ''j'') \<in> followed settling_lowered" unfolding f by code_simp
  moreover have "(''in'', ''j'') \<notin> followed settling_lowered" unfolding f by code_simp
  ultimately show ?thesis ..
qed

theorem plan_can_be_lowered_iff_witness:
  "harness_plan_ok two_entries \<and> (\<nexists>L. lowerHarnessPlan strict_builder offline (offline_context two_entries) two_entries = Inr L)"
proof -
  have ok: "harness_plan_ok two_entries" by code_simp
  moreover have "length (entry_nodes two_entries) \<noteq> 1" by code_simp
  ultimately show ?thesis using plan_can_be_lowered_iff [OF ok, of strict_builder offline "offline_context two_entries"] by simp
qed

text \<open>Neither the plan's schema nor the evaluation of a compiled plan looks at its entries, so a plan with
  two of them passes both and every run of it fails before its graph starts.\<close>

theorem evaluated_plan_can_be_unrunnable:
  "\<exists>p. harness_plan_ok p \<and> rep_passed (evaluateCompiledPlan t p)
     \<and> (\<forall>G P C. \<nexists>L. lowerHarnessPlan G P C p = Inr L)"
proof -
  have ok: "harness_plan_ok two_entries" and passed: "rep_passed (evaluateCompiledPlan [] two_entries)"
    and n: "entry_nodes two_entries = [''a'', ''b'']" by code_simp+
  have "\<nexists>L. lowerHarnessPlan G P C two_entries = Inr L" for G and P :: "'a platform" and C
    using n by (simp add: lowers_iff steps_Inr)
  moreover have "rep_passed (evaluateCompiledPlan t two_entries)" using passed by (simp add: evaluateCompiledPlan_def)
  ultimately show ?thesis using ok by (intro exI [of _ two_entries]) blast
qed

lemma settling_action:
  "(''a'', node_action offline (offline_context settling_plan) (settledSourceIds settling_plan) (plan_part ''a'' NTool []))
     \<in> set (lw_actions settling_lowered)"
proof -
  have "plan_part ''a'' NTool [] \<in> set (plan_nodes settling_plan)" by (simp add: settling_plan_def)
  moreover have "node_id (plan_part ''a'' NTool []) = ''a''" by (simp add: plan_part_def)
  ultimately show ?thesis using settling_lowers by (elim lowered_Inr) force
qed

theorem settled_sources_never_fail_witness:
  "\<exists>es v. snd (node_action offline (offline_context settling_plan) (settledSourceIds settling_plan) (plan_part ''a'' NTool [])
       (initial_state JNull) ()) = Inr (JObj es) \<and> obj_get es ''settlements'' = JObj [(''a'', v)]
     \<and> ((\<exists>x. v = fulfilled x) \<or> (\<exists>c. v = rejected c))"
proof -
  let ?e = "plan_link ''a'' ''j''"
  have "?e \<in> set (plan_edges settling_plan)" by (simp add: settling_plan_def)
  moreover have "edge_kind ?e \<noteq> EControl" by (simp add: plan_link_def)
  moreover have "edge_to ?e \<in> set (allSettledJoins settling_plan)" by code_simp
  moreover have from_a: "edge_from ?e = ''a''" by (simp add: plan_link_def)
  ultimately show ?thesis
    using settled_sources_never_fail [OF settling_lowers, of ?e _ "initial_state JNull" "()"] settling_action unfolding from_a by blast
qed

definition settling_run :: runtime_invocation where
  "settling_run = \<lparr>inv_invocationId = ''INV-1'', inv_runId = ''RUN-1'', inv_attempt = 1, inv_workerId = ''w1'', inv_leaseId = ''l1'',
     inv_fencingEpoch = 1, inv_deadlineAt = 5, inv_planDigest = plan_planDigest settling_plan,
     inv_executionProfileDigest = replicate 64 (CHR ''a''), inv_executionGrant = ''grant'', inv_plan = settling_plan, inv_input = JNull\<rparr>"

definition local_executor :: "unit executor" where
  "local_executor = \<lparr>ex_platform = offline, ex_langgraph = strict_builder, ex_engine = (\<lambda>L s c w. (w, Inr s)), ex_saver = None, ex_gatewayUrl = ''http://gateway'',
     ex_caseApiUrl = None, ex_controlPlaneUrl = ''http://control'', ex_serviceToken = StaticToken ''t'',
     ex_providerMetadata = None, ex_createStateStore = None\<rparr>"

definition running_host :: host where
  "running_host = fst (begin_invocation empty_host ''INV-1'')"

definition cancelled_host :: host where
  \<comment> \<open>the invocation was cancelled and its handler has answered\<close>
  "cancelled_host = end_invocation (fst (cancel_route True running_host ''INV-1'')) 0
     (parsed_result (Inr (failed_result local_executor settling_run ''runtime.cancelled'')))"

lemma cancelled_host_reached:
  "host_reaches local_executor \<lparr>hv_host = cancelled_host, hv_active = [], hv_timers = [''INV-1'']\<rparr>"
proof -
  have early: "early_error local_executor 0 settling_run = None" by code_simp
  have b: "begin_invocation empty_host (inv_invocationId settling_run) = (running_host, 0)"
    by (simp add: running_host_def begin_invocation_def empty_host_def settling_run_def)
  have i: "inv_invocationId settling_run = ''INV-1''" by (simp add: settling_run_def)
  note r1 = host_reaches.begun [OF host_reaches.idle early, unfolded host_view.simps, OF b]
  note r2 = host_reaches.cancelled [OF r1, of True "''INV-1''"]
  have "answer local_executor settling_run True (failed_result local_executor settling_run ''runtime.cancelled'')"
    using answer.fails [of local_executor settling_run True] by simp
  moreover have "if_aborted (ho_cells (fst (cancel_route True running_host ''INV-1'')) ! 0)" by code_simp
  ultimately have "answer local_executor settling_run (if_aborted (ho_cells (fst (cancel_route True running_host ''INV-1'')) ! 0))
      (failed_result local_executor settling_run ''runtime.cancelled'')" by simp
  then show ?thesis using host_reaches.ended [OF r2, of 0 "''INV-1''" settling_run] by (simp add: i cancelled_host_def)
qed

theorem host_tells_running_truly_and_never_cancelled_witness:
  "status_route True cancelled_host ''INV-1'' = Reply 200 InvFailed \<and>
   (\<exists>st. status_route True cancelled_host ''INV-1'' = Reply 200 st \<and> st \<noteq> InvCancelled)"
proof
  show "status_route True cancelled_host ''INV-1'' = Reply 200 InvFailed" by code_simp
  show "\<exists>st. status_route True cancelled_host ''INV-1'' = Reply 200 st \<and> st \<noteq> InvCancelled"
    using host_tells_running_truly_and_never_cancelled [OF cancelled_host_reached, of "''INV-1''"] by auto
qed

end
