(* ===== verification/ControlRuns.thy ===== *)
theory ControlRuns
  imports ControlAuthoring CaseApi Provider
begin

text \<open>
  The run routes of apps/control-api/src/app.ts and its reads of plans and receipts. A route runs up to
  two statements; each has a state of the ledger of its own, since other requests run between them.
  \<open>Number\<close> of a query parameter is a parameter (None is NaN), and so is the text of a trace viewer.
\<close>

section \<open>The service\<close>

record runs_api =
  ra_verify :: jwt_verifier
  ra_workload :: resolver
  ra_sha :: "string \<Rightarrow> string"
  ra_number :: "string \<Rightarrow> decimal option"
  ra_traceViewer :: "string option"

datatype run_view =
    ViewRuns "run_row list"
  | ViewRun run_row
  | ViewTrace string string bool "string option"
  | ViewEvents "event_row list"
  | ViewAttempts "attempt_row list"
  | ViewReceipts "receipt_row list"
  | ViewPlanRecords "(harness_plan \<times> time) list"

definition run_principal :: "runs_api \<Rightarrow> headers \<Rightarrow> platform_action \<Rightarrow> string \<Rightarrow> string option \<Rightarrow> auth_failure + principal" where
  "run_principal A hs action kind' i = guard_require (ra_verify A) (DelegatedPrincipalResolver (ra_workload A)) hs action
     \<lparr>rs_kind = kind', rs_id = i, rs_tenantId = None\<rparr>"

definition authorized_as :: "runs_api \<Rightarrow> headers \<Rightarrow> platform_action \<Rightarrow> string \<Rightarrow> string option \<Rightarrow> (principal \<Rightarrow> 'a response) \<Rightarrow> 'a response" where
  "authorized_as A hs action kind' i k = (case run_principal A hs action kind' i of
     Inl f \<Rightarrow> auth_response ''control.internal_error'' f | Inr p \<Rightarrow> k p)"

abbreviation no_run :: "'a response" where
  "no_run \<equiv> Failure 404 ''run.not_found''"

section \<open>Reads\<close>

definition listPlanRecords :: "db \<Rightarrow> string \<Rightarrow> (harness_plan \<times> time) list" where
  "listPlanRecords d tenantId = map (\<lambda>r. (pl_plan r, pl_admitted_at r)) (take 100
     (rev (sort_key pl_admitted_at (filter (\<lambda>r. pl_tenant_id r = tenantId) (plans d)))))"

definition plan_records_route :: "runs_api \<Rightarrow> headers \<Rightarrow> db \<Rightarrow> run_view response" where
  "plan_records_route A hs d = authorized_as A hs PlanRead ''plan'' None (\<lambda>p. Reply 200 (ViewPlanRecords (listPlanRecords d (pr_tenantId p))))"

definition runs_route :: "runs_api \<Rightarrow> headers \<Rightarrow> db \<Rightarrow> run_view response" where
  "runs_route A hs d = authorized_as A hs RunRead ''run'' None (\<lambda>p. Reply 200 (ViewRuns (listRuns d (pr_tenantId p) 100)))"

definition run_route :: "runs_api \<Rightarrow> headers \<Rightarrow> string \<Rightarrow> db \<Rightarrow> run_view response" where
  "run_route A hs i d = authorized_as A hs RunRead ''run'' (Some i) (\<lambda>p.
     case getRun d i (Some (pr_tenantId p)) of None \<Rightarrow> no_run | Some r \<Rightarrow> Reply 200 (ViewRun r))"

definition trace_view :: "string option \<Rightarrow> run_row \<Rightarrow> run_view response" where
  "trace_view viewer r = (if nonempty (run_trace_id r) \<and> nonempty (run_root_span_id r)
     then Reply 200 (ViewTrace (the (run_trace_id r)) (the (run_root_span_id r)) (odd (or_else (run_trace_flags r) 0))
       (case map_option without_slash viewer of None \<Rightarrow> None
          | Some base \<Rightarrow> if base = [] then None else Some (base @ ''/trace/'' @ the (run_trace_id r))))
     else Failure 404 ''trace.not_bound'')"

definition trace_route :: "runs_api \<Rightarrow> headers \<Rightarrow> string \<Rightarrow> db \<Rightarrow> run_view response" where
  "trace_route A hs i d = authorized_as A hs RunRead ''run'' (Some i) (\<lambda>p.
     case getRun d i (Some (pr_tenantId p)) of None \<Rightarrow> no_run | Some r \<Rightarrow> trace_view (ra_traceViewer A) r)"

definition sequence_bound :: "decimal option \<Rightarrow> nat option" where
  \<comment> \<open>a bound PostgreSQL accepts for its 64-bit column; a negative one excludes nothing\<close>
  "sequence_bound n = (case n of None \<Rightarrow> None
     | Some (m, e) \<Rightarrow> if e = 0 \<and> - (2 ^ 63) \<le> m \<and> m < 2 ^ 63 then Some (nat m) else None)"

definition run_events_route :: "runs_api \<Rightarrow> headers \<Rightarrow> string \<Rightarrow> string option \<Rightarrow> db \<Rightarrow> db \<Rightarrow> run_view response" where
  "run_events_route A hs i after d1 d2 = authorized_as A hs EventRead ''run'' (Some i) (\<lambda>p.
     case getRun d1 i (Some (pr_tenantId p)) of None \<Rightarrow> no_run
     | Some r \<Rightarrow> (case sequence_bound (case after of None \<Rightarrow> Some (0, 0) | Some t \<Rightarrow> ra_number A t) of
         None \<Rightarrow> Failure 500 ''control.internal_error''
       | Some n \<Rightarrow> Reply 200 (ViewEvents (listEvents d2 i (pr_tenantId p) n))))"

definition attempts_route :: "runs_api \<Rightarrow> headers \<Rightarrow> string \<Rightarrow> db \<Rightarrow> db \<Rightarrow> run_view response" where
  "attempts_route A hs i d1 d2 = authorized_as A hs RunRead ''run'' (Some i) (\<lambda>p.
     case getRun d1 i (Some (pr_tenantId p)) of None \<Rightarrow> no_run
     | Some r \<Rightarrow> Reply 200 (ViewAttempts (listNodeAttempts d2 i)))"

definition receipt_limit :: "decimal option \<Rightarrow> int option" where
  \<comment> \<open>\<open>Math.max(1, Math.min(500, n))\<close>, when the database takes it as a limit\<close>
  "receipt_limit n = (case n of None \<Rightarrow> None
     | Some (m, e) \<Rightarrow> if m \<le> 10 ^ e then Some 1 else if 500 * 10 ^ e \<le> m then Some 500 else if e = 0 then Some m else None)"

definition receipts_route :: "runs_api \<Rightarrow> headers \<Rightarrow> string option \<Rightarrow> string option \<Rightarrow> string option \<Rightarrow> db \<Rightarrow> run_view response" where
  "receipts_route A hs rid decision limit d = authorized_as A hs ReceiptRead ''receipt'' None (\<lambda>p.
     if nonempty decision \<and> decision \<notin> {Some ''allowed'', Some ''denied''} then Failure 400 ''gateway.decision_filter_invalid''
     else (let given = (\<lambda>v. if nonempty v then v else None) in
       case (if nonempty limit then map_option Some (receipt_limit (ra_number A (the limit))) else Some None) of
         None \<Rightarrow> Failure 500 ''control.internal_error''
       | Some n \<Rightarrow> Reply 200 (ViewReceipts (listGatewayReceipts d (pr_tenantId p) (given rid) (given decision) n))))"

datatype run_query =
    QueryPlanRecords
  | QueryRuns
  | QueryRun string
  | QueryTrace string
  | QueryEvents string "string option"
  | QueryAttempts string
  | QueryReceipts "string option" "string option" "string option"

fun answer_query :: "runs_api \<Rightarrow> headers \<Rightarrow> run_query \<Rightarrow> db \<Rightarrow> db \<Rightarrow> run_view response" where
  \<comment> \<open>from the states of the first and the second statement\<close>
  "answer_query A hs QueryPlanRecords d1 d2 = plan_records_route A hs d1"
| "answer_query A hs QueryRuns d1 d2 = runs_route A hs d1"
| "answer_query A hs (QueryRun i) d1 d2 = run_route A hs i d1"
| "answer_query A hs (QueryTrace i) d1 d2 = trace_route A hs i d1"
| "answer_query A hs (QueryEvents i after) d1 d2 = run_events_route A hs i after d1 d2"
| "answer_query A hs (QueryAttempts i) d1 d2 = attempts_route A hs i d1 d2"
| "answer_query A hs (QueryReceipts rid decision limit) d1 d2 = receipts_route A hs rid decision limit d1"

section \<open>Starting and cancelling a run\<close>

definition parse_run_request :: "json \<Rightarrow> (string \<times> json) option" where
  "parse_run_request v = (case v of JObj es \<Rightarrow>
       if strict_object [''planDigest'', ''input''] es
       then map_option (\<lambda>digest. (digest, obj_get es ''input'')) (required_field digest_ok es ''planDigest'') else None
     | _ \<Rightarrow> None)"

definition start_route :: "runs_api \<Rightarrow> string \<Rightarrow> time \<Rightarrow> headers \<Rightarrow> json \<Rightarrow> db \<Rightarrow> db \<Rightarrow> db \<times> (bool \<times> run_row) response" where
  \<comment> \<open>\<open>d1\<close> is read for the plan, \<open>d2\<close> written to\<close>
  "start_route A uuid now hs body d1 d2 = (case run_principal A hs RunStart ''run'' None of
       Inl f \<Rightarrow> (d2, auth_response ''control.internal_error'' f)
     | Inr p \<Rightarrow> (case parse_run_request body of None \<Rightarrow> (d2, Failure 400 ''run.request_invalid'')
       | Some (digest, v) \<Rightarrow>
         if getPlan d1 digest (Some (pr_tenantId p)) = None then (d2, Failure 404 ''plan.not_found'')
         else if idempotency_header hs = [] then (d2, Failure 400 ''run.idempotency_key_required'')
         else (case createRun (ra_sha A) uuid now d2 digest v (idempotency_header hs) (pr_tenantId p) of
             Inl c \<Rightarrow> (d2, if c = ''run.idempotency_conflict'' then Failure 409 c else Failure 500 ''control.internal_error'')
           | Inr (d', created, r) \<Rightarrow> (d', Reply (if created then 202 else 200) (created, r)))))"

definition cancel_reason :: "json \<Rightarrow> string" where
  "cancel_reason body = (case js_member body ''reason'' of
       JStr s \<Rightarrow> (case trim_or_undefined (Some s) of Some t \<Rightarrow> take 200 t | None \<Rightarrow> ''operator_request'')
     | _ \<Rightarrow> ''operator_request'')"

definition cancel_run_route :: "runs_api \<Rightarrow> time \<Rightarrow> headers \<Rightarrow> string \<Rightarrow> json \<Rightarrow> db \<Rightarrow> db \<times> (cancellation_outcome \<times> run_row option) response" where
  "cancel_run_route A now hs i body d = (case run_principal A hs RunCancel ''run'' (Some i) of
       Inl f \<Rightarrow> (d, auth_response ''control.internal_error'' f)
     | Inr p \<Rightarrow> (case requestRunCancellation now d i (pr_tenantId p) (cancel_reason body) of (d', outcome, r) \<Rightarrow>
         (d', if outcome = NotFound then no_run
              else if outcome = AlreadyTerminal then Failure 409 ''run.already_terminal''
              else Reply 202 (outcome, r))))"

end
