(* ===== verification/RunRouteClaims.thy ===== *)
theory RunRouteClaims
  imports ControlRuns JournalClaims AccessClaims
begin

text \<open>
  What the run routes of the control plane show and do: a caller sees nothing but rows of the own tenant,
  and a retried start finds the run it started.
\<close>

section \<open>What a tenant sees\<close>

definition tenant_runs :: "string \<Rightarrow> db \<Rightarrow> run_row list" where
  "tenant_runs t d = filter (\<lambda>r. run_tenant_id r = t) (runs d)"

definition tenant_ids :: "string \<Rightarrow> db \<Rightarrow> string set" where
  "tenant_ids t d = run_id ` set (tenant_runs t d)"

definition tenant_part :: "string \<Rightarrow> db \<Rightarrow> db" where
  "tenant_part t d = \<lparr>plans = filter (\<lambda>p. pl_tenant_id p = t) (plans d), runs = tenant_runs t d,
     run_events = filter (\<lambda>e. ev_run_id e \<in> tenant_ids t d) (run_events d),
     node_attempts = filter (\<lambda>a. na_run_id a \<in> tenant_ids t d) (node_attempts d),
     receipts = filter (\<lambda>g. gr_tenant_id g = t) (receipts d), trace_links = []\<rparr>"

lemma tenant_partD:
  assumes "tenant_part t d = tenant_part t e"
  shows "filter (\<lambda>p. pl_tenant_id p = t) (plans d) = filter (\<lambda>p. pl_tenant_id p = t) (plans e)"
    and "tenant_runs t d = tenant_runs t e" and "tenant_ids t d = tenant_ids t e"
    and "filter (\<lambda>x. ev_run_id x \<in> tenant_ids t d) (run_events d) = filter (\<lambda>x. ev_run_id x \<in> tenant_ids t d) (run_events e)"
    and "filter (\<lambda>x. na_run_id x \<in> tenant_ids t d) (node_attempts d) = filter (\<lambda>x. na_run_id x \<in> tenant_ids t d) (node_attempts e)"
    and "filter (\<lambda>g. gr_tenant_id g = t) (receipts d) = filter (\<lambda>g. gr_tenant_id g = t) (receipts e)"
proof -
  show r: "tenant_runs t d = tenant_runs t e" using assms by (simp add: tenant_part_def)
  then show i: "tenant_ids t d = tenant_ids t e" by (simp add: tenant_ids_def)
  show "filter (\<lambda>p. pl_tenant_id p = t) (plans d) = filter (\<lambda>p. pl_tenant_id p = t) (plans e)"
    and "filter (\<lambda>x. ev_run_id x \<in> tenant_ids t d) (run_events d) = filter (\<lambda>x. ev_run_id x \<in> tenant_ids t d) (run_events e)"
    and "filter (\<lambda>x. na_run_id x \<in> tenant_ids t d) (node_attempts d) = filter (\<lambda>x. na_run_id x \<in> tenant_ids t d) (node_attempts e)"
    and "filter (\<lambda>g. gr_tenant_id g = t) (receipts d) = filter (\<lambda>g. gr_tenant_id g = t) (receipts e)"
    using assms by (simp_all add: tenant_part_def i)
qed

lemma filter_part: "filter P xs = filter P ys \<Longrightarrow> (\<And>x. Q x \<Longrightarrow> P x) \<Longrightarrow> filter Q xs = filter Q ys"
proof -
  assume eq: "filter P xs = filter P ys" and sub: "\<And>x. Q x \<Longrightarrow> P x"
  have "filter Q zs = filter Q (filter P zs)" for zs using sub by (induction zs) auto
  then show ?thesis using eq by metis
qed

lemma getRun_part: "t \<noteq> [] \<Longrightarrow> getRun d i (Some t) = sql_find (\<lambda>r. run_id r = i) (tenant_runs t d)"
proof -
  assume t: "t \<noteq> []"
  have "sql_find (\<lambda>r. run_id r = i \<and> run_tenant_id r = t) rs = sql_find (\<lambda>r. run_id r = i) (filter (\<lambda>r. run_tenant_id r = t) rs)" for rs
    by (induction rs) (auto simp: sql_find_def)
  then show ?thesis using t by (simp add: getRun_def tenant_runs_def)
qed

lemma getRun_id: "t \<noteq> [] \<Longrightarrow> getRun d i (Some t) = Some r \<Longrightarrow> i \<in> tenant_ids t d"
  by (auto simp: getRun_part tenant_ids_def dest: sql_find_Some)

lemma listEvents_part:
  assumes "tenant_part t d = tenant_part t e"
  shows "listEvents d i t n = listEvents e i t n"
proof -
  have i: "(\<exists>r \<in> set (runs d). run_id r = i \<and> run_tenant_id r = t) \<longleftrightarrow> i \<in> tenant_ids t d" for d
    by (auto simp: tenant_ids_def tenant_runs_def)
  note part = tenant_partD [OF assms]
  show ?thesis
  proof (cases "i \<in> tenant_ids t d")
    case True
    then have "filter (\<lambda>x. ev_run_id x = i \<and> n < ev_sequence x) (run_events d)
        = filter (\<lambda>x. ev_run_id x = i \<and> n < ev_sequence x) (run_events e)"
      by (intro filter_part [OF part(4)]) (use True in auto)
    then show ?thesis by (simp add: listEvents_def i part(3))
  next
    case False
    then show ?thesis by (simp add: listEvents_def i part(3) [symmetric])
  qed
qed

lemma listNodeAttempts_part:
  assumes "tenant_part t d = tenant_part t e" and "i \<in> tenant_ids t d"
  shows "listNodeAttempts d i = listNodeAttempts e i"
proof -
  have "filter (\<lambda>x. na_run_id x = i) (node_attempts d) = filter (\<lambda>x. na_run_id x = i) (node_attempts e)"
    by (intro filter_part [OF tenant_partD(5) [OF assms(1)]]) (use assms(2) in auto)
  then show ?thesis by (simp add: listNodeAttempts_def)
qed

lemma listGatewayReceipts_part:
  assumes "tenant_part t d = tenant_part t e"
  shows "listGatewayReceipts d t rid decision limit = listGatewayReceipts e t rid decision limit"
proof -
  let ?Q = "\<lambda>g. gr_tenant_id g = t \<and> (case rid of None \<Rightarrow> True | Some i \<Rightarrow> gr_run_id g = i)
      \<and> (case decision of None \<Rightarrow> True | Some x \<Rightarrow> gr_decision g = x)"
  have "filter ?Q (receipts d) = filter ?Q (receipts e)"
    using tenant_partD(6) [OF assms] by (rule filter_part) simp
  then show ?thesis by (simp add: listGatewayReceipts_def)
qed

lemma run_principal_Inr: "run_principal A hs action k i = Inr p \<Longrightarrow> resolve (ra_verify A) (DelegatedPrincipalResolver (ra_workload A)) hs = Inr p"
  unfolding run_principal_def by (rule guard_require_Inr(1))

lemma authorized_as_cong:
  assumes "\<And>p. run_principal A hs action k i = Inr p \<Longrightarrow> f p = g p"
  shows "authorized_as A hs action k i f = authorized_as A hs action k i g"
  using assms by (auto simp: authorized_as_def split: sum.splits)

text \<open>C36. Reading shows a caller the own tenant and nothing else: two ledgers that agree on the rows of the
  caller's tenant get the same answer to every query. Where a route reads twice, the tenant's runs of
  the first state are still there in the second, since no statement deletes a run.\<close>

theorem reads_see_only_their_tenant:
  assumes p: "resolve (ra_verify A) (DelegatedPrincipalResolver (ra_workload A)) hs = Inr p" and t: "pr_tenantId p \<noteq> []"
    and one: "tenant_part (pr_tenantId p) d1 = tenant_part (pr_tenantId p) e1"
    and two: "tenant_part (pr_tenantId p) d2 = tenant_part (pr_tenantId p) e2"
    and kept: "tenant_ids (pr_tenantId p) d1 \<subseteq> tenant_ids (pr_tenantId p) d2"
  shows "answer_query A hs q d1 d2 = answer_query A hs q e1 e2"
proof -
  let ?t = "pr_tenantId p"
  have who: "run_principal A hs action k i = Inr x \<Longrightarrow> x = p" for action k i x
    using run_principal_Inr [of A hs action k i x] p by simp
  note part = tenant_partD [OF one]
  have run: "getRun d1 i (Some ?t) = getRun e1 i (Some ?t)" for i using part(2) t by (simp add: getRun_part)
  have id: "getRun e1 i (Some ?t) = Some r \<Longrightarrow> i \<in> tenant_ids ?t d2" for i r
    using getRun_id [OF t, of d1 i r] run kept by auto
  show ?thesis
  proof (cases q)
    case QueryPlanRecords
    then show ?thesis using part(1) by (auto simp: plan_records_route_def listPlanRecords_def intro!: authorized_as_cong dest!: who)
  next
    case QueryRuns
    then show ?thesis using part(2) by (auto simp: runs_route_def listRuns_def tenant_runs_def intro!: authorized_as_cong dest!: who)
  next
    case (QueryRun i)
    then show ?thesis using run by (auto simp: run_route_def intro!: authorized_as_cong dest!: who)
  next
    case (QueryTrace i)
    then show ?thesis using run by (auto simp: trace_route_def intro!: authorized_as_cong dest!: who)
  next
    case (QueryEvents i after)
    then show ?thesis using run listEvents_part [OF two] by (auto simp: run_events_route_def split: option.splits intro!: authorized_as_cong dest!: who)
  next
    case (QueryAttempts i)
    then show ?thesis using run listNodeAttempts_part [OF two id]
      by (auto simp: attempts_route_def split: option.splits intro!: authorized_as_cong dest!: who)
  next
    case (QueryReceipts rid decision limit)
    then show ?thesis using listGatewayReceipts_part [OF one]
      by (auto simp: receipts_route_def Let_def split: option.splits intro!: authorized_as_cong dest!: who)
  qed
qed

section \<open>Starting a run again\<close>

lemma ledger_step_plans: "set (plans d) \<subseteq> set (plans (ledger_step sha d c))"
proof -
  obtain now op where c: "c = (now, op)" by (cases c)
  show ?thesis unfolding c
    by (cases op) (auto simp: admitPlan_def createRun_def renewLease_def scheduleRunRetry_def failExhaustedRuns_def
      completeCancelledRun_def finalizeAbandonedCancellations_def updateRunNode_def bindRunTrace_def completeRun_def
      pg_nodeStarted_def pg_nodeFinished_def claimRun_def requestRunCancellation_def completeGatewayReceipt_def
      abandonGatewayReceipt_def recordCapabilityCost_def insert_attempt_def appendEvent_def reserveGatewayReceipt_def
      Let_def guard_result_def commit_def bind_result_def split: option.splits sum.splits prod.splits if_splits)
qed

lemma run_steps_plans: "set (plans d) \<subseteq> set (plans (run_steps (ledger_step sha) d cs))"
  by (induction cs arbitrary: d) (use ledger_step_plans in fastforce)+

lemma started:
  assumes "start_route A u now hs body d1 d = (d', Reply s (True, r))"
  obtains p digest v where "run_principal A hs RunStart ''run'' None = Inr p" and "parse_run_request body = Some (digest, v)"
    and "idempotency_header hs \<noteq> []"
    and "createRun (ra_sha A) u now d digest v (idempotency_header hs) (pr_tenantId p) = Inr (d', True, r)"
  using assms by (auto simp: start_route_def auth_response_def split: sum.splits option.splits if_splits prod.splits auth_failure.splits)

lemma created_row:
  assumes "createRun sha u now d digest v k t = Inr (d', True, r)" and "''RUN-'' @ u \<notin> run_id ` set (runs d)"
  shows "run_tenant_id r = t" and "\<exists>x \<in> set (plans d'). pl_tenant_id x = t \<and> pl_plan_digest x = digest"
proof -
  have fresh: "run_id x \<noteq> ''RUN-'' @ u" if "x \<in> set (runs d)" for x using assms(2) that by (metis image_eqI)
  have "\<exists>x \<in> set (plans d). pl_tenant_id x = t \<and> pl_plan_digest x = digest" "r = new_run (''RUN-'' @ u) t k (stableDigest sha (run_request_json digest v)) digest v now"
    "plans d' = plans d"
    using assms(1) fresh unfolding createRun_def Let_def by (auto split: option.splits if_splits dest!: sql_find_Some)
  then show "run_tenant_id r = t" and "\<exists>x \<in> set (plans d'). pl_tenant_id x = t \<and> pl_plan_digest x = digest"
    by (simp_all add: new_run_def)
qed

lemma plan_found:
  assumes "x \<in> set (plans d)" and "pl_tenant_id x = t" and "pl_plan_digest x = digest"
  shows "getPlan d digest (Some t) \<noteq> None"
proof
  assume "getPlan d digest (Some t) = None"
  then show False using assms by (auto simp: getPlan_def sql_find_def find_None_iff split: if_splits)
qed

text \<open>A client that repeats the request that started a run gets that run, whatever happened to the ledger
  since: nothing changes, and the answer is 200 with the run as it is now.\<close>

theorem retried_start_returns_the_run:
  assumes "ledger_inv d" and "''RUN-'' @ u \<notin> run_id ` set (runs d)"
    and "start_route A u now hs body d1 d = (d', Reply 202 (True, r))"
    and "s = run_steps (ledger_step (ra_sha A)) d' cs" and "run_id r \<noteq> ''RUN-'' @ u'"
  shows "\<exists>r'. start_route A u' now' hs body s s = (s, Reply 200 (False, r')) \<and> row_of s (run_id r) = Some r'"
proof -
  obtain p digest v where p: "run_principal A hs RunStart ''run'' None = Inr p" and b: "parse_run_request body = Some (digest, v)"
    and k: "idempotency_header hs \<noteq> []"
    and c: "createRun (ra_sha A) u now d digest v (idempotency_header hs) (pr_tenantId p) = Inr (d', True, r)"
    using assms(3) by (rule started)
  obtain r' where r': "row_of s (run_id r) = Some r'"
    "createRun (ra_sha A) u' now' s digest v (idempotency_header hs) (pr_tenantId p) = Inr (s, run_id r = ''RUN-'' @ u', r')"
    using create_is_idempotent [OF assms(1) c assms(4)] by blast
  obtain x where "x \<in> set (plans d')" "pl_tenant_id x = pr_tenantId p" "pl_plan_digest x = digest"
    using created_row(2) [OF c assms(2)] by blast
  then have "getPlan s digest (Some (pr_tenantId p)) \<noteq> None"
    using run_steps_plans [of d' "ra_sha A" cs] assms(4) plan_found by blast
  then show ?thesis using p b k r' assms(5) by (simp add: start_route_def)
qed

section \<open>Examples\<close>

definition tenants_api :: runs_api where
  "tenants_api = \<lparr>ra_verify = (\<lambda>_ _. None), ra_workload = ServiceTokenPrincipalResolver [\<lparr>sg_token = ''edge'',
     sg_subjectId = ''control-surface-edge'', sg_roles = [''Edge.Delegate''], sg_tenantId = ''acme''\<rparr>],
     ra_sha = id, ra_number = (\<lambda>_. None), ra_traceViewer = None\<rparr>"

definition operator_headers :: headers where
  "operator_headers = [(''authorization'', One ''Bearer edge''), (''x-actor-id'', One ''olga''), (''x-actor-roles'', One ''Harness.Operator''),
     (''idempotency-key'', One ''k'')]"

definition operator_olga :: principal where
  "operator_olga = \<lparr>pr_subjectId = ''olga'', pr_tenantId = ''acme'', pr_actorType = HumanActor, pr_roles = [''Harness.Operator''],
     pr_source = SourceLocal\<rparr>"

definition two_tenants :: db where
  "two_tenants = empty_db\<lparr>plans := map (\<lambda>t. \<lparr>pl_tenant_id = t, pl_plan_digest = replicate 64 (CHR ''a''), pl_plan = demo_plan,
     pl_admitted_at = 0\<rparr>) [''acme'', ''zeta''], runs := [new_run ''RUN-9'' ''zeta'' ''z'' ''d'' (replicate 64 (CHR ''a'')) JNull 3]\<rparr>"

definition one_tenant :: db where
  "one_tenant = empty_db\<lparr>plans := [\<lparr>pl_tenant_id = ''acme'', pl_plan_digest = replicate 64 (CHR ''a''), pl_plan = demo_plan,
     pl_admitted_at = 0\<rparr>]\<rparr>"

definition start_body :: json where
  "start_body = JObj [(''planDigest'', JStr (replicate 64 (CHR ''a''))), (''input'', JNull)]"

lemma olga_resolved: "resolve (ra_verify tenants_api) (DelegatedPrincipalResolver (ra_workload tenants_api)) operator_headers = Inr operator_olga"
  by code_simp

theorem reads_see_only_their_tenant_witness:
  "answer_query tenants_api operator_headers (QueryAttempts ''RUN-9'') two_tenants two_tenants
     = answer_query tenants_api operator_headers (QueryAttempts ''RUN-9'') one_tenant one_tenant"
proof (rule reads_see_only_their_tenant [OF olga_resolved])
  show "pr_tenantId operator_olga \<noteq> []" by (simp add: operator_olga_def)
  show "tenant_part (pr_tenantId operator_olga) two_tenants = tenant_part (pr_tenantId operator_olga) one_tenant"
    by (simp add: tenant_part_def tenant_ids_def tenant_runs_def operator_olga_def two_tenants_def one_tenant_def empty_db_def new_run_def)
  then show "tenant_part (pr_tenantId operator_olga) two_tenants = tenant_part (pr_tenantId operator_olga) one_tenant" .
qed simp

definition start_reply :: "db \<times> (bool \<times> run_row) response" where
  "start_reply = start_route tenants_api ''1'' 5 operator_headers start_body one_tenant one_tenant"

theorem retried_start_returns_the_run_witness:
  "\<exists>s r'. start_route tenants_api ''2'' 9 operator_headers start_body s s = (s, Reply 200 (False, r'))"
proof -
  have inv: "ledger_inv one_tenant" by (simp add: ledger_inv_def one_tenant_def empty_db_def keyed_def)
  have fresh: "''RUN-'' @ ''1'' \<notin> run_id ` set (runs one_tenant)" by (simp add: one_tenant_def empty_db_def)
  have "case start_reply of (d', Reply s (c, r)) \<Rightarrow> s = 202 \<and> c \<and> run_id r \<noteq> ''RUN-'' @ ''2'' | _ \<Rightarrow> False" by code_simp
  then obtain d' r where started: "start_reply = (d', Reply 202 (True, r))" and other: "run_id r \<noteq> ''RUN-'' @ ''2''"
    by (auto split: prod.split_asm response.split_asm)
  show ?thesis
    using retried_start_returns_the_run [OF inv fresh started [unfolded start_reply_def] refl other, of 9 "[]"] by blast
qed

end
