(* ===== verification/Edge.thy ===== *)
theory Edge
  imports Provider RuntimeCore
begin

text \<open>
  The edge of the control surface: apps/control-ui/src/proxy.ts, which authenticates every call under
  /v1, and the part of apps/control-ui/src/lib/runtime-service.ts that carries the authenticated caller
  to the services behind it. What an environment resolves a caller with is packages/identity's resolver;
  the credential of the edge itself is a parameter.
\<close>

section \<open>Headers\<close>

definition http_space :: "char \<Rightarrow> bool" where
  "http_space c \<longleftrightarrow> of_char c \<in> {9, 10, 13, 32 :: nat}"

definition header_text :: "string \<Rightarrow> string option" where
  \<comment> \<open>the value \<open>Headers.set\<close> keeps of a text; None when it throws\<close>
  "header_text v = (let t = rev (dropWhile http_space (rev (dropWhile http_space v))) in
     if \<exists>c \<in> set t. of_char c \<in> {0, 10, 13 :: nat} then None else Some t)"

type_synonym plain_headers = "(string \<times> string) list"

definition set_headers :: "plain_headers \<Rightarrow> plain_headers \<Rightarrow> plain_headers option" where
  \<comment> \<open>\<open>headers.set\<close> of names that were deleted before\<close>
  "set_headers hs kvs = map_option (\<lambda>vs. hs @ zip (map fst kvs) vs) (all_some (map (header_text \<circ> snd) kvs))"

definition request_like :: "plain_headers \<Rightarrow> headers" where
  \<comment> \<open>\<open>Object.fromEntries(request.headers.entries())\<close>\<close>
  "request_like hs = map (\<lambda>(k, v). (k, One v)) hs"

section \<open>The proxy\<close>

definition INTERNAL_HEADERS :: "string list" where
  "INTERNAL_HEADERS = [''x-ehf-authenticated-subject'', ''x-ehf-authenticated-tenant'', ''x-ehf-authenticated-roles'',
     ''x-ehf-authenticated-source'']"

definition approval_path :: "string \<Rightarrow> bool" where
  \<comment> \<open>\<open>/\/v1\/authoring\/drafts\/[^/]+\/(approve|publish)$/\<close>\<close>
  "approval_path path = (case rev (split_on CHR ''/'' path) of
       action # draftId # d # a # v # before # _ \<Rightarrow> action \<in> {''approve'', ''publish''} \<and> draftId \<noteq> []
         \<and> d = ''drafts'' \<and> a = ''authoring'' \<and> v = ''v1''
     | _ \<Rightarrow> False)"

definition localAutomaticPrincipal :: "env \<Rightarrow> string \<Rightarrow> principal option result" where
  "localAutomaticPrincipal env path = bind_result (isAzureMode env) (\<lambda>azure.
     if azure \<or> env ''CONTROL_UI_LOCAL_AUTOLOGIN'' \<noteq> Some ''true'' then Inr None
     else (let useApprover = approval_path path \<and> env ''CONTROL_UI_LOCAL_AUTOMATED_APPROVAL'' = Some ''true'' in
       Inr (Some \<lparr>pr_subjectId = (if useApprover then or_else (env ''CONTROL_UI_APPROVER_ID'') ''local-approver''
                    else or_else (env ''CONTROL_UI_ACTOR_ID'') ''local-author''),
         pr_tenantId = or_else (env ''LOCAL_DEFAULT_TENANT_ID'') (or_else (env ''CASE_UI_TENANT_ID'') ''tenant_demo''),
         pr_actorType = HumanActor,
         pr_roles = comma_list (if useApprover then or_else (env ''CONTROL_UI_APPROVER_ROLES'') ''Harness.Reader,Harness.Approver''
           else or_else (env ''CONTROL_UI_ACTOR_ROLES'') ''Harness.Reader,Harness.Author,Harness.Operator,Case.Analyst,Case.Reviewer''),
         pr_source = SourceLocal\<rparr>)))"

definition interactive_principal :: "jwt_verifier \<Rightarrow> (string \<Rightarrow> bool) \<Rightarrow> env \<Rightarrow> string \<Rightarrow> plain_headers \<Rightarrow> auth_failure + principal" where
  "interactive_principal verify url_ok env path hs = (case localAutomaticPrincipal env path of
       Inl c \<Rightarrow> Inl (OtherError c)
     | Inr (Some p) \<Rightarrow> Inr p
     | Inr None \<Rightarrow> (case createPrincipalResolverFromEnv url_ok env of
         Inl c \<Rightarrow> Inl (OtherError c)
       | Inr r \<Rightarrow> (case resolve verify r (request_like hs) of Inl reason \<Rightarrow> Inl (AuthorizationError reason) | Inr p \<Rightarrow> Inr p)))"

definition source_name :: "identity_source \<Rightarrow> string" where
  "source_name s = (case s of SourceLocal \<Rightarrow> ''local'' | SourceEntra \<Rightarrow> ''entra'')"

definition without_internal :: "plain_headers \<Rightarrow> plain_headers" where
  "without_internal hs = filter (\<lambda>(k, v). k \<notin> set INTERNAL_HEADERS) hs"

definition authenticated_as :: "principal \<Rightarrow> plain_headers" where
  "authenticated_as p = [(''x-ehf-authenticated-subject'', pr_subjectId p), (''x-ehf-authenticated-tenant'', pr_tenantId p),
     (''x-ehf-authenticated-roles'', join '','' (pr_roles p)), (''x-ehf-authenticated-source'', source_name (pr_source p))]"

datatype proxied = Forwarded plain_headers | Refused nat code

definition proxy :: "jwt_verifier \<Rightarrow> (string \<Rightarrow> bool) \<Rightarrow> env \<Rightarrow> string \<Rightarrow> plain_headers \<Rightarrow> proxied" where
  "proxy verify url_ok env path hs = (case interactive_principal verify url_ok env path hs of
       Inl (AuthorizationError reason) \<Rightarrow> Refused (authorization_status reason) reason
     | Inl (OtherError c) \<Rightarrow> Refused 503 ''authorization.configuration_invalid''
     | Inr p \<Rightarrow> if pr_actorType p \<noteq> HumanActor then Refused 403 ''authorization.interactive_user_required''
         else (case set_headers (without_internal hs) (authenticated_as p) of
             None \<Rightarrow> Refused 503 ''authorization.configuration_invalid'' | Some forwarded \<Rightarrow> Forwarded forwarded))"

section \<open>Calls in the caller's name\<close>

type_synonym edge_token = "string \<times> time"

definition edgeAuthorization :: "env \<Rightarrow> time \<Rightarrow> (string \<Rightarrow> edge_token option result) \<Rightarrow> edge_token option \<Rightarrow> edge_token option \<times> string result" where
  \<comment> \<open>with the token that is cached, and what is cached afterwards\<close>
  "edgeAuthorization env now getToken cached = (case isAzureMode env of
       Inl c \<Rightarrow> (cached, Inl c)
     | Inr azure \<Rightarrow>
         if \<not> azure then (cached, if present env ''EDGE_SERVICE_TOKEN'' then Inr (''Bearer '' @ the (env ''EDGE_SERVICE_TOKEN''))
           else Inl ''control_ui.edge_service_token_missing'')
         else (case filter (\<lambda>(token, expires). now + 60000 < expires) (case cached of None \<Rightarrow> [] | Some t \<Rightarrow> [t]) of
             (token, _) # _ \<Rightarrow> (cached, Inr (''Bearer '' @ token))
           | [] \<Rightarrow> if \<not> present env ''EDGE_TOKEN_SCOPE'' then (cached, Inl ''control_ui.edge_token_scope_missing'')
               else (case getToken (the (env ''EDGE_TOKEN_SCOPE'')) of
                   Inl c \<Rightarrow> (cached, Inl c)
                 | Inr None \<Rightarrow> (cached, Inl ''control_ui.edge_token_unavailable'')
                 | Inr (Some t) \<Rightarrow> (Some t, Inr (''Bearer '' @ fst t)))))"

definition edgeHeaders :: "string result \<Rightarrow> plain_headers \<Rightarrow> plain_headers result" where
  \<comment> \<open>of the forwarded request, with the edge's own authorization\<close>
  "edgeHeaders authorization incoming = (let get' = map_of incoming in
     if \<not> (nonempty (get' ''x-ehf-authenticated-subject'') \<and> nonempty (get' ''x-ehf-authenticated-tenant'')
          \<and> nonempty (get' ''x-ehf-authenticated-roles''))
     then Inl ''control_ui.authenticated_context_missing''
     else bind_result authorization (\<lambda>a. Inr [(''authorization'', a), (''x-actor-id'', the (get' ''x-ehf-authenticated-subject'')),
       (''x-actor-roles'', the (get' ''x-ehf-authenticated-roles'')), (''x-tenant-id'', the (get' ''x-ehf-authenticated-tenant''))]))"

definition authenticatedTenantId :: "plain_headers \<Rightarrow> string result" where
  "authenticatedTenantId incoming = (let t = map_of incoming ''x-ehf-authenticated-tenant'' in
     guard_result (nonempty t) ''control_ui.authenticated_context_missing'' (Inr (the t)))"

definition apiJson :: "'w fetch \<Rightarrow> plain_headers result \<Rightarrow> string \<Rightarrow> string \<Rightarrow> string \<Rightarrow> plain_headers \<Rightarrow> json option \<Rightarrow> ('w, json) act" where
  \<comment> \<open>the identity headers replace what the call sets under their names\<close>
  "apiJson fetch identity base path method hs body = then_do (lift_act identity) (\<lambda>who.
     then_do (exchange fetch \<lparr>rq_method = method, rq_url = base @ path,
        rq_headers = filter (\<lambda>(k, v). k \<notin> set (map fst who)) hs @ who, rq_body = Option.bind body sent\<rparr>) (\<lambda>(status, reply).
     let v = or_else reply (JObj []) in
     if ok_status status then yield v
     else then_do (lift_act (member_of v ''message'')) (\<lambda>m.
       throw (js_string (nullish m (nullish (js_member v ''error'') (JStr (''upstream.http_'' @ nat_text status))))))))"

definition optionalJson :: "'w fetch \<Rightarrow> plain_headers result \<Rightarrow> string \<Rightarrow> string \<Rightarrow> ('w, json) act" where
  "optionalJson fetch identity base path = caught (apiJson fetch identity base path ''GET'' [] None) (\<lambda>_. yield JNull)"

end
