(* ===== verification/EdgeClaims.thy ===== *)
theory EdgeClaims
  imports Edge AccessClaims
begin

text \<open>
  From the edge to the services: what a caller puts into the internal headers counts for nothing, and the
  services see the caller the proxy authenticated.
\<close>

section \<open>Texts in headers\<close>

definition plain_text :: "string \<Rightarrow> bool" where
  "plain_text s \<longleftrightarrow> s \<noteq> [] \<and> trim s = s"

definition plain_role :: "string \<Rightarrow> bool" where
  "plain_role s \<longleftrightarrow> plain_text s \<and> CHR '','' \<notin> set s"

lemma split_on_acc_join: "CHR '','' \<notin> set s \<Longrightarrow> split_on_acc CHR '','' acc (s @ rest) =
    (case rest of [] \<Rightarrow> [rev acc @ s] | _ \<Rightarrow> split_on_acc CHR '','' (rev s @ acc) rest)"
  by (induction s arbitrary: acc) (auto split: list.splits)

lemma split_join: "list_all (\<lambda>s. CHR '','' \<notin> set s) (s # ss) \<Longrightarrow> split_on CHR '','' (join '','' (s # ss)) = s # ss"
proof (induction ss arbitrary: s)
  case Nil
  then show ?case using split_on_acc_join [of s "[]" "[]"] by (simp add: split_on_def)
next
  case (Cons t ss)
  have "split_on_acc CHR '','' [] (s @ CHR '','' # join '','' (t # ss)) = s # split_on_acc CHR '','' [] (join '','' (t # ss))"
    using Cons.prems split_on_acc_join [of s "[]" "CHR '','' # join '','' (t # ss)"] by simp
  then show ?case using Cons by (simp add: split_on_def)
qed

lemma comma_list_join: "roles \<noteq> [] \<Longrightarrow> list_all plain_role roles \<Longrightarrow> comma_list (join '','' roles) = roles"
proof -
  assume r: "roles \<noteq> []" "list_all plain_role roles"
  then have "split_on CHR '','' (join '','' roles) = roles"
    by (cases roles) (auto simp: list_all_iff plain_role_def intro!: split_join)
  moreover have "map trim roles = roles" "filter (\<lambda>s. s \<noteq> []) roles = roles"
    using r(2) by (auto simp: list_all_iff plain_role_def plain_text_def map_idI filter_id_conv)
  ultimately show ?thesis by (simp add: comma_list_def)
qed

lemma http_space_is_space: "http_space c \<Longrightarrow> is_space c"
  by (auto simp: http_space_def is_space_def)

lemma strip_commutes: "dropWhile P (rev (dropWhile P (rev xs))) = rev (dropWhile P (rev (dropWhile P xs)))"
proof (induction xs)
  case (Cons x xs)
  show ?case
  proof (cases "\<exists>y \<in> set xs. \<not> P y")
    case True
    then show ?thesis using Cons by (auto simp: dropWhile_append1)
  next
    case False
    then have all: "\<forall>y \<in> set xs. P y" by blast
    have "dropWhile P (rev xs @ [x]) = dropWhile P [x]" using all by (intro dropWhile_append2) simp
    moreover have "dropWhile P xs = []" using all by simp
    ultimately show ?thesis using all by (auto simp: dropWhile_append1 dropWhile_append2 dest: set_dropWhileD)
  qed
qed simp

lemma strip_twice: "(\<And>c. Q c \<Longrightarrow> P c) \<Longrightarrow> dropWhile P (dropWhile Q xs) = dropWhile P xs"
  by (induction xs) auto

lemma trim_header_text: "header_text s = Some t \<Longrightarrow> trim t = trim s"
proof -
  assume "header_text s = Some t"
  then have t: "t = rev (dropWhile http_space (rev (dropWhile http_space s)))"
    by (auto simp: header_text_def Let_def split: if_splits)
  have "trim (rev (dropWhile http_space (rev u))) = trim u" for u
    by (simp add: trim_def strip_commutes [symmetric] strip_twice [OF http_space_is_space])
  then show ?thesis by (simp add: t trim_def strip_twice [OF http_space_is_space])
qed

lemma trim_fixed: "\<not> is_space (hd s) \<Longrightarrow> \<not> is_space (last s) \<Longrightarrow> trim s = s"
proof (cases "s = []")
  case False
  assume s: "\<not> is_space (hd s)" "\<not> is_space (last s)"
  have "dropWhile is_space s = s" using s(1) False by (cases s) auto
  moreover have "dropWhile is_space (rev s) = rev s" using s(2) False by (cases "rev s") (auto simp: hd_rev [symmetric])
  ultimately show ?thesis by (simp add: trim_def)
qed (simp add: trim_def)

lemma trim_ends:
  assumes "trim s = s" and "s \<noteq> []"
  shows "\<not> is_space (hd s)" and "\<not> is_space (last s)"
proof -
  let ?r = "dropWhile is_space (rev (dropWhile is_space s))" and ?l = "dropWhile is_space (rev (dropWhile is_space (rev s)))"
  have "s = rev ?r" "s = ?l" using assms(1) strip_commutes [of is_space s] by (simp_all add: trim_def)
  then show "\<not> is_space (last s)" "\<not> is_space (hd s)"
    using assms(2) hd_dropWhile [of is_space "rev (dropWhile is_space s)"] hd_dropWhile [of is_space "rev (dropWhile is_space (rev s))"]
    by (metis hd_rev rev_is_Nil_conv rev_rev_ident, metis)
qed

lemma join_ends: "r \<noteq> [] \<Longrightarrow> list_all (\<lambda>s. s \<noteq> []) (r # rs) \<Longrightarrow>
    join '','' (r # rs) \<noteq> [] \<and> hd (join '','' (r # rs)) = hd r \<and> last (join '','' (r # rs)) = last (last (r # rs))"
proof (induction rs arbitrary: r)
  case (Cons t rs)
  then have "join '','' (t # rs) \<noteq> []" "last (join '','' (t # rs)) = last (last (t # rs))" by simp_all
  then show ?case using Cons.prems by simp
qed simp

lemma trim_join: "roles \<noteq> [] \<Longrightarrow> list_all plain_role roles \<Longrightarrow> trim (join '','' roles) = join '','' roles"
proof -
  assume r: "roles \<noteq> []" "list_all plain_role roles"
  then obtain x xs where x: "roles = x # xs" by (cases roles) auto
  have ends: "s \<in> set roles \<Longrightarrow> s \<noteq> [] \<and> \<not> is_space (hd s) \<and> \<not> is_space (last s)" for s
    using r(2) trim_ends [of s] by (auto simp: list_all_iff plain_role_def plain_text_def)
  have "join '','' roles \<noteq> [] \<and> hd (join '','' roles) = hd x \<and> last (join '','' roles) = last (last roles)"
    unfolding x using ends by (intro join_ends) (auto simp: list_all_iff x)
  then show ?thesis using ends [of x] ends [of "last roles"] r(1) by (intro trim_fixed) (auto simp: x)
qed

section \<open>What a caller asserts\<close>

lemma header_kept: "n \<notin> set INTERNAL_HEADERS \<Longrightarrow> header (request_like (without_internal hs)) n = header (request_like hs) n"
proof -
  assume n: "n \<notin> set INTERNAL_HEADERS"
  have "map_of (request_like (without_internal hs)) n = map_of (request_like hs) n"
    using n by (induction hs) (auto simp: request_like_def without_internal_def)
  then show ?thesis by (simp add: header_def first_value_def)
qed

lemma chosen_resolver:
  assumes "createPrincipalResolverFromEnv url_ok env = Inr r"
  shows "(\<exists>t roles. r = LocalHeaderPrincipalResolver t roles) \<or> (\<exists>opt. r = EntraJwtPrincipalResolver opt)"
  using assms by (auto simp: createPrincipalResolverFromEnv_def entra_from_env_def bind_result_Inr_iff guard_result_Inr_iff Let_def split: if_splits)

lemma resolve_kept:
  assumes "createPrincipalResolverFromEnv url_ok env = Inr r"
  shows "resolve verify r (request_like (without_internal hs)) = resolve verify r (request_like hs)"
proof -
  let ?h = "\<lambda>n. header (request_like (without_internal hs)) n = header (request_like hs) n"
  have h: "?h ''authorization''" "?h ''x-actor-id''" "?h ''x-actor-roles''" "?h ''x-tenant-id''" "?h ''x-actor-type''"
    by (intro header_kept; simp add: INTERNAL_HEADERS_def)+
  have "resolve_local t roles (request_like (without_internal hs)) = resolve_local t roles (request_like hs)"
    "resolve_entra verify opt (request_like (without_internal hs)) = resolve_entra verify opt (request_like hs)" for t roles opt
    unfolding resolve_local_def resolve_entra_def h by (rule refl)+
  then show ?thesis using chosen_resolver [OF assms] by auto
qed

lemma interactive_kept:
  "interactive_principal verify url_ok env path (without_internal hs) = interactive_principal verify url_ok env path hs"
  using resolve_kept by (auto simp: interactive_principal_def split: sum.splits option.splits)

text \<open>The internal headers a caller sends have no effect: two requests that differ in nothing else are
  answered or forwarded alike.\<close>

theorem spoofed_identity_has_no_effect:
  assumes "without_internal hs = without_internal hs'"
  shows "proxy verify url_ok env path hs = proxy verify url_ok env path hs'"
proof -
  have "interactive_principal verify url_ok env path hs = interactive_principal verify url_ok env path hs'"
    using interactive_kept [of verify url_ok env path hs] interactive_kept [of verify url_ok env path hs'] assms by simp
  then show ?thesis unfolding proxy_def assms by (rule arg_cong)
qed

section \<open>Whom the services see\<close>

lemma forwarded_value:
  assumes "set_headers (without_internal hs) (authenticated_as p) = Some fw"
  shows "map_of fw ''x-ehf-authenticated-subject'' = header_text (pr_subjectId p)"
    and "map_of fw ''x-ehf-authenticated-tenant'' = header_text (pr_tenantId p)"
    and "map_of fw ''x-ehf-authenticated-roles'' = header_text (join '','' (pr_roles p))"
proof -
  have none: "n \<in> set INTERNAL_HEADERS \<Longrightarrow> map_of (without_internal hs) n = None" for n
    by (auto simp: without_internal_def map_of_eq_None_iff)
  obtain vs where "fw = without_internal hs @ zip (map fst (authenticated_as p)) vs"
    "all_some (map (header_text \<circ> snd) (authenticated_as p)) = Some vs"
    using assms by (auto simp: set_headers_def)
  then show "map_of fw ''x-ehf-authenticated-subject'' = header_text (pr_subjectId p)"
    and "map_of fw ''x-ehf-authenticated-tenant'' = header_text (pr_tenantId p)"
    and "map_of fw ''x-ehf-authenticated-roles'' = header_text (join '','' (pr_roles p))"
    by (auto simp: authenticated_as_def map_add_def none INTERNAL_HEADERS_def split: option.splits)
qed

text \<open>C37. Whoever a service behind the edge resolves from the edge's call is the human the proxy authenticated
  from the request without its internal headers, in that human's tenant and with that human's roles.\<close>

theorem services_see_the_authenticated_caller:
  assumes "proxy verify url_ok env path hs = Forwarded fw" and "edgeHeaders authorization fw = Inr sent_headers"
    and "resolve V (DelegatedPrincipalResolver edge) (request_like sent_headers) = Inr q"
    and "interactive_principal verify url_ok env path (without_internal hs) = Inr p" and "list_all plain_role (pr_roles p)" and "trim (pr_tenantId p) \<noteq> []"
  shows "pr_actorType p = HumanActor \<and> pr_actorType q = HumanActor \<and> pr_subjectId q = trim (pr_subjectId p)
    \<and> pr_tenantId q = trim (pr_tenantId p) \<and> pr_roles q = pr_roles p"
proof -
  have human: "pr_actorType p = HumanActor" and fw: "set_headers (without_internal hs) (authenticated_as p) = Some fw"
    using assms(1,4) by (auto simp: proxy_def interactive_kept split: if_splits option.splits)
  note val = forwarded_value [OF fw]
  obtain a s t r where v: "header_text (pr_subjectId p) = Some s" "header_text (pr_tenantId p) = Some t"
      "header_text (join '','' (pr_roles p)) = Some r" "r \<noteq> []"
    and H: "sent_headers = [(''authorization'', a), (''x-actor-id'', s), (''x-actor-roles'', r), (''x-tenant-id'', t)]"
    using assms(2) by (auto simp: edgeHeaders_def val nonempty_def Let_def bind_result_Inr_iff split: if_splits option.splits)
  have hdr: "header (request_like sent_headers) ''x-actor-id'' = trim_or_undefined (Some s)"
    "header (request_like sent_headers) ''x-actor-roles'' = trim_or_undefined (Some r)"
    "header (request_like sent_headers) ''x-tenant-id'' = trim_or_undefined (Some t)"
    by (simp_all add: H request_like_def header_def first_value_def)
  have "pr_roles p \<noteq> []" using v(3,4) by (auto simp: header_text_def)
  then have roles: "comma_list (trim r) = pr_roles p"
    using trim_header_text [OF v(3)] trim_join comma_list_join assms(5) by simp
  obtain e where e: "resolve V edge (request_like sent_headers) = Inr e" "delegate (request_like sent_headers) e = Inr q"
    using assms(3) by (auto simp: bind_result_Inr_iff)
  then show ?thesis using human roles assms(6) trim_header_text [OF v(1)] trim_header_text [OF v(2)]
    by (auto simp: delegate_def hdr trim_or_undefined_def guard_result_Inr_iff Let_def split: if_splits)
qed

section \<open>Examples\<close>

definition kiosk_env :: env where
  "kiosk_env = map_of [(''CONTROL_UI_LOCAL_AUTOLOGIN'', ''true''), (''CONTROL_UI_LOCAL_AUTOMATED_APPROVAL'', ''true'')]"

definition spoofed_headers :: plain_headers where
  "spoofed_headers = [(''accept'', ''*/*''), (''x-ehf-authenticated-subject'', ''mallory''), (''x-ehf-authenticated-roles'', ''Harness.Approver'')]"

definition kiosk_edge :: resolver where
  "kiosk_edge = ServiceTokenPrincipalResolver [\<lparr>sg_token = ''edge'', sg_subjectId = ''control-surface-edge'',
     sg_roles = [''Edge.Delegate''], sg_tenantId = ''tenant_demo''\<rparr>]"

definition kiosk_principal :: principal where
  "kiosk_principal = projr (interactive_principal (\<lambda>_ _. None) (\<lambda>_. True) kiosk_env ''/v1/runs'' spoofed_headers)"

definition kiosk_forwarded :: plain_headers where
  "kiosk_forwarded = without_internal spoofed_headers @ authenticated_as kiosk_principal"

definition kiosk_sent :: plain_headers where
  "kiosk_sent = projr (edgeHeaders (Inr ''Bearer edge'') kiosk_forwarded)"

definition kiosk_seen :: principal where
  "kiosk_seen = projr (resolve (\<lambda>_ _. None) (DelegatedPrincipalResolver kiosk_edge) (request_like kiosk_sent))"

theorem spoofed_identity_has_no_effect_witness:
  "proxy (\<lambda>_ _. None) (\<lambda>_. True) kiosk_env ''/v1/runs'' spoofed_headers
     = proxy (\<lambda>_ _. None) (\<lambda>_. True) kiosk_env ''/v1/runs'' [(''accept'', ''*/*'')]"
proof (rule spoofed_identity_has_no_effect)
  show "without_internal spoofed_headers = without_internal [(''accept'', ''*/*'')]" by code_simp
qed

theorem services_see_the_authenticated_caller_witness:
  "pr_subjectId kiosk_seen = ''local-author'' \<and> pr_roles kiosk_seen = pr_roles kiosk_principal"
proof -
  have "interactive_principal (\<lambda>_ _. None) (\<lambda>_. True) kiosk_env ''/v1/runs'' (without_internal spoofed_headers) = Inr kiosk_principal"
    unfolding kiosk_principal_def by code_simp
  moreover have "proxy (\<lambda>_ _. None) (\<lambda>_. True) kiosk_env ''/v1/runs'' spoofed_headers = Forwarded kiosk_forwarded" by code_simp
  moreover have "edgeHeaders (Inr ''Bearer edge'') kiosk_forwarded = Inr kiosk_sent"
    unfolding kiosk_sent_def by code_simp
  moreover have "resolve (\<lambda>_ _. None) (DelegatedPrincipalResolver kiosk_edge) (request_like kiosk_sent) = Inr kiosk_seen"
    unfolding kiosk_seen_def by code_simp
  moreover have "list_all plain_role (pr_roles kiosk_principal)" "trim (pr_tenantId kiosk_principal) \<noteq> []" by code_simp+
  ultimately have "pr_subjectId kiosk_seen = trim (pr_subjectId kiosk_principal) \<and> pr_roles kiosk_seen = pr_roles kiosk_principal"
    using services_see_the_authenticated_caller by blast
  moreover have "trim (pr_subjectId kiosk_principal) = ''local-author''" by code_simp
  ultimately show ?thesis by simp
qed

end
