(* ===== verification/CaseViews.thy ===== *)
theory CaseViews
  imports Edge CaseEvidence
begin

text \<open>
  The case views of apps/control-ui/src/lib/runtime-service.ts: the list of cases with its search, the
  graph of a case and its detail. A view is computed from the parsed replies of the case service; the
  requests themselves are \<open>apiJson\<close> of Edge. A member the reply's type calls a text is read as one.
\<close>

section \<open>Replies\<close>

definition text_of :: "entries \<Rightarrow> string \<Rightarrow> string" where
  "text_of es k = (case obj_get es k of JStr s \<Rightarrow> s | _ \<Rightarrow> [])"

record raw_case_view =
  rw_generatedAt :: string
  rw_viewSchema :: string
  rw_etag :: string
  rw_case :: entries
  rw_subjects :: "entries list"
  rw_evidence :: "entries list"
  rw_claims :: "entries list"
  rw_facts :: "entries list"
  rw_findings :: "entries list"
  rw_assumptions :: "entries list"
  rw_contradictions :: "entries list"
  rw_workItems :: "entries list"
  rw_decisionRecommendations :: "entries list"
  rw_gateResults :: "entries list"
  rw_reviews :: "entries list"
  rw_finalDispositions :: "entries list"
  rw_executionRefs :: "entries list"
  rw_lineageEdges :: "entries list"

section \<open>The list of cases\<close>

definition summary_members :: "string list" where
  "summary_members = [''tenantId'', ''caseId'', ''caseType'', ''jurisdiction'', ''status'', ''caseSequence'', ''externalRef'',
     ''harnessPlanDigest'', ''classification'', ''createdAt'', ''updatedAt'']"

definition mapCaseSummary :: "entries \<Rightarrow> entries" where
  "mapCaseSummary item = map (\<lambda>k. (k, obj_get item k)) summary_members"

definition lower_case :: "string \<Rightarrow> string" where
  \<comment> \<open>\<open>toLowerCase\<close>, of code units below 256\<close>
  "lower_case s = map (\<lambda>c. let n = of_char c :: nat in
     if (65 \<le> n \<and> n \<le> 90) \<or> (192 \<le> n \<and> n \<le> 222 \<and> n \<noteq> 215) then char_of (n + 32) else c) s"

fun some_includes :: "string \<Rightarrow> json list \<Rightarrow> bool result" where
  \<comment> \<open>\<open>values.some((value) => value.toLowerCase().includes(needle))\<close>; a value that is no text has no such method\<close>
  "some_includes needle [] = Inr False"
| "some_includes needle (v # vs) = (case v of JStr s \<Rightarrow> if has_sub (lower_case s) needle then Inr True else some_includes needle vs
     | _ \<Rightarrow> Inl ''TypeError'')"

definition case_matches :: "string \<Rightarrow> entries \<Rightarrow> bool result" where
  "case_matches needle item = some_includes needle (map (obj_get item) [''caseId'', ''externalRef'', ''caseType'', ''status''])"

fun filter_result :: "('a \<Rightarrow> bool result) \<Rightarrow> 'a list \<Rightarrow> 'a list result" where
  "filter_result f [] = Inr []"
| "filter_result f (x # xs) = bind_result (f x) (\<lambda>b. bind_result (filter_result f xs) (\<lambda>ys. Inr (if b then x # ys else ys)))"

definition cases_path :: "string option \<Rightarrow> string" where
  "cases_path status = ''/v1/cases'' @ (if nonempty status \<and> status \<noteq> Some ''all'' then ''?status='' @ encodeURIComponent (the status) else [])"

definition case_summaries :: "string option \<Rightarrow> entries list \<Rightarrow> entries list result" where
  \<comment> \<open>what \<open>listCaseSummaries\<close> makes of the service's cases\<close>
  "case_summaries query rows = (case trim_or_undefined query of
       None \<Rightarrow> Inr (map mapCaseSummary rows)
     | Some q \<Rightarrow> filter_result (case_matches (lower_case q)) (map mapCaseSummary rows))"

section \<open>The graph of a case\<close>

record explorer_node =
  xn_id :: string
  xn_label :: string
  xn_subtitle :: string
  xn_category :: string
  xn_status :: "string option"
  xn_data :: entries

record explorer_edge =
  xe_id :: string
  xe_from :: string
  xe_to :: string
  xe_label :: string

record explorer_graph =
  xg_nodes :: "explorer_node list"
  xg_edges :: "explorer_edge list"
  xg_categories :: "string list"

definition CASE_CATEGORY_ORDER :: "string list" where
  "CASE_CATEGORY_ORDER = [''Case'', ''Subject'', ''Work'', ''Evidence'', ''Claim'', ''Fact'', ''Finding'', ''Decision'', ''Assurance'',
     ''Outcome'', ''Execution'']"

fun stringValue :: "entries \<Rightarrow> string list \<Rightarrow> string option" where
  "stringValue es [] = None"
| "stringValue es (k # ks) = (case obj_get es k of JStr s \<Rightarrow> Some s | _ \<Rightarrow> stringValue es ks)"

definition nodeLabel :: "entries \<Rightarrow> string \<Rightarrow> string \<Rightarrow> string" where
  "nodeLabel es category i = or_else (stringValue es [''display_name'', ''predicate'', ''finding_type'', ''work_type'', ''review_type'',
     ''evidence_type'', ''outcome'', ''decision'', ''purpose'']) (category @ '' '' @ drop (length i - 8) i)"

definition nodeStatus :: "entries \<Rightarrow> string option" where
  "nodeStatus es = stringValue es [''status'', ''outcome'', ''decision'', ''verification_status'']"

definition makeGraphNode :: "string \<Rightarrow> string list \<Rightarrow> entries \<Rightarrow> explorer_node option" where
  "makeGraphNode category idKeys es = (case stringValue es idKeys of None \<Rightarrow> None
     | Some i \<Rightarrow> if i = [] then None else Some \<lparr>xn_id = i, xn_label = nodeLabel es category i, xn_subtitle = i,
         xn_category = category, xn_status = nodeStatus es, xn_data = es\<rparr>)"

definition refs :: "entries \<Rightarrow> string \<Rightarrow> string list" where
  "refs es k = (case obj_get es k of JArr vs \<Rightarrow> List.map_filter (\<lambda>v. case v of JStr s \<Rightarrow> Some s | _ \<Rightarrow> None) vs | _ \<Rightarrow> [])"

definition graph_root :: "raw_case_view \<Rightarrow> explorer_node" where
  "graph_root v = (let c = rw_case v in \<lparr>xn_id = text_of c ''caseId'',
     xn_label = (if text_of c ''externalRef'' = [] then text_of c ''caseId'' else text_of c ''externalRef''),
     xn_subtitle = text_of c ''caseType'', xn_category = ''Case'', xn_status = Some (text_of c ''status''), xn_data = c\<rparr>)"

definition graph_groups :: "raw_case_view \<Rightarrow> (string \<times> entries list \<times> string list) list" where
  "graph_groups v = [(''Subject'', rw_subjects v, [''subject_id'']), (''Work'', rw_workItems v, [''work_item_id'']),
     (''Evidence'', rw_evidence v, [''evidence_id'']), (''Claim'', rw_claims v, [''claim_id'']), (''Fact'', rw_facts v, [''fact_id'']),
     (''Finding'', rw_findings v @ rw_assumptions v @ rw_contradictions v, [''finding_id'', ''assumption_id'', ''contradiction_id'']),
     (''Decision'', rw_decisionRecommendations v, [''recommendation_id'']),
     (''Assurance'', rw_gateResults v @ rw_reviews v, [''gate_result_id'', ''review_id'']),
     (''Outcome'', rw_finalDispositions v, [''disposition_id'']), (''Execution'', rw_executionRefs v, [''run_id''])]"

definition graph_nodes :: "raw_case_view \<Rightarrow> explorer_node list" where
  "graph_nodes v = graph_root v # concat (map (\<lambda>(category, records, keys). List.map_filter (makeGraphNode category keys) records) (graph_groups v))"

type_synonym link = "string option \<times> string option \<times> string"

definition rule_inputs :: "entries \<Rightarrow> json list" where
  "rule_inputs gate = (case obj_get gate ''rule_results'' of JArr vs \<Rightarrow> vs | _ \<Rightarrow> [])"

definition gate_links :: "entries \<Rightarrow> link list" where
  "gate_links gate = (let i = stringValue gate [''gate_result_id''] in
     (stringValue gate [''recommendation_ref''], i, ''GATED_BY'')
     # map (\<lambda>r. (case r of JObj es \<Rightarrow> stringValue es [''ref''] | _ \<Rightarrow> None, i, ''RULE_INPUT'')) (rule_inputs gate))"

definition case_links :: "raw_case_view \<Rightarrow> link list" where
  \<comment> \<open>the calls of \<open>add\<close> in their order\<close>
  "case_links v = (let root = Some (text_of (rw_case v) ''caseId''); ref = (\<lambda>es k. stringValue es [k]) in
     map (\<lambda>e. (ref e ''source_id'', ref e ''target_id'', or_else (ref e ''predicate'') ''LINEAGE'')) (rw_lineageEdges v)
     @ map (\<lambda>s. (root, ref s ''subject_id'', ''HAS_SUBJECT'')) (rw_subjects v)
     @ concat (map (\<lambda>w. (root, ref w ''work_item_id'', ''HAS_WORK'')
         # map (\<lambda>t. (ref w ''work_item_id'', Some t, ''PRODUCED'')) (refs w ''result_refs'')) (rw_workItems v))
     @ concat (map (\<lambda>e. map (\<lambda>s. (Some s, ref e ''evidence_id'', ''EVIDENCED_BY'')) (refs e ''subject_refs'')) (rw_evidence v))
     @ concat (map (\<lambda>r. map (\<lambda>f. (Some f, ref r ''recommendation_id'', ''SUPPORTS'')) (refs r ''finding_refs'')
         @ map (\<lambda>e. (Some e, ref r ''recommendation_id'', ''INFORMS'')) (refs r ''evidence_refs'')) (rw_decisionRecommendations v))
     @ concat (map gate_links (rw_gateResults v))
     @ concat (map (\<lambda>r. (ref r ''object_ref'', ref r ''review_id'', ''REVIEWED_BY'')
         # map (\<lambda>e. (Some e, ref r ''review_id'', ''VIEWED_IN'')) (refs r ''viewed_evidence_refs'')) (rw_reviews v))
     @ concat (map (\<lambda>d. [(ref d ''recommendation_ref'', ref d ''disposition_id'', ''DISPOSITION''),
         (ref d ''gate_result_ref'', ref d ''disposition_id'', ''AUTHORIZED''),
         (ref d ''review_ref'', ref d ''disposition_id'', ''HUMAN_APPROVAL'')]) (rw_finalDispositions v))
     @ map (\<lambda>x. (root, ref x ''run_id'', ''EXECUTED_AS'')) (rw_executionRefs v))"

definition link_key :: "string \<Rightarrow> string \<Rightarrow> string \<Rightarrow> string" where
  "link_key a b l = a @ ''|'' @ b @ ''|'' @ l"

fun add_link :: "string list \<Rightarrow> link \<Rightarrow> string list \<times> explorer_edge list \<Rightarrow> string list \<times> explorer_edge list" where
  "add_link ids (Some a, Some b, l) (seen, es) =
     (if a = [] \<or> b = [] \<or> a \<notin> set ids \<or> b \<notin> set ids \<or> link_key a b l \<in> set seen then (seen, es)
      else (link_key a b l # seen, es @ [\<lparr>xe_id = ''edge-'' @ nat_text (length es + 1), xe_from = a, xe_to = b, xe_label = l\<rparr>]))"
| "add_link ids (_, _, l) s = s"

definition graph_edges :: "raw_case_view \<Rightarrow> explorer_edge list" where
  "graph_edges v = snd (fold (add_link (map xn_id (graph_nodes v))) (case_links v) ([], []))"

definition buildCaseGraph :: "raw_case_view \<Rightarrow> explorer_graph result" where
  \<comment> \<open>reading a member of a rule result that is null throws\<close>
  "buildCaseGraph v = guard_result (\<not> (\<exists>g \<in> set (rw_gateResults v). JNull \<in> set (rule_inputs g))) ''TypeError''
     (Inr \<lparr>xg_nodes = graph_nodes v, xg_edges = graph_edges v,
        xg_categories = filter (\<lambda>c. c \<in> set (map xn_category (graph_nodes v))) CASE_CATEGORY_ORDER\<rparr>)"

section \<open>The detail of a case\<close>

record raw_case_event =
  re_eventId :: string
  re_caseSequence :: nat
  re_eventType :: string
  re_occurredAt :: string
  re_actor :: entries
  re_authority :: entries
  re_payload :: entries
  re_evidenceRefs :: "string list"
  re_previousEventDigest :: "string option"
  re_eventDigest :: string

record case_activity =
  av_event :: raw_case_event
  av_actorLabel :: string

record case_detail =
  cd_view :: raw_case_view
  cd_summary :: entries
  cd_counts :: "(string \<times> nat) list"
  cd_graph :: explorer_graph
  cd_activities :: "case_activity list"
  cd_eventCount :: nat
  cd_latestSequence :: nat
  cd_headDigest :: "string option"

definition actorLabel :: "entries \<Rightarrow> string" where
  \<comment> \<open>the dot between the two is one code unit\<close>
  "actorLabel actor = lower_case (or_else (stringValue actor [''type'']) ''ACTOR'') @ '' '' @ [char_of (183 :: nat)] @ '' ''
     @ or_else (stringValue actor [''principalId'']) ''unknown''"

definition object_counts :: "raw_case_view \<Rightarrow> (string \<times> nat) list" where
  "object_counts v = map (\<lambda>(name, records). (name, length records))
     [(''subjects'', rw_subjects v), (''evidence'', rw_evidence v), (''claims'', rw_claims v), (''facts'', rw_facts v),
      (''findings'', rw_findings v), (''assumptions'', rw_assumptions v), (''contradictions'', rw_contradictions v),
      (''workItems'', rw_workItems v), (''recommendations'', rw_decisionRecommendations v), (''gates'', rw_gateResults v),
      (''reviews'', rw_reviews v), (''dispositions'', rw_finalDispositions v), (''executions'', rw_executionRefs v)]"

definition case_detail_of :: "raw_case_view \<Rightarrow> raw_case_event list \<Rightarrow> case_detail result" where
  \<comment> \<open>what \<open>getCaseDetail\<close> makes of the view and the events it fetched\<close>
  "case_detail_of v es = bind_result (buildCaseGraph v) (\<lambda>g. Inr \<lparr>cd_view = v, cd_summary = mapCaseSummary (rw_case v),
     cd_counts = object_counts v, cd_graph = g, cd_activities = map (\<lambda>e. \<lparr>av_event = e, av_actorLabel = actorLabel (re_actor e)\<rparr>) es,
     cd_eventCount = length es, cd_latestSequence = (if es = [] then 0 else re_caseSequence (last es)),
     cd_headDigest = (if es = [] then None else Some (re_eventDigest (last es)))\<rparr>)"

section \<open>Reading the replies\<close>

definition object_of :: "json \<Rightarrow> entries" where
  "object_of v = (case v of JObj es \<Rightarrow> es | _ \<Rightarrow> [])"

definition list_member :: "entries \<Rightarrow> string \<Rightarrow> entries list result" where
  \<comment> \<open>a member that is read with \<open>map\<close>, \<open>length\<close> or \<open>for ... of\<close>\<close>
  "list_member es k = (case obj_get es k of JArr vs \<Rightarrow> Inr (map object_of vs) | _ \<Rightarrow> Inl ''TypeError'')"

fun list_members :: "entries \<Rightarrow> string list \<Rightarrow> entries list list result" where
  "list_members es [] = Inr []"
| "list_members es (k # ks) = bind_result (list_member es k) (\<lambda>x. bind_result (list_members es ks) (\<lambda>xs. Inr (x # xs)))"

definition view_lists :: "string list" where
  "view_lists = [''subjects'', ''evidence'', ''claims'', ''facts'', ''findings'', ''assumptions'', ''contradictions'', ''workItems'',
     ''decisionRecommendations'', ''gateResults'', ''reviews'', ''finalDispositions'', ''executionRefs'', ''lineageEdges'']"

definition read_case_view :: "json \<Rightarrow> raw_case_view result" where
  "read_case_view v = (let es = object_of v in bind_result (list_members es view_lists) (\<lambda>xs.
     Inr \<lparr>rw_generatedAt = text_of es ''generatedAt'', rw_viewSchema = text_of es ''viewSchema'', rw_etag = text_of es ''etag'',
       rw_case = object_of (obj_get es ''case''), rw_subjects = xs ! 0, rw_evidence = xs ! 1, rw_claims = xs ! 2, rw_facts = xs ! 3,
       rw_findings = xs ! 4, rw_assumptions = xs ! 5, rw_contradictions = xs ! 6, rw_workItems = xs ! 7,
       rw_decisionRecommendations = xs ! 8, rw_gateResults = xs ! 9, rw_reviews = xs ! 10, rw_finalDispositions = xs ! 11,
       rw_executionRefs = xs ! 12, rw_lineageEdges = xs ! 13\<rparr>))"

definition count_of :: "entries \<Rightarrow> string \<Rightarrow> nat" where
  "count_of es k = (case obj_get es k of JNum m 0 \<Rightarrow> nat m | _ \<Rightarrow> 0)"

definition read_case_event :: "entries \<Rightarrow> raw_case_event" where
  "read_case_event es = \<lparr>re_eventId = text_of es ''eventId'', re_caseSequence = count_of es ''caseSequence'',
     re_eventType = text_of es ''eventType'', re_occurredAt = text_of es ''occurredAt'', re_actor = object_of (obj_get es ''actor''),
     re_authority = object_of (obj_get es ''authority''), re_payload = object_of (obj_get es ''payload''),
     re_evidenceRefs = refs es ''evidenceRefs'', re_previousEventDigest = stringValue es [''previousEventDigest''],
     re_eventDigest = text_of es ''eventDigest''\<rparr>"

definition event_entries :: "case_event_row \<Rightarrow> entries" where
  \<comment> \<open>an event as \<open>listCaseEvents\<close> of the case store returns it\<close>
  "event_entries e = [(''tenantId'', JStr (ce_tenant_id e)), (''caseId'', JStr (ce_case_id e)),
     (''caseSequence'', JInt (int (ce_case_sequence e))), (''eventId'', JStr (ce_event_id e)), (''eventType'', JStr (ce_event_type e)),
     (''eventSchema'', JStr (ce_event_schema e)), (''occurredAt'', JStr (toISOString (ce_occurred_at e))),
     (''recordedAt'', JStr (toISOString (ce_recorded_at e))), (''actor'', actor_json (ce_actor e)),
     (''commandRef'', JStr (ce_command_id e)), (''authority'', ce_authority e), (''payload'', JObj (ce_payload e)),
     (''evidenceRefs'', strs_json (ce_evidence_refs e)), (''previousEventDigest'', null_json JStr (ce_previous_event_digest e)),
     (''eventDigest'', JStr (ce_event_digest e))]"

section \<open>The calls\<close>

definition listCaseSummaries :: "'w fetch \<Rightarrow> plain_headers result \<Rightarrow> string \<Rightarrow> string option \<Rightarrow> string option \<Rightarrow> ('w, entries list) act" where
  "listCaseSummaries fetch identity caseBase status query =
     then_do (apiJson fetch identity caseBase (cases_path status) ''GET'' [] None) (\<lambda>v.
     then_do (lift_act (list_member (object_of v) ''cases'')) (\<lambda>rows. lift_act (case_summaries query rows)))"

definition getCaseDetail :: "'w fetch \<Rightarrow> plain_headers result \<Rightarrow> string \<Rightarrow> string \<Rightarrow> ('w, case_detail option) act" where
  \<comment> \<open>of the encoded case id; None is a case that does not exist. Only what the first call throws is caught.\<close>
  "getCaseDetail fetch identity caseBase encoded = then_do
     (caught (then_do (apiJson fetch identity caseBase (''/v1/cases/'' @ encoded) ''GET'' [] None) (\<lambda>v. yield (Some v)))
        (\<lambda>c. if has_sub c ''case.not_found'' then yield None else throw c))
     (\<lambda>found. case found of None \<Rightarrow> yield None
       | Some v \<Rightarrow> then_do (apiJson fetch identity caseBase (''/v1/cases/'' @ encoded @ ''/events'') ''GET'' [] None) (\<lambda>w.
           then_do (lift_act (list_member (object_of w) ''events'')) (\<lambda>events.
           then_do (lift_act (read_case_view v)) (\<lambda>view.
           then_do (lift_act (case_detail_of view (map read_case_event events))) (\<lambda>d. yield (Some d))))))"

end
