(* ===== verification/CaseViewClaims.thy ===== *)
theory CaseViewClaims
  imports CaseViews CaseClaims
begin

text \<open>
  What a user sees of a case: the graph holds the links between its objects and nothing else, the ledger
  shown is the recorded one up to the first page of events, and where a search of the list fails.
\<close>

section \<open>The graph\<close>

definition edge_link :: "explorer_edge \<Rightarrow> string \<times> string \<times> string" where
  "edge_link e = (xe_from e, xe_to e, xe_label e)"

definition drawable :: "string list \<Rightarrow> link \<Rightarrow> (string \<times> string \<times> string) option" where
  "drawable ids k = (case k of (Some a, Some b, l) \<Rightarrow>
       if a \<noteq> [] \<and> b \<noteq> [] \<and> a \<in> set ids \<and> b \<in> set ids then Some (a, b, l) else None
     | _ \<Rightarrow> None)"

definition edges_inv :: "string list \<times> explorer_edge list \<Rightarrow> bool" where
  "edges_inv s \<longleftrightarrow> (case s of (seen, es) \<Rightarrow>
     set seen = set (map (\<lambda>e. link_key (xe_from e) (xe_to e) (xe_label e)) es)
     \<and> distinct (map (\<lambda>e. link_key (xe_from e) (xe_to e) (xe_label e)) es)
     \<and> map xe_id es = map (\<lambda>n. ''edge-'' @ nat_text n) [1..<Suc (length es)])"

lemma split_at_bar:
  assumes "CHR ''|'' \<notin> set a" and "CHR ''|'' \<notin> set a'"
  shows "a @ ''|'' @ b = a' @ ''|'' @ b' \<longleftrightarrow> a = a' \<and> b = b'"
  using assms by (induction a arbitrary: a') (auto simp: Cons_eq_append_conv, case_tac a', auto)

lemma link_key_inj:
  assumes "CHR ''|'' \<notin> set a" "CHR ''|'' \<notin> set b" "CHR ''|'' \<notin> set a'" "CHR ''|'' \<notin> set b'"
  shows "link_key a b l = link_key a' b' l' \<longleftrightarrow> (a, b, l) = (a', b', l')"
  using split_at_bar [OF assms(1,3)] split_at_bar [OF assms(2,4)] unfolding link_key_def by auto

lemma add_link_inv:
  assumes "edges_inv s"
  shows "edges_inv (add_link ids k s)"
proof -
  obtain seen es where s: "s = (seen, es)" by (cases s)
  show ?thesis
    using assms unfolding s
    by (cases "(ids, k, seen, es)" rule: add_link.cases) (auto simp: edges_inv_def)
qed

lemma add_link_links:
  assumes "edges_inv (seen, es)" and bar: "\<forall>i \<in> set ids. CHR ''|'' \<notin> set i"
    and within: "edge_link ` set es \<subseteq> {(a, b, l). a \<in> set ids \<and> b \<in> set ids}"
  shows "edge_link ` set (snd (add_link ids k (seen, es))) = edge_link ` set es \<union> set_option (drawable ids k)"
proof (cases "drawable ids k")
  case None
  then have "add_link ids k (seen, es) = (seen, es)"
    by (cases "(ids, k, seen, es)" rule: add_link.cases) (auto simp: drawable_def split: if_splits)
  then show ?thesis using None by simp
next
  case (Some t)
  then obtain a b l where k: "k = (Some a, Some b, l)" "t = (a, b, l)" "a \<noteq> []" "b \<noteq> []" "a \<in> set ids" "b \<in> set ids"
    by (auto simp: drawable_def split: prod.splits option.splits if_splits)
  show ?thesis
  proof (cases "link_key a b l \<in> set seen")
    case True
    then obtain e where e: "e \<in> set es" "link_key a b l = link_key (xe_from e) (xe_to e) (xe_label e)"
      using assms(1) by (auto simp: edges_inv_def)
    moreover have "xe_from e \<in> set ids" "xe_to e \<in> set ids" using within e(1) by (auto simp: edge_link_def)
    ultimately have "edge_link e = (a, b, l)" using bar k by (simp add: link_key_inj edge_link_def)
    then have "(a, b, l) \<in> edge_link ` set es" using e(1) by (metis image_eqI)
    then show ?thesis using True k Some by auto
  next
    case False
    then show ?thesis using k Some by (auto simp: edge_link_def)
  qed
qed

lemma fold_links:
  assumes "edges_inv (seen, es)" and "\<forall>i \<in> set ids. CHR ''|'' \<notin> set i"
    and "edge_link ` set es \<subseteq> {(a, b, l). a \<in> set ids \<and> b \<in> set ids}"
  shows "edges_inv (fold (add_link ids) ks (seen, es))
    \<and> edge_link ` set (snd (fold (add_link ids) ks (seen, es))) = edge_link ` set es \<union> \<Union> ((\<lambda>k. set_option (drawable ids k)) ` set ks)"
  using assms
proof (induction ks arbitrary: seen es)
  case (Cons k ks)
  obtain seen' es' where step: "add_link ids k (seen, es) = (seen', es')" by fastforce
  have inv: "edges_inv (seen', es')" using add_link_inv [OF Cons.prems(1), of ids k] by (simp only: step)
  have links: "edge_link ` set es' = edge_link ` set es \<union> set_option (drawable ids k)"
    using add_link_links [OF Cons.prems, of k] by (simp only: step snd_conv)
  moreover have "set_option (drawable ids k) \<subseteq> {(a, b, l). a \<in> set ids \<and> b \<in> set ids}"
    by (auto simp: drawable_def split: prod.splits option.splits if_splits)
  ultimately have within: "edge_link ` set es' \<subseteq> {(a, b, l). a \<in> set ids \<and> b \<in> set ids}" using Cons.prems(3) by blast
  show ?case using Cons.IH [OF inv Cons.prems(2) within] links by (auto simp: step)
qed simp

text \<open>C39. when no object's id contains the separator of the keys of edges, the edges of a case's graph are
  numbered in the order they were added, no two of them have the same ends and label, and they are
  exactly the recorded links whose two ends are nodes of the graph.\<close>

theorem case_graph_draws_exactly_the_links:
  assumes "\<forall>n \<in> set (graph_nodes v). CHR ''|'' \<notin> set (xn_id n)"
  shows "map xe_id (graph_edges v) = map (\<lambda>n. ''edge-'' @ nat_text n) [1..<Suc (length (graph_edges v))]
    \<and> distinct (map (\<lambda>e. (xe_from e, xe_to e, xe_label e)) (graph_edges v))
    \<and> (\<lambda>e. (xe_from e, xe_to e, xe_label e)) ` set (graph_edges v)
        = {(a, b, l). (Some a, Some b, l) \<in> set (case_links v) \<and> a \<in> xn_id ` set (graph_nodes v) - {[]}
            \<and> b \<in> xn_id ` set (graph_nodes v) - {[]}}"
proof -
  let ?ids = "map xn_id (graph_nodes v)"
  obtain seen es where fold: "fold (add_link ?ids) (case_links v) ([], []) = (seen, es)" by fastforce
  then have es: "graph_edges v = es" by (simp add: graph_edges_def)
  have "edges_inv (seen, es) \<and> edge_link ` set es = \<Union> ((\<lambda>k. set_option (drawable ?ids k)) ` set (case_links v))"
    using fold_links [of "[]" "[]" ?ids "case_links v"] assms unfolding fold by (simp add: edges_inv_def)
  then have inv: "edges_inv (seen, es)"
    and links: "edge_link ` set es = \<Union> ((\<lambda>k. set_option (drawable ?ids k)) ` set (case_links v))" by blast+
  have "distinct (map (\<lambda>e. link_key (xe_from e) (xe_to e) (xe_label e)) es)" using inv by (simp add: edges_inv_def)
  then have "distinct (map ((\<lambda>(a, b, l). link_key a b l) \<circ> edge_link) es)" by (simp add: edge_link_def comp_def)
  then have "distinct (map edge_link es)" by (metis distinct_map list.map_comp)
  moreover have "\<Union> ((\<lambda>k. set_option (drawable ?ids k)) ` set (case_links v))
      = {(a, b, l). (Some a, Some b, l) \<in> set (case_links v) \<and> a \<in> set ?ids - {[]} \<and> b \<in> set ?ids - {[]}}"
    by (force simp: drawable_def split: prod.splits option.splits if_splits)
  ultimately show ?thesis using inv links unfolding es edges_inv_def edge_link_def by simp
qed

definition demo_view :: raw_case_view where
  "demo_view = \<lparr>rw_generatedAt = [], rw_viewSchema = [], rw_etag = [], rw_case = [(''caseId'', JStr ''c1'')],
     rw_subjects = [[(''subject_id'', JStr ''s1'')]], rw_evidence = [], rw_claims = [], rw_facts = [], rw_findings = [],
     rw_assumptions = [], rw_contradictions = [], rw_workItems = [], rw_decisionRecommendations = [], rw_gateResults = [],
     rw_reviews = [], rw_finalDispositions = [], rw_executionRefs = [[(''run_id'', JStr ''r1'')]],
     rw_lineageEdges = [[(''source_id'', JStr ''s1''), (''target_id'', JStr ''r1'')], [(''source_id'', JStr ''s1''), (''target_id'', JStr ''x'')]]\<rparr>"

theorem case_graph_draws_exactly_the_links_witness:
  "map (\<lambda>e. (xe_id e, xe_from e, xe_to e, xe_label e)) (graph_edges demo_view)
     = [(''edge-1'', ''s1'', ''r1'', ''LINEAGE''), (''edge-2'', ''c1'', ''s1'', ''HAS_SUBJECT''), (''edge-3'', ''c1'', ''r1'', ''EXECUTED_AS'')]
   \<and> distinct (map (\<lambda>e. (xe_from e, xe_to e, xe_label e)) (graph_edges demo_view))"
proof -
  have edges: "map (\<lambda>e. (xe_id e, xe_from e, xe_to e, xe_label e)) (graph_edges demo_view)
     = [(''edge-1'', ''s1'', ''r1'', ''LINEAGE''), (''edge-2'', ''c1'', ''s1'', ''HAS_SUBJECT''), (''edge-3'', ''c1'', ''r1'', ''EXECUTED_AS'')]"
    by code_simp
  have "list_all (\<lambda>n. CHR ''|'' \<notin> set (xn_id n)) (graph_nodes demo_view)" by code_simp
  then have "\<forall>n \<in> set (graph_nodes demo_view). CHR ''|'' \<notin> set (xn_id n)" by (simp only: list_all_iff)
  then show ?thesis using case_graph_draws_exactly_the_links [of demo_view] edges by blast
qed

section \<open>The ledger\<close>

lemma read_event_entries [simp]:
  "re_caseSequence (read_case_event (event_entries e)) = ce_case_sequence e"
  "re_eventDigest (read_case_event (event_entries e)) = ce_event_digest e"
  by (simp_all add: read_case_event_def event_entries_def count_of_def text_of_def obj_get_def)

lemma last_take_upt: "0 < n \<Longrightarrow> last (take 1000 [1..<Suc n]) = min 1000 (n :: nat)"
  by (cases "n \<le> 1000") (simp_all add: min_def)

text \<open>of a case with at most a thousand events the detail shows the sequence and the head digest the next
  command will extend, whatever happened to the ledger before; of a longer one it shows the thousandth.\<close>

theorem case_detail_shows_first_thousand_events:
  assumes "ledger_ok d" and "s = run_steps (case_step st) d cs"
    and "case_detail_of v (map (read_case_event \<circ> event_entries) (listCaseEvents s t i 0)) = Inr detail"
  shows "cd_latestSequence detail = min 1000 (sequence_at s (t, i)) \<and> cd_eventCount detail = min 1000 (sequence_at s (t, i))
    \<and> (sequence_at s (t, i) \<le> 1000 \<longrightarrow> cd_headDigest detail = head_digest (ledger_of s) (t, i))"
proof -
  have inv: "chain_inv s (t, i)"
    unfolding assms(2) using assms(1) by (intro ledger_ok_chain case_ledger.run_inv)
  let ?es = "events_for s (t, i)" and ?n = "sequence_at s (t, i)"
  have seqs: "map ce_case_sequence ?es = [1..<Suc ?n]" and head: "head_digest (ledger_of s) (t, i) = last_digest ?es"
    using inv by (simp_all add: chain_inv_def)
  have len: "length ?es = ?n" using seqs by (metis diff_Suc_1 length_map length_upt)
  have last: "ce_case_sequence (last (take 1000 ?es)) = min 1000 ?n" if "?es \<noteq> []"
  proof -
    have "ce_case_sequence (last (take 1000 ?es)) = last (map ce_case_sequence (take 1000 ?es))"
      using that by (simp add: last_map)
    also have "\<dots> = last (take 1000 [1..<Suc ?n])" by (simp only: take_map [symmetric] seqs)
    also have "0 < ?n" using that len by (metis length_greater_0_conv)
    then have "last (take 1000 [1..<Suc ?n]) = min 1000 ?n" by (rule last_take_upt)
    finally show ?thesis .
  qed
  have "cd_eventCount detail = length (take 1000 ?es)"
    "cd_latestSequence detail = (if take 1000 ?es = [] then 0 else ce_case_sequence (last (take 1000 ?es)))"
    "cd_headDigest detail = last_digest (take 1000 ?es)"
    using assms(3) unfolding listCaseEvents_chain [OF inv]
    by (auto simp: case_detail_of_def bind_result_def last_digest_def last_map split: sum.splits)
  then show ?thesis using len last head by auto
qed

definition first_event :: case_event_row where
  "first_event = \<lparr>ce_tenant_id = ''acme'', ce_case_id = ''c1'', ce_case_sequence = 1, ce_event_id = ''e1'', ce_event_type = ''CaseCreated'',
     ce_event_schema = ''v1'', ce_occurred_at = 5, ce_recorded_at = 5, ce_actor = analyst, ce_command_id = ''cmd1'',
     ce_authority = JObj [], ce_payload = [], ce_evidence_refs = [], ce_previous_event_digest = None, ce_event_digest = ''d1''\<rparr>"

definition first_event_db :: case_db where
  "first_event_db = empty_case_db\<lparr>cases := [(new_case demo_request ''c1'' 5)\<lparr>cs_case_sequence := 1\<rparr>],
     ledger_of := (ledger_of empty_case_db)\<lparr>case_events := [first_event],
       chain_heads := [\<lparr>ch_key = (''acme'', ''c1''), ch_case_sequence = 1, ch_event_digest = ''d1'', ch_updated_at = 5\<rparr>]\<rparr>\<rparr>"

lemma first_event_db_ok: "ledger_ok first_event_db"
proof (rule ledger_okI)
  show "keyed case_key_of (cases first_event_db)" by (simp add: first_event_db_def keyed_def)
  show "chain_inv first_event_db k" for k
    by (cases "k = (''acme'', ''c1'')") (simp_all add: chain_inv_def events_for_def first_event_db_def empty_case_db_def first_event_def
      head_digest_def sql_find_def last_digest_def sequence_at_def find_case_def new_case_def demo_request_def case_key_of_def)
qed

definition first_detail :: "case_detail result" where
  "first_detail = case_detail_of demo_view (map (read_case_event \<circ> event_entries)
     (listCaseEvents (run_steps (case_step demo_store) first_event_db []) ''acme'' ''c1'' 0))"

theorem case_detail_shows_first_thousand_events_witness:
  "cd_latestSequence (projr first_detail) = 1
    \<and> cd_headDigest (projr first_detail) = head_digest (ledger_of first_event_db) (''acme'', ''c1'')"
proof -
  have "first_detail = Inr (projr first_detail)"
    by (simp add: first_detail_def case_detail_of_def buildCaseGraph_def demo_view_def)
  from case_detail_shows_first_thousand_events [OF first_event_db_ok refl this [unfolded first_detail_def]]
  show ?thesis
    by (simp add: first_detail_def sequence_at_def first_event_db_def find_case_def sql_find_def new_case_def demo_request_def case_key_of_def)
qed

section \<open>The search\<close>

lemma filter_result_fails: "x \<in> set xs \<Longrightarrow> f x = Inl c \<Longrightarrow> \<exists>c. filter_result f xs = Inl c"
  by (induction xs) (auto simp: bind_result_def split: sum.splits)

lemma some_includes_error: "some_includes q vs = Inl c \<Longrightarrow> c = ''TypeError''"
  by (induction vs) (auto split: json.splits if_splits)

text \<open>A case without an external reference, which its schema allows, makes every search of the list fail that
  its id does not match.\<close>

theorem search_fails_without_external_reference:
  assumes "r \<in> set rs" and "cs_external_ref r = None" and "trim_or_undefined query = Some q"
    and "\<not> has_sub (lower_case (cs_case_id r)) (lower_case q)"
  shows "\<exists>c. case_summaries query (map (object_of \<circ> mapCase) rs) = Inl c"
proof -
  have "case_matches (lower_case q) (mapCaseSummary (object_of (mapCase r))) = Inl ''TypeError''"
    using assms(2,4) by (simp add: case_matches_def mapCaseSummary_def summary_members_def mapCase_def object_of_def obj_get_def null_json_def)
  then show ?thesis
    unfolding case_summaries_def assms(3) option.case map_map [symmetric]
    using assms(1) by (intro filter_result_fails) auto
qed

end
