(* ===== verification/PlanViews.thy ===== *)
theory PlanViews
  imports Complex_Main CaseViews RunStore Gateway
begin

text \<open>
  The plan views of apps/control-ui/src/lib/runtime-service.ts: a plan as the graph a user sees, the list of
  plans with the statistics of their runs and its filters, and the capabilities plans bind. A reply of a
  service is the list of rows it carries, a time in it the number of milliseconds its text parses to. A
  quotient of the program is a rational here, a cost counted in the units of its column.
\<close>

section \<open>A plan\<close>

record plan_node_view =
  pn_id :: string
  pn_name :: string
  pn_primitive :: string
  pn_purpose :: string
  pn_x :: rat
  pn_y :: int
  pn_modelTier :: "string option"
  pn_capabilityId :: "string option"
  pn_effectClass :: string
  pn_allowedEffects :: "effect_class list"
  pn_permissionEnvelopeDigest :: string
  pn_timeoutMs :: int
  pn_maxRetries :: int
  pn_maxCostUsd :: decimal
  pn_inputSchema :: json
  pn_outputSchema :: json
  pn_caseWrites :: "entries list"

record plan_edge_view =
  pe_id :: string
  pe_from :: string
  pe_to :: string
  pe_conditionLabel :: "string option"
  pe_mappingSummary :: string

record plan_view =
  pv_plan :: harness_plan
  pv_compilerVersion :: string
  pv_admittedAt :: time
  pv_maxRetries :: int
  pv_dependencies :: "(string \<times> string \<times> string \<times> string) list"
  pv_nodes :: "plan_node_view list"
  pv_edges :: "plan_edge_view list"

definition plan_name :: "harness_plan \<Rightarrow> string" where
  "plan_name p = (case plan_metadata p of (name, _) \<Rightarrow> name)"

definition plan_version :: "harness_plan \<Rightarrow> string" where
  "plan_version p = (case plan_metadata p of (_, version, _) \<Rightarrow> version)"

definition plan_domain :: "harness_plan \<Rightarrow> string" where
  "plan_domain p = (case plan_metadata p of (_, _, domain, _) \<Rightarrow> domain)"

definition primitive :: "node_kind \<Rightarrow> capability_definition option \<Rightarrow> string" where
  "primitive k capability =
     (if k \<in> {NAgent, NCondition, NEvaluate, NAggregator} then node_kind_name k
      else if map_option cap_kind capability = Some KindModel then ''model'' else node_kind_name k)"

definition ordered_nodes :: "harness_plan \<Rightarrow> graph_node list" where
  "ordered_nodes p = (if plan_nodeOrder p \<noteq> []
     then List.map_filter (\<lambda>i. List.find (\<lambda>n. node_id n = i) (plan_nodes p)) (plan_nodeOrder p) else plan_nodes p)"

definition node_capability :: "harness_plan \<Rightarrow> graph_node \<Rightarrow> string option" where
  "node_capability p n = stringValue (node_config n) [''capabilityId'']"

definition binding_capability :: "harness_plan \<Rightarrow> graph_node \<Rightarrow> capability_definition option" where
  \<comment> \<open>\<open>new Map\<close> keeps the last capability of an id\<close>
  "binding_capability p n = (case node_capability p n of None \<Rightarrow> None
     | Some c \<Rightarrow> if c = [] then None else map_of (rev (map (\<lambda>k. (cap_id k, k)) (plan_capabilities p))) c)"

definition case_write_view :: "json \<Rightarrow> entries list result" where
  "case_write_view w = bind_result (member_of w ''commandType'') (\<lambda>command.
     bind_result (member_of w ''payloadSchema'') (\<lambda>schema. bind_result (member_of w ''when'') (\<lambda>condition.
     Inr (case (command, schema) of
         (JStr _, JObj _) \<Rightarrow> [[(''commandType'', command)] @ (case condition of JStr _ \<Rightarrow> [(''when'', condition)] | _ \<Rightarrow> []) @ [(''payloadSchema'', schema)]]
       | _ \<Rightarrow> []))))"

fun map_result :: "('a \<Rightarrow> 'b result) \<Rightarrow> 'a list \<Rightarrow> 'b list result" where
  "map_result f [] = Inr []"
| "map_result f (x # xs) = bind_result (f x) (\<lambda>y. bind_result (map_result f xs) (\<lambda>ys. Inr (y # ys)))"

definition case_write_views :: "graph_node \<Rightarrow> entries list result" where
  "case_write_views n = (case obj_get (node_config n) ''caseWrites'' of
       JArr ws \<Rightarrow> bind_result (map_result case_write_view ws) (\<lambda>vs. Inr (concat vs)) | _ \<Rightarrow> Inr [])"

definition node_x :: "nat \<Rightarrow> nat \<Rightarrow> rat" where
  \<comment> \<open>of the node at a position of \<open>n\<close>\<close>
  "node_x n index = 115 + of_nat index * min 200 (880 / of_nat (max 1 (n - 1)))"

definition node_y :: "nat \<Rightarrow> nat \<Rightarrow> int" where
  "node_y n index = (if 3 < n \<and> 0 < index \<and> index < n - 1 then (if even index then 175 else 85) else 130)"

definition first_nonempty :: "string list \<Rightarrow> string" where
  \<comment> \<open>\<open>a || b || c\<close>\<close>
  "first_nonempty ss = (case filter (\<lambda>s. s \<noteq> []) ss of s # _ \<Rightarrow> s | [] \<Rightarrow> if ss = [] then [] else last ss)"

definition effect_view :: "capability_definition option \<Rightarrow> string" where
  "effect_view capability = (case map_option cap_effect capability of
       None \<Rightarrow> ''none'' | Some EffNone \<Rightarrow> ''none'' | Some EffRead \<Rightarrow> ''read_only'' | Some _ \<Rightarrow> ''external_mutation'')"

definition node_view :: "(string \<Rightarrow> string) \<Rightarrow> harness_plan \<Rightarrow> nat \<Rightarrow> nat \<times> graph_node \<Rightarrow> plan_node_view result" where
  "node_view sha p len = (\<lambda>(index, n). bind_result (case_write_views n) (\<lambda>writes.
     let capability = binding_capability p n;
         permission = List.find (\<lambda>e. perm_nodeId e = node_id n) (plan_permissionEnvelopes p);
         profile = (case capability of Some c \<Rightarrow> if starts_with (cap_adapterBindingId c) ''openrouter:''
             then Some (strip_prefix ''openrouter:'' (cap_adapterBindingId c)) else None | None \<Rightarrow> None);
         schema = (\<lambda>own of_capability. nullish own (case capability of Some c \<Rightarrow> JObj (of_capability c) | None \<Rightarrow> JObj []))
     in Inr \<lparr>pn_id = node_id n, pn_name = node_name n, pn_primitive = primitive (node_kind n) capability,
       pn_purpose = first_nonempty [or_else (node_summary n) [], or_else (node_prompt n) [], node_name n],
       pn_x = node_x len index, pn_y = node_y len index,
       pn_modelTier = (if nonempty profile then profile else None),
       pn_capabilityId = (if nonempty (node_capability p n) then node_capability p n else None),
       pn_effectClass = effect_view capability,
       pn_allowedEffects = (case permission of None \<Rightarrow> [] | Some e \<Rightarrow> perm_effects e),
       pn_permissionEnvelopeDigest = (case permission of Some e \<Rightarrow> perm_digest e
         | None \<Rightarrow> sha (json_text (JObj [(''planDigest'', JStr (plan_planDigest p)), (''nodeId'', JStr (node_id n))]))),
       pn_timeoutMs = (case capability of Some c \<Rightarrow> cap_timeoutMs c | None \<Rightarrow> maxDurationMs (plan_budgets p)),
       pn_maxRetries = max 0 ((case capability of Some c \<Rightarrow> cap_maxAttempts c | None \<Rightarrow> 1) - 1),
       pn_maxCostUsd = (if map_option cap_kind capability = Some KindModel then maxCostUsd (plan_budgets p) else (0, 0)),
       pn_inputSchema = schema (node_inputSchema n) cap_inputSchema, pn_outputSchema = schema (node_outputSchema n) cap_outputSchema,
       pn_caseWrites = writes\<rparr>))"

definition edge_view :: "graph_edge \<Rightarrow> plan_edge_view" where
  \<comment> \<open>the arrow is the three code units of its UTF-8 form\<close>
  "edge_view e = (let paths = filter (\<lambda>s. s \<noteq> []) (map (\<lambda>v. or_else v []) [edge_sourcePath e, edge_targetPath e]);
       text = join ('' '' @ map char_of [226, 134, 146 :: nat] @ '' '') paths in
     \<lparr>pe_id = edge_id e, pe_from = edge_from e, pe_to = edge_to e,
       pe_conditionLabel = (if nonempty (edge_condition e) then edge_condition e else None),
       pe_mappingSummary = (if text = [] then edge_kind_name (edge_kind e) else text)\<rparr>)"

definition compiler_text :: "harness_plan \<Rightarrow> string" where
  "compiler_text p = (case plan_compiler p of (name, version, revision) \<Rightarrow>
     name @ '' '' @ version @ '' '' @ [char_of (183 :: nat)] @ '' '' @ take 8 revision)"

definition mapPlan :: "(string \<Rightarrow> string) \<Rightarrow> harness_plan \<Rightarrow> time \<Rightarrow> plan_view result" where
  "mapPlan sha p admittedAt = (let ordered = ordered_nodes p in
     bind_result (map_result (node_view sha p (length ordered)) (enumerate 0 ordered)) (\<lambda>nodes.
     Inr \<lparr>pv_plan = p, pv_compilerVersion = compiler_text p, pv_admittedAt = admittedAt,
       pv_maxRetries = Max (set (0 # map (\<lambda>c. cap_maxAttempts c - 1) (plan_capabilities p))),
       pv_dependencies = map (\<lambda>(path, digest). (path, plan_version p, digest, if has_sub path ''schema'' then ''schema'' else ''adapter''))
         (plan_dependencyManifest p),
       pv_nodes = nodes, pv_edges = map edge_view (plan_edges p)\<rparr>))"

definition planRecords :: "(string \<Rightarrow> string) \<Rightarrow> (harness_plan \<times> time) list \<Rightarrow> plan_view list result" where
  "planRecords sha records = map_result (\<lambda>(p, t). mapPlan sha p t) records"

section \<open>The list of plans\<close>

definition duration :: "run_row \<Rightarrow> time" where
  "duration r = max 0 (or_else (run_completed_at r) (run_updated_at r) - or_else (run_started_at r) (run_created_at r))"

definition percentile :: "nat \<Rightarrow> time list \<Rightarrow> time option" where
  \<comment> \<open>\<open>durations[Math.floor((durations.length - 1) * q)]\<close> of sorted durations, \<open>q\<close> in percent\<close>
  "percentile q ds = (if ds = [] then None else Some (ds ! ((length ds - 1) * q div 100)))"

definition rounded :: "rat \<Rightarrow> int" where
  \<comment> \<open>\<open>Math.round\<close>\<close>
  "rounded x = \<lfloor>x + 1 / 2\<rfloor>"

record harness_summary =
  hs_plan :: plan_view
  hs_modelTiers :: "string list"
  hs_capabilityCount :: nat
  hs_effectfulCapabilityCount :: nat
  hs_runs :: nat
  hs_completedRuns :: nat
  hs_completionRatePct :: "int option"
  hs_meanCost :: rat
  hs_costComplete :: bool
  hs_p50DurationMs :: "time option"
  hs_p95DurationMs :: "time option"
  hs_lastRunAt :: "time option"

definition model_tiers :: "plan_view \<Rightarrow> string list" where
  "model_tiers v = List.map_filter pn_modelTier (pv_nodes v)"

definition harness_summary_of :: "run_row list \<Rightarrow> plan_view \<Rightarrow> harness_summary" where
  "harness_summary_of rs v = (let matches = filter (\<lambda>r. run_plan_digest r = plan_planDigest (pv_plan v)) rs;
       completed = length (filter (\<lambda>r. run_status r = Completed) matches); n = length matches;
       durations = sort (map duration matches) in
     \<lparr>hs_plan = v, hs_modelTiers = model_tiers v,
       hs_capabilityCount = length (filter (\<lambda>x. pn_capabilityId x \<noteq> None) (pv_nodes v)),
       hs_effectfulCapabilityCount = length (filter (\<lambda>x. pn_effectClass x \<notin> {''none'', ''read_only''}) (pv_nodes v)),
       hs_runs = n, hs_completedRuns = completed,
       hs_completionRatePct = (if n = 0 then None else Some (rounded (of_nat completed / of_nat n * 100))),
       hs_meanCost = (if n = 0 then 0 else of_int (sum_list (map run_cost_e8 matches)) / of_nat n),
       hs_costComplete = list_all run_cost_complete matches,
       hs_p50DurationMs = percentile 50 durations, hs_p95DurationMs = percentile 95 durations,
       hs_lastRunAt = (if matches = [] then None else Some (Max (set (map run_updated_at matches))))\<rparr>)"

definition searched :: "string option \<Rightarrow> string list \<Rightarrow> bool" where
  \<comment> \<open>\<open>!query || values.some((value) => value.toLowerCase().includes(query))\<close>\<close>
  "searched query values = (case map_option lower_case query of None \<Rightarrow> True
     | Some q \<Rightarrow> q = [] \<or> (\<exists>v \<in> set values. has_sub (lower_case v) q))"

definition chosen :: "string option \<Rightarrow> (string \<Rightarrow> bool) \<Rightarrow> bool" where
  \<comment> \<open>a filter that is absent, empty or \<open>all\<close> admits everything\<close>
  "chosen f P \<longleftrightarrow> (case f of None \<Rightarrow> True | Some v \<Rightarrow> v = [] \<or> v = ''all'' \<or> P v)"

definition harness_admitted :: "string option \<Rightarrow> string option \<Rightarrow> string option \<Rightarrow> harness_summary \<Rightarrow> bool" where
  "harness_admitted query domain tier h = (let p = pv_plan (hs_plan h) in
     searched query [plan_name p, plan_planDigest p, plan_domain p] \<and> chosen domain (\<lambda>v. plan_domain p = v)
     \<and> chosen tier (\<lambda>v. v \<in> set (hs_modelTiers h)))"

definition listHarnessSummaries :: "(string \<Rightarrow> string) \<Rightarrow> string option \<Rightarrow> string option \<Rightarrow> string option \<Rightarrow> (harness_plan \<times> time) list \<Rightarrow> run_row list \<Rightarrow> harness_summary list result" where
  "listHarnessSummaries sha query domain tier records rs = bind_result (planRecords sha records) (\<lambda>views.
     Inr (filter (harness_admitted query domain tier) (map (harness_summary_of rs) views)))"

definition getHarnessDetail :: "(string \<Rightarrow> string) \<Rightarrow> string \<Rightarrow> (harness_plan \<times> time) list \<Rightarrow> (harness_plan \<times> time) list \<Rightarrow> run_row list \<Rightarrow> (harness_summary \<times> plan_view) option result" where
  \<comment> \<open>of the decoded digest; the plans are fetched twice\<close>
  "getHarnessDetail sha digest records records' rs = bind_result (planRecords sha records) (\<lambda>views.
     bind_result (listHarnessSummaries sha None None None records' rs) (\<lambda>summaries.
     Inr (case (List.find (\<lambda>v. plan_planDigest (pv_plan v) = digest) views,
          List.find (\<lambda>h. plan_planDigest (pv_plan (hs_plan h)) = digest) summaries) of
         (Some v, Some h) \<Rightarrow> Some (h, v) | _ \<Rightarrow> None)))"

section \<open>Bound capabilities\<close>

record tool_view =
  tv_capabilityId :: string
  tv_effectClass :: string
  tv_adapterBindingId :: string
  tv_adapterVersion :: string
  tv_timeoutMs :: int
  tv_retryPolicy :: string
  tv_credentialState :: string

definition put_capability :: "capability_definition \<Rightarrow> (string \<times> capability_definition) list \<Rightarrow> (string \<times> capability_definition) list" where
  \<comment> \<open>\<open>Map.set\<close>: the value changes, the place does not\<close>
  "put_capability c m = (if cap_id c \<in> fst ` set m then map (\<lambda>(k, v). (k, if k = cap_id c then c else v)) m else m @ [(cap_id c, c)])"

definition tool_view_of :: "capability_definition \<Rightarrow> tool_view" where
  "tool_view_of c = \<lparr>tv_capabilityId = cap_id c, tv_effectClass = (if cap_effect c = EffRead then ''read_only'' else ''external_mutation''),
     tv_adapterBindingId = cap_adapterBindingId c, tv_adapterVersion = last (split_on CHR '':'' (cap_adapterBindingId c)),
     tv_timeoutMs = cap_timeoutMs c,
     tv_retryPolicy = (if 1 < cap_maxAttempts c then ''up to '' @ int_text (cap_maxAttempts c) @ '' attempts'' else ''no retry''),
     tv_credentialState = (if starts_with (cap_adapterBindingId c) ''simulator:'' then ''Not required'' else ''Configured'')\<rparr>"

definition listToolCapabilities :: "(string \<Rightarrow> string) \<Rightarrow> (harness_plan \<times> time) list \<Rightarrow> tool_view list result" where
  "listToolCapabilities sha records = bind_result (planRecords sha records) (\<lambda>_.
     Inr (map (tool_view_of \<circ> snd)
       (fold put_capability (filter (\<lambda>c. cap_kind c \<noteq> KindModel) (concat (map (plan_capabilities \<circ> fst) records))) [])))"

end
