(* ===== verification/RunViews.thy ===== *)
theory RunViews
  imports PlanViews RuntimeNode
begin

text \<open>
  The run views of apps/control-ui/src/lib/runtime-service.ts: the list of runs and its filters, the detail
  of a run with the state of every node, the receipts of the gateway, the overview and the queue.
\<close>

section \<open>Summaries\<close>

fun run_status_text :: "run_status \<Rightarrow> string" where
  "run_status_text Queued = ''queued''" | "run_status_text Running = ''running''" | "run_status_text Retrying = ''retrying''"
| "run_status_text Completed = ''completed''" | "run_status_text ManualReview = ''manual_review''"
| "run_status_text Denied = ''denied''" | "run_status_text Failed = ''failed''" | "run_status_text Cancelled = ''cancelled''"

record event_preview =
  ep_sequence :: nat
  ep_code :: string
  ep_summary :: string
  ep_occurredAt :: time

record run_summary =
  us_run :: run_row
  us_plan :: plan_view
  us_modelTiers :: "string list"
  us_durationMs :: time
  us_startedAt :: time
  us_fixture :: bool
  us_traceId :: "string option"
  us_rootSpanId :: "string option"
  us_traceViewerUrl :: "string option"
  us_needsAttention :: bool
  us_recentEventsPreview :: "event_preview list"

definition capitalized :: "string \<Rightarrow> string" where
  "capitalized s = toUpperCase (take 1 s) @ drop 1 s"

definition eventSummary :: "event_row \<Rightarrow> string" where
  "eventSummary e = (case obj_get (ev_values e) ''summary'' of JStr s \<Rightarrow> s
     | _ \<Rightarrow> join '' '' (map capitalized (split_on CHR ''.'' (ev_code e))))"

definition needs_attention :: "run_status \<Rightarrow> bool" where
  "needs_attention s \<longleftrightarrow> s \<in> {Failed, Denied, Retrying, ManualReview}"

definition trace_viewer_url :: "env \<Rightarrow> string option \<Rightarrow> string option" where
  "trace_viewer_url env traceId = (if \<not> nonempty traceId then None
     else Some ((if present env ''TRACE_VIEWER_PUBLIC_URL'' then without_slash (the (env ''TRACE_VIEWER_PUBLIC_URL''))
       else ''http://localhost:16686'') @ ''/trace/'' @ the traceId))"

definition last_elements :: "nat \<Rightarrow> 'a list \<Rightarrow> 'a list" where
  \<comment> \<open>\<open>slice(-n)\<close>\<close>
  "last_elements n xs = drop (length xs - n) xs"

definition summarizeRun :: "env \<Rightarrow> bool \<Rightarrow> plan_view \<Rightarrow> event_row list \<Rightarrow> run_row \<Rightarrow> run_summary" where
  \<comment> \<open>\<open>recorded\<close>: the gateway has no credential\<close>
  "summarizeRun env recorded v events r = \<lparr>us_run = r, us_plan = v, us_modelTiers = model_tiers v, us_durationMs = duration r,
     us_startedAt = or_else (run_started_at r) (run_created_at r), us_fixture = recorded, us_traceId = run_trace_id r,
     us_rootSpanId = run_root_span_id r, us_traceViewerUrl = trace_viewer_url env (run_trace_id r),
     us_needsAttention = needs_attention (run_status r),
     us_recentEventsPreview = map (\<lambda>e. \<lparr>ep_sequence = ev_sequence e, ep_code = ev_code e, ep_summary = eventSummary e,
       ep_occurredAt = ev_occurred_at e\<rparr>) (rev (last_elements 3 events))\<rparr>"

record run_filters =
  rf_query :: "string option"
  rf_status :: "string option"
  rf_planDigest :: "string option"
  rf_domain :: "string option"
  rf_modelTier :: "string option"
  rf_onlyNeedsAttention :: bool

definition no_filters :: run_filters where
  "no_filters = \<lparr>rf_query = None, rf_status = None, rf_planDigest = None, rf_domain = None, rf_modelTier = None,
     rf_onlyNeedsAttention = False\<rparr>"

definition run_admitted :: "run_filters \<Rightarrow> run_summary \<Rightarrow> bool" where
  \<comment> \<open>the digest of the filter is decoded already\<close>
  "run_admitted f u = (let p = pv_plan (us_plan u) in
     searched (rf_query f) [run_id (us_run u), plan_name p, run_plan_digest (us_run u)]
     \<and> chosen (rf_status f) (\<lambda>v. run_status_text (run_status (us_run u)) = v)
     \<and> chosen (rf_planDigest f) (\<lambda>v. run_plan_digest (us_run u) = v)
     \<and> chosen (rf_domain f) (\<lambda>v. plan_domain p = v) \<and> chosen (rf_modelTier f) (\<lambda>v. v \<in> set (us_modelTiers u))
     \<and> (rf_onlyNeedsAttention f \<longrightarrow> us_needsAttention u))"

definition plan_of :: "plan_view list \<Rightarrow> string \<Rightarrow> plan_view option" where
  \<comment> \<open>\<open>new Map(...).get(digest)\<close>\<close>
  "plan_of views digest = map_of (rev (map (\<lambda>v. (plan_planDigest (pv_plan v), v)) views)) digest"

definition run_summaries :: "env \<Rightarrow> bool \<Rightarrow> run_filters \<Rightarrow> plan_view list \<Rightarrow> run_row list \<Rightarrow> run_summary list" where
  "run_summaries env recorded f views rs = filter (run_admitted f)
     (List.map_filter (\<lambda>r. map_option (\<lambda>v. summarizeRun env recorded v [] r) (plan_of views (run_plan_digest r))) rs)"

definition listRunsView :: "(string \<Rightarrow> string) \<Rightarrow> env \<Rightarrow> bool \<Rightarrow> run_filters \<Rightarrow> run_row list \<Rightarrow> (harness_plan \<times> time) list \<Rightarrow> run_summary list result" where
  "listRunsView sha env recorded f rs records = bind_result (planRecords sha records) (\<lambda>views.
     Inr (run_summaries env recorded f views rs))"

section \<open>Receipts\<close>

fun result_status_text :: "capability_status \<Rightarrow> string" where
  "result_status_text CapSucceeded = ''succeeded''" | "result_status_text CapFailed = ''failed''"
| "result_status_text CapDenied = ''denied''"

record decision_view =
  dv_receipt :: receipt_row
  dv_adapterBindingId :: "string option"
  dv_latencyMs :: int
  dv_resultStatus :: "string option"

definition mapReceipt :: "receipt_row \<Rightarrow> decision_view" where
  "mapReceipt g = \<lparr>dv_receipt = g, dv_adapterBindingId = Option.bind (gr_result g) cres_provider,
     dv_latencyMs = (case gr_result g of None \<Rightarrow> 0 | Some r \<Rightarrow> cres_latencyMs r),
     dv_resultStatus = map_option (\<lambda>r. result_status_text (cres_status r)) (gr_result g)\<rparr>"

definition decisions_path :: "string option \<Rightarrow> string" where
  "decisions_path decision = ''/v1/gateway/receipts'' @ (if nonempty decision \<and> decision \<noteq> Some ''all''
     then ''?decision='' @ encodeURIComponent (the decision) else [])"

record gateway_view =
  gw_calls24h :: nat
  gw_denials24h :: nat

definition getGatewayStatus :: "receipt_row list \<Rightarrow> gateway_view" where
  "getGatewayStatus gs = \<lparr>gw_calls24h = length gs,
     gw_denials24h = length (filter (\<lambda>g. gr_decision g = ''denied'') gs)\<rparr>"

record tier_view =
  ti_tierId :: string
  ti_purpose :: string
  ti_profileDigest :: string
  ti_model :: string
  ti_maxOutputTokens :: int
  ti_timeoutMs :: int
  ti_concurrencyLimit :: int
  ti_configured :: bool

definition profile_reply :: "model_profile \<Rightarrow> json" where
  \<comment> \<open>a profile as the gateway sends it\<close>
  "profile_reply p = JObj [(''id'', JStr (mp_id p)), (''provider'', JStr ''openrouter''), (''model'', JStr (mp_model p)),
     (''maxOutputTokens'', JInt (mp_maxOutputTokens p)), (''timeoutMs'', JInt (mp_timeoutMs p)), (''maxConcurrency'', JInt (mp_maxConcurrency p))]"

definition listModelProfiles :: "(string \<Rightarrow> string) \<Rightarrow> bool \<Rightarrow> model_profile list \<Rightarrow> tier_view list" where
  "listModelProfiles sha configured ps = map (\<lambda>p. \<lparr>ti_tierId = mp_id p, ti_purpose = ''openrouter capability tier'',
     ti_profileDigest = sha (json_text (profile_reply p)), ti_model = mp_model p, ti_maxOutputTokens = mp_maxOutputTokens p,
     ti_timeoutMs = mp_timeoutMs p, ti_concurrencyLimit = mp_maxConcurrency p, ti_configured = configured\<rparr>) ps"

section \<open>The detail of a run\<close>

definition latest_attempt :: "string \<Rightarrow> attempt_row list \<Rightarrow> attempt_row option" where
  \<comment> \<open>\<open>toSorted((a, b) => b.attempt - a.attempt)[0]\<close>\<close>
  "latest_attempt nodeId attempts = (case sort_key (\<lambda>a. - int (na_attempt a)) (filter (\<lambda>a. na_node_id a = nodeId) attempts) of
     [] \<Rightarrow> None | a # _ \<Rightarrow> Some a)"

datatype node_state = NotReached | Executing | NodeCompleted | NodeFailed | NodeRetrying | NodeDenied

definition nodeState :: "string \<Rightarrow> run_row \<Rightarrow> attempt_row list \<Rightarrow> node_state" where
  "nodeState nodeId r attempts = (let status = map_option na_status (latest_attempt nodeId attempts);
       current = run_current_node_id r = Some nodeId in
     if status = Some ''running'' then Executing
     else if status = Some ''completed'' then NodeCompleted
     else if status = Some ''failed'' then NodeFailed
     else if current \<and> run_status r = Retrying then NodeRetrying
     else if current \<and> run_status r = Denied then NodeDenied
     else if current \<and> run_status r = Running then Executing
     else NotReached)"

definition KNOWN_EVENT_CODES :: "string list" where
  "KNOWN_EVENT_CODES = [''run.admitted'', ''run.started'', ''run.completed'', ''run.failed'', ''run.denied'',
     ''node.started'', ''node.completed'', ''node.failed'', ''checkpoint.committed'',
     ''capability.requested'', ''capability.completed'', ''capability.denied'']"

record event_view =
  ew_event :: event_row
  ew_id :: string
  ew_attempt :: decimal
  ew_fencingEpoch :: decimal
  ew_durationMs :: "decimal option"
  ew_summary :: string
  ew_isKnownCode :: bool

definition number_at :: "entries \<Rightarrow> string \<Rightarrow> decimal option" where
  "number_at es k = (case obj_get es k of JNum m s \<Rightarrow> Some (m, s) | _ \<Rightarrow> None)"

definition event_view_of :: "run_row \<Rightarrow> event_row \<Rightarrow> event_view" where
  "event_view_of r e = \<lparr>ew_event = e, ew_id = ev_run_id e @ ''-event-'' @ nat_text (ev_sequence e),
     ew_attempt = or_else (number_at (ev_values e) ''attempt'') (int (run_attempt r), 0),
     ew_fencingEpoch = or_else (number_at (ev_values e) ''fencingEpoch'') (int (run_fencing_epoch r), 0),
     ew_durationMs = number_at (ev_values e) ''durationMs'', ew_summary = eventSummary e,
     ew_isKnownCode = (ev_code e \<in> set KNOWN_EVENT_CODES)\<rparr>"

record usage_view =
  uv_requestedTier :: string
  uv_model :: string
  uv_adapterVersion :: string
  uv_providerRequestId :: string
  uv_inputTokens :: int
  uv_outputTokens :: int
  uv_reportedUsd :: decimal
  uv_costComplete :: bool
  uv_latencyMs :: int

definition usage_of :: "plan_node_view \<Rightarrow> receipt_row \<Rightarrow> capability_result \<Rightarrow> usage_view" where
  "usage_of n g r = \<lparr>uv_requestedTier = or_else (pn_modelTier n) ''unknown'', uv_model = or_else (cres_model r) ''recorded'',
     uv_adapterVersion = or_else (cres_provider r) ''openrouter'',
     uv_providerRequestId = or_else (cres_providerRequestId r) (gr_invocation_id g),
     uv_inputTokens = or_else (cres_inputTokens r) 0, uv_outputTokens = or_else (cres_outputTokens r) 0,
     uv_reportedUsd = or_else (cres_costUsd r) (0, 0), uv_costComplete = (cres_costUsd r \<noteq> None), uv_latencyMs = cres_latencyMs r\<rparr>"

record node_attempt_view =
  nv_node :: plan_node_view
  nv_state :: node_state
  nv_attempt :: nat
  nv_fencingEpoch :: nat
  nv_startedAt :: "time option"
  nv_completedAt :: "time option"
  nv_durationMs :: "time option"
  nv_retryClassification :: string
  nv_inputSchemaValid :: bool
  nv_outputSchemaValid :: "bool option"
  nv_inputDigest :: "string option"
  nv_validatedOutput :: "(string \<times> string option) option"
  nv_validationDiagnostics :: "string list"
  nv_executionEnvelopeId :: string
  nv_issuedAt :: time
  nv_expiresAt :: time
  nv_capabilityScope :: "string list"
  nv_effectScope :: "effect_class list"
  nv_usage :: "usage_view option"
  nv_capabilityCalls :: "decision_view list"

definition node_attempt_of :: "run_summary \<Rightarrow> attempt_row list \<Rightarrow> receipt_row list \<Rightarrow> plan_node_view \<Rightarrow> node_attempt_view" where
  "node_attempt_of u attempts gs n = (let r = us_run u; m = latest_attempt (pn_id n) attempts;
       own = filter (\<lambda>g. gr_node_id g = pn_id n) gs;
       modelCall = List.find (\<lambda>g. nonempty (Option.bind (gr_result g) cres_model)) own
     in \<lparr>nv_node = n, nv_state = nodeState (pn_id n) r attempts,
       nv_attempt = (case m of Some a \<Rightarrow> na_attempt a | None \<Rightarrow> run_attempt r),
       nv_fencingEpoch = (case m of Some a \<Rightarrow> na_fencing_epoch a | None \<Rightarrow> run_fencing_epoch r),
       nv_startedAt = map_option na_started_at m, nv_completedAt = Option.bind m na_completed_at,
       nv_durationMs = (case m of None \<Rightarrow> None | Some a \<Rightarrow> map_option (\<lambda>t. t - na_started_at a) (na_completed_at a)),
       nv_retryClassification = (case m of Some a \<Rightarrow> if 1 < na_attempt a then ''runtime_retry'' else ''none'' | None \<Rightarrow> ''none''),
       nv_inputSchemaValid = nonempty (Option.bind m na_input_digest),
       nv_outputSchemaValid = map_option (\<lambda>a. na_status a = ''completed'') m,
       nv_inputDigest = Option.bind m na_input_digest,
       nv_validatedOutput = (case m of None \<Rightarrow> None | Some a \<Rightarrow> if nonempty (na_output_digest a)
         then Some (the (na_output_digest a), na_checkpoint_id a) else None),
       nv_validationDiagnostics = (if nonempty (Option.bind m na_error_code) then [the (Option.bind m na_error_code)] else []),
       nv_executionEnvelopeId = (case own of g # _ \<Rightarrow> gr_invocation_id g | [] \<Rightarrow> ''not-issued''),
       nv_issuedAt = or_else (map_option na_started_at m) (us_startedAt u),
       nv_expiresAt = or_else (Option.bind m na_completed_at) (run_updated_at r),
       nv_capabilityScope = (case pn_capabilityId n of Some c \<Rightarrow> [c] | None \<Rightarrow> []), nv_effectScope = pn_allowedEffects n,
       nv_usage = (case modelCall of None \<Rightarrow> None | Some g \<Rightarrow> map_option (usage_of n g) (gr_result g)),
       nv_capabilityCalls = map mapReceipt own\<rparr>)"

record failure_banner =
  fb_errorCode :: string
  fb_explanation :: string
  fb_failingNodeId :: string
  fb_failingNodeName :: string
  fb_attempt :: nat
  fb_fencingEpoch :: nat
  fb_externalEffectOccurred :: bool
  fb_lastCommittedCheckpoint :: string

definition external_effect :: "receipt_row list \<Rightarrow> bool" where
  "external_effect gs = list_ex (\<lambda>g. gr_decision g = ''allowed'' \<and> gr_effect g \<noteq> ''none'' \<and> gr_effect g \<noteq> ''read'') gs"

definition failure_banner_of :: "run_row \<Rightarrow> plan_view \<Rightarrow> receipt_row list \<Rightarrow> failure_banner option" where
  "failure_banner_of r v gs = (if \<not> nonempty (run_error_code r) then None
     else (let code = the (run_error_code r) in Some \<lparr>fb_errorCode = code,
       fb_explanation = (case run_output r of Some (JObj es) \<Rightarrow> or_else (stringValue es [''error'']) code | _ \<Rightarrow> code),
       fb_failingNodeId = or_else (run_current_node_id r) ''runtime'',
       fb_failingNodeName = (case List.find (\<lambda>n. Some (pn_id n) = run_current_node_id r) (pv_nodes v) of Some n \<Rightarrow> pn_name n | None \<Rightarrow> ''Runtime''),
       fb_attempt = run_attempt r, fb_fencingEpoch = run_fencing_epoch r, fb_externalEffectOccurred = external_effect gs,
       fb_lastCommittedCheckpoint = or_else (run_latest_checkpoint_id r) ''none''\<rparr>))"

record run_detail =
  rd_summary :: run_summary
  rd_inputPayload :: json
  rd_nodeAttempts :: "node_attempt_view list"
  rd_failureInfo :: "failure_banner option"
  rd_events :: "event_view list"

definition with_trace :: "(string \<times> string \<times> string option) option \<Rightarrow> run_summary \<Rightarrow> run_summary" where
  "with_trace trace u = (case trace of None \<Rightarrow> u | Some (traceId, rootSpanId, viewerUrl) \<Rightarrow>
     u\<lparr>us_traceId := Some traceId, us_rootSpanId := Some rootSpanId, us_traceViewerUrl := coalesce viewerUrl (us_traceViewerUrl u)\<rparr>)"

definition run_detail_of :: "env \<Rightarrow> bool \<Rightarrow> run_row \<Rightarrow> plan_view \<Rightarrow> event_row list \<Rightarrow> attempt_row list \<Rightarrow> receipt_row list
    \<Rightarrow> (string \<times> string \<times> string option) option \<Rightarrow> run_detail" where
  "run_detail_of env recorded r v events attempts gs trace = (let u = with_trace trace (summarizeRun env recorded v events r) in
     \<lparr>rd_summary = u,
       rd_inputPayload = (case run_input r of JObj es \<Rightarrow> JObj es | JArr vs \<Rightarrow> JArr vs | x \<Rightarrow> JObj [(''value'', x)]),
       rd_nodeAttempts = map (node_attempt_of u attempts gs) (pv_nodes v),
       rd_failureInfo = failure_banner_of r v gs, rd_events = map (event_view_of r) events\<rparr>)"

definition getRunDetail :: "(string \<Rightarrow> string) \<Rightarrow> env \<Rightarrow> bool \<Rightarrow> run_row option \<Rightarrow> event_row list option \<Rightarrow> attempt_row list option
    \<Rightarrow> receipt_row list option \<Rightarrow> (harness_plan \<times> time) list \<Rightarrow> (string \<times> string \<times> string option) option \<Rightarrow> run_detail option result" where
  \<comment> \<open>an optional reply that failed is None\<close>
  "getRunDetail sha env recorded r events attempts gs records trace = bind_result (planRecords sha records) (\<lambda>views.
     Inr (case r of None \<Rightarrow> None | Some r' \<Rightarrow>
       (case List.find (\<lambda>v. plan_planDigest (pv_plan v) = run_plan_digest r') views of None \<Rightarrow> None
        | Some v \<Rightarrow> Some (run_detail_of env recorded r' v (or_else events []) (or_else attempts []) (or_else gs []) trace))))"

section \<open>The overview\<close>

datatype readiness = Ready | Degraded | Unavailable

definition serviceStatus :: "http_reply \<Rightarrow> readiness" where
  "serviceStatus reply = (case reply of NetworkError _ \<Rightarrow> Unavailable | HttpReply s _ \<Rightarrow> if ok_status s then Ready else Degraded)"

record issue_view =
  iv_id :: string
  iv_category :: string
  iv_code :: string
  iv_title :: string
  iv_runId :: string
  iv_nodeId :: string
  iv_occurredAt :: time
  iv_summary :: string

definition issue_of :: "run_summary \<Rightarrow> issue_view" where
  "issue_of u = (let r = us_run u in \<lparr>iv_id = ''issue-'' @ run_id r,
     iv_category = (if run_status r = Denied then ''gateway_denial'' else if run_status r = Retrying then ''stale_fencing_attempt''
       else ''invalid_output''),
     iv_code = toUpperCase (run_status_text (run_status r)), iv_title = plan_name (pv_plan (us_plan u)) @ '' requires attention'',
     iv_runId = run_id r, iv_nodeId = or_else (run_current_node_id r) ''runtime'', iv_occurredAt = run_updated_at r,
     iv_summary = (if nonempty (us_traceId u) then ''Execution trace '' @ the (us_traceId u) @ '' is available for inspection.''
       else ''Execution stopped without a bound trace.'')\<rparr>)"

record overview_view =
  ov_admittedHarnessesCount :: nat
  ov_activeRuns :: "run_summary list"
  ov_queuedCount :: nat
  ov_runningCount :: nat
  ov_retryingCount :: nat
  ov_needsAttentionCount :: nat
  ov_failedCount :: nat
  ov_deniedCount :: nat
  ov_staleLeaseCount :: nat
  ov_reportedCost_e8 :: int
  ov_costComplete :: bool
  ov_recentIssues :: "issue_view list"
  ov_globalReadiness :: readiness

definition with_status :: "run_status \<Rightarrow> run_summary list \<Rightarrow> nat" where
  "with_status s us = length (filter (\<lambda>u. run_status (us_run u) = s) us)"

definition overview_of :: "nat \<Rightarrow> run_summary list \<Rightarrow> readiness list \<Rightarrow> overview_view" where
  "overview_of harnesses us services = \<lparr>ov_admittedHarnessesCount = harnesses,
     ov_activeRuns = filter (\<lambda>u. run_status (us_run u) \<in> {Queued, Running, Retrying}) us,
     ov_queuedCount = with_status Queued us, ov_runningCount = with_status Running us, ov_retryingCount = with_status Retrying us,
     ov_needsAttentionCount = with_status Failed us + with_status Denied us + with_status Retrying us,
     ov_failedCount = with_status Failed us, ov_deniedCount = with_status Denied us, ov_staleLeaseCount = with_status Retrying us,
     ov_reportedCost_e8 = sum_list (map (run_cost_e8 \<circ> us_run) us), ov_costComplete = list_all (run_cost_complete \<circ> us_run) us,
     ov_recentIssues = map issue_of (take 5 (filter us_needsAttention us)),
     ov_globalReadiness = (if Unavailable \<in> set services then Degraded else Ready)\<rparr>"

definition getOverviewData :: "(string \<Rightarrow> string) \<Rightarrow> env \<Rightarrow> bool \<Rightarrow> (harness_plan \<times> time) list \<Rightarrow> run_row list
    \<Rightarrow> (harness_plan \<times> time) list \<Rightarrow> run_row list \<Rightarrow> http_reply list \<Rightarrow> overview_view result" where
  \<comment> \<open>plans and runs are fetched once for the plans and once for the runs\<close>
  "getOverviewData sha env recorded records rs records' rs' services =
     bind_result (listHarnessSummaries sha None None None records rs) (\<lambda>hs.
     bind_result (listRunsView sha env recorded no_filters rs' records') (\<lambda>us.
     Inr (overview_of (length hs) us (map serviceStatus services))))"

record queue_view =
  qv_ready :: nat
  qv_leased :: nat
  qv_retrying :: nat
  qv_activeWorkers :: nat

definition queueWorkState :: "run_summary list \<Rightarrow> queue_view" where
  "queueWorkState us = \<lparr>qv_ready = with_status Queued us, qv_leased = with_status Running us, qv_retrying = with_status Retrying us,
     qv_activeWorkers = (if list_ex (\<lambda>u. run_status (us_run u) = Running) us then 1 else 0)\<rparr>"

definition default_provider :: "env \<Rightarrow> string" where
  "default_provider env = (if env ''RUNTIME_PROVIDER'' = Some ''azure_foundry'' then ''azure_foundry'' else ''local_http'')"

definition azure_foundry_configured :: "env \<Rightarrow> bool" where
  "azure_foundry_configured env \<longleftrightarrow> present env ''FOUNDRY_AGENT_INVOCATION_ENDPOINT'' \<and> present env ''FOUNDRY_AGENT_NAME''
     \<and> present env ''FOUNDRY_AGENT_VERSION''"

end
