(* ===== verification/RunViewClaims.thy ===== *)
theory RunViewClaims
  imports RunViews RunRouteClaims DraftClaims
begin

text \<open>
  What the views of plans and runs show of the ledger: every run, in the ledger's order, with the plan it
  runs; a median that is one; a graph whose nodes do not overlap; and where they tell less than is recorded.
\<close>

section \<open>Runs and their plans\<close>

definition planned :: "db \<Rightarrow> bool" where
  \<comment> \<open>a run is of a plan of its tenant, and a plan is stored under its digest\<close>
  "planned d \<longleftrightarrow> (\<forall>p \<in> set (plans d). pl_plan_digest p = plan_planDigest (pl_plan p))
     \<and> (\<forall>r \<in> set (runs d). \<exists>p \<in> set (plans d). pl_tenant_id p = run_tenant_id r \<and> pl_plan_digest p = run_plan_digest r)"

definition adds_runs :: "run_op \<Rightarrow> bool" where
  "adds_runs op = (case op of OpCreate _ _ _ _ _ \<Rightarrow> True | _ \<Rightarrow> False)"

lemma no_run_added:
  assumes "\<not> adds_runs op"
  shows "length (runs (ledger_step sha d (now, op))) = length (runs d)"
  using assms
  by (cases op) (auto simp: adds_runs_def admitPlan_def renewLease_def scheduleRunRetry_def failExhaustedRuns_def
      completeCancelledRun_def finalizeAbandonedCancellations_def updateRunNode_def bindRunTrace_def completeRun_def
      pg_nodeStarted_def pg_nodeFinished_def claimRun_def requestRunCancellation_def completeGatewayReceipt_def
      abandonGatewayReceipt_def recordCapabilityCost_def insert_attempt_def appendEvent_def reserveGatewayReceipt_def
      Let_def guard_result_def commit_def bind_result_def split: option.splits sum.splits prod.splits if_splits)

lemma stored_under_digest:
  assumes "\<forall>p \<in> set (plans d). pl_plan_digest p = plan_planDigest (pl_plan p)"
  shows "\<forall>p \<in> set (plans (ledger_step sha d (now, op))). pl_plan_digest p = plan_planDigest (pl_plan p)"
  using assms
  by (cases op) (auto simp: admitPlan_def createRun_def renewLease_def scheduleRunRetry_def failExhaustedRuns_def
      completeCancelledRun_def finalizeAbandonedCancellations_def updateRunNode_def bindRunTrace_def completeRun_def
      pg_nodeStarted_def pg_nodeFinished_def claimRun_def requestRunCancellation_def completeGatewayReceipt_def
      abandonGatewayReceipt_def recordCapabilityCost_def insert_attempt_def appendEvent_def reserveGatewayReceipt_def
      Let_def guard_result_def commit_def bind_result_def split: option.splits sum.splits prod.splits if_splits)

lemma created_planned:
  assumes "r \<in> set (runs (commit d (createRun sha u now d digest v k t)))"
  shows "r \<in> set (runs d) \<or> (\<exists>p \<in> set (plans d). pl_tenant_id p = run_tenant_id r \<and> pl_plan_digest p = run_plan_digest r)"
  using assms by (auto simp: createRun_def Let_def new_run_def commit_def split: option.splits if_splits)

lemma old_row_planned:
  assumes "ledger_inv d" and "r' \<in> set (take (length (runs d)) (runs (ledger_step sha d c)))"
  obtains r where "r \<in> set (runs d)" and "run_tenant_id r' = run_tenant_id r" and "run_plan_digest r' = run_plan_digest r"
proof -
  have "list_all2 maybe_step (runs d) (take (length (runs d)) (runs (ledger_step sha d c)))"
    using ledger_rows [of d sha c] assms(1) by (simp add: rows_step_def ledger_inv_def)
  then obtain r where "r \<in> set (runs d)" "maybe_step r r'"
    using assms(2) by (metis in_set_conv_nth list_all2_conv_all_nth)
  then show thesis using that row_step_keys [of r r'] by (auto simp: maybe_step_def)
qed

lemma planned_step:
  assumes "ledger_inv d" and "planned d"
  shows "planned (ledger_step sha d c)"
proof -
  obtain now op where c: "c = (now, op)" by (cases c)
  have grow: "set (plans d) \<subseteq> set (plans (ledger_step sha d c))" by (rule ledger_step_plans)
  have "\<exists>p \<in> set (plans d). pl_tenant_id p = run_tenant_id r \<and> pl_plan_digest p = run_plan_digest r"
    if r: "r \<in> set (runs (ledger_step sha d c))" for r
  proof (cases "adds_runs op")
    case True
    then obtain u q v k t where op: "op = OpCreate u q v k t" by (auto simp: adds_runs_def split: run_op.splits)
    then show ?thesis using r assms(2) created_planned [of r d sha u now q v k t] by (auto simp: c planned_def)
  next
    case False
    then have "r \<in> set (take (length (runs d)) (runs (ledger_step sha d c)))"
      using r no_run_added [OF False, of sha d now] by (simp add: c)
    then obtain r0 where "r0 \<in> set (runs d)" "run_tenant_id r = run_tenant_id r0" "run_plan_digest r = run_plan_digest r0"
      by (rule old_row_planned [OF assms(1)])
    then show ?thesis using assms(2) by (auto simp: planned_def)
  qed
  moreover have "\<forall>p \<in> set (plans (ledger_step sha d c)). pl_plan_digest p = plan_planDigest (pl_plan p)"
    using assms(2) stored_under_digest [of d sha now op] by (simp add: c planned_def)
  ultimately show ?thesis using grow by (fastforce simp: planned_def)
qed

interpretation planned_ledger: stepped "ledger_step sha" "\<lambda>d. ledger_inv d \<and> planned d" for sha
  by unfold_locales (use planned_step ledger_step_inv in blast)

section \<open>The list of runs\<close>

lemma map_result_Inr:
  "map_result f xs = Inr ys \<Longrightarrow> list_all2 (\<lambda>x y. f x = Inr y) xs ys"
  by (induction xs arbitrary: ys) (auto simp: bind_result_Inr_iff)

lemma mapPlan_plan: "mapPlan sha p t = Inr v \<Longrightarrow> pv_plan v = p"
  by (auto simp: mapPlan_def Let_def bind_result_Inr_iff)

lemma viewed_plans:
  assumes "planRecords sha records = Inr views"
  shows "map pv_plan views = map fst records"
proof -
  have "list_all2 (\<lambda>x v. (case x of (p, t) \<Rightarrow> mapPlan sha p t) = Inr v) records views"
    using assms unfolding planRecords_def by (rule map_result_Inr)
  then show ?thesis by (induction rule: list_all2_induct) (auto dest: mapPlan_plan)
qed

lemma plan_of_found:
  assumes "v \<in> set views" and "plan_planDigest (pv_plan v) = digest"
  obtains w where "plan_of views digest = Some w" and "w \<in> set views" and "plan_planDigest (pv_plan w) = digest"
proof -
  have "plan_of views digest \<noteq> None" using assms by (auto simp: plan_of_def map_of_eq_None_iff image_iff)
  then obtain w where w: "plan_of views digest = Some w" by blast
  then have "(digest, w) \<in> set (rev (map (\<lambda>v. (plan_planDigest (pv_plan v), v)) views))"
    unfolding plan_of_def by (rule map_of_SomeD)
  then show thesis using that w by auto
qed

lemma set_listRuns: "r \<in> set (listRuns d t n) \<Longrightarrow> r \<in> set (runs d) \<and> run_tenant_id r = t"
  by (auto simp: listRuns_def dest: in_set_takeD)

lemma all_plans_listed:
  assumes "p \<in> set (plans d)" and "length (filter (\<lambda>p. pl_tenant_id p = pl_tenant_id q) (plans d)) \<le> 100" and "pl_tenant_id p = pl_tenant_id q"
  shows "pl_plan p \<in> fst ` set (listPlanRecords d (pl_tenant_id q))"
  using assms by (force simp: listPlanRecords_def)

lemma every_run_summarized:
  assumes "\<forall>r \<in> set rs. \<exists>v \<in> set views. plan_planDigest (pv_plan v) = run_plan_digest r"
  shows "map us_run (run_summaries env recorded no_filters views rs) = rs
    \<and> (\<forall>u \<in> set (run_summaries env recorded no_filters views rs). us_plan u \<in> set views
         \<and> plan_planDigest (pv_plan (us_plan u)) = run_plan_digest (us_run u))"
proof -
  have all: "run_admitted no_filters u" for u by (simp add: run_admitted_def no_filters_def searched_def chosen_def Let_def)
  show ?thesis
    using assms
  proof (induction rs)
    case (Cons r rs)
    then obtain v where v: "v \<in> set views" "plan_planDigest (pv_plan v) = run_plan_digest r" by auto
    obtain w where "plan_of views (run_plan_digest r) = Some w" "w \<in> set views" "plan_planDigest (pv_plan w) = run_plan_digest r"
      using plan_of_found [OF v] .
    then show ?case using Cons by (auto simp: run_summaries_def List.map_filter_simps all summarizeRun_def)
  qed (simp add: run_summaries_def List.map_filter_simps)
qed

text \<open>C40. whatever was asked of the ledger, the list of runs without filters shows the ledger's last hundred
  runs of the tenant, in its order and none left out, each with the plan it runs, as long as the tenant
  has at most a hundred plans and every plan has a view.\<close>

theorem every_run_is_listed:
  assumes "ledger_inv d" and "planned d" and "s = run_steps (ledger_step sha) d cs"
    and "length (filter (\<lambda>p. pl_tenant_id p = t) (plans s)) \<le> 100"
    and "planRecords sha' (listPlanRecords s t) = Inr views"
  shows "\<exists>us. listRunsView sha' env recorded no_filters (listRuns s t 100) (listPlanRecords s t) = Inr us
    \<and> map us_run us = listRuns s t 100
    \<and> (\<forall>u \<in> set us. us_plan u \<in> set views \<and> plan_planDigest (pv_plan (us_plan u)) = run_plan_digest (us_run u))"
proof -
  have inv: "planned s" using planned_ledger.run_inv [of d sha cs] assms(1-3) by blast
  have "\<exists>v \<in> set views. plan_planDigest (pv_plan v) = run_plan_digest r" if r: "r \<in> set (listRuns s t 100)" for r
  proof -
    have r': "r \<in> set (runs s)" "run_tenant_id r = t" using set_listRuns [OF r] by auto
    then obtain p where p: "p \<in> set (plans s)" "pl_tenant_id p = t" "plan_planDigest (pl_plan p) = run_plan_digest r"
      using inv unfolding planned_def by metis
    then have "pl_plan p \<in> fst ` set (listPlanRecords s t)" using all_plans_listed [of p s p] assms(4) by simp
    then have "pl_plan p \<in> set (map pv_plan views)" by (simp add: viewed_plans [OF assms(5)])
    then show ?thesis using p(3) by auto
  qed
  then have "\<forall>r \<in> set (listRuns s t 100). \<exists>v \<in> set views. plan_planDigest (pv_plan v) = run_plan_digest r" by blast
  from every_run_summarized [OF this, of env recorded] show ?thesis by (simp add: listRunsView_def assms(5))
qed

definition listed_db :: db where
  "listed_db = run_steps (ledger_step id) planned_db [(1, OpCreate ''1'' ''plan'' JNull ''k'' ''acme''), (2, OpClaim [] ''w'' 60)]"

theorem every_run_is_listed_witness:
  "\<exists>us. listRunsView id (\<lambda>_. None) True no_filters (listRuns listed_db ''acme'' 100) (listPlanRecords listed_db ''acme'') = Inr us
    \<and> map us_run us = listRuns listed_db ''acme'' 100 \<and> length us = 1"
proof -
  have plans: "plans listed_db = plans planned_db" and runs: "length (listRuns listed_db ''acme'' 100) = 1" by code_simp+
  have "\<exists>views. planRecords id (listPlanRecords listed_db ''acme'') = Inr views"
    unfolding listPlanRecords_def plans by (simp add: planned_db_def planRecords_def mapPlan_def ordered_nodes_def demo_plan_def enumerate_simps)
  then obtain views where v: "planRecords id (listPlanRecords listed_db ''acme'') = Inr views" ..
  have "planned planned_db" by (simp add: planned_def planned_db_def empty_db_def demo_plan_def)
  moreover have "length (filter (\<lambda>p. pl_tenant_id p = ''acme'') (plans listed_db)) \<le> 100" unfolding plans by (simp add: planned_db_def)
  ultimately obtain us where us: "listRunsView id (\<lambda>_. None) True no_filters (listRuns listed_db ''acme'' 100) (listPlanRecords listed_db ''acme'') = Inr us"
      "map us_run us = listRuns listed_db ''acme'' 100"
    using every_run_is_listed [OF planned_inv _ listed_db_def _ v, of "\<lambda>_. None" True] by blast
  then show ?thesis using runs by (metis length_map)
qed

section \<open>The graph of a plan\<close>

lemma node_x_bounds:
  assumes "index < n"
  shows "115 \<le> node_x n index \<and> node_x n index \<le> 995"
proof -
  let ?step = "min 200 (880 / of_nat (max 1 (n - 1))) :: rat"
  have "of_nat index * ?step \<le> of_nat (max 1 (n - 1)) * (880 / of_nat (max 1 (n - 1)))"
    using assms by (intro mult_mono) auto
  also have "\<dots> = 880" by simp
  finally have "of_nat index * ?step \<le> 880" .
  moreover have "0 \<le> of_nat index * ?step" by (intro mult_nonneg_nonneg) auto
  ultimately show ?thesis by (simp add: node_x_def)
qed

lemma node_x_strict: "i < j \<Longrightarrow> node_x n i < node_x n j"
proof -
  assume "i < j"
  then have "of_nat i * min 200 (880 / of_nat (max 1 (n - 1)) :: rat) < of_nat j * min 200 (880 / of_nat (max 1 (n - 1)))"
    by (intro mult_strict_right_mono) auto
  then show ?thesis by (simp add: node_x_def)
qed

lemma node_view_place: "node_view sha p n (i, x) = Inr y \<Longrightarrow> pn_x y = node_x n i \<and> pn_y y = node_y n i \<and> pn_id y = node_id x"
  by (auto simp: node_view_def Let_def bind_result_Inr_iff)

lemma viewed_nodes:
  assumes "mapPlan sha p t = Inr v"
  shows "map pn_x (pv_nodes v) = map (node_x (length (pv_nodes v))) [0..<length (pv_nodes v)]"
    and "map pn_id (pv_nodes v) = map node_id (ordered_nodes p)"
    and "\<forall>x \<in> set (pv_nodes v). pn_y x \<in> {85, 130, 175}"
proof -
  let ?ns = "ordered_nodes p"
  have l: "list_all2 (\<lambda>x y. node_view sha p (length ?ns) x = Inr y) (enumerate 0 ?ns) (pv_nodes v)"
    using assms by (auto simp: mapPlan_def Let_def bind_result_Inr_iff intro: map_result_Inr)
  then have len: "length (pv_nodes v) = length ?ns" by (metis length_enumerate list_all2_lengthD)
  have at: "node_view sha p (length ?ns) (i, ?ns ! i) = Inr (pv_nodes v ! i)" if "i < length ?ns" for i
    using list_all2_nthD [OF l, of i] that by (simp add: nth_enumerate_eq)
  note place = node_view_place [OF at]
  show "map pn_x (pv_nodes v) = map (node_x (length (pv_nodes v))) [0..<length (pv_nodes v)]"
    using len place by (intro nth_equalityI) auto
  show "map pn_id (pv_nodes v) = map node_id ?ns" using len place by (intro nth_equalityI) auto
  show "\<forall>x \<in> set (pv_nodes v). pn_y x \<in> {85, 130, 175}"
    using len place by (auto simp: in_set_conv_nth node_y_def split: if_splits)
qed

text \<open>the graph of a plan shows its nodes in the plan's order from left to right, on a canvas of 1080 by
  260 with room for a shape of 170 by 170 around each, and no two of them at the same place.\<close>

theorem plan_graph_fits_its_canvas:
  assumes "mapPlan sha p t = Inr v"
  shows "map pn_id (pv_nodes v) = map node_id (ordered_nodes p)
    \<and> (\<forall>n \<in> set (pv_nodes v). 115 \<le> pn_x n \<and> pn_x n \<le> 995 \<and> 85 \<le> pn_y n \<and> pn_y n \<le> 175)
    \<and> sorted_wrt (<) (map pn_x (pv_nodes v))"
proof (intro conjI ballI)
  note nodes = viewed_nodes [OF assms]
  show "map pn_id (pv_nodes v) = map node_id (ordered_nodes p)" by (rule nodes(2))
  show "sorted_wrt (<) (map pn_x (pv_nodes v))"
    unfolding nodes(1) by (auto simp: sorted_wrt_map sorted_wrt_iff_nth_less intro: node_x_strict)
  fix n assume n: "n \<in> set (pv_nodes v)"
  then have "pn_x n \<in> set (map (node_x (length (pv_nodes v))) [0..<length (pv_nodes v)])"
    unfolding nodes(1) [symmetric] by simp
  then show "115 \<le> pn_x n" and "pn_x n \<le> 995" using node_x_bounds by auto
  show "85 \<le> pn_y n" and "pn_y n \<le> 175" using nodes(3) n by auto
qed

definition two_nodes :: harness_plan where
  "two_nodes = demo_plan\<lparr>plan_nodes := map (\<lambda>(i, k). \<lparr>node_id = i, node_kind = k, node_name = i, node_summary = None,
     node_prompt = None, node_inputSchema = JObj [], node_outputSchema = JObj [], node_config = []\<rparr>) [(''in'', NInput), (''out'', NOutput)]\<rparr>"

theorem plan_graph_fits_its_canvas_witness:
  "map pn_x (pv_nodes (projr (mapPlan id two_nodes 0))) = [115, 315] \<and> sorted_wrt (<) (map pn_x (pv_nodes (projr (mapPlan id two_nodes 0))))"
proof -
  have places: "map pn_x (pv_nodes (projr (mapPlan id two_nodes 0))) = [115, 315]" and "isl (mapPlan id two_nodes 0) = False" by code_simp+
  then have "mapPlan id two_nodes 0 = Inr (projr (mapPlan id two_nodes 0))" by (metis sum.collapse(2))
  from plan_graph_fits_its_canvas [OF this] show ?thesis using places by blast
qed

section \<open>Statistics\<close>

lemma sorted_upto:
  assumes "sorted ds" and "i < length ds"
  shows "Suc i \<le> length (filter (\<lambda>x. x \<le> ds ! i) ds)" and "length ds - i \<le> length (filter (\<lambda>x. ds ! i \<le> x) (ds :: int list))"
proof -
  have "take (Suc i) ds = filter (\<lambda>x. x \<le> ds ! i) (take (Suc i) ds)"
    using assms by (intro filter_True [symmetric]) (auto simp: in_set_conv_nth intro!: sorted_nth_mono)
  then have "length (take (Suc i) ds) \<le> length (filter (\<lambda>x. x \<le> ds ! i) (take (Suc i) ds @ drop (Suc i) ds))"
    by (metis filter_append le_add1 length_append)
  then show "Suc i \<le> length (filter (\<lambda>x. x \<le> ds ! i) ds)" using assms(2) by simp
  have "drop i ds = filter (\<lambda>x. ds ! i \<le> x) (drop i ds)"
    using assms by (intro filter_True [symmetric]) (auto simp: in_set_conv_nth intro!: sorted_nth_mono)
  then have "length (drop i ds) \<le> length (filter (\<lambda>x. ds ! i \<le> x) (take i ds @ drop i ds))"
    by (metis filter_append le_add2 length_append)
  then show "length ds - i \<le> length (filter (\<lambda>x. ds ! i \<le> x) ds)" by simp
qed

text \<open>The median shown for a plan is one: at least half of the runs took at most as long, and at least half
  at least as long.\<close>

theorem median_splits_the_runs:
  assumes "percentile 50 (sort ds) = Some m"
  shows "length ds \<le> 2 * length (filter (\<lambda>x. x \<le> m) ds) \<and> length ds \<le> 2 * length (filter (\<lambda>x. m \<le> x) ds)"
proof -
  let ?s = "sort ds" and ?i = "(length ds - 1) * 50 div 100"
  have ne: "ds \<noteq> []" and m: "m = ?s ! ?i"
    using assms by (auto simp: percentile_def split: if_splits)
  have i: "?i < length ?s" using ne by (cases ds) auto
  have perm: "length (filter P ?s) = length (filter P ds)" for P by (metis filter_sort length_sort)
  have half: "length ds \<le> 2 * Suc ?i" "length ds \<le> 2 * (length ?s - ?i)" using ne by (cases ds; simp; linarith)+
  show ?thesis using sorted_upto [OF sorted_sort i] half unfolding m perm by (meson le_trans mult_le_mono2)
qed

text \<open>The overview counts the runs that need attention without those under manual review, which the list of
  runs flags and its issues name.\<close>

theorem overview_leaves_manual_review_out:
  "let us = run_summaries env recorded f views rs in
     ov_needsAttentionCount (overview_of n us services) + with_status ManualReview us = length (filter us_needsAttention us)"
proof -
  let ?us = "run_summaries env recorded f views rs"
  have "u \<in> set ?us \<Longrightarrow> us_needsAttention u = needs_attention (run_status (us_run u))" for u
    by (auto simp: run_summaries_def List.map_filter_def summarizeRun_def)
  then have "with_status Failed us + with_status Denied us + with_status Retrying us + with_status ManualReview us
      = length (filter us_needsAttention us)" if "set us \<subseteq> set ?us" for us
    using that by (induction us) (auto simp: with_status_def needs_attention_def)
  then show ?thesis by (simp add: overview_of_def)
qed

section \<open>Where a view tells less than is recorded\<close>

definition odd_plan :: harness_plan where
  "odd_plan = (draft_plan ''p'')\<lparr>plan_nodes := [\<lparr>node_id = ''in'', node_kind = NInput, node_name = ''in'', node_summary = None,
     node_prompt = None, node_inputSchema = JObj [], node_outputSchema = JObj [], node_config = [(''caseWrites'', JArr [JNull])]\<rparr>]\<rparr>"

text \<open>A plan the schema accepts can have a node whose case writes hold a null: with it admitted, every list of
  plans and of runs of its tenant fails.\<close>

theorem one_plan_can_break_every_list:
  "harness_plan_ok odd_plan \<and> planRecords sha [(odd_plan, t)] = Inl ''TypeError''
    \<and> listHarnessSummaries sha None None None [(odd_plan, t)] rs = Inl ''TypeError''
    \<and> listRunsView sha env recorded no_filters rs [(odd_plan, t)] = Inl ''TypeError''"
proof -
  have "harness_plan_ok odd_plan" by code_simp
  moreover have "ordered_nodes odd_plan = plan_nodes odd_plan" by (simp add: ordered_nodes_def odd_plan_def draft_plan_def demo_plan_def)
  then have "mapPlan sha odd_plan t = Inl ''TypeError''"
    by (simp add: mapPlan_def odd_plan_def node_view_def case_write_views_def case_write_view_def member_of_def obj_get_def enumerate_simps)
  then have "planRecords sha [(odd_plan, t)] = Inl ''TypeError''" by (simp add: planRecords_def)
  ultimately show ?thesis by (simp add: listHarnessSummaries_def listRunsView_def)
qed

definition abandoned_ops :: "(time \<times> run_op) list" where
  "abandoned_ops = [(1, OpCreate ''1'' ''plan'' JNull ''k'' ''acme''), (2, OpClaim [] ''w'' 60),
     (3, OpNodeStarted \<lparr>fr_runId = ''RUN-1'', fr_attempt = 1, fr_workerId = ''w'', fr_fencingEpoch = 1\<rparr>
        \<lparr>ns_nodeId = ''n'', ns_inputDigest = ''d'', ns_traceId = None, ns_spanId = None\<rparr>),
     (4, OpCancel ''RUN-1'' ''acme'' ''stop''), (100000, OpFinalize)]"

text \<open>A run that was cancelled when its lease expired keeps the attempt that was running, so its detail shows
  a node executing for good.\<close>

theorem cancelled_run_shows_a_node_executing:
  "let s = run_steps (ledger_step id) planned_db abandoned_ops in
     map run_status (runs s) = [Cancelled] \<and> map (\<lambda>r. nodeState ''n'' r (listNodeAttempts s ''RUN-1'')) (runs s) = [Executing]"
  by code_simp

end
