(* ===== verification/EdgeCalls.thy ===== *)
theory EdgeCalls
  imports RunViews
begin

text \<open>
  The calls of apps/control-ui/src/lib/runtime-service.ts that change something: admitting a plan, starting a
  run, opening a demonstration case with its subject, and the commands on drafts and registries; with the
  routes app/v1/runs and app/v1/plans in front of the first two.
\<close>

section \<open>Starting a run\<close>

record start_result =
  sr_created :: bool
  sr_deduplicated :: bool
  sr_runId :: json
  sr_validationErrors :: "json list"

definition upstream_error :: "json \<Rightarrow> nat \<Rightarrow> json result" where
  \<comment> \<open>\<open>body.error ?? `HTTP $status`\<close>\<close>
  "upstream_error v status = bind_result (member_of v ''error'') (\<lambda>e. Inr (nullish e (JStr (''HTTP '' @ nat_text status))))"

definition start_outcome :: "nat \<Rightarrow> json \<Rightarrow> start_result result" where
  "start_outcome status v = bind_result (if ok_status status then member_of v ''run'' else Inr JUndef) (\<lambda>run.
     if truthy run then bind_result (member_of run ''runId'') (\<lambda>i.
       let created = truthy (js_member v ''created'') in
       Inr \<lparr>sr_created = created, sr_deduplicated = (\<not> created), sr_runId = i, sr_validationErrors = []\<rparr>)
     else bind_result (upstream_error v status) (\<lambda>e.
       Inr \<lparr>sr_created = False, sr_deduplicated = False, sr_runId = JStr [], sr_validationErrors = [e]\<rparr>))"

definition startNewRun :: "'w fetch \<Rightarrow> plain_headers result \<Rightarrow> string \<Rightarrow> string \<Rightarrow> json \<Rightarrow> string \<Rightarrow> ('w, start_result) act" where
  "startNewRun fetch identity controlBase digest input idempotencyKey = then_do (lift_act identity) (\<lambda>who.
     then_do (exchange fetch \<lparr>rq_method = ''POST'', rq_url = controlBase @ ''/v1/runs'',
         rq_headers = [json_content, (''idempotency-key'', idempotencyKey)] @ who,
         rq_body = sent (JObj [(''planDigest'', JStr digest), (''input'', input)])\<rparr>) (\<lambda>(status, reply).
       lift_act (start_outcome status (or_else reply (JObj [])))))"

definition or_text :: "json \<Rightarrow> string \<Rightarrow> string" where
  \<comment> \<open>\<open>String(v || text)\<close>\<close>
  "or_text v s = (if truthy v then js_string v else s)"

definition runs_post :: "'w fetch \<Rightarrow> plain_headers result \<Rightarrow> string \<Rightarrow> time \<Rightarrow> json \<Rightarrow> ('w, nat \<times> start_result) act" where
  \<comment> \<open>of the parsed body; what throws is answered with 400\<close>
  "runs_post fetch identity controlBase now body = then_do (lift_act (bind_result (member_of body ''planDigest'') (\<lambda>digest.
       bind_result (member_of body ''inputPayload'') (\<lambda>input. bind_result (member_of body ''idempotencyKey'') (\<lambda>k.
       Inr (or_text digest [], if truthy input then input else JObj [], or_text k (''idem-'' @ int_text now)))))))
     (\<lambda>(digest, input, k). then_do (startNewRun fetch identity controlBase digest input k) (\<lambda>r.
       yield (if sr_validationErrors r \<noteq> [] then 422 else if sr_created r then 201 else 200, r)))"

section \<open>Admitting a plan\<close>

record admission =
  ad_admitted :: bool
  ad_collision :: bool
  ad_planDigest :: "string option"
  ad_diagnostics :: "json list"

definition text_or_null :: "json \<Rightarrow> string option" where
  "text_or_null v = (case v of JStr s \<Rightarrow> Some s | _ \<Rightarrow> None)"

definition admission_outcome :: "json \<Rightarrow> nat \<Rightarrow> json \<Rightarrow> admission result" where
  "admission_outcome digest status v = (if \<not> ok_status status
     then bind_result (upstream_error v status) (\<lambda>e.
       Inr \<lparr>ad_admitted = False, ad_collision = False, ad_planDigest = text_or_null digest, ad_diagnostics = [e]\<rparr>)
     else bind_result (member_of v ''created'') (\<lambda>c. let created = truthy c in
       Inr \<lparr>ad_admitted = created, ad_collision = (\<not> created), ad_planDigest = text_or_null digest,
         ad_diagnostics = [JStr (if created then ''Digest verified and plan admitted.'' else ''Plan digest is already admitted.'')]\<rparr>))"

definition admitCompiledPlan :: "'w fetch \<Rightarrow> (string \<Rightarrow> json result) \<Rightarrow> ('w, harness_summary list) act \<Rightarrow> plain_headers result \<Rightarrow> string \<Rightarrow> string
    \<Rightarrow> ('w, admission \<times> harness_summary option) act" where
  \<comment> \<open>with JSON.parse and the list of plans, which is fetched once the plan is in\<close>
  "admitCompiledPlan fetch parse plans' identity controlBase rawText = (case parse rawText of
       Inl c \<Rightarrow> yield (\<lparr>ad_admitted = False, ad_collision = False, ad_planDigest = None, ad_diagnostics = [JStr c]\<rparr>, None)
     | Inr v \<Rightarrow> then_do (lift_act (member_of v ''planDigest'')) (\<lambda>digest. then_do (lift_act identity) (\<lambda>who.
         then_do (exchange fetch \<lparr>rq_method = ''POST'', rq_url = controlBase @ ''/v1/plans'', rq_headers = json_content # who, rq_body = sent v\<rparr>)
           (\<lambda>(status, reply). let b = or_else reply (JObj []) in
             if \<not> ok_status status then then_do (lift_act (admission_outcome digest status b)) (\<lambda>a. yield (a, None))
             else then_do plans' (\<lambda>hs. then_do (lift_act (admission_outcome digest status b)) (\<lambda>a.
               yield (a, List.find (\<lambda>h. JStr (plan_planDigest (pv_plan (hs_plan h))) = digest) hs)))))))"

definition plans_post_status :: "admission \<Rightarrow> nat" where
  "plans_post_status a = (if ad_admitted a then 201 else if ad_collision a then 409 else 422)"

section \<open>A demonstration case\<close>

record demo_input =
  di_planDigest :: string
  di_name :: "string option"
  di_country :: "string option"
  di_customerType :: "string option"
  di_riskTier :: "string option"
  di_policySnapshotDigest :: "string option"

record demo_facts =
  df_tenantId :: string
  df_name :: string
  df_customerType :: string
  df_riskTier :: string
  df_policyDigest :: string
  df_demoId :: string

definition hex_either_case :: "string \<Rightarrow> bool" where
  \<comment> \<open>\<open>/^[a-f0-9]{64}$/i\<close>\<close>
  "hex_either_case s \<longleftrightarrow> length s = 64 \<and> list_all (\<lambda>c. is_hex c \<or> (let n = of_char c :: nat in 65 \<le> n \<and> n \<le> 70)) s"

definition demo_facts_of :: "string \<Rightarrow> string \<Rightarrow> demo_input \<Rightarrow> demo_facts result" where
  "demo_facts_of uuid tenantId i = (let policy = or_else (map_option trim (di_policySnapshotDigest i)) [] in
     guard_result (or_else (map_option toUpperCase (trim_or_undefined (di_country i))) ''US'' = ''US'') ''demo_case.us_jurisdiction_only''
     (Inr \<lparr>df_tenantId = tenantId, df_name = or_else (trim_or_undefined (di_name i)) ''Ada Lovelace'',
        df_customerType = (if di_customerType i = Some ''sole_proprietor'' then ''sole_proprietor'' else ''individual''),
        df_riskTier = (case di_riskTier i of Some r \<Rightarrow> if r \<in> {''standard'', ''elevated'', ''high''} then r else ''standard'' | None \<Rightarrow> ''standard''),
        df_policyDigest = (if hex_either_case policy then policy else replicate 64 (CHR ''b'')), df_demoId = uuid\<rparr>))"

definition demo_actor :: json where
  "demo_actor = JObj [(''type'', JStr ''SYSTEM''), (''principalId'', JStr ''control-surface-demo-intake''), (''roles'', JArr [])]"

definition undashed :: "string \<Rightarrow> string" where
  "undashed s = filter (\<lambda>c. c \<noteq> CHR ''-'') s"

definition demo_subject :: "demo_facts \<Rightarrow> string" where
  "demo_subject f = ''subject_demo_'' @ take 16 (undashed (df_demoId f))"

definition demo_case_body :: "string \<Rightarrow> demo_facts \<Rightarrow> json" where
  "demo_case_body planDigest f = JObj [(''tenantId'', JStr (df_tenantId f)), (''externalRef'', JStr (''KYC-DEMO-'' @ take 8 (df_demoId f))),
     (''policySnapshotDigest'', JStr (df_policyDigest f)), (''harnessPlanDigest'', JStr planDigest), (''actor'', demo_actor)]"

definition demo_permission :: "(string \<Rightarrow> string) \<Rightarrow> string \<Rightarrow> string" where
  "demo_permission sha planDigest = sha (json_text (JObj [(''action'', JStr ''AddSubject''), (''planDigest'', JStr planDigest),
     (''source'', JStr ''control-surface-demo'')]))"

definition demo_subject_body :: "(string \<Rightarrow> string) \<Rightarrow> string \<Rightarrow> demo_facts \<Rightarrow> json \<Rightarrow> json \<Rightarrow> json" where
  "demo_subject_body sha planDigest f caseId sequence = JObj [(''commandId'', JStr (''cmd_demo_'' @ undashed (df_demoId f))),
     (''commandType'', JStr ''AddSubject''), (''commandVersion'', JStr ''kyc.command.add_subject.v1''), (''tenantId'', JStr (df_tenantId f)),
     (''caseId'', caseId), (''actor'', demo_actor),
     (''authority'', JObj [(''planDigest'', JStr planDigest), (''permissionEnvelopeDigest'', JStr (demo_permission sha planDigest)),
        (''policySnapshotDigest'', JStr (df_policyDigest f))]),
     (''payload'', JObj [(''subjectId'', JStr (demo_subject f)), (''subjectType'', JStr ''individual''), (''displayName'', JStr (df_name f)),
        (''attributes'', JObj [(''country'', JStr ''US''), (''customerType'', JStr (df_customerType f)), (''riskTier'', JStr (df_riskTier f))]),
        (''identifiers'', JArr [])]),
     (''preconditions'', JObj [(''caseSequence'', sequence)]),
     (''idempotencyKey'', JStr (''ui-demo:'' @ df_demoId f @ '':subject''))]"

definition createDemoKycCase :: "'w fetch \<Rightarrow> (string \<Rightarrow> string) \<Rightarrow> plain_headers \<Rightarrow> plain_headers result \<Rightarrow> string \<Rightarrow> string \<Rightarrow> demo_input \<Rightarrow> ('w, json \<times> json \<times> demo_facts) act" where
  \<comment> \<open>the case, its subject, and what the input patch repeats of the rest\<close>
  "createDemoKycCase fetch sha incoming identity caseBase uuid i =
     then_do (lift_act (bind_result (authenticatedTenantId incoming) (\<lambda>t. demo_facts_of uuid t i))) (\<lambda>f.
     then_do (apiJson fetch identity caseBase ''/v1/cases'' ''POST''
        [json_content, (''idempotency-key'', ''ui-demo:'' @ uuid @ '':case'')] (Some (demo_case_body (di_planDigest i) f))) (\<lambda>created.
     then_do (lift_act (bind_result (member_of created ''case'') (\<lambda>c. bind_result (member_of c ''caseId'') (\<lambda>k.
        bind_result (member_of c ''caseSequence'') (\<lambda>n. Inr (k, n)))))) (\<lambda>(caseId, sequence).
     then_do (apiJson fetch identity caseBase (''/v1/cases/'' @ encodeURIComponent (js_string caseId) @ ''/commands'') ''POST'' [json_content]
        (Some (demo_subject_body sha (di_planDigest i) f caseId sequence))) (\<lambda>added.
     then_do (lift_act (member_of added ''createdIdentifiers'')) (\<lambda>ids.
       yield (caseId, nullish (js_member ids ''subjectId'') (JStr (demo_subject f)), f))))))"

section \<open>Drafts and registries\<close>

datatype draft_action = DraftCompile | DraftEvaluate | DraftApprove' | DraftPublish'

fun action_name :: "draft_action \<Rightarrow> string" where
  "action_name DraftCompile = ''compile''" | "action_name DraftEvaluate = ''evaluate''"
| "action_name DraftApprove' = ''approve''" | "action_name DraftPublish' = ''publish''"

datatype draft_call =
    ListDrafts
  | GetDraft string
  | CreateDraft json
  | UpdateDraft string json
  | AdvanceDraft string draft_action
  | AttachAgent string string json
  | UpdateCaseWrites string string json
  | ListTemplates
  | ListAgents
  | ListSkills
  | RegisterSkill json
  | RegisterAgent json
  | ImportAgent string

definition draft_path :: "string \<Rightarrow> string" where
  \<comment> \<open>of the decoded draft id\<close>
  "draft_path i = ''/v1/authoring/drafts/'' @ encodeURIComponent i"

fun draft_request :: "draft_call \<Rightarrow> string \<times> string \<times> json option" where
  \<comment> \<open>path, method and body\<close>
  "draft_request ListDrafts = (''/v1/authoring/drafts'', ''GET'', None)"
| "draft_request (GetDraft i) = (draft_path i, ''GET'', None)"
| "draft_request (CreateDraft v) = (''/v1/authoring/drafts'', ''POST'', Some v)"
| "draft_request (UpdateDraft i v) = (draft_path i, ''PUT'', Some v)"
| "draft_request (AdvanceDraft i a) = (draft_path i @ ''/'' @ action_name a, ''POST'', None)"
| "draft_request (AttachAgent i agent v) = (draft_path i @ ''/agents/'' @ encodeURIComponent agent @ ''/attach'', ''POST'', Some v)"
| "draft_request (UpdateCaseWrites i node v) = (draft_path i @ ''/nodes/'' @ encodeURIComponent node @ ''/case-writes'', ''PUT'', Some v)"
| "draft_request ListTemplates = (''/v1/authoring/templates'', ''GET'', None)"
| "draft_request ListAgents = (''/v1/authoring/agents'', ''GET'', None)"
| "draft_request ListSkills = (''/v1/authoring/skills'', ''GET'', None)"
| "draft_request (RegisterSkill v) = (''/v1/authoring/skills'', ''POST'', Some v)"
| "draft_request (RegisterAgent v) = (''/v1/authoring/agents'', ''POST'', Some v)"
| "draft_request (ImportAgent url) = (''/v1/authoring/import/github'', ''POST'', Some (JObj [(''url'', JStr url)]))"

definition draft_reply :: "'w fetch \<Rightarrow> plain_headers result \<Rightarrow> string \<Rightarrow> draft_call \<Rightarrow> ('w, json) act" where
  "draft_reply fetch identity controlBase c = (case draft_request c of (path, method, body) \<Rightarrow>
     apiJson fetch identity controlBase path method (if body = None then [] else [json_content]) body)"

definition getAuthoringDraftView :: "'w fetch \<Rightarrow> plain_headers result \<Rightarrow> string \<Rightarrow> string \<Rightarrow> ('w, json option) act" where
  \<comment> \<open>the draft as the service sends it; None is one that does not exist\<close>
  "getAuthoringDraftView fetch identity controlBase i =
     caught (then_do (draft_reply fetch identity controlBase (GetDraft i)) (\<lambda>v. yield (Some v)))
       (\<lambda>c. if has_sub c ''authoring.draft_not_found'' then yield None else throw c)"

definition map_draft :: "(string \<Rightarrow> string) \<Rightarrow> harness_plan option \<Rightarrow> time \<Rightarrow> plan_view option result" where
  \<comment> \<open>the compiled plan of a draft, as its graph\<close>
  "map_draft sha compiled updatedAt = (case compiled of None \<Rightarrow> Inr None
     | Some p \<Rightarrow> bind_result (mapPlan sha p updatedAt) (\<lambda>v. Inr (Some v)))"

end
