(* ===== verification/EdgeCallClaims.thy ===== *)
theory EdgeCallClaims
  imports EdgeCalls RunRouteClaims
begin

text \<open>
  A start of a run through the edge against the route of the control API behind it, and what the opening of
  a demonstration case sends.
\<close>

section \<open>A start through the edge\<close>

definition start_reply_of :: "(run_row \<Rightarrow> entries) \<Rightarrow> (bool \<times> run_row) response \<Rightarrow> nat \<times> json" where
  "start_reply_of view x = (case x of Reply s (created, r) \<Rightarrow> (s, JObj [(''created'', JBool created), (''run'', JObj (view r))])
     | Failure s c \<Rightarrow> (s, JObj [(''error'', JStr c)]))"

definition control_fetch :: "runs_api \<Rightarrow> (run_row \<Rightarrow> entries) \<Rightarrow> string \<Rightarrow> time \<Rightarrow> db fetch" where
  \<comment> \<open>the control API behind the URL of \<open>POST /v1/runs\<close>\<close>
  "control_fetch A view u now rq d = (case start_route A u now (request_like (rq_headers rq)) (or_else (rq_body rq) JNull) d d of
     (d', x) \<Rightarrow> (d', case start_reply_of view x of (s, v) \<Rightarrow> HttpReply s (Some v)))"

definition post_status :: "start_result \<Rightarrow> nat" where
  "post_status r = (if sr_validationErrors r \<noteq> [] then 422 else if sr_created r then 201 else 200)"

definition start_headers :: "plain_headers \<Rightarrow> entries \<Rightarrow> headers" where
  "start_headers who es = request_like ([json_content, (''idempotency-key'', js_string (obj_get es ''idempotencyKey''))] @ who)"

definition start_request :: "entries \<Rightarrow> json" where
  "start_request es = bare (JObj [(''planDigest'', JStr (or_text (obj_get es ''planDigest'') [])),
     (''input'', if truthy (obj_get es ''inputPayload'') then obj_get es ''inputPayload'' else JObj [])])"

lemma startNewRun_apply:
  "startNewRun fetch identity base digest v k w = (case identity of Inl c \<Rightarrow> (w, Inl c)
     | Inr who \<Rightarrow> (case fetch \<lparr>rq_method = ''POST'', rq_url = base @ ''/v1/runs'', rq_headers = [json_content, (''idempotency-key'', k)] @ who,
           rq_body = sent (JObj [(''planDigest'', JStr digest), (''input'', v)])\<rparr> w of
         (w', NetworkError c) \<Rightarrow> (w', Inl c) | (w', HttpReply st b) \<Rightarrow> (w', start_outcome st (or_else b (JObj [])))))"
  by (simp add: startNewRun_def then_do_def lift_act_def exchange_def split: sum.split prod.split http_reply.split)

lemma runs_post_apply:
  assumes "truthy (obj_get es ''idempotencyKey'')"
  shows "runs_post fetch identity base t (JObj es) w = (case startNewRun fetch identity base (or_text (obj_get es ''planDigest'') [])
      (if truthy (obj_get es ''inputPayload'') then obj_get es ''inputPayload'' else JObj []) (js_string (obj_get es ''idempotencyKey'')) w of
    (w', x) \<Rightarrow> (w', bind_result x (\<lambda>r. Inr (post_status r, r))))"
proof -
  have k: "or_text (obj_get es ''idempotencyKey'') c = js_string (obj_get es ''idempotencyKey'')" for c using assms by (simp add: or_text_def)
  show ?thesis
    unfolding runs_post_def member_of_def json.case bind_result_simps k then_do_def lift_act_def prod.case sum.case
    by (simp add: yield_def post_status_def bind_result_def split: sum.split prod.split)
qed

lemma runs_post_route:
  assumes "truthy (obj_get es ''idempotencyKey'')"
  shows "runs_post (control_fetch A view u now) identity base t (JObj es) d = (case identity of Inl c \<Rightarrow> (d, Inl c)
     | Inr who \<Rightarrow> (case start_route A u now (start_headers who es) (start_request es) d d of
         (d', x) \<Rightarrow> (d', bind_result (start_outcome (fst (start_reply_of view x)) (snd (start_reply_of view x))) (\<lambda>r. Inr (post_status r, r)))))"
  by (simp add: runs_post_apply [OF assms] startNewRun_apply control_fetch_def sent_def start_headers_def start_request_def
    del: bare.simps split: sum.split prod.split)

lemma created_outcome:
  assumes "bind_result (start_outcome (fst (start_reply_of view x)) (snd (start_reply_of view x))) (\<lambda>r. Inr (post_status r, r)) = Inr (201, r)"
  obtains s row where "x = Reply s (True, row)" and "ok_status s" and "sr_runId r = obj_get (view row) ''runId''"
  using assms
  by (cases x) (auto simp: start_reply_of_def start_outcome_def upstream_error_def member_of_def obj_get_def js_member_def nullish_def post_status_def Let_def
    split: prod.splits if_splits)

lemma replayed_outcome:
  "bind_result (start_outcome (fst (start_reply_of view (Reply 200 (False, row)))) (snd (start_reply_of view (Reply 200 (False, row))))) (\<lambda>r. Inr (post_status r, r))
     = Inr (200, \<lparr>sr_created = False, sr_deduplicated = True, sr_runId = obj_get (view row) ''runId'', sr_validationErrors = []\<rparr>)"
  by (simp add: start_reply_of_def start_outcome_def member_of_def obj_get_def js_member_def post_status_def ok_status_def)

lemma start_status: "start_route A u now hs body d1 d = (d', Reply s (True, row)) \<Longrightarrow> s = 202"
  by (auto simp: start_route_def auth_response_def split: sum.splits option.splits if_splits prod.splits auth_failure.splits)

text \<open>C38. a browser that repeats the request that started a run, with the idempotency key it used, gets that run
  from the edge, whatever happened to the ledger since, and nothing changes.\<close>

theorem starts_through_the_edge_are_idempotent:
  assumes "ledger_inv d" and "''RUN-'' @ u \<notin> run_id ` set (runs d)" and "truthy (obj_get es ''idempotencyKey'')"
    and "runs_post (control_fetch A view u now) identity base t (JObj es) d = (d', Inr (201, r))"
    and "s = run_steps (ledger_step (ra_sha A)) d' cs"
    and "\<forall>row. obj_get (view row) ''runId'' = JStr (run_id row)" and "sr_runId r \<noteq> JStr (''RUN-'' @ u')"
  shows "\<exists>r'. runs_post (control_fetch A view u' now') identity base t' (JObj es) s = (s, Inr (200, r'))
    \<and> sr_runId r' = sr_runId r \<and> sr_deduplicated r'"
proof -
  obtain who x where who: "identity = Inr who" and x: "start_route A u now (start_headers who es) (start_request es) d d = (d', x)"
    and o: "bind_result (start_outcome (fst (start_reply_of view x)) (snd (start_reply_of view x))) (\<lambda>r. Inr (post_status r, r)) = Inr (201, r)"
    using assms(4) unfolding runs_post_route [OF assms(3)] by (auto split: sum.splits prod.splits)
  obtain st row where row: "x = Reply st (True, row)" "sr_runId r = obj_get (view row) ''runId''" using o by (rule created_outcome)
  have first: "start_route A u now (start_headers who es) (start_request es) d d = (d', Reply 202 (True, row))"
    using x start_status [of A u now "start_headers who es" "start_request es" d d d' st row] by (simp add: row(1))
  have "run_id row \<noteq> ''RUN-'' @ u'" using assms(6,7) row(2) by auto
  then obtain row' where row': "start_route A u' now' (start_headers who es) (start_request es) s s = (s, Reply 200 (False, row'))"
      "row_of s (run_id row) = Some row'"
    using retried_start_returns_the_run [OF assms(1,2) first assms(5)] by blast
  have "run_id row' = run_id row" using row'(2) by (auto simp: row_of_def dest: sql_find_Some)
  then show ?thesis unfolding runs_post_route [OF assms(3)] who using row'(1) replayed_outcome [of view row'] assms(6) row(2) by simp
qed

section \<open>A demonstration case\<close>

definition logged :: "(http_request \<Rightarrow> http_reply) \<Rightarrow> http_request list fetch" where
  "logged answer rq w = (w @ [rq], answer rq)"

definition body_member :: "http_request \<Rightarrow> string \<Rightarrow> json" where
  "body_member rq k = (case rq_body rq of Some v \<Rightarrow> js_member v k | None \<Rightarrow> JUndef)"

definition api_request :: "plain_headers \<Rightarrow> string \<Rightarrow> string \<Rightarrow> string \<Rightarrow> plain_headers \<Rightarrow> json option \<Rightarrow> http_request" where
  "api_request who base path method hs body = \<lparr>rq_method = method, rq_url = base @ path,
     rq_headers = filter (\<lambda>(k, v). k \<notin> set (map fst who)) hs @ who, rq_body = Option.bind body sent\<rparr>"

lemma apiJson_logged:
  assumes "apiJson (logged answer) (Inr who) base path method hs body w = (w', x)"
  shows "w' = w @ [api_request who base path method hs body]"
proof -
  have "fst (apiJson (logged answer) (Inr who) base path method hs body w) = w @ [api_request who base path method hs body]"
    by (simp add: apiJson_def then_do_def lift_act_def exchange_def logged_def yield_def throw_def Let_def api_request_def
      split: http_reply.split sum.split)
  then show ?thesis by (simp only: assms fst_conv)
qed

lemma demo_tenant: "demo_facts_of uuid t i = Inr f \<Longrightarrow> df_tenantId f = t"
  by (auto simp: demo_facts_of_def Let_def guard_result_def split: if_splits)

lemma sent_tenants:
  "Option.bind (Some (demo_case_body d f)) sent = Some v \<Longrightarrow> js_member v ''tenantId'' = JStr (df_tenantId f)"
  "Option.bind (Some (demo_subject_body sha d f c n)) sent = Some v \<Longrightarrow> js_member v ''tenantId'' = JStr (df_tenantId f)"
  by (auto simp: demo_case_body_def demo_subject_body_def sent_def js_member_def obj_get_def)

lemma then_do_cases:
  assumes "then_do m f w = (w'', y)"
  obtains c where "m w = (w'', Inl c)" and "y = Inl c" | w' x where "m w = (w', Inr x)" and "f x w' = (w'', y)"
  using assms by (auto simp: then_do_def split: prod.splits sum.splits)

lemma lift_act_cases:
  assumes "then_do (lift_act r) f w = (w'', y)"
  obtains c where "r = Inl c" and "w'' = w" and "y = Inl c" | x where "r = Inr x" and "f x w = (w'', y)"
  using assms by (rule then_do_cases) (auto simp: lift_act_def)

definition in_tenant :: "string \<Rightarrow> plain_headers \<Rightarrow> http_request \<Rightarrow> bool" where
  "in_tenant t who rq \<longleftrightarrow> rq_method rq = ''POST'' \<and> body_member rq ''tenantId'' = JStr t \<and> (\<exists>hs. rq_headers rq = hs @ who)"

lemma demo_requests_in_tenant:
  assumes "demo_facts_of uuid t i = Inr f"
  shows "in_tenant t who (api_request who base path ''POST'' hs (Some (demo_case_body d f)))"
    and "in_tenant t who (api_request who base path ''POST'' hs (Some (demo_subject_body sha d f c n)))"
  using demo_tenant [OF assms]
  by (simp_all add: in_tenant_def api_request_def body_member_def demo_case_body_def demo_subject_body_def sent_def js_member_def obj_get_def)

lemma api_url: "rq_url (api_request who base path m hs b) = base @ path"
  by (simp add: api_request_def)

text \<open>opening a demonstration case sends at most two requests, both with the tenant the proxy authenticated
  and the caller's headers, and reports a case only after the second one, which is about that case.\<close>

theorem demo_intake_stays_in_the_callers_tenant:
  assumes "createDemoKycCase (logged answer) sha incoming (Inr who) base uuid i [] = (rqs, outcome)"
    and "authenticatedTenantId incoming = Inr t"
  shows "length rqs \<le> 2 \<and> list_all (in_tenant t who) rqs
    \<and> (\<forall>c s f. outcome = Inr (c, s, f) \<longrightarrow> map rq_url rqs
         = [base @ ''/v1/cases'', base @ ''/v1/cases/'' @ encodeURIComponent (js_string c) @ ''/commands''])"
  using assms(1) unfolding createDemoKycCase_def assms(2) bind_result_simps
proof (cases rule: lift_act_cases)
  case (2 f)
  note f = 2(1)
  from 2(2) show ?thesis
  proof (cases rule: then_do_cases)
    case (1 c)
    then show ?thesis using apiJson_logged [OF 1(1)] demo_requests_in_tenant [OF f] by simp
  next
    case (2 w1 created)
    note w1 = apiJson_logged [OF 2(1)]
    from 2(2) show ?thesis
    proof (cases rule: lift_act_cases)
      case (1 c)
      then show ?thesis using w1 demo_requests_in_tenant [OF f] by simp
    next
      case (2 k)
      obtain caseId sequence where k: "k = (caseId, sequence)" by (cases k)
      from 2(2) [unfolded k prod.case] show ?thesis
      proof (cases rule: then_do_cases)
        case (1 c)
        then show ?thesis using w1 apiJson_logged [OF 1(1)] demo_requests_in_tenant [OF f] by simp
      next
        case (2 w2 added)
        note w2 = apiJson_logged [OF 2(1)]
        from 2(2) show ?thesis
        proof (cases rule: lift_act_cases)
          case (1 c)
          then show ?thesis using w1 w2 demo_requests_in_tenant [OF f] by simp
        next
          case (2 ids)
          then have "rqs = w2" and out: "outcome = Inr (caseId, nullish (js_member ids ''subjectId'') (JStr (demo_subject f)), f)"
            by (simp_all only: yield_def prod.inject)
          then show ?thesis using w1 w2 demo_requests_in_tenant [OF f] by (simp add: api_url)
        qed
      qed
    qed
  qed
qed simp

section \<open>Examples\<close>

definition browser_start :: entries where
  "browser_start = [(''planDigest'', JStr (replicate 64 (CHR ''a''))), (''idempotencyKey'', JStr ''k'')]"

definition edge_identity :: plain_headers where
  "edge_identity = [(''authorization'', ''Bearer edge''), (''x-actor-id'', ''olga''), (''x-actor-roles'', ''Harness.Operator'')]"

definition id_view :: "run_row \<Rightarrow> entries" where
  "id_view r = [(''runId'', JStr (run_id r))]"

definition first_post :: "db \<times> (code + nat \<times> start_result)" where
  "first_post = runs_post (control_fetch tenants_api id_view ''1'' 5) (Inr edge_identity) ''http://control'' 5 (JObj browser_start) one_tenant"

theorem starts_through_the_edge_are_idempotent_witness:
  "\<exists>s r'. runs_post (control_fetch tenants_api id_view ''2'' 9) (Inr edge_identity) ''http://control'' 9 (JObj browser_start) s = (s, Inr (200, r'))
    \<and> sr_runId r' = JStr ''RUN-1''"
proof -
  have inv: "ledger_inv one_tenant" by (simp add: ledger_inv_def one_tenant_def empty_db_def keyed_def)
  have fresh: "''RUN-'' @ ''1'' \<notin> run_id ` set (runs one_tenant)" by (simp add: one_tenant_def empty_db_def)
  have key: "truthy (obj_get browser_start ''idempotencyKey'')" by code_simp
  have "case first_post of (d', Inr (s, r)) \<Rightarrow> s = 201 \<and> sr_runId r = JStr ''RUN-1'' | _ \<Rightarrow> False" by code_simp
  then obtain d' r where posted: "first_post = (d', Inr (201, r))" and r: "sr_runId r = JStr ''RUN-1''"
    by (auto split: prod.split_asm sum.split_asm)
  have "sr_runId r \<noteq> JStr (''RUN-'' @ ''2'')" by (simp add: r)
  then show ?thesis
    using starts_through_the_edge_are_idempotent [OF inv fresh key posted [unfolded first_post_def] refl, of "''2''" 9 9 "[]"] r
    by (auto simp: id_view_def obj_get_def)
qed

definition demo_browser :: demo_input where
  "demo_browser = \<lparr>di_planDigest = ''p'', di_name = None, di_country = Some ''us'', di_customerType = None, di_riskTier = None, di_policySnapshotDigest = None\<rparr>"

definition demo_answer :: "http_request \<Rightarrow> http_reply" where
  "demo_answer rq = HttpReply 201 (Some (JObj [(''case'', JObj [(''caseId'', JStr ''c1''), (''caseSequence'', JNum 1 0)])]))"

definition demo_log :: "http_request list \<times> (code + json \<times> json \<times> demo_facts)" where
  "demo_log = createDemoKycCase (logged demo_answer) id [(''x-ehf-authenticated-tenant'', ''acme'')] (Inr edge_identity) ''http://case'' ''1-2'' demo_browser []"

theorem demo_intake_stays_in_the_callers_tenant_witness:
  "length (fst demo_log) = 2 \<and> list_all (in_tenant ''acme'' edge_identity) (fst demo_log)"
proof -
  have "length (fst demo_log) = 2" by code_simp
  moreover have "authenticatedTenantId [(''x-ehf-authenticated-tenant'', ''acme'')] = Inr ''acme''" by code_simp
  ultimately show ?thesis
    using demo_intake_stays_in_the_callers_tenant [of demo_answer id "[(''x-ehf-authenticated-tenant'', ''acme'')]" edge_identity
      "''http://case''" "''1-2''" demo_browser "fst demo_log" "snd demo_log" "''acme''"] by (simp add: demo_log_def)
qed

end
