(* ===== verification/TraceView.thy ===== *)
theory TraceView
  imports EdgeCalls
begin

text \<open>
  The trace route of the control surface, apps/control-ui/src/app/v1/traces/[traceId]/route.ts: what it makes
  of a trace the tracing backend holds. A reply of the backend is a list of traces; a member of JSON that
  the route reads as a number is one.
\<close>

section \<open>Traces\<close>

record jaeger_span =
  jg_spanID :: string
  jg_operationName :: string
  jg_processID :: string
  jg_startTime :: int
  jg_duration :: int
  jg_references :: "(string \<times> string) list"
  jg_tags :: entries

record jaeger_trace =
  jt_traceID :: string
  jt_spans :: "jaeger_span list"
  jt_processes :: "(string \<times> string option) list"

datatype jaeger_reply =
    JaegerFailed code
  | JaegerStatus nat
  | JaegerTraces "jaeger_trace list"

record span_view =
  sv_spanId :: string
  sv_parentSpanId :: "string option"
  sv_operationName :: string
  sv_serviceName :: string
  sv_startTime :: string
  sv_startOffsetMs :: rat
  sv_durationMs :: rat
  sv_depth :: nat
  sv_error :: bool
  sv_tags :: entries

record trace_page =
  tr_traceId :: string
  tr_startedAt :: string
  tr_durationMs :: rat
  tr_spanCount :: nat
  tr_services :: "string list"
  tr_rawViewerUrl :: string
  tr_spans :: "span_view list"

section \<open>The view\<close>

fun ancestors_within :: "(string \<Rightarrow> string option) \<Rightarrow> nat \<Rightarrow> string list \<Rightarrow> string option \<Rightarrow> nat" where
  \<comment> \<open>the loop of \<open>depthFor\<close>, with the rounds that are left\<close>
  "ancestors_within parent 0 visited current = 0"
| "ancestors_within parent (Suc n) visited None = 0"
| "ancestors_within parent (Suc n) visited (Some c) =
     (if c = [] \<or> c \<in> set visited then 0 else Suc (ancestors_within parent n (c # visited) (parent c)))"

definition depthFor :: "(string \<Rightarrow> string option) \<Rightarrow> string \<Rightarrow> nat" where
  "depthFor parent i = ancestors_within parent 40 [] (parent i)"

definition child_of :: "jaeger_span \<Rightarrow> string option" where
  "child_of s = map_option snd (List.find (\<lambda>(t, i). t = ''CHILD_OF'') (jg_references s))"

definition parent_in :: "jaeger_span list \<Rightarrow> string \<Rightarrow> string option" where
  \<comment> \<open>\<open>parents.get(id) ?? null\<close>\<close>
  "parent_in spans i = Option.bind (map_of (rev (map (\<lambda>s. (jg_spanID s, child_of s)) spans)) i) id"

definition in_ms :: "int \<Rightarrow> rat" where
  "in_ms micros = of_int micros / 1000"

definition micros_text :: "int \<Rightarrow> string" where
  "micros_text t = toISOString (t div 1000)"

definition service_of :: "jaeger_trace \<Rightarrow> jaeger_span \<Rightarrow> string" where
  "service_of t s = or_else (Option.bind (map_of (jt_processes t) (jg_processID s)) id) (jg_processID s)"

definition span_view_of :: "jaeger_trace \<Rightarrow> jaeger_span list \<Rightarrow> int \<Rightarrow> jaeger_span \<Rightarrow> span_view" where
  "span_view_of t ordered start s = (let tags = obj_from_entries (jg_tags s) in
     \<lparr>sv_spanId = jg_spanID s, sv_parentSpanId = parent_in ordered (jg_spanID s), sv_operationName = jg_operationName s,
       sv_serviceName = service_of t s, sv_startTime = micros_text (jg_startTime s), sv_startOffsetMs = in_ms (jg_startTime s - start),
       sv_durationMs = in_ms (jg_duration s), sv_depth = depthFor (parent_in ordered) (jg_spanID s),
       sv_error = (obj_get tags ''error'' = JBool True \<or> obj_get tags ''otel.status_code'' = JStr ''ERROR''), sv_tags = tags\<rparr>)"

definition text_order :: "string \<Rightarrow> nat list" where
  \<comment> \<open>the order \<open>toSorted\<close> puts texts in\<close>
  "text_order s = map of_char s"

definition view_of_trace :: "string \<Rightarrow> jaeger_trace \<Rightarrow> trace_page" where
  \<comment> \<open>of a trace with a span\<close>
  "view_of_trace publicBase t = (let ordered = sort_key jg_startTime (jt_spans t); start = jg_startTime (hd ordered);
       finish = Max (set (map (\<lambda>s. jg_startTime s + jg_duration s) ordered)); spans = map (span_view_of t ordered start) ordered in
     \<lparr>tr_traceId = jt_traceID t, tr_startedAt = micros_text start, tr_durationMs = in_ms (finish - start), tr_spanCount = length spans,
       tr_services = map (map char_of) (sort (map text_order (remdups (map sv_serviceName spans)))),
       tr_rawViewerUrl = publicBase @ ''/trace/'' @ jt_traceID t, tr_spans = spans\<rparr>)"

section \<open>The route\<close>

definition trace_id_ok :: "string \<Rightarrow> bool" where
  \<comment> \<open>\<open>/^[a-f0-9]{16,32}$/i\<close>\<close>
  "trace_id_ok s \<longleftrightarrow> 16 \<le> length s \<and> length s \<le> 32 \<and> list_all (\<lambda>c. is_hex c \<or> (let n = of_char c :: nat in 65 \<le> n \<and> n \<le> 70)) s"

definition jaeger_url :: "env \<Rightarrow> string \<Rightarrow> string" where
  "jaeger_url env traceId = without_slash (or_else (env ''JAEGER_API_INTERNAL_URL'') ''http://127.0.0.1:16686'') @ ''/api/traces/''
     @ encodeURIComponent traceId"

definition traces_route :: "env \<Rightarrow> (string \<Rightarrow> jaeger_reply) \<Rightarrow> string \<Rightarrow> trace_page response" where
  "traces_route env jaeger traceId = (if \<not> trace_id_ok traceId then Failure 400 ''TRACE_ID_INVALID''
     else (case jaeger (jaeger_url env traceId) of
         JaegerFailed c \<Rightarrow> Failure 502 ''TRACE_QUERY_FAILED''
       | JaegerStatus s \<Rightarrow> Failure (if s = 404 then 404 else 502) ''TRACE_NOT_FOUND''
       | JaegerTraces [] \<Rightarrow> Failure 404 ''TRACE_NOT_FOUND''
       | JaegerTraces (t # _) \<Rightarrow> if jt_spans t = [] then Failure 404 ''TRACE_NOT_FOUND''
           else Reply 200 (view_of_trace (without_slash (or_else (env ''TRACE_VIEWER_PUBLIC_URL'') ''http://localhost:16686'')) t)))"

end
