(* ===== verification/TraceViewClaims.thy ===== *)
theory TraceViewClaims
  imports TraceView
begin

text \<open>
  What a trace looks like in its view: spans in the order they started, inside the bar of the trace, a child
  one step deeper than its parent, and a depth even where the references form a cycle.
\<close>

section \<open>Depth\<close>

lemma ancestors_bounded: "ancestors_within parent n visited c \<le> n"
  by (induction parent n visited c rule: ancestors_within.induct) auto

lemma ancestors_fewer: "n \<le> m \<Longrightarrow> ancestors_within parent n visited c = min n (ancestors_within parent m visited c)"
proof (induction n arbitrary: m visited c)
  case (Suc n)
  then obtain m' where m: "m = Suc m'" "n \<le> m'" by (cases m) auto
  show ?case using Suc.IH [OF m(2)] by (cases c) (auto simp: m(1))
qed simp

definition parent_relation :: "(string \<Rightarrow> string option) \<Rightarrow> (string \<times> string) set" where
  "parent_relation parent = {(a, b). parent a = Some b \<and> b \<noteq> []}"

definition above :: "(string \<Rightarrow> string option) \<Rightarrow> string option \<Rightarrow> string set" where
  "above parent c = {b. \<exists>a. c = Some a \<and> a \<noteq> [] \<and> (a, b) \<in> (parent_relation parent)\<^sup>*}"

lemma above_parent: "a \<noteq> [] \<Longrightarrow> above parent (parent a) \<subseteq> above parent (Some a)"
  by (auto simp: above_def parent_relation_def intro: converse_rtrancl_into_rtrancl)

lemma not_above_itself: "acyclic (parent_relation parent) \<Longrightarrow> a \<notin> above parent (parent a)"
  by (auto simp: above_def parent_relation_def acyclic_def dest: rtrancl_into_trancl2 [rotated])

lemma ancestors_visited:
  assumes "acyclic (parent_relation parent)" and "set v \<inter> above parent c = {}" and "set w \<inter> above parent c = {}"
  shows "ancestors_within parent n v c = ancestors_within parent n w c"
  using assms(2,3)
proof (induction n arbitrary: v w c)
  case (Suc n)
  show ?case
  proof (cases c)
    case (Some a)
    show ?thesis
    proof (cases "a = []")
      case False
      then have "a \<in> above parent c" by (auto simp: Some above_def)
      then have fresh: "a \<notin> set v" "a \<notin> set w" using Suc.prems by auto
      have "set (a # u) \<inter> above parent (parent a) = {}" if "set u \<inter> above parent c = {}" for u
        using that above_parent [OF False, of parent] not_above_itself [OF assms(1), of a] by (auto simp: Some)
      then show ?thesis using fresh Suc.IH [of "a # v" "parent a" "a # w"] Suc.prems by (simp add: Some False)
    qed (simp add: Some)
  qed simp
qed simp

text \<open>The depth of a span is at most forty, whatever its references say, and where they form no cycle a
  child is one deeper than its parent up to that depth; a span without a parent is at the top.\<close>

theorem depth_follows_the_parents:
  "depthFor parent i \<le> 40
    \<and> (acyclic (parent_relation parent) \<longrightarrow> depthFor parent i = (case parent i of None \<Rightarrow> 0
         | Some p \<Rightarrow> if p = [] then 0 else min 40 (Suc (depthFor parent p))))"
proof (intro conjI impI)
  show "depthFor parent i \<le> 40" by (simp add: depthFor_def ancestors_bounded)
  assume ac: "acyclic (parent_relation parent)"
  show "depthFor parent i = (case parent i of None \<Rightarrow> 0 | Some p \<Rightarrow> if p = [] then 0 else min 40 (Suc (depthFor parent p)))"
  proof (cases "parent i")
    case (Some p)
    show ?thesis
    proof (cases "p = []")
      case False
      have "depthFor parent i = Suc (ancestors_within parent 39 [p] (parent p))"
        using Some False by (simp add: depthFor_def eval_nat_numeral)
      also have "ancestors_within parent 39 [p] (parent p) = ancestors_within parent 39 [] (parent p)"
        using ac not_above_itself [OF ac, of p] by (intro ancestors_visited) auto
      also have "\<dots> = min 39 (depthFor parent p)" unfolding depthFor_def by (rule ancestors_fewer) simp
      finally show ?thesis using Some False by simp
    qed (simp add: Some depthFor_def eval_nat_numeral)
  qed (simp add: depthFor_def eval_nat_numeral)
qed

section \<open>The bar of the trace\<close>

text \<open>The view of a trace holds each of its spans once, in the order they started, each beginning at or after
  the trace and ending at or before its end.\<close>

theorem spans_lie_within_their_trace:
  assumes "traces_route env jaeger traceId = Reply 200 v"
  shows "\<exists>t ts. jaeger (jaeger_url env traceId) = JaegerTraces (t # ts)
    \<and> mset (map sv_spanId (tr_spans v)) = mset (map jg_spanID (jt_spans t)) \<and> sorted (map sv_startOffsetMs (tr_spans v))
    \<and> (\<forall>s \<in> set (tr_spans v). 0 \<le> sv_startOffsetMs s \<and> sv_startOffsetMs s + sv_durationMs s \<le> tr_durationMs v)"
proof -
  obtain t ts where reply: "jaeger (jaeger_url env traceId) = JaegerTraces (t # ts)" and ne: "jt_spans t \<noteq> []"
    and v: "v = view_of_trace (without_slash (or_else (env ''TRACE_VIEWER_PUBLIC_URL'') ''http://localhost:16686'')) t"
    using assms by (auto simp: traces_route_def split: if_splits jaeger_reply.splits list.splits)
  let ?os = "sort_key jg_startTime (jt_spans t)"
  let ?start = "jg_startTime (hd ?os)" and ?finish = "Max (set (map (\<lambda>s. jg_startTime s + jg_duration s) ?os))"
  have spans: "tr_spans v = map (span_view_of t ?os ?start) ?os" and dur: "tr_durationMs v = in_ms (?finish - ?start)"
    by (simp_all add: v view_of_trace_def Let_def)
  have ids: "map sv_spanId (tr_spans v) = map jg_spanID ?os" by (simp add: spans span_view_of_def Let_def)
  have offsets: "map sv_startOffsetMs (tr_spans v) = map (\<lambda>s. in_ms (jg_startTime s - ?start)) ?os"
    by (simp add: spans span_view_of_def Let_def)
  have ord: "sorted (map jg_startTime ?os)" by (rule sorted_sort_key)
  have first: "?start \<le> jg_startTime s" if "s \<in> set ?os" for s
    using ord that by (cases ?os) auto
  have last: "jg_startTime s + jg_duration s \<le> ?finish" if "s \<in> set ?os" for s
    using that by (intro Max_ge) auto
  show ?thesis
  proof (intro exI conjI)
    show "jaeger (jaeger_url env traceId) = JaegerTraces (t # ts)" by (rule reply)
    show "mset (map sv_spanId (tr_spans v)) = mset (map jg_spanID (jt_spans t))" unfolding ids by simp
    show "sorted (map sv_startOffsetMs (tr_spans v))"
      unfolding offsets using ord by (auto simp: sorted_iff_nth_mono in_ms_def divide_right_mono)
    show "\<forall>s \<in> set (tr_spans v). 0 \<le> sv_startOffsetMs s \<and> sv_startOffsetMs s + sv_durationMs s \<le> tr_durationMs v"
      using first last by (auto simp: spans dur span_view_of_def Let_def in_ms_def add_divide_distrib [symmetric] simp flip: of_int_add of_int_diff
        intro!: divide_right_mono)
  qed
qed

end
