(* ===== verification/AgentImport.thy ===== *)
theory AgentImport
  imports ControlAuthoring CaseViews Http
begin

text \<open>
  The import of an agent from GitHub: apps/control-api/src/agent-import.ts and the route that registers what
  it found. \<open>new URL\<close>, the YAML parser and \<open>JSON.parse\<close> are parameters; the reply of a raw file carries its
  text as a JSON text. Files are fetched one after another, in the order they are listed.
\<close>

section \<open>Repositories\<close>

record repo_ref =
  rp_owner :: string
  rp_repo :: string
  rp_revision :: "string option"

type_synonym url_parser = "string \<Rightarrow> (string \<times> string) option"

text \<open>A parsed URL is its host name and its path.\<close>

definition url_path_parts :: "string \<Rightarrow> string list" where
  "url_path_parts path = filter (\<lambda>s. s \<noteq> []) (split_on CHR ''/'' path)"

definition ends_with :: "string \<Rightarrow> string \<Rightarrow> bool" where
  "ends_with s suffix \<longleftrightarrow> starts_with (rev s) (rev suffix)"

definition without_suffix :: "string \<Rightarrow> string \<Rightarrow> string" where
  "without_suffix suffix s = (if ends_with s suffix then take (length s - length suffix) s else s)"

definition after_tree :: "string list \<Rightarrow> string option" where
  "after_tree parts = (case dropWhile (\<lambda>s. s \<noteq> ''tree'') parts of _ # revision # _ \<Rightarrow> Some revision | _ \<Rightarrow> None)"

definition parseGithubRepository :: "url_parser \<Rightarrow> string \<Rightarrow> repo_ref result" where
  "parseGithubRepository url value' = (let normalized = (if starts_with value' ''http://'' \<or> starts_with value' ''https://'' then value'
       else ''https://github.com/'' @ value') in
     case url normalized of None \<Rightarrow> Inl ''Invalid URL''
     | Some (host, path) \<Rightarrow> if host \<noteq> ''github.com'' then Inl ''authoring.github_host_required''
         else (case url_path_parts path of
             owner # rawRepo # tail \<Rightarrow> let repo = without_suffix ''.git'' rawRepo in
               if repo = [] then Inl ''authoring.github_repository_invalid''
               else Inr \<lparr>rp_owner = owner, rp_repo = repo, rp_revision = after_tree (owner # rawRepo # tail)\<rparr>
           | _ \<Rightarrow> Inl ''authoring.github_repository_invalid''))"

section \<open>Names and files\<close>

definition slug_char :: "char \<Rightarrow> bool" where
  "slug_char c \<longleftrightarrow> is_lower c \<or> is_digit c \<or> c \<in> {CHR ''.'', CHR ''_'', CHR ''-''}"

fun dashed :: "string \<Rightarrow> string" where
  \<comment> \<open>\<open>replace(/[^a-z0-9._-]+/g, "-")\<close>\<close>
  "dashed [] = []"
| "dashed (c # cs) = (if slug_char c then c # dashed cs
     else (case cs of [] \<Rightarrow> ''-'' | c' # _ \<Rightarrow> if slug_char c' then CHR ''-'' # dashed cs else dashed cs))"

definition undash :: "string \<Rightarrow> string" where
  "undash s = rev (dropWhile (\<lambda>c. c = CHR ''-'') (rev (dropWhile (\<lambda>c. c = CHR ''-'') s)))"

definition slug :: "string \<Rightarrow> string" where
  "slug s = (let t = take 90 (undash (dashed (lower_case s))) in if t = [] then ''imported'' else t)"

definition manifest_names :: "string list" where
  "manifest_names = concat (map (\<lambda>n. map (\<lambda>e. n @ ''.'' @ e) [''yml'', ''yaml'', ''json'']) [''agent'', ''assistant'', ''manifest''])"

definition is_manifest :: "string \<Rightarrow> bool" where
  "is_manifest path \<longleftrightarrow> last (split_on CHR ''/'' (lower_case path)) \<in> set manifest_names"

definition is_prompt :: "string \<Rightarrow> bool" where
  "is_prompt path \<longleftrightarrow> list_ex (has_sub (lower_case path)) [''systemprompt'', ''system_prompt'', ''system-prompt'', ''agents.md'', ''claude.md'']"

definition in_directory :: "string list \<Rightarrow> string \<Rightarrow> bool" where
  "in_directory names path \<longleftrightarrow> list_ex (\<lambda>n. n \<in> set names) (butlast (split_on CHR ''/'' (lower_case path)))"

definition candidateScore :: "string \<Rightarrow> nat" where
  "candidateScore path = (let lower = lower_case path in
     if ends_with lower ''skill.md'' then 100
     else if is_manifest path then 98
     else if is_prompt path then 92
     else if in_directory [''skills'', ''agents'', ''prompts''] path \<and> list_ex (ends_with lower) [''.md'', ''.yml'', ''.yaml'', ''.json''] then 80
     else 0)"

record repo_file =
  fl_path :: string
  fl_content :: string

definition by_score :: "('a \<Rightarrow> string) \<Rightarrow> 'a list \<Rightarrow> 'a list" where
  "by_score path xs = sort_key (\<lambda>x. - int (candidateScore (path x))) xs"

definition is_skill_file :: "string \<Rightarrow> bool" where
  "is_skill_file path \<longleftrightarrow> ends_with (lower_case path) ''skill.md'' \<or> in_directory [''skills''] path \<and> ends_with (lower_case path) ''.md''"

section \<open>Reading files\<close>

record import_env =
  im_url :: url_parser
  im_yaml :: "string \<Rightarrow> json result"
  im_json :: "string \<Rightarrow> json result"
  im_is_url :: "string \<Rightarrow> bool"

fun split_at_sub :: "string \<Rightarrow> string \<Rightarrow> (string \<times> string) option" where
  \<comment> \<open>what is before and after the first place of a text\<close>
  "split_at_sub sub [] = (if sub = [] then Some ([], []) else None)"
| "split_at_sub sub (c # cs) = (if starts_with (c # cs) sub then Some ([], drop (length sub) (c # cs))
     else map_option (\<lambda>(a, b). (c # a, b)) (split_at_sub sub cs))"

definition line_break :: string where
  "line_break = [char_of (10 :: nat)]"

definition splitFrontmatter :: "import_env \<Rightarrow> string \<Rightarrow> (entries \<times> string) result" where
  "splitFrontmatter E content = (if \<not> starts_with content (''---'' @ line_break) then Inr ([], trim content)
     else (case split_at_sub (line_break @ ''---'') (drop 4 content) of
         None \<Rightarrow> Inr ([], trim content)
       | Some (front, body) \<Rightarrow> bind_result (im_yaml E front) (\<lambda>v. Inr (object_of v, trim body))))"

definition parseManifest :: "import_env \<Rightarrow> repo_file option \<Rightarrow> entries" where
  "parseManifest E file = (case file of None \<Rightarrow> []
     | Some f \<Rightarrow> (case (if ends_with (fl_path f) ''.json'' then im_json E else im_yaml E) (fl_content f) of Inl _ \<Rightarrow> [] | Inr v \<Rightarrow> object_of v))"

definition first_given :: "entries \<Rightarrow> string list \<Rightarrow> json \<Rightarrow> json" where
  \<comment> \<open>\<open>es.a ?? es.b ?? ... ?? v\<close>\<close>
  "first_given es ks v = foldr (\<lambda>k rest. nullish (obj_get es k) rest) ks v"

definition given_text :: "entries \<Rightarrow> string list \<Rightarrow> string \<Rightarrow> string" where
  "given_text es ks s = js_string (first_given es ks (JStr s))"

section \<open>The bundle\<close>

definition repository_url :: "repo_ref \<Rightarrow> string" where
  "repository_url r = ''https://github.com/'' @ rp_owner r @ ''/'' @ rp_repo r"

definition github_source :: "repo_ref \<Rightarrow> string option \<Rightarrow> string \<Rightarrow> json" where
  "github_source r path revision = JObj ([(''type'', JStr ''github''), (''url'', JStr (repository_url r))]
     @ (case path of Some p \<Rightarrow> [(''path'', JStr p)] | None \<Rightarrow> []) @ [(''revision'', JStr revision)])"

definition file_name :: "string \<Rightarrow> string" where
  \<comment> \<open>the directory of a file, or its name without \<open>.md\<close>\<close>
  "file_name path = (case rev (split_on CHR ''/'' path) of
       _ # directory # _ \<Rightarrow> directory
     | [name] \<Rightarrow> if ends_with (lower_case name) ''.md'' then take (length name - 3) name else name
     | [] \<Rightarrow> ''Imported skill'')"

definition first_line :: "string \<Rightarrow> string option" where
  "first_line body = List.find (\<lambda>line. trim line \<noteq> [] \<and> \<not> starts_with line ''#'') (split_on (char_of (10 :: nat)) body)"

definition skill_id_of :: "repo_ref \<Rightarrow> string \<Rightarrow> string" where
  "skill_id_of r name = ''skill.'' @ slug (rp_owner r) @ ''.'' @ slug (rp_repo r) @ ''.'' @ slug name @ ''.v1''"

definition skill_of :: "import_env \<Rightarrow> repo_ref \<Rightarrow> string \<Rightarrow> repo_file \<Rightarrow> skill_registration result" where
  "skill_of E r revision f = bind_result (splitFrontmatter E (fl_content f)) (\<lambda>(attributes, body).
     let name = given_text attributes [''name''] (file_name (fl_path f));
       description = given_text attributes [''description''] (or_else (first_line body) (''Imported from '' @ fl_path f));
       capabilities = (case first_given attributes [''allowedCapabilityIds'', ''capabilities''] JUndef of
         JArr vs \<Rightarrow> filter (\<lambda>v. case v of JStr _ \<Rightarrow> True | _ \<Rightarrow> False) vs | _ \<Rightarrow> [])
     in (case parse_skill_registration (im_is_url E) (JObj [(''id'', JStr (skill_id_of r name)), (''name'', JStr name),
           (''description'', JStr description), (''instructions'', JStr (if body = [] then description else body)),
           (''allowedCapabilityIds'', JArr capabilities), (''source'', github_source r (Some (fl_path f)) revision),
           (''version'', JStr (given_text attributes [''version''] ''0.1.0'')), (''status'', JStr ''active'')]) of
         None \<Rightarrow> Inl ''ZodError'' | Some k \<Rightarrow> Inr k))"

fun skills_of :: "import_env \<Rightarrow> repo_ref \<Rightarrow> string \<Rightarrow> repo_file list \<Rightarrow> skill_registration list result" where
  "skills_of E r revision [] = Inr []"
| "skills_of E r revision (f # fs) = bind_result (skill_of E r revision f) (\<lambda>k. bind_result (skills_of E r revision fs) (\<lambda>ks. Inr (k # ks)))"

fun spaced :: "string \<Rightarrow> string" where
  \<comment> \<open>\<open>replace(/[-_]+/g, " ")\<close>\<close>
  "spaced [] = []"
| "spaced (c # cs) = (if c \<noteq> CHR ''-'' \<and> c \<noteq> CHR ''_'' then c # spaced cs
     else (case cs of [] \<Rightarrow> '' '' | c' # _ \<Rightarrow> if c' = CHR ''-'' \<or> c' = CHR ''_'' then spaced cs else CHR '' '' # spaced cs))"

definition schema_member :: "entries \<Rightarrow> string list \<Rightarrow> json" where
  "schema_member m ks = (case first_given m ks JUndef of JObj es \<Rightarrow> JObj es | _ \<Rightarrow> JObj [(''type'', JStr ''object'')])"

definition case_writes_of :: "entries \<Rightarrow> json" where
  "case_writes_of m = (case first_given m [''caseWrites'', ''case_writes'']
       (case obj_get m ''config'' of JObj c \<Rightarrow> obj_get c ''caseWrites'' | _ \<Rightarrow> JUndef) of JArr ws \<Rightarrow> JArr ws | _ \<Rightarrow> JArr [])"

definition agent_document :: "repo_ref \<Rightarrow> string \<Rightarrow> entries \<Rightarrow> string option \<Rightarrow> string option \<Rightarrow> string list \<Rightarrow> json" where
  \<comment> \<open>of the manifest, its path, the content of the prompt file and the skills\<close>
  "agent_document r revision m path promptContent skillIds = (let
       prompt = trim (given_text m [''prompt'', ''instructions'', ''system_prompt'']
         (or_else promptContent (''Act as the '' @ rp_repo r @ '' domain agent.'')));
       profile = given_text m [''modelProfileId'', ''model_profile_id''] ''model.standard.v1'';
       runtime = given_text m [''runtimeTarget'', ''runtime_target'', ''runtime''] ''local_http'';
       name = given_text m [''name''] (spaced (rp_repo r));
       primary = first_given m [''primaryCapabilityId'', ''capabilityId'', ''capability_id''] JUndef
     in JObj ([(''id'', JStr (given_text m [''id''] (''agent.'' @ slug (rp_owner r) @ ''.'' @ slug (rp_repo r) @ ''.v1''))), (''name'', JStr name),
       (''description'', JStr (given_text m [''description''] (''Imported from '' @ rp_owner r @ ''/'' @ rp_repo r))),
       (''role'', JStr (given_text m [''role'', ''persona'', ''description''] (name @ '' agent''))), (''prompt'', JStr prompt),
       (''modelProfileId'', JStr (if starts_with profile ''model.'' then profile else ''model.standard.v1'')),
       (''runtimeTarget'', JStr (if runtime = ''azure_foundry'' then ''azure_foundry'' else ''local_http'')),
       (''skillIds'', JArr (map JStr skillIds))]
       @ (case primary of JStr c \<Rightarrow> [(''primaryCapabilityId'', JStr c)] | _ \<Rightarrow> [])
       @ [(''caseWrites'', case_writes_of m), (''inputSchema'', schema_member m [''inputSchema'', ''input_schema'']),
         (''outputSchema'', schema_member m [''outputSchema'', ''output_schema'']), (''source'', github_source r path revision),
         (''version'', JStr (given_text m [''version''] ''0.1.0'')), (''status'', JStr ''active'')]))"

definition buildAgentBundleFromFiles :: "import_env \<Rightarrow> repo_ref \<Rightarrow> string \<Rightarrow> repo_file list \<Rightarrow> (agent_registration \<times> skill_registration list) result" where
  "buildAgentBundleFromFiles E r revision files = (let manifest = List.find (is_manifest \<circ> fl_path) (by_score fl_path files) in
     bind_result (skills_of E r revision (filter (is_skill_file \<circ> fl_path) files)) (\<lambda>skills.
     (case parse_agent_registration (im_is_url E) (agent_document r revision (parseManifest E manifest) (map_option fl_path manifest)
           (map_option fl_content (List.find (is_prompt \<circ> fl_path) files)) (map (skill_id \<circ> sk_skill) skills)) of
         None \<Rightarrow> Inl ''ZodError'' | Some a \<Rightarrow> Inr (a, skills))))"

section \<open>Fetching\<close>

definition github_token :: "env \<Rightarrow> string option" where
  \<comment> \<open>an empty one is not sent\<close>
  "github_token env = (let t = coalesce (env ''GITHUB_TOKEN'') (env ''GH_TOKEN'') in if nonempty t then t else None)"

definition github_get :: "'w fetch \<Rightarrow> string option \<Rightarrow> (string \<times> string) list \<Rightarrow> string \<Rightarrow> ('w, nat \<times> json option) act" where
  "github_get fetch token hs url = exchange fetch \<lparr>rq_method = ''GET'', rq_url = url,
     rq_headers = hs @ (case token of Some t \<Rightarrow> [bearer t] | None \<Rightarrow> []), rq_body = None\<rparr>"

definition api_headers :: "(string \<times> string) list" where
  "api_headers = [(''accept'', ''application/vnd.github+json''), (''user-agent'', ''ehf-author-plane'')]"

definition repo_path :: "repo_ref \<Rightarrow> string" where
  "repo_path r = rp_owner r @ ''/'' @ rp_repo r"

definition small_enough :: "json \<Rightarrow> bool" where
  "small_enough v = (case nullish v (JInt 0) of JNum m e \<Rightarrow> m \<le> 180000 * 10 ^ e | _ \<Rightarrow> False)"

definition wanted_path :: "entries \<Rightarrow> string option" where
  "wanted_path item = (case (obj_get item ''type'', obj_get item ''path'') of
       (JStr t, JStr p) \<Rightarrow> if t = ''blob'' \<and> p \<noteq> [] \<and> 0 < candidateScore p \<and> small_enough (obj_get item ''size'')
           \<and> length (split_on CHR ''/'' p) \<le> 7 then Some p else None
     | _ \<Rightarrow> None)"

definition wanted_paths :: "json \<Rightarrow> string list" where
  \<comment> \<open>an entry of the tree is an object\<close>
  "wanted_paths tree = take 30 (by_score id (List.map_filter (wanted_path \<circ> object_of)
     (case js_member tree ''tree'' of JArr items \<Rightarrow> items | _ \<Rightarrow> [])))"

fun fetch_files :: "'w fetch \<Rightarrow> string option \<Rightarrow> string \<Rightarrow> string list \<Rightarrow> ('w, repo_file list) act" where
  "fetch_files fetch token base [] = yield []"
| "fetch_files fetch token base (p # ps) = then_do (github_get fetch token [] (base @ p)) (\<lambda>(status, body).
     then_do (fetch_files fetch token base ps) (\<lambda>files.
       yield (case body of Some (JStr content) \<Rightarrow> if ok_status status then \<lparr>fl_path = p, fl_content = content\<rparr> # files else files
         | _ \<Rightarrow> files)))"

definition importAgentBundle :: "import_env \<Rightarrow> 'w fetch \<Rightarrow> env \<Rightarrow> string \<Rightarrow> ('w, agent_registration \<times> skill_registration list) act" where
  "importAgentBundle E fetch env url = then_do (lift_act (parseGithubRepository (im_url E) url)) (\<lambda>r. let token = github_token env in
     then_do (github_get fetch token api_headers (''https://api.github.com/repos/'' @ repo_path r)) (\<lambda>(s1, meta).
     if \<not> ok_status s1 then throw (''authoring.github_repository_unavailable:'' @ nat_text s1)
     else then_do (reply_json meta) (\<lambda>m. then_do (lift_act (member_of m ''default_branch'')) (\<lambda>branch.
     let revision = js_string (nullish (case rp_revision r of Some v \<Rightarrow> JStr v | None \<Rightarrow> JUndef) (nullish branch (JStr ''main''))) in
     then_do (github_get fetch token api_headers (''https://api.github.com/repos/'' @ repo_path r @ ''/git/trees/''
         @ encodeURIComponent revision @ ''?recursive=1'')) (\<lambda>(s2, tree).
     if \<not> ok_status s2 then throw (''authoring.github_tree_unavailable:'' @ nat_text s2)
     else then_do (reply_json tree) (\<lambda>t. let paths = wanted_paths t in
     if paths = [] then throw ''authoring.github_no_agent_files''
     else then_do (fetch_files fetch token (''https://raw.githubusercontent.com/'' @ repo_path r @ ''/'' @ revision @ ''/'') paths) (\<lambda>files.
       lift_act (buildAgentBundleFromFiles E r revision files))))))))"

section \<open>The route\<close>

fun register_skills :: "(string \<Rightarrow> string) \<Rightarrow> (string \<Rightarrow> bool) \<Rightarrow> time \<Rightarrow> authoring \<Rightarrow> skill_registration list \<Rightarrow> (bool \<times> string) list effect" where
  \<comment> \<open>\<open>Promise.all\<close>: every one is tried, the first failure is the outcome\<close>
  "register_skills sha is_url now s [] = (s, Inr [])"
| "register_skills sha is_url now s (k # ks) = (case registerAuthoringSkill sha is_url now s k of (s1, x) \<Rightarrow>
     (case register_skills sha is_url now s1 ks of (s2, xs) \<Rightarrow> (s2, bind_result x (\<lambda>y. bind_result xs (\<lambda>ys. Inr (y # ys))))))"

definition register_bundle :: "control_api \<Rightarrow> time \<Rightarrow> control \<Rightarrow> agent_registration \<times> skill_registration list \<Rightarrow> outcome" where
  "register_bundle A now s b = (case register_skills (au_sha (ca_authoring A)) (ca_is_url A) now (ct_authoring s) (snd b) of
       (t, Inl c) \<Rightarrow> (s\<lparr>ct_authoring := t\<rparr>, Failure 400 c)
     | (t, Inr _) \<Rightarrow> finish (Failure 400) (\<lambda>(created, digest). Reply 201 (RepRegistered created digest))
         (on_authoring (s\<lparr>ct_authoring := t\<rparr>) (registerAuthoringAgent (au_sha (ca_authoring A)) (ca_is_url A) now t (fst b))))"

definition import_route :: "control_api \<Rightarrow> time \<Rightarrow> headers \<Rightarrow> json \<Rightarrow> (string \<Rightarrow> (agent_registration \<times> skill_registration list) result) \<Rightarrow> control \<Rightarrow> outcome" where
  \<comment> \<open>\<open>fetched\<close> is what \<open>importAgentBundle\<close> comes to\<close>
  "import_route A now hs body fetched s = as_principal A hs AgentRegister ''agent-import'' None s (\<lambda>p. case js_member body ''url'' of
       JStr url \<Rightarrow> (case fetched url of Inl c \<Rightarrow> (s, Failure 400 c) | Inr b \<Rightarrow> register_bundle A now s b)
     | _ \<Rightarrow> (s, Failure 400 ''authoring.github_url_required''))"

end
