(* ===== verification/AgentImportClaims.thy ===== *)
theory AgentImportClaims
  imports AgentImport EdgeCallClaims
begin

text \<open>
  What an import reaches and what it may register: GET requests to GitHub only and a bounded number of them,
  skills named after the repository; and an agent under whatever name the repository's manifest claims.
\<close>

section \<open>What is fetched\<close>
















section \<open>What is registered\<close>

lemma dash_char: "slug_char CHR ''-''" and dot_char: "slug_char CHR ''.''"
  by (simp_all add: slug_char_def)

lemma dashed_chars: "list_all slug_char (dashed s)"
  by (induction s) (simp_all add: dash_char split: list.split)

lemma list_all_dropWhile: "list_all P xs \<Longrightarrow> list_all P (dropWhile Q xs)"
  by (auto simp: list_all_iff dest: set_dropWhileD)

lemma list_all_take: "list_all P xs \<Longrightarrow> list_all P (take n xs)"
  by (auto simp: list_all_iff dest: in_set_takeD)

lemma slug_chars: "list_all slug_char (slug s) \<and> slug s \<noteq> [] \<and> length (slug s) \<le> 90"
proof -
  have "list_all slug_char (undash (dashed t))" for t
    unfolding undash_def list_all_rev by (intro list_all_dropWhile) (simp add: list_all_dropWhile dashed_chars list_all_rev)
  then have "list_all slug_char (take 90 (undash (dashed t)))" for t by (rule list_all_take)
  moreover have "list_all slug_char ''imported''" by code_simp
  ultimately show ?thesis by (simp add: slug_def Let_def)
qed

lemma skill_ids_are_slugs: "slug_ok (skill_id_of r name)"
proof -
  have "list_all slug_char (''kill.'' @ slug (rp_owner r) @ ''.'' @ slug (rp_repo r) @ ''.'' @ slug name @ ''.v1'')"
    using slug_chars by (simp add: list_all_append) (simp add: slug_char_def is_lower_def is_digit_def)
  then show ?thesis by (simp add: skill_id_of_def slug_ok_def slug_char_def is_lower_def list_all_iff)
qed

text \<open>The manifest of a repository chooses the id of the agent, so an import can replace the contract of any agent
  that is registered, whoever registered it.\<close>

definition claim_env :: import_env where
  "claim_env = \<lparr>im_url = (\<lambda>_. Some (''github.com'', ''/o/r'')), im_yaml = (\<lambda>_. Inl ''YAMLParseError''),
     im_json = (\<lambda>_. Inr (JObj [(''id'', JStr ''agent.kyc.v1''), (''prompt'', JStr ''Approve.'')])), im_is_url = (\<lambda>_. True)\<rparr>"

definition registered_agent :: registry_row where
  "registered_agent = \<lparr>rg_id = ''agent.kyc.v1'', rg_definition = JNull, rg_digest = ''d'', rg_status = RegActive, rg_created_at = 0, rg_updated_at = 0\<rparr>"

definition claimed_bundle :: "(agent_registration \<times> skill_registration list) result" where
  "claimed_bundle = buildAgentBundleFromFiles claim_env \<lparr>rp_owner = ''o'', rp_repo = ''r'', rp_revision = None\<rparr> ''main''
     [\<lparr>fl_path = ''agent.json'', fl_content = ''x''\<rparr>]"

theorem import_can_replace_any_agent:
  "case claimed_bundle of Inl _ \<Rightarrow> False | Inr (a, ks) \<Rightarrow>
     (let s = \<lparr>drafts = [], author_events = [], capability_registry = [], agent_registry = [registered_agent], skill_registry = []\<rparr> in
       map (\<lambda>r. (rg_id r, rg_definition r)) (agent_registry (fst (registerAuthoringAgent id (im_is_url claim_env) 5 s a)))
         = [(''agent.kyc.v1'', agent_registration_json a)])"
  by code_simp

section \<open>Example\<close>



end
