(* ===== verification/GatewayRoutes.thy ===== *)
theory GatewayRoutes
  imports Gateway ControlAuthoring Http
begin

text \<open>
  The management routes of apps/capability-gateway/src/app.ts: its status, the model profiles, the registry of
  capabilities and the probe of the provider. They are for a person at the control surface.
\<close>

record gateway_management =
  gm_verify :: jwt_verifier
  gm_workload :: resolver
  gm_env :: env
  gm_process_env :: env
  gm_secret :: string
  gm_profiles :: "json option"
  gm_sha :: "string \<Rightarrow> string"

record gateway_status =
  gst_openRouterConfigured :: bool
  gst_recorded :: bool
  gst_envelopeVerifier :: bool

record probe_report =
  pb_status :: string
  pb_credentialState :: string
  pb_message :: string

datatype management_reply =
    GwStatus gateway_status
  | GwProfiles "model_profile list"
  | GwCapabilities "registry_row list"
  | GwRegistered bool string
  | GwProbe probe_report

definition managed :: "gateway_management \<Rightarrow> headers \<Rightarrow> platform_action \<Rightarrow> string \<Rightarrow> 'a response \<Rightarrow> 'a response" where
  "managed G hs action kind' k = (case guard_require (gm_verify G) (DelegatedPrincipalResolver (gm_workload G)) hs action
       \<lparr>rs_kind = kind', rs_id = None, rs_tenantId = None\<rparr> of
     Inl f \<Rightarrow> auth_response ''gateway.internal_error'' f | Inr _ \<Rightarrow> k)"

definition gateway_status_of :: "gateway_management \<Rightarrow> gateway_status" where
  "gateway_status_of G = (let key = present (gm_env G) ''OPENROUTER_API_KEY'' in
     \<lparr>gst_openRouterConfigured = key, gst_recorded = (\<not> key), gst_envelopeVerifier = (gm_secret G \<noteq> [])\<rparr>)"

definition gateway_status_route :: "gateway_management \<Rightarrow> headers \<Rightarrow> management_reply response" where
  "gateway_status_route G hs = managed G hs CapabilityRead ''gateway'' (Reply 200 (GwStatus (gateway_status_of G)))"

definition model_profiles_route :: "gateway_management \<Rightarrow> headers \<Rightarrow> management_reply response" where
  "model_profiles_route G hs = managed G hs CapabilityRead ''model-profile'' (case loadModelProfiles (gm_profiles G) of
     Inl c \<Rightarrow> Failure 500 ''gateway.internal_error'' | Inr ps \<Rightarrow> Reply 200 (GwProfiles ps))"

definition capabilities_route :: "gateway_management \<Rightarrow> headers \<Rightarrow> authoring \<Rightarrow> management_reply response" where
  "capabilities_route G hs s = managed G hs CapabilityRead ''capability'' (case parsed_rows parse_capability_registration (listRegisteredCapabilities s) of
     Inl c \<Rightarrow> Failure 500 ''gateway.internal_error'' | Inr _ \<Rightarrow> Reply 200 (GwCapabilities (listRegisteredCapabilities s)))"

definition register_capability_route :: "gateway_management \<Rightarrow> time \<Rightarrow> headers \<Rightarrow> json \<Rightarrow> authoring \<Rightarrow> authoring \<times> management_reply response" where
  "register_capability_route G now hs body s =
     (case guard_require (gm_verify G) (DelegatedPrincipalResolver (gm_workload G)) hs CapabilityRegister
         \<lparr>rs_kind = ''capability'', rs_id = None, rs_tenantId = None\<rparr> of
       Inl f \<Rightarrow> (s, auth_response ''gateway.internal_error'' f)
     | Inr _ \<Rightarrow> (case parse_capability_registration body of None \<Rightarrow> (s, Failure 400 ''ZodError'')
       | Some c \<Rightarrow> (case registerCapability (gm_sha G) now s c of
           (s', Inl e) \<Rightarrow> (s', Failure 400 e)
         | (s', Inr (created, digest)) \<Rightarrow> (s', Reply (if created then 201 else 200) (GwRegistered created digest)))))"

definition probe_of :: "http_reply \<Rightarrow> nat \<times> probe_report" where
  "probe_of reply = (let failed = (\<lambda>c. (503, \<lparr>pb_status = ''Unavailable'', pb_credentialState = ''Configured'', pb_message = c\<rparr>)) in
     case reply of NetworkError c \<Rightarrow> failed c
     | HttpReply s _ \<Rightarrow> if ok_status s then (200, \<lparr>pb_status = ''Ready'', pb_credentialState = ''Configured'',
           pb_message = ''OpenRouter catalog and credential probe succeeded; credential value remained server-side.''\<rparr>)
         else failed (''openrouter.http_'' @ nat_text s))"

definition probe_route :: "gateway_management \<Rightarrow> headers \<Rightarrow> (http_request \<Rightarrow> http_reply) \<Rightarrow> management_reply response" where
  \<comment> \<open>the key is the process's, not the one of the options\<close>
  "probe_route G hs ask = managed G hs CapabilityRead ''provider-probe''
     (if \<not> present (gm_process_env G) ''OPENROUTER_API_KEY''
      then Reply 200 (GwProbe \<lparr>pb_status = ''Recorded'', pb_credentialState = ''Missing'',
        pb_message = ''OPENROUTER_API_KEY is not configured; deterministic recorded adapter remains available.''\<rparr>)
      else (case probe_of (ask \<lparr>rq_method = ''GET'', rq_url = ''https://openrouter.ai/api/v1/models'',
              rq_headers = [bearer (the (gm_process_env G ''OPENROUTER_API_KEY''))], rq_body = None\<rparr>) of
          (status, report) \<Rightarrow> Reply status (GwProbe report)))"

text \<open>Without a key the status says that model calls are answered from recordings, also where the
  environment denies that and every one of them fails.\<close>

theorem status_can_claim_recordings_that_are_denied:
  "let G = \<lparr>gm_verify = \<lambda>_ _. None, gm_workload = ServiceTokenPrincipalResolver [], gm_env = \<lambda>n. if n = ''MODEL_RECORDED_FALLBACK'' then Some ''deny'' else None,
       gm_process_env = \<lambda>_. None, gm_secret = ''s'', gm_profiles = None, gm_sha = id\<rparr> in
     gst_recorded (gateway_status_of G) \<and> recordedFallbackAllowed (gm_env G) = Inr False"
  by code_simp


text \<open>What a compiled plan may be bound to is decided by those who may register capabilities.\<close>

theorem registering_takes_the_role:
  assumes "fst (register_capability_route G now hs body s) \<noteq> s"
  obtains p role as where "resolve (gm_verify G) (DelegatedPrincipalResolver (gm_workload G)) hs = Inr p"
    and "role \<in> set (pr_roles p)" and "map_of ROLE_ACTIONS role = Some as" and "CapabilityRegister \<in> set as"
proof -
  obtain p where p: "guard_require (gm_verify G) (DelegatedPrincipalResolver (gm_workload G)) hs CapabilityRegister
      \<lparr>rs_kind = ''capability'', rs_id = None, rs_tenantId = None\<rparr> = Inr p"
    using assms unfolding register_capability_route_def by (auto split: sum.splits)
  show ?thesis
    using that guard_require_Inr [OF p] authorize_Inr(2) [OF guard_require_Inr(2) [OF p]] by blast
qed

end
