(* ===== verification/Spec2Isabelle.thy ===== *)
theory Spec2Isabelle
  imports JournalClaims AuthoringClaims CaseClaims EvidenceClaims ReviewClaims OutboxClaims AccessClaims GatewayClaims
    CaseApiClaims WorkerClaims RuntimeClaims DraftClaims LoweringClaims RunRouteClaims EdgeClaims CaseViewClaims
    RunViewClaims EdgeCallClaims TraceViewClaims AgentImportClaims GatewayRoutes
begin

text \<open>
  The services of ehfconcept, a control plane for harness plans: agents work through a compiled plan,
  node by node, on cases that end in a human decision.

  \<^bold>\<open>How the program hangs together.\<close> An author edits a draft in the control API, has it analysed, compiled
  by the pinned Rust compiler, evaluated, approved by somebody else and published as an admitted plan.
  A run of a plan is a row of the ledger. A dispatcher claims it under a lease and a fencing epoch, mints a
  runtime grant and invokes a runtime host. The runtime lowers the plan to a graph and runs its nodes. For
  each effect it exchanges the grant for an execution envelope of one node at the control API's broker and
  presents it to the capability gateway, which calls a model or a simulator under the plan's permission and
  the run's budget, or to the case service, which executes a business command on the hash-chained ledger
  of a case. What happened is journaled through the control API, which checks the live fence. An outbox
  relay publishes case events. The control surface is the edge users come through.

  \<^bold>\<open>Theories and code.\<close>

  Shared: Prelude (result type, strings, the SQL statements on lists of rows), Json, JsonText and PlanDigest
  (values, canonical text, digests), Contracts (packages/contracts/src/index.ts), IsoTime, Http (calls over
  the network as actions on a world).

  Run ledger, packages/persistence/src/index.ts and runtime-state.ts: RunStore (plans, runs, leases,
  cancellation), Journal (fenced writes, events, attempts, receipts, budget), Ledger (the same operations as
  one step function \<open>ledger_step\<close>, with the row relation \<open>row_step\<close>), RunClaims, JournalClaims.

  Cases, packages/case-store/src: CaseTables, CaseMutations and CaseDecisions (\<open>applyMutation\<close>), CaseStore
  (the exported functions), CaseEvidence (evidence, reads, ledger verification, outbox relay); CaseInvariant,
  CaseStatus, CaseProvenance, CaseClaims, EvidenceClaims, ReviewClaims, OutboxClaims. The service in front,
  apps/case-api/src: CaseApi, CaseApiClaims.

  Authority: Identity (packages/identity/src) with AccessClaims; ExecAuth (packages/execution-auth/src), Broker
  (the envelope broker and the runtime-state routes of apps/control-api/src) with BrokerClaims; Gateway
  (apps/capability-gateway/src/app.ts) and Adapters (packages/adapters/src) with GatewayClaims.

  Authoring: AuthoringStore with AuthoringClaims (the drafts and registries of packages/persistence),
  WorkflowGraph, Authoring, AuthoringCompile, AuthoringAgents (authoring.ts, harnessc.ts and
  authoring-agents.ts of apps/control-api/src), ControlAuthoring (its plan, registry and draft routes),
  GraphClaims, DraftClaims.

  Execution: Worker (apps/runtime-worker/src/worker.ts) and Provider (packages/runtime-provider/src) with
  WorkerClaims; RuntimeCore and RuntimeNode (packages/runtime-core/src, packages/runtime-state/src) with
  RuntimeClaims; Lowering (packages/runtime-langgraph/src) and RuntimeHost (apps/runtime-host/src) with
  LoweringClaims.

  Edges: ControlRuns (the run and receipt routes of apps/control-api/src/app.ts) with RunRouteClaims;
  AgentImport (agent-import.ts of apps/control-api/src and its route) with AgentImportClaims; GatewayRoutes
  (the management routes of the gateway, with their theorems). The control surface, apps/control-ui/src:
  Edge (proxy.ts and the calls of lib/runtime-service.ts) with EdgeClaims; of the same file CaseViews (cases)
  with CaseViewClaims, PlanViews and RunViews (plans, runs, the overview) with RunViewClaims, EdgeCalls (what
  changes something) with EdgeCallClaims; TraceView (the trace route of app/v1) with TraceViewClaims.

  \<^bold>\<open>How state and operations correspond.\<close> A table is the list of its rows, a database a record of tables. A
  function that runs in one transaction is one definition that returns the new database and its value, or
  the error and leaves the database; a function that runs its statements one by one has a state argument
  for each, or a function for what others do in between. \<open>now()\<close>, \<open>Date.now()\<close> and random identifiers are
  arguments. Errors are the left of a sum, HTTP answers the type \<open>response\<close>. Calls of other services are
  actions on an abstract world; where both sides are modelled, the world is the other side's database
  (RuntimeClaims). Contracts between parts are locales, each interpreted on the definitions that keep them:
  \<open>stepped\<close> (Prelude: what a step function preserves, along any sequence of steps), \<open>fenced_write\<close> and
  \<open>row_frame\<close> with its extensions (Ledger), \<open>quiet_command\<close> (CaseStatus, on the commands that leave the status
  alone), \<open>source_neutral\<close> (CaseProvenance) and \<open>fenced_journal\<close> (RuntimeClaims, on the HTTP and the
  PostgreSQL journal). What jose promises is the hypothesis \<open>jose_laws\<close> (ExecAuth).

  \<^bold>\<open>What the claims show.\<close> Runs: fencing, finality, gapless events, budgets, replay
  of paid calls, over any sequence of ledger commands. Cases: the hash chain and what its head commits
  to, the status machine, that only a human decides with an authorizing gate, provenance of facts.
  Authority: which principals and envelopes exist and what they buy. Authoring: the lifecycle as a
  refinement of an abstract machine, separation of duties, drafts that hold only verified plans of the
  pinned compiler under interference, acyclicity of graphs. Execution: a dispatcher writes only what the
  outcome of its own claim permits, wherever its connection breaks; journaling over HTTP refines the
  store, a superseded runtime starts no node, which plans can be lowered, what a lowered graph follows,
  what a host reports. Edges: that an import reads GitHub only, whose data a caller sees, that the lists
  and graphs a user sees are the ledger's, that a repeated start is one run. Theorems that no manifest
  entry names record where the code falls short of its intent.

  \<^bold>\<open>Bounds and fuel.\<close> No definition is fuelled: loops are structural recursion or functions with a measure.
  Integers of the program are doubles or PostgreSQL integers; the checks that reject what a double or a column
  cannot hold are in the definitions, and arithmetic stays within them. A number is the decimal it prints as,
  a string a list of code units below 256, a time a number of milliseconds.

  \<^bold>\<open>Not modelled.\<close> Rendering of the control surface (pages and components, whose state is React's), the
  constant texts of its system page and its routes that only pass a call on; the authoring templates; spans,
  logs and metrics (packages/telemetry), which no service reads; timers, connection pools, health routes
  and process start-up beyond the configuration checks; the Rust compiler (crates/), a process to this code;
  LangGraph's builder, engine and checkpoint savers, jose, the Azure credential library, the YAML parser and the
  OpenRouter SDK, which are parameters; numbers that print with an exponent; members inherited from
  prototypes; aliases of YAML documents.
\<close>

end
